(* ===== verification/Prelude.thy ===== *)
theory Prelude
  imports Complex_Main "HOL-Library.AList"
begin

text \<open>
  What every component of the model shares.

  \<^item> Python exceptions as values: \<open>py_exn\<close> carries the class, the message and the two links
    (\<open>__cause__\<close>, \<open>__context__\<close>) that the harness walks when it reports a failed tool call.
  \<^item> A computation that may raise is \<open>py_exn + 'a\<close> (\<open>Inl\<close> the exception); a computation that
    also mutates an object or the outside world is a function \<open>'s \<Rightarrow> (py_exn + 'a) \<times> 's\<close>, so
    that what was mutated before a raise stays mutated, as in Python.
  \<^item> JSON-like Python values (\<open>pyval\<close>), dictionaries as association lists in insertion order,
    and \<open>json.dumps\<close>.
  \<^item> The string methods the code calls. A string is a list of characters with code points
    below 256; the code itself never inspects a character above that range.
\<close>

named_theorems res_simps \<open>unfolding of the two exception monads\<close>
named_theorems paired_intros \<open>facts that carry the tool-exchange pairing through an operation\<close>

section \<open>Python values\<close>

text \<open>
  A JSON-like value. A float is given by its \<open>repr\<close>, the text \<open>json.dumps\<close> prints for it. None of
  these values has a \<open>to_dict\<close> method: the branches of the code that convert SDK model objects
  are not taken on them.
\<close>

datatype pyval =
    PNone
  | PBool bool
  | PInt int
  | PFloat string
  | PStr string
  | PList "pyval list"
  | PDict "(string \<times> pyval) list"

type_synonym pydict = "(string \<times> pyval) list"

section \<open>Exceptions\<close>

datatype exn_kind =
    ExcValueError
  | ExcTypeError
  | ExcKeyError
  | ExcRuntimeError
  | ExcUserFacingAgent string "pydict option"
  | ExcUserFacingTool string "pydict option"
  | ExcApplication "string option" bool
  | ExcActivity string string "string option"
  | ExcOther string
  | ExcBase string

text \<open>
  \<open>ExcOther\<close> is any other subclass of \<open>Exception\<close>, \<open>ExcBase\<close> a \<open>BaseException\<close> that is not an
  \<open>Exception\<close> (\<open>asyncio.CancelledError\<close>, \<open>KeyboardInterrupt\<close>), each with its class name.
  \<open>exn_str\<close> is the text the code reads from an exception: its \<open>message\<close> attribute when that is a
  string that is not empty (Temporal's errors), its \<open>str\<close> otherwise. \<open>exn_cause\<close> and
  \<open>exn_context\<close> are \<open>__cause__\<close> and \<open>__context__\<close>.
\<close>

datatype py_exn = PyExn (exn_kind: exn_kind) (exn_str: string)
  (exn_cause: "py_exn option") (exn_context: "py_exn option")

abbreviation value_error :: "string \<Rightarrow> py_exn" where
  "value_error msg \<equiv> PyExn ExcValueError msg None None"

abbreviation type_error :: "string \<Rightarrow> py_exn" where
  "type_error msg \<equiv> PyExn ExcTypeError msg None None"

abbreviation key_error :: "string \<Rightarrow> py_exn" where
  "key_error key \<equiv> PyExn ExcKeyError key None None"

section \<open>Computations that may raise\<close>

type_synonym 'a res = "py_exn + 'a"

definition res_bind :: "'a res \<Rightarrow> ('a \<Rightarrow> 'b res) \<Rightarrow> 'b res" where
  "res_bind m f = (case m of Inl e \<Rightarrow> Inl e | Inr x \<Rightarrow> f x)"

lemma res_bind_simps [simp, res_simps]:
  "res_bind (Inl e) f = Inl e"
  "res_bind (Inr x) f = f x"
  by (simp_all add: res_bind_def)

lemma res_bind_eq_Inr: "res_bind m f = Inr y \<longleftrightarrow> (\<exists>x. m = Inr x \<and> f x = Inr y)"
  by (cases m) simp_all

lemma res_bind_eq_Inl: "res_bind m f = Inl e \<longleftrightarrow> m = Inl e \<or> (\<exists>x. m = Inr x \<and> f x = Inl e)"
  by (cases m) simp_all

text \<open>A list comprehension whose element expression may raise: the first exception wins.\<close>

primrec res_map :: "('a \<Rightarrow> 'b res) \<Rightarrow> 'a list \<Rightarrow> 'b list res" where
  "res_map f [] = Inr []"
| "res_map f (x # xs) = res_bind (f x) (\<lambda>y. res_bind (res_map f xs) (\<lambda>ys. Inr (y # ys)))"

lemma res_map_Inr_map: "\<forall>x \<in> set xs. f x = Inr (g x) \<Longrightarrow> res_map f xs = Inr (map g xs)"
  by (induction xs) simp_all

lemma res_map_length: "res_map f xs = Inr ys \<Longrightarrow> length ys = length xs"
  by (induction xs arbitrary: ys) (auto simp: res_bind_eq_Inr)

lemma res_map_Inr_list_all2: "res_map f xs = Inr ys \<Longrightarrow> list_all2 (\<lambda>x y. f x = Inr y) xs ys"
  by (induction xs arbitrary: ys) (auto simp: res_bind_eq_Inr)

lemma list_all2_res_map: "list_all2 (\<lambda>x y. f x = Inr y) xs ys \<Longrightarrow> res_map f xs = Inr ys"
  by (induction rule: list_all2_induct) simp_all

lemma res_map_append:
  "res_map f (xs @ ys) = res_bind (res_map f xs) (\<lambda>us. res_bind (res_map f ys) (\<lambda>vs. Inr (us @ vs)))"
proof (induction xs)
  case Nil
  show ?case by (cases "res_map f ys") simp_all
next
  case (Cons x xs)
  then show ?case
    by (cases "f x"; cases "res_map f xs"; cases "res_map f ys") simp_all
qed

section \<open>Computations that may raise and mutate a state\<close>

type_synonym ('s, 'a) op = "'s \<Rightarrow> 'a res \<times> 's"

definition op_return :: "'a \<Rightarrow> ('s, 'a) op" where
  "op_return x = (\<lambda>s. (Inr x, s))"

definition op_raise :: "py_exn \<Rightarrow> ('s, 'a) op" where
  "op_raise e = (\<lambda>s. (Inl e, s))"

definition op_lift :: "'a res \<Rightarrow> ('s, 'a) op" where
  "op_lift r = (\<lambda>s. (r, s))"

definition op_bind :: "('s, 'a) op \<Rightarrow> ('a \<Rightarrow> ('s, 'b) op) \<Rightarrow> ('s, 'b) op" where
  "op_bind m f = (\<lambda>s. case m s of (Inl e, s') \<Rightarrow> (Inl e, s') | (Inr x, s') \<Rightarrow> f x s')"

lemma op_run [simp, res_simps]:
  "op_return x s = (Inr x, s)"
  "op_raise e s = (Inl e, s)"
  "op_lift r s = (r, s)"
  by (simp_all add: op_return_def op_raise_def op_lift_def)

lemma op_bind_run [res_simps]:
  "op_bind m f s = (case m s of (Inl e, s') \<Rightarrow> (Inl e, s') | (Inr x, s') \<Rightarrow> f x s')"
  by (simp add: op_bind_def)

lemma op_bind_Inr: "m s = (Inr x, s') \<Longrightarrow> op_bind m f s = f x s'"
  by (simp add: op_bind_def)

lemma op_bind_Inl: "m s = (Inl e, s') \<Longrightarrow> op_bind m f s = (Inl e, s')"
  by (simp add: op_bind_def)

text \<open>Reading the state, a read or an update that may raise, and an exception handler.\<close>

definition op_get :: "('s \<Rightarrow> 'a) \<Rightarrow> ('s, 'a) op" where
  "op_get f = (\<lambda>s. (Inr (f s), s))"

definition op_check :: "('s \<Rightarrow> 'a res) \<Rightarrow> ('s, 'a) op" where
  "op_check f = (\<lambda>s. (f s, s))"

definition op_modify :: "('s \<Rightarrow> 's) \<Rightarrow> ('s, unit) op" where
  "op_modify f = (\<lambda>s. (Inr (), f s))"

definition op_update :: "('s \<Rightarrow> 's res) \<Rightarrow> ('s, unit) op" where
  "op_update f = (\<lambda>s. case f s of Inl e \<Rightarrow> (Inl e, s) | Inr s' \<Rightarrow> (Inr (), s'))"

definition op_catch :: "('s, 'a) op \<Rightarrow> (py_exn \<Rightarrow> ('s, 'a) op) \<Rightarrow> ('s, 'a) op" where
  "op_catch m h = (\<lambda>s. case m s of (Inl e, s') \<Rightarrow> h e s' | (Inr x, s') \<Rightarrow> (Inr x, s'))"

lemma op_state_run [res_simps]:
  "op_get f s = (Inr (f s), s)"
  "op_check g s = (g s, s)"
  "op_modify h s = (Inr (), h s)"
  "op_update k s = (case k s of Inl e \<Rightarrow> (Inl e, s) | Inr s' \<Rightarrow> (Inr (), s'))"
  "op_catch m c s = (case m s of (Inl e, s') \<Rightarrow> c e s' | (Inr x, s') \<Rightarrow> (Inr x, s'))"
  by (simp_all add: op_get_def op_check_def op_modify_def op_update_def op_catch_def)

text \<open>
  An invariant of the state that a computation keeps whether it returns or raises. The
  registries and the workflow states carry their invariants through sequences of operations
  with these rules.
\<close>

definition keeps :: "('s \<Rightarrow> bool) \<Rightarrow> ('s, 'a) op \<Rightarrow> bool" where
  "keeps I m \<longleftrightarrow> (\<forall>s. I s \<longrightarrow> I (snd (m s)))"

lemma keepsI: "(\<And>s. I s \<Longrightarrow> I (snd (m s))) \<Longrightarrow> keeps I m"
  by (simp add: keeps_def)

lemma keepsD: "keeps I m \<Longrightarrow> I s \<Longrightarrow> I (snd (m s))"
  by (simp add: keeps_def)

lemma keeps_return [intro, simp]: "keeps I (op_return x)"
  and keeps_raise [intro, simp]: "keeps I (op_raise e)"
  and keeps_lift [intro, simp]: "keeps I (op_lift r)"
  by (simp_all add: keeps_def)

lemma keeps_bind [intro]:
  assumes "keeps I m" and "\<And>x. keeps I (f x)"
  shows "keeps I (op_bind m f)"
proof (rule keepsI)
  fix s
  assume "I s"
  with assms(1) have m: "I (snd (m s))" by (rule keepsD)
  obtain r s' where ms: "m s = (r, s')" by fastforce
  with m have "I s'" by simp
  then show "I (snd (op_bind m f s))"
    using keepsD [OF assms(2)] ms by (cases r) (simp_all add: op_bind_def)
qed

lemma keeps_read [intro, simp]: "keeps I (op_get f)"
  and keeps_check [intro, simp]: "keeps I (op_check g)"
  by (simp_all add: keeps_def op_get_def op_check_def)

lemma keeps_modify: "(\<And>s. I s \<Longrightarrow> I (f s)) \<Longrightarrow> keeps I (op_modify f)"
  by (simp add: keeps_def op_modify_def)

lemma keeps_update: "(\<And>s s'. I s \<Longrightarrow> f s = Inr s' \<Longrightarrow> I s') \<Longrightarrow> keeps I (op_update f)"
  by (auto simp: keeps_def op_update_def split: sum.split)

lemma keeps_catch [intro]:
  assumes "keeps I m" and "\<And>e. keeps I (h e)"
  shows "keeps I (op_catch m h)"
proof (rule keepsI)
  fix s
  assume "I s"
  with assms(1) have m: "I (snd (m s))" by (rule keepsD)
  obtain r s' where ms: "m s = (r, s')" by fastforce
  with m show "I (snd (op_catch m h s))"
    using keepsD [OF assms(2)] by (cases r) (simp_all add: op_catch_def)
qed

text \<open>What holds of every value a computation returns, in the state it returns it in.\<close>

definition returns :: "('a \<Rightarrow> 's \<Rightarrow> bool) \<Rightarrow> ('s, 'a) op \<Rightarrow> bool" where
  "returns P m \<longleftrightarrow> (\<forall>s x s'. m s = (Inr x, s') \<longrightarrow> P x s')"

lemma returnsD: "returns P m \<Longrightarrow> m s = (Inr x, s') \<Longrightarrow> P x s'"
  by (simp add: returns_def)

lemma returns_bind: "(\<And>x. returns P (f x)) \<Longrightarrow> returns P (op_bind m f)"
  by (auto simp: returns_def op_bind_def split: prod.splits sum.splits)

lemma returns_catch: "returns P m \<Longrightarrow> (\<And>e. returns P (h e)) \<Longrightarrow> returns P (op_catch m h)"
  by (auto simp: returns_def op_catch_def split: prod.splits sum.splits)

lemma returns_raise [intro, simp]: "returns P (op_raise e)"
  by (simp add: returns_def)

section \<open>Dictionaries\<close>

abbreviation dict_get :: "pydict \<Rightarrow> string \<Rightarrow> pyval option" where
  "dict_get d k \<equiv> map_of d k"

abbreviation dict_set :: "string \<Rightarrow> pyval \<Rightarrow> pydict \<Rightarrow> pydict" where
  "dict_set k v d \<equiv> AList.update k v d"

text \<open>\<open>d.get(k)\<close>, with Python's \<open>None\<close> for a missing key.\<close>

definition dict_get_none :: "pydict \<Rightarrow> string \<Rightarrow> pyval" where
  "dict_get_none d k = (case dict_get d k of None \<Rightarrow> PNone | Some v \<Rightarrow> v)"

text \<open>\<open>d[k]\<close>: a missing key raises \<open>KeyError\<close>.\<close>

definition dict_index :: "pydict \<Rightarrow> string \<Rightarrow> pyval res" where
  "dict_index d k = (case dict_get d k of None \<Rightarrow> Inl (key_error k) | Some v \<Rightarrow> Inr v)"

text \<open>\<open>d.update(other)\<close>.\<close>

definition dict_update :: "pydict \<Rightarrow> pydict \<Rightarrow> pydict" where
  "dict_update d other = fold (\<lambda>(k, v). dict_set k v) other d"

text \<open>\<open>d.setdefault(k, v)\<close>, as the updated dictionary.\<close>

definition dict_setdefault :: "string \<Rightarrow> pyval \<Rightarrow> pydict \<Rightarrow> pydict" where
  "dict_setdefault k v d = (case dict_get d k of None \<Rightarrow> d @ [(k, v)] | Some _ \<Rightarrow> d)"

lemma dict_get_set: "dict_get (dict_set k v d) k' = (if k' = k then Some v else dict_get d k')"
  by (simp add: update_conv')

fun truthy :: "pyval \<Rightarrow> bool" where
  "truthy PNone = False"
| "truthy (PBool b) = b"
| "truthy (PInt n) = (n \<noteq> 0)"
| "truthy (PFloat r) = (r \<noteq> ''0.0'' \<and> r \<noteq> ''-0.0'')"
| "truthy (PStr s) = (s \<noteq> [])"
| "truthy (PList xs) = (xs \<noteq> [])"
| "truthy (PDict d) = (d \<noteq> [])"

text \<open>The Python expression \<open>a or b\<close> on values.\<close>

definition py_or :: "pyval \<Rightarrow> pyval \<Rightarrow> pyval" where
  "py_or a b = (if truthy a then a else b)"

fun is_str :: "pyval \<Rightarrow> bool" where
  "is_str (PStr _) = True"
| "is_str _ = False"

section \<open>Strings\<close>

definition code :: "char \<Rightarrow> nat" where
  "code c = of_char c"

lemma code_less: "code c < 256"
  by (simp add: code_def)

definition digit :: "nat \<Rightarrow> char" where
  "digit n = char_of (48 + n)"

fun nat_str :: "nat \<Rightarrow> string" where
  "nat_str n = (if n < 10 then [digit n] else nat_str (n div 10) @ [digit (n mod 10)])"

declare nat_str.simps [simp del]

definition int_str :: "int \<Rightarrow> string" where
  "int_str i = (if i < 0 then CHR ''-'' # nat_str (nat (- i)) else nat_str (nat i))"

lemma nat_str_nonempty: "nat_str n \<noteq> []"
  by (subst nat_str.simps) simp

text \<open>A number below \<open>10 ^ k\<close> prints with at most \<open>k\<close> digits.\<close>

lemma nat_str_length: "n < 10 ^ k \<Longrightarrow> 0 < k \<Longrightarrow> length (nat_str n) \<le> k"
proof (induction n arbitrary: k rule: nat_str.induct)
  case (1 n)
  show ?case
  proof (cases "n < 10")
    case True
    with "1.prems" show ?thesis by (simp add: nat_str.simps [of n])
  next
    case False
    then obtain k' where k: "k = Suc k'"
      using "1.prems" by (cases k) auto
    with False "1.prems" have "0 < k'" by (cases k') auto
    moreover have "n div 10 < 10 ^ k'" using "1.prems" k by auto
    ultimately have "length (nat_str (n div 10)) \<le> k'" using "1.IH" False by simp
    with False k show ?thesis by (simp add: nat_str.simps [of n])
  qed
qed

definition py_space :: "char \<Rightarrow> bool" where
  "py_space c = (code c \<in> {9, 10, 11, 12, 13, 28, 29, 30, 31, 32, 133, 160})"

definition py_lstrip :: "string \<Rightarrow> string" where
  "py_lstrip s = dropWhile py_space s"

definition py_strip :: "string \<Rightarrow> string" where
  "py_strip s = rev (dropWhile py_space (rev (py_lstrip s)))"

definition py_startswith :: "string \<Rightarrow> string \<Rightarrow> bool" where
  "py_startswith s p = (take (length p) s = p)"

text \<open>The Python expression \<open>sub in s\<close>.\<close>

fun py_contains :: "string \<Rightarrow> string \<Rightarrow> bool" where
  "py_contains sub [] = (sub = [])"
| "py_contains sub (c # s) = (py_startswith (c # s) sub \<or> py_contains sub s)"

fun py_join :: "string \<Rightarrow> string list \<Rightarrow> string" where
  "py_join sep [] = []"
| "py_join sep [s] = s"
| "py_join sep (s # t # ts) = s @ sep @ py_join sep (t # ts)"

lemma py_join_Cons: "ss \<noteq> [] \<Longrightarrow> py_join sep (s # ss) = s @ sep @ py_join sep ss"
  by (cases ss) simp_all

definition py_lower_char :: "char \<Rightarrow> char" where
  "py_lower_char c =
     (if 65 \<le> code c \<and> code c \<le> 90 \<or> 192 \<le> code c \<and> code c \<le> 222 \<and> code c \<noteq> 215
      then char_of (code c + 32) else c)"

definition py_lower :: "string \<Rightarrow> string" where
  "py_lower s = map py_lower_char s"

abbreviation newline :: string where
  "newline \<equiv> [CHR 0x0A]"

section \<open>str() and repr()\<close>

definition hex_digit :: "nat \<Rightarrow> char" where
  "hex_digit n = (if n < 10 then char_of (48 + n) else char_of (87 + n))"

definition py_printable :: "char \<Rightarrow> bool" where
  "py_printable c = (32 \<le> code c \<and> code c \<le> 126 \<or> 161 \<le> code c \<and> code c \<noteq> 173)"

definition repr_char :: "char \<Rightarrow> char \<Rightarrow> string" where
  "repr_char q c =
     (if c = q \<or> c = CHR 0x5C then [CHR 0x5C, c]
      else if code c = 10 then [CHR 0x5C, CHR ''n'']
      else if code c = 13 then [CHR 0x5C, CHR ''r'']
      else if code c = 9 then [CHR 0x5C, CHR ''t'']
      else if py_printable c then [c]
      else [CHR 0x5C, CHR ''x'', hex_digit (code c div 16), hex_digit (code c mod 16)])"

definition repr_string :: "string \<Rightarrow> string" where
  "repr_string s =
     (let q = (if CHR 0x27 \<in> set s \<and> CHR 0x22 \<notin> set s then CHR 0x22 else CHR 0x27)
      in q # concat (map (repr_char q) s) @ [q])"

fun py_repr :: "pyval \<Rightarrow> string" where
  "py_repr PNone = ''None''"
| "py_repr (PBool b) = (if b then ''True'' else ''False'')"
| "py_repr (PInt n) = int_str n"
| "py_repr (PFloat r) = r"
| "py_repr (PStr s) = repr_string s"
| "py_repr (PList xs) = ''['' @ py_join '', '' (map py_repr xs) @ '']''"
| "py_repr (PDict d) =
     ''{'' @ py_join '', '' (map (\<lambda>(k, v). repr_string k @ '': '' @ py_repr v) d) @ ''}''"

definition py_str :: "pyval \<Rightarrow> string" where
  "py_str v = (case v of PStr s \<Rightarrow> s | _ \<Rightarrow> py_repr v)"

lemma py_str_PStr [simp]: "py_str (PStr s) = s"
  by (simp add: py_str_def)

section \<open>json.dumps\<close>

text \<open>The escape of one character, with the default \<open>ensure_ascii=True\<close>.\<close>

definition json_escape_char :: "char \<Rightarrow> string" where
  "json_escape_char c =
     (if c = CHR 0x22 then [CHR 0x5C, CHR 0x22]
      else if c = CHR 0x5C then [CHR 0x5C, CHR 0x5C]
      else if code c = 10 then [CHR 0x5C, CHR ''n'']
      else if code c = 13 then [CHR 0x5C, CHR ''r'']
      else if code c = 9 then [CHR 0x5C, CHR ''t'']
      else if code c = 12 then [CHR 0x5C, CHR ''f'']
      else if code c = 8 then [CHR 0x5C, CHR ''b'']
      else if 32 \<le> code c \<and> code c \<le> 126 then [c]
      else [CHR 0x5C, CHR ''u'', CHR ''0'', CHR ''0'',
            hex_digit (code c div 16), hex_digit (code c mod 16)])"

definition json_string :: "string \<Rightarrow> string" where
  "json_string s = CHR 0x22 # concat (map json_escape_char s) @ [CHR 0x22]"

fun json_dumps_with :: "string \<Rightarrow> string \<Rightarrow> pyval \<Rightarrow> string" where
  "json_dumps_with isep ksep PNone = ''null''"
| "json_dumps_with isep ksep (PBool b) = (if b then ''true'' else ''false'')"
| "json_dumps_with isep ksep (PInt n) = int_str n"
| "json_dumps_with isep ksep (PFloat r) = r"
| "json_dumps_with isep ksep (PStr s) = json_string s"
| "json_dumps_with isep ksep (PList xs) =
     ''['' @ py_join isep (map (json_dumps_with isep ksep) xs) @ '']''"
| "json_dumps_with isep ksep (PDict d) =
     ''{'' @ py_join isep (map (\<lambda>(k, v). json_string k @ ksep @ json_dumps_with isep ksep v) d) @ ''}''"

text \<open>\<open>json.dumps(value)\<close> and \<open>json.dumps(value, separators=(",", ":"))\<close>.\<close>

definition json_dumps :: "pyval \<Rightarrow> string" where
  "json_dumps v = json_dumps_with '', '' '': '' v"

definition json_dumps_compact :: "pyval \<Rightarrow> string" where
  "json_dumps_compact v = json_dumps_with '','' '':'' v"

lemma json_escape_char_length: "1 \<le> length (json_escape_char c)"
  by (simp add: json_escape_char_def)

lemma json_string_length: "length s + 2 \<le> length (json_string s)"
proof -
  have "length s \<le> length (concat (map json_escape_char s))"
  proof (induction s)
    case (Cons c s)
    then show ?case using json_escape_char_length [of c] by simp
  qed simp
  then show ?thesis by (simp add: json_string_def)
qed

end
