(* ===== verification/Activities.thy ===== *)
theory Activities
  imports Prelude
begin

text \<open>
  \<open>agent_harness/activity_options.py\<close>, \<open>workflow_activities.py\<close> and \<open>activity_router.py\<close>: how a tool
  or a guard schedules work outside the workflow. Durations are rational seconds; the values of
  the Temporal SDK that the code only passes on (retry policies, cancellation types, versioning
  intents, priorities) are opaque \<open>sdk_value\<close>s.
\<close>

section \<open>Options\<close>

datatype sdk_value = SdkValue string

type_synonym seconds = rat

record activity_options =
  ao_task_queue :: "string option"
  ao_schedule_to_close_timeout :: "seconds option"
  ao_schedule_to_start_timeout :: "seconds option"
  ao_start_to_close_timeout :: "seconds option"
  ao_heartbeat_timeout :: "seconds option"
  ao_retry_policy :: "sdk_value option"
  ao_cancellation_type :: "sdk_value option"
  ao_versioning_intent :: "sdk_value option"
  ao_priority :: "sdk_value option"

definition ActivityOptions :: activity_options where
  "ActivityOptions = \<lparr>ao_task_queue = None, ao_schedule_to_close_timeout = None,
     ao_schedule_to_start_timeout = None, ao_start_to_close_timeout = None,
     ao_heartbeat_timeout = None, ao_retry_policy = None, ao_cancellation_type = None,
     ao_versioning_intent = None, ao_priority = None\<rparr>"

definition DEFAULT_ACTIVITY_OPTIONS :: activity_options where
  "DEFAULT_ACTIVITY_OPTIONS = ActivityOptions\<lparr>ao_start_to_close_timeout := Some 300\<rparr>"

text \<open>\<open>self.f if f is None else f\<close>\<close>

definition overridden :: "'a option \<Rightarrow> 'a option \<Rightarrow> 'a option" where
  "overridden own given = (case given of None \<Rightarrow> own | Some v \<Rightarrow> Some v)"

text \<open>\<open>with_overrides\<close>; its keyword arguments, all \<open>None\<close> by default, are an options record.\<close>

definition with_overrides :: "activity_options \<Rightarrow> activity_options \<Rightarrow> activity_options" where
  "with_overrides self kw =
     \<lparr>ao_task_queue = overridden (ao_task_queue self) (ao_task_queue kw),
      ao_schedule_to_close_timeout =
        overridden (ao_schedule_to_close_timeout self) (ao_schedule_to_close_timeout kw),
      ao_schedule_to_start_timeout =
        overridden (ao_schedule_to_start_timeout self) (ao_schedule_to_start_timeout kw),
      ao_start_to_close_timeout =
        overridden (ao_start_to_close_timeout self) (ao_start_to_close_timeout kw),
      ao_heartbeat_timeout = overridden (ao_heartbeat_timeout self) (ao_heartbeat_timeout kw),
      ao_retry_policy = overridden (ao_retry_policy self) (ao_retry_policy kw),
      ao_cancellation_type = overridden (ao_cancellation_type self) (ao_cancellation_type kw),
      ao_versioning_intent = overridden (ao_versioning_intent self) (ao_versioning_intent kw),
      ao_priority = overridden (ao_priority self) (ao_priority kw)\<rparr>"

datatype option_value = QueueName string | Duration seconds | Sdk sdk_value | ActivityId string

type_synonym activity_kwargs = "(string \<times> option_value) list"

definition to_execute_activity_kwargs :: "activity_options \<Rightarrow> activity_kwargs" where
  "to_execute_activity_kwargs self = List.map_filter (\<lambda>(name, value). map_option (Pair name) value)
     [(''task_queue'', map_option QueueName (ao_task_queue self)),
      (''schedule_to_close_timeout'', map_option Duration (ao_schedule_to_close_timeout self)),
      (''schedule_to_start_timeout'', map_option Duration (ao_schedule_to_start_timeout self)),
      (''start_to_close_timeout'', map_option Duration (ao_start_to_close_timeout self)),
      (''heartbeat_timeout'', map_option Duration (ao_heartbeat_timeout self)),
      (''retry_policy'', map_option Sdk (ao_retry_policy self)),
      (''cancellation_type'', map_option Sdk (ao_cancellation_type self)),
      (''versioning_intent'', map_option Sdk (ao_versioning_intent self)),
      (''priority'', map_option Sdk (ao_priority self))]"

text \<open>Passing a dictionary as keyword arguments: each parameter takes the value of its name.\<close>

definition queue_argument :: "activity_kwargs \<Rightarrow> string \<Rightarrow> string option" where
  "queue_argument kw name = (case map_of kw name of Some (QueueName s) \<Rightarrow> Some s | _ \<Rightarrow> None)"

definition duration_argument :: "activity_kwargs \<Rightarrow> string \<Rightarrow> seconds option" where
  "duration_argument kw name = (case map_of kw name of Some (Duration d) \<Rightarrow> Some d | _ \<Rightarrow> None)"

definition sdk_argument :: "activity_kwargs \<Rightarrow> string \<Rightarrow> sdk_value option" where
  "sdk_argument kw name = (case map_of kw name of Some (Sdk v) \<Rightarrow> Some v | _ \<Rightarrow> None)"

definition keyword_overrides :: "activity_kwargs \<Rightarrow> activity_options" where
  "keyword_overrides kw =
     \<lparr>ao_task_queue = queue_argument kw ''task_queue'',
      ao_schedule_to_close_timeout = duration_argument kw ''schedule_to_close_timeout'',
      ao_schedule_to_start_timeout = duration_argument kw ''schedule_to_start_timeout'',
      ao_start_to_close_timeout = duration_argument kw ''start_to_close_timeout'',
      ao_heartbeat_timeout = duration_argument kw ''heartbeat_timeout'',
      ao_retry_policy = sdk_argument kw ''retry_policy'',
      ao_cancellation_type = sdk_argument kw ''cancellation_type'',
      ao_versioning_intent = sdk_argument kw ''versioning_intent'',
      ao_priority = sdk_argument kw ''priority''\<rparr>"

definition activity_options_with_overrides ::
  "activity_options \<Rightarrow> activity_options option \<Rightarrow> activity_options \<Rightarrow> activity_options" where
  "activity_options_with_overrides defaults options kw =
     (let opts = (case options of
                    None \<Rightarrow> defaults
                  | Some own \<Rightarrow> with_overrides defaults (keyword_overrides (to_execute_activity_kwargs own)))
      in with_overrides opts kw)"

section \<open>Scheduling from the workflow\<close>

text \<open>\<open>record_routed_activity_call\<close>: the new activity count and the unstepped flag.\<close>

definition record_routed_activity_call :: "string \<Rightarrow> string option \<Rightarrow> nat \<Rightarrow> bool \<Rightarrow> (nat \<times> bool) res" where
  "record_routed_activity_call owner step activity_count used_unstepped_activity =
     (if step = None \<and> activity_count > 0
      then Inl (value_error (owner @ '' called multiple activities; pass step=...''))
      else if step \<noteq> None \<and> used_unstepped_activity
      then Inl (value_error (owner @ '' mixed an unstepped activity with stepped activities''))
      else Inr (activity_count + 1, if step = None then True else used_unstepped_activity))"

text \<open>What reaches \<open>workflow.execute_activity\<close>.\<close>

record 'q activity_call =
  ac_name :: string
  ac_request :: 'q
  ac_summary :: string
  ac_kwargs :: activity_kwargs

definition execute_routed_activity ::
  "string \<Rightarrow> 'q \<Rightarrow> string \<Rightarrow> string option \<Rightarrow> activity_options \<Rightarrow> activity_options option
   \<Rightarrow> activity_options \<Rightarrow> string option \<Rightarrow> 'q activity_call" where
  "execute_routed_activity activity_name request summary_base step defaults options kw activity_id =
     (let summary = (case step of None \<Rightarrow> summary_base | Some s \<Rightarrow> summary_base @ '':'' @ s);
          options = activity_options_with_overrides defaults options kw;
          activity_kwargs = to_execute_activity_kwargs options;
          activity_kwargs = (case activity_id of
                               None \<Rightarrow> activity_kwargs
                             | Some i \<Rightarrow> AList.update ''activity_id'' (ActivityId i) activity_kwargs)
      in \<lparr>ac_name = activity_name, ac_request = request, ac_summary = summary, ac_kwargs = activity_kwargs\<rparr>)"

section \<open>Function references\<close>

text \<open>
  \<open>function_ref\<close> on the two attributes it reads from the function; \<open>fn\<close> is the text the
  f-string shows for the function.
\<close>

definition function_ref :: "string option \<Rightarrow> string option \<Rightarrow> string \<Rightarrow> string res" where
  "function_ref module_name qualname fn =
     (case (module_name, qualname) of
        (Some m, Some q) \<Rightarrow>
          (if m = [] \<or> q = [] \<or> py_contains ''<locals>'' q
           then Inl (value_error (''Activity function '' @ fn @ '' must be an importable module-level function''))
           else Inr (m @ '':'' @ q))
      | _ \<Rightarrow> Inl (value_error (''Activity function '' @ fn @ '' must be an importable module-level function'')))"

text \<open>\<open>s.partition(c)\<close> and \<open>s.split(c)\<close> for a one-character separator.\<close>

fun py_partition :: "char \<Rightarrow> string \<Rightarrow> string \<times> string \<times> string" where
  "py_partition c [] = ([], [], [])"
| "py_partition c (x # xs) =
     (if x = c then ([], [c], xs)
      else (case py_partition c xs of (a, s, b) \<Rightarrow> (x # a, s, b)))"

fun py_split :: "char \<Rightarrow> string \<Rightarrow> string list" where
  "py_split c [] = [[]]"
| "py_split c (x # xs) =
     (if x = c then [] # py_split c xs
      else (case py_split c xs of [] \<Rightarrow> [[x]] | p # ps \<Rightarrow> (x # p) # ps))"

fun get_path :: "('o \<Rightarrow> string \<Rightarrow> 'o res) \<Rightarrow> 'o \<Rightarrow> string list \<Rightarrow> 'o res" where
  "get_path get_attr obj [] = Inr obj"
| "get_path get_attr obj (attr # attrs) = res_bind (get_attr obj attr) (\<lambda>obj. get_path get_attr obj attrs)"

definition is_lookup_error :: "py_exn \<Rightarrow> bool" where
  "is_lookup_error e = (exn_kind e = ExcOther ''ImportError'' \<or> exn_kind e = ExcOther ''ModuleNotFoundError''
     \<or> exn_kind e = ExcOther ''AttributeError'')"

text \<open>
  \<open>resolve_function_ref\<close>; importing a module, reading an attribute and \<open>callable\<close> are the
  interpreter's. \<open>except (ImportError, AttributeError)\<close> also catches the subclass
  \<open>ModuleNotFoundError\<close>.
\<close>

definition resolve_function_ref ::
  "(string \<Rightarrow> 'o res) \<Rightarrow> ('o \<Rightarrow> string \<Rightarrow> 'o res) \<Rightarrow> ('o \<Rightarrow> bool) \<Rightarrow> string \<Rightarrow> 'o res" where
  "resolve_function_ref import_module get_attr callable ref =
     (case py_partition (CHR '':'') ref of
        (module_name, separator, qualname) \<Rightarrow>
          (if separator = [] \<or> module_name = [] \<or> qualname = []
           then Inl (PyExn (ExcApplication (Some ''InvalidToolActivityFunctionRef'') True)
             (''Invalid tool activity function reference: '' @ ref) None None)
           else
             (case res_bind (import_module module_name) (\<lambda>obj. get_path get_attr obj (py_split (CHR ''.'') qualname)) of
                Inl e \<Rightarrow>
                  (if is_lookup_error e
                   then Inl (PyExn (ExcApplication (Some ''UnknownToolActivityFunction'') True)
                     (''Unable to resolve tool activity function: '' @ ref) (Some e) (Some e))
                   else Inl e)
              | Inr obj \<Rightarrow>
                  (if \<not> callable obj
                   then Inl (PyExn (ExcApplication (Some ''InvalidToolActivityFunctionRef'') True)
                     (''Tool activity function reference is not callable: '' @ ref) None None)
                   else Inr obj))))"

section \<open>Heartbeats\<close>

definition auto_heartbeat_interval :: "seconds \<Rightarrow> seconds option" where
  "auto_heartbeat_interval timeout = (if timeout \<le> 0 then None else Some (max 1 (min 30 (timeout / 2))))"

definition manual_heartbeat_min_interval :: "seconds option \<Rightarrow> seconds" where
  "manual_heartbeat_min_interval timeout =
     (case timeout of
        None \<Rightarrow> 0
      | Some t \<Rightarrow> if t \<le> 0 then 0 else max 1 (min 5 (t / 2)))"

text \<open>The mutable part of a \<open>RoutedActivityContext\<close> and what it fixes when it is built.\<close>

record activity_context =
  rc_heartbeat_timeout :: "seconds option"
  rc_min_interval :: seconds
  rc_last_sent_at :: "seconds option"
  rc_latest_details :: pyval

definition RoutedActivityContext :: "seconds option \<Rightarrow> activity_context" where
  "RoutedActivityContext heartbeat_timeout =
     \<lparr>rc_heartbeat_timeout = heartbeat_timeout,
      rc_min_interval = manual_heartbeat_min_interval heartbeat_timeout,
      rc_last_sent_at = None, rc_latest_details = PNone\<rparr>"

text \<open>
  \<open>heartbeat\<close>: whether one was sent, and the context afterwards. The clock is read once before
  the decision (\<open>now\<close>) and once after sending (\<open>sent\<close>).
\<close>

definition heartbeat :: "pyval \<Rightarrow> bool \<Rightarrow> seconds \<Rightarrow> seconds \<Rightarrow> activity_context \<Rightarrow> bool \<times> activity_context" where
  "heartbeat details force now sent ctx =
     (let ctx = ctx\<lparr>rc_latest_details := details\<rparr> in
      if rc_heartbeat_timeout ctx = None then (False, ctx)
      else if \<not> force \<and> (case rc_last_sent_at ctx of
                            None \<Rightarrow> False
                          | Some previous \<Rightarrow> now - previous < rc_min_interval ctx)
      then (False, ctx)
      else (True, ctx\<lparr>rc_last_sent_at := Some sent\<rparr>))"

definition heartbeat_source :: "string \<Rightarrow> string" where
  "heartbeat_source route_kind =
     (if route_kind = ''tool'' then ''agent_harness.tool_activity''
      else if route_kind = ''guard'' then ''agent_harness.guard_activity''
      else ''agent_harness.routed_activity'')"

text \<open>One round of \<open>_auto_heartbeat_loop\<close> after its sleep, when sending does not fail.\<close>

definition auto_heartbeat_round :: "seconds \<Rightarrow> seconds \<Rightarrow> seconds \<Rightarrow> activity_context \<Rightarrow> activity_context" where
  "auto_heartbeat_round interval now sent ctx =
     (if (case rc_last_sent_at ctx of None \<Rightarrow> False | Some previous \<Rightarrow> now - previous < interval)
      then ctx else ctx\<lparr>rc_last_sent_at := Some sent\<rparr>)"

section \<open>Lemmas\<close>

text \<open>A dictionary of the values that are not \<open>None\<close> has exactly those values.\<close>

lemma map_of_present:
  "distinct (map fst kvs) \<Longrightarrow>
   map_of (List.map_filter (\<lambda>(name, value). map_option (Pair name) value) kvs) k = Option.bind (map_of kvs k) id"
proof (induction kvs)
  case (Cons kv kvs)
  obtain n v where kv: "kv = (n, v)" by (cases kv) auto
  have none: "map_of kvs n = None" using Cons.prems kv by (simp add: map_of_eq_None_iff)
  show ?case using Cons kv none by (cases v) (auto simp: map_filter_simps)
qed (simp add: map_filter_simps)

lemma argument_of:
  "map_of kw n = map_option QueueName q \<Longrightarrow> queue_argument kw n = q"
  "map_of kw n = map_option Duration d \<Longrightarrow> duration_argument kw n = d"
  "map_of kw n = map_option Sdk v \<Longrightarrow> sdk_argument kw n = v"
  subgoal by (cases q) (simp_all add: queue_argument_def)
  subgoal by (cases d) (simp_all add: duration_argument_def)
  subgoal by (cases v) (simp_all add: sdk_argument_def)
  done

text \<open>Keyword arguments made from options carry exactly the fields that are set.\<close>

lemma kwargs_fields:
  "map_of (to_execute_activity_kwargs opts) ''task_queue'' = map_option QueueName (ao_task_queue opts)"
  "map_of (to_execute_activity_kwargs opts) ''schedule_to_close_timeout'' =
     map_option Duration (ao_schedule_to_close_timeout opts)"
  "map_of (to_execute_activity_kwargs opts) ''schedule_to_start_timeout'' =
     map_option Duration (ao_schedule_to_start_timeout opts)"
  "map_of (to_execute_activity_kwargs opts) ''start_to_close_timeout'' =
     map_option Duration (ao_start_to_close_timeout opts)"
  "map_of (to_execute_activity_kwargs opts) ''heartbeat_timeout'' = map_option Duration (ao_heartbeat_timeout opts)"
  "map_of (to_execute_activity_kwargs opts) ''retry_policy'' = map_option Sdk (ao_retry_policy opts)"
  "map_of (to_execute_activity_kwargs opts) ''cancellation_type'' = map_option Sdk (ao_cancellation_type opts)"
  "map_of (to_execute_activity_kwargs opts) ''versioning_intent'' = map_option Sdk (ao_versioning_intent opts)"
  "map_of (to_execute_activity_kwargs opts) ''priority'' = map_option Sdk (ao_priority opts)"
  unfolding to_execute_activity_kwargs_def by (simp_all add: map_of_present del: map_filter_simps)

lemma keyword_overrides_kwargs: "keyword_overrides (to_execute_activity_kwargs opts) = opts"
  by (simp add: keyword_overrides_def kwargs_fields argument_of)

lemma partition_no_sep: "c \<notin> set a \<Longrightarrow> py_partition c (a @ c # b) = (a, [c], b)"
  by (induction a) auto

lemma split_nonempty: "py_split c s \<noteq> []"
  by (induction s) (auto split: list.split)

section \<open>Properties\<close>

text \<open>The first value that is given.\<close>

fun first_given :: "'a option list \<Rightarrow> 'a option" where
  "first_given [] = None"
| "first_given (None # vs) = first_given vs"
| "first_given (Some v # vs) = Some v"

lemma overridden_first [simp]:
  "overridden a c = first_given [c, a]"
  "first_given [c, first_given [b, a]] = first_given [c, b, a]"
  by (cases a; cases b; cases c; simp add: overridden_def)+

text \<open>
  The options an activity is scheduled with: for every option the explicit argument of the
  call wins over the options object of the call, which wins over the defaults of the tool or
  guard; and the keyword arguments handed to Temporal carry exactly the options that are set,
  plus the activity id when there is one.
\<close>

theorem activity_options_precedence:
  "let call = execute_routed_activity name request base step defaults (Some own) kw activity_id;
       args = map_of (ac_kwargs call)
   in args ''task_queue'' = map_option QueueName
        (first_given [ao_task_queue kw, ao_task_queue own, ao_task_queue defaults])
    \<and> args ''start_to_close_timeout'' = map_option Duration (first_given
        [ao_start_to_close_timeout kw, ao_start_to_close_timeout own, ao_start_to_close_timeout defaults])
    \<and> args ''schedule_to_close_timeout'' = map_option Duration (first_given
        [ao_schedule_to_close_timeout kw, ao_schedule_to_close_timeout own, ao_schedule_to_close_timeout defaults])
    \<and> args ''schedule_to_start_timeout'' = map_option Duration (first_given
        [ao_schedule_to_start_timeout kw, ao_schedule_to_start_timeout own, ao_schedule_to_start_timeout defaults])
    \<and> args ''heartbeat_timeout'' = map_option Duration
        (first_given [ao_heartbeat_timeout kw, ao_heartbeat_timeout own, ao_heartbeat_timeout defaults])
    \<and> args ''retry_policy'' = map_option Sdk
        (first_given [ao_retry_policy kw, ao_retry_policy own, ao_retry_policy defaults])
    \<and> args ''cancellation_type'' = map_option Sdk
        (first_given [ao_cancellation_type kw, ao_cancellation_type own, ao_cancellation_type defaults])
    \<and> args ''versioning_intent'' = map_option Sdk
        (first_given [ao_versioning_intent kw, ao_versioning_intent own, ao_versioning_intent defaults])
    \<and> args ''priority'' = map_option Sdk (first_given [ao_priority kw, ao_priority own, ao_priority defaults])
    \<and> args ''activity_id'' = map_option ActivityId activity_id"
proof -
  let ?opts = "with_overrides (with_overrides defaults own) kw"
  have no_id: "map_of (to_execute_activity_kwargs opts) ''activity_id'' = None" for opts
    unfolding to_execute_activity_kwargs_def by (simp add: map_of_present del: map_filter_simps)
  have "ac_kwargs (execute_routed_activity name request base step defaults (Some own) kw activity_id) =
      (case activity_id of None \<Rightarrow> to_execute_activity_kwargs ?opts
       | Some i \<Rightarrow> AList.update ''activity_id'' (ActivityId i) (to_execute_activity_kwargs ?opts))"
    by (simp add: execute_routed_activity_def activity_options_with_overrides_def
        keyword_overrides_kwargs Let_def)
  then show ?thesis
    by (cases activity_id)
      (simp_all add: Let_def kwargs_fields no_id update_conv' with_overrides_def)
qed

text \<open>The calls of one tool or guard context, in order: the first rejected one raises.\<close>

fun record_calls :: "string \<Rightarrow> string option list \<Rightarrow> nat \<Rightarrow> bool \<Rightarrow> (nat \<times> bool) res" where
  "record_calls owner [] n unstepped = Inr (n, unstepped)"
| "record_calls owner (step # steps) n unstepped =
     res_bind (record_routed_activity_call owner step n unstepped)
       (\<lambda>(n, unstepped). record_calls owner steps n unstepped)"

lemma record_stepped:
  "record_routed_activity_call owner (Some s) n unstepped =
     (if unstepped then Inl (value_error (owner @ '' mixed an unstepped activity with stepped activities''))
      else Inr (n + 1, False))"
  by (simp add: record_routed_activity_call_def)

lemma record_unstepped:
  "record_routed_activity_call owner None n unstepped =
     (if 0 < n then Inl (value_error (owner @ '' called multiple activities; pass step=...''))
      else Inr (n + 1, True))"
  by (simp add: record_routed_activity_call_def)

lemma record_calls_later:
  "0 < n \<Longrightarrow> record_calls owner steps n unstepped = Inr (k, u) \<longleftrightarrow>
    (steps = [] \<or> \<not> unstepped \<and> None \<notin> set steps) \<and> k = n + length steps \<and> u = unstepped"
proof (induction steps arbitrary: n unstepped)
  case Nil
  then show ?case by auto
next
  case (Cons step steps)
  show ?case
    using Cons.prems Cons.IH [of "n + 1" False]
    by (cases step; cases unstepped) (simp_all add: record_stepped record_unstepped, auto)
qed

text \<open>
  A tool or guard that schedules activities is accepted exactly when it either runs a
  single activity without a step or gives every activity a step, so that no two activities of
  one context are shown under the same bare name; the count is the number of calls.
\<close>

theorem unstepped_activity_is_alone:
  "record_calls owner steps 0 False = Inr (k, u) \<longleftrightarrow>
     (steps = [None] \<or> None \<notin> set steps) \<and> k = length steps \<and> u = (steps = [None])"
proof (cases steps)
  case (Cons step rest)
  then show ?thesis
    by (cases step) (simp_all add: record_stepped record_unstepped record_calls_later, auto)
qed auto

theorem unstepped_activity_is_alone_witness:
  "record_calls ''Tool t'' [Some ''load'', Some ''save''] 0 False = Inr (2, False) \<and>
   record_calls ''Tool t'' [None] 0 False = Inr (1, True) \<and>
   record_calls ''Tool t'' [None, Some ''save''] 0 False \<noteq> Inr (2, True)"
  unfolding unstepped_activity_is_alone by simp

text \<open>
  A reference to a module-level function resolves to that function: the module is imported
  under its own name and the attributes of the qualified name are followed in order, for every
  module name without a colon.
\<close>

theorem function_ref_roundtrip:
  assumes "function_ref (Some m) (Some q) fn = Inr ref" and "CHR '':'' \<notin> set m"
    and "import_module m = Inr modl"
    and "get_path get_attr modl (py_split (CHR ''.'') q) = Inr f" and "callable f"
  shows "resolve_function_ref import_module get_attr callable ref = Inr f"
proof -
  from assms(1) have "m \<noteq> []" "q \<noteq> []" "ref = m @ CHR '':'' # q"
    by (auto simp: function_ref_def split: if_splits)
  with assms show ?thesis by (simp add: resolve_function_ref_def partition_no_sep)
qed

theorem function_ref_roundtrip_witness:
  "resolve_function_ref (\<lambda>m. if m = ''tools'' then Inr (1::nat) else Inl (key_error m))
     (\<lambda>obj attr. if obj = 1 \<and> attr = ''run'' then Inr 2 else Inl (key_error attr)) (\<lambda>obj. obj = 2)
     ''tools:run'' = Inr 2"
  using function_ref_roundtrip [where m = "''tools''" and q = "''run''" and ref = "''tools:run''"
      and import_module = "\<lambda>m. if m = ''tools'' then Inr (1::nat) else Inl (key_error m)" and modl = 1
      and get_attr = "\<lambda>obj attr. if obj = 1 \<and> attr = ''run'' then Inr 2 else Inl (key_error attr)" and f = 2
      and callable = "\<lambda>obj. obj = 2"]
  by (simp add: function_ref_def py_startswith_def)

text \<open>
  Heartbeats are coalesced: in one activity two unforced heartbeats are never closer than
  the minimum interval, and the first one is sent whenever the activity has a heartbeat timeout.
\<close>

theorem heartbeat_coalesced:
  assumes "heartbeat details False now sent ctx = (True, ctx')"
    and "rc_last_sent_at ctx = Some previous"
  shows "rc_min_interval ctx \<le> now - previous \<and> rc_last_sent_at ctx' = Some sent
     \<and> rc_min_interval ctx' = rc_min_interval ctx"
  using assms by (auto simp: heartbeat_def Let_def split: if_splits)

theorem heartbeat_coalesced_witness:
  "rc_min_interval (RoutedActivityContext (Some 30)) \<le> (7::rat)"
proof -
  let ?ctx = "RoutedActivityContext (Some 30)\<lparr>rc_last_sent_at := Some 3\<rparr>"
  obtain ctx' where "heartbeat PNone False 10 11 ?ctx = (True, ctx')"
    by (simp add: heartbeat_def RoutedActivityContext_def manual_heartbeat_min_interval_def)
  from heartbeat_coalesced [OF this, of 3] show ?thesis by (simp add: RoutedActivityContext_def)
qed

end
