(* ===== verification/Invocation.thy ===== *)
theory Invocation
  imports Prelude "HOL-Library.List_Lexorder" "HOL-Library.Char_ord"
begin

text \<open>
  \<open>agent_harness/invocation.py\<close>: how the arguments of a tool, a guard or an activity function are
  bound. A Python function is what \<open>inspect.signature\<close> and \<open>get_type_hints\<close> tell about it: its
  identity, its name and its parameters with their resolved annotations. What it does when it is
  called is a parameter of the definitions that call it.
\<close>

datatype parameter_kind = PositionalOnly | PositionalOrKeyword | VarPositional | KeywordOnly | VarKeyword

text \<open>
  \<open>par_annotation\<close> is the annotated type by name, \<open>None\<close> for \<open>inspect.Parameter.empty\<close>;
  \<open>par_default\<close> the default value, \<open>None\<close> for an empty one.
\<close>

record parameter =
  par_name :: string
  par_kind :: parameter_kind
  par_annotation :: "string option"
  par_default :: "pyval option"

record py_function =
  fn_id :: nat
  fn_name :: string
  fn_params :: "parameter list"

text \<open>A keyword argument: a value the caller provided, or an injected framework context.\<close>

datatype 'c argument = Provided pyval | Injected 'c

type_synonym 'c kwargs = "(string \<times> 'c argument) list"

text \<open>\<open>str.format\<close> with named fields: a field without a value raises \<open>KeyError\<close>.\<close>

fun format_fields :: "(string \<times> string) list \<Rightarrow> string option \<Rightarrow> string \<Rightarrow> string res" where
  "format_fields env None [] = Inr []"
| "format_fields env (Some field) [] =
     Inl (value_error ''expected '}' before end of string'')"
| "format_fields env None (c # s) =
     (if c = CHR ''{'' then format_fields env (Some []) s
      else res_bind (format_fields env None s) (\<lambda>r. Inr (c # r)))"
| "format_fields env (Some field) (c # s) =
     (if c = CHR ''}''
      then (case map_of env field of
              None \<Rightarrow> Inl (key_error field)
            | Some v \<Rightarrow> res_bind (format_fields env None s) (\<lambda>r. Inr (v @ r)))
      else format_fields env (Some (field @ [c])) s)"

definition py_format :: "string \<Rightarrow> (string \<times> string) list \<Rightarrow> string res" where
  "py_format template env = format_fields env None template"

text \<open>
  The loop over the parameters: the keyword arguments so far and the provided names consumed.
  \<open>injected\<close> and \<open>missing_injected\<close> are keyed by the annotated type.
\<close>

fun bind_parameters ::
  "py_function \<Rightarrow> pydict \<Rightarrow> (string \<times> 'c) list \<Rightarrow> (string \<times> string) list \<Rightarrow> string
   \<Rightarrow> parameter list \<Rightarrow> 'c kwargs \<Rightarrow> string list \<Rightarrow> ('c kwargs \<times> string list) res" where
  "bind_parameters f provided_args injected missing_injected argument_label [] kwargs consumed_args =
     Inr (kwargs, consumed_args)"
| "bind_parameters f provided_args injected missing_injected argument_label (p # ps) kwargs consumed_args =
     (let name = par_name p;
          inject = (case par_annotation p of None \<Rightarrow> None | Some a \<Rightarrow> map_of injected a);
          missing = (case par_annotation p of None \<Rightarrow> None | Some a \<Rightarrow> map_of missing_injected a);
          continue = bind_parameters f provided_args injected missing_injected argument_label ps
      in if name = ''self'' \<or> name = ''cls'' then continue kwargs consumed_args
         else (case inject of
           Some ctx \<Rightarrow> continue (AList.update name (Injected ctx) kwargs) consumed_args
         | None \<Rightarrow>
             (case missing of
                Some template \<Rightarrow>
                  res_bind (py_format template [(''function'', fn_name f), (''parameter'', name)])
                    (\<lambda>msg. Inl (type_error msg))
              | None \<Rightarrow>
                  (case dict_get provided_args name of
                     Some v \<Rightarrow> continue (AList.update name (Provided v) kwargs) (name # consumed_args)
                   | None \<Rightarrow>
                       (if par_default p = None
                        then Inl (type_error (''Missing required '' @ argument_label @ '' argument ''
                          @ fn_name f @ ''.'' @ name))
                        else continue kwargs consumed_args)))))"

definition bind_keyword_arguments ::
  "py_function \<Rightarrow> pydict \<Rightarrow> (string \<times> 'c) list \<Rightarrow> (string \<times> string) list \<Rightarrow> string \<Rightarrow> bool \<Rightarrow> 'c kwargs res" where
  "bind_keyword_arguments f provided_args injected missing_injected argument_label reject_unexpected =
     res_bind (bind_parameters f provided_args injected missing_injected argument_label (fn_params f) [] [])
       (\<lambda>(kwargs, consumed_args).
          let unexpected_args = filter (\<lambda>k. k \<notin> set consumed_args) (map fst provided_args)
          in if reject_unexpected \<and> unexpected_args \<noteq> []
             then Inl (type_error (''Unexpected '' @ argument_label @ '' argument(s) for '' @ fn_name f
               @ '': '' @ py_join '', '' (sort unexpected_args)))
             else Inr kwargs)"

section \<open>What a bound call looks like\<close>

text \<open>The role of one parameter of a call.\<close>

definition injected_as :: "(string \<times> 'c) list \<Rightarrow> parameter \<Rightarrow> 'c option" where
  "injected_as injected p = (case par_annotation p of None \<Rightarrow> None | Some a \<Rightarrow> map_of injected a)"

definition bindable :: "parameter \<Rightarrow> bool" where
  "bindable p = (par_name p \<noteq> ''self'' \<and> par_name p \<noteq> ''cls'')"

text \<open>The names the caller may provide: bindable parameters that are not injected.\<close>

definition open_names :: "(string \<times> 'c) list \<Rightarrow> parameter list \<Rightarrow> string set" where
  "open_names injected ps = par_name ` set (filter (\<lambda>p. bindable p \<and> injected_as injected p = None) ps)"

text \<open>Which argument a parameter receives, when the function has distinct parameter names.\<close>

definition argument_for :: "pydict \<Rightarrow> (string \<times> 'c) list \<Rightarrow> parameter \<Rightarrow> 'c argument option" where
  "argument_for provided_args injected p =
     (if \<not> bindable p then None
      else (case injected_as injected p of
              Some c \<Rightarrow> Some (Injected c)
            | None \<Rightarrow> map_option Provided (dict_get provided_args (par_name p))))"

lemma bind_parameters_step:
  "bind_parameters f args ctxs miss label (p # ps) kw used =
     (if \<not> bindable p then bind_parameters f args ctxs miss label ps kw used
      else (case injected_as ctxs p of
        Some ctx \<Rightarrow> bind_parameters f args ctxs miss label ps (AList.update (par_name p) (Injected ctx) kw) used
      | None \<Rightarrow>
          (case injected_as miss p of
             Some template \<Rightarrow>
               res_bind (py_format template [(''function'', fn_name f), (''parameter'', par_name p)])
                 (\<lambda>msg. Inl (type_error msg))
           | None \<Rightarrow>
               (case dict_get args (par_name p) of
                  Some v \<Rightarrow> bind_parameters f args ctxs miss label ps
                    (AList.update (par_name p) (Provided v) kw) (par_name p # used)
                | None \<Rightarrow>
                    (if par_default p = None
                     then Inl (type_error (''Missing required '' @ label @ '' argument ''
                       @ fn_name f @ ''.'' @ par_name p))
                     else bind_parameters f args ctxs miss label ps kw used)))))"
  unfolding bind_parameters.simps(2) bindable_def injected_as_def Let_def by simp

declare bind_parameters.simps(2) [simp del]

lemma update_fresh: "k \<notin> fst ` set kw \<Longrightarrow> AList.update k v kw = kw @ [(k, v)]"
  by (induction kw) auto

lemma bind_parameters_result:
  assumes "bind_parameters f args ctxs miss label ps kw used = Inr (kw', used')"
    and "distinct (map par_name ps)" and "fst ` set kw \<inter> par_name ` set ps = {}"
  shows "kw' = kw @ List.map_filter (\<lambda>p. map_option (Pair (par_name p)) (argument_for args ctxs p)) ps
    \<and> set used' = set used \<union> (open_names ctxs ps \<inter> fst ` set args)
    \<and> (\<forall>p \<in> set ps. bindable p \<and> injected_as ctxs p = None \<longrightarrow>
        injected_as miss p = None \<and> (par_name p \<in> fst ` set args \<or> par_default p \<noteq> None))"
  using assms
proof (induction ps arbitrary: kw used)
  case Nil
  then show ?case by (simp add: open_names_def map_filter_simps)
next
  case (Cons p ps)
  let ?rest = "bind_parameters f args ctxs miss label ps"
  have names: "open_names ctxs (p # ps) =
      (if bindable p \<and> injected_as ctxs p = None then insert (par_name p) (open_names ctxs ps) else open_names ctxs ps)"
    by (auto simp: open_names_def)
  have fresh: "par_name p \<notin> fst ` set kw" "fst ` set kw \<inter> par_name ` set ps = {}"
    "par_name p \<notin> par_name ` set ps" "distinct (map par_name ps)"
    using Cons.prems(2,3) by auto
  then have disj: "fst ` set (kw @ [(par_name p, v)]) \<inter> par_name ` set ps = {}" for v by auto
  consider (skip) "\<not> bindable p" | (inject) c where "bindable p" "injected_as ctxs p = Some c"
    | (given) v where "bindable p" "injected_as ctxs p = None" "injected_as miss p = None"
        "dict_get args (par_name p) = Some v"
    | (default) "bindable p" "injected_as ctxs p = None" "injected_as miss p = None"
        "dict_get args (par_name p) = None" "par_default p \<noteq> None"
    using Cons.prems(1)
    by (auto simp: bind_parameters_step res_bind_eq_Inr split: if_splits option.splits)
  then show ?case
  proof cases
    case skip
    with Cons.prems(1) have "?rest kw used = Inr (kw', used')" by (simp add: bind_parameters_step)
    from Cons.IH [OF this fresh(4,2)] skip show ?thesis
      by (simp add: names argument_for_def map_filter_simps)
  next
    case inject
    with Cons.prems(1) fresh have "?rest (kw @ [(par_name p, Injected c)]) used = Inr (kw', used')"
      by (simp add: bind_parameters_step update_fresh)
    from Cons.IH [OF this fresh(4) disj] inject show ?thesis
      by (simp add: names argument_for_def map_filter_simps)
  next
    case given
    with Cons.prems(1) fresh
    have "?rest (kw @ [(par_name p, Provided v)]) (par_name p # used) = Inr (kw', used')"
      by (simp add: bind_parameters_step update_fresh)
    moreover have "par_name p \<in> fst ` set args" using given(4) by (force dest: map_of_SomeD)
    ultimately show ?thesis using Cons.IH [OF _ fresh(4) disj] given
      by (simp add: names argument_for_def map_filter_simps)
  next
    case default
    with Cons.prems(1) have "?rest kw used = Inr (kw', used')" by (simp add: bind_parameters_step)
    moreover have "par_name p \<notin> fst ` set args" using default(4) by (simp add: map_of_eq_None_iff)
    ultimately show ?thesis using Cons.IH [OF _ fresh(4,2)] default
      by (simp add: names argument_for_def map_filter_simps)
  qed
qed

text \<open>When the loop ends without an exception.\<close>

definition parameter_fits :: "pydict \<Rightarrow> (string \<times> 'c) list \<Rightarrow> (string \<times> string) list \<Rightarrow> parameter \<Rightarrow> bool" where
  "parameter_fits args ctxs miss p =
     (\<not> bindable p \<or> injected_as ctxs p \<noteq> None \<or>
      injected_as miss p = None \<and> (par_name p \<in> fst ` set args \<or> par_default p \<noteq> None))"

lemma bind_parameters_ok:
  "list_all (parameter_fits args ctxs miss) ps
   \<Longrightarrow> \<exists>kw' used'. bind_parameters f args ctxs miss label ps kw used = Inr (kw', used')"
proof (induction ps arbitrary: kw used)
  case (Cons p ps)
  have "dict_get args (par_name p) \<noteq> None \<or> par_default p \<noteq> None"
    if "bindable p" "injected_as ctxs p = None"
    using Cons.prems that by (auto simp: parameter_fits_def map_of_eq_None_iff)
  with Cons show ?case
    by (auto simp: bind_parameters_step parameter_fits_def split: option.split)
qed simp

text \<open>The arguments of a call, in the order of the parameters.\<close>

definition bound_arguments :: "py_function \<Rightarrow> pydict \<Rightarrow> (string \<times> 'c) list \<Rightarrow> 'c kwargs" where
  "bound_arguments f args ctxs =
     List.map_filter (\<lambda>p. map_option (Pair (par_name p)) (argument_for args ctxs p)) (fn_params f)"

lemma map_of_map_filter_names:
  "\<lbrakk>distinct (map par_name ps); p \<in> set ps\<rbrakk> \<Longrightarrow>
   map_of (List.map_filter (\<lambda>p. map_option (Pair (par_name p)) (g p)) ps) (par_name p) = g p"
proof (induction ps)
  case (Cons q ps)
  have other: "map_of (List.map_filter (\<lambda>p. map_option (Pair (par_name p)) (g p)) ps) k = None"
    if "k \<notin> par_name ` set ps" for k
    using that by (auto simp: map_of_eq_None_iff map_filter_def)
  show ?case
  proof (cases "p = q")
    case True
    with Cons.prems other [of "par_name q"] show ?thesis
      by (cases "g q") (simp_all add: map_filter_simps)
  next
    case False
    with Cons.prems have "p \<in> set ps" by simp
    moreover from this Cons.prems have "par_name p \<noteq> par_name q" by (metis distinct.simps(2) imageI list.simps(9) set_map)
    ultimately show ?thesis using Cons by (cases "g q") (simp_all add: map_filter_simps)
  qed
qed simp

section \<open>Properties\<close>

text \<open>
  Binding the arguments of a callback, for every function with distinct parameter names: it
  succeeds exactly when every parameter that is not an injected context is provided or has a
  default (and does not need a context that is missing) and, when unexpected arguments are
  rejected, every provided name is such a parameter; and then the call receives, in the order
  of the signature, the context for each injected parameter and the provided value for each
  other provided one.
\<close>

theorem bind_keyword_arguments_iff:
  assumes "distinct (map par_name (fn_params f))"
  shows "bind_keyword_arguments f args ctxs miss label reject_unexpected = Inr kw \<longleftrightarrow>
    list_all (parameter_fits args ctxs miss) (fn_params f) \<and>
    (\<not> reject_unexpected \<or> fst ` set args \<subseteq> open_names ctxs (fn_params f)) \<and>
    kw = bound_arguments f args ctxs"
proof (cases "bind_parameters f args ctxs miss label (fn_params f) [] []")
  case (Inl e)
  with bind_parameters_ok [of args ctxs miss "fn_params f" f label "[]" "[]"]
  have "\<not> list_all (parameter_fits args ctxs miss) (fn_params f)" by auto
  with Inl show ?thesis by (simp add: bind_keyword_arguments_def)
next
  case (Inr r)
  obtain kw' used where r: "r = (kw', used)" by (cases r) auto
  from bind_parameters_result [OF Inr [unfolded r] assms]
  have kw': "kw' = bound_arguments f args ctxs"
    and used: "set used = open_names ctxs (fn_params f) \<inter> fst ` set args"
    and fits: "list_all (parameter_fits args ctxs miss) (fn_params f)"
    by (auto simp: bound_arguments_def list_all_iff parameter_fits_def)
  have "filter (\<lambda>k. k \<notin> set used) (map fst args) = [] \<longleftrightarrow> fst ` set args \<subseteq> open_names ctxs (fn_params f)"
    unfolding used by (auto simp: filter_empty_conv)
  with Inr r kw' fits show ?thesis
    by (cases reject_unexpected) (auto simp: bind_keyword_arguments_def Let_def)
qed

definition sample_function :: py_function where
  "sample_function = \<lparr>fn_id = 0, fn_name = ''read'', fn_params =
     [\<lparr>par_name = ''ctx'', par_kind = PositionalOrKeyword, par_annotation = Some ''ToolContext'',
       par_default = None\<rparr>,
      \<lparr>par_name = ''path'', par_kind = PositionalOrKeyword, par_annotation = Some ''str'',
       par_default = None\<rparr>]\<rparr>"

theorem bind_keyword_arguments_iff_witness:
  "bind_keyword_arguments sample_function [(''path'', PStr ''a'')] [(''ToolContext'', True)] [] ''tool'' True
     = Inr [(''ctx'', Injected True), (''path'', Provided (PStr ''a''))]"
  using bind_keyword_arguments_iff [of sample_function "[(''path'', PStr ''a'')]" "[(''ToolContext'', True)]"
      "[]" "''tool''" True "[(''ctx'', Injected True), (''path'', Provided (PStr ''a''))]"]
  by (auto simp: sample_function_def parameter_fits_def injected_as_def bindable_def open_names_def
      bound_arguments_def argument_for_def map_filter_simps)

text \<open>
  C31. An injected context can be neither supplied nor overridden by the model: whatever the
  arguments are, a parameter annotated with an injected context type receives that context, and
  when unexpected arguments are rejected a call that provides a value under its name fails.
\<close>

theorem injected_context_is_protected:
  assumes "distinct (map par_name (fn_params f))"
    and "p \<in> set (fn_params f)" and "bindable p" and "injected_as ctxs p = Some c"
    and "bind_keyword_arguments f args ctxs miss label reject_unexpected = Inr kw"
  shows "map_of kw (par_name p) = Some (Injected c) \<and>
    (reject_unexpected \<longrightarrow> par_name p \<notin> fst ` set args)"
proof -
  note bound = assms(5) [unfolded bind_keyword_arguments_iff [OF assms(1)]]
  then have "map_of kw (par_name p) = argument_for args ctxs p"
    unfolding bound_arguments_def using map_of_map_filter_names [OF assms(1,2)] by simp
  moreover have "par_name p \<notin> open_names ctxs (fn_params f)"
    using assms by (auto simp: open_names_def distinct_map inj_on_def)
  ultimately show ?thesis using bound assms(3,4) by (auto simp: argument_for_def)
qed

theorem injected_context_is_protected_witness:
  "map_of [(''ctx'', Injected True), (''path'', Provided (PStr ''a''))] ''ctx'' = Some (Injected True)"
  using injected_context_is_protected [of sample_function "hd (fn_params sample_function)"
      "[(''ToolContext'', True)]" True "[(''path'', PStr ''a'')]" "[]" "''tool''" True
      "[(''ctx'', Injected True), (''path'', Provided (PStr ''a''))]"]
  by (simp add: sample_function_def injected_as_def bindable_def bind_keyword_arguments_def Let_def
      bind_parameters_step)

end
