(* ===== verification/Registry.thy ===== *)
theory Registry
  imports Prelude
begin

text \<open>
  The contract of a registry of named entries, shared by the registry of guards and the registry
  of tools: a registration appends an entry under a new name or changes nothing. What a client
  of any such registry can rely on is proved once, from the contract.
\<close>

section \<open>Operations that only add entries\<close>

definition only_adds :: "('s \<Rightarrow> (string \<times> 'v) list) \<Rightarrow> ('s, 'a) op \<Rightarrow> bool" where
  "only_adds entries m \<longleftrightarrow>
     (\<forall>s. \<exists>more. entries (snd (m s)) = entries s @ more \<and>
        (distinct (map fst (entries s)) \<longrightarrow> distinct (map fst (entries s @ more))))"

lemma only_addsI:
  "(\<And>s. \<exists>more. entries (snd (m s)) = entries s @ more \<and>
      (distinct (map fst (entries s)) \<longrightarrow> distinct (map fst (entries s @ more)))) \<Longrightarrow> only_adds entries m"
  by (simp add: only_adds_def)

lemma only_adds_same: "(\<And>s. entries (snd (m s)) = entries s) \<Longrightarrow> only_adds entries m"
  by (simp add: only_adds_def)

lemma only_adds_return [intro, simp]: "only_adds entries (op_return x)"
  and only_adds_raise [intro, simp]: "only_adds entries (op_raise e)"
  and only_adds_lift [intro, simp]: "only_adds entries (op_lift r)"
  and only_adds_read [intro, simp]: "only_adds entries (\<lambda>s. (f s, s))"
  by (simp_all add: only_adds_same)

lemma only_adds_bind [intro]:
  assumes "only_adds entries m" and "\<And>x. only_adds entries (f x)"
  shows "only_adds entries (op_bind m f)"
proof (rule only_addsI)
  fix s
  obtain r s' where m: "m s = (r, s')" by fastforce
  obtain more where more: "entries s' = entries s @ more"
    "distinct (map fst (entries s)) \<longrightarrow> distinct (map fst (entries s @ more))"
    using assms(1) m by (metis only_adds_def snd_conv)
  show "\<exists>more. entries (snd (op_bind m f s)) = entries s @ more \<and>
      (distinct (map fst (entries s)) \<longrightarrow> distinct (map fst (entries s @ more)))"
  proof (cases r)
    case (Inl e)
    with m more show ?thesis by (auto simp: op_bind_def)
  next
    case (Inr x)
    obtain more' where "entries (snd (f x s')) = entries s' @ more'"
      "distinct (map fst (entries s')) \<longrightarrow> distinct (map fst (entries s' @ more'))"
      using assms(2) [of x] by (metis only_adds_def)
    with Inr m more show ?thesis by (auto simp: op_bind_def intro: exI [of _ "more @ more'"])
  qed
qed

lemma only_adds_lookup:
  assumes "only_adds entries m" and "map_of (entries s) k = Some v"
  shows "map_of (entries (snd (m s))) k = Some v"
proof -
  obtain more where "entries (snd (m s)) = entries s @ more"
    using assms(1) unfolding only_adds_def by blast
  with assms(2) show ?thesis by (simp add: map_of_append)
qed

lemma only_adds_distinct:
  assumes "only_adds entries m" and "distinct (map fst (entries s))"
  shows "distinct (map fst (entries (snd (m s))))"
proof -
  obtain more where "entries (snd (m s)) = entries s @ more" "distinct (map fst (entries s @ more))"
    using assms unfolding only_adds_def by blast
  then show ?thesis by simp
qed

section \<open>The contract\<close>

locale name_registry =
  fixes key :: "'r \<Rightarrow> string"
    and entries :: "'s \<Rightarrow> (string \<times> 'v) list"
    and register :: "'r \<Rightarrow> ('s, 'a) op"
  assumes registered: "register r s = (Inr x, s') \<Longrightarrow>
      key r \<notin> fst ` set (entries s) \<and> (\<exists>v. entries s' = entries s @ [(key r, v)])"
    and rejected: "register r s = (Inl e, s') \<Longrightarrow> entries s' = entries s"
    and duplicate: "key r \<in> fst ` set (entries s) \<Longrightarrow> \<exists>e. register r s = (Inl e, s)"
begin

lemma register_only_adds: "only_adds entries (register r)"
proof (rule only_addsI)
  fix s
  obtain res s' where res: "register r s = (res, s')" by fastforce
  show "\<exists>more. entries (snd (register r s)) = entries s @ more \<and>
      (distinct (map fst (entries s)) \<longrightarrow> distinct (map fst (entries s @ more)))"
  proof (cases res)
    case (Inl e)
    with res rejected [of r s e s'] show ?thesis by simp
  next
    case (Inr x)
    with res registered [of r s x s'] show ?thesis by auto
  qed
qed

lemma register_new:
  assumes "register r s = (Inr x, s')"
  shows "map_of (entries s) (key r) = None \<and> map_of (entries s') (key r) \<noteq> None"
  using registered [OF assms] by (auto simp: map_of_eq_None_iff)

lemma register_twice:
  assumes "register r s = (Inr x, s')" and "key r' = key r"
  shows "\<exists>e. register r' s' = (Inl e, s')"
  using registered [OF assms(1)] assms(2) by (intro duplicate) auto

end

end
