(* ===== verification/Guards.thy ===== *)
theory Guards
  imports Activities Invocation Registry
begin

text \<open>
  \<open>agent_harness/tool_types.py\<close> and \<open>guards.py\<close>: tool categories, the guard policy, the registry of
  guards, and running guards around a tool call.

  What a guard does when it is called is a parameter \<open>run_guard\<close>: from the function, its keyword
  arguments and the state of the call it gives what it returns or raises and the state it leaves
  behind. That state holds the argument dictionary and the tool result, which the guards and the
  tool share and may mutate, and the rest of the world.
\<close>

section \<open>Tool categories\<close>

definition normalize_tool_category :: "pyval \<Rightarrow> string res" where
  "normalize_tool_category value =
     (case value of
        PStr s \<Rightarrow> if s = [] then Inl (value_error ''Tool category values must not be empty'') else Inr s
      | _ \<Rightarrow> Inl (type_error ''Tool category values must be strings or string enums''))"

text \<open>The items \<open>iter(values)\<close> yields, \<open>None\<close> when the value is not iterable.\<close>

definition py_iter :: "pyval \<Rightarrow> pyval list option" where
  "py_iter values =
     (case values of
        PList xs \<Rightarrow> Some xs
      | PDict d \<Rightarrow> Some (map (\<lambda>kv. PStr (fst kv)) d)
      | PStr s \<Rightarrow> Some (map (\<lambda>c. PStr [c]) s)
      | _ \<Rightarrow> None)"

definition tool_category_set :: "pyval \<Rightarrow> string set res" where
  "tool_category_set values =
     (if is_str values
      then res_bind (normalize_tool_category values) (\<lambda>c. Inr {c})
      else (case py_iter values of
              None \<Rightarrow> res_bind (normalize_tool_category values) (\<lambda>c. Inr {c})
            | Some xs \<Rightarrow>
                res_bind (res_map normalize_tool_category xs) (\<lambda>categories.
                  if categories = []
                  then Inl (value_error ''Tool category set must contain at least one category'')
                  else Inr (set categories))))"

definition tool_type_set :: "pyval \<Rightarrow> string set res" where
  "tool_type_set fulfills = tool_category_set fulfills"

definition optional_category_set :: "pyval \<Rightarrow> string set res" where
  "optional_category_set values =
     (if is_str values then tool_category_set values
      else (case py_iter values of
              None \<Rightarrow> tool_category_set values
            | Some [] \<Rightarrow> Inr {}
            | Some xs \<Rightarrow> tool_category_set (PList xs)))"

section \<open>Policy\<close>

record guard_policy =
  required_pre :: "string set"
  required_post :: "string set"

definition default_guard_policy :: guard_policy where
  "default_guard_policy = \<lparr>required_pre = {''admin'', ''mutating'', ''mcp''}, required_post = {}\<rparr>"

text \<open>The constructor normalises the two sets it is given, here by their members.\<close>

definition GuardPolicy :: "pyval list \<Rightarrow> pyval list \<Rightarrow> guard_policy res" where
  "GuardPolicy pre post =
     res_bind (res_map normalize_tool_category pre) (\<lambda>pre.
     res_bind (res_map normalize_tool_category post) (\<lambda>post.
     Inr \<lparr>required_pre = set pre, required_post = set post\<rparr>))"

definition require :: "pyval \<Rightarrow> pyval \<Rightarrow> guard_policy res" where
  "require pre post =
     res_bind (optional_category_set pre) (\<lambda>pre.
     res_bind (optional_category_set post) (\<lambda>post.
     Inr \<lparr>required_pre = pre, required_post = post\<rparr>))"

definition require_pre :: "pyval list \<Rightarrow> guard_policy res" where
  "require_pre categories =
     res_bind (tool_category_set (PList categories)) (\<lambda>pre. Inr \<lparr>required_pre = pre, required_post = {}\<rparr>)"

definition require_post :: "pyval list \<Rightarrow> guard_policy res" where
  "require_post categories =
     res_bind (tool_category_set (PList categories)) (\<lambda>post. Inr \<lparr>required_pre = {}, required_post = post\<rparr>)"

definition allow_all :: guard_policy where
  "allow_all = \<lparr>required_pre = {}, required_post = {}\<rparr>"

section \<open>Guards\<close>

datatype guard_timing = Pre | Post

definition timing_value :: "guard_timing \<Rightarrow> string" where
  "timing_value t = (case t of Pre \<Rightarrow> ''pre'' | Post \<Rightarrow> ''post'')"

record guard_metadata =
  gm_name :: string
  gm_fulfills :: pyval

text \<open>
  A guard function: the Python function and the metadata \<open>guard_metadata\<close> reads from it, if it
  was decorated.
\<close>

record guard_fn =
  gf_function :: py_function
  gf_metadata :: "guard_metadata option"

record guard_result =
  gr_passed :: bool
  gr_reason :: "string option"
  gr_llm_payload :: "pydict option"
  gr_internal_payload :: "pydict option"

record tool_result =
  tr_payload :: pydict
  tr_error :: bool

record guard_context =
  gc_guard_name :: string
  gc_tool_name :: string
  gc_tool_type :: string
  gc_tool_args :: pydict
  gc_tool_result :: "tool_result option"
  gc_stream_id :: "string option"
  gc_activity_options :: activity_options
  gc_activity_count :: nat
  gc_used_unstepped_activity :: bool

record guard_def =
  gd_name :: string
  gd_fulfills :: "string set"
  gd_fn :: guard_fn

record guard_activity_request =
  gq_function_ref :: string
  gq_args :: pydict
  gq_guard_name :: string
  gq_step :: "string option"
  gq_stream_id :: "string option"

text \<open>
  \<open>GuardContext.activity\<close>: the activity it schedules and the context afterwards; \<open>ref\<close> is
  \<open>function_ref(fn)\<close>, which may raise, after the call was counted. The result of the activity is
  the caller's.
\<close>

definition guard_activity ::
  "string res \<Rightarrow> string option \<Rightarrow> pydict \<Rightarrow> activity_options option \<Rightarrow> activity_options \<Rightarrow> string option
   \<Rightarrow> (guard_context, guard_activity_request activity_call) op" where
  "guard_activity ref step args options kw activity_id ctx =
     (case record_routed_activity_call (''Guard '' @ gc_guard_name ctx) step
             (gc_activity_count ctx) (gc_used_unstepped_activity ctx) of
        Inl e \<Rightarrow> (Inl e, ctx)
      | Inr (n, unstepped) \<Rightarrow>
          (res_bind ref (\<lambda>r. Inr (execute_routed_activity ''agent_harness.run_guard_activity''
             \<lparr>gq_function_ref = r, gq_args = args, gq_guard_name = gc_guard_name ctx, gq_step = step,
              gq_stream_id = gc_stream_id ctx\<rparr>
             (gc_guard_name ctx) step (gc_activity_options ctx) options kw activity_id)),
           ctx\<lparr>gc_activity_count := n, gc_used_unstepped_activity := unstepped\<rparr>))"

section \<open>The registry\<close>

record guard_set =
  guard_registry :: "(string \<times> guard_def) list"
  guard_functions :: "(guard_fn \<times> guard_def) list"
  gs_guard_policy :: guard_policy

definition GuardSet :: "guard_policy option \<Rightarrow> guard_set" where
  "GuardSet policy = \<lparr>guard_registry = [], guard_functions = [],
     gs_guard_policy = (case policy of None \<Rightarrow> default_guard_policy | Some p \<Rightarrow> p)\<rparr>"

text \<open>\<open>GuardSet.guard(name=..., fulfills=...)(fn)\<close>, which returns \<open>fn\<close>.\<close>

definition guard_set_guard :: "string \<Rightarrow> pyval \<Rightarrow> guard_fn \<Rightarrow> (guard_set, guard_fn) op" where
  "guard_set_guard name fulfills f gs =
     (if map_of (guard_registry gs) name \<noteq> None
      then (Inl (value_error (''Duplicate guard name: '' @ name)), gs)
      else (case tool_type_set fulfills of
              Inl e \<Rightarrow> (Inl e, gs)
            | Inr types \<Rightarrow>
                (let g = \<lparr>gd_name = name, gd_fulfills = types, gd_fn = f\<rparr>
                 in (Inr f, gs\<lparr>guard_registry := AList.update name g (guard_registry gs),
                              guard_functions := AList.update f g (guard_functions gs)\<rparr>))))"

definition def_for :: "guard_set \<Rightarrow> guard_fn \<Rightarrow> guard_def res" where
  "def_for gs f =
     (case map_of (guard_functions gs) f of
        Some d \<Rightarrow> Inr d
      | None \<Rightarrow> Inl (PyExn ExcValueError
          (''Guard '' @ fn_name (gf_function f) @ '' is not registered; decorate it with ''
           @ ''agent_harness.guards.guard and register it before using it in a tool'')
          (Some (key_error (fn_name (gf_function f)))) (Some (key_error (fn_name (gf_function f))))))"

definition defs_for :: "guard_set \<Rightarrow> guard_fn list \<Rightarrow> guard_def list res" where
  "defs_for gs guards = res_map (def_for gs) guards"

definition get_guard :: "guard_set \<Rightarrow> string \<Rightarrow> guard_def res" where
  "get_guard gs name =
     (case map_of (guard_registry gs) name of
        Some d \<Rightarrow> Inr d
      | None \<Rightarrow> Inl (PyExn ExcValueError (''Unknown guard: '' @ name)
          (Some (key_error name)) (Some (key_error name))))"

definition validate_tool_guards :: "guard_set \<Rightarrow> string \<Rightarrow> guard_def list \<Rightarrow> guard_def list \<Rightarrow> unit res" where
  "validate_tool_guards gs tool_type pre_guards post_guards =
     (if tool_type \<in> required_pre (gs_guard_policy gs) \<and> pre_guards = []
      then Inl (value_error (''Tool type '' @ tool_type @ '' requires at least one pre guard''))
      else if tool_type \<in> required_post (gs_guard_policy gs) \<and> post_guards = []
      then Inl (value_error (''Tool type '' @ tool_type @ '' requires at least one post guard''))
      else (case List.find (\<lambda>g. tool_type \<notin> gd_fulfills g) pre_guards of
              Some g \<Rightarrow> Inl (value_error (''Pre guard '' @ gd_name g @ '' does not fulfill '' @ tool_type))
            | None \<Rightarrow>
                (case List.find (\<lambda>g. tool_type \<notin> gd_fulfills g) post_guards of
                   Some g \<Rightarrow> Inl (value_error (''Post guard '' @ gd_name g @ '' does not fulfill '' @ tool_type))
                 | None \<Rightarrow> Inr ())))"

section \<open>Running guards\<close>

record 'w call_state =
  cs_args :: pydict
  cs_result :: "tool_result option"
  cs_world :: 'w

text \<open>What a guard function returned: a \<open>GuardResult\<close> or something else.\<close>

datatype guard_return = ReturnedResult guard_result | ReturnedOther

type_synonym 'w guard_semantics = "guard_fn \<Rightarrow> guard_context kwargs \<Rightarrow> ('w call_state, guard_return) op"

definition kwargs_for_guard :: "guard_fn \<Rightarrow> guard_context \<Rightarrow> guard_context kwargs res" where
  "kwargs_for_guard f ctx =
     bind_keyword_arguments (gf_function f) [] [(''GuardContext'', ctx)] [] ''guard'' True"

definition call_guard ::
  "'w guard_semantics \<Rightarrow> guard_fn \<Rightarrow> guard_context \<Rightarrow> ('w call_state, guard_result) op" where
  "call_guard run_guard f ctx =
     op_bind (op_lift (kwargs_for_guard f ctx)) (\<lambda>kwargs.
     op_bind (run_guard f kwargs) (\<lambda>result.
       case result of
         ReturnedResult r \<Rightarrow> op_return r
       | ReturnedOther \<Rightarrow> op_raise (type_error
           (''Guard '' @ fn_name (gf_function f) @ '' must return GuardResult''))))"

definition guard_failure_payload :: "guard_def \<Rightarrow> guard_timing \<Rightarrow> guard_result \<Rightarrow> pydict" where
  "guard_failure_payload g timing result =
     (case gr_llm_payload result of
        Some (x # xs) \<Rightarrow> x # xs
      | _ \<Rightarrow> [(''error'', PStr ''Guard failed''), (''guard'', PStr (gd_name g)),
              (''timing'', PStr (timing_value timing)),
              (''reason'', PStr (case gr_reason result of
                 Some (c # cs) \<Rightarrow> c # cs | _ \<Rightarrow> ''Guard did not pass''))])"

text \<open>
  \<open>execute_guards\<close>: \<open>Some\<close> payload of the first guard that does not pass. Each guard sees the
  arguments as they are when it runs; for the guards after the tool the context holds the tool
  result.
\<close>

definition context_for_guard ::
  "guard_def \<Rightarrow> guard_timing \<Rightarrow> string \<Rightarrow> string \<Rightarrow> string option \<Rightarrow> activity_options
   \<Rightarrow> 'w call_state \<Rightarrow> guard_context" where
  "context_for_guard g timing tool_name tool_type stream_id options s =
     \<lparr>gc_guard_name = gd_name g, gc_tool_name = tool_name, gc_tool_type = tool_type,
      gc_tool_args = cs_args s,
      gc_tool_result = (case timing of Pre \<Rightarrow> None | Post \<Rightarrow> cs_result s), gc_stream_id = stream_id,
      gc_activity_options = options, gc_activity_count = 0, gc_used_unstepped_activity = False\<rparr>"

fun execute_guards ::
  "'w guard_semantics \<Rightarrow> guard_timing \<Rightarrow> string \<Rightarrow> string \<Rightarrow> string option \<Rightarrow> activity_options
   \<Rightarrow> guard_def list \<Rightarrow> ('w call_state, pydict option) op" where
  "execute_guards run_guard timing tool_name tool_type stream_id options [] = op_return None"
| "execute_guards run_guard timing tool_name tool_type stream_id options (g # guards) =
     (\<lambda>s. op_bind (call_guard run_guard (gd_fn g)
                     (context_for_guard g timing tool_name tool_type stream_id options s))
            (\<lambda>result.
               if \<not> gr_passed result
               then op_return (Some (guard_failure_payload g timing result))
               else execute_guards run_guard timing tool_name tool_type stream_id options guards) s)"

section \<open>What the registry and the execution promise\<close>

lemma update_new: "map_of xs k = None \<Longrightarrow> AList.update k v xs = xs @ [(k, v)]"
  by (simp add: update_fresh map_of_eq_None_iff)

text \<open>A registration of a guard is its name, what it fulfills and its function.\<close>

interpretation guards: name_registry "\<lambda>(name, fulfills, f). name" guard_registry
  "\<lambda>(name, fulfills, f). guard_set_guard name fulfills f"
proof
  fix r :: "string \<times> pyval \<times> guard_fn" and s s' :: guard_set and x e
  obtain name fulfills f where r: "r = (name, fulfills, f)" by (cases r) auto
  show "(case r of (name, fulfills, f) \<Rightarrow> guard_set_guard name fulfills f) s = (Inr x, s') \<Longrightarrow>
      (case r of (name, fulfills, f) \<Rightarrow> name) \<notin> fst ` set (guard_registry s) \<and>
      (\<exists>v. guard_registry s' = guard_registry s @ [(case r of (name, fulfills, f) \<Rightarrow> name, v)])"
    unfolding r guard_set_guard_def
    by (auto simp: Let_def update_new map_of_eq_None_iff split: if_splits sum.splits)
  show "(case r of (name, fulfills, f) \<Rightarrow> guard_set_guard name fulfills f) s = (Inl e, s') \<Longrightarrow>
      guard_registry s' = guard_registry s"
    unfolding r guard_set_guard_def by (auto simp: Let_def split: if_splits sum.splits)
  show "(case r of (name, fulfills, f) \<Rightarrow> name) \<in> fst ` set (guard_registry s) \<Longrightarrow>
      \<exists>e. (case r of (name, fulfills, f) \<Rightarrow> guard_set_guard name fulfills f) s = (Inl e, s)"
    unfolding r guard_set_guard_def using map_of_eq_None_iff [of "guard_registry s" name] by auto
qed

text \<open>
  The invariant of a guard set: names are unique, and a function is mapped to a definition of
  its own that is registered under its name.
\<close>

definition wf_guard_set :: "guard_set \<Rightarrow> bool" where
  "wf_guard_set gs \<longleftrightarrow> distinct (map fst (guard_registry gs)) \<and>
     (\<forall>(n, d) \<in> set (guard_registry gs). gd_name d = n \<and> gd_fulfills d \<noteq> {}) \<and>
     (\<forall>f d. map_of (guard_functions gs) f = Some d \<longrightarrow> gd_fn d = f \<and> (gd_name d, d) \<in> set (guard_registry gs))"

lemma tool_category_set_nonempty: "tool_category_set v = Inr types \<Longrightarrow> types \<noteq> {}"
  by (auto simp: tool_category_set_def res_bind_eq_Inr split: if_splits option.splits)

lemma guard_set_guard_wf:
  assumes "wf_guard_set gs"
  shows "wf_guard_set (snd (guard_set_guard name fulfills f gs))"
proof (cases "map_of (guard_registry gs) name = None \<and> (\<exists>types. tool_type_set fulfills = Inr types)")
  case False
  then show ?thesis
    using assms by (auto simp: guard_set_guard_def split: sum.splits)
next
  case True
  then obtain types where types: "tool_type_set fulfills = Inr types" by blast
  then have "types \<noteq> {}" using tool_category_set_nonempty by (simp add: tool_type_set_def)
  with assms True types show ?thesis
    by (auto simp: wf_guard_set_def guard_set_guard_def Let_def update_new update_conv'
        map_of_eq_None_iff)
qed

text \<open>Every guard of the list was called, in order, and passed.\<close>

inductive guards_pass ::
  "'w guard_semantics \<Rightarrow> guard_timing \<Rightarrow> string \<Rightarrow> string \<Rightarrow> string option \<Rightarrow> activity_options
   \<Rightarrow> guard_def list \<Rightarrow> 'w call_state \<Rightarrow> 'w call_state \<Rightarrow> bool"
  for run_guard timing tool_name tool_type stream_id options where
  all_passed: "guards_pass run_guard timing tool_name tool_type stream_id options [] s s"
| next_passes: "\<lbrakk>call_guard run_guard (gd_fn g)
      (context_for_guard g timing tool_name tool_type stream_id options s) s = (Inr r, s'); gr_passed r;
    guards_pass run_guard timing tool_name tool_type stream_id options guards s' s''\<rbrakk>
   \<Longrightarrow> guards_pass run_guard timing tool_name tool_type stream_id options (g # guards) s s''"

inductive_cases guards_pass_Nil [elim!]:
  "guards_pass run_guard timing tool_name tool_type stream_id options [] s s'"

inductive_cases guards_pass_Cons [elim!]:
  "guards_pass run_guard timing tool_name tool_type stream_id options (g # guards) s s'"

lemma execute_guards_None:
  "execute_guards run_guard timing tool_name tool_type stream_id options guards s = (Inr None, s') \<longleftrightarrow>
   guards_pass run_guard timing tool_name tool_type stream_id options guards s s'"
proof (induction guards arbitrary: s)
  case Nil
  show ?case by (auto intro: guards_pass.intros)
next
  case (Cons g guards)
  obtain res s1 where call: "call_guard run_guard (gd_fn g)
      (context_for_guard g timing tool_name tool_type stream_id options s) s = (res, s1)" by fastforce
  show ?case
  proof (cases res)
    case (Inl e)
    with call show ?thesis by (auto simp: op_bind_run)
  next
    case (Inr r)
    with call Cons.IH [of s1] show ?thesis
      by (cases "gr_passed r") (auto simp: op_bind_run intro: guards_pass.intros)
  qed
qed

lemma validate_tool_guards_Inr:
  "validate_tool_guards gs ty pre post = Inr u \<longleftrightarrow>
   (ty \<in> required_pre (gs_guard_policy gs) \<longrightarrow> pre \<noteq> []) \<and>
   (ty \<in> required_post (gs_guard_policy gs) \<longrightarrow> post \<noteq> []) \<and>
   (\<forall>g \<in> set pre. ty \<in> gd_fulfills g) \<and> (\<forall>g \<in> set post. ty \<in> gd_fulfills g)"
  by (auto simp: validate_tool_guards_def find_None_iff find_Some_iff split: option.split)

end
