(* ===== verification/LlmGuards.thy ===== *)
theory LlmGuards
  imports Guards
begin

text \<open>
  \<open>agent_harness/llm_guards.py\<close>: the guards around a call of the model, which may rewrite the
  request and the response, carry a state from call to call, and block or terminate.

  A guard function is its identity and its name. What it does is the parameter \<open>run_llm_guard\<close>:
  from its context and the world it gives what it returns or raises, the context as it left it
  (the code reads the mutated context back) and the world.
\<close>

datatype llm_guard_timing = LlmPre | LlmPost

datatype llm_guard_action = Continue | Block | Terminate

definition timing_text :: "llm_guard_timing \<Rightarrow> string" where
  "timing_text t = (case t of LlmPre \<Rightarrow> ''pre'' | LlmPost \<Rightarrow> ''post'')"

definition action_text :: "llm_guard_action \<Rightarrow> string" where
  "action_text a = (case a of Continue \<Rightarrow> ''continue'' | Block \<Rightarrow> ''block'' | Terminate \<Rightarrow> ''terminate'')"

text \<open>A message given as text or as a message dictionary.\<close>

datatype message_value = MessageText string | MessageDict pydict

record llm_guard_result =
  lr_action :: llm_guard_action
  lr_request :: "pydict option"
  lr_response :: "pydict option"
  lr_message :: "message_value option"
  lr_reason :: "string option"
  lr_state :: "pydict option"

definition allow :: "pydict option \<Rightarrow> pydict option \<Rightarrow> message_value option \<Rightarrow> pydict option \<Rightarrow> llm_guard_result" where
  "allow request response msg state =
     \<lparr>lr_action = Continue, lr_request = request, lr_response = response, lr_message = msg,
      lr_reason = None, lr_state = state\<rparr>"

definition block :: "message_value option \<Rightarrow> string option \<Rightarrow> pydict option \<Rightarrow> llm_guard_result" where
  "block msg reason state =
     \<lparr>lr_action = Block, lr_request = None, lr_response = None, lr_message = msg,
      lr_reason = reason, lr_state = state\<rparr>"

definition terminate :: "message_value option \<Rightarrow> string option \<Rightarrow> pydict option \<Rightarrow> llm_guard_result" where
  "terminate msg reason state =
     \<lparr>lr_action = Terminate, lr_request = None, lr_response = None, lr_message = msg,
      lr_reason = reason, lr_state = state\<rparr>"

record llm_guard_fn =
  lg_id :: nat
  lg_name :: string
  lg_callable :: bool

record llm_guard_context =
  lc_guard_name :: string
  lc_timing :: llm_guard_timing
  lc_request :: pydict
  lc_response :: "pydict option"
  lc_state :: pydict
  lc_stream_id :: "string option"
  lc_activity_options :: activity_options
  lc_activity_count :: nat
  lc_used_unstepped_activity :: bool

definition llm_guard_activity ::
  "string res \<Rightarrow> string option \<Rightarrow> pydict \<Rightarrow> activity_options option \<Rightarrow> activity_options \<Rightarrow> string option
   \<Rightarrow> (llm_guard_context, guard_activity_request activity_call) op" where
  "llm_guard_activity ref step args options kw activity_id ctx =
     (case record_routed_activity_call (''LLM guard '' @ lc_guard_name ctx) step
             (lc_activity_count ctx) (lc_used_unstepped_activity ctx) of
        Inl e \<Rightarrow> (Inl e, ctx)
      | Inr (n, unstepped) \<Rightarrow>
          (res_bind ref (\<lambda>r. Inr (execute_routed_activity ''agent_harness.run_guard_activity''
             \<lparr>gq_function_ref = r, gq_args = args, gq_guard_name = lc_guard_name ctx, gq_step = step,
              gq_stream_id = lc_stream_id ctx\<rparr>
             (''llm_guard:'' @ timing_text (lc_timing ctx) @ '':'' @ lc_guard_name ctx) step
             (lc_activity_options ctx) options kw activity_id)),
           ctx\<lparr>lc_activity_count := n, lc_used_unstepped_activity := unstepped\<rparr>))"

record llm_guard_execution =
  le_request :: pydict
  le_response :: "pydict option"
  le_state :: pydict
  le_action :: llm_guard_action
  le_reason :: "string option"

definition halted :: "llm_guard_execution \<Rightarrow> bool" where
  "halted e = (le_action e \<noteq> Continue)"

definition terminated :: "llm_guard_execution \<Rightarrow> bool" where
  "terminated e = (le_action e = Terminate)"

section \<open>Responses a guard puts in place\<close>

definition message_from_value :: "message_value \<Rightarrow> pydict" where
  "message_from_value msg =
     (case msg of
        MessageText s \<Rightarrow> [(''role'', PStr ''assistant''), (''content'', PStr s)]
      | MessageDict d \<Rightarrow> dict_setdefault ''role'' (PStr ''assistant'') d)"

definition blocked_text :: string where
  "blocked_text = ''The response was blocked by an LLM guard.''"

definition empty_guard_response :: "string \<Rightarrow> string \<Rightarrow> pydict" where
  "empty_guard_response model guard_name =
     [(''id'', PStr (''guard:'' @ guard_name)), (''model'', PStr model),
      (''message'', PDict (message_from_value (MessageText blocked_text))),
      (''stop_reason'', PStr ''refusal''), (''stop_sequence'', PNone), (''usage'', PDict [])]"

text \<open>\<open>response or _empty_guard_response(...)\<close>\<close>

definition response_or_empty :: "pydict option \<Rightarrow> string \<Rightarrow> string \<Rightarrow> pydict" where
  "response_or_empty response model guard_name =
     (case response of Some (x # xs) \<Rightarrow> x # xs | _ \<Rightarrow> empty_guard_response model guard_name)"

definition response_with_message :: "pydict option \<Rightarrow> message_value \<Rightarrow> string \<Rightarrow> string \<Rightarrow> pydict" where
  "response_with_message response msg model guard_name =
     dict_set ''message'' (PDict (message_from_value msg)) (response_or_empty response model guard_name)"

definition message_or_blocked :: "message_value option \<Rightarrow> message_value" where
  "message_or_blocked msg =
     (case msg of
        Some (MessageText (c # cs)) \<Rightarrow> MessageText (c # cs)
      | Some (MessageDict (x # xs)) \<Rightarrow> MessageDict (x # xs)
      | _ \<Rightarrow> MessageText blocked_text)"

definition blocked_response :: "pydict option \<Rightarrow> message_value option \<Rightarrow> string \<Rightarrow> string \<Rightarrow> pydict" where
  "blocked_response response msg model guard_name =
     dict_set ''stop_sequence'' PNone
       (dict_set ''stop_reason'' (PStr ''refusal'')
         (dict_set ''message'' (PDict (message_from_value (message_or_blocked msg)))
           (response_or_empty response model guard_name)))"

section \<open>Running the guards\<close>

text \<open>What a guard function returned: \<open>None\<close>, an \<open>LlmGuardResult\<close> or something else.\<close>

datatype llm_guard_return = GaveNothing | GaveResult llm_guard_result | GaveOther

type_synonym 'w llm_guard_semantics =
  "llm_guard_fn \<Rightarrow> llm_guard_context \<Rightarrow> ('w, llm_guard_return \<times> llm_guard_context) op"

definition call_llm_guard ::
  "'w llm_guard_semantics \<Rightarrow> llm_guard_fn \<Rightarrow> llm_guard_context \<Rightarrow> ('w, llm_guard_result \<times> llm_guard_context) op" where
  "call_llm_guard run_llm_guard f ctx =
     op_bind (run_llm_guard f ctx) (\<lambda>(r, ctx').
       case r of
         GaveNothing \<Rightarrow> op_return (allow None None None None, ctx')
       | GaveResult result \<Rightarrow> op_return (result, ctx')
       | GaveOther \<Rightarrow> op_raise (type_error (''LLM guard '' @ lg_name f @ '' must return LlmGuardResult'')))"

definition dict_or :: "pydict option \<Rightarrow> pydict \<Rightarrow> pydict" where
  "dict_or a b = (case a of Some (x # xs) \<Rightarrow> x # xs | _ \<Rightarrow> b)"

definition model_of :: "pydict \<Rightarrow> string" where
  "model_of request = py_str (py_or (dict_get_none request ''model'') (PStr ''guarded''))"

text \<open>
  What a guard's result makes of the current request, response and state, before the test of its
  action. \<open>dict_update\<close> needs no copy: values are immutable here.
\<close>

definition apply_result ::
  "llm_guard_fn \<Rightarrow> llm_guard_result \<Rightarrow> llm_guard_context \<Rightarrow> pydict option \<Rightarrow> pydict \<times> pydict option \<times> pydict" where
  "apply_result g result ctx current_response =
     (let request = dict_or (lr_request result) (lc_request ctx);
          response = (if current_response \<noteq> None \<or> lr_response result \<noteq> None
                      then Some (dict_or (lr_response result) (dict_or (lc_response ctx) []))
                      else current_response);
          state = (case lr_state result of
                     None \<Rightarrow> lc_state ctx
                   | Some d \<Rightarrow> dict_update (lc_state ctx) d);
          response = (case lr_message result of
                        None \<Rightarrow> response
                      | Some msg \<Rightarrow> Some (response_with_message response msg (model_of request) (lg_name g)))
      in (request, response, state))"

text \<open>\<open>LlmGuardPipeline._execute\<close>, from the current request, response and state.\<close>

fun execute_llm_guards ::
  "'w llm_guard_semantics \<Rightarrow> llm_guard_timing \<Rightarrow> string option \<Rightarrow> activity_options
   \<Rightarrow> llm_guard_fn list \<Rightarrow> pydict \<Rightarrow> pydict option \<Rightarrow> pydict \<Rightarrow> ('w, llm_guard_execution) op" where
  "execute_llm_guards run_llm_guard timing stream_id options [] request response state =
     op_return \<lparr>le_request = request, le_response = response, le_state = state,
       le_action = Continue, le_reason = None\<rparr>"
| "execute_llm_guards run_llm_guard timing stream_id options (g # guards) request response state =
     op_bind (call_llm_guard run_llm_guard g
         \<lparr>lc_guard_name = lg_name g, lc_timing = timing, lc_request = request, lc_response = response,
          lc_state = state, lc_stream_id = stream_id, lc_activity_options = options,
          lc_activity_count = 0, lc_used_unstepped_activity = False\<rparr>)
       (\<lambda>(result, ctx).
          case apply_result g result ctx response of
            (request', response', state') \<Rightarrow>
              (if lr_action result \<noteq> Continue
               then op_return \<lparr>le_request = request',
                 le_response = Some (blocked_response response' (lr_message result) (model_of request') (lg_name g)),
                 le_state = state', le_action = lr_action result, le_reason = lr_reason result\<rparr>
               else execute_llm_guards run_llm_guard timing stream_id options guards request' response' state'))"

record llm_guard_pipeline =
  lp_pre_guards :: "llm_guard_fn list"
  lp_post_guards :: "llm_guard_fn list"

definition guard_list :: "llm_guard_fn list \<Rightarrow> llm_guard_fn list res" where
  "guard_list guards =
     (if list_all lg_callable guards then Inr guards else Inl (type_error ''LLM guards must be callable''))"

definition LlmGuardPipeline :: "llm_guard_fn list \<Rightarrow> llm_guard_fn list \<Rightarrow> llm_guard_pipeline res" where
  "LlmGuardPipeline pre post =
     res_bind (guard_list pre) (\<lambda>pre. res_bind (guard_list post) (\<lambda>post.
       Inr \<lparr>lp_pre_guards = pre, lp_post_guards = post\<rparr>))"

definition execute_pre ::
  "'w llm_guard_semantics \<Rightarrow> llm_guard_pipeline \<Rightarrow> pydict \<Rightarrow> pydict \<Rightarrow> string option \<Rightarrow> activity_options
   \<Rightarrow> ('w, llm_guard_execution) op" where
  "execute_pre run_llm_guard p request state stream_id options =
     execute_llm_guards run_llm_guard LlmPre stream_id options (lp_pre_guards p) request None state"

definition execute_post ::
  "'w llm_guard_semantics \<Rightarrow> llm_guard_pipeline \<Rightarrow> pydict \<Rightarrow> pydict \<Rightarrow> pydict \<Rightarrow> string option \<Rightarrow> activity_options
   \<Rightarrow> ('w, llm_guard_execution) op" where
  "execute_post run_llm_guard p request response state stream_id options =
     execute_llm_guards run_llm_guard LlmPost stream_id options (lp_post_guards p) request (Some response) state"

section \<open>Properties\<close>

lemma dict_get_set_simps [simp]:
  "dict_get (dict_set k v d) k = Some v"
  "k' \<noteq> k \<Longrightarrow> dict_get (dict_set k v d) k' = dict_get d k'"
  by (simp_all add: dict_get_set)

lemma message_or_blocked_role:
  "\<exists>r. dict_get (message_from_value (message_or_blocked msg)) ''role'' = Some r"
  by (auto simp: message_from_value_def dict_setdefault_def map_add_def split: message_value.split option.splits)

lemma execute_llm_guards_response:
  "execute_llm_guards run_llm_guard timing stream_id options guards request response state w = (Inr e, w') \<Longrightarrow>
   (halted e \<longrightarrow> (\<exists>d m r. le_response e = Some d \<and> dict_get d ''stop_reason'' = Some (PStr ''refusal'') \<and>
      dict_get d ''stop_sequence'' = Some PNone \<and> dict_get d ''message'' = Some (PDict m) \<and>
      dict_get m ''role'' = Some r)) \<and>
   (response \<noteq> None \<longrightarrow> le_response e \<noteq> None)"
proof (induction guards arbitrary: request response state w)
  case Nil
  then show ?case by (auto simp: halted_def)
next
  case (Cons g guards)
  from Cons.prems obtain result ctx w1 where call: "call_llm_guard run_llm_guard g
      \<lparr>lc_guard_name = lg_name g, lc_timing = timing, lc_request = request, lc_response = response,
       lc_state = state, lc_stream_id = stream_id, lc_activity_options = options,
       lc_activity_count = 0, lc_used_unstepped_activity = False\<rparr> w = (Inr (result, ctx), w1)"
    by (auto simp: op_bind_run split: prod.splits sum.splits)
  obtain request' response' state' where after: "apply_result g result ctx response = (request', response', state')"
    by (cases "apply_result g result ctx response") auto
  have kept: "response \<noteq> None \<Longrightarrow> response' \<noteq> None"
    using after by (auto simp: apply_result_def Let_def split: option.splits)
  show ?case
  proof (cases "lr_action result = Continue")
    case True
    with Cons.prems call after
    have "execute_llm_guards run_llm_guard timing stream_id options guards request' response' state' w1 = (Inr e, w')"
      by (simp add: op_bind_run)
    from Cons.IH [OF this] kept show ?thesis by blast
  next
    case False
    with Cons.prems call after message_or_blocked_role [of "lr_message result"] show ?thesis
      by (auto simp: op_bind_run blocked_response_def halted_def)
  qed
qed

text \<open>
  When a guard blocks or terminates, the pipeline returns a response that can be recorded and
  shown: its stop reason is a refusal, it has no stop sequence, and it carries a message with a
  role; when no guard halts, the action is continue and a response is returned exactly when
  there was one before or a guard supplied one.
\<close>

theorem halted_response_is_refusal:
  assumes "execute_llm_guards run_llm_guard timing stream_id options guards request response state w = (Inr e, w')"
  shows "(halted e \<longrightarrow> (\<exists>d m r. le_response e = Some d \<and> dict_get d ''stop_reason'' = Some (PStr ''refusal'') \<and>
      dict_get d ''stop_sequence'' = Some PNone \<and> dict_get d ''message'' = Some (PDict m) \<and>
      dict_get m ''role'' = Some r)) \<and>
    (response \<noteq> None \<longrightarrow> le_response e \<noteq> None)"
  using assms by (rule execute_llm_guards_response)

definition blocking_guard :: "nat llm_guard_semantics" where
  "blocking_guard = (\<lambda>g ctx w. (Inr (GaveResult (block (Some (MessageText ''no'')) None None), ctx), w + 1))"

definition sample_llm_guard :: llm_guard_fn where
  "sample_llm_guard = \<lparr>lg_id = 0, lg_name = ''pii'', lg_callable = True\<rparr>"

lemma blocking_run:
  "\<exists>e. execute_llm_guards blocking_guard LlmPre None ActivityOptions [sample_llm_guard] [] None [] 0
     = (Inr e, 1) \<and> halted e"
  by (simp add: op_bind_def call_llm_guard_def blocking_guard_def block_def apply_result_def Let_def halted_def)

theorem halted_response_is_refusal_witness:
  "\<exists>e d. execute_llm_guards blocking_guard LlmPre None ActivityOptions [sample_llm_guard] [] None [] 0 = (Inr e, 1)
     \<and> le_response e = Some d \<and> dict_get d ''stop_reason'' = Some (PStr ''refusal'')"
proof -
  obtain e where e: "execute_llm_guards blocking_guard LlmPre None ActivityOptions [sample_llm_guard] [] None [] 0
     = (Inr e, 1)" "halted e"
    using blocking_run by blast
  from halted_response_is_refusal [OF e(1)] e show ?thesis by blast
qed

text \<open>
  The guards run in order and the first one that halts decides: if running the first guards
  halts or raises, the outcome is the same whatever guards follow, and they are not called; and
  otherwise the remaining guards run on the request, the response and the state the first ones
  left.
\<close>

theorem first_halting_guard_decides:
  "execute_llm_guards run_llm_guard timing stream_id options (guards @ rest) request response state w =
   (case execute_llm_guards run_llm_guard timing stream_id options guards request response state w of
      (Inl e, w') \<Rightarrow> (Inl e, w')
    | (Inr e, w') \<Rightarrow>
        if halted e then (Inr e, w')
        else execute_llm_guards run_llm_guard timing stream_id options rest
          (le_request e) (le_response e) (le_state e) w')"
proof (induction guards arbitrary: request response state w)
  case Nil
  then show ?case by (simp add: halted_def)
next
  case (Cons g guards)
  then show ?case
    by (auto simp: op_bind_run halted_def split: prod.split sum.split)
qed

end
