(* ===== verification/Messages.thy ===== *)
theory Messages
  imports Prelude
begin

text \<open>
  \<open>agent_harness/messages.py\<close>: the provider-neutral conversation messages.

  A message on the wire is a dictionary \<open>{"role": ..., "content": ...}\<close> (\<open>pydict\<close>). A message
  the harness itself has built with \<open>message(role, content)\<close> has exactly these two keys; it is
  the record \<open>agent_message\<close>, and \<open>message_dict\<close> is the dictionary it stands for. A block is a
  dictionary throughout. \<open>copy.deepcopy\<close> is the identity on values.
\<close>

datatype agent_role = User | Assistant

datatype content = Text string | Blocks "pydict list"

record agent_message =
  msg_role :: agent_role
  msg_content :: content

definition role_str :: "agent_role \<Rightarrow> string" where
  "role_str r = (case r of User \<Rightarrow> ''user'' | Assistant \<Rightarrow> ''assistant'')"

definition CONTEXT_COMPACTION_MARKER :: string where
  "CONTEXT_COMPACTION_MARKER = ''context_compaction_marker''"

definition CONTEXT_COMPACTION_MARKER_TEXT :: string where
  "CONTEXT_COMPACTION_MARKER_TEXT =
     ''Older conversation existed here, but it was dropped during context '' @
     ''compaction. The retained conversation below is the bounded context that '' @
     ''remains available.''"

definition message :: "agent_role \<Rightarrow> content \<Rightarrow> agent_message" where
  "message r c = \<lparr>msg_role = r, msg_content = c\<rparr>"

definition text_message :: "agent_role \<Rightarrow> string \<Rightarrow> agent_message" where
  "text_message r t = message r (Text t)"

definition text_block :: "string \<Rightarrow> pydict" where
  "text_block t = [(''type'', PStr ''text''), (''text'', PStr t)]"

text \<open>The default of \<open>reason\<close> is \<open>older_messages_dropped\<close>.\<close>

definition context_compaction_marker_block :: "int option \<Rightarrow> string \<Rightarrow> pydict" where
  "context_compaction_marker_block dropped_messages reason =
     [(''type'', PStr CONTEXT_COMPACTION_MARKER),
      (''text'', PStr CONTEXT_COMPACTION_MARKER_TEXT),
      (''reason'', PStr reason)] @
     (case dropped_messages of None \<Rightarrow> [] | Some n \<Rightarrow> [(''dropped_messages'', PInt (max 0 n))])"

definition tool_use_block :: "pyval \<Rightarrow> pyval \<Rightarrow> pydict \<Rightarrow> pydict option \<Rightarrow> pydict" where
  "tool_use_block tool_use_id name inp provider =
     [(''type'', PStr ''tool_use''), (''id'', tool_use_id), (''name'', name), (''input'', PDict inp)] @
     (case provider of None \<Rightarrow> [] | Some p \<Rightarrow> [(''provider'', PDict p)])"

definition tool_result_block :: "pyval \<Rightarrow> string \<Rightarrow> bool \<Rightarrow> pydict option \<Rightarrow> pydict" where
  "tool_result_block tool_use_id cont is_error provider =
     [(''type'', PStr ''tool_result''), (''tool_use_id'', tool_use_id), (''content'', PStr cont),
      (''is_error'', PBool is_error)] @
     (case provider of None \<Rightarrow> [] | Some p \<Rightarrow> [(''provider'', PDict p)])"

definition provider_block :: "string \<Rightarrow> string \<Rightarrow> pydict \<Rightarrow> pydict" where
  "provider_block provider provider_type data =
     [(''type'', PStr ''provider''), (''provider'', PStr provider),
      (''provider_type'', PStr provider_type), (''data'', PDict data)]"

definition block_mapping :: "pyval \<Rightarrow> pydict" where
  "block_mapping v = (case v of PDict d \<Rightarrow> d | _ \<Rightarrow> [])"

definition block_type_is :: "pydict \<Rightarrow> string \<Rightarrow> bool" where
  "block_type_is b ty = (dict_get b ''type'' = Some (PStr ty))"

definition normalize_block :: "pyval \<Rightarrow> pydict res" where
  "normalize_block value =
     (let block = block_mapping value in
      if block = [] then Inl (value_error ''Agent message block must be a dict-like object'')
      else if \<not> is_str (dict_get_none block ''type'')
      then Inl (value_error ''Agent message block type must be a string'')
      else Inr block)"

text \<open>The role check \<open>role not in ("user", "assistant")\<close>, with the role it lets through.\<close>

definition parse_role :: "pyval \<Rightarrow> agent_role option" where
  "parse_role v = (if v = PStr ''user'' then Some User
     else if v = PStr ''assistant'' then Some Assistant else None)"

definition normalize_message :: "pydict \<Rightarrow> agent_message res" where
  "normalize_message value =
     (case parse_role (dict_get_none value ''role'') of
        None \<Rightarrow> Inl (value_error
          (''Invalid agent message role: '' @ py_str (dict_get_none value ''role'')))
      | Some r \<Rightarrow>
          (case dict_get_none value ''content'' of
             PStr s \<Rightarrow> Inr (message r (Text s))
           | PList bs \<Rightarrow> res_bind (res_map normalize_block bs) (\<lambda>blocks. Inr (message r (Blocks blocks)))
           | _ \<Rightarrow> Inl (value_error ''Agent message content must be a string or list'')))"

definition text_from_block :: "pyval \<Rightarrow> string" where
  "text_from_block value =
     (let block = block_mapping value in
      if block_type_is block ''text''
      then (case dict_get_none block ''text'' of PStr t \<Rightarrow> t | _ \<Rightarrow> [])
      else if block_type_is block ''refusal''
      then (case dict_get_none block ''refusal'' of PStr t \<Rightarrow> t | _ \<Rightarrow> [])
      else if block_type_is block CONTEXT_COMPACTION_MARKER
      then (case dict_get_none block ''text'' of PStr t \<Rightarrow> t | _ \<Rightarrow> CONTEXT_COMPACTION_MARKER_TEXT)
      else [])"

definition message_text :: "pydict \<Rightarrow> string" where
  "message_text value =
     (case dict_get_none value ''content'' of
        PStr s \<Rightarrow> s
      | PList bs \<Rightarrow> concat (map text_from_block bs)
      | _ \<Rightarrow> [])"

definition visible_user_message_text :: "pydict \<Rightarrow> string" where
  "visible_user_message_text value =
     (case dict_get_none value ''content'' of
        PStr s \<Rightarrow> s
      | PList bs \<Rightarrow>
          py_join newline
            (filter (\<lambda>t. \<not> py_startswith (py_lstrip t) ''<attachments>'' \<and> t \<noteq> [])
              (map text_from_block bs))
      | _ \<Rightarrow> [])"

definition tool_use_blocks :: "pydict \<Rightarrow> pydict list" where
  "tool_use_blocks value =
     (case dict_get_none value ''content'' of
        PList bs \<Rightarrow> filter (\<lambda>b. block_type_is b ''tool_use'') (map block_mapping bs)
      | _ \<Rightarrow> [])"

definition json_content :: "pyval \<Rightarrow> string" where
  "json_content v = json_dumps v"

section \<open>The dictionary a built message stands for\<close>

definition content_value :: "content \<Rightarrow> pyval" where
  "content_value c = (case c of Text s \<Rightarrow> PStr s | Blocks bs \<Rightarrow> PList (map PDict bs))"

definition message_dict :: "agent_message \<Rightarrow> pydict" where
  "message_dict m = [(''role'', PStr (role_str (msg_role m))),
                     (''content'', content_value (msg_content m))]"

text \<open>
  Well-formed blocks and messages: what \<open>normalize_message\<close> lets into a conversation.
\<close>

definition wf_block :: "pydict \<Rightarrow> bool" where
  "wf_block b = (is_str (dict_get_none b ''type''))"

definition content_blocks :: "content \<Rightarrow> pydict list" where
  "content_blocks c = (case c of Text _ \<Rightarrow> [] | Blocks bs \<Rightarrow> bs)"

definition wf_message :: "agent_message \<Rightarrow> bool" where
  "wf_message m = list_all wf_block (content_blocks (msg_content m))"

lemma wf_block_nonempty: "wf_block b \<Longrightarrow> b \<noteq> []"
  by (auto simp: wf_block_def dict_get_none_def)

lemma normalize_block_PDict: "wf_block b \<Longrightarrow> normalize_block (PDict b) = Inr b"
  using wf_block_nonempty [of b]
  by (simp add: normalize_block_def block_mapping_def wf_block_def Let_def)

lemma normalize_block_wf: "normalize_block v = Inr b \<Longrightarrow> wf_block b"
  by (auto simp: normalize_block_def wf_block_def Let_def split: if_splits)

lemma normalize_blocks_wf:
  assumes "res_map normalize_block vs = Inr bs"
  shows "list_all wf_block bs"
proof -
  from assms have "list_all2 (\<lambda>v b. normalize_block v = Inr b) vs bs"
    by (rule res_map_Inr_list_all2)
  then have "list_all2 (\<lambda>v b. wf_block b) vs bs"
    by (rule list_all2_mono) (rule normalize_block_wf)
  then show ?thesis
    by (auto simp: list_all2_conv_all_nth list_all_length)
qed

lemma parse_role_role_str [simp]: "parse_role (PStr (role_str r)) = Some r"
  by (cases r) (simp_all add: role_str_def parse_role_def)

lemma message_dict_get [simp]:
  "dict_get_none (message_dict m) ''role'' = PStr (role_str (msg_role m))"
  "dict_get_none (message_dict m) ''content'' = content_value (msg_content m)"
  by (simp_all add: dict_get_none_def message_dict_def)

lemma normalize_message_wf: "normalize_message d = Inr m \<Longrightarrow> wf_message m"
  by (auto simp: normalize_message_def wf_message_def message_def content_blocks_def
      res_bind_eq_Inr dest: normalize_blocks_wf split: option.splits pyval.splits)

lemma normalize_message_dict:
  assumes "wf_message m"
  shows "normalize_message (message_dict m) = Inr m"
proof (cases "msg_content m")
  case (Text s)
  then show ?thesis
    by (cases m) (simp add: normalize_message_def content_value_def message_def)
next
  case (Blocks bs)
  with assms have "res_map normalize_block (map PDict bs) = Inr (map (\<lambda>v. block_mapping v) (map PDict bs))"
    by (intro res_map_Inr_map)
      (auto simp: wf_message_def content_blocks_def list_all_iff normalize_block_PDict block_mapping_def)
  with Blocks show ?thesis
    by (cases m) (simp add: normalize_message_def content_value_def message_def block_mapping_def comp_def)
qed

lemma message_simps [simp]:
  "msg_role (message r c) = r"
  "msg_content (message r c) = c"
  by (simp_all add: message_def)

end
