(* ===== verification/ProviderInterface.thy ===== *)
theory ProviderInterface
  imports LlmGuards Messages
begin

text \<open>
  \<open>agent_harness/providers/interface.py\<close>, \<open>providers/_shared.py\<close>, \<open>providers/errors.py\<close> and the
  error classes of \<open>agent_harness/errors.py\<close>: what the agent asks of a provider, and the helpers
  the providers share.
\<close>

section \<open>Requests and responses\<close>

definition CONTEXT_WINDOW_EXCEEDED_ERROR_TYPE :: string where
  "CONTEXT_WINDOW_EXCEEDED_ERROR_TYPE = ''ContextWindowExceeded''"

record provider_request =
  pq_system_prompt :: string
  pq_model :: string
  pq_max_tokens :: int
  pq_tools :: "pydict list"
  pq_chat_history :: "pydict list"
  pq_context_token_limit :: "int option"
  pq_stream_id :: "string option"
  pq_stream_sequence :: "int option"
  pq_stream_attempt :: "int option"

record provider_response =
  pr_id :: string
  pr_model :: string
  pr_message :: pydict
  pr_stop_reason :: "string option"
  pr_stop_sequence :: "string option"
  pr_usage :: pydict
  pr_guard_action :: "string option"
  pr_guard_reason :: "string option"
  pr_stop_details :: "pydict option"

text \<open>
  The \<open>AgentProvider\<close> protocol as the value an agent is constructed with. \<open>create_request\<close> takes
  the fields of the request it builds. The two fields \<open>activity\<close> and \<open>activity_options\<close> reach
  \<open>workflow.start_activity\<close> only, whose outcome is the environment's.
\<close>

record provider =
  pv_name :: string
  pv_activity_options :: activity_options
  pv_estimate_request_tokens :: "string \<Rightarrow> pydict list \<Rightarrow> int"
  pv_create_request :: "provider_request \<Rightarrow> provider_request res"
  pv_request_chat_history :: "provider_request \<Rightarrow> pydict list res"
  pv_replace_request_chat_history :: "provider_request \<Rightarrow> pydict list \<Rightarrow> provider_request res"
  pv_replace_request_stream_attempt :: "provider_request \<Rightarrow> int option \<Rightarrow> provider_request"
  pv_request_to_dict :: "provider_request \<Rightarrow> pydict"
  pv_request_from_dict :: "pydict \<Rightarrow> provider_request res"
  pv_response_to_dict :: "provider_response \<Rightarrow> pydict"
  pv_response_from_dict :: "pydict \<Rightarrow> provider_response res"
  pv_response_from_guard_execution :: "llm_guard_execution \<Rightarrow> string \<Rightarrow> provider_response res"
  pv_response_with_visible_refusal :: "provider_response \<Rightarrow> provider_response res"
  pv_response_message :: "provider_response \<Rightarrow> pydict res"
  pv_stop_reason_for_max_turns :: string

section \<open>Shared helpers\<close>

definition copy_mapping :: "pyval \<Rightarrow> pydict" where
  "copy_mapping v = (case v of PDict d \<Rightarrow> d | _ \<Rightarrow> [])"

definition copy_optional_mapping :: "pyval \<Rightarrow> pydict option" where
  "copy_optional_mapping v = (if v = PNone then None else Some (copy_mapping v))"

definition mapping_list :: "pyval \<Rightarrow> pydict list" where
  "mapping_list v = (case v of PList xs \<Rightarrow> map copy_mapping xs | _ \<Rightarrow> [])"

definition optional_object_to_dict :: "pyval \<Rightarrow> pydict option" where
  "optional_object_to_dict v = (case copy_mapping v of [] \<Rightarrow> None | d \<Rightarrow> Some d)"

text \<open>\<open>json_object\<close>; \<open>json.loads\<close> is the parameter, \<open>None\<close> for a \<open>JSONDecodeError\<close>.\<close>

definition json_object :: "(string \<Rightarrow> pyval option) \<Rightarrow> string \<Rightarrow> pydict" where
  "json_object loads s =
     (if s = [] then []
      else (case loads s of
              Some (PDict d) \<Rightarrow> d
            | _ \<Rightarrow> []))"

definition provider_metadata :: "string \<Rightarrow> string \<Rightarrow> pydict \<Rightarrow> pydict" where
  "provider_metadata provider_name provider_type data =
     [(''name'', PStr provider_name), (''type'', PStr provider_type), (''data'', PDict data)]"

definition provider_data :: "pydict \<Rightarrow> string \<Rightarrow> pydict option" where
  "provider_data b provider_name =
     (case dict_get_none b ''provider'' of
        PDict metadata \<Rightarrow>
          (if dict_get_none metadata ''name'' \<noteq> PStr provider_name then None
           else (case dict_get_none metadata ''data'' of PDict d \<Rightarrow> Some d | _ \<Rightarrow> None))
      | _ \<Rightarrow> None)"

definition opt_str :: "string option \<Rightarrow> pyval" where
  "opt_str s = (case s of None \<Rightarrow> PNone | Some t \<Rightarrow> PStr t)"

definition guard_response_dict :: "llm_guard_execution \<Rightarrow> string \<Rightarrow> pydict \<Rightarrow> string \<Rightarrow> pydict" where
  "guard_response_dict execution model msg stop_reason =
     dict_set ''guard_reason'' (opt_str (le_reason execution))
       (dict_set ''guard_action'' (PStr (action_text (le_action execution)))
         (case le_response execution of
            Some (x # xs) \<Rightarrow> x # xs
          | _ \<Rightarrow> [(''id'', PStr ''guard:llm''), (''model'', PStr model), (''message'', PDict msg),
                 (''stop_reason'', PStr stop_reason), (''stop_sequence'', PNone), (''usage'', PDict [])]))"

definition non_retryable_http_status :: "int option \<Rightarrow> bool" where
  "non_retryable_http_status status_code =
     (case status_code of
        None \<Rightarrow> False
      | Some c \<Rightarrow> if c \<in> {408, 409, 429} then False else 400 \<le> c \<and> c < 500)"

definition needs_refusal_fallback :: "string option \<Rightarrow> string set \<Rightarrow> string option \<Rightarrow> string \<Rightarrow> bool" where
  "needs_refusal_fallback stop_reason refusal_stop_reasons guard_action response_text =
     (if (case stop_reason of None \<Rightarrow> True | Some r \<Rightarrow> r \<notin> refusal_stop_reasons) then False
      else if guard_action \<noteq> None then False
      else py_strip response_text = [])"

definition refusal_fallback_text :: "string \<Rightarrow> string \<Rightarrow> string" where
  "refusal_fallback_text fallback details_text =
     (if details_text = [] then fallback else fallback @ newline @ newline @ details_text)"

section \<open>Context window errors\<close>

definition context_markers :: "string list" where
  "context_markers =
     [''context length'', ''context window'', ''maximum context'', ''prompt is too long'',
      ''prompt too long'', ''prompt exceeds'', ''input is too long'', ''input too long'',
      ''input tokens'', ''messages are too long'', ''request too large'']"

definition looks_like_context_window_error :: "string \<Rightarrow> bool" where
  "looks_like_context_window_error msg =
     (let t = py_lower msg in
      if list_ex (\<lambda>marker. py_contains marker t) context_markers then True
      else if \<not> py_contains ''token'' t \<and> \<not> py_contains ''tokens'' t then False
      else if py_contains ''max_tokens'' t \<or> py_contains ''max_output_tokens'' t then False
      else list_ex (\<lambda>marker. py_contains marker t) [''prompt'', ''input'', ''context'', ''messages''])"

definition status_error_is_context_window_exceeded :: "int option \<Rightarrow> string \<Rightarrow> bool" where
  "status_error_is_context_window_exceeded status_code msg =
     (if status_code \<noteq> Some 400 \<and> status_code \<noteq> Some 413 then False
      else looks_like_context_window_error msg)"

definition counted_tokens_exceed_context :: "int \<Rightarrow> int \<Rightarrow> int option \<Rightarrow> bool" where
  "counted_tokens_exceed_context input_tokens max_output_tokens context_token_limit =
     (case context_token_limit of
        None \<Rightarrow> False
      | Some limit \<Rightarrow> input_tokens + max_output_tokens > limit)"

definition counted_context_window_message :: "string \<Rightarrow> int \<Rightarrow> int \<Rightarrow> int \<Rightarrow> string" where
  "counted_context_window_message provider_name input_tokens max_output_tokens limit =
     provider_name @ '' counted '' @ int_str input_tokens @ '' input tokens plus '' @
     int_str max_output_tokens @ '' reserved output tokens, exceeding the configured '' @
     ''context limit of '' @ int_str limit @ ''.''"

section \<open>User-facing errors\<close>

text \<open>\<open>UserFacingAgentError(message, error_type, payload)\<close>; \<open>cls\<close> is the class name.\<close>

definition user_facing_agent_error :: "string \<Rightarrow> string \<Rightarrow> string option \<Rightarrow> pydict option \<Rightarrow> py_exn" where
  "user_facing_agent_error cls msg error_type payload =
     PyExn (ExcUserFacingAgent (case error_type of Some (c # cs) \<Rightarrow> c # cs | _ \<Rightarrow> cls) payload) msg None None"

definition user_facing_tool_error :: "string \<Rightarrow> string \<Rightarrow> string option \<Rightarrow> pydict option \<Rightarrow> py_exn" where
  "user_facing_tool_error cls msg error_type payload =
     PyExn (ExcUserFacingTool (case error_type of Some (c # cs) \<Rightarrow> c # cs | _ \<Rightarrow> cls) payload) msg None None"

definition to_tool_payload :: "string \<Rightarrow> pydict option \<Rightarrow> string \<Rightarrow> pydict" where
  "to_tool_payload error_type payload msg =
     (case payload of
        Some d \<Rightarrow> d
      | None \<Rightarrow> [(''error'', PStr msg), (''type'', PStr error_type)])"

end
