(* ===== verification/Tools.thy ===== *)
theory Tools
  imports Guards
begin

text \<open>
  \<open>agent_harness/tools.py\<close>: the registry of tools, its registration paths and the execution of a
  tool between its guards.

  The parameters are the behaviour of the functions (\<open>run_guard\<close>, \<open>run_tool\<close>), pydantic's schema
  generator (\<open>schema_of\<close>) and SHA-256 (\<open>sha256\<close>).
\<close>

section \<open>Tools and their metadata\<close>

datatype guard_reference = GuardFunction guard_fn | GuardName string

record tool_metadata =
  tm_name :: string
  tm_description :: string
  tm_tool_type :: string
  tm_pre_guards :: "guard_reference list"
  tm_post_guards :: "guard_reference list"

text \<open>A decorated function or method; it can carry guard metadata, tool metadata, both or none.\<close>

record tool_fn =
  tf_guard :: guard_fn
  tf_metadata :: "tool_metadata option"

abbreviation tool_function :: "tool_fn \<Rightarrow> py_function" where
  "tool_function f \<equiv> gf_function (tf_guard f)"

definition tool :: "string \<Rightarrow> string \<Rightarrow> pyval \<Rightarrow> guard_reference list \<Rightarrow> guard_reference list \<Rightarrow> tool_fn \<Rightarrow> tool_fn res" where
  "tool name description tool_type pre_guards post_guards f =
     res_bind (normalize_tool_category tool_type) (\<lambda>category.
       Inr (f\<lparr>tf_metadata := Some \<lparr>tm_name = name, tm_description = description, tm_tool_type = category,
         tm_pre_guards = pre_guards, tm_post_guards = post_guards\<rparr>\<rparr>))"

datatype args_mode = Signature | Raw

record tool_def =
  td_schema :: pydict
  td_tool_type :: string
  td_fn :: tool_fn
  td_pre_guards :: "guard_def list"
  td_post_guards :: "guard_def list"
  td_args_mode :: args_mode

record tool_set =
  tool_registry :: "(string \<times> tool_def) list"
  ts_guards :: guard_set

section \<open>The tool context\<close>

text \<open>
  The fields of a \<open>ToolContext\<close> but its reference to the tool set: \<open>tool_names\<close> and
  \<open>tool_schemas\<close> of the context are those of the tool set below.
\<close>

record tool_context =
  tc_tool_name :: string
  tc_stream_id :: "string option"
  tc_tool_call_id :: "string option"
  tc_activity_options :: activity_options
  tc_activity_count :: nat
  tc_used_unstepped_activity :: bool

fun json_sort_keys :: "pyval \<Rightarrow> pyval" where
  "json_sort_keys (PList xs) = PList (map json_sort_keys xs)"
| "json_sort_keys (PDict d) = PDict (sort_key fst (map (\<lambda>(k, v). (k, json_sort_keys v)) d))"
| "json_sort_keys v = v"

definition idempotency_part :: "pyval \<Rightarrow> string" where
  "idempotency_part value = (case value of PStr s \<Rightarrow> s | _ \<Rightarrow> json_dumps_compact (json_sort_keys value))"

text \<open>\<open>a or b\<close> for an optional string.\<close>

definition str_or :: "string option \<Rightarrow> string \<Rightarrow> string" where
  "str_or a b = (case a of Some (c # cs) \<Rightarrow> c # cs | _ \<Rightarrow> b)"

definition idempotency_key :: "(string \<Rightarrow> string) \<Rightarrow> tool_context \<Rightarrow> pyval list \<Rightarrow> string" where
  "idempotency_key sha256 ctx parts =
     (let components = [str_or (tc_stream_id ctx) ''stream:none'', tc_tool_name ctx,
            str_or (tc_tool_call_id ctx) ''tool-call:none''] @ map idempotency_part parts;
          digest = sha256 (py_join [CHR 0x1F] components)
      in tc_tool_name ctx @ '':'' @ take 32 digest)"

record tool_activity_request =
  tq_function_ref :: string
  tq_args :: pydict
  tq_tool_name :: string
  tq_step :: "string option"
  tq_stream_id :: "string option"

definition tool_activity ::
  "string res \<Rightarrow> string option \<Rightarrow> pydict \<Rightarrow> activity_options option \<Rightarrow> activity_options \<Rightarrow> string option
   \<Rightarrow> (tool_context, tool_activity_request activity_call) op" where
  "tool_activity ref step args options kw activity_id ctx =
     (case record_routed_activity_call (''Tool '' @ tc_tool_name ctx) step
             (tc_activity_count ctx) (tc_used_unstepped_activity ctx) of
        Inl e \<Rightarrow> (Inl e, ctx)
      | Inr (n, unstepped) \<Rightarrow>
          (res_bind ref (\<lambda>r. Inr (execute_routed_activity ''agent_harness.run_tool_activity''
             \<lparr>tq_function_ref = r, tq_args = args, tq_tool_name = tc_tool_name ctx, tq_step = step,
              tq_stream_id = tc_stream_id ctx\<rparr>
             (tc_tool_name ctx) step (tc_activity_options ctx) options kw activity_id)),
           ctx\<lparr>tc_activity_count := n, tc_used_unstepped_activity := unstepped\<rparr>))"

section \<open>Schemas\<close>

text \<open>
  \<open>_input_schema_for_tool\<close>: the fields of the model, each with its annotation and its default
  (\<open>None\<close> for a required field); pydantic turns them into a JSON schema.
\<close>

type_synonym model_fields = "(string \<times> string \<times> pyval option) list"

fun tool_model_fields :: "py_function \<Rightarrow> parameter list \<Rightarrow> model_fields \<Rightarrow> model_fields res" where
  "tool_model_fields f [] model_fields = Inr model_fields"
| "tool_model_fields f (p # ps) model_fields =
     (if par_name p = ''self'' \<or> par_name p = ''cls'' then tool_model_fields f ps model_fields
      else if par_kind p \<in> {PositionalOnly, VarPositional, VarKeyword}
      then Inl (type_error (''Tool '' @ fn_name f @ '' cannot use positional-only, *args, or **kwargs''))
      else (case par_annotation p of
              None \<Rightarrow> Inl (type_error (''Tool parameter '' @ fn_name f @ ''.'' @ par_name p @ '' must be typed''))
            | Some annotation \<Rightarrow>
                (if annotation = ''ToolContext'' then tool_model_fields f ps model_fields
                 else tool_model_fields f ps
                   (AList.update (par_name p) (annotation, par_default p) model_fields))))"

definition input_schema_for_tool :: "(string \<Rightarrow> model_fields \<Rightarrow> pydict res) \<Rightarrow> py_function \<Rightarrow> pydict res" where
  "input_schema_for_tool schema_of f =
     res_bind (tool_model_fields f (fn_params f) []) (schema_of (fn_name f @ ''_ToolInput''))"

section \<open>Registration\<close>

definition get_tool :: "tool_set \<Rightarrow> string \<Rightarrow> tool_def res" where
  "get_tool ts name = (case map_of (tool_registry ts) name of None \<Rightarrow> Inl (key_error name) | Some t \<Rightarrow> Inr t)"

definition tool_names :: "tool_set \<Rightarrow> string list" where
  "tool_names ts = map fst (tool_registry ts)"

definition tool_schemas :: "tool_set \<Rightarrow> string list option \<Rightarrow> pydict list res" where
  "tool_schemas ts names =
     (case names of
        None \<Rightarrow> Inr (map (\<lambda>(_, t). td_schema t) (tool_registry ts))
      | Some ns \<Rightarrow> res_map (\<lambda>n. res_bind (get_tool ts n) (\<lambda>t. Inr (td_schema t))) ns)"

text \<open>The keyword arguments of \<open>_register_tool\<close>.\<close>

record tool_registration =
  rg_name :: string
  rg_description :: string
  rg_tool_type :: pyval
  rg_fn :: tool_fn
  rg_pre_guards :: "guard_def list"
  rg_post_guards :: "guard_def list"
  rg_input_schema :: "pydict option"
  rg_args_mode :: args_mode

definition register_tool ::
  "(string \<Rightarrow> model_fields \<Rightarrow> pydict res) \<Rightarrow> tool_registration \<Rightarrow> (tool_set, unit) op" where
  "register_tool schema_of r ts =
     (if map_of (tool_registry ts) (rg_name r) \<noteq> None
      then (Inl (value_error (''Duplicate tool name: '' @ rg_name r)), ts)
      else
        (case (case rg_input_schema r of
                 Some s \<Rightarrow> Inr s
               | None \<Rightarrow> input_schema_for_tool schema_of (tool_function (rg_fn r))) of
           Inl e \<Rightarrow> (Inl e, ts)
         | Inr schema_input \<Rightarrow>
             (case normalize_tool_category (rg_tool_type r) of
                Inl e \<Rightarrow> (Inl e, ts)
              | Inr category \<Rightarrow>
                  (Inr (), ts\<lparr>tool_registry := AList.update (rg_name r)
                     \<lparr>td_schema = [(''name'', PStr (rg_name r)), (''description'', PStr (rg_description r)),
                        (''input_schema'', PDict schema_input)],
                      td_tool_type = category, td_fn = rg_fn r, td_pre_guards = rg_pre_guards r,
                      td_post_guards = rg_post_guards r, td_args_mode = rg_args_mode r\<rparr>
                     (tool_registry ts)\<rparr>))))"

text \<open>An operation of the guard set, run on the guard set of a tool set.\<close>

definition on_guards :: "(guard_set, 'a) op \<Rightarrow> (tool_set, 'a) op" where
  "on_guards m ts = (case m (ts_guards ts) of (r, gs) \<Rightarrow> (r, ts\<lparr>ts_guards := gs\<rparr>))"

text \<open>\<open>_register_guard\<close>; the only exception of \<open>def_for\<close> is the \<open>ValueError\<close> it catches.\<close>

definition register_guard :: "guard_fn \<Rightarrow> (tool_set, guard_def) op" where
  "register_guard f = (\<lambda>ts.
     case def_for (ts_guards ts) f of
       Inr d \<Rightarrow> (Inr d, ts)
     | Inl _ \<Rightarrow>
         (case gf_metadata f of
            None \<Rightarrow> (Inl (value_error (''Guard '' @ fn_name (gf_function f) @ '' is not registered; decorate it with ''
              @ ''agent_harness.guards.guard before using it in a tool'')), ts)
          | Some metadata \<Rightarrow>
              op_bind (on_guards (guard_set_guard (gm_name metadata) (gm_fulfills metadata) f))
                (\<lambda>registered ts. (def_for (ts_guards ts) registered, ts)) ts))"

fun resolve_guard_refs :: "guard_reference list \<Rightarrow> (string \<times> guard_def) list \<Rightarrow> (tool_set, guard_def list) op" where
  "resolve_guard_refs [] provider_guards = op_return []"
| "resolve_guard_refs (GuardName n # refs) provider_guards =
     op_bind (\<lambda>ts. (case map_of provider_guards n of
                      Some d \<Rightarrow> Inr d | None \<Rightarrow> get_guard (ts_guards ts) n, ts)) (\<lambda>d.
     op_bind (resolve_guard_refs refs provider_guards) (\<lambda>ds. op_return (d # ds)))"
| "resolve_guard_refs (GuardFunction f # refs) provider_guards =
     op_bind (register_guard f) (\<lambda>d.
     op_bind (resolve_guard_refs refs provider_guards) (\<lambda>ds. op_return (d # ds)))"

text \<open>Registering one decorated tool, as \<open>add_tool\<close> and \<open>add_provider\<close> do.\<close>

definition register_decorated ::
  "(string \<Rightarrow> model_fields \<Rightarrow> pydict res) \<Rightarrow> tool_fn \<Rightarrow> tool_metadata \<Rightarrow> (string \<times> guard_def) list
   \<Rightarrow> (tool_set, unit) op" where
  "register_decorated schema_of f m provider_guards =
     op_bind (resolve_guard_refs (tm_pre_guards m) provider_guards) (\<lambda>pre.
     op_bind (resolve_guard_refs (tm_post_guards m) provider_guards) (\<lambda>post.
     register_tool schema_of
       \<lparr>rg_name = tm_name m, rg_description = tm_description m, rg_tool_type = PStr (tm_tool_type m),
        rg_fn = f, rg_pre_guards = pre, rg_post_guards = post, rg_input_schema = None,
        rg_args_mode = Signature\<rparr>))"

fun add_tool :: "(string \<Rightarrow> model_fields \<Rightarrow> pydict res) \<Rightarrow> tool_fn list \<Rightarrow> (tool_set, unit) op" where
  "add_tool schema_of [] = op_return ()"
| "add_tool schema_of (f # fs) =
     (case tf_metadata f of
        None \<Rightarrow> op_raise (value_error (''Tool '' @ fn_name (tool_function f) @ '' is missing @tool metadata; decorate it ''
          @ ''with agent_harness.tools.tool before registering it''))
      | Some m \<Rightarrow> op_bind (register_decorated schema_of f m []) (\<lambda>_. add_tool schema_of fs))"

fun add_guard :: "guard_fn list \<Rightarrow> (tool_set, unit) op" where
  "add_guard [] = op_return ()"
| "add_guard (f # fs) =
     (if gf_metadata f = None
      then op_raise (value_error (''Guard '' @ fn_name (gf_function f) @ '' is missing @guard metadata; decorate it ''
        @ ''with agent_harness.guards.guard before registering it''))
      else op_bind (register_guard f) (\<lambda>_. add_guard fs))"

definition add_dynamic_tool ::
  "(string \<Rightarrow> model_fields \<Rightarrow> pydict res) \<Rightarrow> string \<Rightarrow> string \<Rightarrow> pydict \<Rightarrow> pyval \<Rightarrow> tool_fn
   \<Rightarrow> guard_reference list \<Rightarrow> guard_reference list \<Rightarrow> (tool_set, unit) op" where
  "add_dynamic_tool schema_of name description input_schema tool_type f pre_guards post_guards =
     op_bind (resolve_guard_refs pre_guards []) (\<lambda>pre.
     op_bind (resolve_guard_refs post_guards []) (\<lambda>post.
     register_tool schema_of
       \<lparr>rg_name = name, rg_description = description, rg_tool_type = tool_type, rg_fn = f,
        rg_pre_guards = pre, rg_post_guards = post, rg_input_schema = Some input_schema,
        rg_args_mode = Raw\<rparr>))"

section \<open>Providers\<close>

text \<open>
  A provider object by the classes of its method resolution order, base class first, each with
  the attributes its body defines.
\<close>

record member =
  mb_fn :: tool_fn
  mb_callable :: bool

type_synonym provider_classes = "(string \<times> member) list list"

definition decorated :: "member \<Rightarrow> bool" where
  "decorated m = (tf_metadata (mb_fn m) \<noteq> None \<or> gf_metadata (tf_guard (mb_fn m)) \<noteq> None)"

text \<open>\<open>getattr(provider, name)\<close>: the definition of the most derived class.\<close>

definition get_member :: "provider_classes \<Rightarrow> string \<Rightarrow> member option" where
  "get_member classes name = map_of (concat (rev classes)) name"

fun provider_methods :: "string \<Rightarrow> provider_classes \<Rightarrow> (string \<times> member) list \<Rightarrow> string list \<Rightarrow> tool_fn list res" where
  "provider_methods provider classes [] seen = Inr []"
| "provider_methods provider classes ((name, value) # members) seen =
     (if name \<in> set seen \<or> \<not> decorated value then provider_methods provider classes members seen
      else (case get_member classes name of
              None \<Rightarrow> Inl (PyExn (ExcOther ''AttributeError'') name None None)
            | Some method \<Rightarrow>
                (if \<not> mb_callable method
                 then Inl (type_error (''Provider attribute '' @ provider @ ''.'' @ name
                   @ '' is decorated but is not callable''))
                 else res_bind (provider_methods provider classes members (name # seen))
                   (\<lambda>ms. Inr (mb_fn method # ms)))))"

fun register_provider_guards :: "tool_fn list \<Rightarrow> (string \<times> guard_def) list \<Rightarrow> (tool_set, (string \<times> guard_def) list) op" where
  "register_provider_guards [] guard_defs = op_return guard_defs"
| "register_provider_guards (m # ms) guard_defs =
     (case gf_metadata (tf_guard m) of
        None \<Rightarrow> register_provider_guards ms guard_defs
      | Some metadata \<Rightarrow> op_bind (register_guard (tf_guard m)) (\<lambda>d.
          register_provider_guards ms (AList.update (gm_name metadata) d guard_defs)))"

fun register_provider_tools ::
  "(string \<Rightarrow> model_fields \<Rightarrow> pydict res) \<Rightarrow> tool_fn list \<Rightarrow> string set option \<Rightarrow> string set
   \<Rightarrow> (string \<times> guard_def) list \<Rightarrow> (tool_set, unit) op" where
  "register_provider_tools schema_of [] included excluded guard_defs = op_return ()"
| "register_provider_tools schema_of (m # ms) included excluded guard_defs =
     (case tf_metadata m of
        None \<Rightarrow> register_provider_tools schema_of ms included excluded guard_defs
      | Some metadata \<Rightarrow>
          (if (case included of None \<Rightarrow> False | Some names \<Rightarrow> tm_name metadata \<notin> names)
              \<or> tm_name metadata \<in> excluded
           then register_provider_tools schema_of ms included excluded guard_defs
           else op_bind (register_decorated schema_of m metadata guard_defs) (\<lambda>_.
             register_provider_tools schema_of ms included excluded guard_defs)))"

definition add_provider ::
  "(string \<Rightarrow> model_fields \<Rightarrow> pydict res) \<Rightarrow> string \<Rightarrow> provider_classes \<Rightarrow> string set option \<Rightarrow> string set
   \<Rightarrow> (tool_set, unit) op" where
  "add_provider schema_of provider classes included excluded =
     op_bind (op_lift (provider_methods provider classes (concat classes) [])) (\<lambda>methods.
     op_bind (register_provider_guards methods []) (\<lambda>guard_defs.
     register_provider_tools schema_of methods included excluded guard_defs))"

text \<open>An MCP provider is its type name and its \<open>register\<close> method, if it has one.\<close>

definition add_mcp_provider :: "string \<Rightarrow> (tool_set, unit) op option \<Rightarrow> (tool_set, unit) op" where
  "add_mcp_provider provider register_method =
     (case register_method of
        None \<Rightarrow> op_raise (type_error (''MCP provider '' @ provider @ '' must expose register(tools)''))
      | Some register \<Rightarrow> op_bind register (\<lambda>_. op_return ()))"

fun add_each :: "('p \<Rightarrow> (tool_set, unit) op) \<Rightarrow> 'p list \<Rightarrow> (tool_set, unit) op" where
  "add_each add [] = op_return ()"
| "add_each add (p # ps) = op_bind (add p) (\<lambda>_. add_each add ps)"

definition ToolSet ::
  "(string \<Rightarrow> model_fields \<Rightarrow> pydict res) \<Rightarrow> guard_policy option \<Rightarrow> guard_fn list \<Rightarrow> (string \<times> provider_classes) list
   \<Rightarrow> (string \<times> (tool_set, unit) op option) list \<Rightarrow> tool_fn list \<Rightarrow> tool_set res" where
  "ToolSet schema_of policy guards providers mcp_providers tools =
     fst (op_bind (add_guard guards) (\<lambda>_.
          op_bind (add_each (\<lambda>(p, classes). add_provider schema_of p classes None {}) providers) (\<lambda>_.
          op_bind (add_each (\<lambda>(p, register). add_mcp_provider p register) mcp_providers) (\<lambda>_.
          op_bind (add_tool schema_of tools) (\<lambda>_. \<lambda>ts. (Inr ts, ts)))))
       \<lparr>tool_registry = [], ts_guards = GuardSet policy\<rparr>)"

section \<open>Execution\<close>

text \<open>How a tool function is called: with bound keyword arguments or with the raw dictionary.\<close>

datatype tool_invocation = KeywordCall "tool_context kwargs" | RawCall tool_context pydict

type_synonym 'w tool_semantics = "tool_fn \<Rightarrow> tool_invocation \<Rightarrow> ('w call_state, tool_result) op"

definition kwargs_for_tool :: "tool_fn \<Rightarrow> tool_context \<Rightarrow> pydict \<Rightarrow> tool_context kwargs res" where
  "kwargs_for_tool f ctx args =
     bind_keyword_arguments (tool_function f) args [(''ToolContext'', ctx)] [] ''tool'' True"

definition call_tool :: "'w tool_semantics \<Rightarrow> tool_fn \<Rightarrow> tool_context \<Rightarrow> ('w call_state, tool_result) op" where
  "call_tool run_tool f ctx =
     (\<lambda>s. op_bind (op_lift (kwargs_for_tool f ctx (cs_args s))) (\<lambda>kwargs. run_tool f (KeywordCall kwargs)) s)"

definition call_dynamic_tool :: "'w tool_semantics \<Rightarrow> tool_fn \<Rightarrow> tool_context \<Rightarrow> ('w call_state, tool_result) op" where
  "call_dynamic_tool run_tool f ctx = (\<lambda>s. run_tool f (RawCall ctx (cs_args s)) s)"

text \<open>
  \<open>execute_tool\<close> from the state of the call: the arguments, no result yet, the world. The
  result the tool returned is stored, and read back after the guards that follow it.
\<close>

definition run_between_guards ::
  "'w guard_semantics \<Rightarrow> 'w tool_semantics \<Rightarrow> tool_def \<Rightarrow> string \<Rightarrow> string option \<Rightarrow> string option
   \<Rightarrow> activity_options \<Rightarrow> ('w call_state, tool_result) op" where
  "run_between_guards run_guard run_tool t name stream_id tool_call_id options =
     op_bind (execute_guards run_guard Pre name (td_tool_type t) stream_id options (td_pre_guards t))
       (\<lambda>pre_failure. case pre_failure of
          Some payload \<Rightarrow> op_return \<lparr>tr_payload = payload, tr_error = True\<rparr>
        | None \<Rightarrow>
            (let ctx = \<lparr>tc_tool_name = name, tc_stream_id = stream_id, tc_tool_call_id = tool_call_id,
                   tc_activity_options = options, tc_activity_count = 0, tc_used_unstepped_activity = False\<rparr>
             in op_bind (case td_args_mode t of
                           Raw \<Rightarrow> call_dynamic_tool run_tool (td_fn t) ctx
                         | Signature \<Rightarrow> call_tool run_tool (td_fn t) ctx)
                  (\<lambda>result s.
                    op_bind (execute_guards run_guard Post name (td_tool_type t) stream_id options (td_post_guards t))
                      (\<lambda>post_failure s. case post_failure of
                         Some payload \<Rightarrow> (Inr \<lparr>tr_payload = payload, tr_error = True\<rparr>, s)
                       | None \<Rightarrow> (Inr (case cs_result s of Some r \<Rightarrow> r | None \<Rightarrow> result), s))
                      (s\<lparr>cs_result := Some result\<rparr>))))"

definition execute_tool ::
  "'w guard_semantics \<Rightarrow> 'w tool_semantics \<Rightarrow> tool_set \<Rightarrow> string \<Rightarrow> pydict \<Rightarrow> string option \<Rightarrow> string option
   \<Rightarrow> activity_options option \<Rightarrow> 'w \<Rightarrow> tool_result res \<times> 'w" where
  "execute_tool run_guard run_tool ts name args stream_id tool_call_id options world =
     (case get_tool ts name of
        Inl e \<Rightarrow> (Inl e, world)
      | Inr t \<Rightarrow>
          (case validate_tool_guards (ts_guards ts) (td_tool_type t) (td_pre_guards t) (td_post_guards t) of
             Inl e \<Rightarrow> (Inl e, world)
           | Inr _ \<Rightarrow>
               (case run_between_guards run_guard run_tool t name stream_id tool_call_id
                       (case options of None \<Rightarrow> DEFAULT_ACTIVITY_OPTIONS | Some own \<Rightarrow> own)
                       \<lparr>cs_args = args, cs_result = None, cs_world = world\<rparr> of
                  (r, s) \<Rightarrow> (r, cs_world s))))"

end
