(* ===== verification/Attachments.thy ===== *)
theory Attachments
  imports Messages
begin

text \<open>
  \<open>agent_harness/attachments.py\<close>: references to user attachments and the manifest text that
  tells the model about them. \<open>attachment_ref_from_mapping\<close> is not modelled (it calls \<open>int\<close> on
  arbitrary values).
\<close>

record attachment_ref =
  attachment_id :: string
  att_name :: string
  mime_type :: string
  size_bytes :: int
  content_kind :: string
  att_source :: string
  text_preview :: string
  text_chars :: "int option"
  expires_at :: string
  metadata :: pydict

definition attachment_ref_to_dict :: "attachment_ref \<Rightarrow> pydict" where
  "attachment_ref_to_dict ref =
     [(''attachment_id'', PStr (attachment_id ref)),
      (''name'', PStr (att_name ref)),
      (''mime_type'', PStr (mime_type ref)),
      (''size_bytes'', PInt (size_bytes ref)),
      (''content_kind'', PStr (content_kind ref)),
      (''source'', PStr (att_source ref)),
      (''text_preview'', PStr (text_preview ref)),
      (''text_chars'', (case text_chars ref of None \<Rightarrow> PNone | Some n \<Rightarrow> PInt n)),
      (''expires_at'', PStr (expires_at ref)),
      (''metadata'', PDict (metadata ref))]"

definition attachment_lines :: "nat \<Rightarrow> attachment_ref \<Rightarrow> string list" where
  "attachment_lines index a =
     (let preview = py_strip (text_preview a) in
      [nat_str index @ ''. '' @ att_name a @ '' (attachment_id='' @ attachment_id a @
       '', mime_type='' @ mime_type a @ '', kind='' @ content_kind a @
       '', size_bytes='' @ int_str (size_bytes a) @ '')''] @
      (if expires_at a \<noteq> [] then [''   expires_at: '' @ expires_at a] else []) @
      (if preview \<noteq> [] then [''   preview: '' @ preview] else []))"

fun manifest_entries :: "nat \<Rightarrow> attachment_ref list \<Rightarrow> string list" where
  "manifest_entries index [] = []"
| "manifest_entries index (a # as) = attachment_lines index a @ manifest_entries (Suc index) as"

definition manifest_header :: "string list" where
  "manifest_header =
     [''<attachments>'',
      ''The user attached the following files to this turn. Use the '' @
      ''read_attachment tool with an attachment_id when you need attachment '' @
      ''contents that are not already visible in the user message.'',
      ''Attachments are retained for a limited time; if an attachment is '' @
      ''expired or unavailable, explain that clearly to the user.'',
      '''']"

definition attachment_manifest_text :: "attachment_ref list \<Rightarrow> string" where
  "attachment_manifest_text attachments =
     (if attachments = [] then []
      else py_join newline
        (manifest_header @ manifest_entries 1 attachments @ [''</attachments>'']))"

lemma manifest_starts:
  assumes "as \<noteq> []"
  shows "\<exists>rest. attachment_manifest_text as = ''<attachments>'' @ rest"
  using assms by (simp add: attachment_manifest_text_def manifest_header_def py_join_Cons)

text \<open>The manifest is recognised as such, and is not empty, whatever the files are called.\<close>

lemma manifest_recognised:
  assumes "as \<noteq> []"
  shows "py_startswith (py_lstrip (attachment_manifest_text as)) ''<attachments>''"
    and "attachment_manifest_text as \<noteq> []"
proof -
  from manifest_starts [OF assms] obtain rest
    where rest: "attachment_manifest_text as = ''<attachments>'' @ rest" ..
  have "\<not> py_space (CHR ''<'')" by (simp add: py_space_def code_def)
  with rest show "py_startswith (py_lstrip (attachment_manifest_text as)) ''<attachments>''"
    by (simp add: py_lstrip_def py_startswith_def)
  from rest show "attachment_manifest_text as \<noteq> []" by simp
qed

end
