(* ===== verification/ContextBudget.thy ===== *)
theory ContextBudget
  imports Attachments
begin

text \<open>
  \<open>agent_harness/context_manager.py\<close> (the token budget and the \<open>ContextManager\<close> protocol) and the
  token estimate of \<open>sliding_window_context_manager.py\<close>.

  \<open>chars_per_token\<close> is a rational: the code's floats are 4.0, 2.5 and what an application passes;
  the estimate is the ceiling of an exact quotient.
\<close>

definition DEFAULT_MAX_CONTEXT_TOKENS :: int where
  "DEFAULT_MAX_CONTEXT_TOKENS = 200000"

definition DEFAULT_CONTEXT_SAFETY_MARGIN_TOKENS :: int where
  "DEFAULT_CONTEXT_SAFETY_MARGIN_TOKENS = 4000"

definition DEFAULT_CHARS_PER_TOKEN :: rat where
  "DEFAULT_CHARS_PER_TOKEN = 4"

record context_token_budget =
  max_context_tokens :: int
  reserved_output_tokens :: int
  reserved_input_tokens :: int
  safety_margin_tokens :: int
  chars_per_token :: rat

definition input_token_budget :: "context_token_budget \<Rightarrow> int" where
  "input_token_budget b = max_context_tokens b - reserved_output_tokens b
     - reserved_input_tokens b - safety_margin_tokens b"

text \<open>The constructor: \<open>__post_init__\<close> checks the fields in this order.\<close>

definition ContextTokenBudget :: "context_token_budget \<Rightarrow> context_token_budget res" where
  "ContextTokenBudget b =
     (if max_context_tokens b < 1
      then Inl (value_error ''max_context_tokens must be at least 1'')
      else if reserved_output_tokens b < 0
      then Inl (value_error ''reserved_output_tokens cannot be negative'')
      else if reserved_input_tokens b < 0
      then Inl (value_error ''reserved_input_tokens cannot be negative'')
      else if safety_margin_tokens b < 0
      then Inl (value_error ''safety_margin_tokens cannot be negative'')
      else if chars_per_token b \<le> 0
      then Inl (value_error ''chars_per_token must be greater than 0'')
      else if input_token_budget b < 1
      then Inl (value_error (''Context token budget leaves no room for messages; reduce '' @
        ''max_tokens, reserved input, or safety margin''))
      else Inr b)"

definition wf_budget :: "context_token_budget \<Rightarrow> bool" where
  "wf_budget b = (0 < chars_per_token b \<and> 1 \<le> input_token_budget b)"

lemma ContextTokenBudget_wf: "ContextTokenBudget b = Inr b' \<Longrightarrow> b' = b \<and> wf_budget b"
  by (auto simp: ContextTokenBudget_def wf_budget_def split: if_splits)

text \<open>\<open>math.ceil(len(json.dumps(value, separators=(",", ":"))) / chars_per_token)\<close>\<close>

definition token_count :: "rat \<Rightarrow> pyval \<Rightarrow> int" where
  "token_count cpt v = \<lceil>of_nat (length (json_dumps_compact v)) / cpt\<rceil>"

definition estimate_token_count :: "pyval \<Rightarrow> rat \<Rightarrow> int res" where
  "estimate_token_count v cpt =
     (if cpt \<le> 0 then Inl (value_error ''chars_per_token must be greater than 0'')
      else Inr (token_count cpt v))"

lemma token_count_nonneg: "0 < cpt \<Longrightarrow> 0 \<le> token_count cpt v"
proof -
  assume "0 < cpt"
  then have "0 \<le> of_nat (length (json_dumps_compact v)) / cpt" by simp
  then show "0 \<le> token_count cpt v" by (simp add: token_count_def)
qed

section \<open>The ContextManager protocol\<close>

text \<open>
  The operations an agent calls on its context manager, as the value it is constructed with
  (\<open>context_manager_factory\<close>). \<open>SlidingWindow\<close> provides \<open>sliding_window_ops\<close>.
\<close>

record 'c context_ops =
  cm_initialize :: "string \<Rightarrow> attachment_ref list \<Rightarrow> 'c \<Rightarrow> 'c"
  cm_record_user_message :: "string \<Rightarrow> attachment_ref list \<Rightarrow> 'c \<Rightarrow> 'c"
  cm_restore :: "pydict \<Rightarrow> 'c \<Rightarrow> 'c res"
  cm_full_context_snapshot :: "'c \<Rightarrow> pydict"
  cm_continuation_context_snapshot :: "context_token_budget option \<Rightarrow> 'c \<Rightarrow> pydict"
  cm_messages_for_model :: "context_token_budget option \<Rightarrow> 'c \<Rightarrow> agent_message list"
  cm_full_messages :: "'c \<Rightarrow> pydict list"
  cm_replace_messages :: "pydict list \<Rightarrow> 'c \<Rightarrow> 'c res"
  cm_message_count :: "'c \<Rightarrow> nat"
  cm_record_assistant_message :: "pydict \<Rightarrow> 'c \<Rightarrow> 'c res"
  cm_record_tool_results :: "pydict list \<Rightarrow> 'c \<Rightarrow> 'c res"

end
