(* ===== verification/SlidingWindow.thy ===== *)
theory SlidingWindow
  imports ContextBudget
begin

text \<open>
  \<open>agent_harness/sliding_window_context_manager.py\<close>: the conversation history of an agent and
  the bounded view of it that is sent to the model.

  The history (\<open>_messages\<close>) is a list of messages the manager itself normalised, so it is an
  \<open>agent_message list\<close>. This theory holds the data and the operations; \<open>ToolExchanges\<close> and
  \<open>BudgetFitting\<close> prove what they promise.
\<close>

section \<open>Reading blocks\<close>

text \<open>\<open>_block_ids\<close>: the set of string ids of the blocks of one type.\<close>

definition block_id :: "string \<Rightarrow> pydict \<Rightarrow> string option" where
  "block_id id_key b = (case dict_get_none b id_key of PStr s \<Rightarrow> Some s | _ \<Rightarrow> None)"

definition block_ids :: "agent_message \<Rightarrow> string \<Rightarrow> string \<Rightarrow> string set" where
  "block_ids m block_type id_key =
     (case msg_content m of
        Text _ \<Rightarrow> {}
      | Blocks bs \<Rightarrow> set (List.map_filter (block_id id_key)
          (filter (\<lambda>b. block_type_is b block_type) bs)))"

definition tool_use_ids :: "agent_message \<Rightarrow> string set" where
  "tool_use_ids m = block_ids m ''tool_use'' ''id''"

definition tool_result_ids :: "agent_message \<Rightarrow> string set" where
  "tool_result_ids m = block_ids m ''tool_result'' ''tool_use_id''"

definition has_tool_results_for :: "agent_message \<Rightarrow> string set \<Rightarrow> bool" where
  "has_tool_results_for m ids = (ids \<subseteq> tool_result_ids m)"

definition message_has_block_type :: "agent_message \<Rightarrow> string \<Rightarrow> bool" where
  "message_has_block_type m block_type =
     (case msg_content m of
        Text _ \<Rightarrow> False
      | Blocks bs \<Rightarrow> list_ex (\<lambda>b. block_type_is b block_type) bs)"

definition without_tool_use_blocks :: "agent_message \<Rightarrow> agent_message option" where
  "without_tool_use_blocks m =
     (case msg_content m of
        Text _ \<Rightarrow> Some m
      | Blocks content \<Rightarrow>
          (let blocks = filter (\<lambda>b. \<not> block_type_is b ''tool_use'') content
           in if blocks = [] then None else Some (message (msg_role m) (Blocks blocks))))"

section \<open>Tool exchanges\<close>

text \<open>\<open>_drop_incomplete_tool_exchanges\<close>, the index loop as recursion on the rest of the list.\<close>

fun drop_incomplete_tool_exchanges :: "agent_message list \<Rightarrow> agent_message list" where
  "drop_incomplete_tool_exchanges [] = []"
| "drop_incomplete_tool_exchanges (m # ms) =
     (let ids = tool_use_ids m in
      if ids \<noteq> {}
      then (case ms of
              next_message # rest \<Rightarrow>
                if has_tool_results_for next_message ids
                then m # next_message # drop_incomplete_tool_exchanges rest
                else (case without_tool_use_blocks m of
                        None \<Rightarrow> drop_incomplete_tool_exchanges ms
                      | Some t \<Rightarrow> t # drop_incomplete_tool_exchanges ms)
            | [] \<Rightarrow> (case without_tool_use_blocks m of None \<Rightarrow> [] | Some t \<Rightarrow> [t]))
      else if message_has_block_type m ''tool_result''
      then drop_incomplete_tool_exchanges ms
      else m # drop_incomplete_tool_exchanges ms)"

text \<open>\<open>_message_groups\<close>: a tool-use message and its results form one group.\<close>

fun message_groups :: "agent_message list \<Rightarrow> agent_message list list" where
  "message_groups [] = []"
| "message_groups (m # ms) =
     (let ids = tool_use_ids m in
      case ms of
        next_message # rest \<Rightarrow>
          if ids \<noteq> {} \<and> has_tool_results_for next_message ids
          then [m, next_message] # message_groups rest
          else [m] # message_groups ms
      | [] \<Rightarrow> [[m]])"

definition flatten_message_groups :: "agent_message list list \<Rightarrow> agent_message list" where
  "flatten_message_groups groups = concat groups"

definition without_context_compaction_markers :: "agent_message list \<Rightarrow> agent_message list" where
  "without_context_compaction_markers ms =
     filter (\<lambda>m. \<not> message_has_block_type m CONTEXT_COMPACTION_MARKER) ms"

definition with_context_compaction_marker ::
  "agent_message list \<Rightarrow> agent_message list \<Rightarrow> bool \<Rightarrow> agent_message list" where
  "with_context_compaction_marker full_messages compacted_messages preserve_initial_user_message =
     (let compacted = without_context_compaction_markers compacted_messages;
          dropped_messages = int (length full_messages) - int (length compacted)
      in if dropped_messages \<le> 0 then compacted_messages
         else
           (let marker = message User (Blocks [context_compaction_marker_block
                  (Some dropped_messages) ''older_messages_dropped'']);
                insert_index =
                  (if preserve_initial_user_message \<and> full_messages \<noteq> [] \<and> compacted \<noteq> []
                      \<and> message_dict (hd full_messages) = message_dict (hd compacted)
                   then 1 else 0)
            in take insert_index compacted @ [marker] @ drop insert_index compacted))"

section \<open>Fitting to the token budget\<close>

definition estimated_tokens :: "agent_message list \<Rightarrow> context_token_budget \<Rightarrow> int" where
  "estimated_tokens ms budget =
     token_count (chars_per_token budget) (PList (map (\<lambda>m. PDict (message_dict m)) ms))"

definition over_budget :: "agent_message list \<Rightarrow> context_token_budget \<Rightarrow> bool" where
  "over_budget ms budget = (estimated_tokens ms budget > input_token_budget budget)"

text \<open>
  The largest piece of text of a kind: the first one of maximal length, in message order and
  block order. \<open>block_index\<close> is \<open>None\<close> for a message whose content is a string.
\<close>

type_synonym location = "nat \<times> nat option \<times> string"

definition larger_location :: "location option \<Rightarrow> location \<Rightarrow> location option" where
  "larger_location largest loc =
     (case largest of
        None \<Rightarrow> Some loc
      | Some (_, _, t) \<Rightarrow> (if length (snd (snd loc)) > length t then Some loc else largest))"

definition tool_result_text :: "pydict \<Rightarrow> string option" where
  "tool_result_text b =
     (if block_type_is b ''tool_result''
      then (case dict_get_none b ''content'' of PStr s \<Rightarrow> Some s | _ \<Rightarrow> None) else None)"

definition text_block_text :: "pydict \<Rightarrow> string option" where
  "text_block_text b =
     (if block_type_is b ''text''
      then (case dict_get_none b ''text'' of PStr s \<Rightarrow> Some s | _ \<Rightarrow> None) else None)"

text \<open>The candidates of one message, in the order the loops visit them.\<close>

fun block_locations :: "(pydict \<Rightarrow> string option) \<Rightarrow> nat \<Rightarrow> nat \<Rightarrow> pydict list \<Rightarrow> location list" where
  "block_locations sel message_index block_index [] = []"
| "block_locations sel message_index block_index (b # bs) =
     (case sel b of None \<Rightarrow> [] | Some t \<Rightarrow> [(message_index, Some block_index, t)]) @
     block_locations sel message_index (Suc block_index) bs"

definition tool_result_candidates :: "nat \<Rightarrow> agent_message \<Rightarrow> location list" where
  "tool_result_candidates message_index m =
     (case msg_content m of
        Text _ \<Rightarrow> []
      | Blocks bs \<Rightarrow> block_locations tool_result_text message_index 0 bs)"

definition text_candidates :: "nat \<Rightarrow> agent_message \<Rightarrow> location list" where
  "text_candidates message_index m =
     (case msg_content m of
        Text s \<Rightarrow> [(message_index, None, s)]
      | Blocks bs \<Rightarrow> block_locations text_block_text message_index 0 bs)"

fun locations :: "(nat \<Rightarrow> agent_message \<Rightarrow> location list) \<Rightarrow> nat \<Rightarrow> agent_message list \<Rightarrow> location list" where
  "locations candidates message_index [] = []"
| "locations candidates message_index (m # ms) =
     candidates message_index m @ locations candidates (Suc message_index) ms"

definition largest_tool_result_location :: "agent_message list \<Rightarrow> location option" where
  "largest_tool_result_location ms = foldl larger_location None (locations tool_result_candidates 0 ms)"

definition largest_text_location :: "agent_message list \<Rightarrow> location option" where
  "largest_text_location ms = foldl larger_location None (locations text_candidates 0 ms)"

text \<open>\<open>_set_block_content\<close>: the block dictionary is copied and the copy stored at its index.\<close>

definition set_block_text :: "string \<Rightarrow> pydict \<Rightarrow> pydict" where
  "set_block_text t b =
     (if block_type_is b ''text'' then dict_set ''text'' (PStr t) b
      else dict_set ''content'' (PStr t) b)"

definition set_block_content :: "agent_message \<Rightarrow> nat \<Rightarrow> string \<Rightarrow> agent_message res" where
  "set_block_content m block_index t =
     (case msg_content m of
        Text _ \<Rightarrow> Inl (type_error ''Cannot set block content on a string message'')
      | Blocks blocks \<Rightarrow>
          (if block_index < length blocks
           then Inr (m\<lparr>msg_content :=
             Blocks (blocks[block_index := set_block_text t (blocks ! block_index)])\<rparr>)
           else Inl (PyExn (ExcOther ''IndexError'') ''list index out of range'' None None)))"

definition truncated_payload :: "string \<Rightarrow> nat \<Rightarrow> string \<Rightarrow> string" where
  "truncated_payload cont preview_chars reason =
     json_dumps (PDict
       [(''truncated'', PBool True),
        (''reason'', PStr reason),
        (''original_chars'', PInt (int (length cont))),
        (''preview'', PStr (take preview_chars cont))])"

definition truncated_text :: "string \<Rightarrow> nat \<Rightarrow> string \<Rightarrow> string" where
  "truncated_text cont preview_chars reason =
     ''['' @ reason @ '' Original chars: '' @ nat_str (length cont) @ ''.]'' @ newline @ newline @
     take preview_chars cont"

text \<open>
  The size the next truncation aims at, the same in both loops; the last \<open>if\<close> is the code's
  guard against a target that would not shrink the text.
\<close>

definition target_chars :: "agent_message list \<Rightarrow> context_token_budget \<Rightarrow> string \<Rightarrow> nat" where
  "target_chars compacted budget original =
     (let excess_tokens = estimated_tokens compacted budget - input_token_budget budget;
          excess_chars = \<lceil>of_int excess_tokens * chars_per_token budget\<rceil>;
          n = int (length original);
          target = max 0 (min (n - 1) (n - excess_chars - 500))
      in if target \<ge> n then nat (max 0 (n div 2)) else nat target)"

definition tool_result_reason :: string where
  "tool_result_reason = ''Tool result truncated to fit model context budget.''"

definition text_reason :: string where
  "text_reason = ''Message text truncated to fit model context budget.''"

text \<open>
  One pass of each \<open>while\<close> loop: \<open>None\<close> when the loop ends. An index error of
  \<open>_set_block_content\<close> cannot occur at a location the search returned
  (\<open>replace_at_location_found\<close> in \<open>BudgetFitting\<close>), so the exception ends the pass.
\<close>

definition replace_at :: "agent_message list \<Rightarrow> location \<Rightarrow> string \<Rightarrow> agent_message list res" where
  "replace_at ms loc t =
     (case loc of (message_index, block_index, _) \<Rightarrow>
        (case block_index of
           None \<Rightarrow> Inr (ms[message_index := message (msg_role (ms ! message_index)) (Text t)])
         | Some bi \<Rightarrow> res_bind (set_block_content (ms ! message_index) bi t)
             (\<lambda>m. Inr (ms[message_index := m]))))"

definition truncate_pass ::
  "(agent_message list \<Rightarrow> location option) \<Rightarrow> (string \<Rightarrow> nat \<Rightarrow> string)
   \<Rightarrow> context_token_budget \<Rightarrow> agent_message list \<Rightarrow> agent_message list option" where
  "truncate_pass locate shorten budget compacted =
     (if \<not> over_budget compacted budget then None
      else (case locate compacted of
              None \<Rightarrow> None
            | Some loc \<Rightarrow>
                (let original = snd (snd loc);
                     truncated = shorten original (target_chars compacted budget original)
                 in if length truncated \<ge> length original then None
                    else (case replace_at compacted loc truncated of
                            Inl _ \<Rightarrow> None
                          | Inr ms \<Rightarrow> Some ms))))"

definition tool_result_pass :: "context_token_budget \<Rightarrow> agent_message list \<Rightarrow> agent_message list option" where
  "tool_result_pass budget =
     truncate_pass largest_tool_result_location
       (\<lambda>original n. truncated_payload original n tool_result_reason) budget"

definition text_pass :: "context_token_budget \<Rightarrow> agent_message list \<Rightarrow> agent_message list option" where
  "text_pass budget =
     truncate_pass largest_text_location
       (\<lambda>original n. truncated_text original n text_reason) budget"

section \<open>The truncation loops end\<close>

text \<open>
  Every pass replaces a piece of text by a strictly shorter one, so the total number of
  characters of that kind decreases.
\<close>

lemma foldl_larger_mem:
  "foldl larger_location acc locs = Some loc \<Longrightarrow> acc = Some loc \<or> loc \<in> set locs"
proof (induction locs arbitrary: acc)
  case (Cons l locs)
  from Cons.IH [of "larger_location acc l"] Cons.prems show ?case
    by (auto simp: larger_location_def split: option.splits if_splits)
qed simp

lemma block_locations_sound:
  "(mi, bi, t) \<in> set (block_locations sel k j bs)
   \<Longrightarrow> mi = k \<and> (\<exists>i < length bs. bi = Some (j + i) \<and> sel (bs ! i) = Some t)"
proof (induction bs arbitrary: j)
  case (Cons b bs)
  show ?case
  proof (cases "(mi, bi, t) \<in> set (block_locations sel k (Suc j) bs)")
    case True
    then obtain i where "mi = k" "i < length bs" "bi = Some (Suc j + i)" "sel (bs ! i) = Some t"
      using Cons.IH by blast
    then show ?thesis by (intro conjI exI [of _ "Suc i"]) simp_all
  next
    case False
    with Cons.prems show ?thesis by (auto split: option.splits intro: exI [of _ 0])
  qed
qed simp

text \<open>What a location points at: an existing text of its kind.\<close>

definition located :: "(pydict \<Rightarrow> string option) \<Rightarrow> agent_message list \<Rightarrow> location \<Rightarrow> bool" where
  "located sel ms loc =
     (case loc of (mi, bi, t) \<Rightarrow> mi < length ms \<and>
        (case msg_content (ms ! mi) of
           Text s \<Rightarrow> bi = None \<and> t = s
         | Blocks bs \<Rightarrow> (\<exists>i < length bs. bi = Some i \<and> sel (bs ! i) = Some t)))"

lemma locations_mem:
  "loc \<in> set (locations cand k ms) \<Longrightarrow> \<exists>i < length ms. loc \<in> set (cand (k + i) (ms ! i))"
proof (induction ms arbitrary: k)
  case (Cons m ms)
  show ?case
  proof (cases "loc \<in> set (locations cand (Suc k) ms)")
    case True
    from Cons.IH [OF this] obtain i where "i < length ms" "loc \<in> set (cand (Suc k + i) (ms ! i))"
      by blast
    then show ?thesis by (intro exI [of _ "Suc i"]) simp
  next
    case False
    with Cons.prems show ?thesis by (intro exI [of _ 0]) simp
  qed
qed simp

lemma tool_result_candidates_located:
  assumes "i < length ms" and "loc \<in> set (tool_result_candidates i (ms ! i))"
  shows "located tool_result_text ms loc"
  using assms
  by (cases loc) (auto simp: tool_result_candidates_def located_def split: content.splits
      dest!: block_locations_sound)

lemma text_candidates_located:
  assumes "i < length ms" and "loc \<in> set (text_candidates i (ms ! i))"
  shows "located text_block_text ms loc"
  using assms
  by (cases loc) (auto simp: text_candidates_def located_def split: content.splits
      dest!: block_locations_sound)

lemma largest_tool_result_located:
  "largest_tool_result_location ms = Some loc \<Longrightarrow> located tool_result_text ms loc"
  by (auto simp: largest_tool_result_location_def dest!: foldl_larger_mem locations_mem
      intro: tool_result_candidates_located)

lemma largest_text_located:
  "largest_text_location ms = Some loc \<Longrightarrow> located text_block_text ms loc"
  by (auto simp: largest_text_location_def dest!: foldl_larger_mem locations_mem
      intro: text_candidates_located)

text \<open>The characters of one kind in a message; a string message counts with \<open>w\<close> of its length.\<close>

definition piece_chars :: "(pydict \<Rightarrow> string option) \<Rightarrow> pydict \<Rightarrow> nat" where
  "piece_chars sel b = (case sel b of None \<Rightarrow> 0 | Some t \<Rightarrow> length t)"

definition message_chars :: "(pydict \<Rightarrow> string option) \<Rightarrow> agent_message \<Rightarrow> nat" where
  "message_chars sel m =
     (case msg_content m of
        Text s \<Rightarrow> length s
      | Blocks bs \<Rightarrow> sum_list (map (piece_chars sel) bs))"

definition total_chars :: "(pydict \<Rightarrow> string option) \<Rightarrow> agent_message list \<Rightarrow> nat" where
  "total_chars sel ms = sum_list (map (message_chars sel) ms)"

text \<open>Writing a text of a kind back into its block stores exactly that text.\<close>

definition writes :: "(pydict \<Rightarrow> string option) \<Rightarrow> bool" where
  "writes sel \<longleftrightarrow> (\<forall>b t t'. sel b = Some t \<longrightarrow> sel (set_block_text t' b) = Some t')"

lemma writes_tool_result: "writes tool_result_text"
  by (auto simp: writes_def tool_result_text_def set_block_text_def block_type_is_def
      dict_get_set dict_get_none_def)

lemma writes_text_block: "writes text_block_text"
  by (auto simp: writes_def text_block_text_def set_block_text_def block_type_is_def
      dict_get_set dict_get_none_def)

lemma sum_list_update_less:
  fixes xs :: "nat list"
  assumes "i < length xs" and "x < xs ! i"
  shows "sum_list (xs[i := x]) < sum_list xs"
proof -
  have "xs ! i \<le> sum_list xs" using assms(1) by (simp add: elem_le_sum_list)
  with assms show ?thesis by (simp add: sum_list_update)
qed

lemma map_update_sum_less:
  fixes f :: "'a \<Rightarrow> nat"
  assumes "i < length xs" and "f x < f (xs ! i)"
  shows "sum_list (map f (xs[i := x])) < sum_list (map f xs)"
  using sum_list_update_less [of i "map f xs" "f x"] assms by (simp add: map_update)

lemma replace_at_decreases:
  assumes "writes sel" and "located sel ms loc" and "length t < length (snd (snd loc))"
    and "replace_at ms loc t = Inr ms'"
  shows "total_chars sel ms' < total_chars sel ms"
proof -
  obtain mi bi old where loc: "loc = (mi, bi, old)" by (cases loc) auto
  with assms(2) have mi: "mi < length ms" by (simp add: located_def)
  show ?thesis
  proof (cases "msg_content (ms ! mi)")
    case (Text s)
    with assms loc mi show ?thesis
      by (auto simp: located_def replace_at_def total_chars_def message_chars_def
          intro!: map_update_sum_less)
  next
    case (Blocks bs)
    with assms(2) loc obtain i where i: "i < length bs" "bi = Some i" "sel (bs ! i) = Some old"
      by (auto simp: located_def)
    let ?bs' = "bs[i := set_block_text t (bs ! i)]"
    have "sel (set_block_text t (bs ! i)) = Some t"
      using assms(1) i(3) by (auto simp: writes_def)
    with i assms(3) loc have "sum_list (map (piece_chars sel) ?bs') < sum_list (map (piece_chars sel) bs)"
      by (intro map_update_sum_less) (simp_all add: piece_chars_def)
    moreover have "ms' = ms[mi := (ms ! mi)\<lparr>msg_content := Blocks ?bs'\<rparr>]"
      using assms(4) loc i Blocks by (simp add: replace_at_def set_block_content_def)
    ultimately show ?thesis
      using mi Blocks
      by (auto simp: total_chars_def message_chars_def intro!: map_update_sum_less)
  qed
qed

lemma truncate_pass_decreases:
  assumes "truncate_pass locate shorten budget ms = Some ms'"
    and "writes sel" and "\<And>loc. locate ms = Some loc \<Longrightarrow> located sel ms loc"
  shows "total_chars sel ms' < total_chars sel ms"
  using assms
  by (auto simp: truncate_pass_def Let_def split: if_splits option.splits sum.splits
      intro!: replace_at_decreases)

section \<open>The truncation loops and the fit\<close>

function truncate_tool_results_to_budget ::
  "context_token_budget \<Rightarrow> agent_message list \<Rightarrow> agent_message list" where
  "truncate_tool_results_to_budget budget compacted =
     (case tool_result_pass budget compacted of
        None \<Rightarrow> compacted
      | Some compacted' \<Rightarrow> truncate_tool_results_to_budget budget compacted')"
  by pat_completeness auto
termination
  by (relation "measure (\<lambda>(budget, ms). total_chars tool_result_text ms)")
    (auto simp: tool_result_pass_def
      intro!: truncate_pass_decreases writes_tool_result largest_tool_result_located)

function truncate_text_to_budget ::
  "context_token_budget \<Rightarrow> agent_message list \<Rightarrow> agent_message list" where
  "truncate_text_to_budget budget compacted =
     (case text_pass budget compacted of
        None \<Rightarrow> compacted
      | Some compacted' \<Rightarrow> truncate_text_to_budget budget compacted')"
  by pat_completeness auto
termination
  by (relation "measure (\<lambda>(budget, ms). total_chars text_block_text ms)")
    (auto simp: text_pass_def
      intro!: truncate_pass_decreases writes_text_block largest_text_located)

declare truncate_tool_results_to_budget.simps [simp del]
declare truncate_text_to_budget.simps [simp del]

text \<open>
  The shedding loop of \<open>_fit_messages_to_token_budget\<close>: \<open>Inl\<close> is its early return, \<open>Inr\<close> the
  groups left when at most one remains.
\<close>

fun shed_groups ::
  "context_token_budget \<Rightarrow> agent_message list list \<Rightarrow> agent_message list list
   \<Rightarrow> agent_message list + agent_message list list" where
  "shed_groups budget prefix (g # g' # gs) =
     (let candidate = flatten_message_groups (prefix @ g # g' # gs) in
      if \<not> over_budget candidate budget then Inl candidate
      else shed_groups budget prefix (g' # gs))"
| "shed_groups budget prefix groups = Inr groups"

definition fit_messages_to_token_budget ::
  "agent_message list \<Rightarrow> context_token_budget \<Rightarrow> bool \<Rightarrow> agent_message list" where
  "fit_messages_to_token_budget ms budget preserve_first_message =
     (if \<not> over_budget ms budget then ms
      else
        (let groups = message_groups ms;
             prefix = (if preserve_first_message \<and> groups \<noteq> [] then [hd groups] else []);
             groups = (if preserve_first_message \<and> groups \<noteq> [] then tl groups else groups)
         in case shed_groups budget prefix groups of
              Inl candidate \<Rightarrow> candidate
            | Inr groups \<Rightarrow>
                (let compacted = truncate_tool_results_to_budget budget
                       (flatten_message_groups (prefix @ groups))
                 in if \<not> over_budget compacted budget then compacted
                    else truncate_text_to_budget budget compacted)))"

section \<open>The outbound view of a message\<close>

definition content_length :: "pyval \<Rightarrow> pyval" where
  "content_length v =
     (case v of
        PStr s \<Rightarrow> PInt (int (length s))
      | PList xs \<Rightarrow> PInt (int (length (json_dumps (PList xs))))
      | _ \<Rightarrow> PNone)"

definition cleared_tool_result_block :: "pydict \<Rightarrow> pydict" where
  "cleared_tool_result_block block =
     dict_set ''content'' (PStr (json_dumps (PDict
       [(''cleared'', PBool True),
        (''reason'', PStr ''Older tool result omitted from model context.''),
        (''tool_use_id'', dict_get_none block ''tool_use_id''),
        (''original_chars'', content_length (dict_get_none block ''content''))]))) block"

definition block_for_model :: "bool \<Rightarrow> int option \<Rightarrow> pydict \<Rightarrow> pydict" where
  "block_for_model clear_tool_results max_tool_result_chars block =
     (if \<not> block_type_is block ''tool_result'' then block
      else if clear_tool_results then cleared_tool_result_block block
      else (case max_tool_result_chars of
              None \<Rightarrow> block
            | Some limit \<Rightarrow>
                (case dict_get_none block ''content'' of
                   PStr cont \<Rightarrow>
                     if int (length cont) > limit
                     then dict_set ''content'' (PStr (json_dumps (PDict
                       [(''truncated'', PBool True),
                        (''original_chars'', PInt (int (length cont))),
                        (''preview'', PStr (take (nat limit) cont))]))) block
                     else block
                 | _ \<Rightarrow> block)))"

definition message_for_model :: "bool \<Rightarrow> int option \<Rightarrow> agent_message \<Rightarrow> agent_message" where
  "message_for_model clear_tool_results max_tool_result_chars m =
     (case msg_content m of
        Text s \<Rightarrow> message (msg_role m) (Text s)
      | Blocks bs \<Rightarrow> message (msg_role m)
          (Blocks (map (block_for_model clear_tool_results max_tool_result_chars) bs)))"

text \<open>\<open>_latest_tool_result_index\<close>: the backward search.\<close>

definition latest_tool_result_index :: "agent_message list \<Rightarrow> nat option" where
  "latest_tool_result_index ms =
     List.find (\<lambda>i. message_has_block_type (ms ! i) ''tool_result'') (rev [0..<length ms])"

section \<open>The manager and its operations\<close>

record sliding_window =
  max_recent_messages :: int
  preserve_initial_user_message :: bool
  clear_old_tool_results :: bool
  max_tool_result_chars :: "int option"
  sw_messages :: "agent_message list"

text \<open>The constructor: \<open>__post_init__\<close> validates the configuration.\<close>

definition SlidingWindowContextManager :: "sliding_window \<Rightarrow> sliding_window res" where
  "SlidingWindowContextManager w =
     (if max_recent_messages w < 2
      then Inl (value_error ''max_recent_messages must be at least 2'')
      else if (case max_tool_result_chars w of None \<Rightarrow> False | Some n \<Rightarrow> n < 1)
      then Inl (value_error ''max_tool_result_chars must be at least 1'')
      else Inr w)"

definition user_message_content :: "string \<Rightarrow> attachment_ref list \<Rightarrow> content" where
  "user_message_content user_prompt attachments =
     (let manifest = attachment_manifest_text attachments in
      if manifest = [] then Text user_prompt
      else Blocks ((if user_prompt \<noteq> [] then [text_block user_prompt] else []) @ [text_block manifest]))"

definition record_user_message :: "string \<Rightarrow> attachment_ref list \<Rightarrow> sliding_window \<Rightarrow> sliding_window" where
  "record_user_message user_prompt attachments w =
     w\<lparr>sw_messages := sw_messages w @ [message User (user_message_content user_prompt attachments)]\<rparr>"

definition initialize :: "string \<Rightarrow> attachment_ref list \<Rightarrow> sliding_window \<Rightarrow> sliding_window" where
  "initialize user_prompt attachments w =
     record_user_message user_prompt attachments (w\<lparr>sw_messages := []\<rparr>)"

text \<open>\<open>_message_from_snapshot\<close>\<close>

definition message_from_snapshot :: "pyval \<Rightarrow> agent_message res" where
  "message_from_snapshot v =
     (case v of
        PDict d \<Rightarrow>
          (if parse_role (dict_get_none d ''role'') = None
           then Inl (value_error
             (''Invalid context snapshot role: '' @ py_str (dict_get_none d ''role'')))
           else
             (case dict_get_none d ''content'' of
                PStr _ \<Rightarrow> normalize_message d
              | PList _ \<Rightarrow> normalize_message d
              | _ \<Rightarrow> Inl (value_error ''Context snapshot content must be a string or list'')))
      | _ \<Rightarrow> Inl (value_error ''Context snapshot message must be a dict''))"

text \<open>
  \<open>_message_to_snapshot\<close> on a message from outside, where \<open>message["content"]\<close> and
  \<open>message["role"]\<close> can be missing and the content can be anything; on a message of the history
  it is \<open>message_dict\<close>.
\<close>

definition message_to_snapshot :: "pydict \<Rightarrow> pydict res" where
  "message_to_snapshot m =
     res_bind (dict_index m ''content'') (\<lambda>cont.
     res_bind
       (case cont of
          PStr s \<Rightarrow> Inr (PStr s)
        | PList bs \<Rightarrow> Inr (PList (map (\<lambda>b. PDict (block_mapping b)) bs))
        | PDict d \<Rightarrow> Inr (PList (map (\<lambda>_. PDict []) d))
        | _ \<Rightarrow> Inl (type_error ''object is not iterable'')) (\<lambda>snapshot_content.
     res_bind (dict_index m ''role'') (\<lambda>r.
     Inr [(''role'', r), (''content'', snapshot_content)])))"

definition snapshot_of :: "agent_message list \<Rightarrow> pydict" where
  "snapshot_of ms = [(''version'', PInt 2), (''messages'', PList (map (\<lambda>m. PDict (message_dict m)) ms))]"

definition restore :: "pydict \<Rightarrow> sliding_window \<Rightarrow> sliding_window res" where
  "restore snapshot w =
     (let version = dict_get_none snapshot ''version'' in
      if version \<noteq> PInt 2 \<and> version \<noteq> PFloat ''2.0''
      then Inl (value_error (''Unsupported context snapshot version: '' @ py_str version))
      else
        (case dict_get_none snapshot ''messages'' of
           PList ms \<Rightarrow> res_bind (res_map message_from_snapshot ms) (\<lambda>msgs. Inr (w\<lparr>sw_messages := msgs\<rparr>))
         | _ \<Rightarrow> Inl (value_error ''Context snapshot messages must be a list'')))"

definition full_context_snapshot :: "sliding_window \<Rightarrow> pydict" where
  "full_context_snapshot w = snapshot_of (sw_messages w)"

definition selected_messages :: "sliding_window \<Rightarrow> agent_message list" where
  "selected_messages w =
     (let ms = sw_messages w in
      if int (length ms) \<le> max_recent_messages w then drop_incomplete_tool_exchanges ms
      else
        (let start_index = length ms - nat (max_recent_messages w);
             selected = drop start_index ms;
             selected = (if preserve_initial_user_message w \<and> start_index > 0
                         then (ms ! 0) # selected else selected)
         in drop_incomplete_tool_exchanges selected))"

definition messages_for_model :: "context_token_budget option \<Rightarrow> sliding_window \<Rightarrow> agent_message list" where
  "messages_for_model token_budget w =
     (let selected = selected_messages w;
          latest = latest_tool_result_index selected;
          messages = map (\<lambda>(index, m). message_for_model
              (Some index \<noteq> latest \<and> clear_old_tool_results w)
              (if Some index = latest then None else max_tool_result_chars w) m)
            (enumerate 0 selected)
      in case token_budget of
           None \<Rightarrow> messages
         | Some budget \<Rightarrow> fit_messages_to_token_budget messages budget (preserve_initial_user_message w))"

definition continuation_context_snapshot :: "context_token_budget option \<Rightarrow> sliding_window \<Rightarrow> pydict" where
  "continuation_context_snapshot token_budget w =
     (let full_messages = without_context_compaction_markers
            (drop_incomplete_tool_exchanges (sw_messages w));
          messages = messages_for_model token_budget w
      in snapshot_of (with_context_compaction_marker full_messages messages
           (preserve_initial_user_message w)))"

definition full_messages :: "sliding_window \<Rightarrow> pydict list" where
  "full_messages w = map message_dict (sw_messages w)"

definition replace_messages :: "pydict list \<Rightarrow> sliding_window \<Rightarrow> sliding_window res" where
  "replace_messages ms w =
     res_bind (res_map (\<lambda>m. message_from_snapshot (PDict m)) ms) (\<lambda>msgs. Inr (w\<lparr>sw_messages := msgs\<rparr>))"

definition message_count :: "sliding_window \<Rightarrow> nat" where
  "message_count w = length (sw_messages w)"

definition record_assistant_message :: "pydict \<Rightarrow> sliding_window \<Rightarrow> sliding_window res" where
  "record_assistant_message m w =
     res_bind (message_to_snapshot m) (\<lambda>d.
     res_bind (message_from_snapshot (PDict d)) (\<lambda>msg.
     Inr (w\<lparr>sw_messages := sw_messages w @ [msg]\<rparr>)))"

definition record_tool_results :: "pydict list \<Rightarrow> sliding_window \<Rightarrow> sliding_window res" where
  "record_tool_results tool_results w =
     (if tool_results = [] then Inr w
      else res_bind (message_from_snapshot (PDict (message_dict (message User (Blocks tool_results))))) (\<lambda>msg.
        Inr (w\<lparr>sw_messages := sw_messages w @ [msg]\<rparr>)))"

text \<open>The manager as the agent's context manager.\<close>

definition sliding_window_ops :: "sliding_window context_ops" where
  "sliding_window_ops =
     \<lparr>cm_initialize = initialize,
      cm_record_user_message = record_user_message,
      cm_restore = restore,
      cm_full_context_snapshot = full_context_snapshot,
      cm_continuation_context_snapshot = continuation_context_snapshot,
      cm_messages_for_model = messages_for_model,
      cm_full_messages = full_messages,
      cm_replace_messages = replace_messages,
      cm_message_count = message_count,
      cm_record_assistant_message = record_assistant_message,
      cm_record_tool_results = record_tool_results\<rparr>"

end
