(* ===== verification/Agent.thy ===== *)
theory Agent
  imports ProviderInterface Tools SlidingWindow
begin

text \<open>
  \<open>agent_harness/agent.py\<close>: the agent loop.

  An agent is polymorphic in the state of its context manager. It runs in an environment that
  stands for the Temporal SDK and the outside world: while the coroutine is suspended the
  environment delivers signals (\<open>steer\<close>, \<open>interrupt\<close>), it decides the outcome of a provider
  activity and of the concurrent tool tasks, and it runs the LLM guards.
\<close>

section \<open>The agent\<close>

definition CONTEXT_OVERFLOW_RECOVERY_ATTEMPTS :: nat where
  "CONTEXT_OVERFLOW_RECOVERY_ATTEMPTS = 1"

definition CONTEXT_OVERFLOW_RETRY_CHARS_PER_TOKEN :: rat where
  "CONTEXT_OVERFLOW_RETRY_CHARS_PER_TOKEN = 5 / 2"

definition CONTEXT_OVERFLOW_RETRY_SAFETY_MARGIN_MULTIPLIER :: int where
  "CONTEXT_OVERFLOW_RETRY_SAFETY_MARGIN_MULTIPLIER = 4"

definition CONTEXT_OVERFLOW_RETRY_MIN_SAFETY_MARGIN_TOKENS :: int where
  "CONTEXT_OVERFLOW_RETRY_MIN_SAFETY_MARGIN_TOKENS = 16000"

record 'c agent =
  ag_system_prompt :: string
  ag_tools :: tool_set
  ag_provider :: provider
  ag_model :: string
  ag_max_tokens :: int
  ag_tool_names :: "string list option"
  ag_stream_id :: "string option"
  ag_activity_options :: "activity_options option"
  ag_llm_guard_activity_options :: activity_options
  ag_llm_guards :: llm_guard_pipeline
  ag_max_context_tokens :: int
  ag_context_safety_margin_tokens :: int
  ag_context_chars_per_token :: rat
  ag_continue_as_new_enabled :: bool
  ag_context_ops :: "'c context_ops"
  ag_context :: 'c
  ag_context_initialized :: bool
  ag_pending_immediate_steering :: "string list"
  ag_pending_after_tool_steering :: "string list"
  ag_pending_interrupts :: "string list"
  ag_interrupt_requested :: bool
  ag_provider_call_sequence :: int
  ag_turn_user_prompt_index :: "int option"
  ag_terminated :: bool
  ag_termination_reason :: "string option"
  ag_llm_guard_state :: pydict

record agent_state =
  as_context_snapshot :: pydict
  as_turns :: int
  as_llm_guard_state :: pydict

record agent_result =
  ar_message :: pydict
  ar_stop_reason :: "string option"
  ar_turns :: int
  ar_continuation_state :: "agent_state option"
  ar_guard_action :: "string option"
  ar_guard_reason :: "string option"
  ar_stop_details :: "pydict option"

definition needs_continue_as_new :: "agent_result \<Rightarrow> bool" where
  "needs_continue_as_new r = (ar_continuation_state r \<noteq> None)"

definition result_terminated :: "agent_result \<Rightarrow> bool" where
  "result_terminated r = (ar_guard_action r = Some (action_text Terminate))"

section \<open>Signals\<close>

definition steer :: "string \<Rightarrow> string \<Rightarrow> ('c agent, unit) op" where
  "steer msg mode ag =
     (if mode = ''immediate''
      then (Inr (), ag\<lparr>ag_pending_immediate_steering := ag_pending_immediate_steering ag @ [msg]\<rparr>)
      else if mode = ''after_next_tool_result''
      then (Inr (), ag\<lparr>ag_pending_after_tool_steering := ag_pending_after_tool_steering ag @ [msg]\<rparr>)
      else (Inl (value_error (''Unknown steering mode: '' @ mode)), ag))"

definition interrupt :: "string \<Rightarrow> string \<Rightarrow> ('c agent, unit) op" where
  "interrupt msg partial_response_policy ag =
     (if partial_response_policy \<noteq> ''discard''
      then (Inl (value_error ''Only partial_response_policy='discard' is currently supported''), ag)
      else (Inr (), ag\<lparr>ag_pending_interrupts := ag_pending_interrupts ag @ [msg],
                      ag_interrupt_requested := True\<rparr>))"

text \<open>A call of a method of the agent by a signal handler; what it raises stays in the handler.\<close>

datatype signal = Steer string string | Interrupt string string

definition apply_signal :: "signal \<Rightarrow> 'c agent \<Rightarrow> 'c agent" where
  "apply_signal sig ag = (case sig of
     Steer msg mode \<Rightarrow> snd (steer msg mode ag)
   | Interrupt msg policy \<Rightarrow> snd (interrupt msg policy ag))"

section \<open>The environment\<close>

text \<open>
  One tool task: the name, the raw arguments and the id of the call it makes of
  \<open>ToolSet.execute_tool\<close>.
\<close>

record tool_call =
  tk_name :: string
  tk_args :: pydict
  tk_id :: pyval

text \<open>
  \<open>ae_wait\<close> is the outcome of a \<open>workflow.wait_condition\<close> (it raises when the workflow is
  cancelled); \<open>ae_provider_result\<close> that of awaiting the activity, told whether it was interrupted;
  \<open>ae_run_tools\<close> the outcomes of \<open>execute_tool\<close> for the concurrent tasks, in any interleaving, told
  whether the tasks that were not done were cancelled; \<open>ae_continue_suggested\<close> the two flags of
  \<open>workflow.info()\<close>; \<open>ae_is_cancelled\<close> the SDK's \<open>is_cancelled_exception\<close>.
\<close>

record 'w agent_env =
  ae_is_cancelled :: "py_exn \<Rightarrow> bool"
  ae_signals :: "'w \<Rightarrow> signal list \<times> 'w"
  ae_wait :: "('w, unit) op"
  ae_provider_result :: "provider_request \<Rightarrow> bool \<Rightarrow> ('w, provider_response) op"
  ae_llm_guard :: "'w llm_guard_semantics"
  ae_run_tools :: "tool_call list \<Rightarrow> bool \<Rightarrow> 'w \<Rightarrow> tool_result res list \<times> 'w"
  ae_continue_suggested :: "'w \<Rightarrow> bool"

record ('c, 'w) session =
  ss_agent :: "'c agent"
  ss_world :: 'w

text \<open>An operation of the world, and one during which the coroutine is suspended.\<close>

definition on_world :: "('w, 'a) op \<Rightarrow> (('c, 'w) session, 'a) op" where
  "on_world m s = (case m (ss_world s) of (r, w) \<Rightarrow> (r, s\<lparr>ss_world := w\<rparr>))"

definition suspended :: "'w agent_env \<Rightarrow> ('w, 'a) op \<Rightarrow> (('c, 'w) session, 'a) op" where
  "suspended env m s =
     (case m (ss_world s) of
        (r, w) \<Rightarrow> (case ae_signals env w of
          (sigs, w') \<Rightarrow> (r, s\<lparr>ss_agent := fold apply_signal sigs (ss_agent s), ss_world := w'\<rparr>)))"

definition set_agent :: "('c agent \<Rightarrow> 'c agent) \<Rightarrow> (('c, 'w) session, unit) op" where
  "set_agent f = op_modify (\<lambda>s. s\<lparr>ss_agent := f (ss_agent s)\<rparr>)"

definition get_agent :: "('c agent \<Rightarrow> 'a) \<Rightarrow> (('c, 'w) session, 'a) op" where
  "get_agent f = op_get (\<lambda>s. f (ss_agent s))"

definition update_context :: "('c context_ops \<Rightarrow> 'c \<Rightarrow> 'c res) \<Rightarrow> (('c, 'w) session, unit) op" where
  "update_context f = op_update (\<lambda>s.
     res_bind (f (ag_context_ops (ss_agent s)) (ag_context (ss_agent s)))
       (\<lambda>c. Inr (s\<lparr>ss_agent := (ss_agent s)\<lparr>ag_context := c\<rparr>\<rparr>)))"

section \<open>Control messages\<close>

definition formatted_control_message :: "string \<Rightarrow> string \<Rightarrow> string \<Rightarrow> string" where
  "formatted_control_message tag description msg =
     ''<'' @ tag @ ''>'' @ newline @ description @ newline @ newline @ msg @ newline @ ''</'' @ tag @ ''>''"

text \<open>
  \<open>_flush_steering_messages\<close>: the \<open>while messages: ... messages.pop(0)\<close> loop; recording a user
  message neither raises nor suspends, so no signal arrives in between.
\<close>

definition record_control :: "string \<Rightarrow> string \<Rightarrow> 'c agent \<Rightarrow> string \<Rightarrow> 'c agent" where
  "record_control tag description ag msg =
     ag\<lparr>ag_context := cm_record_user_message (ag_context_ops ag)
        (formatted_control_message tag description msg) [] (ag_context ag)\<rparr>"

definition flush_steering_messages :: "string \<Rightarrow> string \<Rightarrow> string list \<Rightarrow> 'c agent \<Rightarrow> 'c agent" where
  "flush_steering_messages tag description msgs ag = foldl (record_control tag description) ag msgs"

definition immediate_description :: string where
  "immediate_description = ''This is out-of-band user steering. Use it to adjust how you '' @
     ''proceed, but do not treat it as a new task.''"

definition after_tool_description :: string where
  "after_tool_description = ''This is out-of-band user steering supplied after a tool result. '' @
     ''Use it to adjust the next reasoning step.''"

definition interrupt_description :: string where
  "interrupt_description = ''The in-progress assistant response or tool execution was '' @
     ''interrupted by the user. Discard any uncommitted partial '' @
     ''assistant output and use this new context before continuing.''"

definition flush_immediate_context :: "'c agent \<Rightarrow> 'c agent" where
  "flush_immediate_context ag =
     (flush_steering_messages ''steering'' immediate_description (ag_pending_immediate_steering ag) ag)
       \<lparr>ag_pending_immediate_steering := []\<rparr>"

definition flush_after_tool_context :: "'c agent \<Rightarrow> 'c agent" where
  "flush_after_tool_context ag =
     (flush_steering_messages ''steering'' after_tool_description (ag_pending_after_tool_steering ag) ag)
       \<lparr>ag_pending_after_tool_steering := []\<rparr>"

definition flush_interrupt_context :: "'c agent \<Rightarrow> 'c agent" where
  "flush_interrupt_context ag =
     (flush_steering_messages ''interrupt'' interrupt_description (ag_pending_interrupts ag) ag)
       \<lparr>ag_pending_interrupts := [], ag_interrupt_requested := False\<rparr>"

section \<open>Exceptions as tool results\<close>

definition py_type_name :: "py_exn \<Rightarrow> string" where
  "py_type_name e =
     (case exn_kind e of
        ExcValueError \<Rightarrow> ''ValueError''
      | ExcTypeError \<Rightarrow> ''TypeError''
      | ExcKeyError \<Rightarrow> ''KeyError''
      | ExcRuntimeError \<Rightarrow> ''RuntimeError''
      | ExcUserFacingAgent _ _ \<Rightarrow> ''UserFacingAgentError''
      | ExcUserFacingTool _ _ \<Rightarrow> ''UserFacingToolError''
      | ExcApplication _ _ \<Rightarrow> ''ApplicationError''
      | ExcActivity _ _ _ \<Rightarrow> ''ActivityError''
      | ExcOther n \<Rightarrow> n
      | ExcBase n \<Rightarrow> n)"

text \<open>
  \<open>_exception_chain\<close>, on the links between exception objects: \<open>cause\<close> and \<open>context\<close> may form
  cycles. \<open>room\<close> is how many may still be added, six at the start.
\<close>

primrec follow_chain :: "nat \<Rightarrow> ('e \<Rightarrow> 'e option) \<Rightarrow> ('e \<Rightarrow> 'e option) \<Rightarrow> 'e list \<Rightarrow> 'e option \<Rightarrow> 'e list" where
  "follow_chain 0 cause context seen current = []"
| "follow_chain (Suc room) cause context seen current =
     (case current of
        None \<Rightarrow> []
      | Some e \<Rightarrow>
          (if e \<in> set seen then []
           else (let next_err = (case cause e of Some c \<Rightarrow> Some c | None \<Rightarrow> context e)
                 in e # follow_chain room cause context (e # seen)
                      (if next_err = Some e then None else next_err))))"

definition exception_chain :: "py_exn \<Rightarrow> py_exn list" where
  "exception_chain err = follow_chain 6 exn_cause exn_context [] (Some err)"

definition exception_summary :: "py_exn \<Rightarrow> pydict" where
  "exception_summary err =
     [(''type'', PStr (py_type_name err)), (''message'', PStr (exn_str err))] @
     (case exn_kind err of
        ExcApplication t nr \<Rightarrow> [(''application_type'', opt_str t), (''non_retryable'', PBool nr)]
      | ExcActivity t i state \<Rightarrow>
          [(''activity_type'', PStr t), (''activity_id'', PStr i), (''retry_state'', opt_str state)]
      | _ \<Rightarrow> [])"

definition tool_exception_payload :: "string \<Rightarrow> py_exn \<Rightarrow> pydict" where
  "tool_exception_payload tool_name err =
     (let causes = map exception_summary (exception_chain err);
          root = (if causes \<noteq> [] then last causes else exception_summary err)
      in [(''error'', py_or (dict_get_none root ''message'') (PStr ''Tool execution failed.'')),
          (''type'', PStr ''ToolExecutionFailed''),
          (''tool_name'', PStr tool_name),
          (''exception_type'', PStr (py_type_name err)),
          (''cause_type'', dict_get_none root ''type''),
          (''message'', PStr (''The tool failed after any configured retries. Treat this as the '' @
             ''tool result and continue if possible.'')),
          (''causes'', PList (map PDict causes))])"

definition is_context_window_exceeded :: "py_exn \<Rightarrow> bool" where
  "is_context_window_exceeded err =
     list_ex (\<lambda>cause. case exn_kind cause of
         ExcApplication t _ \<Rightarrow> t = Some CONTEXT_WINDOW_EXCEEDED_ERROR_TYPE
       | _ \<Rightarrow> False) (exception_chain err)"

section \<open>Executing the requested tools\<close>

text \<open>
  The keyword call \<open>self._execute_tool(tool_name, tool_call_id=..., **tool_input)\<close>: an input that
  is not a mapping, or that has one of the names the call already gives, raises \<open>TypeError\<close>.
\<close>

definition quoted :: "string \<Rightarrow> string" where
  "quoted s = [CHR 0x27] @ s @ [CHR 0x27]"

definition execute_tool_kwargs :: "pyval \<Rightarrow> pydict res" where
  "execute_tool_kwargs tool_input =
     (case tool_input of
        PDict d \<Rightarrow>
          (if dict_get d ''tool_call_id'' \<noteq> None
           then Inl (type_error (''agent_harness.agent.Agent._execute_tool() got multiple values for '' @
             ''keyword argument '' @ quoted ''tool_call_id''))
           else if dict_get d ''self'' \<noteq> None
           then Inl (type_error (''Agent._execute_tool() got multiple values for argument '' @ quoted ''self''))
           else if dict_get d ''tool_name'' \<noteq> None
           then Inl (type_error (''Agent._execute_tool() got multiple values for argument '' @
             quoted ''tool_name''))
           else Inr d)
      | _ \<Rightarrow> Inl (type_error (''agent_harness.agent.Agent._execute_tool() argument after ** must be '' @
          ''a mapping'')))"

text \<open>What a task does before \<open>ToolSet.execute_tool\<close>: an answer, or the call it makes of it.\<close>

definition plan_tool :: "'c agent \<Rightarrow> string \<Rightarrow> pyval \<Rightarrow> pyval \<Rightarrow> tool_result res + tool_call" where
  "plan_tool ag tool_name tool_input tool_use_id =
     (case execute_tool_kwargs tool_input of
        Inl e \<Rightarrow> Inl (Inl e)
      | Inr kwargs \<Rightarrow>
          (if (case ag_tool_names ag of None \<Rightarrow> False | Some names \<Rightarrow> tool_name \<notin> set names)
           then Inl (Inr \<lparr>tr_payload =
             [(''error'', PStr (''Tool is not available to this agent: '' @ tool_name))], tr_error = True\<rparr>)
           else if tool_name \<notin> set (tool_names (ag_tools ag))
           then Inl (Inr \<lparr>tr_payload =
             [(''error'', PStr (''Unknown tool requested: '' @ tool_name))], tr_error = True\<rparr>)
           else Inr \<lparr>tk_name = tool_name, tk_args = kwargs, tk_id = tool_use_id\<rparr>))"

text \<open>
  The \<open>try\<close> of \<open>_execute_requested_tool\<close> around the outcome of \<open>_execute_tool\<close>. A
  \<open>BaseException\<close> that is no \<open>Exception\<close> is not caught.
\<close>

definition guarded_outcome :: "(py_exn \<Rightarrow> bool) \<Rightarrow> string \<Rightarrow> tool_result res \<Rightarrow> tool_result res" where
  "guarded_outcome is_cancelled tool_name outcome =
     (case outcome of
        Inr r \<Rightarrow> Inr r
      | Inl err \<Rightarrow>
          (case exn_kind err of
             ExcUserFacingTool error_type payload \<Rightarrow>
               Inr \<lparr>tr_payload = to_tool_payload error_type payload (exn_str err), tr_error = True\<rparr>
           | ExcBase _ \<Rightarrow> Inl err
           | _ \<Rightarrow> (if is_cancelled err then Inl err
                   else Inr \<lparr>tr_payload = tool_exception_payload tool_name err, tr_error = True\<rparr>)))"

text \<open>
  The three fields of a block, each of which raises \<open>KeyError\<close> when it is missing. The name is a text (the code casts
  it, and all providers give one); a name that is not is read as its text here, as the error that answers it prints it.
\<close>

record requested_tool =
  rt_name :: string
  rt_input :: pyval
  rt_id :: pyval

definition read_block :: "pydict \<Rightarrow> requested_tool res" where
  "read_block b =
     res_bind (dict_index b ''name'') (\<lambda>name.
     res_bind (dict_index b ''input'') (\<lambda>inp.
     res_bind (dict_index b ''id'') (\<lambda>i.
     Inr \<lparr>rt_name = py_str name, rt_input = inp, rt_id = i\<rparr>)))"

definition result_block_of :: "pyval \<Rightarrow> tool_result \<Rightarrow> pydict" where
  "result_block_of tool_use_id r =
     tool_result_block tool_use_id (json_content (PDict (tr_payload r))) (tr_error r) None"

text \<open>The task of one block, given the outcome of \<open>ToolSet.execute_tool\<close> if it calls it.\<close>

definition task_outcome :: "(py_exn \<Rightarrow> bool) \<Rightarrow> 'c agent \<Rightarrow> pydict \<Rightarrow> tool_result res \<Rightarrow> pydict res" where
  "task_outcome is_cancelled ag b executed =
     res_bind (read_block b) (\<lambda>t.
     res_bind (guarded_outcome is_cancelled (rt_name t)
         (case plan_tool ag (rt_name t) (rt_input t) (rt_id t) of
            Inl answer \<Rightarrow> answer
          | Inr _ \<Rightarrow> executed))
       (\<lambda>r. Inr (result_block_of (rt_id t) r)))"

definition planned_call :: "'c agent \<Rightarrow> pydict \<Rightarrow> tool_call option" where
  "planned_call ag b =
     (case read_block b of
        Inl _ \<Rightarrow> None
      | Inr t \<Rightarrow> (case plan_tool ag (rt_name t) (rt_input t) (rt_id t) of Inl _ \<Rightarrow> None | Inr call \<Rightarrow> Some call))"

text \<open>
  The tasks of the blocks, taking the outcomes of the calls in order; a block that makes no call
  needs no outcome.
\<close>

fun task_outcomes ::
  "(py_exn \<Rightarrow> bool) \<Rightarrow> 'c agent \<Rightarrow> pydict list \<Rightarrow> tool_result res list \<Rightarrow> pydict res list" where
  "task_outcomes is_cancelled ag [] outcomes = []"
| "task_outcomes is_cancelled ag (b # bs) outcomes =
     (case planned_call ag b of
        None \<Rightarrow> task_outcome is_cancelled ag b (Inl (key_error [])) # task_outcomes is_cancelled ag bs outcomes
      | Some _ \<Rightarrow> task_outcome is_cancelled ag b (hd outcomes) # task_outcomes is_cancelled ag bs (tl outcomes))"

definition interrupted_tool_result :: "pydict \<Rightarrow> pydict res" where
  "interrupted_tool_result b =
     res_bind (dict_index b ''id'') (\<lambda>i.
     Inr (tool_result_block i (json_content (PDict
       [(''interrupted'', PBool True),
        (''message'', PStr (''Tool execution was interrupted by the user before it '' @ ''completed.''))])) True None))"

text \<open>The collection loop over \<open>zip(tool_use_blocks, tool_tasks)\<close>.\<close>

fun collect_results :: "(py_exn \<Rightarrow> bool) \<Rightarrow> bool \<Rightarrow> (pydict \<times> pydict res) list \<Rightarrow> pydict list res" where
  "collect_results is_cancelled interrupted [] = Inr []"
| "collect_results is_cancelled interrupted ((b, outcome) # tasks) =
     (case outcome of
        Inr r \<Rightarrow> res_bind (collect_results is_cancelled interrupted tasks) (\<lambda>rs. Inr (r # rs))
      | Inl err \<Rightarrow>
          (if interrupted \<and> is_cancelled err
           then res_bind (interrupted_tool_result b) (\<lambda>r.
                res_bind (collect_results is_cancelled interrupted tasks) (\<lambda>rs. Inr (r # rs)))
           else Inl err))"

record tool_execution_result =
  te_tool_results :: "pydict list"
  te_interrupted :: bool

text \<open>
  \<open>_execute_requested_tools\<close>. \<open>ae_run_tools\<close> is told the calls of the tasks that reach the tool
  set; awaiting the cancelled tasks suspends the coroutine again.
\<close>

definition execute_requested_tools ::
  "'w agent_env \<Rightarrow> pydict list \<Rightarrow> (('c, 'w) session, tool_execution_result) op" where
  "execute_requested_tools env blocks =
     op_bind (suspended env (ae_wait env)) (\<lambda>_.
     op_bind (get_agent (\<lambda>ag. ag)) (\<lambda>ag.
     let interrupted = ag_interrupt_requested ag; calls = List.map_filter (planned_call ag) blocks in
     op_bind (suspended env (\<lambda>w. case ae_run_tools env calls interrupted w of (rs, w') \<Rightarrow> (Inr rs, w')))
       (\<lambda>outcomes.
     op_bind (op_lift (collect_results (ae_is_cancelled env) interrupted
         (zip blocks (task_outcomes (ae_is_cancelled env) ag blocks outcomes))))
       (\<lambda>results. op_return \<lparr>te_tool_results = results, te_interrupted = interrupted\<rparr>))))"

section \<open>Calling the provider\<close>

definition agent_token_budget :: "'c agent \<Rightarrow> pydict list \<Rightarrow> bool \<Rightarrow> context_token_budget res" where
  "agent_token_budget ag schemas context_overflow_retry =
     (let reserved = pv_estimate_request_tokens (ag_provider ag) (ag_system_prompt ag) schemas;
          margin = ag_context_safety_margin_tokens ag;
          cpt = ag_context_chars_per_token ag;
          retry_margin = max (margin * CONTEXT_OVERFLOW_RETRY_SAFETY_MARGIN_MULTIPLIER)
            CONTEXT_OVERFLOW_RETRY_MIN_SAFETY_MARGIN_TOKENS;
          max_margin = ag_max_context_tokens ag - ag_max_tokens ag - reserved - 1
      in ContextTokenBudget
           \<lparr>max_context_tokens = ag_max_context_tokens ag,
            reserved_output_tokens = ag_max_tokens ag,
            reserved_input_tokens = reserved,
            safety_margin_tokens =
              (if context_overflow_retry then min retry_margin (max 0 max_margin) else margin),
            chars_per_token =
              (if context_overflow_retry then min cpt CONTEXT_OVERFLOW_RETRY_CHARS_PER_TOKEN else cpt)\<rparr>)"

text \<open>\<open>_run_provider_activity\<close>: \<open>None\<close> when an interrupt discarded the call.\<close>

definition run_provider_activity ::
  "'w agent_env \<Rightarrow> provider_request \<Rightarrow> (('c, 'w) session, provider_response option) op" where
  "run_provider_activity env request =
     op_bind (suspended env (ae_wait env)) (\<lambda>_.
     op_bind (get_agent ag_interrupt_requested) (\<lambda>interrupted.
       if interrupted
       then op_catch (op_bind (suspended env (ae_provider_result env request True)) (\<lambda>_. op_return None))
              (\<lambda>err. if ae_is_cancelled env err then op_return None else op_raise err)
       else op_bind (on_world (ae_provider_result env request False)) (\<lambda>r. op_return (Some r))))"

text \<open>The request of one attempt: the guarded request with the windowed history.\<close>

definition provider_attempt_request ::
  "provider_request \<Rightarrow> int \<Rightarrow> context_token_budget \<Rightarrow> 'c agent \<Rightarrow> provider_request res" where
  "provider_attempt_request guarded stream_attempt budget ag =
     res_bind (pv_replace_request_chat_history (ag_provider ag) guarded
         (map message_dict (cm_messages_for_model (ag_context_ops ag) (Some budget) (ag_context ag))))
       (\<lambda>request. Inr (pv_replace_request_stream_attempt (ag_provider ag) request (Some stream_attempt)))"

text \<open>\<open>_call_provider_with_context_recovery\<close>; \<open>retries\<close> is how many retries are left.\<close>

function provider_attempts ::
  "'w agent_env \<Rightarrow> provider_request \<Rightarrow> pydict list \<Rightarrow> nat \<Rightarrow> int \<Rightarrow> context_token_budget
   \<Rightarrow> (('c, 'w) session, provider_response option) op" where
  "provider_attempts env guarded tool_params retries stream_attempt budget =
     op_bind (op_check (\<lambda>s. provider_attempt_request guarded stream_attempt budget (ss_agent s))) (\<lambda>request.
     op_catch (run_provider_activity env request) (\<lambda>err.
     op_bind (get_agent ag_interrupt_requested) (\<lambda>interrupted.
       if interrupted \<and> ae_is_cancelled env err then op_return None
       else if 0 < retries \<and> is_context_window_exceeded err
       then op_bind (op_check (\<lambda>s. agent_token_budget (ss_agent s) tool_params True)) (\<lambda>budget.
              provider_attempts env guarded tool_params (retries - 1) (stream_attempt + 1) budget)
       else op_raise err)))"
  by pat_completeness auto
termination
  by (relation "measure (\<lambda>(env, guarded, tool_params, retries, stream_attempt, budget). retries)") auto

declare provider_attempts.simps [simp del]

definition call_provider_with_context_recovery ::
  "'w agent_env \<Rightarrow> provider_request \<Rightarrow> pydict list \<Rightarrow> (('c, 'w) session, provider_response option) op" where
  "call_provider_with_context_recovery env guarded tool_params =
     op_bind (op_check (\<lambda>s. agent_token_budget (ss_agent s) tool_params False))
       (provider_attempts env guarded tool_params CONTEXT_OVERFLOW_RECOVERY_ATTEMPTS 1)"

text \<open>
  \<open>_call_provider\<close>. The \<open>try\<close> covers everything after the guarded history was persisted; the state
  the guards before the call left reaches the agent only with the guards after it.
\<close>

definition full_history_request :: "pydict list \<Rightarrow> 'c agent \<Rightarrow> provider_request res" where
  "full_history_request tool_params ag =
     pv_create_request (ag_provider ag)
       \<lparr>pq_system_prompt = ag_system_prompt ag, pq_model = ag_model ag, pq_max_tokens = ag_max_tokens ag,
        pq_tools = tool_params, pq_chat_history = cm_full_messages (ag_context_ops ag) (ag_context ag),
        pq_context_token_limit = Some (ag_max_context_tokens ag), pq_stream_id = ag_stream_id ag,
        pq_stream_sequence = Some (ag_provider_call_sequence ag), pq_stream_attempt = Some 1\<rparr>"

definition set_guard_state :: "pydict \<Rightarrow> (('c, 'w) session, unit) op" where
  "set_guard_state state = set_agent (\<lambda>ag. ag\<lparr>ag_llm_guard_state := state\<rparr>)"

definition after_response ::
  "'w agent_env \<Rightarrow> provider_request \<Rightarrow> pydict \<Rightarrow> provider_response \<Rightarrow> (('c, 'w) session, provider_response) op" where
  "after_response env guarded guard_state response =
     op_bind (get_agent (\<lambda>ag. ag)) (\<lambda>ag.
     let pv = ag_provider ag in
     op_bind (op_lift (pv_replace_request_chat_history pv guarded
         (cm_full_messages (ag_context_ops ag) (ag_context ag)))) (\<lambda>request.
     op_bind (suspended env (execute_post (ae_llm_guard env) (ag_llm_guards ag) (pv_request_to_dict pv request)
         (pv_response_to_dict pv response) guard_state (ag_stream_id ag) (ag_llm_guard_activity_options ag)))
       (\<lambda>execution.
     op_bind (set_guard_state (le_state execution)) (\<lambda>_.
       if halted execution
       then op_lift (pv_response_from_guard_execution pv execution (pr_model response))
       else op_lift (pv_response_from_dict pv
              (case le_response execution of
                 Some (x # xs) \<Rightarrow> x # xs
               | _ \<Rightarrow> pv_response_to_dict pv response))))))"

definition call_provider ::
  "'w agent_env \<Rightarrow> pydict list \<Rightarrow> (('c, 'w) session, provider_response option) op" where
  "call_provider env tool_params =
     op_bind (set_agent (\<lambda>ag. ag\<lparr>ag_provider_call_sequence := ag_provider_call_sequence ag + 1\<rparr>)) (\<lambda>_.
     op_bind (op_check (\<lambda>s. full_history_request tool_params (ss_agent s))) (\<lambda>guard_request.
     op_bind (get_agent (\<lambda>ag. ag)) (\<lambda>ag.
     let pv = ag_provider ag in
     op_bind (suspended env (execute_pre (ae_llm_guard env) (ag_llm_guards ag)
         (pv_request_to_dict pv guard_request) (ag_llm_guard_state ag) (ag_stream_id ag)
         (ag_llm_guard_activity_options ag))) (\<lambda>execution.
     op_bind (op_lift (pv_request_from_dict pv (le_request execution))) (\<lambda>guarded.
       if halted execution
       then op_bind (set_guard_state (le_state execution)) (\<lambda>_.
            op_bind (op_lift (pv_response_from_guard_execution pv execution (pq_model guarded)))
              (\<lambda>r. op_return (Some r)))
       else
         op_bind (op_lift (pv_request_chat_history pv guarded)) (\<lambda>history.
         op_bind (update_context (\<lambda>ops. cm_replace_messages ops history)) (\<lambda>_.
         op_catch
           (op_bind (call_provider_with_context_recovery env guarded tool_params) (\<lambda>response.
              case response of
                None \<Rightarrow> op_return None
              | Some r \<Rightarrow> op_bind (after_response env guarded (le_state execution) r)
                  (\<lambda>r. op_return (Some r))))
           (\<lambda>err. op_bind (get_agent ag_interrupt_requested) (\<lambda>interrupted.
              if interrupted \<and> ae_is_cancelled env err then op_return None else op_raise err)))))))))"

section \<open>The loop\<close>

definition response_result :: "pydict \<Rightarrow> provider_response \<Rightarrow> int \<Rightarrow> agent_state option \<Rightarrow> agent_result" where
  "response_result msg response turn continuation =
     \<lparr>ar_message = msg, ar_stop_reason = pr_stop_reason response, ar_turns = turn,
      ar_continuation_state = continuation, ar_guard_action = pr_guard_action response,
      ar_guard_reason = pr_guard_reason response, ar_stop_details = pr_stop_details response\<rparr>"

definition terminated_result :: "'c agent \<Rightarrow> int \<Rightarrow> agent_result" where
  "terminated_result ag turns =
     \<lparr>ar_message = message_dict (text_message Assistant ''The agent was terminated.''),
      ar_stop_reason = Some ''refusal'', ar_turns = turns, ar_continuation_state = None,
      ar_guard_action = Some (action_text Terminate), ar_guard_reason = ag_termination_reason ag,
      ar_stop_details = None\<rparr>"

definition max_turns_result :: "'c agent \<Rightarrow> int \<Rightarrow> agent_result" where
  "max_turns_result ag max_turns =
     \<lparr>ar_message = message_dict (text_message Assistant
        (''Stopped after reaching max_turns='' @ int_str max_turns @ ''.'')),
      ar_stop_reason = Some (pv_stop_reason_for_max_turns (ag_provider ag)), ar_turns = max_turns,
      ar_continuation_state = None, ar_guard_action = None, ar_guard_reason = None, ar_stop_details = None\<rparr>"

text \<open>
  One pass of the \<open>while\<close> loop at a turn count: \<open>Inl\<close> the turn count of the next pass
  (\<open>continue\<close>), or \<open>Inr\<close> the result it returns.
\<close>

definition finish_tools ::
  "'w agent_env \<Rightarrow> pydict list \<Rightarrow> pydict \<Rightarrow> provider_response \<Rightarrow> int \<Rightarrow> tool_execution_result
   \<Rightarrow> (('c, 'w) session, int + agent_result) op" where
  "finish_tools env schemas msg response turn execution =
     op_bind (update_context (\<lambda>ops. cm_record_tool_results ops (te_tool_results execution))) (\<lambda>_.
     op_bind (set_agent flush_after_tool_context) (\<lambda>_.
     op_bind (get_agent (\<lambda>ag. ag)) (\<lambda>ag.
       if ag_interrupt_requested ag \<or> te_interrupted execution
       then op_bind (set_agent flush_interrupt_context) (\<lambda>_. op_return (Inl turn))
       else op_bind (op_get (\<lambda>s. ag_continue_as_new_enabled ag \<and> ae_continue_suggested env (ss_world s)))
         (\<lambda>suggested.
            if suggested
            then op_bind (op_lift (agent_token_budget ag schemas False)) (\<lambda>budget.
                 op_return (Inr (response_result msg response turn (Some
                   \<lparr>as_context_snapshot = cm_continuation_context_snapshot (ag_context_ops ag) (Some budget) (ag_context ag),
                    as_turns = turn, as_llm_guard_state = ag_llm_guard_state ag\<rparr>))))
            else op_return (Inl turn)))))"

definition handle_response ::
  "'w agent_env \<Rightarrow> pydict list \<Rightarrow> provider_response \<Rightarrow> int \<Rightarrow> (('c, 'w) session, int + agent_result) op" where
  "handle_response env schemas raw turn =
     op_bind (get_agent ag_provider) (\<lambda>pv.
     op_bind (op_lift (pv_response_with_visible_refusal pv raw)) (\<lambda>response.
     op_bind (op_lift (pv_response_message pv response)) (\<lambda>msg.
     let requested_tools = tool_use_blocks msg in
     op_bind (update_context (\<lambda>ops. cm_record_assistant_message ops msg)) (\<lambda>_.
       if pr_guard_action response \<noteq> None
       then op_bind (set_agent (\<lambda>ag.
              if pr_guard_action response = Some (action_text Terminate)
              then ag\<lparr>ag_terminated := True, ag_termination_reason := pr_guard_reason response\<rparr> else ag)) (\<lambda>_.
            op_return (Inr (response_result msg response turn None)))
       else if requested_tools = []
       then op_bind (get_agent ag_interrupt_requested) (\<lambda>interrupted.
              if interrupted
              then op_bind (set_agent flush_interrupt_context) (\<lambda>_. op_return (Inl turn))
              else op_return (Inr (response_result msg response turn None)))
       else op_bind (execute_requested_tools env requested_tools)
              (finish_tools env schemas msg response turn)))))"

definition run_pass :: "'w agent_env \<Rightarrow> pydict list \<Rightarrow> int \<Rightarrow> (('c, 'w) session, int + agent_result) op" where
  "run_pass env schemas turn =
     op_bind (set_agent (\<lambda>ag. if ag_interrupt_requested ag then flush_interrupt_context ag else ag)) (\<lambda>_.
     op_bind (set_agent flush_immediate_context) (\<lambda>_.
     op_bind (call_provider env schemas) (\<lambda>response.
       case response of
         None \<Rightarrow> op_bind (set_agent flush_interrupt_context) (\<lambda>_. op_return (Inl turn))
       | Some r \<Rightarrow>
           op_bind (get_agent ag_interrupt_requested) (\<lambda>interrupted.
             if interrupted
             then op_bind (set_agent flush_interrupt_context) (\<lambda>_. op_return (Inl (turn + 1)))
             else handle_response env schemas r (turn + 1)))))"

text \<open>
  The loop, with fuel for its passes: a pass that an interrupt discards does not count as a turn,
  so the turns alone do not bound it. \<open>None\<close> when the fuel ran out.
\<close>

fun run_loop ::
  "nat \<Rightarrow> 'w agent_env \<Rightarrow> pydict list \<Rightarrow> int \<Rightarrow> int \<Rightarrow> (('c, 'w) session, agent_result option) op" where
  "run_loop 0 env schemas max_turns turn = op_return None"
| "run_loop (Suc fuel) env schemas max_turns turn =
     (if turn < max_turns
      then op_bind (run_pass env schemas turn) (\<lambda>next.
             case next of
               Inl turn' \<Rightarrow> run_loop fuel env schemas max_turns turn'
             | Inr result \<Rightarrow> op_return (Some result))
      else op_bind (get_agent (\<lambda>ag. max_turns_result ag max_turns)) (\<lambda>r. op_return (Some r)))"

text \<open>How a turn starts: with a user prompt, or from a saved state; the completed turns.\<close>

definition begin_turn ::
  "string option \<Rightarrow> attachment_ref list \<Rightarrow> agent_state option \<Rightarrow> ('c agent, int) op" where
  "begin_turn user_prompt attachments state ag =
     (let ops = ag_context_ops ag in
      case state of
        None \<Rightarrow>
          (case user_prompt of
             None \<Rightarrow> (Inl (value_error ''user_prompt is required when state is not provided''), ag)
           | Some prompt \<Rightarrow>
               (let c = (if ag_context_initialized ag
                         then cm_record_user_message ops prompt attachments (ag_context ag)
                         else cm_initialize ops prompt attachments (ag_context ag))
                in (Inr 0, ag\<lparr>ag_context := c, ag_context_initialized := True,
                     ag_turn_user_prompt_index := Some (int (cm_message_count ops c) - 1)\<rparr>)))
      | Some st \<Rightarrow>
          (case cm_restore ops (as_context_snapshot st) (ag_context ag) of
             Inl e \<Rightarrow> (Inl e, ag)
           | Inr c \<Rightarrow> (Inr (as_turns st), ag\<lparr>ag_context := c, ag_context_initialized := True,
                 ag_llm_guard_state := as_llm_guard_state st, ag_turn_user_prompt_index := None\<rparr>)))"

definition run ::
  "nat \<Rightarrow> 'w agent_env \<Rightarrow> string option \<Rightarrow> attachment_ref list \<Rightarrow> agent_state option \<Rightarrow> int
   \<Rightarrow> (('c, 'w) session, agent_result option) op" where
  "run fuel env user_prompt attachments state max_turns =
     op_bind (get_agent (\<lambda>ag. ag)) (\<lambda>ag.
       if ag_terminated ag
       then op_return (Some (terminated_result ag (case state of None \<Rightarrow> 0 | Some st \<Rightarrow> as_turns st)))
       else
         op_bind (\<lambda>s. case begin_turn user_prompt attachments state (ss_agent s) of
                        (r, ag) \<Rightarrow> (r, s\<lparr>ss_agent := ag\<rparr>)) (\<lambda>completed_turns.
         op_bind (op_lift (tool_schemas (ag_tools ag) (ag_tool_names ag))) (\<lambda>schemas.
         run_loop fuel env schemas max_turns completed_turns)))"

section \<open>The other operations\<close>

definition effective_user_prompt :: "'c agent \<Rightarrow> string option" where
  "effective_user_prompt ag =
     (case ag_turn_user_prompt_index ag of
        None \<Rightarrow> None
      | Some index \<Rightarrow>
          (let messages = cm_full_messages (ag_context_ops ag) (ag_context ag) in
           if \<not> (0 \<le> index \<and> index < int (length messages)) then None
           else Some (visible_user_message_text (messages ! nat index))))"

definition restore_idle_state :: "agent_state \<Rightarrow> ('c agent, unit) op" where
  "restore_idle_state st ag =
     (case cm_restore (ag_context_ops ag) (as_context_snapshot st) (ag_context ag) of
        Inl e \<Rightarrow> (Inl e, ag)
      | Inr c \<Rightarrow> (Inr (), ag\<lparr>ag_context := c, ag_context_initialized := True,
            ag_llm_guard_state := as_llm_guard_state st\<rparr>))"

definition context_snapshot :: "'c agent \<Rightarrow> pydict" where
  "context_snapshot ag =
     (if \<not> ag_context_initialized ag then [(''version'', PInt 2), (''messages'', PList [])]
      else cm_full_context_snapshot (ag_context_ops ag) (ag_context ag))"

definition compacted_state :: "'c agent \<Rightarrow> agent_state res" where
  "compacted_state ag =
     res_bind (tool_schemas (ag_tools ag) (ag_tool_names ag)) (\<lambda>schemas.
     res_bind (agent_token_budget ag schemas False) (\<lambda>budget.
     Inr \<lparr>as_context_snapshot = cm_continuation_context_snapshot (ag_context_ops ag) (Some budget) (ag_context ag),
          as_turns = 0, as_llm_guard_state = ag_llm_guard_state ag\<rparr>))"

end
