(* ===== verification/ToolExchanges.thy ===== *)
theory ToolExchanges
  imports SlidingWindow
begin

text \<open>
  The tool-use contract of the conversation: what it means for a list of messages to be
  sendable, and the proofs that dropping incomplete exchanges establishes it and that
  windowing, grouping, shedding and truncation keep it.
\<close>

section \<open>Sendable histories\<close>

definition asks :: "agent_message \<Rightarrow> bool" where
  "asks m = (tool_use_ids m \<noteq> {})"

lemma asks_iff [simp]: "tool_use_ids m = {} \<longleftrightarrow> \<not> asks m"
  by (simp add: asks_def)

text \<open>
  Every message that asks for tools is followed by a message that answers each of its calls,
  and no answer stands anywhere else.
\<close>

fun well_paired :: "agent_message list \<Rightarrow> bool" where
  "well_paired [] = True"
| "well_paired (m # ms) =
     (if asks m
      then (case ms of [] \<Rightarrow> False
            | r # rest \<Rightarrow> has_tool_results_for r (tool_use_ids m) \<and> well_paired rest)
      else \<not> message_has_block_type m ''tool_result'' \<and> well_paired ms)"

lemma well_paired_plain:
  "\<not> asks m \<Longrightarrow> \<not> message_has_block_type m ''tool_result'' \<Longrightarrow> well_paired ms \<Longrightarrow> well_paired (m # ms)"
  by simp

lemma well_paired_exchange:
  "asks m \<Longrightarrow> has_tool_results_for r (tool_use_ids m) \<Longrightarrow> well_paired rest \<Longrightarrow> well_paired (m # r # rest)"
  by simp

lemma well_paired_induct [consumes 1, case_names empty plain exchange]:
  assumes "well_paired ms" and "P []"
    and "\<And>m ms. \<lbrakk>\<not> asks m; \<not> message_has_block_type m ''tool_result''; well_paired ms; P ms\<rbrakk> \<Longrightarrow> P (m # ms)"
    and "\<And>m r rest. \<lbrakk>asks m; has_tool_results_for r (tool_use_ids m); well_paired rest; P rest\<rbrakk>
      \<Longrightarrow> P (m # r # rest)"
  shows "P ms"
  using assms(1)
proof (induction ms rule: length_induct)
  case (1 ms)
  show ?case
  proof (cases ms)
    case Nil
    with assms(2) show ?thesis by simp
  next
    case (Cons m rest)
    show ?thesis
    proof (cases "asks m")
      case False
      with 1 Cons show ?thesis by (auto intro!: assms(3))
    next
      case True
      with 1 Cons show ?thesis by (cases rest) (auto intro!: assms(4))
    qed
  qed
qed

text \<open>A message either asks for tools or answers, never both.\<close>

definition unmixed :: "agent_message \<Rightarrow> bool" where
  "unmixed m = (\<not> asks m \<or> \<not> message_has_block_type m ''tool_result'')"

text \<open>Two messages of the same shape ask and answer alike, block type by block type.\<close>

definition same_shape :: "agent_message \<Rightarrow> agent_message \<Rightarrow> bool" where
  "same_shape m m' = (msg_role m = msg_role m' \<and> tool_use_ids m = tool_use_ids m'
     \<and> tool_result_ids m = tool_result_ids m'
     \<and> (\<forall>ty. message_has_block_type m ty = message_has_block_type m' ty)
     \<and> wf_message m = wf_message m')"

lemma same_shape_refl [simp, intro]: "same_shape m m"
  by (simp add: same_shape_def)

lemma same_shape_trans: "same_shape a b \<Longrightarrow> same_shape b c \<Longrightarrow> same_shape a c"
  by (simp add: same_shape_def)

abbreviation shape_list :: "agent_message list \<Rightarrow> agent_message list \<Rightarrow> bool" where
  "shape_list \<equiv> list_all2 same_shape"

lemma shape_list_refl [simp, intro]: "shape_list ms ms"
  by (simp add: list_all2_refl)

lemma shape_list_trans: "shape_list a b \<Longrightarrow> shape_list b c \<Longrightarrow> shape_list a c"
  by (rule list_all2_trans [OF same_shape_trans])

lemma same_shape_asks: "same_shape m m' \<Longrightarrow> asks m' = asks m"
  by (simp add: same_shape_def asks_def del: asks_iff)

lemma shape_list_well_paired [paired_intros]:
  "well_paired ms \<Longrightarrow> shape_list ms ms' \<Longrightarrow> well_paired ms'"
proof (induction ms arbitrary: ms' rule: well_paired_induct)
  case (plain m ms)
  from plain.prems obtain m' ms'' where ms': "ms' = m' # ms''" "same_shape m m'" "shape_list ms ms''"
    by (auto simp: list_all2_Cons1)
  then have "\<not> asks m'" "\<not> message_has_block_type m' ''tool_result''" "well_paired ms''"
    using plain.hyps plain.IH [OF ms'(3)] same_shape_asks [OF ms'(2)] by (simp_all add: same_shape_def)
  with ms'(1) show ?case by simp
next
  case (exchange m r rest)
  from exchange.prems obtain m' r' rest' where ms': "ms' = m' # r' # rest'" "same_shape m m'"
    "same_shape r r'" "shape_list rest rest'"
    by (auto simp: list_all2_Cons1)
  then have "asks m'" "has_tool_results_for r' (tool_use_ids m')" "well_paired rest'"
    using exchange.hyps exchange.IH [OF ms'(4)] same_shape_asks [OF ms'(2)]
    by (simp_all add: same_shape_def has_tool_results_for_def)
  with ms'(1) show ?case by simp
qed simp

lemma well_paired_append [paired_intros]:
  "well_paired xs \<Longrightarrow> well_paired ys \<Longrightarrow> well_paired (xs @ ys)"
  by (induction xs rule: well_paired_induct) simp_all

lemma well_paired_concat [paired_intros]:
  "\<forall>g \<in> set gs. well_paired g \<Longrightarrow> well_paired (concat gs)"
  by (induction gs) (auto intro: well_paired_append)

section \<open>Dropping incomplete exchanges\<close>

text \<open>The three ways a message leaves the head of the list.\<close>

lemma drop_plain:
  "\<not> asks m \<Longrightarrow> drop_incomplete_tool_exchanges (m # ms) =
     (if message_has_block_type m ''tool_result'' then drop_incomplete_tool_exchanges ms
      else m # drop_incomplete_tool_exchanges ms)"
  by simp

lemma drop_exchange:
  "asks m \<Longrightarrow> has_tool_results_for r (tool_use_ids m) \<Longrightarrow>
   drop_incomplete_tool_exchanges (m # r # rest) = m # r # drop_incomplete_tool_exchanges rest"
  by simp

lemma drop_unanswered:
  "asks m \<Longrightarrow> (\<And>r rest. ms = r # rest \<Longrightarrow> \<not> has_tool_results_for r (tool_use_ids m)) \<Longrightarrow>
   drop_incomplete_tool_exchanges (m # ms) =
     (case without_tool_use_blocks m of
        None \<Rightarrow> drop_incomplete_tool_exchanges ms
      | Some t \<Rightarrow> t # drop_incomplete_tool_exchanges ms)"
  by (cases ms) (simp_all split: option.split)

declare drop_incomplete_tool_exchanges.simps(2) [simp del]

lemma drop_induct [case_names empty plain exchange unanswered]:
  assumes "P []"
    and "\<And>m ms. \<lbrakk>\<not> asks m; P ms\<rbrakk> \<Longrightarrow> P (m # ms)"
    and "\<And>m r rest. \<lbrakk>asks m; has_tool_results_for r (tool_use_ids m); P rest\<rbrakk> \<Longrightarrow> P (m # r # rest)"
    and "\<And>m ms. \<lbrakk>asks m; \<And>r rest. ms = r # rest \<Longrightarrow> \<not> has_tool_results_for r (tool_use_ids m); P ms\<rbrakk>
      \<Longrightarrow> P (m # ms)"
  shows "P ms"
proof (induction ms rule: length_induct)
  case (1 ms)
  show ?case
  proof (cases ms)
    case Nil
    with assms(1) show ?thesis by simp
  next
    case (Cons m rest)
    with 1 have rest: "P rest" by simp
    consider "\<not> asks m" | r rs where "asks m" "rest = r # rs" "has_tool_results_for r (tool_use_ids m)"
      | "asks m" "\<And>r rs. rest = r # rs \<Longrightarrow> \<not> has_tool_results_for r (tool_use_ids m)"
      by blast
    then show ?thesis
    proof cases
      case 1
      with rest Cons show ?thesis by (auto intro: assms(2))
    next
      case (2 r rs)
      moreover have "P rs" using 1 Cons 2(2) by simp
      ultimately show ?thesis using Cons by (auto intro: assms(3))
    next
      case 3
      with rest Cons show ?thesis by (auto intro: assms(4))
    qed
  qed
qed

lemma without_tool_use_blocks_shape:
  assumes "without_tool_use_blocks m = Some t"
  shows "asks m \<Longrightarrow> \<not> asks t"
    and "message_has_block_type t ''tool_result'' = message_has_block_type m ''tool_result''"
proof -
  assume "asks m"
  then obtain bs where "msg_content m = Blocks bs"
    by (auto simp: asks_def tool_use_ids_def block_ids_def simp del: asks_iff split: content.splits)
  with assms have "tool_use_ids t = {}"
    by (auto simp: without_tool_use_blocks_def tool_use_ids_def block_ids_def Let_def
        map_filter_def split: if_splits simp del: asks_iff)
  then show "\<not> asks t" by simp
next
  have kept: "list_ex (\<lambda>b. block_type_is b ''tool_result'') (filter (\<lambda>b. \<not> block_type_is b ''tool_use'') bs)
      = list_ex (\<lambda>b. block_type_is b ''tool_result'') bs" for bs
    by (induction bs) (auto simp: block_type_is_def)
  show "message_has_block_type t ''tool_result'' = message_has_block_type m ''tool_result''"
    using assms
    by (cases "msg_content m")
      (auto simp: without_tool_use_blocks_def message_has_block_type_def Let_def kept split: if_splits)
qed

lemma drop_incomplete_well_paired [paired_intros]:
  "list_all unmixed ms \<Longrightarrow> well_paired (drop_incomplete_tool_exchanges ms)"
proof (induction ms rule: drop_induct)
  case (unanswered m ms)
  then have no_result: "\<not> message_has_block_type m ''tool_result''" by (simp add: unmixed_def)
  have "well_paired (t # drop_incomplete_tool_exchanges ms)" if "without_tool_use_blocks m = Some t" for t
    using unanswered no_result without_tool_use_blocks_shape [OF that] by (intro well_paired_plain) simp_all
  with unanswered show ?case by (auto simp: drop_unanswered simp del: well_paired.simps split: option.split)
qed (simp_all add: drop_plain drop_exchange unmixed_def)

text \<open>A sendable history is left as it is.\<close>

lemma drop_incomplete_id: "well_paired ms \<Longrightarrow> drop_incomplete_tool_exchanges ms = ms"
  by (induction ms rule: well_paired_induct) (simp_all add: drop_plain drop_exchange)

lemma drop_incomplete_length: "length (drop_incomplete_tool_exchanges ms) \<le> length ms"
proof (induction ms rule: drop_induct)
  case (unanswered m ms)
  then show ?case by (simp add: drop_unanswered split: option.split)
qed (simp_all add: drop_plain drop_exchange)

section \<open>Groups\<close>

lemma groups_exchange:
  "asks m \<Longrightarrow> has_tool_results_for r (tool_use_ids m) \<Longrightarrow>
   message_groups (m # r # rest) = [m, r] # message_groups rest"
  by simp

lemma groups_plain: "\<not> asks m \<Longrightarrow> message_groups (m # ms) = [m] # message_groups ms"
  by (cases ms) simp_all

lemma groups_single:
  "(\<And>r rest. asks m \<Longrightarrow> ms = r # rest \<Longrightarrow> \<not> has_tool_results_for r (tool_use_ids m)) \<Longrightarrow>
   message_groups (m # ms) = [m] # message_groups ms"
  by (cases ms) auto

declare message_groups.simps(2) [simp del]

lemma flatten_groups [simp]: "flatten_message_groups (message_groups ms) = ms"
  by (induction ms rule: drop_induct)
    (simp_all add: groups_exchange groups_plain groups_single flatten_message_groups_def)

lemma groups_nonempty: "\<forall>g \<in> set (message_groups ms). g \<noteq> []"
  by (induction ms rule: drop_induct) (simp_all add: groups_exchange groups_plain groups_single)

lemma groups_well_paired:
  "well_paired ms \<Longrightarrow> \<forall>g \<in> set (message_groups ms). well_paired g"
  by (induction ms rule: well_paired_induct) (simp_all add: groups_exchange groups_plain groups_single)

section \<open>Shedding whole groups\<close>

lemma shed_groups_Inl:
  "shed_groups budget prefix gs = Inl c
   \<Longrightarrow> \<exists>k. k < length gs \<and> c = flatten_message_groups (prefix @ drop k gs) \<and> \<not> over_budget c budget"
proof (induction budget prefix gs rule: shed_groups.induct)
  case (1 budget prefix g g' gs)
  show ?case
  proof (cases "over_budget (flatten_message_groups (prefix @ g # g' # gs)) budget")
    case False
    with 1 show ?thesis by (intro exI [of _ 0]) (simp add: Let_def)
  next
    case True
    with 1 obtain k where "k < length (g' # gs)"
      "c = flatten_message_groups (prefix @ drop k (g' # gs))" "\<not> over_budget c budget"
      by (auto simp: Let_def)
    then show ?thesis by (intro exI [of _ "Suc k"]) simp
  qed
qed simp_all

lemma shed_groups_Inr:
  "shed_groups budget prefix gs = Inr gs'
   \<Longrightarrow> \<exists>k. gs' = drop k gs \<and> (gs \<noteq> [] \<longrightarrow> k < length gs)"
proof (induction budget prefix gs rule: shed_groups.induct)
  case (1 budget prefix g g' gs)
  then obtain k where "gs' = drop k (g' # gs)" "k < length (g' # gs)"
    by (auto simp: Let_def split: if_splits)
  then show ?case by (intro exI [of _ "Suc k"]) simp
qed (auto intro: exI [of _ 0])

section \<open>Truncation keeps the shape\<close>

lemma set_block_text_type [simp]: "block_type_is (set_block_text t b) ty = block_type_is b ty"
  by (simp add: set_block_text_def block_type_is_def dict_get_set)

lemma set_block_text_id:
  "k \<noteq> ''text'' \<Longrightarrow> k \<noteq> ''content'' \<Longrightarrow> dict_get_none (set_block_text t b) k = dict_get_none b k"
  by (simp add: set_block_text_def dict_get_none_def dict_get_set)

text \<open>Blocks that agree on their type and on their ids make messages of the same shape.\<close>

definition same_block :: "pydict \<Rightarrow> pydict \<Rightarrow> bool" where
  "same_block b b' = ((\<forall>ty. block_type_is b ty = block_type_is b' ty)
     \<and> dict_get_none b ''id'' = dict_get_none b' ''id''
     \<and> dict_get_none b ''tool_use_id'' = dict_get_none b' ''tool_use_id'')"

lemma same_block_refl [simp]: "same_block b b"
  by (simp add: same_block_def)

lemma same_block_set_text: "same_block b (set_block_text t b)"
  by (simp add: same_block_def set_block_text_id)

lemma same_blocks_ids:
  assumes "list_all2 same_block bs bs'" and "k = ''id'' \<or> k = ''tool_use_id''"
  shows "List.map_filter (block_id k) (filter (\<lambda>b. block_type_is b ty) bs) =
         List.map_filter (block_id k) (filter (\<lambda>b. block_type_is b ty) bs')"
  using assms
  by (induction rule: list_all2_induct)
    (auto simp: map_filter_simps same_block_def block_id_def split: option.splits pyval.splits)

lemma same_blocks_type:
  "list_all2 same_block bs bs' \<Longrightarrow>
   list_ex (\<lambda>b. block_type_is b ty) bs = list_ex (\<lambda>b. block_type_is b ty) bs'"
  by (induction rule: list_all2_induct) (auto simp: same_block_def)

lemma same_block_wf: "same_block b b' \<Longrightarrow> wf_block b = wf_block b'"
proof -
  have str: "wf_block b = (\<exists>ty. block_type_is b ty)" for b
    by (auto simp: wf_block_def block_type_is_def dict_get_none_def is_str.simps
        elim: is_str.elims split: option.splits)
  assume "same_block b b'"
  then show ?thesis by (simp add: str same_block_def)
qed

lemma same_blocks_wf: "list_all2 same_block bs bs' \<Longrightarrow> list_all wf_block bs = list_all wf_block bs'"
  by (induction rule: list_all2_induct) (auto dest: same_block_wf)

lemma same_blocks_shape:
  assumes "list_all2 same_block bs bs'"
  shows "same_shape \<lparr>msg_role = r, msg_content = Blocks bs\<rparr> \<lparr>msg_role = r, msg_content = Blocks bs'\<rparr>"
  using same_blocks_ids [OF assms] same_blocks_type [OF assms] same_blocks_wf [OF assms]
  by (simp add: same_shape_def tool_use_ids_def tool_result_ids_def block_ids_def
      message_has_block_type_def wf_message_def content_blocks_def)

lemma same_text_shape:
  "same_shape \<lparr>msg_role = r, msg_content = Text s\<rparr> \<lparr>msg_role = r, msg_content = Text s'\<rparr>"
  by (simp add: same_shape_def tool_use_ids_def tool_result_ids_def block_ids_def
      message_has_block_type_def wf_message_def content_blocks_def)

lemma set_block_content_shape:
  assumes "set_block_content m i t = Inr m'"
  shows "same_shape m m'"
proof -
  from assms obtain bs where bs: "msg_content m = Blocks bs" "i < length bs"
    "m' = m\<lparr>msg_content := Blocks (bs[i := set_block_text t (bs ! i)])\<rparr>"
    by (auto simp: set_block_content_def split: content.splits if_splits)
  have "list_all2 same_block bs (bs[i := set_block_text t (bs ! i)])"
    using bs(2) by (simp add: list_all2_conv_all_nth nth_list_update same_block_set_text)
  from same_blocks_shape [OF this, of "msg_role m"] bs show ?thesis
    by (cases m) simp
qed

lemma shape_list_update:
  "i < length ms \<Longrightarrow> same_shape (ms ! i) m \<Longrightarrow> shape_list ms (ms[i := m])"
  by (auto simp: list_all2_conv_all_nth nth_list_update)

lemma replace_at_shape:
  assumes "located sel ms loc" and "replace_at ms loc t = Inr ms'"
  shows "shape_list ms ms'"
proof -
  obtain mi bi old where loc: "loc = (mi, bi, old)" by (cases loc) auto
  with assms(1) have mi: "mi < length ms" by (simp add: located_def)
  show ?thesis
  proof (cases bi)
    case None
    with assms loc obtain s where "msg_content (ms ! mi) = Text s"
      by (auto simp: located_def split: content.splits)
    then have "same_shape (ms ! mi) (message (msg_role (ms ! mi)) (Text t))"
      using same_text_shape [of "msg_role (ms ! mi)" s t] by (cases "ms ! mi") (simp add: message_def)
    with assms loc None mi show ?thesis by (auto simp: replace_at_def intro: shape_list_update)
  next
    case (Some i)
    with assms loc mi show ?thesis
      by (auto simp: replace_at_def res_bind_eq_Inr intro: shape_list_update set_block_content_shape)
  qed
qed

text \<open>At a location the search found the write never raises.\<close>

lemma replace_at_location_found:
  assumes "located sel ms loc"
  shows "\<exists>ms'. replace_at ms loc t = Inr ms'"
  using assms
  by (cases loc) (auto simp: located_def replace_at_def set_block_content_def
      split: content.splits option.splits)

lemma truncate_pass_shape:
  assumes "truncate_pass locate shorten budget ms = Some ms'"
    and "\<And>loc. locate ms = Some loc \<Longrightarrow> located sel ms loc"
  shows "shape_list ms ms'"
  using assms
  by (auto simp: truncate_pass_def Let_def split: if_splits option.splits sum.splits
      intro: replace_at_shape)

lemma truncate_tool_results_shape: "shape_list ms (truncate_tool_results_to_budget budget ms)"
proof (induction budget ms rule: truncate_tool_results_to_budget.induct)
  case (1 budget ms)
  show ?case
  proof (cases "tool_result_pass budget ms")
    case None
    then show ?thesis by (simp add: truncate_tool_results_to_budget.simps [of budget ms])
  next
    case (Some ms')
    then have "shape_list ms ms'"
      unfolding tool_result_pass_def by (rule truncate_pass_shape) (rule largest_tool_result_located)
    with "1.IH" Some show ?thesis
      by (auto simp: truncate_tool_results_to_budget.simps [of budget ms] intro: shape_list_trans)
  qed
qed

lemma truncate_text_shape: "shape_list ms (truncate_text_to_budget budget ms)"
proof (induction budget ms rule: truncate_text_to_budget.induct)
  case (1 budget ms)
  show ?case
  proof (cases "text_pass budget ms")
    case None
    then show ?thesis by (simp add: truncate_text_to_budget.simps [of budget ms])
  next
    case (Some ms')
    then have "shape_list ms ms'"
      unfolding text_pass_def by (rule truncate_pass_shape) (rule largest_text_located)
    with "1.IH" Some show ?thesis
      by (auto simp: truncate_text_to_budget.simps [of budget ms] intro: shape_list_trans)
  qed
qed

section \<open>What a truncation leaves of a text\<close>

text \<open>
  A text is cut when it is replaced by a notice of its length and a first part of it, that are together shorter; the content
  of a tool result by a JSON object that says so and holds a first part of it. Nothing else of a block or message is changed.
\<close>

definition cut_text :: "string \<Rightarrow> string \<Rightarrow> bool" where
  "cut_text t t' \<longleftrightarrow> length t' < length t \<and>
     (\<exists>n. t' = ''[Message text truncated to fit model context budget. Original chars: '' @ nat_str (length t) @ ''.]'' @
        newline @ newline @ take n t)"

definition cut_result :: "string \<Rightarrow> string \<Rightarrow> bool" where
  "cut_result t t' \<longleftrightarrow> length t' < length t \<and>
     (\<exists>n. t' = json_dumps (PDict [(''truncated'', PBool True),
        (''reason'', PStr ''Tool result truncated to fit model context budget.''),
        (''original_chars'', PInt (int (length t))), (''preview'', PStr (take n t))]))"

inductive cut_block :: "pydict \<Rightarrow> pydict \<Rightarrow> bool" where
  cut_text_block: "\<lbrakk>dict_get b ''type'' = Some (PStr ''text''); dict_get b ''text'' = Some (PStr t); cut_text t t'\<rbrakk>
    \<Longrightarrow> cut_block b (dict_set ''text'' (PStr t') b)"
| cut_result_block: "\<lbrakk>dict_get b ''type'' = Some (PStr ''tool_result''); dict_get b ''content'' = Some (PStr t); cut_result t t'\<rbrakk>
    \<Longrightarrow> cut_block b (dict_set ''content'' (PStr t') b)"

inductive cut_message :: "agent_message \<Rightarrow> agent_message \<Rightarrow> bool" where
  cut_string: "cut_text t t' \<Longrightarrow> cut_message \<lparr>msg_role = r, msg_content = Text t\<rparr> \<lparr>msg_role = r, msg_content = Text t'\<rparr>"
| cut_one_block: "\<lbrakk>i < length bs; cut_block (bs ! i) b\<rbrakk>
    \<Longrightarrow> cut_message \<lparr>msg_role = r, msg_content = Blocks bs\<rparr> \<lparr>msg_role = r, msg_content = Blocks (bs[i := b])\<rparr>"

abbreviation cut_list :: "agent_message list \<Rightarrow> agent_message list \<Rightarrow> bool" where
  "cut_list \<equiv> list_all2 cut_message\<^sup>*\<^sup>*"

lemma cut_list_refl [simp, intro]: "cut_list ms ms"
  by (simp add: list_all2_refl)

lemma cut_list_trans: "cut_list a b \<Longrightarrow> cut_list b c \<Longrightarrow> cut_list a c"
  by (rule list_all2_trans [OF rtranclp_trans])

lemma truncated_text_cut: "length (truncated_text t n text_reason) < length t \<Longrightarrow> cut_text t (truncated_text t n text_reason)"
  by (auto simp: cut_text_def truncated_text_def text_reason_def)

lemma truncated_payload_cut:
  "length (truncated_payload t n tool_result_reason) < length t \<Longrightarrow> cut_result t (truncated_payload t n tool_result_reason)"
  unfolding cut_result_def truncated_payload_def tool_result_reason_def by blast

lemma tool_result_block_cut:
  "tool_result_text b = Some t \<Longrightarrow> cut_result t t' \<Longrightarrow> cut_block b (set_block_text t' b)"
  by (auto simp: tool_result_text_def set_block_text_def block_type_is_def dict_get_none_def
      intro!: cut_result_block split: if_splits pyval.splits option.splits)

lemma text_block_cut: "text_block_text b = Some t \<Longrightarrow> cut_text t t' \<Longrightarrow> cut_block b (set_block_text t' b)"
  by (auto simp: text_block_text_def set_block_text_def block_type_is_def dict_get_none_def
      intro!: cut_text_block split: if_splits pyval.splits option.splits)

lemma replace_at_cut:
  assumes "located sel ms loc" and "replace_at ms loc t' = Inr ms'"
    and "\<And>b. sel b = Some (snd (snd loc)) \<Longrightarrow> cut_block b (set_block_text t' b)"
    and "fst (snd loc) = None \<Longrightarrow> cut_text (snd (snd loc)) t'"
  shows "cut_list ms ms'"
proof -
  obtain mi bi old where loc: "loc = (mi, bi, old)" by (cases loc) auto
  with assms(1) have mi: "mi < length ms" by (simp add: located_def)
  have update: "cut_list ms (ms[mi := m])" if "cut_message (ms ! mi) m" for m
    using that mi by (auto simp: list_all2_conv_all_nth nth_list_update)
  obtain r c where m: "ms ! mi = \<lparr>msg_role = r, msg_content = c\<rparr>" by (cases "ms ! mi") auto
  show ?thesis
  proof (cases bi)
    case None
    with assms(1) loc m obtain s where "c = Text s" "old = s" by (auto simp: located_def split: content.splits)
    with assms(2,4) loc None m have "cut_message (ms ! mi) (message r (Text t'))" "ms' = ms[mi := message r (Text t')]"
      by (simp_all add: replace_at_def message_def cut_string)
    with update show ?thesis by simp
  next
    case (Some i)
    with assms(1) loc m obtain bs where bs: "c = Blocks bs" "i < length bs" "sel (bs ! i) = Some old"
      by (auto simp: located_def split: content.splits)
    with assms(3) loc m have "cut_message (ms ! mi) \<lparr>msg_role = r, msg_content = Blocks (bs[i := set_block_text t' (bs ! i)])\<rparr>"
      by (simp add: cut_one_block)
    moreover have "ms' = ms[mi := \<lparr>msg_role = r, msg_content = Blocks (bs[i := set_block_text t' (bs ! i)])\<rparr>]"
      using assms(2) loc Some bs m by (simp add: replace_at_def set_block_content_def)
    ultimately show ?thesis using update by simp
  qed
qed

lemma tool_result_pass_cut: "tool_result_pass budget ms = Some ms' \<Longrightarrow> cut_list ms ms'"
proof -
  assume pass: "tool_result_pass budget ms = Some ms'"
  then obtain loc t' where loc: "largest_tool_result_location ms = Some loc" "replace_at ms loc t' = Inr ms'"
    "cut_result (snd (snd loc)) t'"
    by (auto simp: tool_result_pass_def truncate_pass_def Let_def not_le dest!: truncated_payload_cut
        split: if_splits option.splits sum.splits)
  note located = largest_tool_result_located [OF loc(1)]
  have "fst (snd loc) \<noteq> None" if "loc \<in> set (tool_result_candidates i m)" for i m
  proof -
    obtain mi bi t where loc: "loc = (mi, bi, t)" by (rule prod_cases3)
    with that obtain bs where "(mi, bi, t) \<in> set (block_locations tool_result_text i 0 bs)"
      by (cases "msg_content m") (simp_all add: tool_result_candidates_def)
    from block_locations_sound [OF this] loc show ?thesis by auto
  qed
  then have "fst (snd loc) \<noteq> None"
    using loc(1) by (auto simp: largest_tool_result_location_def dest!: foldl_larger_mem locations_mem)
  with located loc show ?thesis by (intro replace_at_cut [of tool_result_text ms loc]) (auto intro: tool_result_block_cut)
qed

lemma text_pass_cut: "text_pass budget ms = Some ms' \<Longrightarrow> cut_list ms ms'"
proof -
  assume pass: "text_pass budget ms = Some ms'"
  then obtain loc t' where loc: "largest_text_location ms = Some loc" "replace_at ms loc t' = Inr ms'"
    "cut_text (snd (snd loc)) t'"
    by (auto simp: text_pass_def truncate_pass_def Let_def not_le dest!: truncated_text_cut
        split: if_splits option.splits sum.splits)
  with largest_text_located [OF loc(1)] show ?thesis
    by (intro replace_at_cut [of text_block_text ms loc]) (auto intro: text_block_cut)
qed

lemma truncate_tool_results_cut: "cut_list ms (truncate_tool_results_to_budget budget ms)"
proof (induction budget ms rule: truncate_tool_results_to_budget.induct)
  case (1 budget ms)
  then show ?case
    by (cases "tool_result_pass budget ms")
      (auto simp: truncate_tool_results_to_budget.simps [of budget ms] intro: cut_list_trans tool_result_pass_cut)
qed

lemma truncate_text_cut: "cut_list ms (truncate_text_to_budget budget ms)"
proof (induction budget ms rule: truncate_text_to_budget.induct)
  case (1 budget ms)
  then show ?case
    by (cases "text_pass budget ms")
      (auto simp: truncate_text_to_budget.simps [of budget ms] intro: cut_list_trans text_pass_cut)
qed

end
