(* ===== verification/BudgetFitting.thy ===== *)
theory BudgetFitting
  imports ToolExchanges
begin

text \<open>
  What the sliding window promises its caller: the messages sent to a model are always a sendable
  conversation, they keep the newest message (and the first, when asked to), they fit the
  window, they fit the token budget unless nothing is left to shorten, and a conversation
  survives its snapshot.
\<close>

section \<open>From the history to the selected messages\<close>

lemma selected_from:
  obtains ms where "selected_messages w = drop_incomplete_tool_exchanges ms"
    and "set ms \<subseteq> set (sw_messages w)"
    and "int (length ms) \<le> max 0 (max_recent_messages w) + (if preserve_initial_user_message w then 1 else 0)"
proof (cases "int (length (sw_messages w)) \<le> max_recent_messages w")
  case True
  then show ?thesis by (intro that [of "sw_messages w"]) (simp_all add: selected_messages_def Let_def)
next
  case False
  let ?start = "length (sw_messages w) - nat (max_recent_messages w)"
  let ?kept = "drop ?start (sw_messages w)"
  let ?sel = "if preserve_initial_user_message w \<and> ?start > 0 then (sw_messages w ! 0) # ?kept else ?kept"
  have "set ?kept \<subseteq> set (sw_messages w)" by (rule set_drop_subset)
  moreover have "sw_messages w ! 0 \<in> set (sw_messages w)" if "?start > 0"
    using that by (intro nth_mem) linarith
  ultimately have "set ?sel \<subseteq> set (sw_messages w)" by auto
  moreover from False have "length ?kept \<le> nat (max_recent_messages w)" by simp
  then have "int (length ?sel) \<le> max 0 (max_recent_messages w) + (if preserve_initial_user_message w then 1 else 0)"
    by auto
  ultimately show ?thesis
    using False by (intro that [of ?sel]) (simp_all add: selected_messages_def Let_def)
qed

lemma selected_well_paired [paired_intros]:
  assumes "list_all unmixed (sw_messages w)"
  shows "well_paired (selected_messages w)"
proof -
  obtain ms where "selected_messages w = drop_incomplete_tool_exchanges ms" "set ms \<subseteq> set (sw_messages w)"
    by (rule selected_from)
  moreover from this assms have "list_all unmixed ms" by (auto simp: list_all_iff)
  ultimately show ?thesis by (simp add: drop_incomplete_well_paired)
qed

section \<open>The outbound view keeps the shape\<close>

lemma same_block_set_content: "same_block b (dict_set ''content'' v b)"
  by (simp add: same_block_def block_type_is_def dict_get_none_def dict_get_set)

lemma block_for_model_same: "same_block b (block_for_model c l b)"
  by (auto simp: block_for_model_def cleared_tool_result_block_def same_block_set_content
      split: option.split pyval.split)

lemma message_for_model_shape: "same_shape m (message_for_model c l m)"
proof (cases "msg_content m")
  case (Text s)
  then show ?thesis
    by (cases m) (simp add: message_for_model_def message_def same_text_shape)
next
  case (Blocks bs)
  have "list_all2 same_block bs (map (block_for_model c l) bs)"
    by (simp add: list_all2_conv_all_nth block_for_model_same)
  from same_blocks_shape [OF this, of "msg_role m"] Blocks show ?thesis
    by (cases m) (simp add: message_for_model_def message_def)
qed

lemma outbound_shape:
  "shape_list ms (map (\<lambda>(index, m). message_for_model (f index) (g index) m) (enumerate k ms))"
  by (auto simp: list_all2_conv_all_nth nth_enumerate_eq message_for_model_shape)

section \<open>Fitting keeps a first and a last part, up to the shape\<close>

lemma flatten_drop_groups:
  "\<exists>j. flatten_message_groups (drop k gs) = drop j (flatten_message_groups gs)"
proof -
  have "flatten_message_groups gs = concat (take k gs) @ concat (drop k gs)"
    by (metis append_take_drop_id concat_append flatten_message_groups_def)
  then show ?thesis
    by (intro exI [of _ "length (concat (take k gs))"]) (simp add: flatten_message_groups_def)
qed

lemma truncations_shape:
  "shape_list ms (let compacted = truncate_tool_results_to_budget budget ms
     in if \<not> over_budget compacted budget then compacted else truncate_text_to_budget budget compacted)"
  by (auto simp: Let_def truncate_tool_results_shape
      intro: shape_list_trans [OF truncate_tool_results_shape truncate_text_shape])

lemma truncations_cut:
  "cut_list ms (let compacted = truncate_tool_results_to_budget budget ms
     in if \<not> over_budget compacted budget then compacted else truncate_text_to_budget budget compacted)"
  by (auto simp: Let_def truncate_tool_results_cut
      intro: cut_list_trans [OF truncate_tool_results_cut truncate_text_cut])

text \<open>The groups kept are the first one, when it is preserved, and the last ones.\<close>

lemma fit_groups:
  assumes "groups = message_groups ms"
  obtains prefix gs k where
    "groups = prefix @ gs" and "k \<le> length gs" and "gs \<noteq> [] \<longrightarrow> k < length gs"
    and "preserve \<and> ms \<noteq> [] \<longrightarrow> prefix \<noteq> []"
    and "shape_list (flatten_message_groups (prefix @ drop k gs)) (fit_messages_to_token_budget ms budget preserve)"
    and "cut_list (flatten_message_groups (prefix @ drop k gs)) (fit_messages_to_token_budget ms budget preserve)"
proof (cases "over_budget ms budget")
  case False
  then have fit: "fit_messages_to_token_budget ms budget preserve = ms"
    by (simp add: fit_messages_to_token_budget_def)
  show ?thesis
  proof (cases groups)
    case Nil
    then have "ms = []" using assms flatten_groups [of ms] by (simp add: flatten_message_groups_def)
    with Nil fit show ?thesis by (intro that [of "[]" "[]" 0]) (simp_all add: flatten_message_groups_def)
  next
    case (Cons g gs)
    then have "flatten_message_groups (g # gs) = ms" using assms flatten_groups [of ms] by simp
    with Cons fit show ?thesis by (intro that [of "[g]" gs 0]) simp_all
  qed
next
  case True
  define prefix where "prefix = (if preserve \<and> groups \<noteq> [] then [hd groups] else [])"
  define gs where "gs = (if preserve \<and> groups \<noteq> [] then tl groups else groups)"
  have split: "groups = prefix @ gs" by (simp add: prefix_def gs_def)
  have "ms \<noteq> [] \<Longrightarrow> groups \<noteq> []"
    using assms flatten_groups [of ms] by (auto simp: flatten_message_groups_def)
  then have first: "preserve \<and> ms \<noteq> [] \<longrightarrow> prefix \<noteq> []" by (simp add: prefix_def)
  have fit: "fit_messages_to_token_budget ms budget preserve =
      (case shed_groups budget prefix gs of Inl candidate \<Rightarrow> candidate
       | Inr groups \<Rightarrow> (let compacted = truncate_tool_results_to_budget budget
             (flatten_message_groups (prefix @ groups))
           in if \<not> over_budget compacted budget then compacted
              else truncate_text_to_budget budget compacted))"
    using True unfolding fit_messages_to_token_budget_def prefix_def gs_def assms Let_def by simp
  show ?thesis
  proof (cases "shed_groups budget prefix gs")
    case (Inl c)
    then obtain k where "k < length gs" "c = flatten_message_groups (prefix @ drop k gs)"
      using shed_groups_Inl by blast
    with Inl fit split first show ?thesis by (intro that [of prefix gs k]) auto
  next
    case (Inr gs')
    then obtain k where "gs' = drop k gs" "gs \<noteq> [] \<longrightarrow> k < length gs"
      using shed_groups_Inr by blast
    then have "\<exists>k \<le> length gs. (gs \<noteq> [] \<longrightarrow> k < length gs) \<and> gs' = drop k gs"
      by (cases "gs = []") (auto intro: exI [of _ k])
    then obtain k where "k \<le> length gs" "gs \<noteq> [] \<longrightarrow> k < length gs" "gs' = drop k gs" by blast
    moreover have "fit_messages_to_token_budget ms budget preserve =
      (let compacted = truncate_tool_results_to_budget budget (flatten_message_groups (prefix @ gs'))
       in if \<not> over_budget compacted budget then compacted else truncate_text_to_budget budget compacted)"
      using Inr fit by simp
    ultimately show ?thesis
      using split first truncations_shape [of "flatten_message_groups (prefix @ gs')" budget]
        truncations_cut [of "flatten_message_groups (prefix @ gs')" budget]
      by (intro that [of prefix gs k]) simp_all
  qed
qed

lemma fit_well_paired [paired_intros]:
  assumes "well_paired ms"
  shows "well_paired (fit_messages_to_token_budget ms budget preserve)"
proof -
  obtain prefix gs k where "message_groups ms = prefix @ gs"
    and shape: "shape_list (flatten_message_groups (prefix @ drop k gs))
      (fit_messages_to_token_budget ms budget preserve)"
    by (rule fit_groups [OF refl])
  then have "\<forall>g \<in> set (prefix @ drop k gs). well_paired g"
    using groups_well_paired [OF assms] by (auto dest: in_set_dropD)
  then have "well_paired (flatten_message_groups (prefix @ drop k gs))"
    unfolding flatten_message_groups_def by (rule well_paired_concat)
  then show ?thesis using shape by (rule shape_list_well_paired)
qed

lemma messages_for_model_shape:
  obtains ms where "shape_list (selected_messages w) ms"
    and "messages_for_model b w = (case b of None \<Rightarrow> ms
      | Some budget \<Rightarrow> fit_messages_to_token_budget ms budget (preserve_initial_user_message w))"
proof -
  define latest where "latest = latest_tool_result_index (selected_messages w)"
  define ms where "ms = map (\<lambda>(index, m). message_for_model
      (Some index \<noteq> latest \<and> clear_old_tool_results w)
      (if Some index = latest then None else max_tool_result_chars w) m) (enumerate 0 (selected_messages w))"
  have "shape_list (selected_messages w) ms" unfolding ms_def by (rule outbound_shape)
  moreover have "messages_for_model b w = (case b of None \<Rightarrow> ms
      | Some budget \<Rightarrow> fit_messages_to_token_budget ms budget (preserve_initial_user_message w))"
    unfolding messages_for_model_def ms_def latest_def Let_def ..
  ultimately show ?thesis by (rule that)
qed

lemma messages_for_model_well_paired [paired_intros]:
  assumes "list_all unmixed (sw_messages w)"
  shows "well_paired (messages_for_model b w)"
proof (rule messages_for_model_shape [of w b])
  fix ms
  assume shape: "shape_list (selected_messages w) ms"
    and out: "messages_for_model b w = (case b of None \<Rightarrow> ms
      | Some budget \<Rightarrow> fit_messages_to_token_budget ms budget (preserve_initial_user_message w))"
  have "well_paired ms" using selected_well_paired [OF assms] shape by (rule shape_list_well_paired)
  with out show ?thesis by (cases b) (simp_all add: fit_well_paired)
qed

lemma fit_length: "length (fit_messages_to_token_budget ms budget preserve) \<le> length ms"
proof (rule fit_groups [OF refl, of ms preserve budget])
  fix prefix gs k
  assume groups: "message_groups ms = prefix @ gs"
    and shape: "shape_list (flatten_message_groups (prefix @ drop k gs))
      (fit_messages_to_token_budget ms budget preserve)"
  have "length ms = length (flatten_message_groups prefix) + length (flatten_message_groups gs)"
    using flatten_groups [of ms] groups by (simp add: flatten_message_groups_def flip: length_append)
  moreover obtain j where "flatten_message_groups (drop k gs) = drop j (flatten_message_groups gs)"
    using flatten_drop_groups by blast
  ultimately show ?thesis
    using list_all2_lengthD [OF shape] by (simp add: flatten_message_groups_def)
qed

section \<open>A fitted conversation is exhausted before it is left over budget\<close>

text \<open>The largest location is at least as long as every candidate.\<close>

lemma larger_location_mono:
  "\<exists>best. larger_location acc loc = Some best \<and> length (snd (snd loc)) \<le> length (snd (snd best))
     \<and> (\<forall>a. acc = Some a \<longrightarrow> length (snd (snd a)) \<le> length (snd (snd best)))"
  by (cases loc; cases acc) (auto simp: larger_location_def)

lemma foldl_larger_max:
  "\<lbrakk>loc \<in> set locs \<or> acc = Some loc\<rbrakk> \<Longrightarrow>
   \<exists>best. foldl larger_location acc locs = Some best \<and> length (snd (snd loc)) \<le> length (snd (snd best))"
proof (induction locs arbitrary: acc loc)
  case (Cons l locs)
  obtain b where b: "larger_location acc l = Some b" "length (snd (snd l)) \<le> length (snd (snd b))"
    "\<And>a. acc = Some a \<Longrightarrow> length (snd (snd a)) \<le> length (snd (snd b))"
    using larger_location_mono [of acc l] by (elim exE conjE) simp
  have "\<exists>best. foldl larger_location (larger_location acc l) locs = Some best
      \<and> length (snd (snd b)) \<le> length (snd (snd best))"
    by (rule Cons.IH) (rule disjI2, rule b(1))
  then obtain best where best: "foldl larger_location acc (l # locs) = Some best"
    "length (snd (snd b)) \<le> length (snd (snd best))"
    unfolding foldl_Cons by blast
  from Cons.prems consider "loc \<in> set locs" | "loc = l" | "acc = Some loc" by auto
  then show ?case
  proof cases
    case 1
    then show ?thesis unfolding foldl_Cons by (intro Cons.IH disjI1)
  next
    case 2
    with b(2) best show ?thesis using le_trans by blast
  next
    case 3
    with b(3) best show ?thesis using le_trans by blast
  qed
qed simp

text \<open>The texts a message offers to the text truncation.\<close>

definition message_texts :: "agent_message \<Rightarrow> string list" where
  "message_texts m = (case msg_content m of
     Text s \<Rightarrow> [s] | Blocks bs \<Rightarrow> List.map_filter text_block_text bs)"

lemma block_locations_complete:
  "t \<in> set (List.map_filter sel bs) \<Longrightarrow> \<exists>bi. (mi, bi, t) \<in> set (block_locations sel mi j bs)"
  by (induction bs arbitrary: j) (fastforce simp: map_filter_simps split: option.splits)+

lemma locations_complete:
  "m \<in> set ms \<Longrightarrow> (\<And>i. \<exists>bi. (i, bi, t) \<in> set (cand i m)) \<Longrightarrow>
   \<exists>loc \<in> set (locations cand k ms). snd (snd loc) = t"
proof (induction ms arbitrary: k)
  case (Cons a ms)
  show ?case
  proof (cases "a = m")
    case True
    obtain bi where "(k, bi, t) \<in> set (cand k m)" using Cons.prems(2) by blast
    with True show ?thesis by (intro bexI [of _ "(k, bi, t)"]) simp_all
  next
    case False
    with Cons.prems(1) have "\<exists>loc \<in> set (locations cand (Suc k) ms). snd (snd loc) = t"
      by (intro Cons.IH [OF _ Cons.prems(2)]) auto
    then show ?thesis by auto
  qed
qed simp

lemma located_text:
  "located text_block_text ms (mi, bi, s) \<Longrightarrow> mi < length ms \<and> s \<in> set (message_texts (ms ! mi))"
  by (auto simp: located_def message_texts_def map_filter_def split: content.splits)
    (metis (mono_tags, lifting) image_eqI mem_Collect_eq nth_mem option.sel option.simps(3))

lemma largest_text_max:
  assumes "m \<in> set ms" and "t \<in> set (message_texts m)"
  obtains loc where "largest_text_location ms = Some loc" and "length t \<le> length (snd (snd loc))"
proof -
  have "\<exists>bi. (i, bi, t) \<in> set (text_candidates i m)" for i
    using assms(2) block_locations_complete
    by (fastforce simp: text_candidates_def message_texts_def split: content.splits)
  from locations_complete [of m ms t text_candidates 0, OF assms(1) this]
  obtain l where "l \<in> set (locations text_candidates 0 ms)" "snd (snd l) = t" by blast
  with foldl_larger_max [of l "locations text_candidates 0 ms" None] show ?thesis
    by (auto simp: largest_text_location_def intro: that)
qed

text \<open>Over the budget, the target leaves at least 501 characters out, or is nothing at all.\<close>

lemma target_chars_le:
  assumes "over_budget ms budget" and "wf_budget budget"
  shows "target_chars ms budget t \<le> length t - 501"
proof -
  define e where "e = \<lceil>of_int (estimated_tokens ms budget - input_token_budget budget) * chars_per_token budget\<rceil>"
  have "0 < (of_int (estimated_tokens ms budget - input_token_budget budget) :: rat)"
    using assms(1) by (simp add: over_budget_def)
  with assms(2) have "0 < of_int (estimated_tokens ms budget - input_token_budget budget) * chars_per_token budget"
    unfolding wf_budget_def by (intro mult_pos_pos) simp_all
  then have "0 < e" by (simp add: e_def)
  then show ?thesis
    unfolding target_chars_def Let_def e_def [symmetric] by (auto simp: nat_le_iff)
qed

lemma truncated_text_shrinks:
  assumes "over_budget ms budget" and "wf_budget budget" and "77 \<le> length t" and "length t < 10 ^ 20"
  shows "length (truncated_text t (target_chars ms budget t) text_reason) < length t"
proof -
  let ?n = "length t"
  have len: "length (truncated_text t (target_chars ms budget t) text_reason)
      = 73 + length (nat_str ?n) + min ?n (target_chars ms budget t)"
    by (simp add: truncated_text_def text_reason_def)
  have target: "target_chars ms budget t \<le> ?n - 501" using assms by (intro target_chars_le)
  show ?thesis
  proof (cases "?n < 1000")
    case True
    then have "length (nat_str ?n) \<le> 3" by (intro nat_str_length) simp_all
    with len target assms(3) show ?thesis by auto
  next
    case False
    have "length (nat_str ?n) \<le> 20" using assms(4) by (intro nat_str_length) simp_all
    with len target False show ?thesis by auto
  qed
qed

lemma text_pass_done:
  assumes "text_pass budget ms = None" and "over_budget ms budget" and "wf_budget budget"
    and "m \<in> set ms" and "t \<in> set (message_texts m)"
    and "\<forall>m \<in> set ms. \<forall>t \<in> set (message_texts m). length t < 10 ^ 20"
  shows "length t \<le> 76"
proof (rule ccontr)
  assume long: "\<not> length t \<le> 76"
  obtain loc where loc: "largest_text_location ms = Some loc" "length t \<le> length (snd (snd loc))"
    using assms(4,5) by (rule largest_text_max)
  have located: "located text_block_text ms loc" using loc(1) by (rule largest_text_located)
  obtain mi bi s where mbs: "loc = (mi, bi, s)" by (cases loc) auto
  with located have "mi < length ms" "s \<in> set (message_texts (ms ! mi))" by (auto dest: located_text)
  then have "length s < 10 ^ 20" using assms(6) nth_mem by blast
  with truncated_text_shrinks [OF assms(2,3), of s] long loc mbs
  have "length (truncated_text s (target_chars ms budget s) text_reason) < length s" by simp
  moreover obtain ms' where "replace_at ms loc (truncated_text s (target_chars ms budget s) text_reason) = Inr ms'"
    using replace_at_location_found [OF located] by blast
  ultimately show False
    using assms(1,2) loc(1) mbs by (simp add: text_pass_def truncate_pass_def Let_def)
qed

lemma truncate_text_done: "text_pass budget (truncate_text_to_budget budget ms) = None"
proof (induction budget ms rule: truncate_text_to_budget.induct)
  case (1 budget ms)
  then show ?case
    by (cases "text_pass budget ms") (simp_all add: truncate_text_to_budget.simps [of budget ms])
qed

lemma fit_over_budget_done:
  assumes "over_budget (fit_messages_to_token_budget ms budget preserve) budget"
  shows "text_pass budget (fit_messages_to_token_budget ms budget preserve) = None"
  using assms
  by (auto simp: fit_messages_to_token_budget_def Let_def truncate_text_done
      dest: shed_groups_Inl split: if_splits sum.splits)

end
