(* ===== verification/WindowProperties.thy ===== *)
theory WindowProperties
  imports BudgetFitting
begin

text \<open>
  The contract of the sliding window, its snapshots and its continuation marker, as properties of
  the operations of \<open>SlidingWindow\<close>; the lemmas of \<open>ToolExchanges\<close> and \<open>BudgetFitting\<close> carry them.
\<close>

section \<open>A small conversation\<close>

text \<open>A conversation with one answered tool call and one that was cut off, for the instances.\<close>

definition sample_call :: "string \<Rightarrow> agent_message" where
  "sample_call i = message Assistant (Blocks [tool_use_block (PStr i) (PStr ''read'') [] None])"

definition sample_answer :: "string \<Rightarrow> agent_message" where
  "sample_answer i = message User (Blocks [tool_result_block (PStr i) ''ok'' False None])"

definition sample_window :: sliding_window where
  "sample_window = \<lparr>max_recent_messages = 4, preserve_initial_user_message = True,
     clear_old_tool_results = True, max_tool_result_chars = None,
     sw_messages = [text_message User ''hi'', sample_call ''a'', sample_answer ''a'',
       text_message Assistant ''done'', text_message User ''more'', sample_call ''b'']\<rparr>"

definition sample_budget :: context_token_budget where
  "sample_budget = \<lparr>max_context_tokens = 40, reserved_output_tokens = 0, reserved_input_tokens = 0,
     safety_margin_tokens = 0, chars_per_token = 4\<rparr>"

lemmas block_reading = tool_use_ids_def tool_result_ids_def block_ids_def block_id_def
  block_type_is_def dict_get_none_def message_has_block_type_def map_filter_simps
  has_tool_results_for_def without_tool_use_blocks_def

lemma sample_reading [simp]:
  "tool_use_ids (text_message r t) = {}" "tool_use_ids (sample_call i) = {i}"
  "tool_use_ids (sample_answer i) = {}" "tool_result_ids (sample_answer i) = {i}"
  "message_has_block_type (text_message r t) ty = False"
  "message_has_block_type (sample_call i) ty = (ty = ''tool_use'')"
  "message_has_block_type (sample_answer i) ty = (ty = ''tool_result'')"
  "wf_message (text_message r t)" "wf_message (sample_call i)" "wf_message (sample_answer i)"
  by (auto simp: block_reading text_message_def sample_call_def sample_answer_def tool_use_block_def
      tool_result_block_def wf_message_def content_blocks_def wf_block_def simp del: asks_iff)

lemma sample_asks [simp]:
  "\<not> asks (text_message r t)" "asks (sample_call i)" "\<not> asks (sample_answer i)"
  by (simp_all add: asks_def del: asks_iff)

lemma sample_unmixed: "list_all unmixed (sw_messages sample_window)"
  by (simp add: sample_window_def unmixed_def)

section \<open>What is sent to the model\<close>

text \<open>
  C2. For every conversation history in which no message both calls tools and answers calls,
  every configuration of the window and every token budget, the messages sent to the model are
  sendable: each message that calls tools is directly followed by one that answers all its
  calls, and no tool result stands anywhere else.
\<close>

theorem messages_sent_are_sendable:
  "list_all unmixed (sw_messages w) \<Longrightarrow> well_paired (messages_for_model b w)"
  by (rule messages_for_model_well_paired)

theorem messages_sent_are_sendable_witness:
  "well_paired (messages_for_model (Some sample_budget) sample_window)"
  using messages_sent_are_sendable [OF sample_unmixed] .

text \<open>
  C30. Fitting to the token budget only drops a middle part, between whole tool exchanges: the result
  is a first part and a last part of the messages, the newest message is always in it, and so is
  the first message when it is to be preserved. Each message that is kept is itself, except for
  texts and contents of tool results that were cut: replaced, once or repeatedly, by the notice of
  the cut and a first part of the text, together shorter than it. Messages within the budget are
  not touched.
\<close>

theorem fit_keeps_both_ends:
  "\<exists>i k. i \<le> k \<and> k \<le> length ms \<and>
     cut_list (take i ms @ drop k ms) (fit_messages_to_token_budget ms budget preserve) \<and>
     (k < length ms \<or> i = length ms) \<and> (ms = [] \<or> \<not> preserve \<or> 0 < i) \<and>
     (over_budget ms budget \<or> fit_messages_to_token_budget ms budget preserve = ms)"
proof (rule fit_groups [OF refl, of ms preserve budget])
  fix prefix gs k
  assume groups: "message_groups ms = prefix @ gs" and k: "gs \<noteq> [] \<longrightarrow> k < length gs"
    and first: "preserve \<and> ms \<noteq> [] \<longrightarrow> prefix \<noteq> []"
    and shape: "cut_list (flatten_message_groups (prefix @ drop k gs))
      (fit_messages_to_token_budget ms budget preserve)"
  define pre where "pre = concat prefix"
  have ms: "ms = pre @ concat (take k gs) @ concat (drop k gs)"
    using flatten_groups [of ms] groups
    by (simp add: pre_def flatten_message_groups_def flip: concat_append)
  have nonempty: "\<forall>g \<in> set (prefix @ gs). g \<noteq> []" using groups_nonempty [of ms] groups by simp
  have pre: "prefix \<noteq> [] \<Longrightarrow> pre \<noteq> []" using nonempty by (cases prefix) (simp_all add: pre_def)
  have last: "gs \<noteq> [] \<Longrightarrow> concat (drop k gs) \<noteq> []"
    using nonempty k in_set_dropD [of "hd (drop k gs)" k gs] by (cases "drop k gs") force+
  have empty: "gs = [] \<Longrightarrow> pre = ms" using ms by simp
  let ?k = "length (pre @ concat (take k gs))"
  have parts: "take (length pre) ms @ drop ?k ms = flatten_message_groups (prefix @ drop k gs)"
    by (simp add: ms flatten_message_groups_def pre_def)
  have "?k < length ms \<or> length pre = length ms"
  proof (cases "gs = []")
    case False
    with last have "0 < length (concat (drop k gs))" by simp
    then show ?thesis by (simp add: ms)
  qed (simp add: empty)
  moreover have "ms = [] \<or> \<not> preserve \<or> 0 < length pre" using first pre by auto
  moreover have "over_budget ms budget \<or> fit_messages_to_token_budget ms budget preserve = ms"
    by (simp add: fit_messages_to_token_budget_def)
  ultimately show ?thesis
    using shape parts by (intro exI [of _ "length pre"] exI [of _ ?k]) (simp add: ms)
qed

theorem fit_keeps_both_ends_witness:
  "\<exists>i k. 0 < i \<and> i \<le> k \<and> k \<le> 6 \<and> cut_list (take i (sw_messages sample_window) @ drop k (sw_messages sample_window))
       (fit_messages_to_token_budget (sw_messages sample_window) sample_budget True)"
proof -
  obtain i k where "i \<le> k" "k \<le> length (sw_messages sample_window)" "0 < i"
      "cut_list (take i (sw_messages sample_window) @ drop k (sw_messages sample_window))
         (fit_messages_to_token_budget (sw_messages sample_window) sample_budget True)"
    using fit_keeps_both_ends [of "sw_messages sample_window" sample_budget True]
    by (auto simp: sample_window_def)
  moreover have "length (sw_messages sample_window) = 6" by (simp add: sample_window_def)
  ultimately show ?thesis by (intro exI [of _ i] exI [of _ k]) simp
qed

text \<open>
  When the fitted messages are still over the budget, everything that could be given up has
  been given up: no message text or text block longer than 76 characters (the size of the notice
  that replaces a shortened text) is left, for a valid budget and texts below \<open>10 ^ 20\<close>
  characters.
\<close>

theorem over_budget_only_when_exhausted:
  assumes "wf_budget budget"
    and "over_budget (fit_messages_to_token_budget ms budget preserve) budget"
    and "\<forall>m \<in> set (fit_messages_to_token_budget ms budget preserve).
           \<forall>t \<in> set (message_texts m). length t < 10 ^ 20"
    and "m \<in> set (fit_messages_to_token_budget ms budget preserve)" and "t \<in> set (message_texts m)"
  shows "length t \<le> 76"
  using text_pass_done [OF fit_over_budget_done [OF assms(2)] assms(2,1,4,5,3)] .

definition tiny_budget :: context_token_budget where
  "tiny_budget = \<lparr>max_context_tokens = 1, reserved_output_tokens = 0, reserved_input_tokens = 0,
     safety_margin_tokens = 0, chars_per_token = 4\<rparr>"

lemma tiny_fit:
  "fit_messages_to_token_budget [text_message User ''hi''] tiny_budget False = [text_message User ''hi'']"
  by code_simp

lemma tiny_over: "over_budget [text_message User ''hi''] tiny_budget"
  by code_simp

lemma tiny_wf: "wf_budget tiny_budget"
  by code_simp

lemma text_message_texts: "message_texts (text_message r t) = [t]"
  by (simp add: text_message_def message_texts_def)

theorem over_budget_only_when_exhausted_witness:
  "length ''hi'' \<le> (76::nat)"
  by (rule over_budget_only_when_exhausted [of tiny_budget "[text_message User ''hi'']" False
        "text_message User ''hi''" "''hi''"])
    (simp_all add: tiny_fit tiny_over tiny_wf text_message_texts)

text \<open>
  The messages sent never outnumber the configured window by more than the preserved first
  message, whatever the budget, for every manager the constructor accepts.
\<close>

theorem window_bounds_messages_sent:
  assumes "SlidingWindowContextManager w\<^sub>0 = Inr w"
  shows "int (length (messages_for_model b w)) \<le> max_recent_messages w + 1"
proof (rule messages_for_model_shape [of w b])
  fix ms
  assume shape: "shape_list (selected_messages w) ms"
    and out: "messages_for_model b w = (case b of None \<Rightarrow> ms
      | Some budget \<Rightarrow> fit_messages_to_token_budget ms budget (preserve_initial_user_message w))"
  obtain xs where xs: "selected_messages w = drop_incomplete_tool_exchanges xs"
    "int (length xs) \<le> max 0 (max_recent_messages w) + (if preserve_initial_user_message w then 1 else 0)"
    by (rule selected_from) 
  have "length (messages_for_model b w) \<le> length ms" using out by (cases b) (simp_all add: fit_length)
  also have "\<dots> = length (selected_messages w)" using shape by (simp add: list_all2_lengthD)
  also have "\<dots> \<le> length xs" using xs(1) by (simp add: drop_incomplete_length)
  finally have "int (length (messages_for_model b w)) \<le> int (length xs)" by simp
  moreover have "2 \<le> max_recent_messages w"
    using assms by (auto simp: SlidingWindowContextManager_def split: if_splits)
  ultimately show ?thesis using xs(2) by (auto split: if_splits)
qed

theorem window_bounds_messages_sent_witness:
  "int (length (messages_for_model None sample_window)) \<le> 5"
proof -
  have "SlidingWindowContextManager sample_window = Inr sample_window"
    by (simp add: SlidingWindowContextManager_def sample_window_def)
  from window_bounds_messages_sent [OF this, of None] show ?thesis by (simp add: sample_window_def)
qed

section \<open>Snapshots\<close>

lemma message_from_snapshot_dict: "wf_message m \<Longrightarrow> message_from_snapshot (PDict (message_dict m)) = Inr m"
  using normalize_message_dict [of m]
  by (cases "msg_content m") (simp_all add: message_from_snapshot_def content_value_def)

lemma message_from_snapshot_wf: "message_from_snapshot v = Inr m \<Longrightarrow> wf_message m"
  by (auto simp: message_from_snapshot_def dest: normalize_message_wf
      split: pyval.splits if_splits)

lemma restore_snapshot_of:
  assumes "list_all wf_message ms"
  shows "restore (snapshot_of ms) w = Inr (w\<lparr>sw_messages := ms\<rparr>)"
proof -
  have "res_map message_from_snapshot (map (\<lambda>m. PDict (message_dict m)) ms) = Inr ms"
    using assms
    by (intro list_all2_res_map) (auto simp: list_all2_conv_all_nth list_all_length message_from_snapshot_dict)
  then show ?thesis by (simp add: restore_def snapshot_of_def dict_get_none_def)
qed

text \<open>
  A conversation survives its snapshot: restoring the full snapshot of a manager into any
  other manager gives exactly the same history, and every history that was recorded or restored
  consists of well-formed messages, so this never fails.
\<close>

theorem snapshot_roundtrip:
  "list_all wf_message (sw_messages w)
   \<Longrightarrow> restore (full_context_snapshot w) w' = Inr (w'\<lparr>sw_messages := sw_messages w\<rparr>)"
  unfolding full_context_snapshot_def by (rule restore_snapshot_of)

theorem snapshot_roundtrip_witness:
  "restore (full_context_snapshot sample_window) (sample_window\<lparr>sw_messages := []\<rparr>) = Inr sample_window"
  using snapshot_roundtrip [of sample_window "sample_window\<lparr>sw_messages := []\<rparr>"]
  by (simp add: sample_window_def)

section \<open>Continuing in a new run\<close>

text \<open>The messages sent are well-formed when the history is, and so can be restored.\<close>

lemma without_tool_use_blocks_wf: "wf_message m \<Longrightarrow> without_tool_use_blocks m = Some t \<Longrightarrow> wf_message t"
  by (cases "msg_content m")
    (auto simp: without_tool_use_blocks_def wf_message_def content_blocks_def Let_def list_all_iff
      split: if_splits)

lemma drop_incomplete_wf: "list_all wf_message ms \<Longrightarrow> list_all wf_message (drop_incomplete_tool_exchanges ms)"
proof (induction ms rule: drop_induct)
  case (unanswered m ms)
  then show ?case
    using without_tool_use_blocks_wf [of m] by (auto simp: drop_unanswered split: option.split)
qed (simp_all add: drop_plain drop_exchange)

lemma shape_list_wf: "shape_list ms ms' \<Longrightarrow> list_all wf_message ms \<Longrightarrow> list_all wf_message ms'"
  by (induction rule: list_all2_induct) (auto simp: same_shape_def)

lemma fit_wf:
  assumes "list_all wf_message ms"
  shows "list_all wf_message (fit_messages_to_token_budget ms budget preserve)"
proof (rule fit_groups [OF refl, of ms preserve budget])
  fix prefix gs k
  assume groups: "message_groups ms = prefix @ gs"
    and shape: "shape_list (flatten_message_groups (prefix @ drop k gs))
      (fit_messages_to_token_budget ms budget preserve)"
  have "concat (prefix @ gs) = ms"
    using flatten_groups [of ms] groups by (simp add: flatten_message_groups_def)
  then have "set (flatten_message_groups (prefix @ drop k gs)) \<subseteq> set ms"
    by (auto simp: flatten_message_groups_def dest!: in_set_dropD)
  then have "list_all wf_message (flatten_message_groups (prefix @ drop k gs))"
    using assms by (auto simp: list_all_iff)
  with shape show ?thesis by (rule shape_list_wf)
qed

lemma messages_for_model_wf:
  assumes "list_all wf_message (sw_messages w)"
  shows "list_all wf_message (messages_for_model b w)"
proof (rule messages_for_model_shape [of w b])
  fix ms
  assume shape: "shape_list (selected_messages w) ms"
    and out: "messages_for_model b w = (case b of None \<Rightarrow> ms
      | Some budget \<Rightarrow> fit_messages_to_token_budget ms budget (preserve_initial_user_message w))"
  obtain xs where "selected_messages w = drop_incomplete_tool_exchanges xs" "set xs \<subseteq> set (sw_messages w)"
    by (rule selected_from)
  moreover from this assms have "list_all wf_message xs" by (auto simp: list_all_iff)
  ultimately have "list_all wf_message ms" using shape drop_incomplete_wf shape_list_wf by simp
  with out show ?thesis by (cases b) (simp_all add: fit_wf)
qed

definition marker_message :: "int \<Rightarrow> agent_message" where
  "marker_message n = message User (Blocks [context_compaction_marker_block (Some n) ''older_messages_dropped''])"

abbreviation is_marker :: "agent_message \<Rightarrow> bool" where
  "is_marker m \<equiv> message_has_block_type m CONTEXT_COMPACTION_MARKER"

lemma marker_message_facts [simp]:
  "is_marker (marker_message n)" "wf_message (marker_message n)" "\<not> asks (marker_message n)"
  "\<not> message_has_block_type (marker_message n) ''tool_result''"
  by (simp_all add: asks_def marker_message_def context_compaction_marker_block_def block_reading
      CONTEXT_COMPACTION_MARKER_def wf_message_def content_blocks_def wf_block_def del: asks_iff)

lemma with_marker_split:
  "with_context_compaction_marker full ms preserve =
     (let kept = without_context_compaction_markers ms; d = int (length full) - int (length kept) in
      if d \<le> 0 then ms
      else (let i = (if preserve \<and> full \<noteq> [] \<and> kept \<noteq> [] \<and> message_dict (hd full) = message_dict (hd kept)
                     then 1 else 0)
            in take i kept @ marker_message d # drop i kept))"
  by (simp add: with_context_compaction_marker_def marker_message_def Let_def)

lemma with_marker_wf:
  "list_all wf_message ms \<Longrightarrow> list_all wf_message (with_context_compaction_marker full ms preserve)"
  by (auto simp: with_marker_split Let_def list_all_iff without_context_compaction_markers_def
      dest: in_set_takeD in_set_dropD)

lemma without_markers_twice:
  "without_context_compaction_markers (take i (without_context_compaction_markers ms)
     @ marker_message d # drop i (without_context_compaction_markers ms))
   = without_context_compaction_markers ms"
proof -
  let ?kept = "without_context_compaction_markers ms"
  have "\<forall>m \<in> set ?kept. \<not> is_marker m" by (simp add: without_context_compaction_markers_def)
  then have "\<forall>m \<in> set (take i ?kept) \<union> set (drop i ?kept). \<not> is_marker m"
    by (auto dest: in_set_takeD in_set_dropD)
  then have "filter (\<lambda>m. \<not> is_marker m) (take i ?kept @ marker_message d # drop i ?kept)
      = take i ?kept @ drop i ?kept"
    by simp
  then show ?thesis unfolding without_context_compaction_markers_def [of "_ @ _"] by simp
qed

lemma only_marker:
  "filter is_marker (take i (without_context_compaction_markers ms)
     @ marker_message d # drop i (without_context_compaction_markers ms)) = [marker_message d]"
proof -
  let ?kept = "without_context_compaction_markers ms"
  have "\<forall>m \<in> set ?kept. \<not> is_marker m" by (simp add: without_context_compaction_markers_def)
  then have "\<forall>m \<in> set (take i ?kept) \<union> set (drop i ?kept). \<not> is_marker m"
    by (auto dest: in_set_takeD in_set_dropD)
  then show ?thesis by simp
qed

text \<open>
  C8. Continuing a conversation in a new run: restoring the continuation snapshot of a manager
  always succeeds; the messages it restores, apart from compaction markers, are exactly the
  messages the model would have been sent; and when older messages were dropped there is exactly
  one marker among them, counting the dropped messages.
\<close>

theorem continuation_restores_what_was_sent:
  assumes "list_all wf_message (sw_messages w)"
  shows "\<exists>ms. restore (continuation_context_snapshot b w) w' = Inr (w'\<lparr>sw_messages := ms\<rparr>) \<and>
    without_context_compaction_markers ms = without_context_compaction_markers (messages_for_model b w) \<and>
    (let dropped = int (length (without_context_compaction_markers (drop_incomplete_tool_exchanges (sw_messages w))))
         - int (length (without_context_compaction_markers (messages_for_model b w)))
     in (if 0 < dropped then filter is_marker ms = [marker_message dropped]
         else ms = messages_for_model b w))"
proof -
  let ?full = "without_context_compaction_markers (drop_incomplete_tool_exchanges (sw_messages w))"
  let ?ms = "with_context_compaction_marker ?full (messages_for_model b w) (preserve_initial_user_message w)"
  have "list_all wf_message ?ms" by (intro with_marker_wf messages_for_model_wf assms)
  then have "restore (continuation_context_snapshot b w) w' = Inr (w'\<lparr>sw_messages := ?ms\<rparr>)"
    unfolding continuation_context_snapshot_def Let_def by (rule restore_snapshot_of)
  then show ?thesis
    by (intro exI [of _ ?ms] conjI)
      (simp_all only: with_marker_split Let_def without_markers_twice only_marker split: if_split, auto)
qed

theorem continuation_restores_what_was_sent_witness:
  "\<exists>ms. restore (continuation_context_snapshot None sample_window) sample_window
     = Inr (sample_window\<lparr>sw_messages := ms\<rparr>)"
  using continuation_restores_what_was_sent [of sample_window None sample_window]
  by (auto simp: sample_window_def)

end
