(* ===== verification/ContextInterface.thy ===== *)
theory ContextInterface
  imports WindowProperties
begin

text \<open>
  What an agent relies on when it talks to its context manager, as a contract over the
  operations of the protocol: \<open>log\<close> is the conversation a manager holds. The sliding window
  provides it.
\<close>

locale context_contract =
  fixes ops :: "'c context_ops"
    and log :: "'c \<Rightarrow> agent_message list"
  assumes initialized: "log (cm_initialize ops p a c) = [message User (user_message_content p a)]"
    and user_recorded: "log (cm_record_user_message ops p a c) = log c @ [message User (user_message_content p a)]"
    and counted: "cm_message_count ops c = length (log c)"
    and listed: "cm_full_messages ops c = map message_dict (log c)"
    and assistant_recorded: "wf_message m \<Longrightarrow>
      \<exists>c'. cm_record_assistant_message ops (message_dict m) c = Inr c' \<and> log c' = log c @ [m]"
    and results_recorded: "\<lbrakk>list_all wf_block bs; bs \<noteq> []\<rbrakk> \<Longrightarrow>
      \<exists>c'. cm_record_tool_results ops bs c = Inr c' \<and> log c' = log c @ [message User (Blocks bs)]"
    and replaced: "list_all wf_message ms \<Longrightarrow>
      \<exists>c'. cm_replace_messages ops (map message_dict ms) c = Inr c' \<and> log c' = ms"
    and restored: "list_all wf_message (log c) \<Longrightarrow>
      \<exists>c''. cm_restore ops (cm_full_context_snapshot ops c) c' = Inr c'' \<and> log c'' = log c"
    and sendable: "list_all unmixed (log c) \<Longrightarrow> well_paired (cm_messages_for_model ops b c)"
begin

text \<open>A history that was listed can be put back: what guards see is what they may return.\<close>

lemma replace_listed:
  assumes "list_all wf_message (log c)"
  shows "\<exists>c'. cm_replace_messages ops (cm_full_messages ops c) c = Inr c' \<and> log c' = log c"
  using replaced [OF assms] by (simp add: listed)

text \<open>The new message of a turn is where the agent looks for it.\<close>

lemma user_message_index:
  "cm_full_messages ops (cm_record_user_message ops p a c) ! (cm_message_count ops (cm_record_user_message ops p a c) - 1)
   = message_dict (message User (user_message_content p a))"
  by (simp add: listed counted user_recorded nth_append)

lemma initial_message_index:
  "cm_full_messages ops (cm_initialize ops p a c) ! (cm_message_count ops (cm_initialize ops p a c) - 1)
   = message_dict (message User (user_message_content p a))"
  by (simp add: listed counted initialized)

text \<open>Recording a list of user messages one by one appends them in order.\<close>

lemma users_recorded:
  "log (foldl (\<lambda>c p. cm_record_user_message ops p [] c) c ps)
   = log c @ map (\<lambda>p. message User (user_message_content p [])) ps"
  by (induction ps arbitrary: c) (simp_all add: user_recorded)

text \<open>An exchange recorded on top of a well-paired history leaves it well-paired.\<close>

lemma exchange_recorded:
  assumes "well_paired (log c)" and "wf_message m" and "asks m"
    and "list_all wf_block bs" and "bs \<noteq> []"
    and "tool_use_ids m \<subseteq> tool_result_ids (message User (Blocks bs))"
  shows "\<exists>c1 c2. cm_record_assistant_message ops (message_dict m) c = Inr c1 \<and>
    cm_record_tool_results ops bs c1 = Inr c2 \<and> well_paired (log c2)"
proof -
  obtain c1 where c1: "cm_record_assistant_message ops (message_dict m) c = Inr c1" "log c1 = log c @ [m]"
    using assistant_recorded [OF assms(2)] by blast
  obtain c2 where c2: "cm_record_tool_results ops bs c1 = Inr c2" "log c2 = log c1 @ [message User (Blocks bs)]"
    using results_recorded [OF assms(4,5)] by blast
  have "well_paired [m, message User (Blocks bs)]"
    using assms(3,6) by (simp add: has_tool_results_for_def)
  then have "well_paired (log c @ [m, message User (Blocks bs)])"
    using assms(1) by (intro well_paired_append)
  with c1 c2 show ?thesis by auto
qed

end

section \<open>The sliding window provides the contract\<close>

lemma block_mapping_PDict [simp]: "block_mapping (PDict d) = d"
  by (simp add: block_mapping_def)

lemma message_to_snapshot_dict: "message_to_snapshot (message_dict m) = Inr (message_dict m)"
  by (cases "msg_content m")
    (simp_all add: message_to_snapshot_def dict_index_def message_dict_def content_value_def comp_def)

lemma snapshots_of_wf:
  "list_all wf_message ms \<Longrightarrow> res_map (\<lambda>m. message_from_snapshot (PDict m)) (map message_dict ms) = Inr ms"
  by (intro list_all2_res_map) (auto simp: list_all2_conv_all_nth list_all_length message_from_snapshot_dict)

lemma tool_results_message_wf: "list_all wf_block bs \<Longrightarrow> wf_message (message r (Blocks bs))"
  by (simp add: wf_message_def content_blocks_def)

interpretation window: context_contract sliding_window_ops sw_messages
proof
  fix p a and b :: "context_token_budget option" and c c' :: sliding_window
  show "sw_messages (cm_initialize sliding_window_ops p a c) = [message User (user_message_content p a)]"
    by (simp add: sliding_window_ops_def initialize_def record_user_message_def)
  show "sw_messages (cm_record_user_message sliding_window_ops p a c)
      = sw_messages c @ [message User (user_message_content p a)]"
    by (simp add: sliding_window_ops_def record_user_message_def)
  show "cm_message_count sliding_window_ops c = length (sw_messages c)"
    by (simp add: sliding_window_ops_def message_count_def)
  show "cm_full_messages sliding_window_ops c = map message_dict (sw_messages c)"
    by (simp add: sliding_window_ops_def full_messages_def)
  show "\<exists>c'. cm_record_assistant_message sliding_window_ops (message_dict m) c = Inr c' \<and>
      sw_messages c' = sw_messages c @ [m]" if "wf_message m" for m
    using that by (simp add: sliding_window_ops_def record_assistant_message_def message_to_snapshot_dict
        message_from_snapshot_dict)
  show "\<exists>c'. cm_record_tool_results sliding_window_ops bs c = Inr c' \<and>
      sw_messages c' = sw_messages c @ [message User (Blocks bs)]" if "list_all wf_block bs" "bs \<noteq> []" for bs
    using that message_from_snapshot_dict [OF tool_results_message_wf [OF that(1)], of User]
    by (simp add: sliding_window_ops_def record_tool_results_def)
  show "\<exists>c'. cm_replace_messages sliding_window_ops (map message_dict ms) c = Inr c' \<and> sw_messages c' = ms"
    if "list_all wf_message ms" for ms
    using snapshots_of_wf [OF that] by (simp add: sliding_window_ops_def replace_messages_def)
  show "\<exists>c''. cm_restore sliding_window_ops (cm_full_context_snapshot sliding_window_ops c) c' = Inr c'' \<and>
      sw_messages c'' = sw_messages c" if "list_all wf_message (sw_messages c)"
    using restore_snapshot_of [OF that, of c'] by (simp add: sliding_window_ops_def full_context_snapshot_def)
  show "well_paired (cm_messages_for_model sliding_window_ops b c)" if "list_all unmixed (sw_messages c)"
    using messages_for_model_well_paired [OF that] by (simp add: sliding_window_ops_def)
qed
end
