(* ===== verification/ToolProperties.thy ===== *)
theory ToolProperties
  imports Tools
begin

text \<open>
  What the tool set promises: registrations never replace anything, the guards a tool refers to
  are registered guards, and no tool runs unless its guards allow it.
\<close>

section \<open>Registration only adds\<close>

lemma register_tool_registered:
  "register_tool schema_of r ts = (Inr u, ts') \<Longrightarrow>
   \<exists>schema category. normalize_tool_category (rg_tool_type r) = Inr category \<and>
     map_of (tool_registry ts) (rg_name r) = None \<and>
     ts' = ts\<lparr>tool_registry := tool_registry ts @ [(rg_name r,
       \<lparr>td_schema = [(''name'', PStr (rg_name r)), (''description'', PStr (rg_description r)),
          (''input_schema'', PDict schema)],
        td_tool_type = category, td_fn = rg_fn r, td_pre_guards = rg_pre_guards r,
        td_post_guards = rg_post_guards r, td_args_mode = rg_args_mode r\<rparr>)]\<rparr>"
  by (auto simp: register_tool_def update_new split: if_splits sum.splits)

lemma register_tool_rejected: "register_tool schema_of r ts = (Inl e, ts') \<Longrightarrow> ts' = ts"
  by (auto simp: register_tool_def split: if_splits sum.splits)

interpretation tools: name_registry rg_name tool_registry "register_tool schema_of" for schema_of
proof
  fix r :: tool_registration and s s' :: tool_set and x e
  show "register_tool schema_of r s = (Inr x, s') \<Longrightarrow>
      rg_name r \<notin> fst ` set (tool_registry s) \<and> (\<exists>v. tool_registry s' = tool_registry s @ [(rg_name r, v)])"
    using map_of_eq_None_iff [of "tool_registry s" "rg_name r"]
    by (drule_tac register_tool_registered) (elim exE conjE, simp)
  show "register_tool schema_of r s = (Inl e, s') \<Longrightarrow> tool_registry s' = tool_registry s"
    by (auto dest: register_tool_rejected)
  show "rg_name r \<in> fst ` set (tool_registry s) \<Longrightarrow> \<exists>e. register_tool schema_of r s = (Inl e, s)"
    using map_of_eq_None_iff [of "tool_registry s" "rg_name r"] by (auto simp: register_tool_def)
qed

abbreviation guard_entries :: "tool_set \<Rightarrow> (string \<times> guard_def) list" where
  "guard_entries ts \<equiv> guard_registry (ts_guards ts)"

named_theorems adding \<open>operations of a tool set that only add entries to both registries\<close>

lemma on_guards_tools: "tool_registry (snd (on_guards m ts)) = tool_registry ts"
  by (simp add: on_guards_def split: prod.split)

lemma on_guards_guards: "ts_guards (snd (on_guards m ts)) = snd (m (ts_guards ts))"
  by (simp add: on_guards_def split: prod.split)

lemma on_guards_adds [adding]:
  "only_adds tool_registry (on_guards (guard_set_guard n t f))"
  "only_adds guard_entries (on_guards (guard_set_guard n t f))"
  using guards.register_only_adds [of "(n, t, f)"]
  by (simp_all add: only_adds_def on_guards_tools on_guards_guards)

lemma register_guard_adds [adding]:
  "only_adds tool_registry (register_guard f)" "only_adds guard_entries (register_guard f)"
proof -
  have *: "only_adds entries (register_guard f)"
    if "\<And>n t. only_adds entries (on_guards (guard_set_guard n t f))" for entries :: "tool_set \<Rightarrow> (string \<times> 'v) list"
  proof (rule only_addsI)
    fix ts
    show "\<exists>more. entries (snd (register_guard f ts)) = entries ts @ more \<and>
        (distinct (map fst (entries ts)) \<longrightarrow> distinct (map fst (entries ts @ more)))"
    proof (cases "def_for (ts_guards ts) f")
      case (Inr d)
      then show ?thesis by (simp add: register_guard_def)
    next
      case (Inl e)
      show ?thesis
      proof (cases "gf_metadata f")
        case None
        with Inl show ?thesis by (simp add: register_guard_def)
      next
        case (Some m)
        have "only_adds entries (op_bind (on_guards (guard_set_guard (gm_name m) (gm_fulfills m) f))
            (\<lambda>registered ts. (def_for (ts_guards ts) registered, ts)))"
          by (intro only_adds_bind that only_adds_read)
        with Inl Some show ?thesis by (simp add: register_guard_def only_adds_def)
      qed
    qed
  qed
  show "only_adds tool_registry (register_guard f)" "only_adds guard_entries (register_guard f)"
    by (rule *, rule adding)+
qed

lemma resolve_adds_if:
  assumes "\<And>f. only_adds entries (register_guard f)"
  shows "only_adds entries (resolve_guard_refs refs pg)"
proof (induction refs pg rule: resolve_guard_refs.induct)
  case (2 n refs pg)
  show ?case unfolding resolve_guard_refs.simps
    by (intro only_adds_bind only_adds_read only_adds_return 2)
next
  case (3 f refs pg)
  show ?case unfolding resolve_guard_refs.simps
    by (intro only_adds_bind assms only_adds_return 3)
qed simp

lemma resolve_guard_refs_adds [adding]:
  "only_adds tool_registry (resolve_guard_refs refs pg)" "only_adds guard_entries (resolve_guard_refs refs pg)"
  by (rule resolve_adds_if, rule adding)+

lemma register_tool_adds [adding]:
  "only_adds tool_registry (register_tool schema_of r)" "only_adds guard_entries (register_tool schema_of r)"
  by (rule tools.register_only_adds)
    (auto simp: register_tool_def intro!: only_adds_same split: sum.split option.split)

lemma register_decorated_adds [adding]:
  "only_adds tool_registry (register_decorated schema_of f m pg)"
  "only_adds guard_entries (register_decorated schema_of f m pg)"
  by (auto simp: register_decorated_def intro!: adding)

lemma add_tool_adds [adding]:
  "only_adds tool_registry (add_tool schema_of fs)" "only_adds guard_entries (add_tool schema_of fs)"
  by (induction fs) (auto split: option.split intro!: adding)

lemma add_guard_adds [adding]:
  "only_adds tool_registry (add_guard fs)" "only_adds guard_entries (add_guard fs)"
  by (induction fs) (auto intro!: adding)

lemma add_dynamic_tool_adds [adding]:
  "only_adds tool_registry (add_dynamic_tool schema_of n d i t f pre post)"
  "only_adds guard_entries (add_dynamic_tool schema_of n d i t f pre post)"
  by (auto simp: add_dynamic_tool_def intro!: adding)

lemma register_provider_guards_adds [adding]:
  "only_adds tool_registry (register_provider_guards ms gds)"
  "only_adds guard_entries (register_provider_guards ms gds)"
  by (induction ms gds rule: register_provider_guards.induct) (auto split: option.split intro!: adding)

lemma register_provider_tools_adds [adding]:
  "only_adds tool_registry (register_provider_tools schema_of ms inc exc gds)"
  "only_adds guard_entries (register_provider_tools schema_of ms inc exc gds)"
  by (induction ms) (auto split: option.split intro!: adding)

lemma add_provider_adds [adding]:
  "only_adds tool_registry (add_provider schema_of p cls inc exc)"
  "only_adds guard_entries (add_provider schema_of p cls inc exc)"
  by (auto simp: add_provider_def intro!: adding)

section \<open>Every guard a tool refers to is registered\<close>

definition registered_guards :: "tool_set \<Rightarrow> guard_def set" where
  "registered_guards ts = snd ` set (guard_entries ts)"

definition wf_tool_set :: "tool_set \<Rightarrow> bool" where
  "wf_tool_set ts \<longleftrightarrow> wf_guard_set (ts_guards ts) \<and> distinct (map fst (tool_registry ts)) \<and>
     (\<forall>(n, t) \<in> set (tool_registry ts).
        dict_get (td_schema t) ''name'' = Some (PStr n) \<and> td_tool_type t \<noteq> [] \<and>
        set (td_pre_guards t) \<union> set (td_post_guards t) \<subseteq> registered_guards ts)"

text \<open>
  An operation that keeps the tool set well-formed, only adds entries, and returns a value the
  post-condition allows in the state it ends in.
\<close>

definition sound :: "('a \<Rightarrow> tool_set \<Rightarrow> bool) \<Rightarrow> (tool_set, 'a) op \<Rightarrow> bool" where
  "sound Q m \<longleftrightarrow> (\<forall>ts. wf_tool_set ts \<longrightarrow> wf_tool_set (snd (m ts)) \<and>
     registered_guards ts \<subseteq> registered_guards (snd (m ts)) \<and>
     (\<forall>x. fst (m ts) = Inr x \<longrightarrow> Q x (snd (m ts))))"

abbreviation any :: "'a \<Rightarrow> tool_set \<Rightarrow> bool" where
  "any \<equiv> \<lambda>_ _. True"

lemma soundI:
  "(\<And>ts. wf_tool_set ts \<Longrightarrow> wf_tool_set (snd (m ts)) \<and> registered_guards ts \<subseteq> registered_guards (snd (m ts)) \<and>
     (\<forall>x. fst (m ts) = Inr x \<longrightarrow> Q x (snd (m ts)))) \<Longrightarrow> sound Q m"
  by (simp add: sound_def)

lemma sound_return: "(\<And>ts. wf_tool_set ts \<Longrightarrow> Q x ts) \<Longrightarrow> sound Q (op_return x)"
  and sound_raise: "sound Q (op_raise e)"
  and sound_lift: "sound any (op_lift r)"
  by (simp_all add: sound_def)

lemma sound_weaken: "sound Q m \<Longrightarrow> (\<And>x ts. Q x ts \<Longrightarrow> R x ts) \<Longrightarrow> sound R m"
  by (simp add: sound_def)

text \<open>The continuation runs in a state where the first post-condition holds and guards only grew.\<close>

lemma sound_bind_run:
  assumes "sound Q m" and "wf_tool_set ts"
    and "\<And>x ts'. \<lbrakk>wf_tool_set ts'; registered_guards ts \<subseteq> registered_guards ts'; Q x ts'\<rbrakk> \<Longrightarrow>
      wf_tool_set (snd (f x ts')) \<and> registered_guards ts' \<subseteq> registered_guards (snd (f x ts')) \<and>
      (\<forall>y. fst (f x ts') = Inr y \<longrightarrow> R y (snd (f x ts')))"
  shows "wf_tool_set (snd (op_bind m f ts)) \<and> registered_guards ts \<subseteq> registered_guards (snd (op_bind m f ts)) \<and>
    (\<forall>y. fst (op_bind m f ts) = Inr y \<longrightarrow> R y (snd (op_bind m f ts)))"
proof -
  obtain r ts' where m: "m ts = (r, ts')" by fastforce
  have "wf_tool_set (snd (m ts)) \<and> registered_guards ts \<subseteq> registered_guards (snd (m ts)) \<and>
      (\<forall>x. fst (m ts) = Inr x \<longrightarrow> Q x (snd (m ts)))"
    using assms(1,2) unfolding sound_def by blast
  with m have "wf_tool_set ts'" "registered_guards ts \<subseteq> registered_guards ts'"
    "\<And>x. r = Inr x \<Longrightarrow> Q x ts'"
    by simp_all
  with m assms(3) [of ts'] show ?thesis
    by (cases r) (auto simp: op_bind_def)
qed

lemma sound_bind:
  assumes "sound Q m" and "\<And>x. sound R (f x)"
  shows "sound R (op_bind m f)"
  using assms(2) by (intro soundI sound_bind_run [OF assms(1)]) (auto simp: sound_def)

lemma register_guard_sound: "sound (\<lambda>d ts. d \<in> registered_guards ts) (register_guard f)"
proof (rule soundI)
  fix ts
  assume wf: "wf_tool_set ts"
  have known: "d \<in> registered_guards ts" if "wf_guard_set (ts_guards ts)" "def_for (ts_guards ts) g = Inr d" for ts g d
    using that by (force simp: def_for_def wf_guard_set_def registered_guards_def split: option.splits)
  have wf': "wf_tool_set (snd (on_guards (guard_set_guard n t f) ts))" for n t
  proof -
    have "guard_entries ts = take (length (guard_entries ts)) (guard_entries (snd (on_guards (guard_set_guard n t f) ts)))"
      using on_guards_adds(2) [of n t f] by (metis append_eq_conv_conj only_adds_def)
    then have "registered_guards ts \<subseteq> registered_guards (snd (on_guards (guard_set_guard n t f) ts))"
      unfolding registered_guards_def by (metis image_mono set_take_subset)
    with wf show ?thesis
      by (fastforce simp: wf_tool_set_def on_guards_tools on_guards_guards guard_set_guard_wf)
  qed
  have grows: "registered_guards ts \<subseteq> registered_guards (snd (register_guard f ts))"
    using register_guard_adds(2) [of f] unfolding only_adds_def registered_guards_def
    by (metis image_mono set_append sup_ge1)
  show "wf_tool_set (snd (register_guard f ts)) \<and> registered_guards ts \<subseteq> registered_guards (snd (register_guard f ts))
    \<and> (\<forall>d. fst (register_guard f ts) = Inr d \<longrightarrow> d \<in> registered_guards (snd (register_guard f ts)))"
  proof (intro conjI grows)
    show "wf_tool_set (snd (register_guard f ts))"
      using wf wf' by (auto simp: register_guard_def op_bind_def split: sum.split option.split prod.split)
        (metis snd_conv)+
    then have wf'': "wf_guard_set (ts_guards (snd (register_guard f ts)))" by (simp add: wf_tool_set_def)
    show "\<forall>d. fst (register_guard f ts) = Inr d \<longrightarrow> d \<in> registered_guards (snd (register_guard f ts))"
      using known wf wf''
      by (auto simp: register_guard_def op_bind_def wf_tool_set_def split: sum.splits option.splits prod.splits)
  qed
qed

lemma resolve_guard_refs_sound:
  "snd ` set pg \<subseteq> registered_guards ts \<Longrightarrow> wf_tool_set ts \<Longrightarrow>
   wf_tool_set (snd (resolve_guard_refs refs pg ts)) \<and>
   registered_guards ts \<subseteq> registered_guards (snd (resolve_guard_refs refs pg ts)) \<and>
   (\<forall>ds. fst (resolve_guard_refs refs pg ts) = Inr ds \<longrightarrow>
      set ds \<subseteq> registered_guards (snd (resolve_guard_refs refs pg ts)))"
proof (induction refs pg arbitrary: ts rule: resolve_guard_refs.induct)
  case (1 pg)
  then show ?case by simp
next
  case (2 n refs pg)
  have found: "d \<in> registered_guards ts"
    if "(case map_of pg n of Some d \<Rightarrow> Inr d | None \<Rightarrow> get_guard (ts_guards ts) n) = Inr d" for d
    using that 2(2) by (force simp: get_guard_def registered_guards_def dest: map_of_SomeD split: option.splits)
  show ?case
  proof (cases "case map_of pg n of Some d \<Rightarrow> Inr d | None \<Rightarrow> get_guard (ts_guards ts) n")
    case (Inl e)
    with 2(3) show ?thesis by (simp add: op_bind_def)
  next
    case (Inr d)
    with found 2(1) [OF 2(2,3)] show ?thesis
      by (auto simp: op_bind_def split: prod.splits sum.splits)
  qed
next
  case (3 f refs pg)
  show ?case unfolding resolve_guard_refs.simps
  proof (rule sound_bind_run [OF register_guard_sound 3(3)])
    fix d ts'
    assume ts': "wf_tool_set ts'" "registered_guards ts \<subseteq> registered_guards ts'" "d \<in> registered_guards ts'"
    with 3(2) have "snd ` set pg \<subseteq> registered_guards ts'" by blast
    from 3(1) [OF this ts'(1)] ts'(3)
    show "wf_tool_set (snd (op_bind (resolve_guard_refs refs pg) (\<lambda>ds. op_return (d # ds)) ts')) \<and>
      registered_guards ts' \<subseteq> registered_guards (snd (op_bind (resolve_guard_refs refs pg) (\<lambda>ds. op_return (d # ds)) ts')) \<and>
      (\<forall>y. fst (op_bind (resolve_guard_refs refs pg) (\<lambda>ds. op_return (d # ds)) ts') = Inr y \<longrightarrow>
         set y \<subseteq> registered_guards (snd (op_bind (resolve_guard_refs refs pg) (\<lambda>ds. op_return (d # ds)) ts')))"
      by (auto simp: op_bind_def split: prod.splits sum.splits)
  qed
qed

lemma register_tool_sound:
  assumes "wf_tool_set ts" and "set (rg_pre_guards r) \<union> set (rg_post_guards r) \<subseteq> registered_guards ts"
  shows "wf_tool_set (snd (register_tool schema_of r ts)) \<and>
    registered_guards ts \<subseteq> registered_guards (snd (register_tool schema_of r ts))"
proof (cases "fst (register_tool schema_of r ts)")
  case (Inl e)
  then show ?thesis using assms register_tool_rejected [of schema_of r ts e] by (metis order_refl prod.collapse)
next
  case (Inr u)
  have nonempty: "normalize_tool_category v = Inr c \<Longrightarrow> c \<noteq> []" for v c
    by (auto simp: normalize_tool_category_def split: pyval.splits if_splits)
  obtain ts' where step: "register_tool schema_of r ts = (Inr u, ts')" using Inr by (metis prod.collapse)
  from register_tool_registered [OF this] obtain t where
    ts': "ts' = ts\<lparr>tool_registry := tool_registry ts @ [(rg_name r, t)]\<rparr>"
    "map_of (tool_registry ts) (rg_name r) = None" "td_tool_type t \<noteq> []"
    "dict_get (td_schema t) ''name'' = Some (PStr (rg_name r))"
    "td_pre_guards t = rg_pre_guards r" "td_post_guards t = rg_post_guards r"
    using nonempty by fastforce
  then have same: "registered_guards ts' = registered_guards ts" by (simp add: registered_guards_def)
  have "rg_name r \<notin> fst ` set (tool_registry ts)" using ts'(2) by (simp add: map_of_eq_None_iff)
  with assms ts' same have "wf_tool_set ts'" by (simp add: wf_tool_set_def)
  with step same show ?thesis by simp
qed

text \<open>Two resolutions and a registration, as every registration path ends.\<close>

lemma resolve_register_sound:
  assumes "snd ` set pg \<subseteq> registered_guards ts" and "wf_tool_set ts"
    and "\<And>pre post. rg_pre_guards (r pre post) = pre \<and> rg_post_guards (r pre post) = post"
  shows "wf_tool_set (snd (op_bind (resolve_guard_refs pre_refs pg) (\<lambda>pre.
      op_bind (resolve_guard_refs post_refs pg) (\<lambda>post. register_tool schema_of (r pre post))) ts)) \<and>
    registered_guards ts \<subseteq> registered_guards (snd (op_bind (resolve_guard_refs pre_refs pg) (\<lambda>pre.
      op_bind (resolve_guard_refs post_refs pg) (\<lambda>post. register_tool schema_of (r pre post))) ts))"
proof -
  obtain r1 ts1 where 1: "resolve_guard_refs pre_refs pg ts = (r1, ts1)" by fastforce
  with resolve_guard_refs_sound [OF assms(1,2), of pre_refs]
  have ts1: "wf_tool_set ts1" "registered_guards ts \<subseteq> registered_guards ts1"
    "\<And>ds. r1 = Inr ds \<Longrightarrow> set ds \<subseteq> registered_guards ts1" by simp_all
  obtain r2 ts2 where 2: "resolve_guard_refs post_refs pg ts1 = (r2, ts2)" by fastforce
  have "snd ` set pg \<subseteq> registered_guards ts1" using assms(1) ts1(2) by blast
  with 2 resolve_guard_refs_sound [OF _ ts1(1), of pg post_refs]
  have ts2: "wf_tool_set ts2" "registered_guards ts1 \<subseteq> registered_guards ts2"
    "\<And>ds. r2 = Inr ds \<Longrightarrow> set ds \<subseteq> registered_guards ts2" by simp_all
  show ?thesis
  proof (cases r1)
    case (Inl e)
    with 1 ts1 show ?thesis by (simp add: op_bind_def)
  next
    case (Inr pre)
    show ?thesis
    proof (cases r2)
      case Inl2: (Inl e)
      with 1 2 Inr ts1 ts2 show ?thesis by (auto simp: op_bind_def)
    next
      case Inr2: (Inr post)
      have "set (rg_pre_guards (r pre post)) \<union> set (rg_post_guards (r pre post)) \<subseteq> registered_guards ts2"
        using ts1(3) [OF Inr] ts2(2,3) Inr2 assms(3) by auto
      from register_tool_sound [OF ts2(1) this, of schema_of] show ?thesis
        using 1 2 Inr Inr2 ts1(2) ts2(2) by (simp add: op_bind_def) blast
    qed
  qed
qed

lemma register_decorated_run:
  assumes "snd ` set pg \<subseteq> registered_guards ts" and "wf_tool_set ts"
  shows "wf_tool_set (snd (register_decorated schema_of f m pg ts)) \<and>
    registered_guards ts \<subseteq> registered_guards (snd (register_decorated schema_of f m pg ts))"
  unfolding register_decorated_def by (rule resolve_register_sound [OF assms]) simp

lemma register_decorated_sound: "sound any (register_decorated schema_of f m [])"
  using register_decorated_run [of "[]"] by (intro soundI) simp

lemma add_tool_sound: "sound any (add_tool schema_of fs)"
proof (induction fs)
  case (Cons f fs)
  then show ?case
    by (auto intro!: sound_bind [OF register_decorated_sound] sound_raise split: option.split)
qed (simp add: sound_def)

lemma add_guard_sound: "sound any (add_guard fs)"
proof (induction fs)
  case (Cons f fs)
  then show ?case by (auto intro!: sound_bind [OF register_guard_sound] sound_raise)
qed (simp add: sound_def)

lemma add_dynamic_tool_sound: "sound any (add_dynamic_tool schema_of n d i t f pre post)"
  unfolding add_dynamic_tool_def
  by (intro soundI conjI impI allI TrueI resolve_register_sound [THEN conjunct1]
      resolve_register_sound [THEN conjunct2]) simp_all

lemma register_provider_guards_run:
  "snd ` set gds \<subseteq> registered_guards ts \<Longrightarrow> wf_tool_set ts \<Longrightarrow>
   wf_tool_set (snd (register_provider_guards ms gds ts)) \<and>
   registered_guards ts \<subseteq> registered_guards (snd (register_provider_guards ms gds ts)) \<and>
   (\<forall>r. fst (register_provider_guards ms gds ts) = Inr r \<longrightarrow>
      snd ` set r \<subseteq> registered_guards (snd (register_provider_guards ms gds ts)))"
proof (induction ms gds arbitrary: ts rule: register_provider_guards.induct)
  case (1 gds)
  then show ?case by simp
next
  case (2 m ms gds)
  show ?case
  proof (cases "gf_metadata (tf_guard m)")
    case None
    with 2 show ?thesis by simp
  next
    case (Some md)
    have update: "snd ` set (AList.update k d xs) \<subseteq> insert d (snd ` set xs)" for k d and xs :: "(string \<times> guard_def) list"
      by (induction xs) auto
    have "wf_tool_set (snd (op_bind (register_guard (tf_guard m))
        (\<lambda>d. register_provider_guards ms (AList.update (gm_name md) d gds)) ts)) \<and>
      registered_guards ts \<subseteq> registered_guards (snd (op_bind (register_guard (tf_guard m))
        (\<lambda>d. register_provider_guards ms (AList.update (gm_name md) d gds)) ts)) \<and>
      (\<forall>r. fst (op_bind (register_guard (tf_guard m))
        (\<lambda>d. register_provider_guards ms (AList.update (gm_name md) d gds)) ts) = Inr r \<longrightarrow>
        snd ` set r \<subseteq> registered_guards (snd (op_bind (register_guard (tf_guard m))
          (\<lambda>d. register_provider_guards ms (AList.update (gm_name md) d gds)) ts)))"
    proof (rule sound_bind_run [OF register_guard_sound 2(4)])
      fix d ts'
      assume ts': "wf_tool_set ts'" "registered_guards ts \<subseteq> registered_guards ts'" "d \<in> registered_guards ts'"
      with 2(3) update [of "gm_name md" d gds]
      have "snd ` set (AList.update (gm_name md) d gds) \<subseteq> registered_guards ts'" by blast
      from 2(2) [OF Some this ts'(1)]
      show "wf_tool_set (snd (register_provider_guards ms (AList.update (gm_name md) d gds) ts')) \<and>
        registered_guards ts' \<subseteq> registered_guards (snd (register_provider_guards ms (AList.update (gm_name md) d gds) ts')) \<and>
        (\<forall>y. fst (register_provider_guards ms (AList.update (gm_name md) d gds) ts') = Inr y \<longrightarrow>
          snd ` set y \<subseteq> registered_guards (snd (register_provider_guards ms (AList.update (gm_name md) d gds) ts')))" .
    qed
    with Some show ?thesis by simp
  qed
qed

lemma register_provider_tools_run:
  "snd ` set gds \<subseteq> registered_guards ts \<Longrightarrow> wf_tool_set ts \<Longrightarrow>
   wf_tool_set (snd (register_provider_tools schema_of ms included excluded gds ts)) \<and>
   registered_guards ts \<subseteq> registered_guards (snd (register_provider_tools schema_of ms included excluded gds ts))"
proof (induction ms arbitrary: ts)
  case (Cons m ms)
  have step: "wf_tool_set (snd (op_bind (register_decorated schema_of m md gds)
        (\<lambda>_. register_provider_tools schema_of ms included excluded gds) ts)) \<and>
      registered_guards ts \<subseteq> registered_guards (snd (op_bind (register_decorated schema_of m md gds)
        (\<lambda>_. register_provider_tools schema_of ms included excluded gds) ts))" for md
  proof -
    obtain r ts' where r: "register_decorated schema_of m md gds ts = (r, ts')" by fastforce
    with register_decorated_run [OF Cons.prems, of schema_of m md]
    have ts': "wf_tool_set ts'" "registered_guards ts \<subseteq> registered_guards ts'" by simp_all
    with Cons.prems(1) have "snd ` set gds \<subseteq> registered_guards ts'" by blast
    from Cons.IH [OF this ts'(1)] r ts' show ?thesis by (cases r) (simp_all add: op_bind_def, blast)
  qed
  show ?case using step Cons.IH [OF Cons.prems] by (auto split: option.split)
qed simp

lemma add_provider_sound: "sound any (add_provider schema_of p cls included excluded)"
proof -
  have "sound any (op_bind (register_provider_guards ms []) (\<lambda>gds.
      register_provider_tools schema_of ms included excluded gds))" for ms
  proof (rule soundI)
    fix ts
    assume wf: "wf_tool_set ts"
    obtain r ts' where r: "register_provider_guards ms [] ts = (r, ts')" by fastforce
    from register_provider_guards_run [of "[]" ts ms] wf r
    have ts': "wf_tool_set ts'" "registered_guards ts \<subseteq> registered_guards ts'"
      "\<And>gds. r = Inr gds \<Longrightarrow> snd ` set gds \<subseteq> registered_guards ts'" by simp_all
    show "wf_tool_set (snd (op_bind (register_provider_guards ms []) (\<lambda>gds.
        register_provider_tools schema_of ms included excluded gds) ts)) \<and>
      registered_guards ts \<subseteq> registered_guards (snd (op_bind (register_provider_guards ms []) (\<lambda>gds.
        register_provider_tools schema_of ms included excluded gds) ts)) \<and>
      (\<forall>x. fst (op_bind (register_provider_guards ms []) (\<lambda>gds.
        register_provider_tools schema_of ms included excluded gds) ts) = Inr x \<longrightarrow> True)"
    proof (cases r)
      case (Inl e)
      with r ts' show ?thesis by (simp add: op_bind_def)
    next
      case (Inr gds)
      with register_provider_tools_run [OF ts'(3) ts'(1)] r ts'(2) show ?thesis
        by (simp add: op_bind_def) blast
    qed
  qed
  then show ?thesis unfolding add_provider_def by (intro sound_bind [OF sound_lift])
qed

lemma add_each_sound: "(\<And>p. p \<in> set ps \<Longrightarrow> sound any (add p)) \<Longrightarrow> sound any (add_each add ps)"
  by (induction ps) (auto intro: sound_return sound_bind)

lemma empty_tool_set_wf: "wf_tool_set \<lparr>tool_registry = [], ts_guards = GuardSet policy\<rparr>"
  by (simp add: wf_tool_set_def wf_guard_set_def GuardSet_def)

section \<open>Execution\<close>

text \<open>Without a passing run of the guards before it, the tool function plays no role.\<close>

lemma blocked_before_tool:
  assumes "\<nexists>s'. guards_pass run_guard Pre name (td_tool_type t) stream_id options (td_pre_guards t) s s'"
  shows "run_between_guards run_guard run_tool t name stream_id call_id options s
       = run_between_guards run_guard run_tool' t name stream_id call_id options s"
proof -
  obtain r s1 where run: "execute_guards run_guard Pre name (td_tool_type t) stream_id options (td_pre_guards t) s = (r, s1)"
    by fastforce
  have "r \<noteq> Inr None" using assms run by (auto simp: execute_guards_None)
  with run show ?thesis
    by (cases r) (auto simp: run_between_guards_def op_bind_def split: option.split)
qed

definition call_start :: "pydict \<Rightarrow> 'w \<Rightarrow> 'w call_state" where
  "call_start args world = \<lparr>cs_args = args, cs_result = None, cs_world = world\<rparr>"

text \<open>
  C1. Fail closed: if the outcome of a tool call depends on the tool function at all, so that
  running it can have any effect, then the tool is registered, every one of its guards (before
  and after) fulfills its category, a category the policy protects has at least one guard before
  it, and all guards before it were called in order and passed.
\<close>

theorem tool_runs_only_if_allowed:
  assumes "execute_tool run_guard run_tool ts name args stream_id call_id options world
    \<noteq> execute_tool run_guard run_tool' ts name args stream_id call_id options world"
  shows "\<exists>t s'. map_of (tool_registry ts) name = Some t \<and>
    (\<forall>g \<in> set (td_pre_guards t) \<union> set (td_post_guards t). td_tool_type t \<in> gd_fulfills g) \<and>
    (td_tool_type t \<in> required_pre (gs_guard_policy (ts_guards ts)) \<longrightarrow> td_pre_guards t \<noteq> []) \<and>
    (td_tool_type t \<in> required_post (gs_guard_policy (ts_guards ts)) \<longrightarrow> td_post_guards t \<noteq> []) \<and>
    guards_pass run_guard Pre name (td_tool_type t) stream_id
      (case options of None \<Rightarrow> DEFAULT_ACTIVITY_OPTIONS | Some own \<Rightarrow> own) (td_pre_guards t)
      (call_start args world) s'"
proof -
  let ?options = "case options of None \<Rightarrow> DEFAULT_ACTIVITY_OPTIONS | Some own \<Rightarrow> own"
  obtain t where t: "map_of (tool_registry ts) name = Some t"
    using assms by (auto simp: execute_tool_def get_tool_def split: option.splits)
  have valid: "\<exists>u. validate_tool_guards (ts_guards ts) (td_tool_type t) (td_pre_guards t) (td_post_guards t) = Inr u"
    using assms t by (cases "validate_tool_guards (ts_guards ts) (td_tool_type t) (td_pre_guards t) (td_post_guards t)")
      (simp_all add: execute_tool_def get_tool_def)
  have "\<exists>s'. guards_pass run_guard Pre name (td_tool_type t) stream_id ?options (td_pre_guards t) (call_start args world) s'"
  proof (rule ccontr)
    assume "\<nexists>s'. guards_pass run_guard Pre name (td_tool_type t) stream_id ?options (td_pre_guards t) (call_start args world) s'"
    from blocked_before_tool [OF this, of run_tool call_id run_tool'] assms t valid show False
      by (auto simp: execute_tool_def get_tool_def call_start_def)
  qed
  with t valid show ?thesis by (auto simp: validate_tool_guards_Inr)
qed

lemma execute_guards_stops:
  assumes "guards_pass run_guard timing name ty stream_id options passed s s1"
    and "call_guard run_guard (gd_fn g) (context_for_guard g timing name ty stream_id options s1) s1 = (Inr r, s2)"
    and "\<not> gr_passed r"
  shows "execute_guards run_guard timing name ty stream_id options (passed @ g # rest) s
    = (Inr (Some (guard_failure_payload g timing r)), s2)"
  using assms by (induction rule: guards_pass.induct) (simp_all add: op_bind_run)

text \<open>
  A guard before the tool that does not pass blocks the call with its own payload: the
  result is an error with the guard's payload for the model, or else a report naming the guard,
  its timing and its reason; the guards before it passed, and nothing after it ran.
\<close>

theorem failing_guard_blocks_tool:
  assumes "map_of (tool_registry ts) name = Some t"
    and "validate_tool_guards (ts_guards ts) (td_tool_type t) (td_pre_guards t) (td_post_guards t) = Inr ()"
    and "td_pre_guards t = passed @ g # rest"
    and "guards_pass run_guard Pre name (td_tool_type t) stream_id options passed (call_start args world) s1"
    and "call_guard run_guard (gd_fn g) (context_for_guard g Pre name (td_tool_type t) stream_id options s1) s1
      = (Inr r, s2)" and "\<not> gr_passed r"
  shows "execute_tool run_guard run_tool ts name args stream_id call_id (Some options) world
    = (Inr \<lparr>tr_payload = guard_failure_payload g Pre r, tr_error = True\<rparr>, cs_world s2)"
proof -
  have "execute_guards run_guard Pre name (td_tool_type t) stream_id options (td_pre_guards t) (call_start args world)
      = (Inr (Some (guard_failure_payload g Pre r)), s2)"
    unfolding assms(3) using assms(4-6) by (rule execute_guards_stops)
  with assms(1,2) show ?thesis
    by (simp add: execute_tool_def get_tool_def run_between_guards_def op_bind_def call_start_def)
qed

text \<open>A tool set with one guarded tool, for the instances.\<close>

definition sample_guard :: guard_fn where
  "sample_guard = \<lparr>gf_function = \<lparr>fn_id = 1, fn_name = ''approve'', fn_params = []\<rparr>,
     gf_metadata = Some \<lparr>gm_name = ''approve'', gm_fulfills = PStr ''admin''\<rparr>\<rparr>"

definition sample_guard_def :: guard_def where
  "sample_guard_def = \<lparr>gd_name = ''approve'', gd_fulfills = {''admin''}, gd_fn = sample_guard\<rparr>"

definition sample_tool_fn :: tool_fn where
  "sample_tool_fn = \<lparr>tf_guard = \<lparr>gf_function = sample_function, gf_metadata = None\<rparr>,
     tf_metadata = Some \<lparr>tm_name = ''wipe'', tm_description = ''Wipe it'', tm_tool_type = ''admin'',
       tm_pre_guards = [GuardFunction sample_guard], tm_post_guards = []\<rparr>\<rparr>"

definition sample_tool :: tool_def where
  "sample_tool = \<lparr>td_schema = [(''name'', PStr ''wipe'')], td_tool_type = ''admin'', td_fn = sample_tool_fn,
     td_pre_guards = [sample_guard_def], td_post_guards = [], td_args_mode = Raw\<rparr>"

definition sample_tools :: tool_set where
  "sample_tools = \<lparr>tool_registry = [(''wipe'', sample_tool)],
     ts_guards = \<lparr>guard_registry = [(''approve'', sample_guard_def)],
       guard_functions = [(sample_guard, sample_guard_def)], gs_guard_policy = default_guard_policy\<rparr>\<rparr>"

definition verdict :: "bool \<Rightarrow> nat guard_semantics" where
  "verdict b = (\<lambda>f kwargs s. (Inr (ReturnedResult \<lparr>gr_passed = b, gr_reason = None, gr_llm_payload = None,
     gr_internal_payload = None\<rparr>), s))"

definition counting :: "nat \<Rightarrow> nat tool_semantics" where
  "counting n = (\<lambda>f inv s. (Inr \<lparr>tr_payload = [], tr_error = False\<rparr>, s\<lparr>cs_world := cs_world s + n\<rparr>))"

lemmas sample_run = sample_tools_def sample_tool_def sample_guard_def_def sample_guard_def sample_tool_fn_def
  execute_tool_def get_tool_def validate_tool_guards_def run_between_guards_def op_bind_def call_guard_def
  kwargs_for_guard_def bind_keyword_arguments_def verdict_def counting_def call_dynamic_tool_def
  default_guard_policy_def call_start_def context_for_guard_def

theorem tool_runs_only_if_allowed_witness:
  "\<exists>t. map_of (tool_registry sample_tools) ''wipe'' = Some t \<and> td_pre_guards t \<noteq> []"
proof -
  have "execute_tool (verdict True) (counting 1) sample_tools ''wipe'' [] None None None 0
      \<noteq> execute_tool (verdict True) (counting 2) sample_tools ''wipe'' [] None None None 0"
    by (simp add: sample_run Let_def)
  from tool_runs_only_if_allowed [OF this] show ?thesis by (auto simp: sample_tools_def sample_tool_def)
qed

theorem failing_guard_blocks_tool_witness:
  "execute_tool (verdict False) (counting 1) sample_tools ''wipe'' [] None None (Some ActivityOptions) 0
   = (Inr \<lparr>tr_payload = guard_failure_payload sample_guard_def Pre \<lparr>gr_passed = False, gr_reason = None,
        gr_llm_payload = None, gr_internal_payload = None\<rparr>, tr_error = True\<rparr>, 0)"
  using failing_guard_blocks_tool [of sample_tools "''wipe''" sample_tool "[]" sample_guard_def "[]"
      "verdict False" None ActivityOptions "[]" 0 "call_start [] 0"
      "\<lparr>gr_passed = False, gr_reason = None, gr_llm_payload = None, gr_internal_payload = None\<rparr>"
      "call_start [] 0" "counting 1" None]
  by (simp add: sample_run Let_def guards_pass.all_passed)

text \<open>
  When all guards pass, the call returns what the tool returned, as the guards after it left
  it, with the effects of the guards and of the tool, each run once and in order.
\<close>

theorem passing_guards_return_tool_result:
  assumes "map_of (tool_registry ts) name = Some t" and "td_args_mode t = Raw"
    and "validate_tool_guards (ts_guards ts) (td_tool_type t) (td_pre_guards t) (td_post_guards t) = Inr ()"
    and "guards_pass run_guard Pre name (td_tool_type t) stream_id options (td_pre_guards t) (call_start args world) s1"
    and "run_tool (td_fn t) (RawCall \<lparr>tc_tool_name = name, tc_stream_id = stream_id, tc_tool_call_id = call_id,
        tc_activity_options = options, tc_activity_count = 0, tc_used_unstepped_activity = False\<rparr> (cs_args s1)) s1
      = (Inr result, s2)"
    and "guards_pass run_guard Post name (td_tool_type t) stream_id options (td_post_guards t)
      (s2\<lparr>cs_result := Some result\<rparr>) s3" and "cs_result s3 = Some result'"
  shows "execute_tool run_guard run_tool ts name args stream_id call_id (Some options) world
    = (Inr result', cs_world s3)"
  using assms unfolding execute_guards_None [symmetric]
  by (simp add: execute_tool_def get_tool_def run_between_guards_def op_bind_def call_start_def
      call_dynamic_tool_def Let_def)

theorem passing_guards_return_tool_result_witness:
  "execute_tool (verdict True) (counting 3) sample_tools ''wipe'' [] None None (Some ActivityOptions) 4
   = (Inr \<lparr>tr_payload = [], tr_error = False\<rparr>, 7)"
  using passing_guards_return_tool_result [where ts = sample_tools and name = "''wipe''" and t = sample_tool
      and run_guard = "verdict True" and stream_id = None and options = ActivityOptions and args = "[]"
      and world = 4 and ?s1.0 = "call_start [] 4" and run_tool = "counting 3" and call_id = None
      and result = "\<lparr>tr_payload = [], tr_error = False\<rparr>" and ?s2.0 = "call_start [] 7"
      and ?s3.0 = "call_start [] 7\<lparr>cs_result := Some \<lparr>tr_payload = [], tr_error = False\<rparr>\<rparr>"
      and result' = "\<lparr>tr_payload = [], tr_error = False\<rparr>"]
  by (simp add: sample_run Let_def guards_pass.all_passed execute_guards_None [symmetric])

section \<open>Registration\<close>

lemma only_adds_map_le: "only_adds entries m \<Longrightarrow> map_of (entries ts) \<subseteq>\<^sub>m map_of (entries (snd (m ts)))"
  by (auto simp: map_le_def dest: only_adds_lookup)

text \<open>
  Registering tools, guards, dynamic tools and providers never replaces or removes a tool or
  a guard, whether the registration succeeds or raises: what a name stood for it still stands for.
\<close>

theorem registration_never_replaces:
  "map_of (tool_registry ts) \<subseteq>\<^sub>m map_of (tool_registry (snd (add_tool schema_of tools ts))) \<and>
   map_of (guard_entries ts) \<subseteq>\<^sub>m map_of (guard_entries (snd (add_tool schema_of tools ts))) \<and>
   map_of (tool_registry ts) \<subseteq>\<^sub>m map_of (tool_registry (snd (add_guard gs ts))) \<and>
   map_of (guard_entries ts) \<subseteq>\<^sub>m map_of (guard_entries (snd (add_guard gs ts))) \<and>
   map_of (tool_registry ts) \<subseteq>\<^sub>m map_of (tool_registry
     (snd (add_dynamic_tool schema_of name description input_schema tool_type f pre post ts))) \<and>
   map_of (guard_entries ts) \<subseteq>\<^sub>m map_of (guard_entries
     (snd (add_dynamic_tool schema_of name description input_schema tool_type f pre post ts))) \<and>
   map_of (tool_registry ts) \<subseteq>\<^sub>m map_of (tool_registry
     (snd (add_provider schema_of provider classes included excluded ts))) \<and>
   map_of (guard_entries ts) \<subseteq>\<^sub>m map_of (guard_entries
     (snd (add_provider schema_of provider classes included excluded ts)))"
  by (intro conjI only_adds_map_le adding)

text \<open>
  A tool set that was constructed is well-formed: tool names and guard names are unique, each
  tool has its own name in its schema and a category, and every guard a tool refers to, by
  function or by name, is a guard of the registry with at least one category; MCP providers are
  assumed to register through operations that keep this (as \<open>add_dynamic_tool\<close> does).
\<close>

theorem constructed_tool_set_well_formed:
  assumes "ToolSet schema_of policy guards providers mcp_providers tools = Inr ts"
    and "\<forall>(p, register) \<in> set mcp_providers. \<forall>m. register = Some m \<longrightarrow> sound any m"
  shows "wf_tool_set ts"
proof -
  have mcp: "sound any ((\<lambda>(p, register). add_mcp_provider p register) x)" if "x \<in> set mcp_providers" for x
    using assms(2) that
    by (cases x; cases "snd x")
      (auto simp: add_mcp_provider_def intro!: sound_raise sound_bind [of any] sound_return)
  have provider: "sound any ((\<lambda>(p, classes). add_provider schema_of p classes None {}) x)" for x
    by (cases x) (simp add: add_provider_sound)
  have finish: "sound (\<lambda>x ts. x = ts \<and> wf_tool_set ts) (\<lambda>ts. (Inr ts, ts))" by (simp add: sound_def)
  have "sound (\<lambda>x ts. x = ts \<and> wf_tool_set ts) (op_bind (add_guard guards) (\<lambda>_.
      op_bind (add_each (\<lambda>(p, classes). add_provider schema_of p classes None {}) providers) (\<lambda>_.
      op_bind (add_each (\<lambda>(p, register). add_mcp_provider p register) mcp_providers) (\<lambda>_.
      op_bind (add_tool schema_of tools) (\<lambda>_. \<lambda>ts. (Inr ts, ts))))))"
    by (intro sound_bind [OF add_guard_sound] sound_bind [OF add_each_sound [OF provider]]
        sound_bind [OF add_each_sound [OF mcp]] sound_bind [OF add_tool_sound] finish)
  with assms(1) empty_tool_set_wf [of policy] show ?thesis
    by (auto simp: ToolSet_def sound_def)
qed

theorem constructed_tool_set_well_formed_witness:
  "\<exists>ts. ToolSet (\<lambda>n fields. Inr []) None [sample_guard] [] [] [sample_tool_fn] = Inr ts \<and> wf_tool_set ts"
proof -
  obtain ts where ts: "ToolSet (\<lambda>n fields. Inr []) None [sample_guard] [] [] [sample_tool_fn] = Inr ts"
    by (simp add: ToolSet_def op_bind_def sample_guard_def sample_tool_fn_def register_guard_def def_for_def
        GuardSet_def on_guards_def guard_set_guard_def tool_type_set_def tool_category_set_def
        normalize_tool_category_def register_decorated_def register_tool_def input_schema_for_tool_def
        sample_function_def Let_def)
  from constructed_tool_set_well_formed [OF this] ts show ?thesis by simp
qed

end
