(* ===== verification/AgentProperties.thy ===== *)
theory AgentProperties
  imports Agent ContextInterface ToolProperties
begin

text \<open>
  What the agent loop promises: every requested tool is answered once and in order, steering is
  delivered in order and only once, the loop ends, recovery from a context overflow is bounded
  and always possible, and a terminated agent does nothing more.
\<close>

section \<open>Signals and control messages\<close>

definition immediate_of :: "signal list \<Rightarrow> string list" where
  "immediate_of sigs = List.map_filter (\<lambda>sig. case sig of
     Steer msg mode \<Rightarrow> if mode = ''immediate'' then Some msg else None | _ \<Rightarrow> None) sigs"

definition after_tool_of :: "signal list \<Rightarrow> string list" where
  "after_tool_of sigs = List.map_filter (\<lambda>sig. case sig of
     Steer msg mode \<Rightarrow> if mode = ''after_next_tool_result'' then Some msg else None | _ \<Rightarrow> None) sigs"

definition interrupts_of :: "signal list \<Rightarrow> string list" where
  "interrupts_of sigs = List.map_filter (\<lambda>sig. case sig of
     Interrupt msg policy \<Rightarrow> if policy = ''discard'' then Some msg else None | _ \<Rightarrow> None) sigs"

lemma signals_queue:
  "ag_pending_immediate_steering (fold apply_signal sigs ag) = ag_pending_immediate_steering ag @ immediate_of sigs"
  "ag_pending_after_tool_steering (fold apply_signal sigs ag) = ag_pending_after_tool_steering ag @ after_tool_of sigs"
  "ag_pending_interrupts (fold apply_signal sigs ag) = ag_pending_interrupts ag @ interrupts_of sigs"
  "ag_interrupt_requested (fold apply_signal sigs ag) = (ag_interrupt_requested ag \<or> interrupts_of sigs \<noteq> [])"
  "ag_context (fold apply_signal sigs ag) = ag_context ag"
  "ag_context_ops (fold apply_signal sigs ag) = ag_context_ops ag"
  by (induction sigs arbitrary: ag)
    (auto simp: immediate_of_def after_tool_of_def interrupts_of_def map_filter_simps apply_signal_def
      steer_def interrupt_def split: signal.split)

lemma record_control_fields [simp]:
  "ag_context_ops (record_control t d ag m) = ag_context_ops ag"
  "ag_pending_immediate_steering (record_control t d ag m) = ag_pending_immediate_steering ag"
  "ag_pending_after_tool_steering (record_control t d ag m) = ag_pending_after_tool_steering ag"
  "ag_pending_interrupts (record_control t d ag m) = ag_pending_interrupts ag"
  "ag_interrupt_requested (record_control t d ag m) = ag_interrupt_requested ag"
  by (simp_all add: record_control_def)

lemma flush_steering_fields [simp]:
  "ag_context_ops (flush_steering_messages t d ms ag) = ag_context_ops ag"
  "ag_pending_immediate_steering (flush_steering_messages t d ms ag) = ag_pending_immediate_steering ag"
  "ag_pending_after_tool_steering (flush_steering_messages t d ms ag) = ag_pending_after_tool_steering ag"
  "ag_pending_interrupts (flush_steering_messages t d ms ag) = ag_pending_interrupts ag"
  "ag_interrupt_requested (flush_steering_messages t d ms ag) = ag_interrupt_requested ag"
  by (induction ms arbitrary: ag) (simp_all add: flush_steering_messages_def)

definition control_message :: "string \<Rightarrow> string \<Rightarrow> string \<Rightarrow> agent_message" where
  "control_message tag description msg = text_message User (formatted_control_message tag description msg)"

context context_contract
begin

lemma flush_recorded:
  assumes "ag_context_ops ag = ops"
  shows "log (ag_context (flush_steering_messages tag description ms ag)) =
    log (ag_context ag) @ map (control_message tag description) ms"
  using assms
  by (induction ms arbitrary: ag)
    (simp_all add: flush_steering_messages_def record_control_def user_recorded control_message_def
      text_message_def user_message_content_def attachment_manifest_text_def)

end

text \<open>
  Steering and interrupts are delivered in order and exactly once: whatever signals arrive, in
  any number and interleaving, flushing a queue appends to the conversation one control message
  for each message that was pending or arrived in its mode, in order of arrival, and empties the
  queue; the other queues are untouched, and after an interrupt flush no interrupt is pending.
\<close>

theorem steering_delivered_in_order:
  assumes "ag_context_ops ag = sliding_window_ops" and "ag' = fold apply_signal sigs ag"
  shows "sw_messages (ag_context (flush_immediate_context ag')) = sw_messages (ag_context ag) @
      map (control_message ''steering'' immediate_description) (ag_pending_immediate_steering ag @ immediate_of sigs)
    \<and> sw_messages (ag_context (flush_after_tool_context ag')) = sw_messages (ag_context ag) @
      map (control_message ''steering'' after_tool_description) (ag_pending_after_tool_steering ag @ after_tool_of sigs)
    \<and> sw_messages (ag_context (flush_interrupt_context ag')) = sw_messages (ag_context ag) @
      map (control_message ''interrupt'' interrupt_description) (ag_pending_interrupts ag @ interrupts_of sigs)
    \<and> ag_pending_immediate_steering (flush_immediate_context ag') = []
    \<and> ag_pending_after_tool_steering (flush_immediate_context ag') = ag_pending_after_tool_steering ag @ after_tool_of sigs
    \<and> ag_pending_interrupts (flush_immediate_context ag') = ag_pending_interrupts ag @ interrupts_of sigs
    \<and> ag_pending_after_tool_steering (flush_after_tool_context ag') = []
    \<and> ag_pending_interrupts (flush_interrupt_context ag') = []
    \<and> \<not> ag_interrupt_requested (flush_interrupt_context ag')"
  unfolding flush_immediate_context_def flush_after_tool_context_def flush_interrupt_context_def assms(2)
  using assms(1) by (simp add: window.flush_recorded signals_queue)

section \<open>Every requested tool is answered\<close>

lemma collect_results_length:
  "collect_results isc i tasks = Inr rs \<Longrightarrow> length rs = length tasks"
  by (induction isc i tasks arbitrary: rs rule: collect_results.induct)
    (auto simp: res_bind_eq_Inr split: sum.splits if_splits)

text \<open>A result block that answers a block: an ordinary tool result with the id of the call.\<close>

definition answers :: "pydict \<Rightarrow> pydict \<Rightarrow> bool" where
  "answers b r = (\<exists>content err. dict_get b ''id'' = Some (dict_get_none r ''tool_use_id'') \<and>
     r = tool_result_block (dict_get_none b ''id'') content err None)"

lemma tool_result_block_id [simp]: "dict_get_none (tool_result_block i c e p) ''tool_use_id'' = i"
  by (simp add: tool_result_block_def dict_get_none_def)

lemma answersI: "dict_index b ''id'' = Inr i \<Longrightarrow> answers b (tool_result_block i c e None)"
proof -
  assume "dict_index b ''id'' = Inr i"
  then have "dict_get b ''id'' = Some i" by (simp add: dict_index_def split: option.splits)
  then have "dict_get_none b ''id'' = i" "dict_get b ''id'' = Some (dict_get_none (tool_result_block i c e None) ''tool_use_id'')"
    by (simp add: dict_get_none_def, simp)
  then show ?thesis unfolding answers_def by metis
qed

lemma task_outcome_answers: "task_outcome isc ag b executed = Inr r \<Longrightarrow> answers b r"
  by (auto simp: task_outcome_def read_block_def res_bind_eq_Inr result_block_of_def intro: answersI)

lemma interrupted_answers: "interrupted_tool_result b = Inr r \<Longrightarrow> answers b r"
  by (auto simp: interrupted_tool_result_def res_bind_eq_Inr intro: answersI)

lemma collect_results_answers:
  "\<lbrakk>collect_results isc i tasks = Inr rs; \<forall>(b, t) \<in> set tasks. \<forall>r. t = Inr r \<longrightarrow> answers b r\<rbrakk>
   \<Longrightarrow> list_all2 answers (map fst tasks) rs"
  by (induction isc i tasks arbitrary: rs rule: collect_results.induct)
    (auto simp: res_bind_eq_Inr interrupted_answers split: sum.splits if_splits)

lemma task_outcomes_length: "length (task_outcomes isc ag bs outcomes) = length bs"
  by (induction isc ag bs outcomes rule: task_outcomes.induct) (auto split: option.split)

lemma task_outcomes_answer:
  "(b, t) \<in> set (zip bs (task_outcomes isc ag bs outcomes)) \<Longrightarrow> t = Inr r \<Longrightarrow> answers b r"
proof (induction isc ag bs outcomes rule: task_outcomes.induct)
  case (2 isc ag b' bs outcomes)
  show ?case
  proof (cases "planned_call ag b'")
    case None
    with 2(1) [OF None] "2.prems" show ?thesis by (auto dest: task_outcome_answers [OF sym])
  next
    case (Some call)
    with 2(2) [OF Some] "2.prems" show ?thesis by (auto dest: task_outcome_answers [OF sym])
  qed
qed simp

text \<open>
  C3. The tool-use contract: when the execution of the requested tools returns, there is exactly
  one tool result for each requested call, in the order of the calls and with the id of its
  call, whether the tools succeeded, failed, were unknown, or were cancelled by an interrupt.
\<close>

theorem every_tool_call_is_answered:
  fixes s :: "('c, 'w) session"
  assumes "execute_requested_tools env blocks s = (Inr execution, s')"
  shows "list_all2 answers blocks (te_tool_results execution)"
proof -
  from assms obtain ag :: "'c agent" and i outcomes where
    "collect_results (ae_is_cancelled env) i (zip blocks (task_outcomes (ae_is_cancelled env) ag blocks outcomes))
      = Inr (te_tool_results execution)"
    by (auto simp: execute_requested_tools_def res_simps get_agent_def Let_def split: prod.splits sum.splits)
  from collect_results_answers [OF this] show ?thesis
    by (auto simp: task_outcomes_length dest: task_outcomes_answer)
qed

text \<open>
  A failing tool never stops the agent: the outcome of a task is an exception only when the
  block lacks a field, when the exception is no \<open>Exception\<close> at all, or when it reports a
  cancellation; every other outcome, a user-facing error or an unexpected one, becomes an error
  result for the model.
\<close>

theorem tool_failures_become_results:
  "task_outcome is_cancelled ag b executed = Inl e \<longleftrightarrow>
     read_block b = Inl e \<or>
     (\<exists>t call. read_block b = Inr t \<and> plan_tool ag (rt_name t) (rt_input t) (rt_id t) = Inr call \<and>
        executed = Inl e \<and> (\<forall>ty p. exn_kind e \<noteq> ExcUserFacingTool ty p) \<and>
        ((\<exists>n. exn_kind e = ExcBase n) \<or> is_cancelled e)) \<or>
     (\<exists>t. read_block b = Inr t \<and> execute_tool_kwargs (rt_input t) = Inl e \<and> is_cancelled e)"
proof (cases "read_block b")
  case (Inl err)
  then show ?thesis by (auto simp: task_outcome_def)
next
  case (Inr t)
  have outcome: "guarded_outcome is_cancelled n out = Inl e \<longleftrightarrow> out = Inl e \<and>
      (\<forall>ty p. exn_kind e \<noteq> ExcUserFacingTool ty p) \<and> ((\<exists>k. exn_kind e = ExcBase k) \<or> is_cancelled e)" for n out
    by (auto simp: guarded_outcome_def split: sum.splits exn_kind.splits)
  have kwargs: "execute_tool_kwargs i = Inl e \<Longrightarrow> exn_kind e = ExcTypeError" for i
    by (auto simp: execute_tool_kwargs_def split: pyval.splits if_splits)
  have plan: "plan_tool ag n i u = Inl (Inl e) \<longleftrightarrow> execute_tool_kwargs i = Inl e" for n i u
    by (auto simp: plan_tool_def split: sum.splits if_splits)
  show ?thesis
  proof (cases "plan_tool ag (rt_name t) (rt_input t) (rt_id t)")
    case (Inr call)
    then have "execute_tool_kwargs (rt_input t) \<noteq> Inl e" using plan by (metis Inl_Inr_False)
    with Inr \<open>read_block b = Inr t\<close> outcome show ?thesis
      by (auto simp: task_outcome_def res_bind_eq_Inl)
  next
    case (Inl answer)
    with \<open>read_block b = Inr t\<close> outcome plan [of "rt_name t" "rt_input t" "rt_id t"] kwargs [of "rt_input t"]
    show ?thesis by (auto simp: task_outcome_def res_bind_eq_Inl)
  qed
qed

text \<open>
  An agent never runs a tool outside its allowance: every call that reaches the tool set is of
  a registered tool, one of the agent's own tool names when it has any, and passes on the
  model's arguments and the id of the call unchanged.
\<close>

theorem only_allowed_tools_run:
  "planned_call ag b = Some call \<longleftrightarrow>
     (\<exists>name input. dict_get b ''name'' = Some name \<and> dict_get b ''input'' = Some (PDict input) \<and>
        dict_get b ''id'' = Some (tk_id call) \<and> tk_name call = py_str name \<and> tk_args call = input \<and>
        dict_get input ''tool_call_id'' = None \<and> dict_get input ''self'' = None \<and>
        dict_get input ''tool_name'' = None \<and>
        py_str name \<in> set (tool_names (ag_tools ag)) \<and>
        (case ag_tool_names ag of None \<Rightarrow> True | Some names \<Rightarrow> py_str name \<in> set names))"
  by (cases call; cases "dict_get b ''name''"; cases "dict_get b ''input''"; cases "dict_get b ''id''")
    (auto simp: planned_call_def read_block_def dict_index_def plan_tool_def execute_tool_kwargs_def
      split: sum.splits option.splits pyval.splits if_splits)

section \<open>The loop ends\<close>

text \<open>
  A bound on the interrupts an environment will still deliver: a delivery uses it up, and nothing
  else raises it.
\<close>

definition finite_interrupts :: "'w agent_env \<Rightarrow> ('w \<Rightarrow> nat) \<Rightarrow> bool" where
  "finite_interrupts env left \<longleftrightarrow>
     (\<forall>w. length (interrupts_of (fst (ae_signals env w))) + left (snd (ae_signals env w)) \<le> left w) \<and>
     (\<forall>w. left (snd (ae_wait env w)) \<le> left w) \<and>
     (\<forall>q i w. left (snd (ae_provider_result env q i w)) \<le> left w) \<and>
     (\<forall>g c w. left (snd (ae_llm_guard env g c w)) \<le> left w) \<and>
     (\<forall>cs i w. left (snd (ae_run_tools env cs i w)) \<le> left w)"

text \<open>The interrupts still to be handled: those to come, and one that is requested.\<close>

definition unrest :: "('w \<Rightarrow> nat) \<Rightarrow> ('c, 'w) session \<Rightarrow> nat" where
  "unrest left s = left (ss_world s) + (if ag_interrupt_requested (ss_agent s) then 1 else 0)"

abbreviation calm :: "('w \<Rightarrow> nat) \<Rightarrow> (('c, 'w) session, 'a) op \<Rightarrow> bool" where
  "calm left m \<equiv> \<forall>n. keeps (\<lambda>s. unrest left s \<le> n) m"

lemma calm_bound: "calm left m \<Longrightarrow> unrest left (snd (m s)) \<le> unrest left s"
  by (auto simp: keeps_def)

lemma calm_suspended:
  assumes "finite_interrupts env left" and "\<And>w. left (snd (m w)) \<le> left w"
  shows "calm left (suspended env m)"
proof (intro allI keepsI)
  fix n s
  assume n: "unrest left s \<le> n"
  obtain r w where r: "m (ss_world s) = (r, w)" by fastforce
  obtain sigs w' where sigs: "ae_signals env w = (sigs, w')" by fastforce
  have "left w \<le> left (ss_world s)" using assms(2) [of "ss_world s"] r by simp
  moreover have "length (interrupts_of sigs) + left w' \<le> left w"
    using assms(1) sigs unfolding finite_interrupts_def by (metis fst_conv snd_conv)
  moreover have "interrupts_of sigs \<noteq> [] \<Longrightarrow> 1 \<le> length (interrupts_of sigs)"
    by (cases "interrupts_of sigs") simp_all
  ultimately show "unrest left (snd (suspended env m s)) \<le> n"
    using n r sigs by (cases "interrupts_of sigs = []") (auto simp: suspended_def unrest_def signals_queue)
qed

lemma calm_on_world:
  assumes "\<And>w. left (snd (m w)) \<le> left w"
  shows "calm left (on_world m)"
proof (intro allI keepsI)
  fix n s
  assume "unrest left s \<le> n"
  then show "unrest left (snd (on_world m s)) \<le> n"
    using assms [of "ss_world s"] by (auto simp: on_world_def unrest_def split: prod.split)
qed

lemma calm_set_agent:
  "(\<And>ag. ag_interrupt_requested (f ag) \<longrightarrow> ag_interrupt_requested ag) \<Longrightarrow> calm left (set_agent f)"
  unfolding set_agent_def by (intro allI keeps_modify) (auto simp: unrest_def split: if_splits)

lemma calm_update_context: "calm left (update_context f)"
  unfolding update_context_def
  by (intro allI keeps_update) (auto simp: unrest_def res_bind_eq_Inr)

lemma calm_get_agent: "calm left (get_agent f)"
  by (simp add: get_agent_def)

lemma guards_calm:
  assumes "finite_interrupts env left"
  shows "left (snd (execute_llm_guards (ae_llm_guard env) t i op gs q r st w)) \<le> left w"
proof -
  have "keeps (\<lambda>w. left w \<le> n) (execute_llm_guards (ae_llm_guard env) t i op gs q r st)" for n
  proof (induction gs arbitrary: q r st)
    case (Cons g gs)
    have "keeps (\<lambda>w. left w \<le> n) (ae_llm_guard env g c)" for c
      using assms unfolding keeps_def finite_interrupts_def by (meson le_trans)
    then have "keeps (\<lambda>w. left w \<le> n) (call_llm_guard (ae_llm_guard env) g c)" for c
      unfolding call_llm_guard_def
      by (intro keeps_bind) (auto split: prod.split llm_guard_return.split)
    then show ?case
      using Cons.IH by (auto intro!: keeps_bind split: prod.split)
  qed simp
  from keepsD [OF this, of w "left w"] show ?thesis by simp
qed

lemma env_calm:
  assumes "finite_interrupts env left"
  shows "left (snd (ae_wait env w)) \<le> left w" "left (snd (ae_provider_result env q i w)) \<le> left w"
    "left (snd (case ae_run_tools env cs i w of (rs, w') \<Rightarrow> (Inr rs, w'))) \<le> left w"
  using assms unfolding finite_interrupts_def by (simp_all split: prod.split) (metis snd_conv)

lemma keeps_if: "(P \<Longrightarrow> keeps I a) \<Longrightarrow> (\<not> P \<Longrightarrow> keeps I b) \<Longrightarrow> keeps I (if P then a else b)"
  by simp

lemma run_provider_activity_calm:
  assumes "finite_interrupts env left"
  shows "calm left (run_provider_activity env q)"
proof -
  have wait: "calm left (suspended env (ae_wait env))"
    by (rule calm_suspended) (rule assms, rule env_calm(1) [OF assms])
  have cancelled: "calm left (suspended env (ae_provider_result env q True))"
    by (rule calm_suspended) (rule assms, rule env_calm(2) [OF assms])
  have result: "calm left (on_world (ae_provider_result env q False))"
    by (rule calm_on_world) (rule env_calm(2) [OF assms])
  show ?thesis
    unfolding run_provider_activity_def get_agent_def
    by (intro allI keeps_bind keeps_catch keeps_if keeps_read keeps_return keeps_raise
        wait [rule_format] cancelled [rule_format] result [rule_format])
qed

lemma provider_attempts_calm:
  assumes "finite_interrupts env left"
  shows "calm left (provider_attempts env guarded tp retries n budget)"
proof (induction retries arbitrary: n budget)
  case 0
  show ?case
    by (subst provider_attempts.simps, unfold get_agent_def)
      (intro allI keeps_bind keeps_catch keeps_if keeps_read keeps_check keeps_return keeps_raise
        run_provider_activity_calm [OF assms, rule_format], simp)
next
  case (Suc k)
  then show ?case
    by (subst provider_attempts.simps, unfold get_agent_def)
      (intro allI keeps_bind keeps_catch keeps_if keeps_read keeps_check keeps_return keeps_raise
        run_provider_activity_calm [OF assms, rule_format], simp)
qed

lemma keeps_let: "(\<And>x. keeps I (f x)) \<Longrightarrow> keeps I (let x = v in f x)"
  by (simp add: Let_def)

lemma keeps_option: "(v = None \<Longrightarrow> keeps I a) \<Longrightarrow> (\<And>x. v = Some x \<Longrightarrow> keeps I (b x)) \<Longrightarrow>
    keeps I (case v of None \<Rightarrow> a | Some x \<Rightarrow> b x)"
  by (cases v) simp_all

lemmas keeps_intros = keeps_bind keeps_catch keeps_if keeps_read keeps_check keeps_return keeps_raise
  keeps_lift keeps_option

lemma get_agent_calm: "keeps (\<lambda>s. unrest left s \<le> n) (get_agent f)"
  by (simp add: get_agent_def)

lemma set_guard_state_calm: "calm left (set_guard_state st)"
  unfolding set_guard_state_def by (rule calm_set_agent) simp

lemma guards_suspended_calm:
  assumes "finite_interrupts env left"
  shows "calm left (suspended env (execute_pre (ae_llm_guard env) p q st i op))"
    and "calm left (suspended env (execute_post (ae_llm_guard env) p q r st i op))"
  unfolding execute_pre_def execute_post_def
  by (rule calm_suspended, rule assms, rule guards_calm [OF assms])+

lemma after_response_calm:
  assumes "finite_interrupts env left"
  shows "calm left (after_response env guarded st r)"
  unfolding after_response_def Let_def
  by (intro allI keeps_intros get_agent_calm set_guard_state_calm [rule_format]
      guards_suspended_calm(2) [OF assms, rule_format])

lemma call_provider_calm:
  assumes "finite_interrupts env left"
  shows "calm left (call_provider env tp)"
proof -
  have attempts: "keeps (\<lambda>s. unrest left s \<le> n) (call_provider_with_context_recovery env guarded tp)" for n guarded
    unfolding call_provider_with_context_recovery_def
    by (intro keeps_bind keeps_check provider_attempts_calm [OF assms, rule_format])
  have sequence: "keeps (\<lambda>s. unrest left s \<le> n)
      (set_agent (\<lambda>ag. ag\<lparr>ag_provider_call_sequence := ag_provider_call_sequence ag + 1\<rparr>))" for n
    by (rule calm_set_agent [rule_format]) simp
  show ?thesis
    unfolding call_provider_def Let_def
    by (intro allI keeps_intros get_agent_calm set_guard_state_calm [rule_format] attempts sequence
        guards_suspended_calm(1) [OF assms, rule_format] after_response_calm [OF assms, rule_format]
        calm_update_context [rule_format])
qed

lemma execute_requested_tools_calm:
  assumes "finite_interrupts env left"
  shows "calm left (execute_requested_tools env blocks)"
proof -
  have wait: "calm left (suspended env (ae_wait env))"
    by (rule calm_suspended) (rule assms, rule env_calm(1) [OF assms])
  have tools: "calm left (suspended env (\<lambda>w. case ae_run_tools env cs i w of (rs, w') \<Rightarrow> (Inr rs, w')))" for cs i
    by (rule calm_suspended) (rule assms, rule env_calm(3) [OF assms])
  show ?thesis
    unfolding execute_requested_tools_def Let_def
    by (intro allI keeps_intros get_agent_calm wait [rule_format] tools [rule_format])
qed

lemma flush_requested:
  "\<not> ag_interrupt_requested (flush_interrupt_context ag)"
  "ag_interrupt_requested (flush_immediate_context ag) = ag_interrupt_requested ag"
  "ag_interrupt_requested (flush_after_tool_context ag) = ag_interrupt_requested ag"
  by (simp_all add: flush_interrupt_context_def flush_immediate_context_def flush_after_tool_context_def)

lemma flush_calm:
  "keeps (\<lambda>s. unrest left s \<le> n) (set_agent flush_interrupt_context)"
  "keeps (\<lambda>s. unrest left s \<le> n) (set_agent flush_immediate_context)"
  "keeps (\<lambda>s. unrest left s \<le> n) (set_agent flush_after_tool_context)"
  by (rule calm_set_agent [rule_format], simp add: flush_requested)+

lemma handle_response_calm:
  assumes "finite_interrupts env left"
  shows "calm left (handle_response env schemas r turn)"
proof -
  have terminated: "keeps (\<lambda>s. unrest left s \<le> n) (set_agent (\<lambda>ag. if P then ag\<lparr>ag_terminated := True,
      ag_termination_reason := x\<rparr> else ag))" for n P x
    by (rule calm_set_agent [rule_format]) (simp split: if_splits)
  have finish: "keeps (\<lambda>s. unrest left s \<le> n) (finish_tools env schemas msg response turn execution)"
    for n msg response execution
    unfolding finish_tools_def
    by (intro keeps_intros get_agent_calm flush_calm calm_update_context [rule_format])
  show ?thesis
    unfolding handle_response_def Let_def
    by (intro allI keeps_intros get_agent_calm flush_calm calm_update_context [rule_format] finish
        terminated execute_requested_tools_calm [OF assms, rule_format])
qed

lemma agent_run [res_simps]:
  "set_agent f s = (Inr (), s\<lparr>ss_agent := f (ss_agent s)\<rparr>)"
  "get_agent g s = (Inr (g (ss_agent s)), s)"
  by (simp_all add: set_agent_def get_agent_def op_modify_def op_get_def)

lemma get_agent_bind: "op_bind (get_agent g) f s = f (g (ss_agent s)) s"
  by (simp add: op_bind_def agent_run)

text \<open>A provider call that gives no response was interrupted.\<close>

lemma provider_attempts_None:
  "returns (\<lambda>x s. x = None \<longrightarrow> ag_interrupt_requested (ss_agent s))
     (provider_attempts env guarded tp retries n budget :: (('c, 'w) session, provider_response option) op)"
proof (induction retries arbitrary: n budget)
  case 0
  show ?case
    by (subst provider_attempts.simps)
      (auto simp: returns_def res_simps get_agent_def run_provider_activity_def suspended_def on_world_def
        signals_queue split: prod.splits sum.splits if_splits)
next
  case (Suc k)
  have run: "returns (\<lambda>x s. x = None \<longrightarrow> ag_interrupt_requested (ss_agent s)) (run_provider_activity env q)" for q
    by (auto simp: returns_def res_simps get_agent_def run_provider_activity_def suspended_def on_world_def
        signals_queue split: prod.splits sum.splits if_splits)
  have retry: "returns (\<lambda>x s. x = None \<longrightarrow> ag_interrupt_requested (ss_agent s))
      (op_bind (op_check g) (provider_attempts env guarded tp (Suc k - 1) n'))"
    for g :: "('c, 'w) session \<Rightarrow> context_token_budget res" and n'
    unfolding diff_Suc_1 by (intro returns_bind Suc.IH)
  have handler: "returns (\<lambda>x (s :: ('c, 'w) session). x = None \<longrightarrow> ag_interrupt_requested (ss_agent s))
      (op_bind (get_agent ag_interrupt_requested) (\<lambda>interrupted.
         if interrupted \<and> ae_is_cancelled env err then op_return None
         else if 0 < Suc k \<and> is_context_window_exceeded err
         then op_bind (op_check (\<lambda>s. agent_token_budget (ss_agent s) tp True))
           (provider_attempts env guarded tp (Suc k - 1) (n + 1))
         else op_raise err))" for err
    using retry [of "\<lambda>s. agent_token_budget (ss_agent s) tp True" "n + 1"]
    by (auto simp: returns_def get_agent_bind split: if_splits)
  show ?case
    by (subst provider_attempts.simps) (intro returns_bind returns_catch run handler)
qed

lemma call_provider_None:
  "returns (\<lambda>x s. x = None \<longrightarrow> ag_interrupt_requested (ss_agent s))
     (call_provider env tp :: (('c, 'w) session, provider_response option) op)"
proof -
  let ?P = "\<lambda>x s. x = None \<longrightarrow> ag_interrupt_requested (ss_agent s)"
  have some: "returns ?P (op_bind m (\<lambda>r. op_return (Some r)))" for m :: "(('c, 'w) session, provider_response) op"
    by (intro returns_bind) (simp add: returns_def)
  have body: "returns ?P (op_bind (call_provider_with_context_recovery env guarded tp) (\<lambda>response.
      case response of None \<Rightarrow> op_return None
      | Some r \<Rightarrow> op_bind (after_response env guarded st r) (\<lambda>r. op_return (Some r))))" (is "returns ?P (op_bind ?m ?f)")
    for guarded st
    unfolding returns_def
  proof (intro allI impI)
    fix s s' and x y :: "provider_response option"
    assume run: "op_bind ?m ?f s = (Inr x, s')" and "x = None"
    then obtain r s1 where r: "?m s = (Inr r, s1)" "?f r s1 = (Inr x, s')"
      by (auto simp: op_bind_def split: prod.splits sum.splits)
    with \<open>x = None\<close> some have "r = None" "s1 = s'"
      by (auto simp: returns_def op_bind_def split: option.splits prod.splits sum.splits)
    then show "ag_interrupt_requested (ss_agent s')"
      using r(1) provider_attempts_None [THEN returnsD]
      by (fastforce simp: call_provider_with_context_recovery_def op_bind_def op_check_def
          split: prod.splits sum.splits)
  qed
  have handler: "returns ?P (op_bind (get_agent ag_interrupt_requested) (\<lambda>interrupted.
      if interrupted \<and> ae_is_cancelled env err then op_return None else op_raise err))" for err
    by (auto simp: returns_def op_bind_def get_agent_def op_get_def split: if_splits)
  have "returns ?P (if h then op_bind (set_guard_state st) (\<lambda>_. op_bind (op_lift v) (\<lambda>r. op_return (Some r)))
      else op_bind (op_lift u) (\<lambda>history. op_bind (update_context (\<lambda>ops. cm_replace_messages ops history)) (\<lambda>_.
        op_catch (op_bind (call_provider_with_context_recovery env guarded tp) (\<lambda>response.
            case response of None \<Rightarrow> op_return None
            | Some r \<Rightarrow> op_bind (after_response env guarded st r) (\<lambda>r. op_return (Some r))))
          (\<lambda>err. op_bind (get_agent ag_interrupt_requested) (\<lambda>interrupted.
            if interrupted \<and> ae_is_cancelled env err then op_return None else op_raise err)))))"
    for h st v u guarded
  proof (cases h)
    case True
    then show ?thesis unfolding if_P [OF True] by (intro returns_bind) (simp add: returns_def)
  next
    case False
    then show ?thesis unfolding if_not_P [OF False]
      by (rule_tac returns_bind, rule_tac returns_bind, rule_tac returns_catch, rule_tac body, rule_tac handler)
  qed
  then show ?thesis
    unfolding call_provider_def Let_def by (intro returns_bind)
qed

lemma returns_if: "(P \<Longrightarrow> returns Q a) \<Longrightarrow> (\<not> P \<Longrightarrow> returns Q b) \<Longrightarrow> returns Q (if P then a else b)"
  by simp

lemma finish_tools_turn:
  "returns (\<lambda>x s. \<forall>t. x = Inl t \<longrightarrow> t = turn) (finish_tools env schemas msg response turn execution)"
  unfolding finish_tools_def
  by (intro returns_bind returns_if) (simp_all add: returns_def)

lemma handle_response_turn:
  "returns (\<lambda>x s. \<forall>t. x = Inl t \<longrightarrow> t = turn) (handle_response env schemas r turn)"
  unfolding handle_response_def Let_def
  by (intro returns_bind returns_if finish_tools_turn) (simp_all add: returns_def)

text \<open>A pass either counts as a turn or uses up an interrupt.\<close>

lemma run_pass_progress:
  assumes "finite_interrupts env left" and "run_pass env schemas turn s = (Inr (Inl turn'), s')"
  shows "(turn' = turn + 1 \<and> unrest left s' \<le> unrest left s) \<or> (turn' = turn \<and> unrest left s' < unrest left s)"
proof -
  let ?start = "\<lambda>ag. if ag_interrupt_requested ag then flush_interrupt_context ag else ag"
  let ?s1 = "s\<lparr>ss_agent := flush_immediate_context (?start (ss_agent s))\<rparr>"
  have quiet: "\<not> ag_interrupt_requested (ss_agent ?s1)" by (simp add: flush_requested)
  then have s1: "unrest left ?s1 \<le> unrest left s" by (simp add: unrest_def)
  obtain r s2 where call: "call_provider env schemas ?s1 = (r, s2)" by fastforce
  have s2: "unrest left s2 \<le> unrest left ?s1"
    using calm_bound [OF call_provider_calm [OF assms(1)], of schemas ?s1] call by simp
  have pass: "run_pass env schemas turn s = op_bind (\<lambda>_. (r, s2)) (\<lambda>response.
       case response of
         None \<Rightarrow> op_bind (set_agent flush_interrupt_context) (\<lambda>_. op_return (Inl turn))
       | Some r \<Rightarrow>
           op_bind (get_agent ag_interrupt_requested) (\<lambda>interrupted.
             if interrupted
             then op_bind (set_agent flush_interrupt_context) (\<lambda>_. op_return (Inl (turn + 1)))
             else handle_response env schemas r (turn + 1))) s"
    using call by (simp add: run_pass_def res_simps)
  show ?thesis
  proof (cases r)
    case (Inl e)
    with pass assms(2) show ?thesis by (simp add: op_bind_def)
  next
    case (Inr response)
    show ?thesis
    proof (cases response)
      case None
      with pass assms(2) Inr have end': "turn' = turn" "s' = s2\<lparr>ss_agent := flush_interrupt_context (ss_agent s2)\<rparr>"
        by (auto simp: res_simps)
      have "ag_interrupt_requested (ss_agent s2)"
        using call_provider_None [THEN returnsD, OF call [unfolded Inr]] None by simp
      then have "unrest left s' < unrest left s2" by (simp add: end' unrest_def flush_requested)
      with s1 s2 end' show ?thesis by simp
    next
      case (Some resp)
      show ?thesis
      proof (cases "ag_interrupt_requested (ss_agent s2)")
        case True
        with pass assms(2) Inr Some have "turn' = turn + 1" "s' = s2\<lparr>ss_agent := flush_interrupt_context (ss_agent s2)\<rparr>"
          by (auto simp: res_simps)
        with s1 s2 show ?thesis by (simp add: unrest_def flush_requested)
      next
        case False
        with pass assms(2) Inr Some have handle: "handle_response env schemas resp (turn + 1) s2 = (Inr (Inl turn'), s')"
          by (simp add: res_simps)
        have "unrest left s' \<le> unrest left s2"
          using calm_bound [OF handle_response_calm [OF assms(1)], of schemas resp "turn + 1" s2] handle by simp
        moreover have "turn' = turn + 1" using returnsD [OF handle_response_turn handle] by simp
        ultimately show ?thesis using s1 s2 by simp
      qed
    qed
  qed
qed

lemma run_loop_fuel:
  assumes "finite_interrupts env left" and "nat (max_turns - turn) + unrest left s < fuel"
  shows "fst (run_loop fuel env schemas max_turns turn s) \<noteq> Inr None"
  using assms(2)
proof (induction fuel arbitrary: turn s)
  case (Suc fuel)
  show ?case
  proof (cases "turn < max_turns")
    case False
    then show ?thesis by (simp add: res_simps)
  next
    case True
    obtain r s' where pass: "run_pass env schemas turn s = (r, s')" by fastforce
    show ?thesis
    proof (cases r)
      case (Inl e)
      with True pass show ?thesis by (simp add: res_simps)
    next
      case (Inr step)
      show ?thesis
      proof (cases step)
        case (Inr result)
        with True pass \<open>r = Inr step\<close> show ?thesis by (simp add: res_simps)
      next
        case (Inl turn')
        have "nat (max_turns - turn') + unrest left s' < fuel"
          using run_pass_progress [OF assms(1) pass [unfolded \<open>r = Inr step\<close> Inl]] Suc.prems True by auto
        from Suc.IH [OF this] True pass \<open>r = Inr step\<close> Inl show ?thesis by (simp add: res_simps)
      qed
    qed
  qed
qed simp

text \<open>
  C7. The agent loop ends: in an environment that delivers finitely many interrupts the loop
  returns a result or raises within as many passes as there are turns left plus interrupts to
  come, plus one for an interrupt already requested.
\<close>

theorem agent_loop_ends:
  assumes "finite_interrupts env left"
    and "nat (max_turns - turn) + left (ss_world s) + 1 < fuel"
  shows "fst (run_loop fuel env schemas max_turns turn s) \<noteq> Inr None"
  using assms by (intro run_loop_fuel) (auto simp: unrest_def)

lemma run_pass_turn:
  "run_pass env schemas turn s = (Inr (Inl turn'), s') \<Longrightarrow> turn' = turn \<or> turn' = turn + 1"
  by (auto simp: run_pass_def res_simps split: prod.splits sum.splits option.splits if_splits
      dest: returnsD [OF handle_response_turn])

lemma finish_tools_result:
  "returns (\<lambda>x s. \<forall>r. x = Inr r \<longrightarrow> ar_turns r = turn) (finish_tools env schemas msg response turn execution)"
  unfolding finish_tools_def
  by (intro returns_bind returns_if) (simp_all add: returns_def response_result_def)

lemma handle_response_result:
  "returns (\<lambda>x s. \<forall>r. x = Inr r \<longrightarrow> ar_turns r = turn) (handle_response env schemas r turn)"
  unfolding handle_response_def Let_def
  by (intro returns_bind returns_if finish_tools_result) (simp_all add: returns_def response_result_def)

lemma run_pass_result:
  "run_pass env schemas turn s = (Inr (Inr r), s') \<Longrightarrow> ar_turns r = turn + 1"
  by (auto simp: run_pass_def res_simps split: prod.splits sum.splits option.splits if_splits
      dest: returnsD [OF handle_response_result])

text \<open>
  The reported number of turns never exceeds the limit, whatever the provider, the tools, the
  guards and the signals do.
\<close>

theorem turns_within_limit:
  assumes "run_loop fuel env schemas max_turns turn s = (Inr (Some result), s')"
  shows "ar_turns result \<le> max_turns"
  using assms
proof (induction fuel arbitrary: turn s)
  case (Suc fuel)
  show ?case
  proof (cases "turn < max_turns")
    case False
    with Suc.prems show ?thesis by (simp add: res_simps) (auto simp: max_turns_result_def)
  next
    case True
    with Suc.prems obtain x s1 where pass: "run_pass env schemas turn s = (Inr x, s1)"
      by (auto simp: res_simps split: prod.splits sum.splits)
    show ?thesis
    proof (cases x)
      case (Inr r)
      with pass Suc.prems True run_pass_result [of env schemas turn s r s1] show ?thesis by (simp add: res_simps)
    next
      case (Inl turn')
      with pass Suc.prems True have "run_loop fuel env schemas max_turns turn' s1 = (Inr (Some result), s')"
        by (simp add: res_simps)
      then show ?thesis by (rule Suc.IH)
    qed
  qed
qed (simp add: res_simps)

text \<open>
  A terminated agent does nothing more: whatever prompt, attachments or state it is run with,
  it returns at once a refusal that carries the reason of its termination, and neither the
  agent nor the world changes.
\<close>

theorem terminated_agent_is_inert:
  assumes "ag_terminated (ss_agent s)"
  shows "run fuel env user_prompt attachments state max_turns s =
    (Inr (Some (terminated_result (ss_agent s) (case state of None \<Rightarrow> 0 | Some st \<Rightarrow> as_turns st))), s)"
  using assms by (simp add: run_def get_agent_bind op_return_def)

section \<open>Recovery from a context overflow\<close>

lemma token_count_antimono:
  assumes "0 < c" and "c \<le> c'"
  shows "token_count c' v \<le> token_count c v"
  unfolding token_count_def using assms by (intro ceiling_mono divide_left_mono) simp_all

text \<open>
  C14. Recovering from a context overflow never fails by itself and always asks for less: whenever
  the first budget is valid the retry budget is valid, leaves no more input tokens, and counts
  at least as many tokens for every conversation, so that what was over the first budget is over
  the second.
\<close>

theorem retry_budget_is_valid_and_tighter:
  assumes "agent_token_budget ag schemas False = Inr b"
  shows "\<exists>b'. agent_token_budget ag schemas True = Inr b' \<and> wf_budget b' \<and>
    input_token_budget b' \<le> input_token_budget b \<and>
    estimated_tokens ms b \<le> estimated_tokens ms b' \<and> (over_budget ms b \<longrightarrow> over_budget ms b')"
proof -
  let ?reserved = "pv_estimate_request_tokens (ag_provider ag) (ag_system_prompt ag) schemas"
  let ?room = "ag_max_context_tokens ag - ag_max_tokens ag - ?reserved - 1"
  let ?margin = "min (max (ag_context_safety_margin_tokens ag * 4) 16000) (max 0 ?room)"
  define b' where "b' = \<lparr>max_context_tokens = ag_max_context_tokens ag, reserved_output_tokens = ag_max_tokens ag,
    reserved_input_tokens = ?reserved, safety_margin_tokens = ?margin,
    chars_per_token = min (ag_context_chars_per_token ag) (5 / 2)\<rparr>"
  have retry: "agent_token_budget ag schemas True = ContextTokenBudget b'"
    by (simp add: agent_token_budget_def b'_def Let_def CONTEXT_OVERFLOW_RETRY_SAFETY_MARGIN_MULTIPLIER_def
        CONTEXT_OVERFLOW_RETRY_MIN_SAFETY_MARGIN_TOKENS_def CONTEXT_OVERFLOW_RETRY_CHARS_PER_TOKEN_def)
  from assms have b: "b = \<lparr>max_context_tokens = ag_max_context_tokens ag, reserved_output_tokens = ag_max_tokens ag,
      reserved_input_tokens = ?reserved, safety_margin_tokens = ag_context_safety_margin_tokens ag,
      chars_per_token = ag_context_chars_per_token ag\<rparr>"
    and valid: "1 \<le> ag_max_context_tokens ag" "0 \<le> ag_max_tokens ag" "0 \<le> ?reserved"
      "0 \<le> ag_context_safety_margin_tokens ag" "0 < ag_context_chars_per_token ag"
      "1 \<le> ag_max_context_tokens ag - ag_max_tokens ag - ?reserved - ag_context_safety_margin_tokens ag"
    by (auto simp: agent_token_budget_def ContextTokenBudget_def Let_def input_token_budget_def split: if_splits)
  have margin: "ag_context_safety_margin_tokens ag \<le> ?margin" "?margin \<le> ?room" "0 \<le> ?margin"
    using valid by auto
  have input: "1 \<le> input_token_budget b'" "input_token_budget b' \<le> input_token_budget b"
    using margin by (simp_all add: input_token_budget_def b'_def b)
  have "ContextTokenBudget b' = Inr b'"
    using valid margin input(1) by (auto simp: ContextTokenBudget_def b'_def)
  moreover have "wf_budget b'" using valid input(1) by (simp add: wf_budget_def b'_def)
  moreover have tokens: "estimated_tokens ms b \<le> estimated_tokens ms b'"
    unfolding estimated_tokens_def using valid(5) by (intro token_count_antimono) (simp_all add: b'_def b)
  ultimately show ?thesis using retry input tokens by (auto simp: over_budget_def)
qed

section \<open>What is sent to the provider\<close>

text \<open>An environment that also keeps a log of the requests of the provider activities it ran.\<close>

definition beside :: "('w, 'a) op \<Rightarrow> ('w \<times> 'l, 'a) op" where
  "beside m = (\<lambda>(w, l). case m w of (r, w') \<Rightarrow> (r, (w', l)))"

definition logged :: "'w agent_env \<Rightarrow> ('w \<times> provider_request list) agent_env" where
  "logged env =
     \<lparr>ae_is_cancelled = ae_is_cancelled env,
      ae_signals = (\<lambda>(w, l). case ae_signals env w of (sigs, w') \<Rightarrow> (sigs, (w', l))),
      ae_wait = beside (ae_wait env),
      ae_provider_result = (\<lambda>q i (w, l). case ae_provider_result env q i w of (r, w') \<Rightarrow> (r, (w', l @ [q]))),
      ae_llm_guard = (\<lambda>g c. beside (ae_llm_guard env g c)),
      ae_run_tools = (\<lambda>cs i (w, l). case ae_run_tools env cs i w of (rs, w') \<Rightarrow> (rs, (w', l))),
      ae_continue_suggested = (\<lambda>(w, l). ae_continue_suggested env w)\<rparr>"

abbreviation sent_requests :: "('c, 'w \<times> provider_request list) session \<Rightarrow> provider_request list" where
  "sent_requests s \<equiv> snd (ss_world s)"

definition same_conversation :: "'c agent \<Rightarrow> 'c agent \<Rightarrow> bool" where
  "same_conversation ag ag' = (ag_context ag' = ag_context ag \<and> ag_context_ops ag' = ag_context_ops ag \<and>
     ag_provider ag' = ag_provider ag)"

lemma signals_same_conversation: "same_conversation ag (fold apply_signal sigs ag)"
proof -
  have "ag_provider (fold apply_signal sigs ag) = ag_provider ag"
    by (induction sigs arbitrary: ag)
      (auto simp: apply_signal_def steer_def interrupt_def split: signal.split)
  then show ?thesis by (simp add: same_conversation_def signals_queue)
qed

lemma wait_logged:
  "suspended (logged env) (ae_wait (logged env)) s = (r, s') \<Longrightarrow>
   sent_requests s' = sent_requests s \<and> same_conversation (ss_agent s) (ss_agent s')"
  by (auto simp: suspended_def logged_def beside_def signals_same_conversation split: prod.splits)

lemma result_logged:
  "suspended (logged env) (ae_provider_result (logged env) q i) s = (r, s') \<Longrightarrow>
   sent_requests s' = sent_requests s @ [q] \<and> same_conversation (ss_agent s) (ss_agent s')"
  "on_world (ae_provider_result (logged env) q i) s = (r, s') \<Longrightarrow>
   sent_requests s' = sent_requests s @ [q] \<and> same_conversation (ss_agent s) (ss_agent s')"
  by (auto simp: suspended_def on_world_def logged_def signals_same_conversation same_conversation_def [of "ss_agent s" "ss_agent s"]
      split: prod.splits)

lemma same_conversation_trans:
  "same_conversation a b \<Longrightarrow> same_conversation b c \<Longrightarrow> same_conversation a c"
  by (simp add: same_conversation_def)

lemma same_conversation_refl [simp]: "same_conversation a a"
  by (simp add: same_conversation_def)

lemma activity_logged:
  assumes "run_provider_activity (logged env) q s = (r, s')"
  shows "(sent_requests s' = sent_requests s \<or> sent_requests s' = sent_requests s @ [q]) \<and>
    same_conversation (ss_agent s) (ss_agent s')"
proof -
  obtain w s1 where wait: "suspended (logged env) (ae_wait (logged env)) s = (w, s1)" by fastforce
  note s1 = wait_logged [OF wait]
  show ?thesis
  proof (cases w)
    case (Inl e)
    with assms wait s1 show ?thesis by (auto simp: run_provider_activity_def op_bind_def)
  next
    case (Inr u)
    obtain x s2 where cancelled: "suspended (logged env) (ae_provider_result (logged env) q True) s1 = (x, s2)"
      by fastforce
    obtain y s3 where result: "on_world (ae_provider_result (logged env) q False) s1 = (y, s3)" by fastforce
    have "s' = s2 \<or> s' = s3"
      using assms wait Inr cancelled result
      by (cases x; cases y) (auto simp: run_provider_activity_def res_simps split: if_splits)
    with s1 result_logged(1) [OF cancelled] result_logged(2) [OF result] show ?thesis
      by (metis same_conversation_trans)
  qed
qed

definition sendable_request :: "'c agent \<Rightarrow> provider_request \<Rightarrow> provider_request \<Rightarrow> bool" where
  "sendable_request ag guarded q \<longleftrightarrow>
     (\<exists>ms q\<^sub>0 n. well_paired ms \<and>
        pv_replace_request_chat_history (ag_provider ag) guarded (map message_dict ms) = Inr q\<^sub>0 \<and>
        q = pv_replace_request_stream_attempt (ag_provider ag) q\<^sub>0 (Some n))"

lemma sendable_request_same: "same_conversation ag ag' \<Longrightarrow> sendable_request ag' guarded q = sendable_request ag guarded q"
  by (simp add: same_conversation_def sendable_request_def)

context context_contract
begin

lemma attempt_sendable:
  assumes "ag_context_ops ag = ops" and "list_all unmixed (log (ag_context ag))"
    and "provider_attempt_request guarded n budget ag = Inr q"
  shows "sendable_request ag guarded q"
  using assms sendable [OF assms(2), of "Some budget"]
  by (auto simp: provider_attempt_request_def res_bind_eq_Inr sendable_request_def)

lemma attempts_sendable:
  assumes "ag_context_ops (ss_agent s) = ops" and "list_all unmixed (log (ag_context (ss_agent s)))"
    and "provider_attempts (logged env) guarded tp retries n budget s = (r, s')"
  shows "\<exists>sent. sent_requests s' = sent_requests s @ sent \<and> length sent \<le> retries + 1 \<and>
    (\<forall>q \<in> set sent. sendable_request (ss_agent s) guarded q)"
  using assms
proof (induction retries arbitrary: n budget s)
  case 0
  show ?case
  proof (cases "provider_attempt_request guarded n budget (ss_agent s)")
    case (Inl e)
    with "0.prems"(3) show ?thesis by (subst (asm) provider_attempts.simps) (simp add: res_simps)
  next
    case (Inr q)
    obtain x s1 where run: "run_provider_activity (logged env) q s = (x, s1)" by fastforce
    have "s' = s1"
      using "0.prems"(3) Inr run
      by (subst (asm) provider_attempts.simps) (cases x; auto simp: res_simps split: if_splits)
    then show ?thesis
      using activity_logged [OF run] attempt_sendable [OF "0.prems"(1,2) Inr] by auto
  qed
next
  case (Suc k)
  show ?case
  proof (cases "provider_attempt_request guarded n budget (ss_agent s)")
    case (Inl e)
    with Suc.prems(3) show ?thesis by (subst (asm) provider_attempts.simps) (simp add: res_simps)
  next
    case (Inr q)
    obtain x s1 where run: "run_provider_activity (logged env) q s = (x, s1)" by fastforce
    note logged = activity_logged [OF run]
    note q = attempt_sendable [OF Suc.prems(1,2) Inr]
    have "s' = s1 \<or> (\<exists>b'. provider_attempts (logged env) guarded tp k (n + 1) b' s1 = (r, s'))"
      using Suc.prems(3) Inr run
      by (subst (asm) provider_attempts.simps)
        (cases x; auto simp: res_simps split: if_splits sum.splits)
    then show ?thesis
    proof
      assume "s' = s1"
      with logged q show ?thesis by auto
    next
      assume "\<exists>b'. provider_attempts (logged env) guarded tp k (n + 1) b' s1 = (r, s')"
      then obtain b' where again: "provider_attempts (logged env) guarded tp k (n + 1) b' s1 = (r, s')" by blast
      have "ag_context_ops (ss_agent s1) = ops" "list_all unmixed (log (ag_context (ss_agent s1)))"
        using Suc.prems(1,2) logged by (simp_all add: same_conversation_def)
      from Suc.IH [OF this again] obtain sent where
        "sent_requests s' = sent_requests s1 @ sent" "length sent \<le> k + 1"
        "\<forall>q \<in> set sent. sendable_request (ss_agent s) guarded q"
        using logged sendable_request_same by blast
      with logged q show ?thesis by (auto intro: exI [of _ sent] exI [of _ "q # sent"])
    qed
  qed
qed

end






section \<open>The chain of exceptions of a failed tool\<close>

definition next_exception :: "('e \<Rightarrow> 'e option) \<Rightarrow> ('e \<Rightarrow> 'e option) \<Rightarrow> 'e \<Rightarrow> 'e option" where
  "next_exception cause ctx e = (case cause e of Some c \<Rightarrow> Some c | None \<Rightarrow> ctx e)"

definition chain_next :: "('e \<Rightarrow> 'e option) \<Rightarrow> ('e \<Rightarrow> 'e option) \<Rightarrow> 'e \<Rightarrow> 'e option" where
  "chain_next cause ctx e =
     (if next_exception cause ctx e = Some e then None else next_exception cause ctx e)"

lemma follow_chain_step:
  "follow_chain (Suc n) cause ctx seen (Some e) =
     (if e \<in> set seen then [] else e # follow_chain n cause ctx (e # seen) (chain_next cause ctx e))"
  "follow_chain (Suc n) cause ctx seen None = []"
  by (simp_all add: chain_next_def next_exception_def Let_def)

declare follow_chain.simps(2) [simp del]

lemma follow_chain_seen: "set (follow_chain n cause ctx seen cur) \<inter> set seen = {}"
proof (induction n arbitrary: seen cur)
  case (Suc n)
  show ?case
  proof (cases cur)
    case (Some e)
    then show ?thesis
      using Suc.IH [of "e # seen" "chain_next cause ctx e"] by (auto simp: follow_chain_step)
  qed (simp add: follow_chain_step)
qed simp

lemma follow_chain_distinct: "distinct (follow_chain n cause ctx seen cur)"
proof (induction n arbitrary: seen cur)
  case (Suc n)
  have "e \<notin> set (follow_chain n cause ctx (e # seen) c)" for e c
    using follow_chain_seen [of n cause ctx "e # seen" c] by auto
  with Suc.IH show ?case by (cases cur) (simp_all add: follow_chain_step)
qed simp

lemma follow_chain_length: "length (follow_chain n cause ctx seen cur) \<le> n"
proof (induction n arbitrary: seen cur)
  case (Suc n)
  then show ?case by (cases cur) (simp_all add: follow_chain_step)
qed simp

lemma follow_chain_head: "follow_chain n cause ctx seen cur = b # rest \<Longrightarrow> cur = Some b"
  by (cases n; cases cur) (auto simp: follow_chain_step split: if_splits)

lemma follow_chain_linked:
  "successively (\<lambda>a b. next_exception cause ctx a = Some b) (follow_chain n cause ctx seen cur)"
proof (induction n arbitrary: seen cur)
  case (Suc n)
  have "successively (\<lambda>a b. next_exception cause ctx a = Some b)
      (e # follow_chain n cause ctx (e # seen) (chain_next cause ctx e))" for e
  proof (cases "follow_chain n cause ctx (e # seen) (chain_next cause ctx e)")
    case (Cons b rest)
    from follow_chain_head [OF this] have "next_exception cause ctx e = Some b"
      by (simp add: chain_next_def split: if_splits)
    with Cons Suc.IH [of "e # seen" "chain_next cause ctx e"] show ?thesis by simp
  qed simp
  then show ?case by (cases cur) (simp_all add: follow_chain_step)
qed simp

text \<open>
  Reporting a failed tool walks the chain of its exceptions safely: on any graph of exception
  objects, cycles included, the chain has at most six entries, no object twice, starts with the
  exception itself, and each entry is the cause of the one before it, or its context when it has
  no cause.
\<close>

theorem exception_chain_is_safe:
  "let chain = follow_chain 6 cause ctx [] (Some err)
   in length chain \<le> 6 \<and> distinct chain \<and> hd chain = err \<and>
      successively (\<lambda>a b. next_exception cause ctx a = Some b) chain"
  using follow_chain_length [of 6 cause ctx "[]" "Some err"] follow_chain_distinct [of 6 cause ctx "[]" "Some err"]
    follow_chain_linked [of cause ctx 6 "[]" "Some err"]
  by (simp add: Let_def numeral_eq_Suc follow_chain_step)

section \<open>An agent to run\<close>

definition sample_provider :: provider where
  "sample_provider =
     \<lparr>pv_name = ''sample'', pv_activity_options = DEFAULT_ACTIVITY_OPTIONS,
      pv_estimate_request_tokens = (\<lambda>prompt tools. 100),
      pv_create_request = Inr,
      pv_request_chat_history = (\<lambda>q. Inr (pq_chat_history q)),
      pv_replace_request_chat_history = (\<lambda>q h. Inr (q\<lparr>pq_chat_history := h\<rparr>)),
      pv_replace_request_stream_attempt = (\<lambda>q n. q\<lparr>pq_stream_attempt := n\<rparr>),
      pv_request_to_dict = (\<lambda>q. [(''model'', PStr (pq_model q)), (''messages'', PList (map PDict (pq_chat_history q)))]),
      pv_request_from_dict = (\<lambda>d. Inr \<lparr>pq_system_prompt = [], pq_model = ''m'', pq_max_tokens = 10, pq_tools = [],
         pq_chat_history = mapping_list (dict_get_none d ''messages''), pq_context_token_limit = None,
         pq_stream_id = None, pq_stream_sequence = None, pq_stream_attempt = None\<rparr>),
      pv_response_to_dict = (\<lambda>r. [(''message'', PDict (pr_message r))]),
      pv_response_from_dict = (\<lambda>d. Inr \<lparr>pr_id = ''r'', pr_model = ''m'', pr_message = copy_mapping (dict_get_none d ''message''),
         pr_stop_reason = None, pr_stop_sequence = None, pr_usage = [], pr_guard_action = None,
         pr_guard_reason = None, pr_stop_details = None\<rparr>),
      pv_response_from_guard_execution = (\<lambda>e m. Inr \<lparr>pr_id = ''g'', pr_model = m, pr_message = [],
         pr_stop_reason = None, pr_stop_sequence = None, pr_usage = [], pr_guard_action = Some (action_text (le_action e)),
         pr_guard_reason = le_reason e, pr_stop_details = None\<rparr>),
      pv_response_with_visible_refusal = Inr,
      pv_response_message = (\<lambda>r. Inr (pr_message r)),
      pv_stop_reason_for_max_turns = ''max_tokens''\<rparr>"

definition sample_agent :: "sliding_window agent" where
  "sample_agent =
     \<lparr>ag_system_prompt = ''Be brief.'', ag_tools = sample_tools, ag_provider = sample_provider, ag_model = ''m'',
      ag_max_tokens = 1000, ag_tool_names = None, ag_stream_id = None, ag_activity_options = None,
      ag_llm_guard_activity_options = DEFAULT_ACTIVITY_OPTIONS,
      ag_llm_guards = \<lparr>lp_pre_guards = [], lp_post_guards = []\<rparr>, ag_max_context_tokens = 200000,
      ag_context_safety_margin_tokens = 4000, ag_context_chars_per_token = 4, ag_continue_as_new_enabled = True,
      ag_context_ops = sliding_window_ops, ag_context = sample_window, ag_context_initialized = True,
      ag_pending_immediate_steering = [''hurry''], ag_pending_after_tool_steering = [],
      ag_pending_interrupts = [], ag_interrupt_requested = False, ag_provider_call_sequence = 0,
      ag_turn_user_prompt_index = None, ag_terminated = False, ag_termination_reason = None,
      ag_llm_guard_state = []\<rparr>"

definition sample_env :: "nat agent_env" where
  "sample_env =
     \<lparr>ae_is_cancelled = (\<lambda>e. exn_kind e = ExcBase ''CancelledError''),
      ae_signals = (\<lambda>w. ([], w)), ae_wait = op_return (),
      ae_provider_result = (\<lambda>q i. op_raise (PyExn (ExcApplication (Some ''ContextWindowExceeded'') True) ''long'' None None)),
      ae_llm_guard = (\<lambda>g c. op_return (GaveNothing, c)),
      ae_run_tools = (\<lambda>cs i w. (map (\<lambda>_. Inr \<lparr>tr_payload = [], tr_error = False\<rparr>) cs, w)),
      ae_continue_suggested = (\<lambda>w. False)\<rparr>"

definition sample_session :: "(sliding_window, nat) session" where
  "sample_session = \<lparr>ss_agent = sample_agent, ss_world = 0\<rparr>"


theorem steering_delivered_in_order_witness:
  "ag_pending_immediate_steering (flush_immediate_context (fold apply_signal [Steer ''a'' ''immediate''] sample_agent)) = []"
  using steering_delivered_in_order [of sample_agent "fold apply_signal [Steer ''a'' ''immediate''] sample_agent"
      "[Steer ''a'' ''immediate'']"]
  by (simp add: sample_agent_def)

theorem every_tool_call_is_answered_witness:
  "\<exists>execution s'. execute_requested_tools sample_env [tool_use_block (PStr ''c'') (PStr ''wipe'') [] None] sample_session
     = (Inr execution, s') \<and> length (te_tool_results execution) = 1"
proof -
  let ?b = "tool_use_block (PStr ''c'') (PStr ''wipe'') [] None"
  obtain execution s' where run: "execute_requested_tools sample_env [?b] sample_session = (Inr execution, s')"
    by (simp add: execute_requested_tools_def sample_env_def sample_session_def suspended_def res_simps Let_def
        sample_agent_def tool_use_block_def planned_call_def read_block_def dict_index_def plan_tool_def
        execute_tool_kwargs_def tool_names_def sample_tools_def task_outcome_def guarded_outcome_def
        map_filter_simps)
  from every_tool_call_is_answered [OF this] run show ?thesis by (auto dest: list_all2_lengthD)
qed

lemma sample_env_finite: "finite_interrupts sample_env (\<lambda>_. 0)"
  by (simp add: finite_interrupts_def sample_env_def interrupts_of_def map_filter_simps)

theorem agent_loop_ends_witness:
  "fst (run_loop 5 sample_env [] 3 0 sample_session) \<noteq> Inr None"
  by (rule agent_loop_ends [OF sample_env_finite]) simp

theorem turns_within_limit_witness:
  "\<exists>result s'. run_loop 1 sample_env [] 3 3 sample_session = (Inr (Some result), s') \<and> ar_turns result \<le> 3"
proof -
  obtain result s' where run: "run_loop 1 sample_env [] 3 3 sample_session = (Inr (Some result), s')"
    by (simp add: res_simps)
  from turns_within_limit [OF this] run show ?thesis by blast
qed

theorem terminated_agent_is_inert_witness:
  "\<exists>r. run 1 sample_env (Some ''hi'') [] None 3 (sample_session\<lparr>ss_agent := sample_agent\<lparr>ag_terminated := True\<rparr>\<rparr>)
     = (Inr (Some r), sample_session\<lparr>ss_agent := sample_agent\<lparr>ag_terminated := True\<rparr>\<rparr>)"
  using terminated_agent_is_inert [where s = "sample_session\<lparr>ss_agent := sample_agent\<lparr>ag_terminated := True\<rparr>\<rparr>"
      and fuel = 1 and env = sample_env and user_prompt = "Some ''hi''" and attachments = "[]" and state = None
      and max_turns = 3]
  by auto

theorem retry_budget_is_valid_and_tighter_witness:
  "\<exists>b'. agent_token_budget sample_agent [] True = Inr b' \<and> wf_budget b'"
proof -
  obtain b where "agent_token_budget sample_agent [] False = Inr b"
    by (simp add: agent_token_budget_def sample_agent_def sample_provider_def ContextTokenBudget_def
        input_token_budget_def)
  from retry_budget_is_valid_and_tighter [OF this] show ?thesis by blast
qed


end
