(* ===== verification/Transcript.thy ===== *)
theory Transcript
  imports Attachments
begin

text \<open>
  The transcript functions of \<open>simple_chat_agent/worker/workflow.py\<close>: what of the agent's history
  the user sees, how attachments are read back from their manifest, and the size limits of the
  answers to transcript queries. The state of the workflow is in \<open>ChatWorkflow\<close>.

  Sizes are bytes of UTF-8; a character has a code below 256, so it takes one byte or two.
\<close>

section \<open>Messages of the transcript\<close>

datatype chat_role = UserRole | AssistantRole | SystemRole

definition chat_role_str :: "chat_role \<Rightarrow> string" where
  "chat_role_str r = (case r of UserRole \<Rightarrow> ''user'' | AssistantRole \<Rightarrow> ''assistant'' | SystemRole \<Rightarrow> ''system'')"

record chat_message =
  ch_role :: chat_role
  ch_content :: string
  ch_attachments :: "attachment_ref list"

record transcript_delta =
  dl_revision :: int
  dl_index :: int
  dl_message :: chat_message

definition TRANSCRIPT_DELTA_BUFFER_LIMIT :: nat where
  "TRANSCRIPT_DELTA_BUFFER_LIMIT = 80"

definition TRANSCRIPT_QUERY_DEFAULT_MAX_BYTES :: int where
  "TRANSCRIPT_QUERY_DEFAULT_MAX_BYTES = 512000"

definition TRANSCRIPT_QUERY_MIN_MAX_BYTES :: int where
  "TRANSCRIPT_QUERY_MIN_MAX_BYTES = 16384"

definition TRANSCRIPT_QUERY_HARD_MAX_BYTES :: int where
  "TRANSCRIPT_QUERY_HARD_MAX_BYTES = 1000000"

definition TRANSCRIPT_QUERY_BASE_OVERHEAD_BYTES :: int where
  "TRANSCRIPT_QUERY_BASE_OVERHEAD_BYTES = 2048"

definition TRANSCRIPT_QUERY_MESSAGE_OVERHEAD_BYTES :: int where
  "TRANSCRIPT_QUERY_MESSAGE_OVERHEAD_BYTES = 512"

definition TRANSCRIPT_TRUNCATION_NOTICE :: string where
  "TRANSCRIPT_TRUNCATION_NOTICE = newline @ newline @
     ''[Transcript message truncated to keep the workflow query response bounded.]''"

lemmas transcript_limits = TRANSCRIPT_QUERY_DEFAULT_MAX_BYTES_def TRANSCRIPT_QUERY_MIN_MAX_BYTES_def
  TRANSCRIPT_QUERY_HARD_MAX_BYTES_def TRANSCRIPT_QUERY_BASE_OVERHEAD_BYTES_def
  TRANSCRIPT_QUERY_MESSAGE_OVERHEAD_BYTES_def

section \<open>Bytes of text\<close>

definition utf8_char :: "char \<Rightarrow> nat list" where
  "utf8_char c = (if code c < 128 then [code c] else [192 + code c div 64, 128 + code c mod 64])"

definition utf8_encode :: "string \<Rightarrow> nat list" where
  "utf8_encode s = concat (map utf8_char s)"

text \<open>
  \<open>decode("utf-8", errors="ignore")\<close> on bytes that encode characters below 256 or were cut from
  such: a lead byte without its continuation is dropped.
\<close>

fun utf8_decode_ignore :: "nat list \<Rightarrow> string" where
  "utf8_decode_ignore [] = []"
| "utf8_decode_ignore [b] = (if b < 128 then [char_of b] else [])"
| "utf8_decode_ignore (b # c # bs) =
     (if b < 128 then char_of b # utf8_decode_ignore (c # bs)
      else if 194 \<le> b \<and> b < 196 \<and> 128 \<le> c \<and> c < 192
      then char_of ((b - 192) * 64 + (c - 128)) # utf8_decode_ignore bs
      else utf8_decode_ignore (c # bs))"

definition text_bytes :: "string \<Rightarrow> int" where
  "text_bytes s = int (length (utf8_encode s))"

definition truncate_text_bytes :: "string \<Rightarrow> int \<Rightarrow> string" where
  "truncate_text_bytes s max_bytes =
     (if max_bytes \<le> 0 then []
      else if text_bytes s \<le> max_bytes then s
      else utf8_decode_ignore (take (nat max_bytes) (utf8_encode s)))"

definition attachment_query_bytes :: "attachment_ref \<Rightarrow> int" where
  "attachment_query_bytes a =
     TRANSCRIPT_QUERY_MESSAGE_OVERHEAD_BYTES
     + text_bytes (attachment_id a) + text_bytes (att_name a) + text_bytes (mime_type a)
     + text_bytes (int_str (size_bytes a)) + text_bytes (content_kind a)
     + text_bytes (att_source a) + text_bytes (text_preview a)
     + text_bytes (case text_chars a of None \<Rightarrow> [] | Some n \<Rightarrow> if n = 0 then [] else int_str n)
     + text_bytes (expires_at a)
     + (\<Sum>(key, value) \<leftarrow> metadata a. text_bytes key + text_bytes (py_str value))"

definition chat_message_query_bytes :: "chat_message \<Rightarrow> int" where
  "chat_message_query_bytes m =
     TRANSCRIPT_QUERY_MESSAGE_OVERHEAD_BYTES
     + text_bytes (chat_role_str (ch_role m)) + text_bytes (ch_content m)
     + (\<Sum>a \<leftarrow> ch_attachments m. attachment_query_bytes a)"

definition transcript_deltas_query_bytes :: "transcript_delta list \<Rightarrow> int" where
  "transcript_deltas_query_bytes deltas =
     TRANSCRIPT_QUERY_BASE_OVERHEAD_BYTES
     + (\<Sum>d \<leftarrow> deltas. TRANSCRIPT_QUERY_MESSAGE_OVERHEAD_BYTES
          + text_bytes (int_str (dl_revision d)) + text_bytes (int_str (dl_index d))
          + chat_message_query_bytes (dl_message d))"

definition truncate_chat_message_for_query :: "chat_message \<Rightarrow> int \<Rightarrow> chat_message" where
  "truncate_chat_message_for_query m available_content_bytes =
     (let notice_bytes = text_bytes TRANSCRIPT_TRUNCATION_NOTICE;
          content_budget = max 0 (available_content_bytes - notice_bytes)
      in m\<lparr>ch_content := truncate_text_bytes (ch_content m) content_budget @ TRANSCRIPT_TRUNCATION_NOTICE\<rparr>)"

text \<open>\<open>_transcript_byte_limit\<close>; \<open>None\<close> stands for an argument that \<open>int\<close> rejects.\<close>

definition transcript_byte_limit :: "int option \<Rightarrow> int" where
  "transcript_byte_limit max_bytes =
     (let requested = (case max_bytes of None \<Rightarrow> TRANSCRIPT_QUERY_DEFAULT_MAX_BYTES | Some n \<Rightarrow> n)
      in max TRANSCRIPT_QUERY_MIN_MAX_BYTES (min requested TRANSCRIPT_QUERY_HARD_MAX_BYTES))"

section \<open>Attachments read back from their manifest\<close>

text \<open>
  \<open>_ATTACHMENT_LINE_RE\<close> as a backtracking matcher: each part maps the rest of the line to the
  possible (match, rest) pairs in the order the regular expression engine tries them.
\<close>

definition repeat_greedy :: "nat \<Rightarrow> (char \<Rightarrow> bool) \<Rightarrow> string \<Rightarrow> (string \<times> string) list" where
  "repeat_greedy least p s = map (\<lambda>n. (take n s, drop n s)) (rev [least..<Suc (length (takeWhile p s))])"

definition repeat_lazy :: "(char \<Rightarrow> bool) \<Rightarrow> string \<Rightarrow> (string \<times> string) list" where
  "repeat_lazy p s = map (\<lambda>n. (take n s, drop n s)) [0..<Suc (length (takeWhile p s))]"

definition literal :: "string \<Rightarrow> string \<Rightarrow> string list" where
  "literal t s = (if py_startswith s t then [drop (length t) s] else [])"

definition is_digit :: "char \<Rightarrow> bool" where
  "is_digit c = (48 \<le> code c \<and> code c \<le> 57)"

definition is_field :: "char \<Rightarrow> bool" where
  "is_field c = (c \<noteq> CHR '','' \<and> c \<noteq> CHR '')'')"

definition parse_nat :: "string \<Rightarrow> nat" where
  "parse_nat s = foldl (\<lambda>n c. n * 10 + (code c - 48)) 0 s"

text \<open>The end of a line, from \<open>(attachment_id=\<close> on: the id, the type, the kind and the size.\<close>

definition attachment_fields :: "string \<Rightarrow> (string \<times> string \<times> string \<times> string) list" where
  "attachment_fields s0 =
     [(aid, mime, kind, sz).
        s1 \<leftarrow> literal ''(attachment_id='' s0,
        (aid, s2) \<leftarrow> repeat_greedy 0 is_field s1,
        s3 \<leftarrow> literal '','' s2,
        (_, s4) \<leftarrow> repeat_greedy 1 py_space s3,
        s5 \<leftarrow> literal ''mime_type='' s4,
        (mime, s6) \<leftarrow> repeat_greedy 0 is_field s5,
        s7 \<leftarrow> literal '','' s6,
        (_, s8) \<leftarrow> repeat_greedy 1 py_space s7,
        s9 \<leftarrow> literal ''kind='' s8,
        (kind, s10) \<leftarrow> repeat_greedy 0 is_field s9,
        s11 \<leftarrow> literal '','' s10,
        (_, s12) \<leftarrow> repeat_greedy 1 py_space s11,
        s13 \<leftarrow> literal ''size_bytes='' s12,
        (sz, s14) \<leftarrow> repeat_greedy 1 is_digit s13,
        _ \<leftarrow> literal '')'' s14]"

definition attachment_name_fields :: "string \<Rightarrow> (string \<times> string \<times> string \<times> string \<times> string) list" where
  "attachment_name_fields s0 =
     [(nm, aid, mime, kind, sz).
        (nm, s1) \<leftarrow> repeat_lazy (\<lambda>c. code c \<noteq> 10) s0,
        (_, s2) \<leftarrow> repeat_greedy 1 py_space s1,
        (aid, mime, kind, sz) \<leftarrow> attachment_fields s2]"

definition attachment_line_matches :: "string \<Rightarrow> (string \<times> string \<times> string \<times> string \<times> string) list" where
  "attachment_line_matches line =
     [m. (_, s1) \<leftarrow> repeat_greedy 0 py_space line,
         (_, s2) \<leftarrow> repeat_greedy 1 is_digit s1,
         s3 \<leftarrow> literal ''.'' s2,
         (_, s4) \<leftarrow> repeat_greedy 1 py_space s3,
         m \<leftarrow> attachment_name_fields s4]"

text \<open>\<open>str.splitlines\<close>: a carriage return with a newline is one line break.\<close>

definition is_line_break :: "char \<Rightarrow> bool" where
  "is_line_break c = (code c \<in> {10, 11, 12, 13, 28, 29, 30, 133})"

fun splitlines_from :: "string \<Rightarrow> string \<Rightarrow> string list" where
  "splitlines_from line [] = (if line = [] then [] else [line])"
| "splitlines_from line (c # s) =
     (if code c = 13 \<and> s \<noteq> [] \<and> code (hd s) = 10 then splitlines_from line s
      else if is_line_break c then line # splitlines_from [] s
      else splitlines_from (line @ [c]) s)"

definition py_splitlines :: "string \<Rightarrow> string list" where
  "py_splitlines s = splitlines_from [] s"

definition attachment_from_line :: "string \<Rightarrow> attachment_ref option" where
  "attachment_from_line line =
     (case attachment_line_matches line of
        [] \<Rightarrow> None
      | (nm, aid, mime, kind, sz) # _ \<Rightarrow> Some
          \<lparr>attachment_id = aid, att_name = nm, mime_type = mime, size_bytes = int (parse_nat sz),
           content_kind = kind, att_source = ''user_attachment'', text_preview = [], text_chars = None,
           expires_at = [], metadata = []\<rparr>)"

definition attachments_from_text :: "string \<Rightarrow> attachment_ref list" where
  "attachments_from_text text =
     (if \<not> py_contains ''<attachments>'' text then []
      else List.map_filter attachment_from_line (py_splitlines text))"

section \<open>The rendered transcript\<close>

definition block_text :: "pydict \<Rightarrow> string" where
  "block_text b =
     (if block_type_is b ''text''
      then (case dict_get_none b ''text'' of PStr t \<Rightarrow> t | _ \<Rightarrow> [])
      else if block_type_is b ''refusal''
      then (case dict_get_none b ''refusal'' of PStr t \<Rightarrow> t | _ \<Rightarrow> [])
      else [])"

definition assistant_text :: "agent_message \<Rightarrow> string" where
  "assistant_text m =
     (case msg_content m of
        Text s \<Rightarrow> s
      | Blocks bs \<Rightarrow> py_join newline (filter (\<lambda>t. t \<noteq> []) (map block_text bs)))"

definition attachments_from_agent_message :: "agent_message \<Rightarrow> attachment_ref list" where
  "attachments_from_agent_message m =
     (case msg_content m of
        Text s \<Rightarrow> attachments_from_text s
      | Blocks bs \<Rightarrow> concat (map (\<lambda>b.
          (let t = block_text b in
           if py_startswith (py_lstrip t) ''<attachments>'' then attachments_from_text t else [])) bs))"

text \<open>
  A message of a snapshot; the messages of a snapshot are dictionaries, for anything else
  \<open>normalize_message\<close> fails on the empty mapping.
\<close>

definition chat_message_from_agent_message :: "pyval \<Rightarrow> chat_message option" where
  "chat_message_from_agent_message value =
     (case normalize_message (block_mapping value) of
        Inl _ \<Rightarrow> None
      | Inr m \<Rightarrow>
          (if list_ex (\<lambda>b. block_type_is b CONTEXT_COMPACTION_MARKER) (content_blocks (msg_content m))
           then (let t = py_strip (message_text (message_dict m)) in
                 if t = [] then None else Some \<lparr>ch_role = SystemRole, ch_content = t, ch_attachments = []\<rparr>)
           else if msg_role m = User
           then (let t = py_strip (visible_user_message_text (message_dict m));
                     attachments = attachments_from_agent_message m
                 in if t = [] \<and> attachments = [] then None
                    else Some \<lparr>ch_role = UserRole, ch_content = t, ch_attachments = attachments\<rparr>)
           else if tool_use_blocks (message_dict m) \<noteq> [] then None
           else (let t = py_strip (assistant_text m) in
                 if t = [] then None
                 else Some \<lparr>ch_role = AssistantRole, ch_content = t, ch_attachments = []\<rparr>)))"

definition rendered_snapshot :: "pydict \<Rightarrow> chat_message list" where
  "rendered_snapshot snapshot =
     (case dict_get_none snapshot ''messages'' of
        PList ms \<Rightarrow> List.map_filter chat_message_from_agent_message ms
      | _ \<Rightarrow> [])"

definition overlay_transcript_message :: "int \<Rightarrow> chat_message \<Rightarrow> chat_message list \<Rightarrow> chat_message list" where
  "overlay_transcript_message index m transcript =
     (if index < 0 then transcript
      else if index < int (length transcript) then transcript[nat index := m]
      else transcript @ [m])"

section \<open>Pages and deltas\<close>

record TranscriptPage =
  tp_messages :: "chat_message list"
  tp_start :: int
  tp_end :: int
  tp_total :: int
  tp_transcript_revision :: int
  tp_limited :: bool
  tp_byte_limit :: int
  tp_estimated_bytes :: int

text \<open>
  The loop of \<open>_transcript_page\<close>, over the messages below the end of the page, newest first, with
  their indices: the messages taken, the bytes estimated, the start, and whether it was limited.
\<close>

fun page_loop ::
  "int \<Rightarrow> (int \<times> chat_message) list \<Rightarrow> chat_message list \<Rightarrow> int \<Rightarrow> int
   \<Rightarrow> chat_message list \<times> int \<times> int \<times> bool" where
  "page_loop byte_limit [] messages estimated_bytes start = (messages, estimated_bytes, start, False)"
| "page_loop byte_limit ((index, m) # older) messages estimated_bytes start =
     (let message_bytes = chat_message_query_bytes m in
      if estimated_bytes + message_bytes \<le> byte_limit
      then page_loop byte_limit older (m # messages) (estimated_bytes + message_bytes) index
      else if messages = []
      then (let available = max 0 (byte_limit - estimated_bytes - TRANSCRIPT_QUERY_MESSAGE_OVERHEAD_BYTES);
                truncated = truncate_chat_message_for_query m available
            in ([truncated], estimated_bytes + chat_message_query_bytes truncated, index, True))
      else (messages, estimated_bytes, start, True))"

text \<open>\<open>int(limit or 60)\<close> and the bounds of the page.\<close>

definition page_end :: "int option \<Rightarrow> int \<Rightarrow> int" where
  "page_end before count = (case before of None \<Rightarrow> count | Some b \<Rightarrow> max 0 (min b count))"

definition page_limit :: "int \<Rightarrow> int" where
  "page_limit limit = max 1 (min (if limit = 0 then 60 else limit) 200)"

definition transcript_page :: "chat_message list \<Rightarrow> int \<Rightarrow> int option \<Rightarrow> int \<Rightarrow> int option \<Rightarrow> TranscriptPage" where
  "transcript_page transcript transcript_revision before limit max_bytes =
     (let count = int (length transcript);
          byte_limit = transcript_byte_limit max_bytes;
          until = page_end before count;
          lower_bound = max 0 (until - page_limit limit);
          candidates = rev (map (\<lambda>i. (i, transcript ! nat i)) [lower_bound..until - 1])
      in case page_loop byte_limit candidates [] TRANSCRIPT_QUERY_BASE_OVERHEAD_BYTES until of
           (messages, estimated_bytes, start, limited) \<Rightarrow>
             \<lparr>tp_messages = messages, tp_start = start, tp_end = until, tp_total = count,
              tp_transcript_revision = transcript_revision, tp_limited = limited,
              tp_byte_limit = byte_limit, tp_estimated_bytes = min estimated_bytes byte_limit\<rparr>)"

end
