(* ===== verification/TranscriptProperties.thy ===== *)
theory TranscriptProperties
  imports Transcript
begin

text \<open>
  Properties of the transcript functions: the attachments listed in a manifest are read back, and
  a page of the transcript is a contiguous, bounded part of it.
\<close>

section \<open>The matcher on the text it reads\<close>

lemma takeWhile_stop:
  "list_all p a \<Longrightarrow> s = [] \<or> \<not> p (hd s) \<Longrightarrow> takeWhile p (a @ s) = a"
  by (induction a) (cases s, auto)

lemma repeat_greedy_stop:
  assumes "list_all p a" and "s = [] \<or> \<not> p (hd s)" and "least \<le> length a"
  shows "\<exists>rest. repeat_greedy least p (a @ s) = (a, s) # rest"
proof -
  have "[least..<Suc (length a)] = [least..<length a] @ [length a]"
    using assms(3) by simp
  then show ?thesis
    by (simp add: repeat_greedy_def takeWhile_stop [OF assms(1,2)])
qed

lemma repeat_greedy_one:
  assumes "p c" and "s = [] \<or> \<not> p (hd s)"
  shows "repeat_greedy 1 p (c # s) = [([c], s)]"
  using assms takeWhile_stop [of p "[c]" s] by (simp add: repeat_greedy_def)

lemma literal_here [simp]: "literal t (t @ s) = [s]"
  by (simp add: literal_def py_startswith_def)

lemma literal_Cons [simp]: "literal [c] (c # s) = [s]"
  by (simp add: literal_def py_startswith_def)

lemma in_literal: "x \<in> set (literal t s) \<longleftrightarrow> s = t @ x"
  by (auto simp: literal_def py_startswith_def) (metis append_take_drop_id)

section \<open>Numbers\<close>

lemma code_digit: "n < 10 \<Longrightarrow> code (digit n) = 48 + n"
  by (simp add: code_def digit_def)

lemma is_digit_digit [simp]: "n < 10 \<Longrightarrow> is_digit (digit n)"
  by (simp add: is_digit_def code_digit)

lemma nat_str_digits: "list_all is_digit (nat_str n)"
proof (induction n rule: nat_str.induct)
  case (1 n)
  then show ?case by (cases "n < 10") (subst nat_str.simps, simp)+
qed

lemma parse_nat_append: "parse_nat (s @ [c]) = parse_nat s * 10 + (code c - 48)"
  by (simp add: parse_nat_def)

lemma parse_nat_nat_str [simp]: "parse_nat (nat_str n) = n"
proof (induction n rule: nat_str.induct)
  case (1 n)
  show ?case
  proof (cases "n < 10")
    case True
    then have "nat_str n = [digit n]" by (subst nat_str.simps) simp
    with True show ?thesis by (simp add: parse_nat_def code_digit)
  next
    case False
    then have "nat_str n = nat_str (n div 10) @ [digit (n mod 10)]" by (subst nat_str.simps) simp
    with False 1 show ?thesis by (simp add: parse_nat_append code_digit)
  qed
qed

section \<open>Lines\<close>

definition one_line :: "string \<Rightarrow> bool" where
  "one_line s = list_all (\<lambda>c. \<not> is_line_break c) s"

lemma one_line_simps [simp]:
  "one_line []" "one_line (c # s) \<longleftrightarrow> \<not> is_line_break c \<and> one_line s"
  "one_line (s @ t) \<longleftrightarrow> one_line s \<and> one_line t"
  by (simp_all add: one_line_def)

lemma splitlines_rest: "one_line l \<Longrightarrow> splitlines_from acc (l @ newline @ s) = (acc @ l) # splitlines_from [] s"
  by (induction l arbitrary: acc) (auto simp: is_line_break_def code_def)

lemma splitlines_end: "one_line l \<Longrightarrow> acc @ l \<noteq> [] \<Longrightarrow> splitlines_from acc l = [acc @ l]"
  by (induction l arbitrary: acc) (auto simp: is_line_break_def code_def)

lemma splitlines_join:
  assumes "list_all one_line ls" and "ls \<noteq> []" and "last ls \<noteq> []"
  shows "py_splitlines (py_join newline ls) = ls"
  using assms unfolding py_splitlines_def
proof (induction ls)
  case (Cons l ls)
  then show ?case
    by (cases ls) (simp_all add: splitlines_rest [simplified] splitlines_end)
qed simp

section \<open>An attachment line is read back\<close>

definition plain_name :: "string \<Rightarrow> bool" where
  "plain_name s \<longleftrightarrow> s \<noteq> [] \<and> one_line s \<and> \<not> py_space (hd s) \<and> \<not> py_space (last s) \<and>
     \<not> py_contains ''(attachment_id='' s"

definition plain_field :: "string \<Rightarrow> bool" where
  "plain_field s \<longleftrightarrow> list_all is_field s \<and> one_line s"

definition field_text :: "attachment_ref \<Rightarrow> string" where
  "field_text a = ''(attachment_id='' @ attachment_id a @ '', mime_type='' @ mime_type a @
     '', kind='' @ content_kind a @ '', size_bytes='' @ int_str (size_bytes a) @ '')''"

lemma comma_field [simp]: "\<not> is_field (CHR '','')"
  by (simp add: is_field_def)

lemma spaces [simp]: "py_space (CHR '' '')" "\<not> py_space (CHR ''m'')" "\<not> py_space (CHR ''k'')"
  "\<not> py_space (CHR ''s'')" "\<not> py_space (CHR ''('')"
  by (simp_all add: py_space_def code_def)

lemma digits_end [simp]: "\<not> is_digit (CHR '')'')" "\<not> is_digit (CHR ''.'')"
  by (simp_all add: is_digit_def code_def)

text \<open>
  The first alternative of a part decides the first match, when the rest matches from there:
  a comprehension over a list with a known first element.
\<close>

lemma field_part:
  assumes "list_all is_field a"
  shows "\<exists>rest. repeat_greedy 0 is_field (a @ CHR '','' # s) = (a, CHR '','' # s) # rest"
  using repeat_greedy_stop [OF assms, of "CHR '','' # s" 0] by simp

lemma space_part:
  assumes "s = [] \<or> \<not> py_space (hd s)"
  shows "repeat_greedy (Suc 0) py_space (CHR '' '' # s) = [('' '', s)]"
  using repeat_greedy_one [of py_space "CHR '' ''" s] assms by simp

lemma attachment_fields_first:
  assumes "plain_field (attachment_id a)" and "plain_field (mime_type a)"
    and "plain_field (content_kind a)" and "0 \<le> size_bytes a"
  shows "\<exists>rest. attachment_fields (field_text a @ s) =
     (attachment_id a, mime_type a, content_kind a, int_str (size_bytes a)) # rest"
proof -
  let ?n = "nat_str (nat (size_bytes a))"
  have str: "int_str (size_bytes a) = ?n" using assms(4) by (simp add: int_str_def)
  have digits: "\<exists>r. repeat_greedy (Suc 0) is_digit (?n @ CHR '')'' # s) = (?n, CHR '')'' # s) # r"
    by (rule repeat_greedy_stop) (simp_all add: nat_str_digits Suc_le_eq nat_str_nonempty)
  obtain r1 where "repeat_greedy 0 is_field (attachment_id a @ CHR '','' # ('' mime_type='' @ mime_type a @
     '', kind='' @ content_kind a @ '', size_bytes='' @ ?n @ '')'' @ s)) = (attachment_id a, CHR '','' # ('' mime_type='' @ mime_type a @
     '', kind='' @ content_kind a @ '', size_bytes='' @ ?n @ '')'' @ s)) # r1"
    using field_part assms(1) unfolding plain_field_def by blast
  moreover obtain r2 where "repeat_greedy 0 is_field (mime_type a @ CHR '','' # ('' kind='' @ content_kind a @ '', size_bytes='' @ ?n @ '')'' @ s))
     = (mime_type a, CHR '','' # ('' kind='' @ content_kind a @ '', size_bytes='' @ ?n @ '')'' @ s)) # r2"
    using field_part assms(2) unfolding plain_field_def by blast
  moreover obtain r3 where "repeat_greedy 0 is_field (content_kind a @ CHR '','' # ('' size_bytes='' @ ?n @ '')'' @ s))
     = (content_kind a, CHR '','' # ('' size_bytes='' @ ?n @ '')'' @ s)) # r3"
    using field_part assms(3) unfolding plain_field_def by blast
  moreover obtain r4 where "repeat_greedy (Suc 0) is_digit (?n @ CHR '')'' # s) = (?n, CHR '')'' # s) # r4"
    using digits by blast
  moreover have "literal ''(attachment_id='' (field_text a @ s) =
    [attachment_id a @ CHR '','' # ('' mime_type='' @ mime_type a @
     '', kind='' @ content_kind a @ '', size_bytes='' @ ?n @ '')'' @ s)]"
    by (simp add: field_text_def str literal_def py_startswith_def)
  ultimately show ?thesis
    by (simp add: attachment_fields_def space_part str literal_def py_startswith_def)
qed

text \<open>No suffix of a plain name begins the fields, so a lazy match of a shorter name fails.\<close>

lemma py_contains_append: "py_contains sub (a @ sub @ b)"
proof (induction a)
  case Nil
  have "py_startswith (sub @ b) sub" by (simp add: py_startswith_def)
  then show ?case by (cases "sub @ b") simp_all
qed (simp add: py_startswith_def)

lemma no_early_fields:
  assumes "name = u @ v" and "v \<noteq> []" and "\<not> py_contains ''(attachment_id='' name"
  shows "attachment_fields (v @ CHR '' '' # s) = []"
proof -
  have False if eq: "v @ CHR '' '' # s = ''(attachment_id='' @ x" for x
  proof (cases "length v < length ''(attachment_id=''")
    case True
    have "''(attachment_id='' ! length v = (v @ CHR '' '' # s) ! length v"
      unfolding eq nth_append using True by (simp only: if_True)
    then have "CHR '' '' \<in> set ''(attachment_id=''"
      using nth_mem [OF True] by simp
    then show False by simp
  next
    case False
    then have "take (length ''(attachment_id='') v = ''(attachment_id=''"
      using arg_cong [OF eq, of "take (length ''(attachment_id='')"] by simp
    then have "v = ''(attachment_id='' @ drop (length ''(attachment_id='') v"
      by (metis append_take_drop_id)
    with assms(1,3) show False by (metis py_contains_append)
  qed
  then have "literal ''(attachment_id='' (v @ CHR '' '' # s) = []"
    by (metis in_literal list.set_intros(1) neq_Nil_conv)
  then show ?thesis by (simp add: attachment_fields_def)
qed

lemma takeWhile_inside:
  assumes "v \<noteq> []" and "\<not> p (last v)"
  shows "takeWhile p (v @ s) = takeWhile p v" and "length (takeWhile p v) < length v"
proof -
  have "\<exists>x \<in> set v. \<not> p x" using assms by (meson last_in_set)
  then show "takeWhile p (v @ s) = takeWhile p v" by (meson takeWhile_append1)
  show "length (takeWhile p v) < length v"
    using assms by (metis last_in_set length_takeWhile_le nat_neq_iff not_less set_takeWhileD takeWhile_eq_take take_all order_refl)
qed

lemma no_early_name:
  assumes "plain_name name" and "n < length name"
  shows "concat (map (\<lambda>(_, s2). map (Pair nm) (attachment_fields s2))
     (repeat_greedy (Suc 0) py_space (drop n (name @ CHR '' '' # s)))) = []"
proof -
  let ?v = "drop n name"
  have v: "?v \<noteq> []" "\<not> py_space (last ?v)" using assms by (simp_all add: plain_name_def)
  note inside = takeWhile_inside [of ?v py_space, OF v]
  have "attachment_fields (drop k (?v @ CHR '' '' # s)) = []"
    if "k < Suc (length (takeWhile py_space ?v))" for k
  proof -
    have "k < length ?v" using that inside(2) by simp
    then have "drop k (?v @ CHR '' '' # s) = drop (k + n) name @ CHR '' '' # s" "drop (k + n) name \<noteq> []"
      by simp_all
    with assms(1) show ?thesis
      by (metis append_take_drop_id no_early_fields plain_name_def)
  qed
  then show ?thesis
    using assms(2) by (auto simp: repeat_greedy_def inside(1))
qed

lemma concat_map_first:
  assumes "k \<le> K" and "\<And>n. n < k \<Longrightarrow> f n = []" and "f k = x # xs"
  shows "\<exists>rest. concat (map f [0..<Suc K]) = x # rest"
proof -
  have split: "[0..<Suc K] = [0..<k] @ k # [Suc k..<Suc K]"
    using assms(1) by (metis le0 le_imp_less_Suc upt_add_eq_append upt_conv_Cons le_add_diff_inverse less_imp_le)
  have nil: "concat (map f [0..<k]) = []" using assms(2) by simp
  show ?thesis
    unfolding split map_append list.map concat_append concat.simps nil assms(3) by simp
qed

lemma attachment_name_fields_first:
  assumes "plain_name name" and "attachment_fields (CHR ''('' # t) = (aid, mime, kind, sz) # rest"
  shows "\<exists>rest. attachment_name_fields (name @ CHR '' '' # CHR ''('' # t) = (name, aid, mime, kind, sz) # rest"
proof -
  let ?s = "name @ CHR '' '' # CHR ''('' # t"
  let ?f = "\<lambda>n. concat (map (\<lambda>(_, s2). map (Pair (take n ?s)) (attachment_fields s2))
     (repeat_greedy (Suc 0) py_space (drop n ?s)))"
  have "length name \<le> length (takeWhile (\<lambda>c. code c \<noteq> 10) ?s)"
  proof -
    have "list_all (\<lambda>c. code c \<noteq> 10) name"
      using assms(1) by (auto simp: plain_name_def one_line_def is_line_break_def list_all_iff)
    then have "takeWhile (\<lambda>c. code c \<noteq> 10) ?s = name @ takeWhile (\<lambda>c. code c \<noteq> 10) (CHR '' '' # CHR ''('' # t)"
      by (auto simp: list_all_iff intro: takeWhile_append2)
    then show ?thesis by simp
  qed
  moreover have "?f n = []" if "n < length name" for n
    by (rule no_early_name [OF assms(1) that])
  moreover have "?f (length name) = (name, aid, mime, kind, sz) # tl (?f (length name))"
    by (simp add: space_part assms(2))
  ultimately have "\<exists>rest. concat (map ?f [0..<Suc (length (takeWhile (\<lambda>c. code c \<noteq> 10) ?s))]) = (name, aid, mime, kind, sz) # rest"
    by (rule concat_map_first)
  then show ?thesis
    by (simp add: attachment_name_fields_def repeat_lazy_def comp_def case_prod_beta' del: upt_Suc take_append drop_append)
qed

definition plain_attachment :: "attachment_ref \<Rightarrow> bool" where
  "plain_attachment a \<longleftrightarrow> plain_name (att_name a) \<and> plain_field (attachment_id a) \<and>
     plain_field (mime_type a) \<and> plain_field (content_kind a) \<and> 0 \<le> size_bytes a \<and>
     one_line (expires_at a) \<and> one_line (py_strip (text_preview a))"

text \<open>What a transcript keeps of an attachment.\<close>

definition listed_attachment :: "attachment_ref \<Rightarrow> attachment_ref" where
  "listed_attachment a =
     \<lparr>attachment_id = attachment_id a, att_name = att_name a, mime_type = mime_type a,
      size_bytes = size_bytes a, content_kind = content_kind a, att_source = ''user_attachment'',
      text_preview = [], text_chars = None, expires_at = [], metadata = []\<rparr>"

definition attachment_line :: "nat \<Rightarrow> attachment_ref \<Rightarrow> string" where
  "attachment_line index a = nat_str index @ ''. '' @ att_name a @ '' '' @ field_text a"

lemma attachment_lines_line:
  "attachment_lines index a = attachment_line index a #
     (if expires_at a \<noteq> [] then [''   expires_at: '' @ expires_at a] else []) @
     (if py_strip (text_preview a) \<noteq> [] then [''   preview: '' @ py_strip (text_preview a)] else [])"
  by (simp add: attachment_lines_def attachment_line_def field_text_def Let_def)

lemma digit_not_space: "is_digit c \<Longrightarrow> \<not> py_space c"
  by (auto simp: is_digit_def py_space_def)

lemma nat_str_head: "is_digit (hd (nat_str n))" "nat_str n = hd (nat_str n) # tl (nat_str n)"
  using nat_str_digits [of n] nat_str_nonempty [of n] by (cases "nat_str n"; simp)+

lemma attachment_from_line_line:
  assumes "plain_attachment a"
  shows "attachment_from_line (attachment_line index a) = Some (listed_attachment a)"
proof -
  let ?n = "nat_str index" and ?t = "tl (field_text a)"
  let ?rest = "att_name a @ CHR '' '' # CHR ''('' # ?t"
  have fields: "field_text a = CHR ''('' # ?t" by (simp add: field_text_def)
  have line: "attachment_line index a = ?n @ CHR ''.'' # CHR '' '' # ?rest"
    using fields by (simp add: attachment_line_def)
  obtain r0 where "attachment_fields (CHR ''('' # ?t) =
      (attachment_id a, mime_type a, content_kind a, int_str (size_bytes a)) # r0"
    using attachment_fields_first [of a "[]"] assms fields by (auto simp: plain_attachment_def)
  then obtain r1 where first: "attachment_name_fields ?rest =
      (att_name a, attachment_id a, mime_type a, content_kind a, int_str (size_bytes a)) # r1"
    using attachment_name_fields_first assms unfolding plain_attachment_def by blast
  have head: "\<not> py_space (hd (?n @ s))" for s
    using nat_str_head [of index] by (metis digit_not_space hd_append nat_str_nonempty)
  have name: "\<not> py_space (hd ?rest)"
    using assms by (simp add: plain_attachment_def plain_name_def)
  have "takeWhile py_space (?n @ CHR ''.'' # CHR '' '' # ?rest) = []"
    using head [of "CHR ''.'' # CHR '' '' # ?rest"] by (cases "?n @ CHR ''.'' # CHR '' '' # ?rest") simp_all
  then have spaces: "repeat_greedy 0 py_space (?n @ CHR ''.'' # CHR '' '' # ?rest) =
      [([], ?n @ CHR ''.'' # CHR '' '' # ?rest)]"
    by (simp add: repeat_greedy_def)
  obtain r2 where digits: "repeat_greedy (Suc 0) is_digit (?n @ CHR ''.'' # CHR '' '' # ?rest) =
      (?n, CHR ''.'' # CHR '' '' # ?rest) # r2"
    using repeat_greedy_stop [OF nat_str_digits, of "CHR ''.'' # CHR '' '' # ?rest" 1 index] nat_str_nonempty [of index]
    by (auto simp: Suc_le_eq)
  have "\<exists>r. attachment_line_matches (attachment_line index a) =
      (att_name a, attachment_id a, mime_type a, content_kind a, int_str (size_bytes a)) # r"
    unfolding attachment_line_matches_def line
    using name by (simp add: spaces digits space_part first)
  moreover have "parse_nat (int_str (size_bytes a)) = nat (size_bytes a)"
    using assms by (simp add: plain_attachment_def int_str_def)
  ultimately show ?thesis
    using assms by (auto simp: attachment_from_line_def listed_attachment_def plain_attachment_def)
qed

text \<open>A line whose first visible character is no digit lists no attachment.\<close>

lemma repeat_greedy_none: "s = [] \<or> \<not> p (hd s) \<Longrightarrow> repeat_greedy (Suc 0) p s = []"
  by (cases s) (auto simp: repeat_greedy_def)

lemma no_attachment_line:
  assumes "py_lstrip line = [] \<or> \<not> is_digit (hd (py_lstrip line))"
  shows "attachment_from_line line = None"
proof -
  have "repeat_greedy (Suc 0) is_digit (drop k line) = []" if "k \<le> length (takeWhile py_space line)" for k
  proof (rule repeat_greedy_none)
    show "drop k line = [] \<or> \<not> is_digit (hd (drop k line))"
    proof (cases "k < length (takeWhile py_space line)")
      case True
      then have "k < length line" using length_takeWhile_le [of py_space line] by linarith
      then have "hd (drop k line) = takeWhile py_space line ! k"
        using True by (simp add: hd_drop_conv_nth takeWhile_nth)
      with True show ?thesis by (metis digit_not_space nth_mem set_takeWhileD)
    next
      case False
      with that have "drop k line = py_lstrip line"
        by (simp add: py_lstrip_def dropWhile_eq_drop)
      with assms show ?thesis by simp
    qed
  qed
  then have "attachment_line_matches line = []"
    by (auto simp: attachment_line_matches_def repeat_greedy_def [of 0])
  then show ?thesis by (simp add: attachment_from_line_def)
qed

lemma lstrip_indent: "\<not> py_space c \<Longrightarrow> py_lstrip (''   '' @ c # s) = c # s"
  by (simp add: py_lstrip_def)

lemma other_lines:
  "attachment_from_line (''   expires_at: '' @ s) = None"
  "attachment_from_line (''   preview: '' @ s) = None"
  "attachment_from_line ''</attachments>'' = None"
  "list_all (\<lambda>l. attachment_from_line l = None) manifest_header"
  by (auto intro!: no_attachment_line simp: py_lstrip_def manifest_header_def is_digit_def code_def py_space_def)

lemma entries_lines:
  assumes "list_all plain_attachment as"
  shows "List.map_filter attachment_from_line (manifest_entries index as) = map listed_attachment as"
  using assms
proof (induction as arbitrary: index)
  case Nil
  show ?case by (simp add: List.map_filter_def)
next
  case (Cons a as)
  then show ?case
    by (auto simp: attachment_lines_line attachment_from_line_line other_lines [simplified] List.map_filter_def)
qed

lemma is_line_break_digit: "is_digit c \<Longrightarrow> \<not> is_line_break c"
  by (auto simp: is_digit_def is_line_break_def)

lemma nat_str_one_line: "one_line (nat_str n)"
  using nat_str_digits [of n] by (auto simp: one_line_def list_all_iff is_line_break_digit)

lemma entries_one_line:
  assumes "list_all plain_attachment as"
  shows "list_all one_line (manifest_entries index as)"
  using assms
proof (induction as arbitrary: index)
  case (Cons a as)
  have "one_line (attachment_line index a)"
    using Cons.prems nat_str_one_line [of index] nat_str_one_line [of "nat (size_bytes a)"]
    by (simp add: attachment_line_def field_text_def plain_attachment_def plain_name_def plain_field_def
        int_str_def is_line_break_def code_def)
  with Cons show ?case
    by (simp add: attachment_lines_line plain_attachment_def is_line_break_def code_def)
qed simp

lemma header_one_line: "list_all one_line manifest_header"
  by (simp add: manifest_header_def is_line_break_def code_def)

text \<open>
  C19. The transcript lists exactly the attachments of a turn: reading the manifest text that was
  put into the model's message gives back every attachment, in order, with its id, name, type,
  kind and size. The condition is that names are not empty, of one line, without surrounding space and
  without the text that opens the fields, that ids, types and kinds have no comma, closing parenthesis
  or line break, that sizes are not negative, and that previews and expiry times are of one line.
\<close>

theorem manifest_roundtrip:
  assumes "list_all plain_attachment as"
  shows "attachments_from_text (attachment_manifest_text as) = map listed_attachment as"
proof (cases "as = []")
  case True
  then show ?thesis by (simp add: attachment_manifest_text_def attachments_from_text_def)
next
  case False
  let ?lines = "manifest_header @ manifest_entries 1 as @ [''</attachments>'']"
  have manifest: "attachment_manifest_text as = py_join newline ?lines"
    using False by (simp add: attachment_manifest_text_def)
  obtain rest where "attachment_manifest_text as = ''<attachments>'' @ rest"
    using manifest_starts [OF False] by blast
  then have "py_contains ''<attachments>'' (attachment_manifest_text as)"
    using py_contains_append [of "''<attachments>''" "[]" rest] by simp
  moreover have "py_splitlines (attachment_manifest_text as) = ?lines"
    unfolding manifest
  proof (rule splitlines_join)
    show "list_all one_line ?lines"
      using entries_one_line [OF assms, of 1] header_one_line
      by (simp add: is_line_break_def code_def)
  qed simp_all
  moreover have "List.map_filter attachment_from_line ?lines = map listed_attachment as"
  proof -
    have "List.map_filter attachment_from_line manifest_header = []"
      using other_lines(4) by (simp add: manifest_header_def map_filter_simps)
    then show ?thesis
      using entries_lines [OF assms, of 1] other_lines(3) by (simp add: List.map_filter_def)
  qed
  ultimately show ?thesis by (simp add: attachments_from_text_def)
qed

definition sample_attachment :: attachment_ref where
  "sample_attachment =
     \<lparr>attachment_id = ''att-1'', att_name = ''report (final).pdf'', mime_type = ''application/pdf'',
      size_bytes = 2048, content_kind = ''pdf'', att_source = ''user_attachment'', text_preview = ''Q1'',
      text_chars = Some 2, expires_at = [], metadata = []\<rparr>"

theorem manifest_roundtrip_witness:
  "attachments_from_text (attachment_manifest_text [sample_attachment]) = [listed_attachment sample_attachment]"
  using manifest_roundtrip [of "[sample_attachment]"]
  by (simp add: sample_attachment_def plain_attachment_def plain_name_def plain_field_def is_field_def
      is_line_break_def py_space_def code_def py_startswith_def py_strip_def py_lstrip_def)

text \<open>
  A preview of several lines is not read back as text: a line of the file that looks like a line
  of the manifest becomes an attachment of the message.
\<close>

lemma strip_solid:
  assumes "s \<noteq> []" and "\<not> py_space (hd s)" and "\<not> py_space (last s)"
  shows "py_strip s = s"
proof -
  have "py_lstrip s = s" using assms by (cases s) (simp_all add: py_lstrip_def)
  moreover have "dropWhile py_space (rev s) = rev s"
    using assms by (cases "rev s") (auto simp: hd_rev [symmetric])
  ultimately show ?thesis by (simp add: py_strip_def)
qed

lemma preview_forges_attachment:
  assumes "plain_attachment (a\<lparr>text_preview := []\<rparr>)" and "plain_attachment b"
    and "x \<noteq> []" and "one_line x" and "\<not> py_space (hd x)"
  shows "attachments_from_text (attachment_manifest_text
     [a\<lparr>text_preview := x @ newline @ attachment_line k b\<rparr>]) = [listed_attachment a, listed_attachment b]"
proof -
  let ?a = "a\<lparr>text_preview := []\<rparr>"
  let ?p = "x @ newline @ attachment_line k b"
  let ?expires = "if expires_at a \<noteq> [] then [''   expires_at: '' @ expires_at a] else []"
  let ?lines = "manifest_header @ attachment_line 1 ?a # ?expires @
    [''   preview: '' @ x, attachment_line k b, ''</attachments>'']"
  have last: "last ?p = CHR '')''" by (simp add: attachment_line_def field_text_def)
  have strip: "py_strip ?p = ?p"
    using assms(3,5) last by (intro strip_solid) (simp_all add: py_space_def code_def)
  have line: "attachment_line 1 (a\<lparr>text_preview := ?p\<rparr>) = attachment_line 1 ?a"
    by (simp add: attachment_line_def field_text_def)
  have joined: "py_join newline (ls @ [m @ newline @ l, f]) = py_join newline (ls @ [m, l, f])" for ls m l f
    by (induction ls) (simp_all add: py_join_Cons)
  have "attachment_manifest_text [a\<lparr>text_preview := ?p\<rparr>] = py_join newline
      ((manifest_header @ attachment_line 1 ?a # ?expires) @ [(''   preview: '' @ x) @ newline @ attachment_line k b, ''</attachments>''])"
    using strip line assms(3) by (simp add: attachment_manifest_text_def attachment_lines_line)
  then have manifest: "attachment_manifest_text [a\<lparr>text_preview := ?p\<rparr>] = py_join newline ?lines"
    unfolding joined by simp
  have "one_line (expires_at a)" using assms(1) by (simp add: plain_attachment_def)
  then have lines: "list_all one_line ?lines"
    using entries_one_line [of "[?a]" 1] entries_one_line [of "[b]" k] assms header_one_line
    by (simp add: attachment_lines_line is_line_break_def code_def)
  have contained: "py_contains ''<attachments>'' (attachment_manifest_text [a\<lparr>text_preview := ?p\<rparr>])"
    using manifest_starts [of "[a\<lparr>text_preview := ?p\<rparr>]"] py_contains_append [of "''<attachments>''" "[]"] by auto
  have split: "py_splitlines (attachment_manifest_text [a\<lparr>text_preview := ?p\<rparr>]) = ?lines"
    unfolding manifest by (rule splitlines_join [OF lines]) simp_all
  have "List.map_filter attachment_from_line manifest_header = []"
    using other_lines(4) by (simp add: manifest_header_def map_filter_simps)
  then have "List.map_filter attachment_from_line ?lines = [listed_attachment ?a, listed_attachment b]"
    using attachment_from_line_line [OF assms(1), of 1] attachment_from_line_line [OF assms(2), of k] other_lines(1-3)
    by (simp add: List.map_filter_def)
  with contained split show ?thesis
    by (simp add: attachments_from_text_def listed_attachment_def)
qed

section \<open>Pages\<close>

definition messages_bytes :: "chat_message list \<Rightarrow> int" where
  "messages_bytes ms = TRANSCRIPT_QUERY_BASE_OVERHEAD_BYTES + (\<Sum>m \<leftarrow> ms. chat_message_query_bytes m)"

definition page_window :: "chat_message list \<Rightarrow> int \<Rightarrow> int \<Rightarrow> chat_message list" where
  "page_window transcript first until = map (\<lambda>i. transcript ! nat i) [first..until - 1]"

definition older :: "chat_message list \<Rightarrow> int \<Rightarrow> int \<Rightarrow> (int \<times> chat_message) list" where
  "older transcript lower index = rev (map (\<lambda>i. (i, transcript ! nat i)) [lower..index - 1])"

lemma older_empty: "index \<le> lower \<Longrightarrow> older transcript lower index = []"
  by (simp add: older_def)

lemma older_Cons:
  "lower < index \<Longrightarrow> older transcript lower index =
     (index - 1, transcript ! nat (index - 1)) # older transcript lower (index - 1)"
  using upto_rec2 [of lower "index - 1"] by (simp add: older_def)

lemma page_window_Cons:
  "first \<le> until \<Longrightarrow> page_window transcript (first - 1) until = transcript ! nat (first - 1) # page_window transcript first until"
  using upto_rec1 [of "first - 1" "until - 1"] by (simp add: page_window_def)

lemma page_window_slice:
  assumes "0 \<le> first" and "first \<le> until" and "until \<le> int (length transcript)"
  shows "page_window transcript first until = take (nat (until - first)) (drop (nat first) transcript)"
proof (rule nth_equalityI)
  show "length (page_window transcript first until) = length (take (nat (until - first)) (drop (nat first) transcript))"
    using assms by (simp add: page_window_def)
next
  fix i
  assume "i < length (page_window transcript first until)"
  then have i: "int i < until - first" by (simp add: page_window_def)
  then have "[first..until - 1] ! i = first + int i" by simp
  with assms i show "page_window transcript first until ! i = take (nat (until - first)) (drop (nat first) transcript) ! i"
    by (simp add: page_window_def nat_add_distrib)
qed

lemma page_loop_window:
  assumes "page_loop most (older tr lower index) (page_window tr index until) bytes index = (ms, bytes', start, limited)"
    and "lower \<le> index" and "index \<le> until"
    and "bytes = messages_bytes (page_window tr index until)" and "bytes \<le> most"
  shows "lower \<le> start \<and> start \<le> index \<and> ms = page_window tr start until \<and> bytes' = messages_bytes ms
       \<and> bytes' \<le> most \<and> (\<not> limited \<longrightarrow> start = lower)
     \<or> limited \<and> index = until \<and> lower < until \<and> start = until - 1 \<and> bytes' = messages_bytes ms
       \<and> ms = [truncate_chat_message_for_query (tr ! nat start)
                (max 0 (most - messages_bytes [] - TRANSCRIPT_QUERY_MESSAGE_OVERHEAD_BYTES))]"
    (is "?P index")
  using assms
proof (induction "nat (index - lower)" arbitrary: index bytes)
  case 0
  then have "index = lower" by simp
  with 0 show ?case by (auto simp: older_empty)
next
  case (Suc n)
  let ?m = "tr ! nat (index - 1)"
  from Suc.hyps(2) have lower: "lower < index" by linarith
  note unfolded = Suc.prems(1) [unfolded older_Cons [OF lower] page_loop.simps Let_def]
  show ?case
  proof (cases "bytes + chat_message_query_bytes ?m \<le> most")
    case True
    have step: "page_window tr (index - 1) until = ?m # page_window tr index until"
      by (rule page_window_Cons [OF Suc.prems(3)])
    have bytes: "bytes + chat_message_query_bytes ?m = messages_bytes (page_window tr (index - 1) until)"
      using Suc.prems(4) by (simp add: step messages_bytes_def)
    have n: "n = nat (index - 1 - lower)" using Suc.hyps(2) by simp
    have run: "page_loop most (older tr lower (index - 1)) (page_window tr (index - 1) until)
        (bytes + chat_message_query_bytes ?m) (index - 1) = (ms, bytes', start, limited)"
      using unfolded True step by simp
    have "lower \<le> index - 1" "index - 1 \<le> until" using lower Suc.prems(3) by simp_all
    from Suc.hyps(1) [OF n run this bytes True] Suc.prems(3) show ?thesis by linarith
  next
    case False
    show ?thesis
    proof (cases "index = until")
      case True
      then have "page_window tr index until = []" by (simp add: page_window_def)
      with False True unfolded lower Suc.prems(4) show ?thesis
        by (auto simp: messages_bytes_def)
    next
      case index: False
      then have "page_window tr index until \<noteq> []" using Suc.prems(3) by (simp add: page_window_def)
      with False index unfolded lower Suc.prems show ?thesis by auto
    qed
  qed
qed

lemma sum_bytes_nonneg: "0 \<le> text_bytes s"
  by (simp add: text_bytes_def)

lemma utf8_char_length: "length (utf8_char c) = 1 \<or> length (utf8_char c) = 2"
  by (simp add: utf8_char_def)

text \<open>What decoding makes of cut text takes no more bytes than there were.\<close>

lemma utf8_decode_length: "list_all (\<lambda>b. b < 256) bs \<Longrightarrow> length (utf8_encode (utf8_decode_ignore bs)) \<le> length bs"
proof (induction bs rule: utf8_decode_ignore.induct)
  case (3 b c bs)
  then show ?case
    by (auto simp: utf8_encode_def utf8_char_def code_def)
qed (auto simp: utf8_encode_def utf8_char_def code_def)

lemma utf8_encode_bytes: "list_all (\<lambda>b. b < 256) (utf8_encode s)"
proof (induction s)
  case (Cons c s)
  have "code c div 64 < 4" using code_less [of c] by linarith
  moreover have "code c mod 64 < 64" by simp
  ultimately have "192 + code c div 64 < 256" "128 + code c mod 64 < 256" by linarith+
  with Cons show ?case by (simp add: utf8_encode_def utf8_char_def)
qed (simp add: utf8_encode_def)

lemma list_all_take: "list_all P xs \<Longrightarrow> list_all P (take n xs)"
  by (auto simp: list_all_iff dest: in_set_takeD)

lemma truncate_text_bytes_bound: "text_bytes (truncate_text_bytes s n) \<le> max 0 n"
proof -
  have "length (utf8_encode (utf8_decode_ignore (take (nat n) (utf8_encode s)))) \<le> length (take (nat n) (utf8_encode s))"
    by (intro utf8_decode_length list_all_take utf8_encode_bytes)
  then have "length (utf8_encode (utf8_decode_ignore (take (nat n) (utf8_encode s)))) \<le> nat n" by simp
  then show ?thesis by (auto simp: truncate_text_bytes_def text_bytes_def utf8_encode_def)
qed

lemma text_bytes_append: "text_bytes (s @ t) = text_bytes s + text_bytes t"
  by (simp add: text_bytes_def utf8_encode_def)

lemma byte_limit_bounds:
  "TRANSCRIPT_QUERY_MIN_MAX_BYTES \<le> transcript_byte_limit b" "transcript_byte_limit b \<le> TRANSCRIPT_QUERY_HARD_MAX_BYTES"
  by (simp_all add: transcript_byte_limit_def transcript_limits Let_def)

lemma notice_bytes: "text_bytes TRANSCRIPT_TRUNCATION_NOTICE = 77"
  by (simp add: text_bytes_def utf8_encode_def utf8_char_def code_def TRANSCRIPT_TRUNCATION_NOTICE_def)

lemma truncated_message_bytes:
  assumes "TRANSCRIPT_QUERY_MIN_MAX_BYTES \<le> most"
  shows "messages_bytes [truncate_chat_message_for_query m
     (max 0 (most - messages_bytes [] - TRANSCRIPT_QUERY_MESSAGE_OVERHEAD_BYTES))]
    \<le> most + text_bytes (chat_role_str (ch_role m)) + (\<Sum>a \<leftarrow> ch_attachments m. attachment_query_bytes a)"
  using truncate_text_bytes_bound [of "ch_content m" "max 0 (max 0 (most - 2048 - 512) - 77)"] assms
  by (simp add: messages_bytes_def chat_message_query_bytes_def truncate_chat_message_for_query_def Let_def
      text_bytes_append notice_bytes transcript_limits)

text \<open>
  A page of the transcript is a contiguous part of it, at most 200 messages that end where
  the page was asked to end, and its size is bounded: without truncation its messages fit the
  byte limit, and otherwise it is the single newest message with its text cut, over the limit by
  at most its role and its attachments; a page that was not limited reaches down to its full
  length.
\<close>

theorem transcript_page_is_bounded_window:
  fixes transcript :: "chat_message list" and before max_bytes :: "int option" and revision limit :: int
  defines "page \<equiv> transcript_page transcript revision before limit max_bytes"
  shows "0 \<le> tp_start page \<and> tp_start page \<le> tp_end page \<and> tp_end page \<le> int (length transcript)
       \<and> tp_end page - tp_start page \<le> 200 \<and> int (length (tp_messages page)) = tp_end page - tp_start page
       \<and> tp_byte_limit page \<le> TRANSCRIPT_QUERY_HARD_MAX_BYTES
       \<and> (tp_messages page = take (nat (tp_end page - tp_start page)) (drop (nat (tp_start page)) transcript)
           \<and> messages_bytes (tp_messages page) \<le> tp_byte_limit page
           \<and> (tp_limited page \<or> tp_start page = max 0 (tp_end page - page_limit limit))
         \<or> (\<exists>n. tp_limited page \<and> tp_start page = tp_end page - 1
           \<and> tp_messages page = [truncate_chat_message_for_query (transcript ! nat (tp_start page)) n]
           \<and> messages_bytes (tp_messages page) \<le> tp_byte_limit page
               + text_bytes (chat_role_str (ch_role (transcript ! nat (tp_start page))))
               + (\<Sum>a \<leftarrow> ch_attachments (transcript ! nat (tp_start page)). attachment_query_bytes a)))"
proof -
  let ?until = "page_end before (int (length transcript))"
  let ?lower = "max 0 (?until - page_limit limit)"
  let ?most = "transcript_byte_limit max_bytes"
  obtain ms bytes start limited where loop:
    "page_loop ?most (older transcript ?lower ?until) (page_window transcript ?until ?until) (messages_bytes []) ?until = (ms, bytes, start, limited)"
    by (metis prod_cases4)
  have page: "tp_messages page = ms" "tp_start page = start" "tp_end page = ?until" "tp_limited page = limited"
    "tp_byte_limit page = ?most"
    using loop by (simp_all add: page_def transcript_page_def Let_def older_def page_window_def messages_bytes_def)
  have bounds: "0 \<le> ?until" "?until \<le> int (length transcript)" "?lower \<le> ?until" "?until - ?lower \<le> 200"
    by (auto simp: page_end_def page_limit_def split: option.split)
  have base: "messages_bytes [] = messages_bytes (page_window transcript ?until ?until)" "messages_bytes [] \<le> ?most"
    using byte_limit_bounds(1) [of max_bytes] by (simp_all add: page_window_def messages_bytes_def transcript_limits)
  note cases = page_loop_window [OF loop bounds(3) order_refl base]
  from cases show ?thesis
  proof
    assume first: "?lower \<le> start \<and> start \<le> ?until \<and> ms = page_window transcript start ?until \<and> bytes = messages_bytes ms
       \<and> bytes \<le> ?most \<and> (\<not> limited \<longrightarrow> start = ?lower)"
    then have "ms = take (nat (?until - start)) (drop (nat start) transcript)"
      using bounds by (simp add: page_window_slice)
    moreover from first have "int (length ms) = ?until - start" by (simp add: page_window_def)
    ultimately show ?thesis
      unfolding page using first bounds byte_limit_bounds(2) [of max_bytes] by auto
  next
    assume "limited \<and> ?until = ?until \<and> ?lower < ?until \<and> start = ?until - 1 \<and> bytes = messages_bytes ms
       \<and> ms = [truncate_chat_message_for_query (transcript ! nat start)
                (max 0 (?most - messages_bytes [] - TRANSCRIPT_QUERY_MESSAGE_OVERHEAD_BYTES))]"
    then show ?thesis
      unfolding page
      using bounds byte_limit_bounds(2) [of max_bytes] truncated_message_bytes [OF byte_limit_bounds(1) [of max_bytes], of "transcript ! nat start"]
      by auto
  qed
qed

end
