(* ===== verification/Mcp.thy ===== *)
theory Mcp
  imports ToolProperties
begin

text \<open>
  \<open>agent_harness/mcp_types.py\<close> and the part of \<open>agent_harness/mcp.py\<close> that runs in the workflow: the
  configuration of MCP servers, the public names of their tools, their registration with a tool
  set, and the payload of a failed call. The network sessions are not modelled.
\<close>

section \<open>Servers and tools\<close>

record mcp_tool_config =
  mt_name :: string
  mt_description :: string
  mt_input_schema :: pydict
  mt_public_name :: "string option"

record mcp_server_config =
  ms_server_id :: string
  ms_label :: string
  ms_server_url :: string
  ms_tool_prefix :: string
  ms_auth_ref :: "string option"
  ms_auth_mode :: string
  ms_enabled :: bool
  ms_tools :: "mcp_tool_config list"

text \<open>
  \<open>re.sub(r"[^A-Za-z0-9_-]+", "_", value.strip())\<close>: every run of other characters becomes one
  underscore.
\<close>

definition name_char :: "char \<Rightarrow> bool" where
  "name_char c \<longleftrightarrow> (65 \<le> code c \<and> code c \<le> 90) \<or> (97 \<le> code c \<and> code c \<le> 122) \<or>
     (48 \<le> code c \<and> code c \<le> 57) \<or> c = CHR ''_'' \<or> c = CHR ''-''"

fun replace_runs :: "bool \<Rightarrow> string \<Rightarrow> string" where
  "replace_runs in_run [] = []"
| "replace_runs in_run (c # s) =
     (if name_char c then c # replace_runs False s
      else if in_run then replace_runs True s
      else CHR ''_'' # replace_runs True s)"

definition strip_chars :: "(char \<Rightarrow> bool) \<Rightarrow> string \<Rightarrow> string" where
  "strip_chars p s = rev (dropWhile p (rev (dropWhile p s)))"

definition sanitize_tool_name :: "string \<Rightarrow> string" where
  "sanitize_tool_name value =
     (let sanitized = strip_chars (\<lambda>c. c = CHR ''_'' \<or> c = CHR ''-'') (replace_runs False (py_strip value))
      in if sanitized \<noteq> [] then sanitized else ''mcp'')"

definition public_mcp_tool_name :: "string \<Rightarrow> string \<Rightarrow> string" where
  "public_mcp_tool_name tool_prefix tool_name =
     (let prefix = sanitize_tool_name tool_prefix;
          name = sanitize_tool_name tool_name;
          public_name = (if prefix \<noteq> [] then prefix @ ''__'' @ name else name)
      in take 64 public_name)"

definition public_tool_name :: "mcp_server_config \<Rightarrow> string \<Rightarrow> string" where
  "public_tool_name server tool_name = public_mcp_tool_name (ms_tool_prefix server) tool_name"

text \<open>The expression \<open>tool.public_name or server.public_tool_name(tool.name)\<close>.\<close>

definition registered_name :: "mcp_server_config \<Rightarrow> mcp_tool_config \<Rightarrow> string" where
  "registered_name server t =
     (case mt_public_name t of Some (c # cs) \<Rightarrow> c # cs | _ \<Rightarrow> public_tool_name server (mt_name t))"

definition mcp_tool_description :: "mcp_server_config \<Rightarrow> mcp_tool_config \<Rightarrow> string" where
  "mcp_tool_description server t =
     (if mt_description t \<noteq> [] then mt_description t else ''MCP tool '' @ mt_name t) @ newline @ newline @
     ''MCP server: '' @ ms_label server @ '' ('' @ ms_server_id server @ '').''"

section \<open>The provider\<close>

text \<open>
  \<open>HttpMcpProvider\<close> is its configuration. The function that runs a tool is a closure, known by its
  identity (\<open>closure_id\<close> gives that of the closure for a public name); the table of tool names the
  closures consult is \<open>provider_tool_names\<close>.
\<close>

definition provider_tool_names :: "mcp_server_config \<Rightarrow> (string \<times> string) list" where
  "provider_tool_names server =
     fold (\<lambda>t. AList.update (registered_name server t) (mt_name t)) (ms_tools server) []"

definition mcp_tool_names :: "mcp_server_config \<Rightarrow> string list" where
  "mcp_tool_names server = (if \<not> ms_enabled server then [] else map (registered_name server) (ms_tools server))"

definition mcp_runner :: "nat \<Rightarrow> tool_fn" where
  "mcp_runner identity =
     \<lparr>tf_guard = \<lparr>gf_function = \<lparr>fn_id = identity, fn_name = ''run_mcp_tool'', fn_params =
        [\<lparr>par_name = ''ctx'', par_kind = PositionalOrKeyword, par_annotation = Some ''ToolContext'', par_default = None\<rparr>,
         \<lparr>par_name = ''args'', par_kind = PositionalOrKeyword, par_annotation = Some ''dict'', par_default = None\<rparr>]\<rparr>,
        gf_metadata = None\<rparr>,
      tf_metadata = None\<rparr>"

fun register_mcp_tools ::
  "(string \<Rightarrow> model_fields \<Rightarrow> pydict res) \<Rightarrow> (string \<Rightarrow> nat) \<Rightarrow> mcp_server_config \<Rightarrow> mcp_tool_config list
   \<Rightarrow> (tool_set, unit) op" where
  "register_mcp_tools schema_of closure_id server [] = op_return ()"
| "register_mcp_tools schema_of closure_id server (t # ts) =
     (let public_name = registered_name server t in
      op_bind (add_dynamic_tool schema_of public_name (mcp_tool_description server t) (mt_input_schema t)
          (PStr ''mcp'') (mcp_runner (closure_id public_name)) [GuardName ''mutating_tool_approval''] [])
        (\<lambda>_. register_mcp_tools schema_of closure_id server ts))"

definition register_mcp ::
  "(string \<Rightarrow> model_fields \<Rightarrow> pydict res) \<Rightarrow> (string \<Rightarrow> nat) \<Rightarrow> mcp_server_config \<Rightarrow> (tool_set, unit) op" where
  "register_mcp schema_of closure_id server =
     (if \<not> ms_enabled server then op_return ()
      else register_mcp_tools schema_of closure_id server (ms_tools server))"

section \<open>Failed calls\<close>

text \<open>
  An exception or a group of exceptions. \<open>_flatten_exception\<close> lists the exceptions of a group; the
  text of an exception is its \<open>str\<close>.
\<close>

datatype exn_tree = Single string string | Group string string "exn_tree list"

fun flatten_exception :: "exn_tree \<Rightarrow> (string \<times> string) list" where
  "flatten_exception (Single ty msg) = [(ty, msg)]"
| "flatten_exception (Group ty msg errs) = concat (map flatten_exception errs)"

definition exn_tree_type :: "exn_tree \<Rightarrow> string" where
  "exn_tree_type err = (case err of Single ty _ \<Rightarrow> ty | Group ty _ _ \<Rightarrow> ty)"

fun first_error_message :: "(string \<times> string) list \<Rightarrow> string" where
  "first_error_message [] = ''MCP tool call failed.''"
| "first_error_message ((_, msg) # errors) =
     (if py_strip msg \<noteq> [] then py_strip msg else first_error_message errors)"

definition mcp_error_payload :: "exn_tree \<Rightarrow> pydict" where
  "mcp_error_payload err =
     (let errors = flatten_exception err;
          reauthorization_required = list_ex (\<lambda>(_, msg).
            py_contains ''MCP OAuth token requires reauthorization'' msg \<or>
            py_contains ''MCP auth connection was not found'' msg) errors;
          msg = (if reauthorization_required then ''MCP OAuth token requires reauthorization.''
                 else first_error_message errors)
      in [(''content'', PList [PDict [(''type'', PStr ''text''), (''text'', PStr msg)]]),
          (''structured_content'', PDict [(''error'', PStr msg),
             (''reauthorization_required'', PBool reauthorization_required)]),
          (''is_error'', PBool True),
          (''meta'', PDict [(''error_type'', PStr (exn_tree_type err)),
             (''errors'', PList (map (\<lambda>(ty, m). PDict [(''type'', PStr ty), (''message'', PStr m)])
                (filter (\<lambda>(_, m). m \<noteq> []) errors)))])])"

definition is_cancelled_exception_group :: "exn_tree \<Rightarrow> bool" where
  "is_cancelled_exception_group err =
     (let errors = flatten_exception err in
      errors \<noteq> [] \<and> list_all (\<lambda>(ty, _). ty = ''CancelledError'') errors)"

definition auth_ref_candidates :: "string option \<Rightarrow> string option \<Rightarrow> string list" where
  "auth_ref_candidates auth_ref server_id =
     foldl (\<lambda>candidates candidate. case candidate of
         None \<Rightarrow> candidates
       | Some c \<Rightarrow> if c \<noteq> [] \<and> c \<notin> set candidates then candidates @ [c] else candidates)
       [] [auth_ref, server_id]"

section \<open>Public names\<close>

lemma replace_runs_chars: "list_all name_char (replace_runs r s)"
  by (induction r s rule: replace_runs.induct) (auto simp: name_char_def)

lemma strip_chars_subset: "list_all P s \<Longrightarrow> list_all P (strip_chars p s)"
  by (auto simp: strip_chars_def list_all_iff dest!: set_dropWhileD)

lemma sanitize_tool_name_chars: "list_all name_char (sanitize_tool_name s)" "sanitize_tool_name s \<noteq> []"
  using strip_chars_subset [OF replace_runs_chars]
  by (auto simp: sanitize_tool_name_def Let_def name_char_def code_def)

text \<open>
  The name a tool of an MCP server gets is always one the providers accept: not empty, at
  most 64 characters, of letters, digits, underscores and hyphens only, whatever the server calls
  its tools.
\<close>

theorem public_mcp_name_is_valid:
  "public_mcp_tool_name prefix name \<noteq> [] \<and> length (public_mcp_tool_name prefix name) \<le> 64 \<and>
   list_all name_char (public_mcp_tool_name prefix name)"
proof -
  let ?full = "sanitize_tool_name prefix @ ''__'' @ sanitize_tool_name name"
  have "public_mcp_tool_name prefix name = take 64 ?full"
    using sanitize_tool_name_chars(2) [of prefix] by (simp only: public_mcp_tool_name_def Let_def if_True simp_thms)
  moreover have "list_all name_char (take 64 ?full)"
  proof -
    have "list_all name_char ?full"
      using sanitize_tool_name_chars(1) by (simp add: name_char_def)
    then show ?thesis
      by (simp only: list_all_iff) (meson in_set_takeD)
  qed
  ultimately show ?thesis
    using sanitize_tool_name_chars(2) [of prefix] by (simp only: take_eq_Nil length_take) simp
qed

text \<open>Registering a server only adds tools.\<close>

lemma register_mcp_adds [adding]:
  "only_adds tool_registry (register_mcp schema_of ids server)"
  "only_adds guard_entries (register_mcp schema_of ids server)"
proof -
  have "only_adds tool_registry (register_mcp_tools schema_of ids server ts)"
    and "only_adds guard_entries (register_mcp_tools schema_of ids server ts)" for ts
    by (induction ts) (auto simp: Let_def intro!: adding)
  then show "only_adds tool_registry (register_mcp schema_of ids server)"
    and "only_adds guard_entries (register_mcp schema_of ids server)"
    by (auto simp: register_mcp_def intro!: adding)
qed

end
