(* ===== verification/ChatWorkflow.thy ===== *)
theory ChatWorkflow
  imports Transcript Mcp Agent
begin

text \<open>
  \<open>simple_chat_agent/worker/workflow.py\<close>: the state of a chat workflow, its signal handlers, its
  queries, and the parts of its main loop between two suspensions. \<open>ChatSteps\<close> composes them.

  Points in time are microseconds; where the code stores the ISO text of a time, the record holds
  the time itself, and \<open>None\<close> for an empty or unreadable text.
\<close>

section \<open>Data\<close>

type_synonym datetime = int

definition CHAT_WORKFLOW_RUN_TTL :: int where
  "CHAT_WORKFLOW_RUN_TTL = 15 * 24 * 60 * 60 * 1000000"

definition TOOL_APPROVAL_TIMEOUT :: int where
  "TOOL_APPROVAL_TIMEOUT = 60 * 60 * 1000000"

record queued_chat_message =
  qm_content :: string
  qm_transcript_index :: int
  qm_attachments :: "attachment_ref list"
  qm_settle_after_revision :: int
  qm_available_tool_names :: "string list option"
  qm_github_connection_id :: "string option"
  qm_mcp_servers :: "mcp_server_config list option"

record active_turn =
  at_message :: "string option"
  at_attachments :: "attachment_ref list"
  at_settle_after_revision :: int

record chat_signal_request =
  cr_message :: string
  cr_attachments :: "attachment_ref list"
  cr_after_revision :: int
  cr_available_tool_names :: "string list"
  cr_github_connection_id :: "string option"
  cr_mcp_servers :: "mcp_server_config list"

record pending_approval =
  pa_approval_id :: string
  pa_tool_name :: string
  pa_tool_args :: pydict
  pa_summary :: string
  pa_memory_key :: string
  pa_expires_at :: "datetime option"
  pa_requesting_workflow_id :: "string option"
  pa_requesting_approval_id :: "string option"

record child_tool_approval_request =
  ca_child_workflow_id :: string
  ca_child_approval_id :: string
  ca_tool_name :: string
  ca_tool_args :: pydict

record simple_chat_input =
  ci_user_ref :: string
  ci_conversation_id :: string
  ci_system_prompt :: string
  ci_model :: string
  ci_max_tokens :: int
  ci_max_context_tokens :: int
  ci_thinking :: "pydict option"
  ci_max_turns :: int
  ci_stream_id :: "string option"
  ci_available_tool_names :: "string list"
  ci_github_connection_id :: "string option"
  ci_mcp_servers :: "mcp_server_config list"
  ci_agent_state :: "agent_state option"
  ci_agent_context_state :: "agent_state option"
  ci_pending_messages :: "queued_chat_message list"
  ci_active_message_index :: "int option"
  ci_active_settle_after_revision :: int
  ci_approval_memory :: "string list"
  ci_approval_counter :: int
  ci_good_place_censor :: bool
  ci_state_revision :: int
  ci_transcript_revision :: int
  ci_transcript_deltas :: "transcript_delta list"
  ci_last_touched_at :: "datetime option"

datatype chat_status = Starting | Idle | Responding

definition status_text :: "chat_status \<Rightarrow> string" where
  "status_text s = (case s of Starting \<Rightarrow> ''starting'' | Idle \<Rightarrow> ''idle'' | Responding \<Rightarrow> ''responding'')"

record chat_workflow =
  cw_pending_messages :: "queued_chat_message list"
  cw_status :: chat_status
  cw_agent :: "sliding_window agent option"
  cw_agent_context_state :: "agent_state option"
  cw_active_message_index :: "int option"
  cw_active_message :: "queued_chat_message option"
  cw_user_ref :: "string option"
  cw_conversation_id :: "string option"
  cw_model :: "string option"
  cw_thinking :: "pydict option"
  cw_available_tool_names :: "string set"
  cw_github_connection_id :: "string option"
  cw_mcp_servers :: "mcp_server_config list"
  cw_pending_approvals :: "(string \<times> pending_approval) list"
  cw_approval_decisions :: "(string \<times> string) list"
  cw_approval_memory :: "string set"
  cw_approval_counter :: int
  cw_delete_requested :: bool
  cw_stream_id :: "string option"
  cw_state_revision :: int
  cw_transcript_revision :: int
  cw_transcript_deltas :: "transcript_delta list"
  cw_run_started_at :: "datetime option"
  cw_last_touched_at :: "datetime option"
  cw_touched_this_run :: bool
  cw_active_settle_after_revision :: int

definition SimpleChatWorkflow :: chat_workflow where
  "SimpleChatWorkflow =
     \<lparr>cw_pending_messages = [], cw_status = Starting, cw_agent = None, cw_agent_context_state = None,
      cw_active_message_index = None, cw_active_message = None, cw_user_ref = None,
      cw_conversation_id = None, cw_model = None, cw_thinking = None, cw_available_tool_names = {},
      cw_github_connection_id = None, cw_mcp_servers = [], cw_pending_approvals = [],
      cw_approval_decisions = [], cw_approval_memory = {}, cw_approval_counter = 0,
      cw_delete_requested = False, cw_stream_id = None, cw_state_revision = 0,
      cw_transcript_revision = 0, cw_transcript_deltas = [], cw_run_started_at = None,
      cw_last_touched_at = None, cw_touched_this_run = False, cw_active_settle_after_revision = 0\<rparr>"

section \<open>Revisions and the rendered transcript\<close>

definition record_state_change :: "chat_workflow \<Rightarrow> chat_workflow" where
  "record_state_change w = w\<lparr>cw_state_revision := cw_state_revision w + 1\<rparr>"

definition bounded_deltas :: "transcript_delta list \<Rightarrow> transcript_delta list" where
  "bounded_deltas ds =
     (if length ds > TRANSCRIPT_DELTA_BUFFER_LIMIT
      then drop (length ds - TRANSCRIPT_DELTA_BUFFER_LIMIT) ds else ds)"

definition record_transcript_change :: "int option \<Rightarrow> chat_message option \<Rightarrow> chat_workflow \<Rightarrow> chat_workflow" where
  "record_transcript_change index m w =
     (let w = w\<lparr>cw_transcript_revision := cw_transcript_revision w + 1\<rparr> in
      case (index, m) of
        (Some i, Some msg) \<Rightarrow>
          (if i < 0 then w
           else w\<lparr>cw_transcript_deltas := bounded_deltas (cw_transcript_deltas w @
             [\<lparr>dl_revision = cw_transcript_revision w, dl_index = i, dl_message = msg\<rparr>])\<rparr>)
      | _ \<Rightarrow> w)"

definition chat_context_snapshot :: "chat_workflow \<Rightarrow> pydict" where
  "chat_context_snapshot w =
     (let fallback = (case cw_agent_context_state w of
            Some st \<Rightarrow> as_context_snapshot st
          | None \<Rightarrow> [(''version'', PInt 2), (''messages'', PList [])])
      in case cw_agent w of
           None \<Rightarrow> fallback
         | Some ag \<Rightarrow>
             (case dict_get_none (context_snapshot ag) ''messages'' of
                PList (m # ms) \<Rightarrow> context_snapshot ag
              | _ \<Rightarrow> fallback))"

definition chat_message_for_queue :: "queued_chat_message \<Rightarrow> chat_message" where
  "chat_message_for_queue q =
     \<lparr>ch_role = UserRole, ch_content = qm_content q, ch_attachments = qm_attachments q\<rparr>"

definition overlay_queued :: "queued_chat_message \<Rightarrow> chat_message list \<Rightarrow> chat_message list" where
  "overlay_queued q = overlay_transcript_message (qm_transcript_index q) (chat_message_for_queue q)"

definition rendered_transcript :: "chat_workflow \<Rightarrow> chat_message list" where
  "rendered_transcript w =
     (let transcript = rendered_snapshot (chat_context_snapshot w);
          transcript = (case cw_active_message w of None \<Rightarrow> transcript | Some q \<Rightarrow> overlay_queued q transcript)
      in fold overlay_queued (cw_pending_messages w) transcript)"

definition next_transcript_index :: "chat_workflow \<Rightarrow> int" where
  "next_transcript_index w = int (length (rendered_transcript w))"

definition record_system_message :: "string \<Rightarrow> chat_workflow \<Rightarrow> chat_workflow" where
  "record_system_message cont w =
     record_transcript_change (Some (next_transcript_index w))
       (Some \<lparr>ch_role = SystemRole, ch_content = cont, ch_attachments = []\<rparr>) w"

definition record_latest_rendered_message_change :: "chat_workflow \<Rightarrow> chat_workflow" where
  "record_latest_rendered_message_change w =
     (let transcript = rendered_transcript w in
      if transcript = [] then record_transcript_change None None w
      else record_transcript_change (Some (int (length transcript) - 1)) (Some (last transcript)) w)"

section \<open>Messages of the user\<close>

definition touch :: "datetime \<Rightarrow> chat_workflow \<Rightarrow> chat_workflow" where
  "touch now w = w\<lparr>cw_last_touched_at := Some now, cw_touched_this_run := True\<rparr>"

text \<open>\<open>_enqueue_chat\<close>; the index it returns is that of the queued message.\<close>

definition enqueue_chat ::
  "string \<Rightarrow> attachment_ref list \<Rightarrow> int \<Rightarrow> string list option \<Rightarrow> string option \<Rightarrow> mcp_server_config list option
   \<Rightarrow> chat_workflow \<Rightarrow> chat_workflow" where
  "enqueue_chat msg attachments settle_after_revision tools github servers w =
     w\<lparr>cw_pending_messages := cw_pending_messages w @
       [\<lparr>qm_content = msg, qm_transcript_index = next_transcript_index w, qm_attachments = attachments,
         qm_settle_after_revision = max 0 settle_after_revision, qm_available_tool_names = tools,
         qm_github_connection_id = github, qm_mcp_servers = servers\<rparr>]\<rparr>"

text \<open>What the handlers do after they queued a message.\<close>

definition record_queued :: "chat_workflow \<Rightarrow> chat_workflow" where
  "record_queued w =
     (let q = last (cw_pending_messages w) in
      record_state_change (record_transcript_change (Some (qm_transcript_index q)) (Some (chat_message_for_queue q)) w))"

definition chat_signal :: "datetime \<Rightarrow> chat_signal_request \<Rightarrow> chat_workflow \<Rightarrow> chat_workflow" where
  "chat_signal now request w =
     record_queued (enqueue_chat (cr_message request) (cr_attachments request) (cr_after_revision request)
       (Some (cr_available_tool_names request)) (cr_github_connection_id request)
       (Some (cr_mcp_servers request)) (touch now w))"

definition delete_signal :: "chat_workflow \<Rightarrow> chat_workflow" where
  "delete_signal w = record_state_change (w\<lparr>cw_delete_requested := True\<rparr>)"

definition steer_signal :: "datetime \<Rightarrow> string \<Rightarrow> string \<Rightarrow> attachment_ref list \<Rightarrow> chat_workflow \<Rightarrow> chat_workflow" where
  "steer_signal now msg mode attachments w =
     (let w = touch now w in
      if attachments \<noteq> [] then record_queued (enqueue_chat msg attachments 0 None None None w)
      else if mode \<noteq> ''immediate'' \<and> mode \<noteq> ''after_next_tool_result''
      then record_system_message (''Unknown steering mode: '' @ mode) w
      else (case cw_agent w of
              None \<Rightarrow> record_system_message ''Agent is not ready yet; steering was ignored.'' w
            | Some ag \<Rightarrow>
                record_system_message (''Steering queued '' @
                  (if mode = ''after_next_tool_result'' then ''after the next tool result''
                   else ''before the next provider call'') @ '': '' @ msg)
                  (w\<lparr>cw_agent := Some (snd (steer msg mode ag))\<rparr>)))"

definition interrupt_signal :: "datetime \<Rightarrow> string \<Rightarrow> chat_workflow \<Rightarrow> chat_workflow" where
  "interrupt_signal now msg w =
     (let w = touch now w in
      case cw_agent w of
        None \<Rightarrow> record_queued (enqueue_chat msg [] 0 None None None w)
      | Some ag \<Rightarrow>
          (if cw_status w \<noteq> Responding then record_queued (enqueue_chat msg [] 0 None None None w)
           else record_system_message (''Interrupt sent; provider will continue with: '' @ msg)
                  (w\<lparr>cw_agent := Some (snd (interrupt msg ''discard'' ag))\<rparr>)))"

section \<open>Approvals\<close>

definition approval_memory_key :: "string \<Rightarrow> pydict \<Rightarrow> string" where
  "approval_memory_key tool_name tool_args =
     (case (dict_get_none tool_args ''owner'', dict_get_none tool_args ''repo'') of
        (PStr owner, PStr repo) \<Rightarrow> tool_name @ '':'' @ owner @ ''/'' @ repo
      | _ \<Rightarrow> tool_name)"

text \<open>\<open>str.split()\<close>: the maximal pieces without white space.\<close>

fun split_words :: "string \<Rightarrow> string \<Rightarrow> string list" where
  "split_words word [] = (if word = [] then [] else [word])"
| "split_words word (c # s) =
     (if py_space c then (if word = [] then split_words [] s else word # split_words [] s)
      else split_words (word @ [c]) s)"

definition py_split_words :: "string \<Rightarrow> string list" where
  "py_split_words s = split_words [] s"

definition approval_summary :: "string \<Rightarrow> pydict \<Rightarrow> string" where
  "approval_summary tool_name tool_args =
     (let otherwise = ''Run mutating tool: '' @ tool_name in
      if tool_name = ''github_open_issue''
      then (case (dict_get_none tool_args ''owner'', dict_get_none tool_args ''repo'') of
              (PStr owner, PStr repo) \<Rightarrow>
                ''Open GitHub issue in '' @ owner @ ''/'' @ repo @
                (case dict_get_none tool_args ''title'' of
                   PStr title \<Rightarrow> (if title \<noteq> [] then '': '' @ title else [])
                 | _ \<Rightarrow> [])
            | _ \<Rightarrow> otherwise)
      else if tool_name = ''python_sandbox''
      then (case dict_get_none tool_args ''code'' of
              PStr source \<Rightarrow>
                (if py_strip source \<noteq> []
                 then (let preview = py_join '' '' (py_split_words (py_strip source));
                           preview = (if length preview > 96 then take 93 preview @ ''...'' else preview)
                       in ''Execute Python sandbox code: '' @ preview)
                 else ''Execute Python sandbox code'')
            | _ \<Rightarrow> ''Execute Python sandbox code'')
      else if tool_name = ''create_artifact''
      then (case dict_get_none tool_args ''name'' of
              PStr n \<Rightarrow> (if py_strip n \<noteq> [] then ''Create artifact: '' @ py_strip n else ''Create artifact'')
            | _ \<Rightarrow> ''Create artifact'')
      else otherwise)"

definition approval_name :: "int \<Rightarrow> string" where
  "approval_name n = ''approval-'' @ int_str n"

text \<open>
  \<open>_request_tool_approval\<close> up to its wait: the decision when the key is remembered, or else the
  identifier it waits for.
\<close>

definition begin_tool_approval ::
  "datetime \<Rightarrow> string \<Rightarrow> pydict \<Rightarrow> chat_workflow \<Rightarrow> (string + string) \<times> chat_workflow" where
  "begin_tool_approval now tool_name tool_args w =
     (let memory_key = approval_memory_key tool_name tool_args in
      if memory_key \<in> cw_approval_memory w then (Inl ''allow'', w)
      else
        (let w = w\<lparr>cw_approval_counter := cw_approval_counter w + 1\<rparr>;
             approval_id = approval_name (cw_approval_counter w)
         in (Inr approval_id, record_state_change
              (w\<lparr>cw_pending_approvals := AList.update approval_id
                 \<lparr>pa_approval_id = approval_id, pa_tool_name = tool_name, pa_tool_args = tool_args,
                  pa_summary = approval_summary tool_name tool_args, pa_memory_key = memory_key,
                  pa_expires_at = Some (now + TOOL_APPROVAL_TIMEOUT),
                  pa_requesting_workflow_id = None, pa_requesting_approval_id = None\<rparr>
                 (cw_pending_approvals w)\<rparr>))))"

definition approval_wait_cancelled :: "chat_workflow \<Rightarrow> bool" where
  "approval_wait_cancelled w =
     (cw_delete_requested w \<or> (case cw_agent w of None \<Rightarrow> False | Some ag \<Rightarrow> ag_interrupt_requested ag))"

text \<open>The condition it waits for, and what it does when the wait ended or timed out.\<close>

definition approval_wait_over :: "string \<Rightarrow> chat_workflow \<Rightarrow> bool" where
  "approval_wait_over approval_id w =
     (map_of (cw_approval_decisions w) approval_id \<noteq> None \<or> approval_wait_cancelled w)"

definition finish_tool_approval ::
  "string \<Rightarrow> string \<Rightarrow> bool \<Rightarrow> chat_workflow \<Rightarrow> string \<times> chat_workflow" where
  "finish_tool_approval approval_id memory_key timed_out w =
     (let (decision, w) =
        (if timed_out then (''expired'', w)
         else (case map_of (cw_approval_decisions w) approval_id of
                 Some d \<Rightarrow> (d, w\<lparr>cw_approval_decisions := AList.delete approval_id (cw_approval_decisions w)\<rparr>)
               | None \<Rightarrow> (''cancelled'', w)));
          w = record_state_change (w\<lparr>cw_pending_approvals := AList.delete approval_id (cw_pending_approvals w)\<rparr>)
      in (decision,
          if decision = ''always_allow''
          then w\<lparr>cw_approval_memory := insert memory_key (cw_approval_memory w)\<rparr> else w))"

text \<open>
  A decision to be signalled to a subagent: its workflow, its approval and the decision.
  \<open>_signal_child_approval\<close> suspends while the signal is sent; what it does when that fails is
  \<open>child_signal_failed\<close>.
\<close>

type_synonym child_signal = "string \<times> string \<times> string"

definition child_signal_failed :: "string \<Rightarrow> py_exn \<Rightarrow> chat_workflow \<Rightarrow> chat_workflow" where
  "child_signal_failed workflow_id err =
     record_system_message (''Could not deliver approval decision to subagent '' @ workflow_id @ '': '' @
       py_type_name err @ '': '' @ exn_str err)"

definition resolve_approval ::
  "datetime \<Rightarrow> string \<Rightarrow> string \<Rightarrow> chat_workflow \<Rightarrow> child_signal option \<times> chat_workflow" where
  "resolve_approval now approval_id decision w =
     (let w = touch now w in
      if decision \<noteq> ''allow'' \<and> decision \<noteq> ''always_allow'' \<and> decision \<noteq> ''deny''
      then (None, record_system_message (''Unknown approval decision: '' @ decision) w)
      else (case map_of (cw_pending_approvals w) approval_id of
              None \<Rightarrow> (None, record_system_message (''Approval is no longer pending: '' @ approval_id) w)
            | Some approval \<Rightarrow>
                (case (pa_requesting_workflow_id approval, pa_requesting_approval_id approval) of
                   (Some child, Some child_approval) \<Rightarrow>
                     (let w = w\<lparr>cw_pending_approvals := AList.delete approval_id (cw_pending_approvals w)\<rparr>;
                          w = (if decision = ''always_allow''
                               then w\<lparr>cw_approval_memory := insert (pa_memory_key approval) (cw_approval_memory w)\<rparr>
                               else w)
                      in (Some (child, child_approval, decision), record_state_change w))
                 | _ \<Rightarrow> (None, w\<lparr>cw_approval_decisions := AList.update approval_id decision (cw_approval_decisions w)\<rparr>))))"

definition requested_by :: "string \<Rightarrow> string \<Rightarrow> pending_approval \<Rightarrow> bool" where
  "requested_by child child_approval a =
     (pa_requesting_workflow_id a = Some child \<and> pa_requesting_approval_id a = Some child_approval)"

definition expire_child_approval :: "string \<Rightarrow> string \<Rightarrow> chat_workflow \<Rightarrow> chat_workflow" where
  "expire_child_approval child child_approval w =
     (case List.find (\<lambda>(_, a). requested_by child child_approval a) (cw_pending_approvals w) of
        None \<Rightarrow> w
      | Some (approval_id, _) \<Rightarrow> record_state_change
          (w\<lparr>cw_pending_approvals := AList.delete approval_id (cw_pending_approvals w)\<rparr>))"

definition request_child_approval ::
  "datetime \<Rightarrow> child_tool_approval_request \<Rightarrow> chat_workflow \<Rightarrow> child_signal option \<times> chat_workflow" where
  "request_child_approval now request w =
     (let memory_key = approval_memory_key (ca_tool_name request) (ca_tool_args request) in
      if memory_key \<in> cw_approval_memory w
      then (Some (ca_child_workflow_id request, ca_child_approval_id request, ''allow''), w)
      else if list_ex (\<lambda>(_, a). requested_by (ca_child_workflow_id request) (ca_child_approval_id request) a)
                (cw_pending_approvals w)
      then (None, w)
      else
        (let w = w\<lparr>cw_approval_counter := cw_approval_counter w + 1\<rparr>;
             approval_id = approval_name (cw_approval_counter w)
         in (None, record_state_change
              (w\<lparr>cw_pending_approvals := AList.update approval_id
                 \<lparr>pa_approval_id = approval_id, pa_tool_name = ca_tool_name request,
                  pa_tool_args = ca_tool_args request,
                  pa_summary = ''Subagent requested: '' @ approval_summary (ca_tool_name request) (ca_tool_args request),
                  pa_memory_key = memory_key, pa_expires_at = Some (now + TOOL_APPROVAL_TIMEOUT),
                  pa_requesting_workflow_id = Some (ca_child_workflow_id request),
                  pa_requesting_approval_id = Some (ca_child_approval_id request)\<rparr>
                 (cw_pending_approvals w)\<rparr>))))"


section \<open>Queries\<close>

record simple_chat_state =
  st_status :: chat_status
  st_pending_messages :: nat
  st_user_ref :: "string option"
  st_conversation_id :: "string option"
  st_model :: "string option"
  st_thinking :: "pydict option"
  st_available_tool_names :: "string list"
  st_github_connected :: bool
  st_mcp_servers :: "mcp_server_config list"
  st_pending_approvals :: "pending_approval list"
  st_active_message_index :: "int option"
  st_queued_message_indices :: "int list"
  st_transcript :: "chat_message list"
  st_transcript_length :: nat
  st_state_revision :: int
  st_transcript_revision :: int

definition chat_state :: "bool \<Rightarrow> chat_workflow \<Rightarrow> simple_chat_state" where
  "chat_state include_transcript w =
     (let transcript = rendered_transcript w in
      \<lparr>st_status = cw_status w, st_pending_messages = length (cw_pending_messages w),
       st_user_ref = cw_user_ref w, st_conversation_id = cw_conversation_id w, st_model = cw_model w,
       st_thinking = cw_thinking w,
       st_available_tool_names = sorted_list_of_set (cw_available_tool_names w),
       st_github_connected = (cw_github_connection_id w \<noteq> None), st_mcp_servers = cw_mcp_servers w,
       st_pending_approvals = map snd (cw_pending_approvals w),
       st_active_message_index = cw_active_message_index w,
       st_queued_message_indices = map qm_transcript_index (cw_pending_messages w),
       st_transcript = (if include_transcript then transcript else []),
       st_transcript_length = length transcript, st_state_revision = cw_state_revision w,
       st_transcript_revision = cw_transcript_revision w\<rparr>)"

definition chat_transcript_page :: "int option \<Rightarrow> int \<Rightarrow> int option \<Rightarrow> chat_workflow \<Rightarrow> TranscriptPage" where
  "chat_transcript_page before limit max_bytes w =
     transcript_page (rendered_transcript w) (cw_transcript_revision w) before limit max_bytes"

definition chat_snapshot :: "int \<Rightarrow> int option \<Rightarrow> chat_workflow \<Rightarrow> simple_chat_state \<times> TranscriptPage" where
  "chat_snapshot limit max_bytes w = (chat_state False w, chat_transcript_page None limit max_bytes w)"

record TranscriptDeltaResult =
  dr_from_revision :: int
  dr_to_revision :: int
  dr_deltas :: "transcript_delta list"
  dr_needs_snapshot :: bool
  dr_transcript_length :: nat
  dr_status :: chat_status
  dr_pending_messages :: nat
  dr_active_message_index :: "int option"
  dr_state_revision :: int
  dr_limited :: bool
  dr_byte_limit :: int
  dr_estimated_bytes :: int

definition transcript_delta_result ::
  "int \<Rightarrow> transcript_delta list \<Rightarrow> bool \<Rightarrow> int \<Rightarrow> bool \<Rightarrow> int option \<Rightarrow> chat_workflow \<Rightarrow> TranscriptDeltaResult" where
  "transcript_delta_result after_revision deltas needs_snapshot byte_limit limited estimated_bytes w =
     (let estimated = (case estimated_bytes of None \<Rightarrow> transcript_deltas_query_bytes deltas | Some n \<Rightarrow> n) in
      \<lparr>dr_from_revision = after_revision, dr_to_revision = cw_transcript_revision w, dr_deltas = deltas,
       dr_needs_snapshot = needs_snapshot, dr_transcript_length = length (rendered_transcript w),
       dr_status = cw_status w, dr_pending_messages = length (cw_pending_messages w),
       dr_active_message_index = cw_active_message_index w, dr_state_revision = cw_state_revision w,
       dr_limited = limited, dr_byte_limit = byte_limit, dr_estimated_bytes = min estimated byte_limit\<rparr>)"

definition transcript_deltas_since :: "int \<Rightarrow> int option \<Rightarrow> chat_workflow \<Rightarrow> TranscriptDeltaResult" where
  "transcript_deltas_since after_revision max_bytes w =
     (let after = max 0 after_revision;
          byte_limit = transcript_byte_limit max_bytes
      in if after \<ge> cw_transcript_revision w then transcript_delta_result after [] False byte_limit False None w
         else (case cw_transcript_deltas w of
                 [] \<Rightarrow> transcript_delta_result after [] True byte_limit False None w
               | oldest # _ \<Rightarrow>
                   (if after < dl_revision oldest - 1
                    then transcript_delta_result after [] True byte_limit False None w
                    else
                      (let deltas = filter (\<lambda>d. dl_revision d > after) (cw_transcript_deltas w) in
                       if transcript_deltas_query_bytes deltas > byte_limit
                       then transcript_delta_result after [] True byte_limit True (Some byte_limit) w
                       else transcript_delta_result after deltas False byte_limit False None w))))"

definition chat_message_dict :: "chat_message \<Rightarrow> pydict" where
  "chat_message_dict m =
     [(''role'', PStr (chat_role_str (ch_role m))), (''content'', PStr (ch_content m)),
      (''attachments'', PList (map (\<lambda>a. PDict (attachment_ref_to_dict a)) (ch_attachments m)))]"

definition transcript_delta_result_payload :: "TranscriptDeltaResult \<Rightarrow> pydict" where
  "transcript_delta_result_payload r =
     [(''from_revision'', PInt (dr_from_revision r)), (''to_revision'', PInt (dr_to_revision r)),
      (''needs_snapshot'', PBool (dr_needs_snapshot r)),
      (''transcript_length'', PInt (int (dr_transcript_length r))),
      (''status'', PStr (status_text (dr_status r))),
      (''pending_messages'', PInt (int (dr_pending_messages r))),
      (''active_message_index'', (case dr_active_message_index r of None \<Rightarrow> PNone | Some i \<Rightarrow> PInt i)),
      (''state_revision'', PInt (dr_state_revision r)), (''limited'', PBool (dr_limited r)),
      (''byte_limit'', PInt (dr_byte_limit r)), (''estimated_bytes'', PInt (dr_estimated_bytes r)),
      (''deltas'', PList (map (\<lambda>d. PDict
         [(''revision'', PInt (dl_revision d)), (''index'', PInt (dl_index d)),
          (''message'', PDict (chat_message_dict (dl_message d)))]) (dr_deltas r)))]"

text \<open>\<open>_transcript_delta_result_still_live\<close>, on the fields of a payload that the result wrote.\<close>

definition transcript_delta_result_still_live :: "pydict \<Rightarrow> bool" where
  "transcript_delta_result_still_live r =
     (if dict_get_none r ''status'' \<in> {PStr ''responding'', PStr ''starting''} then True
      else if (case py_or (dict_get_none r ''pending_messages'') (PInt 0) of PInt n \<Rightarrow> n > 0 | _ \<Rightarrow> True) then True
      else dict_get_none r ''active_message_index'' \<noteq> PNone)"

section \<open>Starting and continuing a run\<close>

definition GITHUB_TOOL_NAMES :: "string list" where
  "GITHUB_TOOL_NAMES = [''github_authenticated_user'', ''github_list_repositories'', ''github_list_issues'',
     ''github_open_issue'']"

definition tool_names_for_connections ::
  "string option \<Rightarrow> mcp_server_config list \<Rightarrow> string list \<Rightarrow> string list" where
  "tool_names_for_connections github_connection_id servers research_tool_names =
     [''fetch_url'', ''python_sandbox'', ''read_attachment'', ''create_artifact'', ''create_subagent''] @
     research_tool_names @
     (if github_connection_id \<noteq> None then GITHUB_TOOL_NAMES else []) @
     concat (map mcp_tool_names servers)"

definition or_text :: "string option \<Rightarrow> string \<Rightarrow> string" where
  "or_text v otherwise = (case v of Some (c # cs) \<Rightarrow> c # cs | _ \<Rightarrow> otherwise)"

text \<open>\<open>_restore_from_input\<close>; the agent state it returns is \<open>ci_agent_state\<close>.\<close>

definition restore_from_input :: "datetime \<Rightarrow> string \<Rightarrow> simple_chat_input \<Rightarrow> chat_workflow \<Rightarrow> chat_workflow" where
  "restore_from_input now workflow_id inp w =
     (let (touched_at, touched) =
        (case ci_last_touched_at inp of
           None \<Rightarrow> (now, True)
         | Some t \<Rightarrow> (t, t > now));
          (touched_at, touched) =
        (if ci_pending_messages inp \<noteq> [] \<or> ci_agent_state inp \<noteq> None then (now, True) else (touched_at, touched))
      in w\<lparr>cw_run_started_at := Some now, cw_last_touched_at := Some touched_at, cw_touched_this_run := touched,
           cw_pending_messages := ci_pending_messages inp,
           cw_active_message_index := ci_active_message_index inp,
           cw_active_settle_after_revision := ci_active_settle_after_revision inp,
           cw_active_message := None,
           cw_agent_context_state :=
             (case ci_agent_context_state inp of Some st \<Rightarrow> Some st | None \<Rightarrow> ci_agent_state inp),
           cw_approval_memory := set (ci_approval_memory inp),
           cw_approval_counter := ci_approval_counter inp,
           cw_state_revision := ci_state_revision inp,
           cw_transcript_revision := ci_transcript_revision inp,
           cw_transcript_deltas := ci_transcript_deltas inp,
           cw_user_ref := Some (ci_user_ref inp), cw_conversation_id := Some (ci_conversation_id inp),
           cw_model := Some (ci_model inp), cw_thinking := ci_thinking inp,
           cw_github_connection_id := ci_github_connection_id inp,
           cw_mcp_servers := ci_mcp_servers inp,
           cw_stream_id := Some (or_text (ci_stream_id inp) workflow_id),
           cw_available_tool_names := set
             (if ci_available_tool_names inp \<noteq> [] then ci_available_tool_names inp
              else tool_names_for_connections (ci_github_connection_id inp) (ci_mcp_servers inp) [])\<rparr>)"

text \<open>
  \<open>_build_agent\<close> with the defaults of \<open>ClaudeAgent\<close>; the tool set of the chat, the provider for its
  thinking configuration and the two guards of the censor are parameters.
\<close>

record chat_setup =
  su_tools :: tool_set
  su_provider :: "pydict option \<Rightarrow> provider"
  su_pre_guard :: llm_guard_fn
  su_post_guard :: llm_guard_fn

definition build_agent :: "chat_setup \<Rightarrow> simple_chat_input \<Rightarrow> chat_workflow \<Rightarrow> sliding_window agent" where
  "build_agent setup inp w =
     \<lparr>ag_system_prompt = ci_system_prompt inp, ag_tools = su_tools setup,
      ag_provider = su_provider setup (ci_thinking inp), ag_model = ci_model inp,
      ag_max_tokens = ci_max_tokens inp, ag_tool_names = None, ag_stream_id = cw_stream_id w,
      ag_activity_options = None, ag_llm_guard_activity_options = DEFAULT_ACTIVITY_OPTIONS,
      ag_llm_guards = \<lparr>lp_pre_guards = (if ci_good_place_censor inp then [su_pre_guard setup] else []),
         lp_post_guards = (if ci_good_place_censor inp then [su_post_guard setup] else [])\<rparr>,
      ag_max_context_tokens = ci_max_context_tokens inp,
      ag_context_safety_margin_tokens = DEFAULT_CONTEXT_SAFETY_MARGIN_TOKENS,
      ag_context_chars_per_token = DEFAULT_CHARS_PER_TOKEN, ag_continue_as_new_enabled = True,
      ag_context_ops = sliding_window_ops,
      ag_context = \<lparr>max_recent_messages = 20, preserve_initial_user_message = True,
         clear_old_tool_results = False, max_tool_result_chars = None, sw_messages = []\<rparr>,
      ag_context_initialized = False, ag_pending_immediate_steering = [],
      ag_pending_after_tool_steering = [], ag_pending_interrupts = [], ag_interrupt_requested = False,
      ag_provider_call_sequence = 0, ag_turn_user_prompt_index = None, ag_terminated = False,
      ag_termination_reason = None, ag_llm_guard_state = []\<rparr>"

text \<open>The start of \<open>run\<close>, up to its loop; restoring an idle state may raise.\<close>

definition start_run ::
  "datetime \<Rightarrow> string \<Rightarrow> chat_setup \<Rightarrow> simple_chat_input \<Rightarrow> chat_workflow \<Rightarrow> unit res \<times> chat_workflow" where
  "start_run now workflow_id setup inp w =
     (let w = restore_from_input now workflow_id inp w;
          ag = build_agent setup inp w;
          (r, ag) = (case (ci_agent_context_state inp, ci_agent_state inp) of
                       (Some st, None) \<Rightarrow> restore_idle_state st ag
                     | _ \<Rightarrow> (Inr (), ag));
          w = w\<lparr>cw_agent := Some ag\<rparr>
      in case r of
           Inl e \<Rightarrow> (Inl e, w)
         | Inr _ \<Rightarrow> (Inr (), record_state_change (w\<lparr>cw_status := Idle\<rparr>)))"

definition continue_as_new_input ::
  "simple_chat_input \<Rightarrow> agent_state option \<Rightarrow> chat_workflow \<Rightarrow> simple_chat_input res" where
  "continue_as_new_input inp agent_state w =
     res_bind (case (agent_state, cw_agent w) of
                 (None, Some ag) \<Rightarrow> res_bind (compacted_state ag) (\<lambda>st. Inr (Some st))
               | _ \<Rightarrow> Inr None)
       (\<lambda>agent_context_state. Inr
         \<lparr>ci_user_ref = or_text (cw_user_ref w) (ci_user_ref inp),
          ci_conversation_id = or_text (cw_conversation_id w) (ci_conversation_id inp),
          ci_system_prompt = ci_system_prompt inp, ci_model = ci_model inp, ci_max_tokens = ci_max_tokens inp,
          ci_max_context_tokens = ci_max_context_tokens inp, ci_thinking = ci_thinking inp,
          ci_max_turns = ci_max_turns inp, ci_stream_id = ci_stream_id inp,
          ci_available_tool_names = sorted_list_of_set (cw_available_tool_names w),
          ci_github_connection_id = cw_github_connection_id w, ci_mcp_servers = cw_mcp_servers w,
          ci_agent_state = agent_state, ci_agent_context_state = agent_context_state,
          ci_pending_messages = cw_pending_messages w,
          ci_active_message_index = cw_active_message_index w,
          ci_active_settle_after_revision = cw_active_settle_after_revision w,
          ci_approval_memory = sorted_list_of_set (cw_approval_memory w),
          ci_approval_counter = cw_approval_counter w,
          ci_good_place_censor = ci_good_place_censor inp,
          ci_state_revision = cw_state_revision w,
          ci_transcript_revision = cw_transcript_revision w + 1, ci_transcript_deltas = [],
          ci_last_touched_at =
            (case cw_last_touched_at w of Some t \<Rightarrow> Some t | None \<Rightarrow> ci_last_touched_at inp)\<rparr>)"

section \<open>The main loop between two suspensions\<close>

text \<open>
  What a pass of \<open>_wait_for_next_queued_message\<close> finds: the flags of \<open>workflow.info()\<close> that ask for
  a new run, whether all signal handlers have finished, and the time. \<open>Woken\<close> passes begin after a
  wait, when a deletion ends the run.
\<close>

definition checkpoint_due :: "datetime \<Rightarrow> chat_workflow \<Rightarrow> bool" where
  "checkpoint_due now w =
     (case cw_run_started_at w of None \<Rightarrow> False | Some t \<Rightarrow> now \<ge> t + CHAT_WORKFLOW_RUN_TTL)"

definition time_until_checkpoint :: "datetime \<Rightarrow> chat_workflow \<Rightarrow> int" where
  "time_until_checkpoint now w =
     (case cw_run_started_at w of
        None \<Rightarrow> CHAT_WORKFLOW_RUN_TTL
      | Some t \<Rightarrow> max (t + CHAT_WORKFLOW_RUN_TTL - now) 0)"

datatype wait_outcome = EndRun | Checkpoint | TakeMessage | Wait

definition finish_or_checkpoint_if_needed ::
  "datetime \<Rightarrow> bool \<Rightarrow> bool \<Rightarrow> chat_workflow \<Rightarrow> wait_outcome option" where
  "finish_or_checkpoint_if_needed now checkpoint_requested all_handlers_finished w =
     (if \<not> all_handlers_finished then None
      else if checkpoint_requested then Some Checkpoint
      else if checkpoint_due now w
      then (if cw_touched_this_run w then Some Checkpoint else Some EndRun)
      else None)"

definition wait_pass :: "bool \<Rightarrow> datetime \<Rightarrow> bool \<Rightarrow> bool \<Rightarrow> chat_workflow \<Rightarrow> wait_outcome" where
  "wait_pass woken now checkpoint_requested all_handlers_finished w =
     (if woken \<and> cw_delete_requested w then EndRun
      else (case finish_or_checkpoint_if_needed now checkpoint_requested all_handlers_finished w of
              Some outcome \<Rightarrow> outcome
            | None \<Rightarrow> if cw_pending_messages w \<noteq> [] then TakeMessage else Wait))"

definition apply_queued_tool_config :: "queued_chat_message \<Rightarrow> chat_workflow \<Rightarrow> chat_workflow" where
  "apply_queued_tool_config q w =
     (case qm_available_tool_names q of
        None \<Rightarrow> w
      | Some names \<Rightarrow>
          w\<lparr>cw_available_tool_names := set names, cw_github_connection_id := qm_github_connection_id q,
            cw_mcp_servers := (case qm_mcp_servers q of None \<Rightarrow> [] | Some servers \<Rightarrow> servers)\<rparr>)"

definition activate_next_queued_message :: "chat_workflow \<Rightarrow> active_turn \<times> chat_workflow" where
  "activate_next_queued_message w =
     (let q = hd (cw_pending_messages w);
          w = apply_queued_tool_config q
            (w\<lparr>cw_pending_messages := tl (cw_pending_messages w),
               cw_active_message_index := Some (qm_transcript_index q),
               cw_active_message := Some q,
               cw_active_settle_after_revision := qm_settle_after_revision q\<rparr>)
      in (\<lparr>at_message = Some (qm_content q), at_attachments = qm_attachments q,
           at_settle_after_revision = qm_settle_after_revision q\<rparr>, w))"

text \<open>The turn that resumes an agent run after a new run of the workflow started.\<close>

definition resumed_turn :: "chat_workflow \<Rightarrow> active_turn" where
  "resumed_turn w = \<lparr>at_message = None, at_attachments = [],
     at_settle_after_revision = cw_active_settle_after_revision w\<rparr>"

definition begin_active_turn :: "chat_workflow \<Rightarrow> chat_workflow" where
  "begin_active_turn w = record_state_change (w\<lparr>cw_status := Responding\<rparr>)"

definition clear_active_turn :: "chat_workflow \<Rightarrow> chat_workflow" where
  "clear_active_turn w = record_state_change
     (w\<lparr>cw_active_message_index := None, cw_active_message := None, cw_active_settle_after_revision := 0,
        cw_status := Idle\<rparr>)"

definition record_effective_user_prompt_if_needed :: "bool \<Rightarrow> chat_workflow \<Rightarrow> chat_workflow" where
  "record_effective_user_prompt_if_needed enabled w =
     (case (cw_active_message_index w, cw_agent w) of
        (Some index, Some ag) \<Rightarrow>
          (if \<not> enabled then w
           else (case effective_user_prompt ag of
                   None \<Rightarrow> w
                 | Some prompt \<Rightarrow> record_transcript_change (Some index)
                     (Some \<lparr>ch_role = UserRole, ch_content = prompt,
                        ch_attachments = (case cw_active_message w of None \<Rightarrow> [] | Some q \<Rightarrow> qm_attachments q)\<rparr>) w))
      | _ \<Rightarrow> w)"

text \<open>
  The end of \<open>_run_active_turn\<close>, from the outcome of the agent: the state to continue as new with
  (if any), whether the settled event is to be sent, or the exception that leaves the turn.
\<close>

definition finish_active_turn ::
  "bool \<Rightarrow> agent_result res \<Rightarrow> chat_workflow \<Rightarrow> agent_state option res \<times> chat_workflow" where
  "finish_active_turn good_place_censor outcome w =
     (case outcome of
        Inr result \<Rightarrow>
          (let w = record_effective_user_prompt_if_needed good_place_censor w in
           case ar_continuation_state result of
             Some st \<Rightarrow>
               (Inr (Some st), clear_active_turn
                  (record_latest_rendered_message_change (w\<lparr>cw_agent_context_state := Some st\<rparr>)))
           | None \<Rightarrow>
               (case cw_agent w of
                  None \<Rightarrow> (Inl (PyExn (ExcOther ''AttributeError'') [] None None), clear_active_turn w)
                | Some ag \<Rightarrow>
                    (case compacted_state ag of
                       Inl e \<Rightarrow>
                         (case exn_kind e of
                            ExcUserFacingAgent _ _ \<Rightarrow> (Inr None, clear_active_turn (record_system_message (exn_str e) w))
                          | _ \<Rightarrow> (Inl e, clear_active_turn w))
                     | Inr st \<Rightarrow>
                         (Inr None, clear_active_turn
                            (record_latest_rendered_message_change (w\<lparr>cw_agent_context_state := Some st\<rparr>))))))
      | Inl err \<Rightarrow>
          (case exn_kind err of
             ExcUserFacingAgent _ _ \<Rightarrow> (Inr None, clear_active_turn (record_system_message (exn_str err) w))
           | _ \<Rightarrow> (Inl err, clear_active_turn w)))"

text \<open>The argument of the settled activity, when there is a stream to send it to.\<close>

definition emit_turn_settled :: "string \<Rightarrow> int \<Rightarrow> chat_workflow \<Rightarrow> pydict option" where
  "emit_turn_settled workflow_id after_revision w =
     (case cw_stream_id w of
        Some (c # cs) \<Rightarrow>
          (let after = max 0 after_revision;
               payload = transcript_delta_result_payload
                 (transcript_deltas_since after (Some TRANSCRIPT_QUERY_DEFAULT_MAX_BYTES) w);
               payload = dict_set ''settled'' (PBool (\<not> transcript_delta_result_still_live payload)) payload
           in Some
             [(''stream_id'', PStr (c # cs)), (''workflow_id'', PStr workflow_id),
              (''idempotency_key'', PStr (workflow_id @ '':'' @ int_str (cw_transcript_revision w) @ '':'' @
                 int_str (cw_state_revision w) @ '':'' @ int_str after)),
              (''result'', PDict payload)])
      | _ \<Rightarrow> None)"

end
