(* ===== verification/ChatDeltas.thy ===== *)
theory ChatDeltas
  imports ChatWorkflow
begin

text \<open>
  The bounded buffer of transcript changes: a client that asks for the changes since a revision
  either gets all of them, or is told to fetch a snapshot.
\<close>

section \<open>The reference: all changes, numbered\<close>

type_synonym transcript_change = "int option \<times> chat_message option"

fun numbered :: "int \<Rightarrow> transcript_change list \<Rightarrow> transcript_delta list" where
  "numbered r [] = []"
| "numbered r ((i, m) # cs) =
     (case (i, m) of
        (Some n, Some msg) \<Rightarrow> if n < 0 then [] else [\<lparr>dl_revision = r + 1, dl_index = n, dl_message = msg\<rparr>]
      | _ \<Rightarrow> []) @ numbered (r + 1) cs"

definition record_changes :: "transcript_change list \<Rightarrow> chat_workflow \<Rightarrow> chat_workflow" where
  "record_changes cs w = fold (\<lambda>(i, m). record_transcript_change i m) cs w"

text \<open>What a client shows: the latest message of each place.\<close>

definition show_deltas :: "transcript_delta list \<Rightarrow> (int \<rightharpoonup> chat_message) \<Rightarrow> int \<rightharpoonup> chat_message" where
  "show_deltas ds shown = fold (\<lambda>d shown. shown(dl_index d \<mapsto> dl_message d)) ds shown"

definition shown_at :: "int \<Rightarrow> transcript_change list \<Rightarrow> int \<Rightarrow> int \<rightharpoonup> chat_message" where
  "shown_at r cs revision = show_deltas (filter (\<lambda>d. dl_revision d \<le> revision) (numbered r cs)) Map.empty"

section \<open>The buffer is the end of the reference\<close>

lemma bounded_deltas_snoc: "bounded_deltas (bounded_deltas xs @ [x]) = bounded_deltas (xs @ [x])"
proof -
  have "Suc (length xs - 80) = length xs - 79" if "80 < length xs" using that by simp
  then show ?thesis by (auto simp: bounded_deltas_def TRANSCRIPT_DELTA_BUFFER_LIMIT_def)
qed

lemma numbered_snoc:
  "numbered r (cs @ [c]) = numbered r cs @ numbered (r + int (length cs)) [c]"
  by (induction cs arbitrary: r) (auto simp: algebra_simps)

lemma numbered_revisions: "d \<in> set (numbered r cs) \<Longrightarrow> r < dl_revision d \<and> dl_revision d \<le> r + int (length cs)"
  by (induction cs arbitrary: r) (fastforce split: option.splits if_splits)+

lemma numbered_sorted: "sorted_wrt (\<lambda>d e. dl_revision d < dl_revision e) (numbered r cs)"
proof (induction cs arbitrary: r)
  case (Cons c cs)
  obtain i m where c: "c = (i, m)" by (cases c)
  have "r + 1 < dl_revision d" if "d \<in> set (numbered (r + 1) cs)" for d
    using numbered_revisions [OF that] by simp
  with Cons [of "r + 1"] show ?case by (simp add: c split: option.splits)
qed simp

lemma record_changes_buffer:
  assumes "cw_transcript_deltas w = []"
  shows "cw_transcript_revision (record_changes cs w) = cw_transcript_revision w + int (length cs) \<and>
    cw_transcript_deltas (record_changes cs w) = bounded_deltas (numbered (cw_transcript_revision w) cs)"
proof (induction cs rule: rev_induct)
  case Nil
  then show ?case using assms by (simp add: record_changes_def bounded_deltas_def)
next
  case (snoc c cs)
  obtain i m where c: "c = (i, m)" by (cases c)
  have step: "record_changes (cs @ [c]) w = record_transcript_change i m (record_changes cs w)"
    by (simp add: record_changes_def c)
  have buffer: "cw_transcript_deltas (record_changes (cs @ [c]) w) =
      bounded_deltas (numbered (cw_transcript_revision w) cs @
        numbered (cw_transcript_revision w + int (length cs)) [c])"
    using snoc.IH unfolding step
    by (cases i; cases m) (simp_all add: c record_transcript_change_def bounded_deltas_snoc Let_def)
  have "cw_transcript_revision (record_changes (cs @ [c]) w) =
      cw_transcript_revision (record_changes cs w) + 1"
    unfolding step by (cases i; cases m) (simp_all add: record_transcript_change_def Let_def)
  with snoc.IH buffer show ?case by (simp add: numbered_snoc)
qed

lemma bounded_deltas_suffix: "\<exists>old. ds = old @ bounded_deltas ds"
  by (rule exI [of _ "take (length ds - TRANSCRIPT_DELTA_BUFFER_LIMIT) ds"]) (simp add: bounded_deltas_def)

lemma bounded_deltas_length: "length (bounded_deltas ds) \<le> TRANSCRIPT_DELTA_BUFFER_LIMIT"
  by (simp add: bounded_deltas_def)

lemma transcript_delta_result_fields [simp]:
  "dr_deltas (transcript_delta_result after ds snap bytes was_cut est w) = ds"
  "dr_needs_snapshot (transcript_delta_result after ds snap bytes was_cut est w) = snap"
  "dr_to_revision (transcript_delta_result after ds snap bytes was_cut est w) = cw_transcript_revision w"
  "dr_byte_limit (transcript_delta_result after ds snap bytes was_cut est w) = bytes"
  "dr_limited (transcript_delta_result after ds snap bytes was_cut est w) = was_cut"
  by (simp_all add: transcript_delta_result_def Let_def)

lemma filter_after_buffer:
  assumes sorted: "sorted_wrt (\<lambda>d e. dl_revision d < dl_revision e) (old @ oldest # rest)"
    and "dl_revision oldest - 1 \<le> (a :: int)"
  shows "filter (\<lambda>d. a < dl_revision d) (old @ oldest # rest) = filter (\<lambda>d. a < dl_revision d) (oldest # rest)"
proof -
  have "dl_revision d < dl_revision oldest" if "d \<in> set old" for d
    using sorted that by (auto simp: sorted_wrt_append)
  then have "filter (\<lambda>d. a < dl_revision d) old = []"
    using assms(2) by (fastforce simp: filter_empty_conv)
  then show ?thesis by simp
qed

lemma sorted_filter_split:
  fixes a :: int
  assumes "sorted_wrt (\<lambda>d e. dl_revision d < dl_revision e) ds"
  shows "filter (\<lambda>d. dl_revision d \<le> a) ds @ filter (\<lambda>d. a < dl_revision d) ds = ds"
  using assms
proof (induction ds)
  case (Cons d ds)
  show ?case
  proof (cases "dl_revision d \<le> a")
    case False
    with Cons.prems have "filter (\<lambda>d. dl_revision d \<le> a) ds = []" "filter (\<lambda>d. a < dl_revision d) ds = ds"
      by (fastforce simp: filter_empty_conv filter_id_conv)+
    with False show ?thesis by simp
  qed (use Cons in simp)
qed simp

text \<open>The changes a query returns are all changes after the revision it names.\<close>

lemma deltas_since_complete:
  assumes "cw_transcript_deltas w = []" and w': "w' = record_changes cs w"
    and query: "q = transcript_deltas_since after max_bytes w'" and "\<not> dr_needs_snapshot q"
  shows "dr_deltas q = filter (\<lambda>d. max 0 after < dl_revision d) (numbered (cw_transcript_revision w) cs)"
proof -
  let ?all = "numbered (cw_transcript_revision w) cs"
  let ?a = "max 0 after"
  from record_changes_buffer [OF assms(1), of cs]
  have rev: "cw_transcript_revision w' = cw_transcript_revision w + int (length cs)"
    and buffer: "cw_transcript_deltas w' = bounded_deltas ?all" by (simp_all add: w')
  obtain old where old: "?all = old @ cw_transcript_deltas w'"
    using bounded_deltas_suffix [of ?all] buffer by auto
  show ?thesis
  proof (cases "cw_transcript_revision w' \<le> ?a")
    case True
    then have "filter (\<lambda>d. ?a < dl_revision d) ?all = []"
      using numbered_revisions [of _ "cw_transcript_revision w" cs] rev by (fastforce simp: filter_empty_conv)
    with True show ?thesis by (simp add: query transcript_deltas_since_def)
  next
    case False
    with assms(4) obtain oldest rest where ds: "cw_transcript_deltas w' = oldest # rest"
      and fits: "dl_revision oldest - 1 \<le> ?a"
      by (auto simp: query transcript_deltas_since_def Let_def split: list.splits if_splits)
    from False assms(4) ds have "dr_deltas q = filter (\<lambda>d. ?a < dl_revision d) (oldest # rest)"
      by (auto simp: query transcript_deltas_since_def Let_def split: if_splits)
    also have "\<dots> = filter (\<lambda>d. ?a < dl_revision d) ?all"
      using filter_after_buffer [of old oldest rest ?a] numbered_sorted [of "cw_transcript_revision w" cs] fits
      by (simp only: old ds)
    finally show ?thesis .
  qed
qed

lemma deltas_since_size:
  assumes "q = transcript_deltas_since after max_bytes w"
  shows "dr_to_revision q = cw_transcript_revision w"
    and "transcript_deltas_query_bytes (dr_deltas q) \<le> transcript_byte_limit max_bytes"
proof -
  have "TRANSCRIPT_QUERY_BASE_OVERHEAD_BYTES \<le> transcript_byte_limit max_bytes"
    by (simp add: transcript_byte_limit_def transcript_limits Let_def)
  then have none: "transcript_deltas_query_bytes [] \<le> transcript_byte_limit max_bytes"
    by (simp add: transcript_deltas_query_bytes_def)
  show "dr_to_revision q = cw_transcript_revision w"
    by (simp add: assms transcript_deltas_since_def Let_def split: list.splits)
  show "transcript_deltas_query_bytes (dr_deltas q) \<le> transcript_byte_limit max_bytes"
    using none by (simp add: assms transcript_deltas_since_def Let_def split: list.splits)
qed

text \<open>A client that has only seen an earlier run, or fell behind the buffer, gets a snapshot.\<close>

lemma deltas_since_snapshot:
  assumes "cw_transcript_deltas w = []" and w': "w' = record_changes cs w"
    and "max 0 after < cw_transcript_revision w"
  shows "dr_needs_snapshot (transcript_deltas_since after max_bytes w')"
proof -
  from record_changes_buffer [OF assms(1), of cs]
  have rev: "cw_transcript_revision w' = cw_transcript_revision w + int (length cs)"
    and buffer: "cw_transcript_deltas w' = bounded_deltas (numbered (cw_transcript_revision w) cs)"
    by (simp_all add: w')
  show ?thesis
  proof (cases "cw_transcript_deltas w'")
    case Nil
    then show ?thesis using rev assms(3) by (auto simp: transcript_deltas_since_def Let_def)
  next
    case (Cons oldest rest)
    then have "oldest \<in> set (numbered (cw_transcript_revision w) cs)"
      using buffer bounded_deltas_suffix [of "numbered (cw_transcript_revision w) cs"]
      by (metis Un_iff list.set_intros(1) set_append)
    from numbered_revisions [OF this] have "cw_transcript_revision w < dl_revision oldest" by simp
    with Cons rev assms(3) show ?thesis by (auto simp: transcript_deltas_since_def Let_def)
  qed
qed

section \<open>The property\<close>

text \<open>
  C15. Every change of the transcript of a run has its own revision, and the last 80 changes are
  kept. A client that asks for the changes since a revision is either told to fetch a snapshot, as
  it always is when it has only seen an earlier run, or it gets changes that take what it shows at
  that revision to what is shown now, within the size limit of the query.
\<close>

theorem deltas_bring_client_up_to_date:
  assumes "cw_transcript_deltas w = []" and "w' = record_changes cs w"
    and "q = transcript_deltas_since after max_bytes w'"
  shows "length (cw_transcript_deltas w') \<le> TRANSCRIPT_DELTA_BUFFER_LIMIT \<and>
    dr_to_revision q = cw_transcript_revision w + int (length cs) \<and>
    transcript_deltas_query_bytes (dr_deltas q) \<le> transcript_byte_limit max_bytes \<and>
    (max 0 after < cw_transcript_revision w \<longrightarrow> dr_needs_snapshot q) \<and>
    (\<not> dr_needs_snapshot q \<longrightarrow>
      show_deltas (dr_deltas q) (shown_at (cw_transcript_revision w) cs (max 0 after)) =
        shown_at (cw_transcript_revision w) cs (dr_to_revision q))"
proof (intro conjI impI)
  let ?r = "cw_transcript_revision w"
  note buffer = record_changes_buffer [OF assms(1), of cs, folded assms(2)]
  note to = deltas_since_size(1) [OF assms(3)]
  show "length (cw_transcript_deltas w') \<le> TRANSCRIPT_DELTA_BUFFER_LIMIT"
    using buffer by (simp add: bounded_deltas_length)
  show "dr_to_revision q = ?r + int (length cs)" using to buffer by simp
  show "transcript_deltas_query_bytes (dr_deltas q) \<le> transcript_byte_limit max_bytes"
    by (rule deltas_since_size(2) [OF assms(3)])
  show "dr_needs_snapshot q" if "max 0 after < ?r"
    using deltas_since_snapshot [OF assms(1,2) that] by (simp add: assms(3))
  assume "\<not> dr_needs_snapshot q"
  from deltas_since_complete [OF assms this]
  have "show_deltas (dr_deltas q) (shown_at ?r cs (max 0 after)) =
      show_deltas (filter (\<lambda>d. dl_revision d \<le> max 0 after) (numbered ?r cs) @
        filter (\<lambda>d. max 0 after < dl_revision d) (numbered ?r cs)) Map.empty"
    by (simp add: show_deltas_def shown_at_def)
  also have "\<dots> = show_deltas (numbered ?r cs) Map.empty"
    by (simp only: sorted_filter_split [OF numbered_sorted])
  also have "\<dots> = shown_at ?r cs (dr_to_revision q)"
    using numbered_revisions [of _ ?r cs] to buffer by (simp add: shown_at_def filter_id_conv cong: filter_cong)
  finally show "show_deltas (dr_deltas q) (shown_at ?r cs (max 0 after)) = shown_at ?r cs (dr_to_revision q)" .
qed

definition sample_changes :: "transcript_change list" where
  "sample_changes =
     [(Some 0, Some \<lparr>ch_role = UserRole, ch_content = ''hello'', ch_attachments = []\<rparr>),
      (None, None),
      (Some 1, Some \<lparr>ch_role = AssistantRole, ch_content = ''hi'', ch_attachments = []\<rparr>)]"

theorem deltas_bring_client_up_to_date_witness:
  "let q = transcript_deltas_since 1 None (record_changes sample_changes SimpleChatWorkflow)
   in \<not> dr_needs_snapshot q \<and> length (dr_deltas q) = 1 \<and>
      show_deltas (dr_deltas q) (shown_at 0 sample_changes 1) = shown_at 0 sample_changes 3"
proof -
  let ?q = "transcript_deltas_since 1 None (record_changes sample_changes SimpleChatWorkflow)"
  have empty: "cw_transcript_deltas SimpleChatWorkflow = []" and rev: "cw_transcript_revision SimpleChatWorkflow = 0"
    by (simp_all add: SimpleChatWorkflow_def)
  have live: "\<not> dr_needs_snapshot ?q" "length (dr_deltas ?q) = 1" "dr_to_revision ?q = 3"
    by code_simp+
  from deltas_bring_client_up_to_date [OF empty refl refl, of sample_changes 1 None] live(1)
  have "show_deltas (dr_deltas ?q) (shown_at 0 sample_changes (max 0 1)) = shown_at 0 sample_changes 3"
    unfolding rev live(3) by blast
  with live show ?thesis by (simp add: Let_def)
qed

end
