(* ===== verification/StateMachine.thy ===== *)
theory StateMachine
  imports Main
begin

text \<open>
  Step relations: the states reachable from the initial ones, invariants, and refinement of an
  abstract machine. The workflows of the chat application are machines of this kind: a step is
  what happens between two suspensions of their coroutines.
\<close>

inductive reachable :: "('s \<Rightarrow> bool) \<Rightarrow> ('s \<Rightarrow> 's \<Rightarrow> bool) \<Rightarrow> 's \<Rightarrow> bool" for initial step where
  reachable_initial: "initial s \<Longrightarrow> reachable initial step s"
| reachable_step: "reachable initial step s \<Longrightarrow> step s t \<Longrightarrow> reachable initial step t"

text \<open>The contract of an invariant: it holds at the start, and every step keeps it.\<close>

locale invariant_system =
  fixes initial :: "'s \<Rightarrow> bool" and step :: "'s \<Rightarrow> 's \<Rightarrow> bool" and inv :: "'s \<Rightarrow> bool"
  assumes inv_initial: "initial s \<Longrightarrow> inv s"
    and inv_step: "inv s \<Longrightarrow> step s t \<Longrightarrow> inv t"
begin

lemma reachable_inv: "reachable initial step s \<Longrightarrow> inv s"
  by (induction rule: reachable.induct) (auto intro: inv_initial inv_step)

end

text \<open>
  A forward simulation by an abstraction function: a step is a step of the abstract machine or is
  invisible to it.
\<close>

locale forward_simulation = invariant_system initial step inv
  for initial :: "'s \<Rightarrow> bool" and step :: "'s \<Rightarrow> 's \<Rightarrow> bool" and inv :: "'s \<Rightarrow> bool" +
  fixes view :: "'s \<Rightarrow> 'a" and abs_initial :: "'a \<Rightarrow> bool" and abs_step :: "'a \<Rightarrow> 'a \<Rightarrow> bool"
  assumes abs_starts: "initial s \<Longrightarrow> abs_initial (view s)"
    and abs_simulates: "inv s \<Longrightarrow> step s t \<Longrightarrow> view t = view s \<or> abs_step (view s) (view t)"
begin

lemma reachable_abs: "reachable initial step s \<Longrightarrow> reachable abs_initial abs_step (view s)"
proof (induction rule: reachable.induct)
  case (reachable_initial s)
  then show ?case by (auto intro: reachable.reachable_initial abs_starts)
next
  case (reachable_step s t)
  then have "inv s" by (intro reachable_inv)
  from this reachable_step(2) have "view t = view s \<or> abs_step (view s) (view t)" by (intro abs_simulates)
  with reachable_step.IH show ?case by (metis reachable.reachable_step)
qed

end

end
