(* ===== verification/ChatSteps.thy ===== *)
theory ChatSteps
  imports ChatWorkflow StateMachine
begin

text \<open>
  The chat workflow as a state machine. An event is what happens between two suspensions of a
  coroutine of the workflow: a signal handler runs, the main loop of \<open>run\<close> goes on, a tool asks for
  an approval or gets its answer. The events may come in any order that the phase of the main loop
  allows, so the machine has every interleaving of the handlers with the main loop. Where the code
  continues as new, the machine goes on with the new run.

  While a turn is running, the agent may change in any way and end with any outcome, which includes
  everything the agent of \<open>Agent\<close> does. Signals may be handled before \<open>run\<close> starts, as Temporal
  delivers them.

  The fields from \<open>sy_accepted\<close> on are the history of the machine, no part of the program's state.
\<close>

section \<open>States and events\<close>

datatype chat_phase =
    NotStarted
  | Waiting bool
  | InTurn active_turn
  | Settling "agent_state option"
  | Ended
  | Failed

record chat_system =
  sy_input :: simple_chat_input
  sy_workflow :: chat_workflow
  sy_phase :: chat_phase
  sy_waiters :: "(string \<times> string) list"
  sy_accepted :: "queued_chat_message list"
  sy_started :: "queued_chat_message list"
  sy_requests :: "(string \<times> string) list"
  sy_decisions :: "(string \<times> string \<times> string) list"
  sy_answers :: "(string option \<times> string \<times> string) list"
  sy_settled :: "pydict list"

text \<open>
  \<open>sy_waiters\<close> are the tool calls that wait for an approval, with its identifier and memory key.
  \<open>sy_requests\<close> are all tool calls that ever waited; \<open>sy_decisions\<close> the decisions of the user on
  approvals that were pending, with the memory key; \<open>sy_answers\<close> the decisions given to tools and
  subagents, with the approval they waited for, if they waited.
\<close>

datatype chat_event =
    StartRun datetime
  | ChatSignal datetime chat_signal_request
  | DeleteSignal
  | SteerSignal datetime string string "attachment_ref list"
  | InterruptSignal datetime string
  | ResolveApproval datetime string string
  | RequestChildApproval datetime child_tool_approval_request
  | ExpireChildApproval string string
  | ChildSignalFails string py_exn
  | LoopPass datetime bool bool
  | AgentWorks "sliding_window agent"
  | AskApproval datetime string pydict
  | EndApproval string bool
  | CancelTool string
  | EndTurn "agent_result res"
  | SettledSent
  | SettledFails

definition chat_begin :: "simple_chat_input \<Rightarrow> chat_system" where
  "chat_begin inp =
     \<lparr>sy_input = inp, sy_workflow = SimpleChatWorkflow, sy_phase = NotStarted, sy_waiters = [],
      sy_accepted = ci_pending_messages inp, sy_started = [], sy_requests = [], sy_decisions = [],
      sy_answers = [], sy_settled = []\<rparr>"

definition chat_running :: "chat_system \<Rightarrow> bool" where
  "chat_running s = (sy_phase s \<noteq> Ended \<and> sy_phase s \<noteq> Failed)"

section \<open>Signals\<close>

text \<open>
  A handler that may queue messages. What it queues before \<open>run\<close> starts is not counted as accepted:
  \<open>_restore_from_input\<close> replaces the queue.
\<close>

definition handle_signal :: "(chat_workflow \<Rightarrow> chat_workflow) \<Rightarrow> chat_system \<Rightarrow> chat_system" where
  "handle_signal handler s =
     (let w = handler (sy_workflow s);
          queued = drop (length (cw_pending_messages (sy_workflow s))) (cw_pending_messages w)
      in s\<lparr>sy_workflow := w,
           sy_accepted := (if sy_phase s = NotStarted then sy_accepted s else sy_accepted s @ queued)\<rparr>)"

definition answer_child :: "string option \<Rightarrow> string \<Rightarrow> child_signal option \<Rightarrow> chat_system \<Rightarrow> chat_system" where
  "answer_child approval_id key signal s =
     (case signal of
        None \<Rightarrow> s
      | Some (_, _, decision) \<Rightarrow> s\<lparr>sy_answers := sy_answers s @ [(approval_id, key, decision)]\<rparr>)"

definition handle_resolve :: "datetime \<Rightarrow> string \<Rightarrow> string \<Rightarrow> chat_system \<Rightarrow> chat_system" where
  "handle_resolve now approval_id decision s =
     (let (signal, w) = resolve_approval now approval_id decision (sy_workflow s);
          s' = s\<lparr>sy_workflow := w\<rparr>
      in case map_of (cw_pending_approvals (sy_workflow s)) approval_id of
           None \<Rightarrow> s'
         | Some approval \<Rightarrow>
             (if decision \<in> {''allow'', ''always_allow'', ''deny''}
              then answer_child (Some approval_id) (pa_memory_key approval) signal
                (s'\<lparr>sy_decisions := sy_decisions s @ [(approval_id, pa_memory_key approval, decision)]\<rparr>)
              else s'))"

definition handle_child_request :: "datetime \<Rightarrow> child_tool_approval_request \<Rightarrow> chat_system \<Rightarrow> chat_system" where
  "handle_child_request now request s =
     (let (signal, w) = request_child_approval now request (sy_workflow s)
      in answer_child None (approval_memory_key (ca_tool_name request) (ca_tool_args request)) signal
           (s\<lparr>sy_workflow := w\<rparr>))"

section \<open>The main loop\<close>

definition begin_run :: "chat_setup \<Rightarrow> string \<Rightarrow> datetime \<Rightarrow> chat_system \<Rightarrow> chat_system" where
  "begin_run su workflow_id now s =
     (let (r, w) = start_run now workflow_id su (sy_input s) (sy_workflow s) in
      case r of
        Inl _ \<Rightarrow> s\<lparr>sy_workflow := w, sy_phase := Failed\<rparr>
      | Inr _ \<Rightarrow>
          (case ci_agent_state (sy_input s) of
             None \<Rightarrow> s\<lparr>sy_workflow := w, sy_phase := Waiting False\<rparr>
           | Some _ \<Rightarrow> s\<lparr>sy_workflow := begin_active_turn w, sy_phase := InTurn (resumed_turn w)\<rparr>))"

definition continue_as_new :: "agent_state option \<Rightarrow> chat_system \<Rightarrow> chat_system" where
  "continue_as_new agent_state s =
     (case continue_as_new_input (sy_input s) agent_state (sy_workflow s) of
        Inl _ \<Rightarrow> s\<lparr>sy_phase := Failed\<rparr>
      | Inr inp \<Rightarrow> s\<lparr>sy_input := inp, sy_workflow := SimpleChatWorkflow, sy_phase := NotStarted, sy_waiters := []\<rparr>)"

definition loop_pass :: "bool \<Rightarrow> datetime \<Rightarrow> bool \<Rightarrow> bool \<Rightarrow> chat_system \<Rightarrow> chat_system" where
  "loop_pass woken now checkpoint_requested handlers_finished s =
     (case wait_pass woken now checkpoint_requested handlers_finished (sy_workflow s) of
        EndRun \<Rightarrow> s\<lparr>sy_phase := Ended\<rparr>
      | Checkpoint \<Rightarrow> continue_as_new None s
      | TakeMessage \<Rightarrow>
          (let (turn, w) = activate_next_queued_message (sy_workflow s)
           in s\<lparr>sy_workflow := begin_active_turn w, sy_phase := InTurn turn,
                sy_started := sy_started s @ [hd (cw_pending_messages (sy_workflow s))]\<rparr>)
      | Wait \<Rightarrow> s\<lparr>sy_phase := Waiting True\<rparr>)"

definition ask_approval :: "datetime \<Rightarrow> string \<Rightarrow> pydict \<Rightarrow> chat_system \<Rightarrow> chat_system" where
  "ask_approval now tool_name tool_args s =
     (let (r, w) = begin_tool_approval now tool_name tool_args (sy_workflow s);
          key = approval_memory_key tool_name tool_args
      in case r of
           Inl decision \<Rightarrow> s\<lparr>sy_workflow := w, sy_answers := sy_answers s @ [(None, key, decision)]\<rparr>
         | Inr approval_id \<Rightarrow> s\<lparr>sy_workflow := w, sy_waiters := (approval_id, key) # sy_waiters s,
                               sy_requests := sy_requests s @ [(approval_id, key)]\<rparr>)"

definition end_approval :: "string \<Rightarrow> string \<Rightarrow> bool \<Rightarrow> chat_system \<Rightarrow> chat_system" where
  "end_approval approval_id key timed_out s =
     (let (decision, w) = finish_tool_approval approval_id key timed_out (sy_workflow s)
      in s\<lparr>sy_workflow := w, sy_waiters := AList.delete approval_id (sy_waiters s),
           sy_answers := sy_answers s @ [(Some approval_id, key, decision)]\<rparr>)"

definition end_turn :: "string \<Rightarrow> active_turn \<Rightarrow> agent_result res \<Rightarrow> chat_system \<Rightarrow> chat_system" where
  "end_turn workflow_id turn outcome s =
     (let (r, w) = finish_active_turn (ci_good_place_censor (sy_input s)) outcome (sy_workflow s)
      in case r of
           Inl _ \<Rightarrow> s\<lparr>sy_workflow := w, sy_phase := Failed\<rparr>
         | Inr next_state \<Rightarrow> s\<lparr>sy_workflow := w, sy_phase := Settling next_state, sy_waiters := [],
             sy_settled := sy_settled s @
               (case emit_turn_settled workflow_id (at_settle_after_revision turn) w of
                  None \<Rightarrow> [] | Some payload \<Rightarrow> [payload])\<rparr>)"

definition after_settled :: "agent_state option \<Rightarrow> chat_system \<Rightarrow> chat_system" where
  "after_settled next_state s =
     (case next_state of
        None \<Rightarrow> s\<lparr>sy_phase := Waiting False\<rparr>
      | Some st \<Rightarrow> continue_as_new (Some st) s)"

section \<open>The machine\<close>

definition signal_next :: "chat_event \<Rightarrow> chat_system \<Rightarrow> chat_system option" where
  "signal_next ev s =
     (case ev of
        ChatSignal now request \<Rightarrow> Some (handle_signal (chat_signal now request) s)
      | DeleteSignal \<Rightarrow> Some (handle_signal delete_signal s)
      | SteerSignal now msg mode attachments \<Rightarrow> Some (handle_signal (steer_signal now msg mode attachments) s)
      | InterruptSignal now msg \<Rightarrow> Some (handle_signal (interrupt_signal now msg) s)
      | ResolveApproval now approval_id decision \<Rightarrow> Some (handle_resolve now approval_id decision s)
      | RequestChildApproval now request \<Rightarrow> Some (handle_child_request now request s)
      | ExpireChildApproval child approval_id \<Rightarrow> Some (handle_signal (expire_child_approval child approval_id) s)
      | ChildSignalFails child err \<Rightarrow> Some (handle_signal (child_signal_failed child err) s)
      | _ \<Rightarrow> None)"

definition turn_next :: "string \<Rightarrow> active_turn \<Rightarrow> chat_event \<Rightarrow> chat_system \<Rightarrow> chat_system option" where
  "turn_next workflow_id turn ev s =
     (case ev of
        AgentWorks ag \<Rightarrow> Some (s\<lparr>sy_workflow := (sy_workflow s)\<lparr>cw_agent := Some ag\<rparr>\<rparr>)
      | AskApproval now tool_name tool_args \<Rightarrow> Some (ask_approval now tool_name tool_args s)
      | EndApproval approval_id timed_out \<Rightarrow>
          (case map_of (sy_waiters s) approval_id of
             Some key \<Rightarrow>
               (if timed_out \<or> approval_wait_over approval_id (sy_workflow s)
                then Some (end_approval approval_id key timed_out s) else None)
           | None \<Rightarrow> None)
      | CancelTool approval_id \<Rightarrow> Some (s\<lparr>sy_waiters := AList.delete approval_id (sy_waiters s)\<rparr>)
      | EndTurn outcome \<Rightarrow> Some (end_turn workflow_id turn outcome s)
      | _ \<Rightarrow> None)"

definition chat_next :: "chat_setup \<Rightarrow> string \<Rightarrow> chat_event \<Rightarrow> chat_system \<Rightarrow> chat_system option" where
  "chat_next su workflow_id ev s =
     (if \<not> chat_running s then None
      else case signal_next ev s of
        Some t \<Rightarrow> Some t
      | None \<Rightarrow>
          (case (sy_phase s, ev) of
             (NotStarted, StartRun now) \<Rightarrow> Some (begin_run su workflow_id now s)
           | (Waiting woken, LoopPass now requested finished) \<Rightarrow> Some (loop_pass woken now requested finished s)
           | (InTurn turn, _) \<Rightarrow> turn_next workflow_id turn ev s
           | (Settling next_state, SettledSent) \<Rightarrow> Some (after_settled next_state s)
           | (Settling next_state, SettledFails) \<Rightarrow> Some (s\<lparr>sy_phase := Failed\<rparr>)
           | _ \<Rightarrow> None))"

inductive chat_step :: "chat_setup \<Rightarrow> string \<Rightarrow> chat_system \<Rightarrow> chat_system \<Rightarrow> bool"
  for su :: chat_setup and workflow_id :: string where
  chat_step_event: "chat_next su workflow_id ev s = Some t \<Longrightarrow> chat_step su workflow_id s t"

fun chat_trace :: "chat_setup \<Rightarrow> string \<Rightarrow> chat_event list \<Rightarrow> chat_system \<Rightarrow> chat_system option" where
  "chat_trace su workflow_id [] s = Some s"
| "chat_trace su workflow_id (ev # evs) s =
     (case chat_next su workflow_id ev s of
        None \<Rightarrow> None
      | Some t \<Rightarrow> chat_trace su workflow_id evs t)"

text \<open>The states of a chat that started with an input.\<close>

definition chat_states :: "chat_setup \<Rightarrow> string \<Rightarrow> simple_chat_input \<Rightarrow> chat_system \<Rightarrow> bool" where
  "chat_states su workflow_id inp = reachable (\<lambda>s. s = chat_begin inp) (chat_step su workflow_id)"

lemma chat_trace_reachable:
  "reachable i (chat_step su workflow_id) s \<Longrightarrow> chat_trace su workflow_id evs s = Some t \<Longrightarrow>
   reachable i (chat_step su workflow_id) t"
proof (induction evs arbitrary: s)
  case (Cons ev evs)
  then obtain u where "chat_next su workflow_id ev s = Some u" and "chat_trace su workflow_id evs u = Some t"
    by (auto split: option.splits)
  then show ?case using Cons.IH Cons.prems(1) by (blast intro: reachable_step chat_step_event)
qed simp

end
