(* ===== verification/ChatInvariants.thy ===== *)
theory ChatInvariants
  imports ChatSteps
begin

text \<open>
  What every event of the chat machine keeps: the queue of messages, the bookkeeping of the active
  turn, and the approvals. Signal handlers share one contract, the locale \<open>signal_handler\<close>.
\<close>

section \<open>What recording a change leaves alone\<close>

lemma record_transcript_change_fields [simp]:
  "cw_pending_messages (record_transcript_change i m w) = cw_pending_messages w"
  "cw_status (record_transcript_change i m w) = cw_status w"
  "cw_agent (record_transcript_change i m w) = cw_agent w"
  "cw_active_message_index (record_transcript_change i m w) = cw_active_message_index w"
  "cw_active_message (record_transcript_change i m w) = cw_active_message w"
  "cw_active_settle_after_revision (record_transcript_change i m w) = cw_active_settle_after_revision w"
  "cw_pending_approvals (record_transcript_change i m w) = cw_pending_approvals w"
  "cw_approval_decisions (record_transcript_change i m w) = cw_approval_decisions w"
  "cw_approval_memory (record_transcript_change i m w) = cw_approval_memory w"
  "cw_approval_counter (record_transcript_change i m w) = cw_approval_counter w"
  "cw_delete_requested (record_transcript_change i m w) = cw_delete_requested w"
  "cw_touched_this_run (record_transcript_change i m w) = cw_touched_this_run w"
  "cw_stream_id (record_transcript_change i m w) = cw_stream_id w"
  by (cases i; cases m; simp add: record_transcript_change_def Let_def)+

lemmas recording_defs = record_state_change_def record_system_message_def
  record_latest_rendered_message_change_def record_queued_def enqueue_chat_def touch_def Let_def

section \<open>Signal handlers\<close>

definition delegated :: "pending_approval \<Rightarrow> bool" where
  "delegated a = (pa_requesting_workflow_id a \<noteq> None \<and> pa_requesting_approval_id a \<noteq> None)"

definition distinct_approvals :: "chat_workflow \<Rightarrow> bool" where
  "distinct_approvals w = distinct (map fst (cw_pending_approvals w))"

text \<open>
  A handler may add messages to the queue, noting the time; it may drop approvals that subagents
  asked for; it leaves the active turn and the answers of the user alone.
\<close>

locale signal_handler =
  fixes handler :: "chat_workflow \<Rightarrow> chat_workflow"
  assumes handler_queue: "\<exists>q. cw_pending_messages (handler w) = cw_pending_messages w @ q \<and>
      (q \<noteq> [] \<longrightarrow> cw_touched_this_run (handler w))"
    and handler_touched: "cw_touched_this_run w \<Longrightarrow> cw_touched_this_run (handler w)"
    and handler_deleted: "cw_delete_requested w \<Longrightarrow> cw_delete_requested (handler w)"
    and handler_status: "cw_status (handler w) = cw_status w"
    and handler_active: "cw_active_message (handler w) = cw_active_message w"
      "cw_active_message_index (handler w) = cw_active_message_index w"
      "cw_active_settle_after_revision (handler w) = cw_active_settle_after_revision w"
    and handler_answers: "cw_approval_memory (handler w) = cw_approval_memory w"
      "cw_approval_counter (handler w) = cw_approval_counter w"
      "cw_approval_decisions (handler w) = cw_approval_decisions w"
    and handler_approvals: "distinct_approvals w \<Longrightarrow> distinct_approvals (handler w)"
      "distinct_approvals w \<Longrightarrow> map_of (cw_pending_approvals (handler w)) i = Some a \<Longrightarrow>
        map_of (cw_pending_approvals w) i = Some a"
      "distinct_approvals w \<Longrightarrow> map_of (cw_pending_approvals w) i = Some a \<Longrightarrow> \<not> delegated a \<Longrightarrow>
        map_of (cw_pending_approvals (handler w)) i = Some a"

interpretation chat: signal_handler "chat_signal now request" for now request
  by unfold_locales (simp_all add: chat_signal_def recording_defs distinct_approvals_def)

interpretation deleting: signal_handler delete_signal
  by unfold_locales (simp_all add: delete_signal_def recording_defs distinct_approvals_def)

interpretation steering: signal_handler "steer_signal now msg mode attachments" for now msg mode attachments
  by unfold_locales
    (simp_all add: steer_signal_def recording_defs distinct_approvals_def split: option.splits if_split_asm)

interpretation interrupting: signal_handler "interrupt_signal now msg" for now msg
  by unfold_locales
    (simp_all add: interrupt_signal_def recording_defs distinct_approvals_def split: option.splits if_split_asm)

interpretation child_failed: signal_handler "child_signal_failed child err" for child err
  by unfold_locales (simp_all add: child_signal_failed_def recording_defs distinct_approvals_def)

lemma find_key:
  assumes "List.find (\<lambda>(_, a). P a) kvs = Some (k, v)" and "distinct (map fst kvs)"
  shows "map_of kvs k = Some v \<and> P v"
  using assms by (induction kvs) (auto split: if_splits simp: rev_image_eqI dest: map_of_SomeD)

lemma expire_child_approval_frame:
  "expire_child_approval child i w = w \<or>
   (\<exists>k a. expire_child_approval child i w =
        record_state_change (w\<lparr>cw_pending_approvals := AList.delete k (cw_pending_approvals w)\<rparr>) \<and>
      (distinct_approvals w \<longrightarrow> map_of (cw_pending_approvals w) k = Some a \<and> delegated a))"
proof (cases "List.find (\<lambda>(_, a). requested_by child i a) (cw_pending_approvals w)")
  case None
  then show ?thesis by (simp add: expire_child_approval_def)
next
  case (Some ka)
  obtain k a where ka: "ka = (k, a)" by (cases ka)
  show ?thesis
    using Some find_key [of "requested_by child i" "cw_pending_approvals w" k a]
    unfolding expire_child_approval_def ka distinct_approvals_def delegated_def requested_by_def by auto
qed

interpretation expiring: signal_handler "expire_child_approval child i" for child i
proof unfold_locales
  fix w j a
  note frame = expire_child_approval_frame [of child i w]
  show "\<exists>q. cw_pending_messages (expire_child_approval child i w) = cw_pending_messages w @ q \<and>
      (q \<noteq> [] \<longrightarrow> cw_touched_this_run (expire_child_approval child i w))"
    using frame by (auto simp: record_state_change_def)
  show "cw_touched_this_run w \<Longrightarrow> cw_touched_this_run (expire_child_approval child i w)"
    using frame by (auto simp: record_state_change_def)
  show "cw_delete_requested w \<Longrightarrow> cw_delete_requested (expire_child_approval child i w)"
    using frame by (auto simp: record_state_change_def)
  show "cw_status (expire_child_approval child i w) = cw_status w"
    "cw_active_message (expire_child_approval child i w) = cw_active_message w"
    "cw_active_message_index (expire_child_approval child i w) = cw_active_message_index w"
    "cw_active_settle_after_revision (expire_child_approval child i w) = cw_active_settle_after_revision w"
    "cw_approval_memory (expire_child_approval child i w) = cw_approval_memory w"
    "cw_approval_counter (expire_child_approval child i w) = cw_approval_counter w"
    "cw_approval_decisions (expire_child_approval child i w) = cw_approval_decisions w"
    using frame by (auto simp: record_state_change_def)
  assume d: "distinct_approvals w"
  show "distinct_approvals (expire_child_approval child i w)"
    using frame d by (auto simp: record_state_change_def distinct_approvals_def AList.distinct_delete)
  show "map_of (cw_pending_approvals (expire_child_approval child i w)) j = Some a \<Longrightarrow>
      map_of (cw_pending_approvals w) j = Some a"
    using frame d by (auto simp: record_state_change_def AList.delete_conv split: if_splits)
  show "map_of (cw_pending_approvals w) j = Some a \<Longrightarrow> \<not> delegated a \<Longrightarrow>
      map_of (cw_pending_approvals (expire_child_approval child i w)) j = Some a"
    using frame d by (auto simp: record_state_change_def AList.delete_conv)
qed


section \<open>The cases of a step\<close>

lemma signal_next_handler:
  assumes "signal_next ev s = Some t"
  shows "(\<exists>h. signal_handler h \<and> t = handle_signal h s) \<or>
    (\<exists>now i d. t = handle_resolve now i d s) \<or> (\<exists>now r. t = handle_child_request now r s)"
  using assms unfolding signal_next_def
  by (cases ev; simp; blast intro: chat.signal_handler_axioms deleting.signal_handler_axioms
    steering.signal_handler_axioms interrupting.signal_handler_axioms expiring.signal_handler_axioms
    child_failed.signal_handler_axioms)

lemma chat_step_cases [consumes 1, case_names handler resolve child_request begin_run pass agent ask answer
    cancel end_turn settled settled_fails]:
  assumes "chat_step su workflow_id s t"
    and "\<And>h. signal_handler h \<Longrightarrow> chat_running s \<Longrightarrow> t = handle_signal h s \<Longrightarrow> P"
    and "\<And>now i d. chat_running s \<Longrightarrow> t = handle_resolve now i d s \<Longrightarrow> P"
    and "\<And>now r. chat_running s \<Longrightarrow> t = handle_child_request now r s \<Longrightarrow> P"
    and "\<And>now. sy_phase s = NotStarted \<Longrightarrow> t = begin_run su workflow_id now s \<Longrightarrow> P"
    and "\<And>woken now requested finished. sy_phase s = Waiting woken \<Longrightarrow>
      t = loop_pass woken now requested finished s \<Longrightarrow> P"
    and "\<And>turn ag. sy_phase s = InTurn turn \<Longrightarrow>
      t = s\<lparr>sy_workflow := (sy_workflow s)\<lparr>cw_agent := Some ag\<rparr>\<rparr> \<Longrightarrow> P"
    and "\<And>turn now n args. sy_phase s = InTurn turn \<Longrightarrow> t = ask_approval now n args s \<Longrightarrow> P"
    and "\<And>turn i key timed_out. sy_phase s = InTurn turn \<Longrightarrow> map_of (sy_waiters s) i = Some key \<Longrightarrow>
      timed_out \<or> approval_wait_over i (sy_workflow s) \<Longrightarrow> t = end_approval i key timed_out s \<Longrightarrow> P"
    and "\<And>turn i. sy_phase s = InTurn turn \<Longrightarrow>
      t = s\<lparr>sy_waiters := AList.delete i (sy_waiters s)\<rparr> \<Longrightarrow> P"
    and "\<And>turn outcome. sy_phase s = InTurn turn \<Longrightarrow> t = end_turn workflow_id turn outcome s \<Longrightarrow> P"
    and "\<And>n. sy_phase s = Settling n \<Longrightarrow> t = after_settled n s \<Longrightarrow> P"
    and "\<And>n. sy_phase s = Settling n \<Longrightarrow> t = s\<lparr>sy_phase := Failed\<rparr> \<Longrightarrow> P"
  shows P
proof -
  from assms(1) obtain ev where nxt: "chat_next su workflow_id ev s = Some t"
    by (cases rule: chat_step.cases)
  then have running: "chat_running s" by (simp add: chat_next_def split: if_splits)
  show P
  proof (cases "signal_next ev s")
    case (Some u)
    with nxt running have "signal_next ev s = Some t" by (simp add: chat_next_def)
    from signal_next_handler [OF this] running assms(2-4) show P by blast
  next
    case None
    show P
    proof (cases "sy_phase s")
      case (InTurn turn)
      with nxt running None have "turn_next workflow_id turn ev s = Some t"
        by (simp add: chat_next_def)
      with InTurn assms(7-11) show P
        by (cases ev) (auto simp: turn_next_def split: option.splits if_splits)
    qed (use nxt running None assms(5,6,12,13) in
        \<open>(cases ev; force simp: chat_next_def chat_running_def)\<close>)+
  qed
qed

text \<open>What a pass of the waiting loop can do.\<close>

lemma loop_pass_cases [case_names end_run checkpoint take wait]:
  obtains "loop_pass woken now requested finished s = s\<lparr>sy_phase := Ended\<rparr>"
      "cw_delete_requested (sy_workflow s) \<or> \<not> cw_touched_this_run (sy_workflow s)"
    | "loop_pass woken now requested finished s = continue_as_new None s"
    | q qs where "cw_pending_messages (sy_workflow s) = q # qs"
      "loop_pass woken now requested finished s =
        s\<lparr>sy_workflow := begin_active_turn (snd (activate_next_queued_message (sy_workflow s))),
          sy_phase := InTurn (fst (activate_next_queued_message (sy_workflow s))),
          sy_started := sy_started s @ [q]\<rparr>"
    | "loop_pass woken now requested finished s = s\<lparr>sy_phase := Waiting True\<rparr>"
      "cw_pending_messages (sy_workflow s) = []"
proof (cases "wait_pass woken now requested finished (sy_workflow s)")
  case EndRun
  then have "cw_delete_requested (sy_workflow s) \<or> \<not> cw_touched_this_run (sy_workflow s)"
    by (auto simp: wait_pass_def finish_or_checkpoint_if_needed_def split: if_splits)
  with EndRun show thesis using that(1) by (simp add: loop_pass_def)
next
  case Checkpoint
  then show thesis using that(2) by (simp add: loop_pass_def)
next
  case TakeMessage
  then obtain q qs where "cw_pending_messages (sy_workflow s) = q # qs"
    by (cases "cw_pending_messages (sy_workflow s)")
      (auto simp: wait_pass_def finish_or_checkpoint_if_needed_def split: if_splits option.splits)
  with TakeMessage show thesis using that(3) by (simp add: loop_pass_def split_beta)
next
  case Wait
  then have "cw_pending_messages (sy_workflow s) = []"
    by (auto simp: wait_pass_def finish_or_checkpoint_if_needed_def split: if_splits option.splits)
  with Wait show thesis using that(4) by (simp add: loop_pass_def)
qed

lemma continue_as_new_cases [case_names failed continued]:
  obtains "continue_as_new st s = s\<lparr>sy_phase := Failed\<rparr>"
    | inp where "continue_as_new_input (sy_input s) st (sy_workflow s) = Inr inp"
      "continue_as_new st s =
        s\<lparr>sy_input := inp, sy_workflow := SimpleChatWorkflow, sy_phase := NotStarted, sy_waiters := []\<rparr>"
  by (cases "continue_as_new_input (sy_input s) st (sy_workflow s)") (auto simp: continue_as_new_def)

lemma continue_as_new_input_fields:
  assumes "continue_as_new_input inp st w = Inr inp'"
  shows "ci_pending_messages inp' = cw_pending_messages w"
    "ci_active_message_index inp' = cw_active_message_index w"
    "ci_active_settle_after_revision inp' = cw_active_settle_after_revision w"
    "set (ci_approval_memory inp') = (if finite (cw_approval_memory w) then cw_approval_memory w else {})"
    "ci_approval_counter inp' = cw_approval_counter w"
    "ci_agent_state inp' = st"
  using assms by (cases st; cases "cw_agent w"; auto simp: continue_as_new_input_def res_bind_def split: sum.splits)+

section \<open>The queue of messages\<close>

text \<open>The messages that wait for a turn: before \<open>run\<close> starts, those of its input.\<close>

definition waiting_messages :: "chat_system \<Rightarrow> queued_chat_message list" where
  "waiting_messages s = (if sy_phase s = NotStarted then ci_pending_messages (sy_input s)
                         else cw_pending_messages (sy_workflow s))"

definition queue_inv :: "chat_system \<Rightarrow> bool" where
  "queue_inv s =
     (sy_accepted s = sy_started s @ waiting_messages s \<and>
      (sy_phase s \<noteq> NotStarted \<and> waiting_messages s \<noteq> [] \<longrightarrow> cw_touched_this_run (sy_workflow s)) \<and>
      (sy_phase s = Ended \<and> waiting_messages s \<noteq> [] \<longrightarrow> cw_delete_requested (sy_workflow s)))"

text \<open>An event that keeps the queue and the history keeps the invariant.\<close>

lemma queue_inv_kept:
  assumes "queue_inv s" and "sy_phase s \<noteq> NotStarted" and "sy_phase t \<noteq> NotStarted" and "sy_phase t \<noteq> Ended"
    and "sy_accepted t = sy_accepted s" and "sy_started t = sy_started s"
    and "cw_pending_messages (sy_workflow t) = cw_pending_messages (sy_workflow s)"
    and "cw_touched_this_run (sy_workflow s) \<Longrightarrow> cw_touched_this_run (sy_workflow t)"
  shows "queue_inv t"
  using assms unfolding queue_inv_def waiting_messages_def by simp

lemma queue_inv_continue:
  assumes "queue_inv s" and "sy_phase s \<noteq> NotStarted"
  shows "queue_inv (continue_as_new st s)"
proof (cases rule: continue_as_new_cases [of st s])
  case failed
  then show ?thesis using assms by (auto simp: queue_inv_def waiting_messages_def)
next
  case (continued inp)
  then show ?thesis using assms continue_as_new_input_fields(1) [OF continued(1)]
    by (auto simp: queue_inv_def waiting_messages_def)
qed

lemma handle_signal_fields [simp]:
  "sy_input (handle_signal h s) = sy_input s"
  "sy_workflow (handle_signal h s) = h (sy_workflow s)"
  "sy_phase (handle_signal h s) = sy_phase s"
  "sy_waiters (handle_signal h s) = sy_waiters s"
  "sy_started (handle_signal h s) = sy_started s"
  "sy_requests (handle_signal h s) = sy_requests s"
  "sy_decisions (handle_signal h s) = sy_decisions s"
  "sy_answers (handle_signal h s) = sy_answers s"
  "sy_settled (handle_signal h s) = sy_settled s"
  by (simp_all add: handle_signal_def Let_def)

context signal_handler
begin

lemma accepted_handler:
  assumes "cw_pending_messages (handler (sy_workflow s)) = cw_pending_messages (sy_workflow s) @ q"
  shows "sy_accepted (handle_signal handler s) =
    (if sy_phase s = NotStarted then sy_accepted s else sy_accepted s @ q)"
  using assms by (simp add: handle_signal_def Let_def)

lemma queue_inv_handler:
  assumes "queue_inv s" and "chat_running s"
  shows "queue_inv (handle_signal handler s)"
proof -
  obtain q where q: "cw_pending_messages (handler (sy_workflow s)) = cw_pending_messages (sy_workflow s) @ q"
    and touched: "q \<noteq> [] \<Longrightarrow> cw_touched_this_run (handler (sy_workflow s))"
    using handler_queue by blast
  show ?thesis
    using assms touched handler_touched [of "sy_workflow s"]
    unfolding queue_inv_def waiting_messages_def chat_running_def
    by (auto simp: accepted_handler [OF q] q)
qed

end

lemma resolve_approval_fields [simp]:
  "cw_pending_messages (snd (resolve_approval now i d w)) = cw_pending_messages w"
  "cw_touched_this_run (snd (resolve_approval now i d w))"
  "cw_delete_requested (snd (resolve_approval now i d w)) = cw_delete_requested w"
  "cw_status (snd (resolve_approval now i d w)) = cw_status w"
  "cw_active_message (snd (resolve_approval now i d w)) = cw_active_message w"
  "cw_active_message_index (snd (resolve_approval now i d w)) = cw_active_message_index w"
  "cw_active_settle_after_revision (snd (resolve_approval now i d w)) = cw_active_settle_after_revision w"
  "cw_approval_counter (snd (resolve_approval now i d w)) = cw_approval_counter w"
  by (simp_all add: resolve_approval_def recording_defs split: option.splits)

lemma request_child_approval_fields [simp]:
  "cw_pending_messages (snd (request_child_approval now r w)) = cw_pending_messages w"
  "cw_touched_this_run (snd (request_child_approval now r w)) = cw_touched_this_run w"
  "cw_delete_requested (snd (request_child_approval now r w)) = cw_delete_requested w"
  "cw_status (snd (request_child_approval now r w)) = cw_status w"
  "cw_active_message (snd (request_child_approval now r w)) = cw_active_message w"
  "cw_active_message_index (snd (request_child_approval now r w)) = cw_active_message_index w"
  "cw_active_settle_after_revision (snd (request_child_approval now r w)) = cw_active_settle_after_revision w"
  "cw_approval_memory (snd (request_child_approval now r w)) = cw_approval_memory w"
  "cw_approval_decisions (snd (request_child_approval now r w)) = cw_approval_decisions w"
  by (simp_all add: request_child_approval_def recording_defs)

lemma answer_child_fields [simp]:
  "sy_input (answer_child i key sig s) = sy_input s"
  "sy_workflow (answer_child i key sig s) = sy_workflow s"
  "sy_phase (answer_child i key sig s) = sy_phase s"
  "sy_waiters (answer_child i key sig s) = sy_waiters s"
  "sy_accepted (answer_child i key sig s) = sy_accepted s"
  "sy_started (answer_child i key sig s) = sy_started s"
  "sy_requests (answer_child i key sig s) = sy_requests s"
  "sy_decisions (answer_child i key sig s) = sy_decisions s"
  "sy_settled (answer_child i key sig s) = sy_settled s"
  by (simp_all add: answer_child_def split: option.splits)

lemma handle_resolve_fields [simp]:
  "sy_input (handle_resolve now i d s) = sy_input s"
  "sy_workflow (handle_resolve now i d s) = snd (resolve_approval now i d (sy_workflow s))"
  "sy_phase (handle_resolve now i d s) = sy_phase s"
  "sy_waiters (handle_resolve now i d s) = sy_waiters s"
  "sy_accepted (handle_resolve now i d s) = sy_accepted s"
  "sy_started (handle_resolve now i d s) = sy_started s"
  "sy_requests (handle_resolve now i d s) = sy_requests s"
  "sy_settled (handle_resolve now i d s) = sy_settled s"
  by (simp_all add: handle_resolve_def Let_def split_beta split: option.splits)

lemma handle_child_request_fields [simp]:
  "sy_input (handle_child_request now r s) = sy_input s"
  "sy_workflow (handle_child_request now r s) = snd (request_child_approval now r (sy_workflow s))"
  "sy_phase (handle_child_request now r s) = sy_phase s"
  "sy_waiters (handle_child_request now r s) = sy_waiters s"
  "sy_accepted (handle_child_request now r s) = sy_accepted s"
  "sy_started (handle_child_request now r s) = sy_started s"
  "sy_requests (handle_child_request now r s) = sy_requests s"
  "sy_decisions (handle_child_request now r s) = sy_decisions s"
  "sy_settled (handle_child_request now r s) = sy_settled s"
  by (simp_all add: handle_child_request_def split_beta)

lemma ask_approval_fields [simp]:
  "sy_input (ask_approval now n args s) = sy_input s"
  "sy_phase (ask_approval now n args s) = sy_phase s"
  "sy_accepted (ask_approval now n args s) = sy_accepted s"
  "sy_started (ask_approval now n args s) = sy_started s"
  "sy_decisions (ask_approval now n args s) = sy_decisions s"
  "sy_settled (ask_approval now n args s) = sy_settled s"
  "sy_workflow (ask_approval now n args s) = snd (begin_tool_approval now n args (sy_workflow s))"
  by (simp_all add: ask_approval_def split_beta Let_def split: sum.splits)

lemma end_approval_fields [simp]:
  "sy_input (end_approval i key timed_out s) = sy_input s"
  "sy_phase (end_approval i key timed_out s) = sy_phase s"
  "sy_accepted (end_approval i key timed_out s) = sy_accepted s"
  "sy_started (end_approval i key timed_out s) = sy_started s"
  "sy_requests (end_approval i key timed_out s) = sy_requests s"
  "sy_decisions (end_approval i key timed_out s) = sy_decisions s"
  "sy_settled (end_approval i key timed_out s) = sy_settled s"
  "sy_waiters (end_approval i key timed_out s) = AList.delete i (sy_waiters s)"
  "sy_workflow (end_approval i key timed_out s) = snd (finish_tool_approval i key timed_out (sy_workflow s))"
  by (simp_all add: end_approval_def split_beta)

lemma begin_tool_approval_fields [simp]:
  "cw_pending_messages (snd (begin_tool_approval now n args w)) = cw_pending_messages w"
  "cw_touched_this_run (snd (begin_tool_approval now n args w)) = cw_touched_this_run w"
  "cw_status (snd (begin_tool_approval now n args w)) = cw_status w"
  "cw_active_message (snd (begin_tool_approval now n args w)) = cw_active_message w"
  "cw_active_message_index (snd (begin_tool_approval now n args w)) = cw_active_message_index w"
  "cw_active_settle_after_revision (snd (begin_tool_approval now n args w)) = cw_active_settle_after_revision w"
  "cw_approval_memory (snd (begin_tool_approval now n args w)) = cw_approval_memory w"
  "cw_approval_decisions (snd (begin_tool_approval now n args w)) = cw_approval_decisions w"
  by (simp_all add: begin_tool_approval_def recording_defs)

lemma finish_tool_approval_fields [simp]:
  "cw_pending_messages (snd (finish_tool_approval i key timed_out w)) = cw_pending_messages w"
  "cw_touched_this_run (snd (finish_tool_approval i key timed_out w)) = cw_touched_this_run w"
  "cw_status (snd (finish_tool_approval i key timed_out w)) = cw_status w"
  "cw_active_message (snd (finish_tool_approval i key timed_out w)) = cw_active_message w"
  "cw_active_message_index (snd (finish_tool_approval i key timed_out w)) = cw_active_message_index w"
  "cw_active_settle_after_revision (snd (finish_tool_approval i key timed_out w)) = cw_active_settle_after_revision w"
  "cw_approval_counter (snd (finish_tool_approval i key timed_out w)) = cw_approval_counter w"
  "cw_pending_approvals (snd (finish_tool_approval i key timed_out w)) =
     AList.delete i (cw_pending_approvals w)"
  by (simp_all add: finish_tool_approval_def recording_defs split: option.splits)

section \<open>Starting a run and ending a turn\<close>

lemma restore_from_input_fields [simp]:
  "cw_pending_messages (restore_from_input now wid inp w) = ci_pending_messages inp"
  "ci_pending_messages inp \<noteq> [] \<Longrightarrow> cw_touched_this_run (restore_from_input now wid inp w)"
  "cw_status (restore_from_input now wid inp w) = cw_status w"
  "cw_active_message (restore_from_input now wid inp w) = None"
  "cw_active_message_index (restore_from_input now wid inp w) = ci_active_message_index inp"
  "cw_active_settle_after_revision (restore_from_input now wid inp w) = ci_active_settle_after_revision inp"
  "cw_approval_memory (restore_from_input now wid inp w) = set (ci_approval_memory inp)"
  "cw_approval_counter (restore_from_input now wid inp w) = ci_approval_counter inp"
  "cw_approval_decisions (restore_from_input now wid inp w) = cw_approval_decisions w"
  "cw_pending_approvals (restore_from_input now wid inp w) = cw_pending_approvals w"
  by (simp_all add: restore_from_input_def Let_def split: option.splits prod.splits)

lemma start_run_cases [case_names failed started]:
  obtains e w' where "start_run now wid su inp w = (Inl e, w')"
      "cw_pending_messages w' = ci_pending_messages inp"
      "ci_pending_messages inp \<noteq> [] \<Longrightarrow> cw_touched_this_run w'"
      "cw_approval_memory w' = set (ci_approval_memory inp)"
      "cw_approval_counter w' = ci_approval_counter inp"
      "cw_approval_decisions w' = cw_approval_decisions w"
      "cw_pending_approvals w' = cw_pending_approvals w"
    | ag where "start_run now wid su inp w = (Inr (), record_state_change
        ((restore_from_input now wid inp w)\<lparr>cw_agent := Some ag, cw_status := Idle\<rparr>))"
proof -
  define built where "built = build_agent su inp (restore_from_input now wid inp w)"
  define restored where "restored = (case (ci_agent_context_state inp, ci_agent_state inp) of
    (Some st, None) \<Rightarrow> restore_idle_state st built | _ \<Rightarrow> (Inr (), built))"
  have start: "start_run now wid su inp w =
     (let w1 = (restore_from_input now wid inp w)\<lparr>cw_agent := Some (snd restored)\<rparr> in
      case fst restored of Inl e \<Rightarrow> (Inl e, w1) | Inr _ \<Rightarrow> (Inr (), record_state_change (w1\<lparr>cw_status := Idle\<rparr>)))"
    unfolding start_run_def restored_def built_def Let_def split_beta by (rule refl)
  show thesis
  proof (cases "fst restored")
    case (Inl e)
    show thesis
      by (rule that(1) [of e "(restore_from_input now wid inp w)\<lparr>cw_agent := Some (snd restored)\<rparr>"])
        (simp_all add: start Inl Let_def)
  next
    case (Inr u)
    show thesis by (rule that(2)) (simp add: start Inr Let_def)
  qed
qed

lemma begin_run_cases [case_names failed idle resumed]:
  obtains w where "begin_run su wid now s = s\<lparr>sy_workflow := w, sy_phase := Failed\<rparr>"
      "cw_pending_messages w = ci_pending_messages (sy_input s)"
      "ci_pending_messages (sy_input s) \<noteq> [] \<Longrightarrow> cw_touched_this_run w"
      "cw_approval_memory w = set (ci_approval_memory (sy_input s))"
      "cw_approval_counter w = ci_approval_counter (sy_input s)"
      "cw_approval_decisions w = cw_approval_decisions (sy_workflow s)"
      "cw_pending_approvals w = cw_pending_approvals (sy_workflow s)"
    | ag where "ci_agent_state (sy_input s) = None"
      "begin_run su wid now s = s\<lparr>sy_workflow := record_state_change
        ((restore_from_input now wid (sy_input s) (sy_workflow s))\<lparr>cw_agent := Some ag, cw_status := Idle\<rparr>),
        sy_phase := Waiting False\<rparr>"
    | st ag where "ci_agent_state (sy_input s) = Some st"
      "begin_run su wid now s = s\<lparr>sy_workflow := begin_active_turn (record_state_change
        ((restore_from_input now wid (sy_input s) (sy_workflow s))\<lparr>cw_agent := Some ag, cw_status := Idle\<rparr>)),
        sy_phase := InTurn \<lparr>at_message = None, at_attachments = [],
          at_settle_after_revision = ci_active_settle_after_revision (sy_input s)\<rparr>\<rparr>"
proof (cases rule: start_run_cases [of now wid su "sy_input s" "sy_workflow s"])
  case (failed e w)
  then show thesis using that(1) [of w] by (simp add: begin_run_def)
next
  case (started ag)
  show thesis
  proof (cases "ci_agent_state (sy_input s)")
    case None
    then show thesis using started by (intro that(2) [of ag]) (simp_all add: begin_run_def)
  next
    case (Some st)
    then show thesis using started
      by (intro that(3) [of st ag]) (simp_all add: begin_run_def resumed_turn_def record_state_change_def)
  qed
qed

lemma record_effective_user_prompt_fields [simp]:
  "cw_pending_messages (record_effective_user_prompt_if_needed b w) = cw_pending_messages w"
  "cw_touched_this_run (record_effective_user_prompt_if_needed b w) = cw_touched_this_run w"
  "cw_approval_memory (record_effective_user_prompt_if_needed b w) = cw_approval_memory w"
  "cw_approval_counter (record_effective_user_prompt_if_needed b w) = cw_approval_counter w"
  "cw_approval_decisions (record_effective_user_prompt_if_needed b w) = cw_approval_decisions w"
  "cw_pending_approvals (record_effective_user_prompt_if_needed b w) = cw_pending_approvals w"
  by (simp_all add: record_effective_user_prompt_if_needed_def split: option.splits)

lemma finish_active_turn_fields [simp]:
  "cw_pending_messages (snd (finish_active_turn b out w)) = cw_pending_messages w"
  "cw_touched_this_run (snd (finish_active_turn b out w)) = cw_touched_this_run w"
  "cw_status (snd (finish_active_turn b out w)) = Idle"
  "cw_active_message (snd (finish_active_turn b out w)) = None"
  "cw_active_message_index (snd (finish_active_turn b out w)) = None"
  "cw_active_settle_after_revision (snd (finish_active_turn b out w)) = 0"
  "cw_approval_memory (snd (finish_active_turn b out w)) = cw_approval_memory w"
  "cw_approval_counter (snd (finish_active_turn b out w)) = cw_approval_counter w"
  "cw_approval_decisions (snd (finish_active_turn b out w)) = cw_approval_decisions w"
  "cw_pending_approvals (snd (finish_active_turn b out w)) = cw_pending_approvals w"
  by (simp_all add: finish_active_turn_def clear_active_turn_def recording_defs
      split: sum.splits option.splits exn_kind.splits)

lemma activate_next_fields [simp]:
  "cw_pending_messages (snd (activate_next_queued_message w)) = tl (cw_pending_messages w)"
  "cw_touched_this_run (snd (activate_next_queued_message w)) = cw_touched_this_run w"
  "cw_active_message (snd (activate_next_queued_message w)) = Some (hd (cw_pending_messages w))"
  "cw_active_message_index (snd (activate_next_queued_message w)) =
     Some (qm_transcript_index (hd (cw_pending_messages w)))"
  "cw_active_settle_after_revision (snd (activate_next_queued_message w)) =
     qm_settle_after_revision (hd (cw_pending_messages w))"
  "cw_approval_memory (snd (activate_next_queued_message w)) = cw_approval_memory w"
  "cw_approval_counter (snd (activate_next_queued_message w)) = cw_approval_counter w"
  "cw_approval_decisions (snd (activate_next_queued_message w)) = cw_approval_decisions w"
  "cw_pending_approvals (snd (activate_next_queued_message w)) = cw_pending_approvals w"
  "fst (activate_next_queued_message w) =
     \<lparr>at_message = Some (qm_content (hd (cw_pending_messages w))),
      at_attachments = qm_attachments (hd (cw_pending_messages w)),
      at_settle_after_revision = qm_settle_after_revision (hd (cw_pending_messages w))\<rparr>"
  by (simp_all add: activate_next_queued_message_def apply_queued_tool_config_def Let_def split: option.splits)

lemma begin_active_turn_fields [simp]:
  "cw_pending_messages (begin_active_turn w) = cw_pending_messages w"
  "cw_touched_this_run (begin_active_turn w) = cw_touched_this_run w"
  "cw_status (begin_active_turn w) = Responding"
  "cw_active_message (begin_active_turn w) = cw_active_message w"
  "cw_active_message_index (begin_active_turn w) = cw_active_message_index w"
  "cw_active_settle_after_revision (begin_active_turn w) = cw_active_settle_after_revision w"
  "cw_approval_memory (begin_active_turn w) = cw_approval_memory w"
  "cw_approval_counter (begin_active_turn w) = cw_approval_counter w"
  "cw_approval_decisions (begin_active_turn w) = cw_approval_decisions w"
  "cw_pending_approvals (begin_active_turn w) = cw_pending_approvals w"
  by (simp_all add: begin_active_turn_def record_state_change_def)

lemma end_turn_cases [case_names failed settling]:
  obtains e where "fst (finish_active_turn (ci_good_place_censor (sy_input s)) out (sy_workflow s)) = Inl e"
      "end_turn wid turn out s = s\<lparr>sy_workflow :=
        snd (finish_active_turn (ci_good_place_censor (sy_input s)) out (sy_workflow s)), sy_phase := Failed\<rparr>"
    | st events where "fst (finish_active_turn (ci_good_place_censor (sy_input s)) out (sy_workflow s)) = Inr st"
      "end_turn wid turn out s = s\<lparr>sy_workflow :=
        snd (finish_active_turn (ci_good_place_censor (sy_input s)) out (sy_workflow s)),
        sy_phase := Settling st, sy_waiters := [], sy_settled := sy_settled s @ events\<rparr>"
      "\<And>p. p \<in> set events \<Longrightarrow> emit_turn_settled wid (at_settle_after_revision turn)
        (snd (finish_active_turn (ci_good_place_censor (sy_input s)) out (sy_workflow s))) = Some p"
proof (cases "fst (finish_active_turn (ci_good_place_censor (sy_input s)) out (sy_workflow s))")
  case (Inl e)
  then show thesis using that(1) by (simp add: end_turn_def split_beta)
next
  case (Inr st)
  then show thesis
    by (intro that(2) [where events = "case emit_turn_settled wid (at_settle_after_revision turn)
          (snd (finish_active_turn (ci_good_place_censor (sy_input s)) out (sy_workflow s)))
        of None \<Rightarrow> [] | Some payload \<Rightarrow> [payload]"])
      (auto simp: end_turn_def split_beta split: option.splits)
qed

lemma queue_inv_step:
  assumes "queue_inv s" and "chat_step su wid s t"
  shows "queue_inv t"
  using assms(2)
proof (cases rule: chat_step_cases)
  case (handler h)
  then show ?thesis using assms(1) signal_handler.queue_inv_handler by blast
next
  case (resolve now i d)
  then show ?thesis using assms(1) by (auto simp: queue_inv_def waiting_messages_def chat_running_def)
next
  case (child_request now r)
  then show ?thesis using assms(1) by (auto simp: queue_inv_def waiting_messages_def chat_running_def)
next
  case (begin_run now)
  show ?thesis
    by (cases rule: begin_run_cases [of su wid now s])
      (use begin_run assms(1) in \<open>auto simp: queue_inv_def waiting_messages_def record_state_change_def\<close>)
next
  case (pass woken now requested finished)
  show ?thesis
  proof (cases rule: loop_pass_cases [of woken now requested finished s])
    case checkpoint
    then show ?thesis using queue_inv_continue [OF assms(1)] pass by simp
  next
    case end_run
    then show ?thesis using pass assms(1) unfolding pass(2) end_run(1)
      by (auto simp: queue_inv_def waiting_messages_def)
  next
    case (take q qs)
    then show ?thesis using pass(1) assms(1) unfolding pass(2) take(2) by (simp add: queue_inv_def waiting_messages_def)
  next
    case wait
    then show ?thesis using pass(1) assms(1) unfolding pass(2) wait(1) by (simp add: queue_inv_def waiting_messages_def)
  qed
next
  case (agent turn ag)
  then show ?thesis by (auto intro: queue_inv_kept [OF assms(1)])
next
  case (ask turn now n args)
  then show ?thesis by (auto intro: queue_inv_kept [OF assms(1)])
next
  case (answer turn i key timed_out)
  then show ?thesis by (auto intro: queue_inv_kept [OF assms(1)])
next
  case (cancel turn i)
  then show ?thesis by (auto intro: queue_inv_kept [OF assms(1)])
next
  case (end_turn turn out)
  show ?thesis
    by (cases rule: end_turn_cases [of s out wid turn])
      (use end_turn in \<open>auto intro!: queue_inv_kept [OF assms(1)]\<close>)
next
  case (settled n)
  show ?thesis
  proof (cases n)
    case None
    then show ?thesis using settled by (auto simp: after_settled_def intro: queue_inv_kept [OF assms(1)])
  next
    case (Some st)
    then show ?thesis using settled queue_inv_continue [OF assms(1)] by (simp add: after_settled_def)
  qed
next
  case (settled_fails n)
  then show ?thesis by (auto intro: queue_inv_kept [OF assms(1)])
qed

lemma queue_inv_begin: "queue_inv (chat_begin inp)"
  by (simp add: queue_inv_def waiting_messages_def chat_begin_def)

interpretation queue: invariant_system "\<lambda>s. s = chat_begin inp" "chat_step su wid" queue_inv for inp su wid
  using queue_inv_begin queue_inv_step by unfold_locales blast+

end
