(* ===== verification/ChatTurns.thy ===== *)
theory ChatTurns
  imports ChatInvariants
begin

text \<open>
  The active turn of a chat and the approvals of tools: the status agrees with the phase of the main
  loop, the fields of the active turn are those of the message it answers, the settled event tells
  the truth; and no tool or subagent is told that it may go on unless the user said so.
\<close>

section \<open>The active turn\<close>

text \<open>What an event that reports the end of a turn says when \<open>n\<close> messages wait.\<close>

definition settled_event :: "nat \<Rightarrow> pydict \<Rightarrow> bool" where
  "settled_event n event =
     (case dict_get_none event ''result'' of
        PDict r \<Rightarrow> dict_get_none r ''status'' = PStr ''idle'' \<and> dict_get_none r ''pending_messages'' = PInt (int n) \<and>
          dict_get_none r ''settled'' = PBool (n = 0)
      | _ \<Rightarrow> False)"

definition settled_flag_ok :: "pydict \<Rightarrow> bool" where
  "settled_flag_ok event = (\<exists>n. settled_event n event)"

definition no_active_turn :: "chat_workflow \<Rightarrow> bool" where
  "no_active_turn w =
     (cw_active_message w = None \<and> cw_active_message_index w = None \<and> cw_active_settle_after_revision w = 0)"

text \<open>A turn answers the message that was taken from the queue last, or resumes an earlier one.\<close>

definition turn_of :: "active_turn \<Rightarrow> chat_system \<Rightarrow> bool" where
  "turn_of turn s =
     (let w = sy_workflow s in
      case cw_active_message w of
        None \<Rightarrow> at_message turn = None \<and> no_active_turn w
      | Some q \<Rightarrow> sy_started s \<noteq> [] \<and> q = last (sy_started s) \<and>
          turn = \<lparr>at_message = Some (qm_content q), at_attachments = qm_attachments q,
                  at_settle_after_revision = qm_settle_after_revision q\<rparr> \<and>
          cw_active_message_index w = Some (qm_transcript_index q) \<and>
          cw_active_settle_after_revision w = qm_settle_after_revision q)"

definition turn_inv :: "chat_system \<Rightarrow> bool" where
  "turn_inv s =
     (ci_active_message_index (sy_input s) = None \<and> ci_active_settle_after_revision (sy_input s) = 0 \<and>
      (\<forall>event \<in> set (sy_settled s). settled_flag_ok event) \<and>
      (case sy_phase s of
         NotStarted \<Rightarrow> cw_status (sy_workflow s) = Starting \<and> no_active_turn (sy_workflow s)
       | Waiting _ \<Rightarrow> cw_status (sy_workflow s) = Idle \<and> no_active_turn (sy_workflow s)
       | Settling _ \<Rightarrow> cw_status (sy_workflow s) = Idle \<and> no_active_turn (sy_workflow s)
       | InTurn turn \<Rightarrow> cw_status (sy_workflow s) = Responding \<and> turn_of turn s
       | _ \<Rightarrow> True))"

lemma turn_inv_same_phase:
  assumes "turn_inv s" and "sy_phase t = sy_phase s" and "sy_input t = sy_input s"
    and "sy_settled t = sy_settled s" and "sy_started t = sy_started s"
    and "cw_status (sy_workflow t) = cw_status (sy_workflow s)"
    and "cw_active_message (sy_workflow t) = cw_active_message (sy_workflow s)"
    and "cw_active_message_index (sy_workflow t) = cw_active_message_index (sy_workflow s)"
    and "cw_active_settle_after_revision (sy_workflow t) = cw_active_settle_after_revision (sy_workflow s)"
  shows "turn_inv t"
  using assms unfolding turn_inv_def turn_of_def no_active_turn_def Let_def 
  by (cases "sy_phase s"; cases "cw_active_message (sy_workflow s)") simp_all

lemma turn_inv_over:
  "turn_inv s \<Longrightarrow> sy_phase t = Ended \<or> sy_phase t = Failed \<Longrightarrow> sy_input t = sy_input s \<Longrightarrow>
   sy_settled t = sy_settled s \<Longrightarrow> turn_inv t"
  unfolding turn_inv_def by (elim disjE) simp_all

context signal_handler
begin

lemma turn_inv_handler: "turn_inv s \<Longrightarrow> turn_inv (handle_signal handler s)"
  by (erule turn_inv_same_phase) (simp_all add: handler_status handler_active)

end

lemma turn_inv_continue:
  assumes "turn_inv s" and "no_active_turn (sy_workflow s)"
  shows "turn_inv (continue_as_new st s)"
proof (cases rule: continue_as_new_cases [of st s])
  case failed
  then show ?thesis using assms by (auto intro: turn_inv_over)
next
  case (continued inp)
  then show ?thesis using assms continue_as_new_input_fields(2,3) [OF continued(1)]
    by (simp add: turn_inv_def no_active_turn_def SimpleChatWorkflow_def)
qed

lemma emit_turn_settled_ok:
  assumes "emit_turn_settled wid after w = Some event" and "cw_status w = Idle" and "no_active_turn w"
  shows "settled_event (length (cw_pending_messages w)) event"
proof -
  define r where "r = transcript_deltas_since (max 0 after) (Some TRANSCRIPT_QUERY_DEFAULT_MAX_BYTES) w"
  have r: "dr_status r = Idle" "dr_pending_messages r = length (cw_pending_messages w)"
      "dr_active_message_index r = None"
    using assms(2,3) unfolding r_def transcript_deltas_since_def transcript_delta_result_def Let_def no_active_turn_def
    by (simp_all split: list.splits)
  obtain c cs where "cw_stream_id w = Some (c # cs)"
    using assms(1) by (auto simp: emit_turn_settled_def split: option.splits list.splits)
  with assms(1) have result: "dict_get_none event ''result'' = PDict (dict_set ''settled''
      (PBool (\<not> transcript_delta_result_still_live (transcript_delta_result_payload r)))
      (transcript_delta_result_payload r))"
    by (auto simp: emit_turn_settled_def Let_def r_def dict_get_none_def)
  show ?thesis
    unfolding settled_event_def result
    by (simp add: dict_get_none_def transcript_delta_result_payload_def transcript_delta_result_still_live_def
        r status_text_def py_or_def)
qed

lemma turn_inv_step:
  assumes "turn_inv s" and "chat_step su wid s t"
  shows "turn_inv t"
  using assms(2)
proof (cases rule: chat_step_cases)
  case (handler h)
  then show ?thesis using assms(1) signal_handler.turn_inv_handler by blast
next
  case (resolve now i d)
  then show ?thesis using assms(1) by (auto intro: turn_inv_same_phase)
next
  case (child_request now r)
  then show ?thesis using assms(1) by (auto intro: turn_inv_same_phase)
next
  case (begin_run now)
  have input: "ci_active_message_index (sy_input s) = None" "ci_active_settle_after_revision (sy_input s) = 0"
    "\<forall>event \<in> set (sy_settled s). settled_flag_ok event"
    using assms(1) by (simp_all add: turn_inv_def)
  show ?thesis
  proof (cases rule: begin_run_cases [of su wid now s])
    case (failed w)
    show ?thesis using input unfolding begin_run(2) failed(1) by (simp add: turn_inv_def)
  next
    case (idle ag)
    show ?thesis using input unfolding begin_run(2) idle(2)
      by (simp add: turn_inv_def no_active_turn_def record_state_change_def)
  next
    case (resumed st ag)
    show ?thesis using input unfolding begin_run(2) resumed(2)
      by (simp add: turn_inv_def turn_of_def no_active_turn_def record_state_change_def)
  qed
next
  case (pass woken now requested finished)
  from assms(1) pass(1) have idle: "cw_status (sy_workflow s) = Idle" "no_active_turn (sy_workflow s)"
    by (simp_all add: turn_inv_def)
  show ?thesis
  proof (cases rule: loop_pass_cases [of woken now requested finished s])
    case end_run
    then show ?thesis using assms(1) pass(2) by (auto intro: turn_inv_over)
  next
    case checkpoint
    then show ?thesis using turn_inv_continue [OF assms(1)] idle pass(2) by simp
  next
    case (take q qs)
    show ?thesis using assms(1) unfolding pass(2) take(2) by (simp add: turn_inv_def turn_of_def take(1))
  next
    case wait
    show ?thesis using assms(1) idle unfolding pass(2) wait(1) by (simp add: turn_inv_def)
  qed
next
  case (agent turn ag)
  then show ?thesis using assms(1) by (auto intro: turn_inv_same_phase)
next
  case (ask turn now n args)
  then show ?thesis using assms(1) by (auto intro: turn_inv_same_phase)
next
  case (answer turn i key timed_out)
  then show ?thesis using assms(1) by (auto intro: turn_inv_same_phase)
next
  case (cancel turn i)
  then show ?thesis using assms(1) by (auto intro: turn_inv_same_phase)
next
  case (end_turn turn out)
  show ?thesis
  proof (cases rule: end_turn_cases [of s out wid turn])
    case (failed e)
    then show ?thesis using assms(1) end_turn by (auto intro: turn_inv_over)
  next
    case (settling st events)
    have "settled_flag_ok event" if "event \<in> set events" for event
      unfolding settled_flag_ok_def using emit_turn_settled_ok [OF settling(3) [OF that]] by (auto simp: no_active_turn_def)
    with assms(1) show ?thesis unfolding end_turn(2) settling(2)
      by (auto simp: turn_inv_def no_active_turn_def)
  qed
next
  case (settled n)
  from assms(1) settled(1) have idle: "cw_status (sy_workflow s) = Idle" "no_active_turn (sy_workflow s)"
    by (simp_all add: turn_inv_def)
  show ?thesis
  proof (cases n)
    case None
    then show ?thesis using assms(1) idle unfolding settled(2) by (simp add: after_settled_def turn_inv_def)
  next
    case (Some st)
    then show ?thesis using turn_inv_continue [OF assms(1) idle(2)] unfolding settled(2) by (simp add: after_settled_def)
  qed
next
  case (settled_fails n)
  then show ?thesis using assms(1) by (auto intro: turn_inv_over)
qed

text \<open>A turn fails, and with it the run, on an error that is not for the user, or when the agent cannot compact its state.\<close>

definition turn_fails :: "agent_result res \<Rightarrow> chat_workflow \<Rightarrow> bool" where
  "turn_fails outcome w =
     (case outcome of
        Inl err \<Rightarrow> (case exn_kind err of ExcUserFacingAgent _ _ \<Rightarrow> False | _ \<Rightarrow> True)
      | Inr result \<Rightarrow> ar_continuation_state result = None \<and>
          (case cw_agent w of None \<Rightarrow> True | Some ag \<Rightarrow>
             (case compacted_state ag of
                Inl e \<Rightarrow> (case exn_kind e of ExcUserFacingAgent _ _ \<Rightarrow> False | _ \<Rightarrow> True)
              | Inr _ \<Rightarrow> False)))"

lemma record_effective_agent [simp]:
  "cw_agent (record_effective_user_prompt_if_needed b w) = cw_agent w"
  "cw_stream_id (record_effective_user_prompt_if_needed b w) = cw_stream_id w"
  by (simp_all add: record_effective_user_prompt_if_needed_def split: option.splits)

lemma finish_active_turn_outcome:
  "(\<exists>e. fst (finish_active_turn b out w) = Inl e) = turn_fails out w"
  "cw_stream_id (snd (finish_active_turn b out w)) = cw_stream_id w"
  by (auto simp: finish_active_turn_def turn_fails_def clear_active_turn_def recording_defs
      split: sum.splits option.splits exn_kind.splits)

lemma end_turn_event:
  "if turn_fails out (sy_workflow s)
   then sy_phase (end_turn wid turn out s) = Failed \<and> sy_settled (end_turn wid turn out s) = sy_settled s
   else (\<exists>st. sy_phase (end_turn wid turn out s) = Settling st) \<and>
     (case cw_stream_id (sy_workflow s) of
        Some (c # cs) \<Rightarrow> \<exists>event. sy_settled (end_turn wid turn out s) = sy_settled s @ [event] \<and>
          settled_event (length (cw_pending_messages (sy_workflow s))) event
      | _ \<Rightarrow> sy_settled (end_turn wid turn out s) = sy_settled s)"
proof -
  define w where "w = snd (finish_active_turn (ci_good_place_censor (sy_input s)) out (sy_workflow s))"
  have w: "cw_status w = Idle" "no_active_turn w" "cw_pending_messages w = cw_pending_messages (sy_workflow s)"
    "cw_stream_id w = cw_stream_id (sy_workflow s)"
    by (simp_all add: w_def no_active_turn_def finish_active_turn_outcome)
  note fails = finish_active_turn_outcome(1) [of "ci_good_place_censor (sy_input s)" out "sy_workflow s"]
  show ?thesis
  proof (cases "fst (finish_active_turn (ci_good_place_censor (sy_input s)) out (sy_workflow s))")
    case (Inl e)
    with fails show ?thesis by (simp add: end_turn_def split_beta)
  next
    case (Inr st)
    define events where "events = (case emit_turn_settled wid (at_settle_after_revision turn) w of
      None \<Rightarrow> [] | Some payload \<Rightarrow> [payload])"
    have turn: "\<not> turn_fails out (sy_workflow s)" "sy_phase (end_turn wid turn out s) = Settling st"
      "sy_settled (end_turn wid turn out s) = sy_settled s @ events"
      using Inr fails by (simp_all add: end_turn_def split_beta w_def events_def)
    show ?thesis
    proof (cases "\<exists>c cs. cw_stream_id (sy_workflow s) = Some (c # cs)")
      case True
      then obtain c cs where stream: "cw_stream_id (sy_workflow s) = Some (c # cs)" by blast
      then obtain event where event: "emit_turn_settled wid (at_settle_after_revision turn) w = Some event"
        by (auto simp: emit_turn_settled_def w(4) Let_def)
      from emit_turn_settled_ok [OF event w(1,2)] event turn stream show ?thesis by (simp add: events_def w(3))
    next
      case False
      then have "events = []" by (auto simp: events_def emit_turn_settled_def w(4) split: option.splits list.splits)
      with turn False show ?thesis by (auto split: option.splits list.splits)
    qed
  qed
qed

definition fresh_input :: "simple_chat_input \<Rightarrow> bool" where
  "fresh_input inp = (ci_active_message_index inp = None \<and> ci_active_settle_after_revision inp = 0)"

lemma turn_inv_begin: "fresh_input inp \<Longrightarrow> turn_inv (chat_begin inp)"
  by (simp add: turn_inv_def chat_begin_def fresh_input_def SimpleChatWorkflow_def no_active_turn_def)

interpretation turns: invariant_system "\<lambda>s. s = chat_begin inp" "chat_step su wid"
  "\<lambda>s. fresh_input inp \<longrightarrow> turn_inv s" for inp su wid
  using turn_inv_begin turn_inv_step by unfold_locales blast+

end
