(* ===== verification/ChatApprovals.thy ===== *)
theory ChatApprovals
  imports ChatInvariants TranscriptProperties
begin

text \<open>
  Approvals of tool calls: no tool or subagent is told that it may go on unless the user said so,
  for that very approval, or allowed such calls always. Holds for every interleaving of the tools,
  the user's signals and the main loop, and across runs.
\<close>

section \<open>Identifiers\<close>

lemma nat_str_inject: "nat_str m = nat_str n \<Longrightarrow> m = n"
  by (metis parse_nat_nat_str)

lemma nat_str_not_minus: "nat_str n \<noteq> CHR ''-'' # s"
proof
  assume eq: "nat_str n = CHR ''-'' # s"
  have "list_all is_digit (nat_str n)" by (rule nat_str_digits)
  then show False unfolding eq by (simp add: is_digit_def code_def)
qed

lemma int_str_inject: "int_str m = int_str n \<Longrightarrow> m = n"
  using nat_str_not_minus by (auto simp: int_str_def dest: nat_str_inject split: if_splits) metis+

lemma approval_name_inject [simp]: "approval_name m = approval_name n \<longleftrightarrow> m = n"
  by (auto simp: approval_name_def dest: int_str_inject)

section \<open>The invariant\<close>

text \<open>A memory key may go unasked when it was so from the start, or the user allowed it always.\<close>

definition remembered :: "string set \<Rightarrow> chat_system \<Rightarrow> string \<Rightarrow> bool" where
  "remembered base s key = (key \<in> base \<or> (\<exists>i. (i, key, ''always_allow'') \<in> set (sy_decisions s)))"

definition justified :: "string set \<Rightarrow> chat_system \<Rightarrow> string option \<Rightarrow> string \<Rightarrow> string \<Rightarrow> bool" where
  "justified base s approval_id key decision =
     (decision \<in> {''allow'', ''always_allow''} \<longrightarrow>
      (case approval_id of None \<Rightarrow> remembered base s key
       | Some i \<Rightarrow> (i, key, decision) \<in> set (sy_decisions s)))"

definition next_approval :: "chat_system \<Rightarrow> int" where
  "next_approval s = (if sy_phase s = NotStarted then ci_approval_counter (sy_input s)
                      else cw_approval_counter (sy_workflow s))"

text \<open>What is remembered was allowed always.\<close>

definition memory_ok :: "string set \<Rightarrow> chat_system \<Rightarrow> bool" where
  "memory_ok base s =
     ((\<forall>key \<in> cw_approval_memory (sy_workflow s). remembered base s key) \<and>
      (sy_phase s = NotStarted \<longrightarrow> (\<forall>key \<in> set (ci_approval_memory (sy_input s)). remembered base s key)))"

text \<open>Before \<open>run\<close> starts there are only requests of subagents.\<close>

definition early_ok :: "chat_system \<Rightarrow> bool" where
  "early_ok s =
     (sy_phase s = NotStarted \<longrightarrow> sy_waiters s = [] \<and> cw_approval_decisions (sy_workflow s) = [] \<and>
        (\<forall>i a. map_of (cw_pending_approvals (sy_workflow s)) i = Some a \<longrightarrow> delegated a))"

text \<open>No two tool calls ever waited for approvals of the same name.\<close>

definition requests_ok :: "chat_system \<Rightarrow> bool" where
  "requests_ok s =
     (distinct (map fst (sy_requests s)) \<and>
      (\<forall>i \<in> fst ` set (sy_requests s). \<exists>n \<le> next_approval s. i = approval_name n) \<and>
      set (sy_waiters s) \<subseteq> set (sy_requests s))"

text \<open>What is pending, unless for a subagent, and what is decided belongs to such a call.\<close>

definition pending_ok :: "chat_system \<Rightarrow> bool" where
  "pending_ok s =
     (distinct_approvals (sy_workflow s) \<and>
      (\<forall>i a. map_of (cw_pending_approvals (sy_workflow s)) i = Some a \<longrightarrow> \<not> delegated a \<longrightarrow>
         (i, pa_memory_key a) \<in> set (sy_requests s)) \<and>
      (\<forall>i d. map_of (cw_approval_decisions (sy_workflow s)) i = Some d \<longrightarrow>
         (\<exists>key. (i, key) \<in> set (sy_requests s) \<and> (i, key, d) \<in> set (sy_decisions s))))"

definition answers_ok :: "string set \<Rightarrow> chat_system \<Rightarrow> bool" where
  "answers_ok base s = (\<forall>(i, key, d) \<in> set (sy_answers s). justified base s i key d)"

definition approval_inv :: "string set \<Rightarrow> chat_system \<Rightarrow> bool" where
  "approval_inv base s =
     (memory_ok base s \<and> early_ok s \<and> requests_ok s \<and> pending_ok s \<and> answers_ok base s)"

lemma approval_invI:
  "memory_ok base s \<Longrightarrow> early_ok s \<Longrightarrow> requests_ok s \<Longrightarrow> pending_ok s \<Longrightarrow> answers_ok base s \<Longrightarrow>
   approval_inv base s"
  by (simp add: approval_inv_def)

lemma approval_invD:
  assumes "approval_inv base s"
  shows "memory_ok base s" "early_ok s" "requests_ok s" "pending_ok s" "answers_ok base s"
  using assms by (simp_all add: approval_inv_def)

lemma pending_okI:
  assumes "distinct_approvals (sy_workflow s)"
    and "\<And>i a. map_of (cw_pending_approvals (sy_workflow s)) i = Some a \<Longrightarrow> \<not> delegated a \<Longrightarrow>
      (i, pa_memory_key a) \<in> set (sy_requests s)"
    and "\<And>i d. map_of (cw_approval_decisions (sy_workflow s)) i = Some d \<Longrightarrow>
      \<exists>key. (i, key) \<in> set (sy_requests s) \<and> (i, key, d) \<in> set (sy_decisions s)"
  shows "pending_ok s"
  using assms by (simp add: pending_ok_def)

lemma pending_okD:
  assumes "pending_ok s"
  shows "distinct_approvals (sy_workflow s)"
    and "map_of (cw_pending_approvals (sy_workflow s)) i = Some a \<Longrightarrow> \<not> delegated a \<Longrightarrow>
      (i, pa_memory_key a) \<in> set (sy_requests s)"
    and "map_of (cw_approval_decisions (sy_workflow s)) i = Some d \<Longrightarrow>
      \<exists>key. (i, key) \<in> set (sy_requests s) \<and> (i, key, d) \<in> set (sy_decisions s)"
  using assms by (simp_all add: pending_ok_def)

lemma delete_subset: "set (AList.delete k kvs) \<subseteq> set kvs"
  by (auto simp: AList.delete_eq)

lemma remembered_mono:
  "remembered base s key \<Longrightarrow> set (sy_decisions s) \<subseteq> set (sy_decisions t) \<Longrightarrow> remembered base t key"
  unfolding remembered_def by auto

lemma justified_mono:
  "justified base s i key d \<Longrightarrow> set (sy_decisions s) \<subseteq> set (sy_decisions t) \<Longrightarrow> justified base t i key d"
  unfolding justified_def remembered_def by (cases i) auto

text \<open>The steps that do not touch approvals, and those that only drop some.\<close>

lemma approval_inv_kept:
  assumes inv: "approval_inv base s"
    and phase: "sy_phase t = NotStarted \<longleftrightarrow> sy_phase s = NotStarted" "sy_input t = sy_input s"
    and waiters: "set (sy_waiters t) \<subseteq> set (sy_waiters s)" "sy_requests t = sy_requests s"
    and logs: "sy_decisions t = sy_decisions s" "sy_answers t = sy_answers s"
    and fields: "cw_approval_memory (sy_workflow t) = cw_approval_memory (sy_workflow s)"
      "cw_approval_counter (sy_workflow t) = cw_approval_counter (sy_workflow s)"
      "cw_approval_decisions (sy_workflow t) = cw_approval_decisions (sy_workflow s)"
    and pending: "distinct_approvals (sy_workflow t)"
      "\<And>i a. map_of (cw_pending_approvals (sy_workflow t)) i = Some a \<Longrightarrow>
        map_of (cw_pending_approvals (sy_workflow s)) i = Some a"
  shows "approval_inv base t"
proof (rule approval_invI)
  note ok = approval_invD [OF inv]
  have r: "remembered base t = remembered base s" "justified base t = justified base s"
    by (auto simp: fun_eq_iff remembered_def justified_def logs split: option.splits)
  show "memory_ok base t" using ok(1) by (simp add: memory_ok_def fields phase r)
  show "early_ok t"
    unfolding early_ok_def fields(3) phase(1)
  proof (intro impI conjI allI)
    assume early: "sy_phase s = NotStarted"
    show "sy_waiters t = []" "cw_approval_decisions (sy_workflow s) = []"
      using early ok(2) waiters(1) by (simp_all add: early_ok_def)
    fix i a
    assume "map_of (cw_pending_approvals (sy_workflow t)) i = Some a"
    from pending(2) [OF this] early ok(2) show "delegated a" by (simp add: early_ok_def)
  qed
  show "requests_ok t" using ok(3) waiters by (auto simp: requests_ok_def next_approval_def fields phase)
  show "pending_ok t" using ok(4) pending by (auto simp: pending_ok_def fields waiters logs)
  show "answers_ok base t" using ok(5) by (simp add: answers_ok_def r logs)
qed

context signal_handler
begin

lemma approval_inv_handler:
  assumes "approval_inv base s"
  shows "approval_inv base (handle_signal handler s)"
proof (rule approval_inv_kept [OF assms])
  have d: "distinct_approvals (sy_workflow s)"
    using approval_invD(4) [OF assms] by (simp add: pending_ok_def)
  show "distinct_approvals (sy_workflow (handle_signal handler s))"
    using handler_approvals(1) [OF d] by simp
  show "map_of (cw_pending_approvals (sy_workflow s)) i = Some a"
    if "map_of (cw_pending_approvals (sy_workflow (handle_signal handler s))) i = Some a" for i a
    using handler_approvals(2) [OF d] that by simp
qed (simp_all add: handler_answers)

end

section \<open>The steps\<close>

lemma approval_inv_continue:
  assumes inv: "approval_inv base s" and phase: "sy_phase s \<noteq> NotStarted"
  shows "approval_inv base (continue_as_new st s)"
proof (cases rule: continue_as_new_cases [of st s])
  case failed
  show ?thesis unfolding failed
    by (rule approval_inv_kept [OF inv]) (use phase approval_invD(4) [OF inv] in \<open>simp_all add: pending_ok_def\<close>)
next
  case (continued inp)
  note ok = approval_invD [OF inv]
  note fields = continue_as_new_input_fields [OF continued(1)]
  let ?t = "s\<lparr>sy_input := inp, sy_workflow := SimpleChatWorkflow, sy_phase := NotStarted, sy_waiters := []\<rparr>"
  have r: "remembered base ?t = remembered base s" "justified base ?t = justified base s"
    by (auto simp: fun_eq_iff remembered_def justified_def split: option.splits)
  show ?thesis unfolding continued(2)
  proof (rule approval_invI)
    show "memory_ok base ?t"
      using ok(1) unfolding memory_ok_def r by (auto simp: fields(4) SimpleChatWorkflow_def split: if_splits)
    show "early_ok ?t" by (simp add: early_ok_def SimpleChatWorkflow_def)
    have "next_approval ?t = next_approval s" using phase by (simp add: next_approval_def fields(5))
    then show "requests_ok ?t" using ok(3) by (simp add: requests_ok_def)
    show "pending_ok ?t" by (simp add: pending_ok_def SimpleChatWorkflow_def distinct_approvals_def)
    show "answers_ok base ?t" using ok(5) unfolding answers_ok_def r by simp
  qed
qed

lemma approval_inv_started:
  assumes inv: "approval_inv base s" and phase: "sy_phase s = NotStarted"
    and t: "sy_phase t \<noteq> NotStarted" "sy_waiters t = sy_waiters s" "sy_requests t = sy_requests s"
      "sy_decisions t = sy_decisions s" "sy_answers t = sy_answers s"
    and w: "cw_approval_memory (sy_workflow t) = set (ci_approval_memory (sy_input s))"
      "cw_approval_counter (sy_workflow t) = ci_approval_counter (sy_input s)"
      "cw_approval_decisions (sy_workflow t) = cw_approval_decisions (sy_workflow s)"
      "cw_pending_approvals (sy_workflow t) = cw_pending_approvals (sy_workflow s)"
  shows "approval_inv base t"
proof (rule approval_invI)
  note ok = approval_invD [OF inv]
  have r: "remembered base t = remembered base s" "justified base t = justified base s"
    by (auto simp: fun_eq_iff remembered_def justified_def t split: option.splits)
  show "memory_ok base t" using ok(1) phase by (simp add: memory_ok_def r t w)
  show "early_ok t" using t(1) by (simp add: early_ok_def)
  have "next_approval t = next_approval s" using phase t(1) by (simp add: next_approval_def w)
  then show "requests_ok t" using ok(3) by (simp add: requests_ok_def t)
  show "pending_ok t" using ok(4) by (simp add: pending_ok_def distinct_approvals_def t w)
  show "answers_ok base t" using ok(5) by (simp add: answers_ok_def r t)
qed

lemma approval_inv_begin_run:
  assumes inv: "approval_inv base s" and phase: "sy_phase s = NotStarted"
  shows "approval_inv base (begin_run su wid now s)"
proof (cases rule: begin_run_cases [of su wid now s])
  case (failed w)
  show ?thesis unfolding failed(1) by (rule approval_inv_started [OF inv phase]) (simp_all add: failed)
next
  case (idle ag)
  show ?thesis unfolding idle(2)
    by (rule approval_inv_started [OF inv phase]) (simp_all add: record_state_change_def)
next
  case (resumed st ag)
  show ?thesis unfolding resumed(2)
    by (rule approval_inv_started [OF inv phase]) (simp_all add: record_state_change_def)
qed

lemma ask_approval_cases [case_names remembered waits]:
  obtains "approval_memory_key n args \<in> cw_approval_memory (sy_workflow s)"
      "ask_approval now n args s =
        s\<lparr>sy_answers := sy_answers s @ [(None, approval_memory_key n args, ''allow'')]\<rparr>"
    | i a w' where "i = approval_name (cw_approval_counter (sy_workflow s) + 1)"
      "pa_memory_key a = approval_memory_key n args"
      "ask_approval now n args s = s\<lparr>sy_workflow := w',
        sy_waiters := (i, approval_memory_key n args) # sy_waiters s,
        sy_requests := sy_requests s @ [(i, approval_memory_key n args)]\<rparr>"
      "cw_approval_memory w' = cw_approval_memory (sy_workflow s)"
      "cw_approval_counter w' = cw_approval_counter (sy_workflow s) + 1"
      "cw_approval_decisions w' = cw_approval_decisions (sy_workflow s)"
      "cw_pending_approvals w' = AList.update i a (cw_pending_approvals (sy_workflow s))"
proof (cases "approval_memory_key n args \<in> cw_approval_memory (sy_workflow s)")
  case True
  then show thesis using that(1) by (simp add: ask_approval_def begin_tool_approval_def)
next
  case False
  let ?w = "sy_workflow s"
  let ?i = "approval_name (cw_approval_counter ?w + 1)"
  let ?a = "\<lparr>pa_approval_id = ?i, pa_tool_name = n, pa_tool_args = args,
    pa_summary = approval_summary n args, pa_memory_key = approval_memory_key n args,
    pa_expires_at = Some (now + TOOL_APPROVAL_TIMEOUT),
    pa_requesting_workflow_id = None, pa_requesting_approval_id = None\<rparr>"
  show thesis
    by (rule that(2) [of ?i ?a "snd (begin_tool_approval now n args ?w)"])
      (use False in \<open>simp_all add: ask_approval_def begin_tool_approval_def Let_def record_state_change_def\<close>)
qed

lemma approval_inv_ask:
  assumes inv: "approval_inv base s" and phase: "sy_phase s = InTurn turn"
  shows "approval_inv base (ask_approval now n args s)"
proof (cases rule: ask_approval_cases [of n args s now])
  case remembered
  note ok = approval_invD [OF inv]
  let ?t = "s\<lparr>sy_answers := sy_answers s @ [(None, approval_memory_key n args, ''allow'')]\<rparr>"
  have r: "remembered base ?t = remembered base s" "justified base ?t = justified base s"
    by (auto simp: fun_eq_iff remembered_def justified_def split: option.splits)
  have asked: "justified base s None (approval_memory_key n args) ''allow''"
    using ok(1) remembered(1) by (simp add: memory_ok_def justified_def)
  show ?thesis unfolding remembered(2)
  proof (rule approval_invI)
    show "memory_ok base ?t" using ok(1) unfolding memory_ok_def r by simp
    show "early_ok ?t" using ok(2) by (simp add: early_ok_def)
    have "next_approval ?t = next_approval s" by (simp add: next_approval_def)
      then show "requests_ok ?t" using ok(3) by (simp add: requests_ok_def)
    show "pending_ok ?t" using ok(4) by (simp add: pending_ok_def)
    show "answers_ok base ?t" using ok(5) asked unfolding answers_ok_def r by auto
  qed
next
  case (waits i a w')
  note ok = approval_invD [OF inv]
  let ?t = "s\<lparr>sy_workflow := w', sy_waiters := (i, approval_memory_key n args) # sy_waiters s,
        sy_requests := sy_requests s @ [(i, approval_memory_key n args)]\<rparr>"
  have r: "remembered base ?t = remembered base s" "justified base ?t = justified base s"
    by (auto simp: fun_eq_iff remembered_def justified_def split: option.splits)
  have names: "\<exists>m \<le> cw_approval_counter (sy_workflow s). j = approval_name m" if "j \<in> fst ` set (sy_requests s)" for j
    using ok(3) that phase unfolding requests_ok_def next_approval_def by (metis chat_phase.distinct(3))
  have new: "i \<notin> fst ` set (sy_requests s)"
    using names [of i] waits(1) by auto
  show ?thesis unfolding waits(3)
  proof (rule approval_invI)
    show "memory_ok base ?t" using ok(1) phase unfolding memory_ok_def r by (simp add: waits)
    show "early_ok ?t" using phase by (simp add: early_ok_def)
    have "\<exists>m \<le> cw_approval_counter (sy_workflow s) + 1. j = approval_name m"
      if "j \<in> fst ` set (sy_requests s)" for j
      using names [OF that] by force
    then show "requests_ok ?t"
      using ok(3) phase new by (auto simp: requests_ok_def next_approval_def waits(1,5))
    have "distinct_approvals w'"
      using ok(4) by (simp add: pending_ok_def distinct_approvals_def waits(7) distinct_update)
    then show "pending_ok ?t"
    proof (intro pending_okI)
      show "(j, pa_memory_key b) \<in> set (sy_requests ?t)"
        if "map_of (cw_pending_approvals (sy_workflow ?t)) j = Some b" "\<not> delegated b" for j b
        using that waits(2) pending_okD(2) [OF ok(4), of j b] by (auto simp: waits(7) update_conv' split: if_splits)
      show "\<exists>key. (j, key) \<in> set (sy_requests ?t) \<and> (j, key, d) \<in> set (sy_decisions ?t)"
        if "map_of (cw_approval_decisions (sy_workflow ?t)) j = Some d" for j d
        using that pending_okD(3) [OF ok(4), of j d] by (auto simp: waits(6))
    qed simp
    show "answers_ok base ?t" using ok(5) unfolding answers_ok_def r by simp
  qed
qed

lemma approval_inv_answer:
  assumes inv: "approval_inv base s" and phase: "sy_phase s = InTurn turn"
    and waiter: "map_of (sy_waiters s) i = Some key"
  shows "approval_inv base (end_approval i key timed_out s)"
proof -
  note ok = approval_invD [OF inv]
  let ?w = "sy_workflow s"
  let ?t = "end_approval i key timed_out s"
  define d where "d = fst (finish_tool_approval i key timed_out ?w)"
  have answers: "sy_answers ?t = sy_answers s @ [(Some i, key, d)]"
    by (simp add: end_approval_def d_def split_beta)
  have r: "remembered base ?t = remembered base s" "justified base ?t = justified base s"
    by (auto simp: fun_eq_iff remembered_def justified_def split: option.splits)
  have request: "(i, key) \<in> set (sy_requests s)"
    using map_of_SomeD [OF waiter] ok(3) by (auto simp: requests_ok_def)
  have decided: "(i, key, d) \<in> set (sy_decisions s)" if "d \<in> {''allow'', ''always_allow''}"
  proof -
    have "map_of (cw_approval_decisions ?w) i = Some d"
      using that by (auto simp: d_def finish_tool_approval_def Let_def split: if_splits option.splits)
    then obtain key' where "(i, key') \<in> set (sy_requests s)" and logged: "(i, key', d) \<in> set (sy_decisions s)"
      using ok(4) unfolding pending_ok_def by blast
    moreover have "distinct (map fst (sy_requests s))" using ok(3) by (simp add: requests_ok_def)
    ultimately have "key' = key" using request by (metis eq_key_imp_eq_value)
    with logged show ?thesis by simp
  qed
  have memory: "cw_approval_memory (sy_workflow ?t) =
      (if d = ''always_allow'' then insert key (cw_approval_memory ?w) else cw_approval_memory ?w)"
    by (simp add: d_def finish_tool_approval_def Let_def record_state_change_def split: option.splits)
  have rest: "map_of (cw_approval_decisions (sy_workflow ?t)) j = Some e \<Longrightarrow>
      map_of (cw_approval_decisions ?w) j = Some e" for j e
    by (auto simp: finish_tool_approval_def Let_def record_state_change_def delete_conv split: if_splits option.splits)
  show ?thesis
  proof (rule approval_invI)
    show "memory_ok base ?t"
      using ok(1) decided phase unfolding memory_ok_def r memory by (auto simp: remembered_def)
    show "early_ok ?t" using phase by (simp add: early_ok_def)
    have "set (AList.delete i (sy_waiters s)) \<subseteq> set (sy_waiters s)" by (rule delete_subset)
    with ok(3) phase show "requests_ok ?t" by (auto simp: requests_ok_def next_approval_def)
    have "distinct_approvals (sy_workflow ?t)"
      using ok(4) by (simp add: pending_ok_def distinct_approvals_def distinct_delete)
    then show "pending_ok ?t"
      using ok(4) rest by (auto simp: pending_ok_def delete_conv split: if_splits)
    show "answers_ok base ?t"
      using ok(5) decided unfolding answers_ok_def r answers by (auto simp: justified_def)
  qed
qed

lemma approval_inv_resolve:
  assumes inv: "approval_inv base s"
  shows "approval_inv base (handle_resolve now i d s)"
proof -
  note ok = approval_invD [OF inv]
  let ?w = "sy_workflow s"
  let ?t = "handle_resolve now i d s"
  let ?w' = "snd (resolve_approval now i d ?w)"
  have distinct: "distinct_approvals ?w" using ok(4) by (simp add: pending_ok_def)
  show ?thesis
  proof (cases "d \<in> {''allow'', ''always_allow'', ''deny''} \<and> map_of (cw_pending_approvals ?w) i \<noteq> None")
    case False
    then consider "d \<notin> {''allow'', ''always_allow'', ''deny''}" | "map_of (cw_pending_approvals ?w) i = None"
      by blast
    then have "\<exists>m. ?w' = record_system_message m (touch now ?w)"
    proof cases
      case 1
      then show ?thesis unfolding resolve_approval_def Let_def by auto
    next
      case 2
      then have "cw_pending_approvals (touch now ?w) = cw_pending_approvals ?w" by (simp add: touch_def)
      with 2 show ?thesis unfolding resolve_approval_def Let_def by auto
    qed
    moreover have "sy_decisions ?t = sy_decisions s" "sy_answers ?t = sy_answers s"
      using False by (auto simp: handle_resolve_def Let_def split_beta split: option.splits)
    ultimately show ?thesis
      using distinct by (auto intro!: approval_inv_kept [OF inv] simp: recording_defs distinct_approvals_def)
  next
    case True
    then obtain a where a: "map_of (cw_pending_approvals ?w) i = Some a"
      and d: "d \<in> {''allow'', ''always_allow'', ''deny''}" by auto
    let ?log = "sy_decisions s @ [(i, pa_memory_key a, d)]"
    have decisions: "sy_decisions ?t = ?log"
      using a d by (simp add: handle_resolve_def Let_def split_beta)
    have mono: "set (sy_decisions s) \<subseteq> set (sy_decisions ?t)" unfolding decisions by auto
    have answers: "sy_answers ?t = sy_answers s @ (if delegated a then [(Some i, pa_memory_key a, d)] else [])"
      using a d by (auto simp: handle_resolve_def resolve_approval_def answer_child_def delegated_def Let_def
          split_beta touch_def split: option.splits)
    have memory: "cw_approval_memory ?w' = (if delegated a \<and> d = ''always_allow''
        then insert (pa_memory_key a) (cw_approval_memory ?w) else cw_approval_memory ?w)"
      using a d by (auto simp: resolve_approval_def delegated_def recording_defs split: option.splits)
    have decided: "cw_approval_decisions ?w' = (if delegated a then cw_approval_decisions ?w
        else AList.update i d (cw_approval_decisions ?w))"
      using a d by (auto simp: resolve_approval_def delegated_def recording_defs split: option.splits)
    have pending: "cw_pending_approvals ?w' = (if delegated a then AList.delete i (cw_pending_approvals ?w)
        else cw_pending_approvals ?w)"
      using a d by (auto simp: resolve_approval_def delegated_def recording_defs split: option.splits)
    show ?thesis
    proof (rule approval_invI)
      show "memory_ok base ?t"
        using ok(1) remembered_mono [OF _ mono] unfolding memory_ok_def
        by (auto simp: memory decisions remembered_def)
      show "early_ok ?t"
        using ok(2) a by (auto simp: early_ok_def decided pending delete_conv split: if_splits)
      have "next_approval ?t = next_approval s" by (simp add: next_approval_def)
      then show "requests_ok ?t" using ok(3) by (simp add: requests_ok_def)
      have "distinct_approvals ?w'"
        using distinct by (simp add: distinct_approvals_def pending distinct_delete)
      then show "pending_ok ?t"
      proof (intro pending_okI)
        show "(j, pa_memory_key b) \<in> set (sy_requests ?t)"
          if "map_of (cw_pending_approvals (sy_workflow ?t)) j = Some b" "\<not> delegated b" for j b
          using that pending_okD(2) [OF ok(4), of j b] by (auto simp: pending delete_conv split: if_splits)
        show "\<exists>key. (j, key) \<in> set (sy_requests ?t) \<and> (j, key, e) \<in> set (sy_decisions ?t)"
          if "map_of (cw_approval_decisions (sy_workflow ?t)) j = Some e" for j e
          using that pending_okD(3) [OF ok(4), of j e] pending_okD(2) [OF ok(4) a]
          by (auto simp: decided decisions update_conv' split: if_splits)
      qed simp
      show "answers_ok base ?t"
        using ok(5) justified_mono [OF _ mono] unfolding answers_ok_def
        by (auto simp: answers justified_def decisions)
    qed
  qed
qed

lemma approval_inv_child_request:
  assumes inv: "approval_inv base s"
  shows "approval_inv base (handle_child_request now r s)"
proof -
  note ok = approval_invD [OF inv]
  let ?w = "sy_workflow s"
  let ?t = "handle_child_request now r s"
  let ?w' = "snd (request_child_approval now r ?w)"
  let ?key = "approval_memory_key (ca_tool_name r) (ca_tool_args r)"
  have same: "remembered base ?t = remembered base s" "justified base ?t = justified base s"
    by (auto simp: fun_eq_iff remembered_def justified_def split: option.splits)
  have answers: "sy_answers ?t = sy_answers s @
      (if ?key \<in> cw_approval_memory ?w then [(None, ?key, ''allow'')] else [])"
    by (simp add: handle_child_request_def request_child_approval_def answer_child_def Let_def)
  let ?i = "approval_name (cw_approval_counter ?w + 1)"
  let ?a = "\<lparr>pa_approval_id = ?i, pa_tool_name = ca_tool_name r, pa_tool_args = ca_tool_args r,
    pa_summary = ''Subagent requested: '' @ approval_summary (ca_tool_name r) (ca_tool_args r),
    pa_memory_key = ?key, pa_expires_at = Some (now + TOOL_APPROVAL_TIMEOUT),
    pa_requesting_workflow_id = Some (ca_child_workflow_id r),
    pa_requesting_approval_id = Some (ca_child_approval_id r)\<rparr>"
  have pending: "cw_pending_approvals ?w' = cw_pending_approvals ?w \<or>
      cw_pending_approvals ?w' = AList.update ?i ?a (cw_pending_approvals ?w)"
    by (simp add: request_child_approval_def record_state_change_def Let_def)
  have asked: "delegated ?a" by (simp add: delegated_def)
  have counter: "cw_approval_counter ?w \<le> cw_approval_counter ?w'"
    by (simp add: request_child_approval_def record_state_change_def Let_def)
  have new: "map_of (cw_pending_approvals ?w') i = Some a \<Longrightarrow>
      map_of (cw_pending_approvals ?w) i = Some a \<or> delegated a" for i a
    using pending asked by (auto simp: update_conv' split: if_splits)
  show ?thesis
  proof (rule approval_invI)
    show "memory_ok base ?t" using ok(1) unfolding memory_ok_def same by simp
    show "early_ok ?t" using ok(2) new by (auto simp: early_ok_def)
    have "next_approval s \<le> next_approval ?t" using counter by (simp add: next_approval_def)
    then show "requests_ok ?t" using ok(3) unfolding requests_ok_def by (simp, meson order_trans)
    have "distinct_approvals ?w'"
      using pending ok(4) by (auto simp: pending_ok_def distinct_approvals_def distinct_update)
    then show "pending_ok ?t"
      using ok(4) new unfolding pending_ok_def by (simp, blast)
    show "answers_ok base ?t"
      using ok(1,5) unfolding answers_ok_def same answers by (auto simp: justified_def memory_ok_def)
  qed
qed

lemma approval_inv_same:
  assumes inv: "approval_inv base s"
    and "sy_phase t = NotStarted \<longleftrightarrow> sy_phase s = NotStarted" "sy_input t = sy_input s"
      "set (sy_waiters t) \<subseteq> set (sy_waiters s)" "sy_requests t = sy_requests s"
      "sy_decisions t = sy_decisions s" "sy_answers t = sy_answers s"
      "cw_approval_memory (sy_workflow t) = cw_approval_memory (sy_workflow s)"
      "cw_approval_counter (sy_workflow t) = cw_approval_counter (sy_workflow s)"
      "cw_approval_decisions (sy_workflow t) = cw_approval_decisions (sy_workflow s)"
      "cw_pending_approvals (sy_workflow t) = cw_pending_approvals (sy_workflow s)"
  shows "approval_inv base t"
  using assms(2-)
  by (intro approval_inv_kept [OF inv])
    (use approval_invD(4) [OF inv] in \<open>simp_all add: pending_ok_def distinct_approvals_def\<close>)

lemma approval_inv_step:
  assumes "approval_inv base s" and "chat_step su wid s t"
  shows "approval_inv base t"
  using assms(2)
proof (cases rule: chat_step_cases)
  case (handler h)
  then show ?thesis using assms(1) signal_handler.approval_inv_handler by blast
next
  case (resolve now i d)
  then show ?thesis using assms(1) approval_inv_resolve by blast
next
  case (child_request now r)
  then show ?thesis using assms(1) approval_inv_child_request by blast
next
  case (begin_run now)
  then show ?thesis using assms(1) approval_inv_begin_run by blast
next
  case (pass woken now requested finished)
  show ?thesis
  proof (cases rule: loop_pass_cases [of woken now requested finished s])
    case checkpoint
    then show ?thesis using approval_inv_continue [OF assms(1)] pass by simp
  qed (use pass in \<open>auto intro: approval_inv_same [OF assms(1)]\<close>)
next
  case (agent turn ag)
  then show ?thesis by (auto intro: approval_inv_same [OF assms(1)])
next
  case (ask turn now n args)
  then show ?thesis using assms(1) approval_inv_ask by blast
next
  case (answer turn i key timed_out)
  then show ?thesis using assms(1) approval_inv_answer by blast
next
  case (cancel turn i)
  then show ?thesis
    using delete_subset [of i "sy_waiters s"] by (intro approval_inv_same [OF assms(1)]) simp_all
next
  case (end_turn turn out)
  show ?thesis
    by (cases rule: end_turn_cases [of s out wid turn])
      (use end_turn in \<open>auto intro: approval_inv_same [OF assms(1)]\<close>)
next
  case (settled n)
  show ?thesis
  proof (cases n)
    case None
    then show ?thesis using settled by (auto simp: after_settled_def intro: approval_inv_same [OF assms(1)])
  next
    case (Some st)
    then show ?thesis using settled approval_inv_continue [OF assms(1)] by (simp add: after_settled_def)
  qed
next
  case (settled_fails n)
  then show ?thesis by (auto intro: approval_inv_same [OF assms(1)])
qed

lemma approval_inv_begin: "approval_inv (set (ci_approval_memory inp)) (chat_begin inp)"
  by (simp add: approval_inv_def memory_ok_def remembered_def early_ok_def requests_ok_def pending_ok_def
      answers_ok_def distinct_approvals_def chat_begin_def SimpleChatWorkflow_def)

interpretation approvals: invariant_system "\<lambda>s. s = chat_begin inp" "chat_step su wid"
  "approval_inv (set (ci_approval_memory inp))" for inp su wid
  using approval_inv_begin approval_inv_step by unfold_locales blast+

end
