(* ===== verification/ChatProperties.thy ===== *)
theory ChatProperties
  imports ChatTurns ChatApprovals AgentProperties
begin

text \<open>
  What the chat workflow promises: it answers the messages of the user in the order they were accepted,
  and none that was accepted once \<open>run\<close> has started is lost, its status and active turn are what the user was told, and it runs what needs
  approval only when the user approved it.
\<close>

section \<open>The mailbox a chat implements\<close>

record mailbox =
  mb_accepted :: "queued_chat_message list"
  mb_delivered :: nat

inductive mailbox_step :: "mailbox \<Rightarrow> mailbox \<Rightarrow> bool" where
  mailbox_accept: "mailbox_step m (m\<lparr>mb_accepted := mb_accepted m @ qs\<rparr>)"
| mailbox_deliver: "mb_delivered m < length (mb_accepted m) \<Longrightarrow> mailbox_step m (m\<lparr>mb_delivered := mb_delivered m + 1\<rparr>)"

definition mailbox_of :: "chat_system \<Rightarrow> mailbox" where
  "mailbox_of s = \<lparr>mb_accepted = sy_accepted s, mb_delivered = length (sy_started s)\<rparr>"

definition empty_mailbox :: "simple_chat_input \<Rightarrow> mailbox" where
  "empty_mailbox inp = \<lparr>mb_accepted = ci_pending_messages inp, mb_delivered = 0\<rparr>"

lemma mailbox_same:
  "sy_accepted t = sy_accepted s \<Longrightarrow> sy_started t = sy_started s \<Longrightarrow> mailbox_of t = mailbox_of s"
  by (simp add: mailbox_of_def)

lemma continue_as_new_mailbox: "mailbox_of (continue_as_new st s) = mailbox_of s"
  by (cases rule: continue_as_new_cases [of st s]) (simp_all add: mailbox_of_def)

lemma handle_signal_mailbox:
  assumes "signal_handler h"
  shows "mailbox_of (handle_signal h s) = mailbox_of s \<or> mailbox_step (mailbox_of s) (mailbox_of (handle_signal h s))"
proof -
  obtain q where q: "cw_pending_messages (h (sy_workflow s)) = cw_pending_messages (sy_workflow s) @ q"
    using signal_handler.handler_queue [OF assms] by blast
  have "mailbox_of (handle_signal h s) = mailbox_of s \<or>
      mailbox_of (handle_signal h s) = (mailbox_of s)\<lparr>mb_accepted := mb_accepted (mailbox_of s) @ q\<rparr>"
    by (simp add: mailbox_of_def signal_handler.accepted_handler [OF assms q])
  then show ?thesis using mailbox_accept [of "mailbox_of s" q] by auto
qed

lemma chat_step_mailbox:
  assumes "queue_inv s" and "chat_step su wid s t"
  shows "mailbox_of t = mailbox_of s \<or> mailbox_step (mailbox_of s) (mailbox_of t)"
  using assms(2)
proof (cases rule: chat_step_cases)
  case (handler h)
  then show ?thesis using handle_signal_mailbox by blast
next
  case (begin_run now)
  show ?thesis
    by (cases rule: begin_run_cases [of su wid now s]) (use begin_run in \<open>simp_all add: mailbox_of_def\<close>)
next
  case (pass woken now requested finished)
  show ?thesis
  proof (cases rule: loop_pass_cases [of woken now requested finished s])
    case (take q qs)
    have "length (sy_started s) < length (sy_accepted s)"
      using assms(1) pass(1) take(1) by (simp add: queue_inv_def waiting_messages_def)
    then have "mailbox_step (mailbox_of s) ((mailbox_of s)\<lparr>mb_delivered := mb_delivered (mailbox_of s) + 1\<rparr>)"
      by (intro mailbox_deliver) (simp add: mailbox_of_def)
    then show ?thesis unfolding pass(2) take(2) by (simp add: mailbox_of_def)
  qed (use pass continue_as_new_mailbox in \<open>simp_all add: mailbox_of_def\<close>)
next
  case (end_turn turn out)
  show ?thesis
    by (cases rule: end_turn_cases [of s out wid turn]) (use end_turn in \<open>simp_all add: mailbox_of_def\<close>)
next
  case (settled n)
  then show ?thesis using continue_as_new_mailbox by (cases n) (simp_all add: after_settled_def mailbox_of_def)
qed (auto intro: mailbox_same)

interpretation delivery: forward_simulation "\<lambda>s. s = chat_begin inp" "chat_step su wid" queue_inv
  mailbox_of "\<lambda>m. m = empty_mailbox inp" mailbox_step for inp su wid
proof unfold_locales
  show "mailbox_of s = empty_mailbox inp" if "s = chat_begin inp" for s
    using that by (simp add: mailbox_of_def empty_mailbox_def chat_begin_def)
qed (rule chat_step_mailbox)

section \<open>A chat to run\<close>

definition sample_chat_setup :: chat_setup where
  "sample_chat_setup = \<lparr>su_tools = sample_tools, su_provider = (\<lambda>_. sample_provider),
     su_pre_guard = sample_llm_guard, su_post_guard = sample_llm_guard\<rparr>"

definition sample_chat_input :: simple_chat_input where
  "sample_chat_input =
     \<lparr>ci_user_ref = ''u'', ci_conversation_id = ''c'', ci_system_prompt = ''Be brief.'', ci_model = ''m'',
      ci_max_tokens = 1000, ci_max_context_tokens = 200000, ci_thinking = None, ci_max_turns = 10,
      ci_stream_id = None, ci_available_tool_names = [''fetch_url''], ci_github_connection_id = None,
      ci_mcp_servers = [], ci_agent_state = None, ci_agent_context_state = None, ci_pending_messages = [],
      ci_active_message_index = None, ci_active_settle_after_revision = 0, ci_approval_memory = [],
      ci_approval_counter = 0, ci_good_place_censor = False, ci_state_revision = 0,
      ci_transcript_revision = 0, ci_transcript_deltas = [], ci_last_touched_at = None\<rparr>"

definition sample_chat_request :: "string \<Rightarrow> chat_signal_request" where
  "sample_chat_request msg = \<lparr>cr_message = msg, cr_attachments = [], cr_after_revision = 0,
     cr_available_tool_names = [''fetch_url''], cr_github_connection_id = None, cr_mcp_servers = []\<rparr>"

definition sample_run :: "chat_event list \<Rightarrow> chat_system option" where
  "sample_run evs = chat_trace sample_chat_setup ''w'' evs (chat_begin sample_chat_input)"

lemma sample_run_states:
  "sample_run evs = Some s \<Longrightarrow> chat_states sample_chat_setup ''w'' sample_chat_input s"
  unfolding sample_run_def chat_states_def by (rule chat_trace_reachable [OF reachable_initial]) simp_all

definition two_messages :: "chat_event list" where
  "two_messages = [StartRun 5, ChatSignal 6 (sample_chat_request ''one''), ChatSignal 7 (sample_chat_request ''two''),
     LoopPass 8 False False]"

lemma two_messages_run:
  "case sample_run two_messages of None \<Rightarrow> False | Some s \<Rightarrow>
     map qm_content (sy_started s) = [''one''] \<and> map qm_content (waiting_messages s) = [''two'']"
  by code_simp

section \<open>The properties\<close>

text \<open>
  C4. A chat is a mailbox that is read in order: whatever the interleaving of signals, turns and
  new runs, each event of it is invisible to, or an event of, a first-in-first-out mailbox. The
  messages that started a turn are the first ones accepted, in order and each once; the others wait,
  and a run that ends without a failure leaves none of them behind unless the chat is being deleted
  (a run that fails may). The accepted messages are those of the input and those signalled
  after \<open>run\<close> has started: such a signal is accepted at once, whereas a message that is signalled
  before \<open>run\<close> starts is not accepted, and never answered.
\<close>

theorem chat_answers_in_order:
  assumes "chat_states su wid inp s"
  shows "reachable (\<lambda>m. m = empty_mailbox inp) mailbox_step (mailbox_of s) \<and>
    sy_started s = take (mb_delivered (mailbox_of s)) (mb_accepted (mailbox_of s)) \<and>
    waiting_messages s = drop (mb_delivered (mailbox_of s)) (mb_accepted (mailbox_of s)) \<and>
    (sy_phase s = Ended \<longrightarrow> waiting_messages s \<noteq> [] \<longrightarrow> cw_delete_requested (sy_workflow s)) \<and>
    (\<forall>now request t. chat_next su wid (ChatSignal now request) s = Some t \<longrightarrow>
       (if sy_phase s = NotStarted then mailbox_of t = mailbox_of s
        else \<exists>q. mb_accepted (mailbox_of t) = mb_accepted (mailbox_of s) @ [q] \<and>
          qm_content q = cr_message request \<and> qm_attachments q = cr_attachments request))"
proof -
  have states: "reachable (\<lambda>s. s = chat_begin inp) (chat_step su wid) s"
    using assms by (simp add: chat_states_def)
  have inv: "queue_inv s" by (rule queue.reachable_inv [OF states])
  have signalled: "if sy_phase s = NotStarted then mailbox_of t = mailbox_of s
        else \<exists>q. mb_accepted (mailbox_of t) = mb_accepted (mailbox_of s) @ [q] \<and>
          qm_content q = cr_message request \<and> qm_attachments q = cr_attachments request"
    if "chat_next su wid (ChatSignal now request) s = Some t" for now request t
  proof -
    have t: "t = handle_signal (chat_signal now request) s"
      using that by (simp add: chat_next_def signal_next_def split: if_splits)
    obtain q where q: "cw_pending_messages (chat_signal now request (sy_workflow s)) = cw_pending_messages (sy_workflow s) @ [q]"
      "qm_content q = cr_message request" "qm_attachments q = cr_attachments request"
      by (simp add: chat_signal_def recording_defs)
    then show ?thesis by (auto simp: t mailbox_of_def chat.accepted_handler [OF q(1)])
  qed
  then have signalled: "\<forall>now request t. chat_next su wid (ChatSignal now request) s = Some t \<longrightarrow>
       (if sy_phase s = NotStarted then mailbox_of t = mailbox_of s
        else \<exists>q. mb_accepted (mailbox_of t) = mb_accepted (mailbox_of s) @ [q] \<and>
          qm_content q = cr_message request \<and> qm_attachments q = cr_attachments request)"
    by blast
  show ?thesis
    by (intro conjI delivery.reachable_abs [OF states] signalled) (use inv in \<open>simp_all add: queue_inv_def mailbox_of_def\<close>)
qed

theorem chat_answers_in_order_witness:
  "case sample_run two_messages of None \<Rightarrow> False | Some s \<Rightarrow>
     reachable (\<lambda>m. m = empty_mailbox sample_chat_input) mailbox_step (mailbox_of s) \<and>
     map qm_content (sy_started s) = [''one''] \<and> map qm_content (waiting_messages s) = [''two'']"
proof (cases "sample_run two_messages")
  case (Some s)
  with two_messages_run chat_answers_in_order [OF sample_run_states [OF Some]] show ?thesis by simp
qed (use two_messages_run in simp)

text \<open>
  C16. A message that waits is taken: a pass of the main loop never ends the run or goes to sleep
  while a message waits and the chat is not being deleted. When no new run is due, or a handler still
  runs, it starts the turn of the first message. Otherwise it continues as new, and the input of the
  new run has the same queue; the one thing that can go wrong then is that the agent cannot compact
  its state (the schemas of its tools or its token budget raise), and then the run fails.
\<close>

theorem queued_message_is_taken:
  assumes "chat_states su wid inp s" and "sy_phase s = Waiting woken" and "waiting_messages s = q # qs"
    and "\<not> cw_delete_requested (sy_workflow s)"
    and "chat_next su wid (LoopPass now requested finished) s = Some t"
  shows "if \<not> (finished \<and> (requested \<or> checkpoint_due now (sy_workflow s)))
    then \<exists>turn. sy_phase t = InTurn turn \<and> at_message turn = Some (qm_content q) \<and>
      at_attachments turn = qm_attachments q \<and> sy_started t = sy_started s @ [q] \<and> waiting_messages t = qs
    else if \<exists>ag. cw_agent (sy_workflow s) = Some ag \<and> (\<forall>schemas budget.
        tool_schemas (ag_tools ag) (ag_tool_names ag) = Inr schemas \<longrightarrow> agent_token_budget ag schemas False \<noteq> Inr budget)
    then sy_phase t = Failed
    else sy_phase t = NotStarted \<and> sy_started t = sy_started s \<and> waiting_messages t = q # qs \<and>
      ci_pending_messages (sy_input t) = q # qs"
proof -
  let ?w = "sy_workflow s"
  have pending: "cw_pending_messages ?w = q # qs" using assms(2,3) by (simp add: waiting_messages_def)
  have "queue_inv s" using assms(1) queue.reachable_inv by (simp add: chat_states_def)
  then have touched: "cw_touched_this_run ?w" using assms(2) pending by (simp add: queue_inv_def waiting_messages_def)
  have t: "t = loop_pass woken now requested finished s"
    using assms(2,5) by (simp add: chat_next_def signal_next_def chat_running_def)
  show ?thesis
  proof (cases "finished \<and> (requested \<or> checkpoint_due now ?w)")
    case True
    then have "t = continue_as_new None s"
      using assms(4) touched
      by (auto simp: t loop_pass_def wait_pass_def finish_or_checkpoint_if_needed_def)
    with True pending show ?thesis
      by (auto simp: continue_as_new_def continue_as_new_input_def waiting_messages_def compacted_state_def res_bind_def
          split: option.splits sum.splits)
  next
    case False
    then have "wait_pass woken now requested finished ?w = TakeMessage"
      using assms(4) pending by (auto simp: wait_pass_def finish_or_checkpoint_if_needed_def)
    with False show ?thesis by (simp add: t loop_pass_def split_beta waiting_messages_def pending)
  qed
qed


text \<open>
  C6. Nothing that needs approval is allowed unless the user allowed it: when a tool call or a
  subagent is told it may go on, the user gave that decision on the very approval it waited for, or
  the user allowed such calls always; and no two tool calls ever wait for approvals of the same name.
\<close>

theorem allowed_only_by_the_user:
  assumes "chat_states su wid inp s" and "(approval_id, key, decision) \<in> set (sy_answers s)"
    and "decision \<in> {''allow'', ''always_allow''}"
  shows "(case approval_id of
      Some i \<Rightarrow> (i, key, decision) \<in> set (sy_decisions s)
    | None \<Rightarrow> key \<in> set (ci_approval_memory inp) \<or> (\<exists>i. (i, key, ''always_allow'') \<in> set (sy_decisions s))) \<and>
    distinct (map fst (sy_requests s))"
proof -
  have "approval_inv (set (ci_approval_memory inp)) s"
    using assms(1) approvals.reachable_inv by (simp add: chat_states_def)
  from approval_invD(3,5) [OF this] assms(2,3) show ?thesis
    by (auto simp: answers_ok_def justified_def remembered_def requests_ok_def split: option.splits)
qed

definition approved_run :: "chat_event list" where
  "approved_run = two_messages @ [AskApproval 9 ''github_open_issue'' [(''owner'', PStr ''o''), (''repo'', PStr ''r'')],
     ResolveApproval 10 ''approval-1'' ''always_allow'', EndApproval ''approval-1'' False,
     AskApproval 11 ''github_open_issue'' [(''owner'', PStr ''o''), (''repo'', PStr ''r'')]]"

lemma approved_run_answers:
  "case sample_run approved_run of None \<Rightarrow> False | Some s \<Rightarrow>
     sy_answers s = [(Some ''approval-1'', ''github_open_issue:o/r'', ''always_allow''),
                     (None, ''github_open_issue:o/r'', ''allow'')]"
  by code_simp

theorem allowed_only_by_the_user_witness:
  "case sample_run approved_run of None \<Rightarrow> False | Some s \<Rightarrow>
     (''approval-1'', ''github_open_issue:o/r'', ''always_allow'') \<in> set (sy_decisions s) \<and>
     distinct (map fst (sy_requests s))"
proof (cases "sample_run approved_run")
  case (Some s)
  with approved_run_answers
    allowed_only_by_the_user [OF sample_run_states [OF Some], of "Some ''approval-1''" "''github_open_issue:o/r''"
      "''always_allow''"]
  show ?thesis by simp
qed (use approved_run_answers in simp)

text \<open>The messages of \<open>two_messages\<close> are in the queue when the loop takes the first of them.\<close>

definition queue_of_two :: "chat_event list" where
  "queue_of_two = butlast two_messages"

lemma queue_of_two_run:
  "case sample_run queue_of_two of None \<Rightarrow> False | Some s \<Rightarrow>
     (case waiting_messages s of [] \<Rightarrow> False | q # qs \<Rightarrow> qm_content q = ''one'') \<and>
     \<not> cw_delete_requested (sy_workflow s) \<and> sy_phase s = Waiting False \<and>
     (case chat_next sample_chat_setup ''w'' (LoopPass 8 False False) s of None \<Rightarrow> False | Some t \<Rightarrow> True) \<and>
     (case chat_next sample_chat_setup ''w'' (LoopPass 8 True True) s of None \<Rightarrow> False | Some t \<Rightarrow> sy_phase t \<noteq> Failed)"
  by code_simp

theorem queued_message_is_taken_witness:
  "case sample_run queue_of_two of None \<Rightarrow> False | Some s \<Rightarrow>
     (\<exists>t turn. chat_next sample_chat_setup ''w'' (LoopPass 8 False False) s = Some t \<and>
       sy_phase t = InTurn turn \<and> at_message turn = Some ''one'') \<and>
     (\<exists>t. chat_next sample_chat_setup ''w'' (LoopPass 8 True True) s = Some t \<and>
       sy_phase t = NotStarted \<and> ci_pending_messages (sy_input t) = waiting_messages s)"
proof (cases "sample_run queue_of_two")
  case (Some s)
  from queue_of_two_run Some obtain q qs t where s: "waiting_messages s = q # qs" "qm_content q = ''one''"
    "\<not> cw_delete_requested (sy_workflow s)" "sy_phase s = Waiting False"
    and t: "chat_next sample_chat_setup ''w'' (LoopPass 8 False False) s = Some t"
    by (auto split: list.splits option.splits)
  from queue_of_two_run Some obtain t' where t': "chat_next sample_chat_setup ''w'' (LoopPass 8 True True) s = Some t'"
    "sy_phase t' \<noteq> Failed" by (auto split: option.splits)
  note taken = queued_message_is_taken [OF sample_run_states [OF Some] s(4,1,3)]
  from taken [OF t] s t have "\<exists>t turn. chat_next sample_chat_setup ''w'' (LoopPass 8 False False) s = Some t \<and>
      sy_phase t = InTurn turn \<and> at_message turn = Some ''one''" by auto
  moreover from taken [OF t'(1)] t' s(1) have "sy_phase t' = NotStarted \<and> ci_pending_messages (sy_input t') = waiting_messages s"
    by (simp split: if_splits)
  ultimately show ?thesis using Some t'(1) by simp
qed (use queue_of_two_run in simp)



section \<open>Signals before the run starts\<close>

text \<open>
  A message that is signalled before \<open>run\<close> starts is lost: \<open>_restore_from_input\<close> replaces the queue.
  The revision that announced the message is taken back as well.
\<close>

lemma early_message_is_lost:
  "case sample_run [ChatSignal 4 (sample_chat_request ''early''), StartRun 5] of None \<Rightarrow> False | Some s \<Rightarrow>
     waiting_messages s = [] \<and> sy_started s = [] \<and> cw_transcript_revision (sy_workflow s) = 0"
  by code_simp

text \<open>
  A subagent that asks before \<open>run\<close> starts is numbered from one again: after two approvals in an
  earlier run, its approval has the name of the first of them.
\<close>

lemma early_approval_name_reused:
  "case chat_trace sample_chat_setup ''w'' [RequestChildApproval 1 \<lparr>ca_child_workflow_id = ''child'',
       ca_child_approval_id = ''a'', ca_tool_name = ''python_sandbox'', ca_tool_args = []\<rparr>, StartRun 2]
     (chat_begin (sample_chat_input\<lparr>ci_approval_counter := 2\<rparr>)) of None \<Rightarrow> False | Some s \<Rightarrow>
     map fst (cw_pending_approvals (sy_workflow s)) = [''approval-1''] \<and>
     cw_approval_counter (sy_workflow s) = 2"
  by code_simp

end
