(* ===== verification/ChatTools.thy ===== *)
theory ChatTools
  imports Mcp
begin

text \<open>
  The tools of the chat application: their declarations under \<open>worker/tools/\<close> (what \<open>@tool\<close> and the
  signature of each function say; what the functions do is a parameter), the approval guard
  (\<open>approval.py\<close>), and the tool set that follows the user's connections (\<open>AppToolSet\<close> and
  \<open>build_tools\<close> of \<open>worker/tools/__init__.py\<close>).

  The numbers identify the function objects.
\<close>

section \<open>Declarations\<close>

definition param :: "string \<Rightarrow> string \<Rightarrow> pyval option \<Rightarrow> parameter" where
  "param name annotation value =
     \<lparr>par_name = name, par_kind = PositionalOrKeyword, par_annotation = Some annotation, par_default = value\<rparr>"

definition declared_tool ::
  "nat \<Rightarrow> string \<Rightarrow> string \<Rightarrow> string \<Rightarrow> string \<Rightarrow> guard_reference list \<Rightarrow> parameter list \<Rightarrow> tool_fn" where
  "declared_tool identity function name description tool_type pre_guards params =
     \<lparr>tf_guard = \<lparr>gf_function = \<lparr>fn_id = identity, fn_name = function, fn_params = params\<rparr>, gf_metadata = None\<rparr>,
      tf_metadata = Some \<lparr>tm_name = name, tm_description = description, tm_tool_type = tool_type,
        tm_pre_guards = pre_guards, tm_post_guards = []\<rparr>\<rparr>"

definition read_attachment_tool :: tool_fn where
  "read_attachment_tool = declared_tool 101 ''read_attachment'' ''read_attachment''
     (''Read a user-provided attachment for this chat by attachment_id. Use this when '' @
      ''the user attached a file or paste block and you need its text contents. For '' @
      ''non-text files, the tool returns metadata and explains that direct text '' @
      ''extraction is unavailable.'')
     ''read'' []
     [param ''ctx'' ''ToolContext'' None,
      param ''attachment_id'' ''str'' None,
      param ''max_chars'' ''int'' (Some (PInt 12000))]"

definition create_artifact_tool :: tool_fn where
  "create_artifact_tool = declared_tool 102 ''create_artifact'' ''create_artifact''
     (''Create a persistent file artifact that the user can view and download from the '' @
      ''chat UI. Use this when the user asks you to write, save, export, or create a '' @
      ''file. The Python sandbox cannot persist files; use this tool for durable file '' @
      ''output. Pass text content directly with encoding='text', or pass base64 content '' @
      ''with encoding='base64' for binary files. File name should be the name of the '' @
      ''file only without path - paths are not supported.'')
     ''mutating'' [GuardName ''mutating_tool_approval'']
     [param ''ctx'' ''ToolContext'' None,
      param ''name'' ''str'' None,
      param ''content'' ''str'' None,
      param ''mime_type'' ''str'' (Some (PStr ''text/plain'')),
      param ''encoding'' ''ArtifactEncoding'' (Some (PStr ''text''))]"

definition fetch_url_tool :: tool_fn where
  "fetch_url_tool = declared_tool 103 ''fetch_url'' ''fetch_url''
     (''Fetch an http or https URL and return readable extracted page text, metadata, '' @
      ''and useful links. Use this after search_web identifies a specific page or when '' @
      ''the user asks you to retrieve a URL.'')
     ''read'' []
     [param ''ctx'' ''ToolContext'' None,
      param ''url'' ''str'' None,
      param ''max_chars'' ''int'' (Some (PInt 12000))]"

definition python_sandbox_tool :: tool_fn where
  "python_sandbox_tool = declared_tool 104 ''python_sandbox'' ''python_sandbox''
     (''Execute Python code in an isolated sandbox. Use this for calculations, scripts, '' @
      ''imports, network calls, parsing, and data transformations. For long-running '' @
      ''work, write progress to stdout or stderr with print() or sys.stderr.write(); '' @
      ''that output streams back to the user while the code is still running. Runtime, '' @
      ''output, and permissions are bounded by the sandbox. The sandbox ceases to exist '' @
      ''when the tool finishes, as well as any files written to disk. Treat this as '' @
      ''purely ephemeral. External side effects performed by user code are not made '' @
      ''idempotent by the harness, so sandbox executions are not retried automatically.'')
     ''mutating'' [GuardName ''mutating_tool_approval'']
     [param ''ctx'' ''ToolContext'' None,
      param ''code'' ''str'' None,
      param ''timeout_seconds'' ''int'' (Some (PInt 885))]"

definition search_web_tool :: tool_fn where
  "search_web_tool = declared_tool 105 ''search_web'' ''search_web''
     (''Search the web through the app's internal SearXNG service. Use this for current '' @
      ''public web research, finding source URLs, and getting short snippets before '' @
      ''fetching individual pages.'')
     ''read'' []
     [param ''ctx'' ''ToolContext'' None,
      param ''query'' ''str'' None,
      param ''max_results'' ''int'' (Some (PInt 8)),
      param ''category'' ''str'' (Some (PStr ''general'')),
      param ''language'' ''str'' (Some (PStr ''auto'')),
      param ''time_range'' ''str | None'' (Some PNone)]"

definition search_fact_checks_tool :: tool_fn where
  "search_fact_checks_tool = declared_tool 106 ''search_fact_checks'' ''search_fact_checks''
     (''Search Google's Fact Check Tools index for published fact checks matching a '' @
      ''claim or topic.'')
     ''read'' []
     [param ''ctx'' ''ToolContext'' None,
      param ''query'' ''str'' None,
      param ''max_results'' ''int'' (Some (PInt 10)),
      param ''language_code'' ''str | None'' (Some PNone)]"

definition lookup_entity_tool :: tool_fn where
  "lookup_entity_tool = declared_tool 107 ''lookup_entity'' ''lookup_entity''
     (''Look up people, organizations, places, products, and other entities in Google's '' @
      ''Knowledge Graph.'')
     ''read'' []
     [param ''ctx'' ''ToolContext'' None,
      param ''query'' ''str'' None,
      param ''max_results'' ''int'' (Some (PInt 5)),
      param ''types'' ''str | None'' (Some PNone)]"

definition search_books_tool :: tool_fn where
  "search_books_tool = declared_tool 108 ''search_books'' ''search_books''
     (''Search Google Books for book metadata, authors, publication dates, ISBNs, and '' @
      ''preview links.'')
     ''read'' []
     [param ''ctx'' ''ToolContext'' None,
      param ''query'' ''str'' None,
      param ''max_results'' ''int'' (Some (PInt 10)),
      param ''print_type'' ''str'' (Some (PStr ''all'')),
      param ''order_by'' ''str'' (Some (PStr ''relevance''))]"

definition search_youtube_tool :: tool_fn where
  "search_youtube_tool = declared_tool 109 ''search_youtube'' ''search_youtube''
     (''Search public YouTube videos and channels by query. Use this when the user asks '' @
      ''for talks, conference videos, demos, or video sources.'')
     ''read'' []
     [param ''ctx'' ''ToolContext'' None,
      param ''query'' ''str'' None,
      param ''max_results'' ''int'' (Some (PInt 5)),
      param ''result_type'' ''str'' (Some (PStr ''video''))]"

definition check_url_safety_tool :: tool_fn where
  "check_url_safety_tool = declared_tool 110 ''check_url_safety'' ''check_url_safety''
     (''Check one or more URLs against Google Safe Browsing for suspected malware, '' @
      ''social engineering, unwanted software, or harmful apps.'')
     ''read'' []
     [param ''ctx'' ''ToolContext'' None,
      param ''urls'' ''list[str]'' None]"

definition github_authenticated_user_tool :: tool_fn where
  "github_authenticated_user_tool = declared_tool 111 ''authenticated_user'' ''github_authenticated_user''
     (''Return the GitHub user currently authorized for this chat.'')
     ''read'' []
     [param ''ctx'' ''ToolContext'' None]"

definition github_list_repositories_tool :: tool_fn where
  "github_list_repositories_tool = declared_tool 112 ''list_repositories'' ''github_list_repositories''
     (''List repositories visible to the authorized GitHub user.'')
     ''read'' []
     [param ''ctx'' ''ToolContext'' None,
      param ''visibility'' ''str'' (Some (PStr ''all'')),
      param ''affiliation'' ''str'' (Some (PStr ''owner,collaborator,organization_member'')),
      param ''max_results'' ''int'' (Some (PInt 20)),
      param ''page'' ''int'' (Some (PInt 1))]"

definition github_list_issues_tool :: tool_fn where
  "github_list_issues_tool = declared_tool 113 ''list_issues'' ''github_list_issues''
     (''List issues for a GitHub repository visible to the authorized GitHub user.'')
     ''read'' []
     [param ''ctx'' ''ToolContext'' None,
      param ''owner'' ''str'' None,
      param ''repo'' ''str'' None,
      param ''state'' ''str'' (Some (PStr ''open'')),
      param ''max_results'' ''int'' (Some (PInt 20)),
      param ''page'' ''int'' (Some (PInt 1))]"

definition github_open_issue_tool :: tool_fn where
  "github_open_issue_tool = declared_tool 114 ''open_issue'' ''github_open_issue''
     (''Open a new issue in a GitHub repository visible to the authorized GitHub user. '' @
      ''This mutates GitHub state by creating an issue.'')
     ''mutating'' [GuardName ''mutating_tool_approval'']
     [param ''ctx'' ''ToolContext'' None,
      param ''owner'' ''str'' None,
      param ''repo'' ''str'' None,
      param ''title'' ''str'' None,
      param ''body'' ''str'' (Some (PStr '''')),
      param ''labels'' ''list[str] | None'' (Some PNone)]"

definition create_subagent_tool :: tool_fn where
  "create_subagent_tool = declared_tool 115 ''create_subagent'' ''create_subagent''
     (''Create a child Claude agent for a delegated task. Pass an explicit subset of '' @
      ''tool_names for the child to use. The child inherits this chat's streaming '' @
      ''sideband. Mutating delegated tools request approval through this parent chat. '' @
      ''Recursive subagents are not delegated.'')
     ''read'' []
     [param ''ctx'' ''ToolContext'' None,
      param ''system_prompt'' ''str'' None,
      param ''task'' ''str'' None,
      param ''tool_names'' ''list[str] | None'' (Some PNone),
      param ''model'' ''str | None'' (Some PNone),
      param ''max_tokens'' ''int'' (Some (PInt 16000)),
      param ''max_turns'' ''int'' (Some (PInt 8))]"

section \<open>The approval guard\<close>

definition approval_guard_fn :: guard_fn where
  "approval_guard_fn =
     \<lparr>gf_function = \<lparr>fn_id = 100, fn_name = ''require_mutating_approval'',
        fn_params = [param ''ctx'' ''GuardContext'' None]\<rparr>,
      gf_metadata = Some \<lparr>gm_name = ''mutating_tool_approval'',
        gm_fulfills = PList [PStr ''mutating'', PStr ''mcp'']\<rparr>\<rparr>"

definition approval_refused :: "string \<Rightarrow> string \<Rightarrow> string \<Rightarrow> string \<Rightarrow> guard_result" where
  "approval_refused reason err tool_name explanation =
     \<lparr>gr_passed = False, gr_reason = Some reason,
      gr_llm_payload = Some [(''error'', PStr err), (''tool'', PStr tool_name), (''reason'', PStr explanation)],
      gr_internal_payload = None\<rparr>"

text \<open>
  \<open>require_mutating_approval\<close>; \<open>request\<close> asks the user, in the world of the workflow, and gives the
  decision.
\<close>

type_synonym 'w approval_request = "string \<Rightarrow> pydict \<Rightarrow> ('w, string) op"

definition approval_result :: "string \<Rightarrow> string \<Rightarrow> guard_result" where
  "approval_result tool_name decision =
     (if decision = ''allow'' \<or> decision = ''always_allow''
      then \<lparr>gr_passed = True, gr_reason = None, gr_llm_payload = None, gr_internal_payload = None\<rparr>
      else if decision = ''expired''
      then approval_refused ''Tool approval expired.'' ''Approval expired'' tool_name
        ''The user did not approve this action before the approval request expired.''
      else if decision = ''cancelled''
      then approval_refused ''Tool approval was cancelled.'' ''Approval cancelled'' tool_name
        ''The approval request was cancelled before a decision.''
      else approval_refused ''User denied the tool call.'' ''Approval denied'' tool_name
        ''The user denied this action.'')"

definition require_mutating_approval ::
  "'w approval_request option \<Rightarrow> guard_context \<Rightarrow> ('w call_state, guard_result) op" where
  "require_mutating_approval request ctx s =
     (case request of
        None \<Rightarrow> (Inr (approval_refused ''No approval handler is configured for tools that require approval.''
            ''Approval unavailable'' (gc_tool_name ctx)
            ''This agent is not configured to request user approval for this action.''), s)
      | Some ask \<Rightarrow>
          (case ask (gc_tool_name ctx) (gc_tool_args ctx) (cs_world s) of
             (Inl e, w) \<Rightarrow> (Inl e, s\<lparr>cs_world := w\<rparr>)
           | (Inr decision, w) \<Rightarrow> (Inr (approval_result (gc_tool_name ctx) decision), s\<lparr>cs_world := w\<rparr>)))"

text \<open>The guards of the chat: this one, and others as given.\<close>

definition chat_guards :: "'w approval_request option \<Rightarrow> 'w guard_semantics \<Rightarrow> 'w guard_semantics" where
  "chat_guards request other f kwargs =
     (if f = approval_guard_fn
      then (case map_of kwargs ''ctx'' of
              Some (Injected ctx) \<Rightarrow> op_bind (require_mutating_approval request ctx) (\<lambda>r. op_return (ReturnedResult r))
            | _ \<Rightarrow> op_raise (type_error ''require_mutating_approval() missing ctx''))
      else other f kwargs)"

section \<open>The tool set of a chat\<close>

text \<open>
  \<open>AppToolSet\<close>: the tool set it extends and the sources of its MCP tools. The names that are
  available and the connected servers, which the code asks its callbacks for, are arguments.
\<close>

type_synonym mcp_source = "string \<times> string \<times> string option \<times> string"

record app_tool_set =
  at_tools :: tool_set
  at_sources :: "(string \<times> mcp_source) list"

definition AppToolSet :: app_tool_set where
  "AppToolSet = \<lparr>at_tools = \<lparr>tool_registry = [], ts_guards = GuardSet None\<rparr>, at_sources = []\<rparr>"

type_synonym desired_tool = "mcp_server_config \<times> mcp_tool_config \<times> mcp_source"

definition add_desired_tool ::
  "mcp_server_config \<Rightarrow> mcp_tool_config \<Rightarrow> (string \<times> desired_tool) list \<Rightarrow> (string \<times> desired_tool) list" where
  "add_desired_tool server t desired =
     (let name = registered_name server t in
      if map_of desired name \<noteq> None then desired
      else desired @ [(name, server, t, ms_server_id server, ms_server_url server, ms_auth_ref server, mt_name t)])"

definition desired_tools :: "mcp_server_config list \<Rightarrow> (string \<times> desired_tool) list" where
  "desired_tools servers =
     fold (\<lambda>server desired. if \<not> ms_enabled server then desired
             else fold (add_desired_tool server) (ms_tools server) desired) servers []"

definition remove_tool :: "string \<Rightarrow> app_tool_set \<Rightarrow> app_tool_set" where
  "remove_tool name a = a\<lparr>at_tools := (at_tools a)\<lparr>tool_registry := AList.delete name (tool_registry (at_tools a))\<rparr>\<rparr>"

definition forget_tool :: "string \<Rightarrow> app_tool_set \<Rightarrow> app_tool_set" where
  "forget_tool name a = (remove_tool name a)\<lparr>at_sources := AList.delete name (at_sources a)\<rparr>"

definition drop_stale_tools :: "(string \<times> desired_tool) list \<Rightarrow> app_tool_set \<Rightarrow> app_tool_set" where
  "drop_stale_tools desired a =
     fold (\<lambda>name a. if map_of desired name = None then forget_tool name a else a) (map fst (at_sources a)) a"

definition on_tools :: "(tool_set, 'a) op \<Rightarrow> (app_tool_set, 'a) op" where
  "on_tools m a = (case m (at_tools a) of (r, ts) \<Rightarrow> (r, a\<lparr>at_tools := ts\<rparr>))"

definition sync_mcp_tool ::
  "(string \<Rightarrow> model_fields \<Rightarrow> pydict res) \<Rightarrow> (string \<Rightarrow> nat) \<Rightarrow> string \<times> desired_tool \<Rightarrow> (app_tool_set, unit) op" where
  "sync_mcp_tool schema_of closure_id item a =
     (case item of (name, server, t, source) \<Rightarrow>
       (if map_of (at_sources a) name = Some source \<and> map_of (tool_registry (at_tools a)) name \<noteq> None
        then (Inr (), a)
        else if map_of (tool_registry (at_tools a)) name \<noteq> None \<and> map_of (at_sources a) name = None
        then (Inr (), a)
        else op_bind (on_tools (add_mcp_provider ''HttpMcpProvider''
               (Some (register_mcp schema_of closure_id (server\<lparr>ms_tools := [t]\<rparr>)))))
               (\<lambda>_ a. (Inr (), a\<lparr>at_sources := AList.update name source (at_sources a)\<rparr>))
               (remove_tool name a)))"

fun sync_each ::
  "(string \<Rightarrow> model_fields \<Rightarrow> pydict res) \<Rightarrow> (string \<Rightarrow> nat) \<Rightarrow> (string \<times> desired_tool) list \<Rightarrow> (app_tool_set, unit) op" where
  "sync_each schema_of closure_id [] = op_return ()"
| "sync_each schema_of closure_id (item # desired) =
     op_bind (sync_mcp_tool schema_of closure_id item) (\<lambda>_. sync_each schema_of closure_id desired)"

definition sync_mcp_tools ::
  "(string \<Rightarrow> model_fields \<Rightarrow> pydict res) \<Rightarrow> (string \<Rightarrow> nat) \<Rightarrow> mcp_server_config list \<Rightarrow> (app_tool_set, unit) op" where
  "sync_mcp_tools schema_of closure_id servers a =
     sync_each schema_of closure_id (desired_tools servers) (drop_stale_tools (desired_tools servers) a)"

definition app_tool_names ::
  "(string \<Rightarrow> model_fields \<Rightarrow> pydict res) \<Rightarrow> (string \<Rightarrow> nat) \<Rightarrow> mcp_server_config list \<Rightarrow> string set
   \<Rightarrow> (app_tool_set, string list) op" where
  "app_tool_names schema_of closure_id servers available =
     op_bind (sync_mcp_tools schema_of closure_id servers)
       (\<lambda>_ a. (Inr (filter (\<lambda>name. name \<in> available) (tool_names (at_tools a))), a))"

definition app_tool_schemas ::
  "(string \<Rightarrow> model_fields \<Rightarrow> pydict res) \<Rightarrow> (string \<Rightarrow> nat) \<Rightarrow> mcp_server_config list \<Rightarrow> string set
   \<Rightarrow> string list option \<Rightarrow> (app_tool_set, pydict list) op" where
  "app_tool_schemas schema_of closure_id servers available names =
     op_bind (sync_mcp_tools schema_of closure_id servers)
       (\<lambda>_ a. (let requested = (case names of Some ns \<Rightarrow> set ns | None \<Rightarrow> set (tool_names (at_tools a)));
                   visible = filter (\<lambda>name. name \<in> available \<inter> requested) (tool_names (at_tools a))
               in (tool_schemas (at_tools a) (Some visible), a)))"

definition app_execute_tool ::
  "(string \<Rightarrow> model_fields \<Rightarrow> pydict res) \<Rightarrow> (string \<Rightarrow> nat) \<Rightarrow> mcp_server_config list \<Rightarrow> string set
   \<Rightarrow> 'w guard_semantics \<Rightarrow> 'w tool_semantics \<Rightarrow> string \<Rightarrow> pydict \<Rightarrow> string option \<Rightarrow> string option
   \<Rightarrow> activity_options option \<Rightarrow> app_tool_set \<times> 'w \<Rightarrow> tool_result res \<times> app_tool_set \<times> 'w" where
  "app_execute_tool schema_of closure_id servers available run_guard run_tool name args stream_id tool_call_id options s =
     (case s of (a, world) \<Rightarrow>
       (case sync_mcp_tools schema_of closure_id servers a of
          (Inl e, a) \<Rightarrow> (Inl e, a, world)
        | (Inr _, a) \<Rightarrow>
            (if name \<notin> available
             then (Inr \<lparr>tr_payload = [(''error'', PStr (''Tool is not available in this chat: '' @ name))],
                        tr_error = True\<rparr>, a, world)
             else (case execute_tool run_guard run_tool (at_tools a) name args stream_id tool_call_id options world of
                     (r, world) \<Rightarrow> (r, a, world)))))"

section \<open>Building the tool set\<close>

text \<open>The providers by the decorated members of their class; they have no base classes.\<close>

definition provider_class :: "tool_fn list \<Rightarrow> provider_classes" where
  "provider_class members = [map (\<lambda>m. (fn_name (tool_function m), \<lparr>mb_fn = m, mb_callable = True\<rparr>)) members]"

definition MutatingToolApprovalProvider :: provider_classes where
  "MutatingToolApprovalProvider = provider_class [\<lparr>tf_guard = approval_guard_fn, tf_metadata = None\<rparr>]"

definition AttachmentProvider :: provider_classes where
  "AttachmentProvider = provider_class [read_attachment_tool]"

definition ArtifactProvider :: provider_classes where
  "ArtifactProvider = provider_class [create_artifact_tool]"

definition ResearchProvider :: provider_classes where
  "ResearchProvider = provider_class [search_web_tool, search_fact_checks_tool, lookup_entity_tool,
     search_books_tool, search_youtube_tool, check_url_safety_tool]"

definition GitHubProvider :: provider_classes where
  "GitHubProvider = provider_class [github_authenticated_user_tool, github_list_repositories_tool,
     github_list_issues_tool, github_open_issue_tool]"

definition SubagentProvider :: provider_classes where
  "SubagentProvider = provider_class [create_subagent_tool]"

definition build_tools :: "(string \<Rightarrow> model_fields \<Rightarrow> pydict res) \<Rightarrow> app_tool_set res" where
  "build_tools schema_of =
     fst (on_tools
       (op_bind (add_provider schema_of ''MutatingToolApprovalProvider'' MutatingToolApprovalProvider None {}) (\<lambda>_.
        op_bind (add_provider schema_of ''AttachmentProvider'' AttachmentProvider None {}) (\<lambda>_.
        op_bind (add_provider schema_of ''ArtifactProvider'' ArtifactProvider None {}) (\<lambda>_.
        op_bind (add_tool schema_of [fetch_url_tool, python_sandbox_tool]) (\<lambda>_.
        op_bind (add_provider schema_of ''ResearchProvider'' ResearchProvider None {}) (\<lambda>_.
        op_bind (add_provider schema_of ''GitHubProvider'' GitHubProvider None {}) (\<lambda>_.
        op_bind (add_provider schema_of ''SubagentProvider'' SubagentProvider None {}) (\<lambda>_ ts.
          (Inr \<lparr>at_tools = ts, at_sources = []\<rparr>, ts)))))))))
       AppToolSet)"

end
