(* ===== verification/ChatToolProperties.thy ===== *)
theory ChatToolProperties
  imports ChatTools
begin

text \<open>
  What the tool set of the chat promises: the tools of connected MCP servers come and go with the
  servers and never touch a tool of the application, and whatever changes something asks the user.
\<close>

section \<open>Tools that ask first\<close>

definition approval_guard_def :: guard_def where
  "approval_guard_def = \<lparr>gd_name = ''mutating_tool_approval'', gd_fulfills = {''mutating'', ''mcp''},
     gd_fn = approval_guard_fn\<rparr>"

definition protected_types :: "string set" where
  "protected_types = {''mutating'', ''mcp'', ''admin''}"

definition asks_first :: "tool_def \<Rightarrow> bool" where
  "asks_first t = (td_tool_type t \<in> protected_types \<longrightarrow> td_pre_guards t = [approval_guard_def])"

definition approval_ready :: "tool_set \<Rightarrow> bool" where
  "approval_ready ts =
     (map_of (guard_registry (ts_guards ts)) ''mutating_tool_approval'' = Some approval_guard_def \<and>
      distinct (map fst (tool_registry ts)) \<and>
      (\<forall>name t. map_of (tool_registry ts) name = Some t \<longrightarrow> asks_first t))"

definition keeps_ready :: "(tool_set, 'a) op \<Rightarrow> bool" where
  "keeps_ready m = (\<forall>ts. approval_ready ts \<longrightarrow> approval_ready (snd (m ts)))"

lemma keeps_ready_return [intro]: "keeps_ready (op_return x)" "keeps_ready (op_raise e)" "keeps_ready (op_lift r)"
  by (simp_all add: keeps_ready_def)

lemma keeps_ready_bind [intro]:
  assumes "keeps_ready m" and "\<And>x. keeps_ready (f x)"
  shows "keeps_ready (op_bind m f)"
  unfolding keeps_ready_def
proof (intro allI impI)
  fix ts
  assume ready: "approval_ready ts"
  obtain r ts' where m: "m ts = (r, ts')" by fastforce
  have "approval_ready ts'" using assms(1) ready m by (metis keeps_ready_def snd_conv)
  then show "approval_ready (snd (op_bind m f ts))"
    using assms(2) m by (cases r) (simp_all add: op_bind_def keeps_ready_def)
qed

text \<open>The declarations: what changes something names the approval guard.\<close>

definition names_approval :: "tool_metadata \<Rightarrow> bool" where
  "names_approval m = (tm_pre_guards m = [] \<and> tm_tool_type m = ''read'' \<or>
     tm_pre_guards m = [GuardName ''mutating_tool_approval''])"

lemma resolve_approval_ref:
  assumes "approval_ready ts" and "map_of provider_guards ''mutating_tool_approval'' = None"
  shows "resolve_guard_refs [GuardName ''mutating_tool_approval''] provider_guards ts = (Inr [approval_guard_def], ts)"
  using assms by (simp add: approval_ready_def get_guard_def op_bind_run)

lemma register_tool_ready:
  assumes "approval_ready ts"
    and "rg_pre_guards r = [approval_guard_def] \<or> rg_tool_type r = PStr ''read''"
  shows "approval_ready (snd (register_tool schema_of r ts))"
proof (cases "register_tool schema_of r ts")
  case (Pair res ts')
  show ?thesis
  proof (cases res)
    case (Inl e)
    with Pair register_tool_rejected [of schema_of r ts e ts'] assms(1) show ?thesis by simp
  next
    case (Inr u)
    from assms(2) have asks: "asks_first t"
      if "td_pre_guards t = rg_pre_guards r" "normalize_tool_category (rg_tool_type r) = Inr (td_tool_type t)" for t
      using that by (auto simp: asks_first_def protected_types_def normalize_tool_category_def)
    have fresh: "map_of (tool_registry ts) (rg_name r) = None"
      using Pair Inr by (simp add: register_tool_def split: if_splits)
    have "\<exists>t. ts' = ts\<lparr>tool_registry := tool_registry ts @ [(rg_name r, t)]\<rparr> \<and>
      td_pre_guards t = rg_pre_guards r \<and> normalize_tool_category (rg_tool_type r) = Inr (td_tool_type t)"
      using register_tool_registered [of schema_of r ts u ts'] Pair Inr by auto
    then obtain t where t: "ts' = ts\<lparr>tool_registry := tool_registry ts @ [(rg_name r, t)]\<rparr>"
      "td_pre_guards t = rg_pre_guards r" "normalize_tool_category (rg_tool_type r) = Inr (td_tool_type t)"
      by blast
    with assms(1) asks [OF t(2,3)] fresh show ?thesis
      unfolding Pair approval_ready_def
      by (auto simp: map_of_append map_of_eq_None_iff split: option.splits if_splits)
  qed
qed

lemma register_decorated_ready:
  assumes "names_approval m" and "tm_post_guards m = []" and "map_of provider_guards ''mutating_tool_approval'' = None"
  shows "keeps_ready (register_decorated schema_of f m provider_guards)"
  unfolding keeps_ready_def
proof (intro allI impI)
  fix ts
  assume ready: "approval_ready ts"
  from assms(1) consider "tm_pre_guards m = []" "tm_tool_type m = ''read''"
    | "tm_pre_guards m = [GuardName ''mutating_tool_approval'']" by (auto simp: names_approval_def)
  then show "approval_ready (snd (register_decorated schema_of f m provider_guards ts))"
  proof cases
    case 1
    then show ?thesis using ready assms(2)
      by (auto simp: register_decorated_def op_bind_run intro!: register_tool_ready)
  next
    case 2
    have run: "register_decorated schema_of f m provider_guards ts = register_tool schema_of
        \<lparr>rg_name = tm_name m, rg_description = tm_description m, rg_tool_type = PStr (tm_tool_type m),
         rg_fn = f, rg_pre_guards = [approval_guard_def], rg_post_guards = [], rg_input_schema = None,
         rg_args_mode = Signature\<rparr> ts"
      using resolve_approval_ref [OF ready assms(3)] assms(2)
      unfolding register_decorated_def 2 op_bind_def by simp
    show ?thesis unfolding run by (rule register_tool_ready [OF ready]) simp
  qed
qed

definition plain_tool :: "tool_fn \<Rightarrow> bool" where
  "plain_tool f = (gf_metadata (tf_guard f) = None \<and>
     (case tf_metadata f of None \<Rightarrow> False | Some m \<Rightarrow> names_approval m \<and> tm_post_guards m = []))"

lemma add_tool_ready: "list_all plain_tool fs \<Longrightarrow> keeps_ready (add_tool schema_of fs)"
  by (induction fs) (auto simp: plain_tool_def split: option.splits intro!: keeps_ready_bind register_decorated_ready)

lemma register_provider_tools_ready:
  "list_all plain_tool fs \<Longrightarrow> map_of defs ''mutating_tool_approval'' = None \<Longrightarrow>
   keeps_ready (register_provider_tools schema_of fs included excluded defs)"
  by (induction fs) (auto simp: plain_tool_def split: option.splits intro!: keeps_ready_bind register_decorated_ready)

lemma register_provider_guards_plain:
  "list_all plain_tool fs \<Longrightarrow> register_provider_guards fs defs = op_return defs"
  by (induction fs arbitrary: defs) (auto simp: plain_tool_def)

lemma add_provider_ready:
  assumes "provider_methods p classes (concat classes) [] = Inr fs" and "list_all plain_tool fs"
  shows "keeps_ready (add_provider schema_of p classes included excluded)"
  unfolding add_provider_def assms(1)
  using register_provider_tools_ready [OF assms(2), of "[]"]
  by (simp add: register_provider_guards_plain [OF assms(2)] keeps_ready_def op_bind_run)

lemmas declared_tools = read_attachment_tool_def create_artifact_tool_def fetch_url_tool_def python_sandbox_tool_def
  search_web_tool_def search_fact_checks_tool_def lookup_entity_tool_def search_books_tool_def
  search_youtube_tool_def check_url_safety_tool_def github_authenticated_user_tool_def
  github_list_repositories_tool_def github_list_issues_tool_def github_open_issue_tool_def create_subagent_tool_def

lemma declared_plain [simp]:
  "plain_tool (declared_tool i f n d ty guards ps) =
     (guards = [] \<and> ty = ''read'' \<or> guards = [GuardName ''mutating_tool_approval''])"
  by (simp add: plain_tool_def declared_tool_def names_approval_def)

lemma chat_tools_plain:
  "list_all plain_tool [read_attachment_tool, create_artifact_tool, fetch_url_tool, python_sandbox_tool,
     search_web_tool, search_fact_checks_tool, lookup_entity_tool, search_books_tool, search_youtube_tool,
     check_url_safety_tool, github_authenticated_user_tool, github_list_repositories_tool,
     github_list_issues_tool, github_open_issue_tool, create_subagent_tool]"
  by (simp add: declared_tools)

lemma provider_class_methods:
  assumes "distinct (map (\<lambda>m. fn_name (tool_function m)) fs)" and "list_all plain_tool fs"
  shows "provider_methods p (provider_class fs) (concat (provider_class fs)) [] = Inr fs"
proof -
  let ?member = "\<lambda>m. (fn_name (tool_function m), \<lparr>mb_fn = m, mb_callable = True\<rparr>)"
  have found: "get_member (provider_class fs) (fn_name (tool_function m)) = Some \<lparr>mb_fn = m, mb_callable = True\<rparr>"
    if "m \<in> set fs" for m
  proof -
    have "map fst (map ?member fs) = map (\<lambda>m. fn_name (tool_function m)) fs" by simp
    with assms(1) have "distinct (map fst (map ?member fs))" by (simp only:)
    moreover have "?member m \<in> set (map ?member fs)" using that by simp
    ultimately show ?thesis by (simp add: get_member_def provider_class_def map_of_is_SomeI)
  qed
  have "provider_methods p (provider_class fs) (map ?member ms) seen = Inr ms"
    if "set ms \<subseteq> set fs" "distinct (map (\<lambda>m. fn_name (tool_function m)) ms)"
      "set seen \<inter> (\<lambda>m. fn_name (tool_function m)) ` set ms = {}" for ms seen
    using that
  proof (induction ms arbitrary: seen)
    case (Cons m ms)
    have "plain_tool m" using assms(2) Cons.prems(1) by (auto simp: list_all_iff)
    then have "decorated \<lparr>mb_fn = m, mb_callable = True\<rparr>"
      by (auto simp: decorated_def plain_tool_def split: option.splits)
    moreover have "provider_methods p (provider_class fs) (map ?member ms) (fn_name (tool_function m) # seen) = Inr ms"
      using Cons.prems by (intro Cons.IH) auto
    ultimately show ?case using Cons.prems found [of m] by simp
  qed simp
  from this [of fs "[]"] assms(1) show ?thesis by (simp add: provider_class_def)
qed

text \<open>The tool set the chat is built with asks first.\<close>

lemma approval_provider_ready:
  assumes "add_provider schema_of ''MutatingToolApprovalProvider'' MutatingToolApprovalProvider None {}
    \<lparr>tool_registry = [], ts_guards = GuardSet None\<rparr> = (r, ts)"
  shows "approval_ready ts"
proof -
  have "ts = \<lparr>tool_registry = [], ts_guards =
      \<lparr>guard_registry = [(''mutating_tool_approval'', approval_guard_def)],
       guard_functions = [(approval_guard_fn, approval_guard_def)], gs_guard_policy = default_guard_policy\<rparr>\<rparr>"
    using assms
    by (simp add: add_provider_def MutatingToolApprovalProvider_def provider_class_def decorated_def get_member_def
        approval_guard_fn_def register_guard_def def_for_def GuardSet_def on_guards_def guard_set_guard_def
        tool_type_set_def tool_category_set_def is_str.simps py_iter_def normalize_tool_category_def op_bind_def
        approval_guard_def_def op_lift_def op_return_def Let_def)
  then show ?thesis by (simp add: approval_ready_def)
qed

definition wf_app_tools :: "app_tool_set \<Rightarrow> bool" where
  "wf_app_tools a =
     (approval_ready (at_tools a) \<and> distinct (map fst (at_sources a)) \<and>
      (\<forall>name \<in> fst ` set (at_sources a). \<exists>t. map_of (tool_registry (at_tools a)) name = Some t \<and>
         td_tool_type t = ''mcp'' \<and> td_args_mode t = Raw))"

lemma build_tools_wf:
  assumes "build_tools schema_of = Inr a"
  shows "wf_app_tools a \<and> at_sources a = []"
proof -
  let ?add = "\<lambda>p c. add_provider schema_of p c None {}"
  let ?start = "\<lparr>tool_registry = [], ts_guards = GuardSet None\<rparr>"
  let ?rest = "op_bind (?add ''AttachmentProvider'' AttachmentProvider) (\<lambda>_.
    op_bind (?add ''ArtifactProvider'' ArtifactProvider) (\<lambda>_.
    op_bind (add_tool schema_of [fetch_url_tool, python_sandbox_tool]) (\<lambda>_.
    op_bind (?add ''ResearchProvider'' ResearchProvider) (\<lambda>_.
    op_bind (?add ''GitHubProvider'' GitHubProvider) (\<lambda>_.
    ?add ''SubagentProvider'' SubagentProvider)))))"
  have plain: "keeps_ready (?add p (provider_class fs))"
    if "distinct (map (\<lambda>m. fn_name (tool_function m)) fs)" "list_all plain_tool fs" for p fs
    by (rule add_provider_ready [OF provider_class_methods [OF that] that(2)])
  have rest: "keeps_ready ?rest"
    unfolding AttachmentProvider_def ArtifactProvider_def ResearchProvider_def GitHubProvider_def SubagentProvider_def
    using chat_tools_plain
    by (intro keeps_ready_bind plain add_tool_ready) (simp_all add: declared_tools declared_tool_def)
  obtain r ts where approval: "?add ''MutatingToolApprovalProvider'' MutatingToolApprovalProvider ?start = (r, ts)"
    by fastforce
  have a: "at_tools a = snd (?rest ts) \<and> at_sources a = []"
    using assms approval
    by (cases r) (auto simp: build_tools_def AppToolSet_def on_tools_def op_bind_def split: prod.splits sum.splits)
  moreover have "approval_ready (snd (?rest ts))"
    using rest approval_provider_ready [OF approval] by (simp add: keeps_ready_def)
  ultimately show ?thesis by (simp add: wf_app_tools_def)
qed

section \<open>Following the connected servers\<close>

definition tool_of :: "app_tool_set \<Rightarrow> string \<Rightarrow> tool_def option" where
  "tool_of a = map_of (tool_registry (at_tools a))"

definition source_of :: "app_tool_set \<Rightarrow> string \<Rightarrow> mcp_source option" where
  "source_of a = map_of (at_sources a)"

definition source_in :: "(string \<times> desired_tool) list \<Rightarrow> string \<Rightarrow> mcp_source option" where
  "source_in ds name = map_option (\<lambda>(server, t, source). source) (map_of ds name)"

definition builtin :: "app_tool_set \<Rightarrow> string \<Rightarrow> bool" where
  "builtin a name = (tool_of a name \<noteq> None \<and> source_of a name = None)"

definition well_keyed :: "app_tool_set \<Rightarrow> bool" where
  "well_keyed a =
     (map_of (guard_registry (ts_guards (at_tools a))) ''mutating_tool_approval'' = Some approval_guard_def \<and>
      distinct (map fst (tool_registry (at_tools a))) \<and> distinct (map fst (at_sources a)))"

lemma wf_app_tools_lookup:
  "wf_app_tools a \<longleftrightarrow> well_keyed a \<and> (\<forall>name t. tool_of a name = Some t \<longrightarrow> asks_first t) \<and>
     (\<forall>name source. source_of a name = Some source \<longrightarrow>
        (\<exists>t. tool_of a name = Some t \<and> td_tool_type t = ''mcp'' \<and> td_args_mode t = Raw))"
proof -
  have "name \<in> fst ` set (at_sources a) \<longleftrightarrow> (\<exists>source. source_of a name = Some source)" for name
    unfolding source_of_def dom_map_of_conv_image_fst [symmetric] dom_def by (rule mem_Collect_eq [THEN trans]) blast
  then have sources: "(\<forall>name \<in> fst ` set (at_sources a). Q name) \<longleftrightarrow>
      (\<forall>name source. source_of a name = Some source \<longrightarrow> Q name)" for Q
    by blast
  show ?thesis
    by (simp only: wf_app_tools_def approval_ready_def well_keyed_def tool_of_def sources conj_ac)
qed

text \<open>An item of the desired tools is registered under its own name, from an enabled server.\<close>

definition desired_item :: "string \<times> desired_tool \<Rightarrow> bool" where
  "desired_item item = (case item of (name, server, t, source) \<Rightarrow>
     name = registered_name server t \<and> ms_enabled server)"

lemma add_desired_items:
  assumes "list_all desired_item ds" and "distinct (map fst ds)" and "ms_enabled server"
  shows "list_all desired_item (fold (add_desired_tool server) ts ds) \<and>
    distinct (map fst (fold (add_desired_tool server) ts ds))"
  using assms(1,2)
proof (induction ts arbitrary: ds)
  case (Cons t ts)
  let ?item = "(registered_name server t, server, t, ms_server_id server, ms_server_url server,
    ms_auth_ref server, mt_name t)"
  have "desired_item ?item" using assms(3) by (simp add: desired_item_def)
  then have "list_all desired_item (add_desired_tool server t ds) \<and> distinct (map fst (add_desired_tool server t ds))"
    using Cons.prems
    by (cases "map_of ds (registered_name server t)") (simp_all add: add_desired_tool_def Let_def map_of_eq_None_iff)
  with Cons.IH show ?case by simp
qed simp

lemma desired_tools_items:
  "list_all desired_item (desired_tools servers) \<and> distinct (map fst (desired_tools servers))"
proof -
  have "list_all desired_item (fold (\<lambda>server desired. if \<not> ms_enabled server then desired
      else fold (add_desired_tool server) (ms_tools server) desired) servers ds) \<and>
    distinct (map fst (fold (\<lambda>server desired. if \<not> ms_enabled server then desired
      else fold (add_desired_tool server) (ms_tools server) desired) servers ds))"
    if "list_all desired_item ds \<and> distinct (map fst ds)" for ds
    using that
  proof (induction servers arbitrary: ds)
    case (Cons server servers)
    then show ?case using add_desired_items [of ds server "ms_tools server"]
      by (cases "ms_enabled server") simp_all
  qed simp
  from this [of "[]"] show ?thesis by (simp add: desired_tools_def)
qed

lemma remove_tool_lookup [simp]:
  "tool_of (remove_tool name a) n = (if n = name then None else tool_of a n)"
  "source_of (remove_tool name a) n = source_of a n"
  by (simp_all add: remove_tool_def tool_of_def source_of_def delete_conv')

lemma forget_tool_lookup [simp]:
  "tool_of (forget_tool name a) n = (if n = name then None else tool_of a n)"
  "source_of (forget_tool name a) n = (if n = name then None else source_of a n)"
  by (simp_all add: forget_tool_def remove_tool_def tool_of_def source_of_def delete_conv')

lemma well_keyed_removed:
  assumes "well_keyed a"
  shows "well_keyed (remove_tool name a)" "well_keyed (forget_tool name a)"
  using assms by (simp_all add: well_keyed_def remove_tool_def forget_tool_def distinct_delete)

lemma forget_tool_wf: "wf_app_tools a \<Longrightarrow> wf_app_tools (forget_tool name a)"
  using well_keyed_removed(2) unfolding wf_app_tools_lookup by (simp split: if_splits)

lemma forget_stale:
  assumes "wf_app_tools a"
  shows "wf_app_tools (fold (\<lambda>name a. if map_of desired name = None then forget_tool name a else a) names a) \<and>
    source_of (fold (\<lambda>name a. if map_of desired name = None then forget_tool name a else a) names a) n =
      (if n \<in> set names \<and> map_of desired n = None then None else source_of a n) \<and>
    tool_of (fold (\<lambda>name a. if map_of desired name = None then forget_tool name a else a) names a) n =
      (if n \<in> set names \<and> map_of desired n = None then None else tool_of a n)"
  using assms
proof (induction names arbitrary: a)
  case (Cons name names)
  let ?a = "if map_of desired name = None then forget_tool name a else a"
  have "wf_app_tools ?a" using Cons.prems by (simp add: forget_tool_wf)
  from Cons.IH [OF this] show ?case by (cases "n = name"; cases "map_of desired name") auto
qed simp

lemma drop_stale_tools_lookup:
  assumes "wf_app_tools a"
  shows "wf_app_tools (drop_stale_tools desired a)"
    and "source_of (drop_stale_tools desired a) n = (if map_of desired n = None then None else source_of a n)"
    and "tool_of (drop_stale_tools desired a) n =
      (if map_of desired n = None \<and> source_of a n \<noteq> None then None else tool_of a n)"
proof -
  have "n \<in> set (map fst (at_sources a)) \<longleftrightarrow> source_of a n \<noteq> None"
    by (simp add: source_of_def map_of_eq_None_iff)
  then show "wf_app_tools (drop_stale_tools desired a)"
    and "source_of (drop_stale_tools desired a) n = (if map_of desired n = None then None else source_of a n)"
    and "tool_of (drop_stale_tools desired a) n =
      (if map_of desired n = None \<and> source_of a n \<noteq> None then None else tool_of a n)"
    using forget_stale [OF assms, of desired "map fst (at_sources a)" n] unfolding drop_stale_tools_def
    by (cases "source_of a n"; cases "map_of desired n"; simp)+
qed

text \<open>Registering one tool of a server under a free name.\<close>

lemma register_one_mcp:
  assumes "approval_ready ts" and "ms_enabled server" and "map_of (tool_registry ts) (registered_name server t) = None"
  shows "\<exists>d. add_mcp_provider p (Some (register_mcp schema_of ids (server\<lparr>ms_tools := [t]\<rparr>))) ts =
      (Inr (), ts\<lparr>tool_registry := tool_registry ts @ [(registered_name server t, d)]\<rparr>) \<and>
    td_tool_type d = ''mcp'' \<and> td_args_mode d = Raw \<and> td_pre_guards d = [approval_guard_def]"
proof -
  let ?name = "registered_name server t"
  let ?server = "server\<lparr>ms_tools := [t]\<rparr>"
  let ?d = "\<lparr>td_schema = [(''name'', PStr ?name), (''description'', PStr (mcp_tool_description ?server t)),
      (''input_schema'', PDict (mt_input_schema t))],
    td_tool_type = ''mcp'', td_fn = mcp_runner (ids ?name), td_pre_guards = [approval_guard_def],
    td_post_guards = [], td_args_mode = Raw\<rparr>"
  have name: "registered_name ?server t = ?name"
    by (simp add: registered_name_def public_tool_name_def split: option.splits list.splits)
  have refs: "resolve_guard_refs [GuardName ''mutating_tool_approval''] [] ts = (Inr [approval_guard_def], ts)"
    by (rule resolve_approval_ref [OF assms(1)]) simp
  have one: "add_dynamic_tool schema_of ?name (mcp_tool_description ?server t) (mt_input_schema t) (PStr ''mcp'')
      (mcp_runner (ids ?name)) [GuardName ''mutating_tool_approval''] [] ts =
    (Inr (), ts\<lparr>tool_registry := tool_registry ts @ [(?name, ?d)]\<rparr>)"
    unfolding add_dynamic_tool_def op_bind_def refs using assms(3)
    by (simp add: register_tool_def normalize_tool_category_def op_return_def update_new)
  then have "add_mcp_provider p (Some (register_mcp schema_of ids ?server)) ts =
      (Inr (), ts\<lparr>tool_registry := tool_registry ts @ [(?name, ?d)]\<rparr>)"
    using assms(2) by (simp add: add_mcp_provider_def register_mcp_def Let_def op_bind_def op_return_def name)
  then show ?thesis by (intro exI [of _ ?d]) simp
qed

lemma sync_mcp_tool_run:
  assumes wf: "wf_app_tools a" and item: "desired_item (name, server, t, source)"
  obtains a' where "sync_mcp_tool schema_of ids (name, server, t, source) a = (Inr (), a')" "wf_app_tools a'"
    "\<And>n. source_of a' n = (if n = name \<and> \<not> builtin a name then Some source else source_of a n)"
    "\<And>n. n \<noteq> name \<or> builtin a name \<Longrightarrow> tool_of a' n = tool_of a n"
    "tool_of a' name \<noteq> None"
proof (cases "source_of a name = Some source \<or> builtin a name")
  case True
  moreover have "source_of a name = Some source \<Longrightarrow> tool_of a name \<noteq> None"
    using wf unfolding wf_app_tools_lookup by fastforce
  ultimately show thesis using wf
    by (intro that [of a]) (auto simp: sync_mcp_tool_def builtin_def tool_of_def source_of_def)
next
  case False
  let ?r = "at_tools (remove_tool name a)"
  have reg: "name = registered_name server t" "ms_enabled server" using item by (simp_all add: desired_item_def)
  have keyed: "well_keyed (remove_tool name a)"
    using wf well_keyed_removed(1) by (simp add: wf_app_tools_lookup)
  have looks: "map_of (tool_registry ?r) n = (if n = name then None else tool_of a n)" for n
    using remove_tool_lookup(1) [of name a n] by (simp only: tool_of_def)
  have ready: "approval_ready ?r"
    using keyed wf unfolding approval_ready_def looks by (simp add: well_keyed_def wf_app_tools_lookup)
  obtain d where d: "add_mcp_provider ''HttpMcpProvider'' (Some (register_mcp schema_of ids (server\<lparr>ms_tools := [t]\<rparr>))) ?r
      = (Inr (), ?r\<lparr>tool_registry := tool_registry ?r @ [(name, d)]\<rparr>)"
    "td_tool_type d = ''mcp''" "td_args_mode d = Raw" "td_pre_guards d = [approval_guard_def]"
    using register_one_mcp [OF ready reg(2), of t "''HttpMcpProvider''" schema_of ids] looks [of name]
    by (auto simp: reg(1))
  let ?a' = "(remove_tool name a)\<lparr>at_tools := ?r\<lparr>tool_registry := tool_registry ?r @ [(name, d)]\<rparr>,
    at_sources := AList.update name source (at_sources a)\<rparr>"
  have tools: "tool_of ?a' n = (if n = name then Some d else tool_of a n)" for n
  proof -
    have "tool_of ?a' n = (case map_of (tool_registry ?r) n of Some t \<Rightarrow> Some t | None \<Rightarrow> if n = name then Some d else None)"
      by (simp add: tool_of_def map_add_def split: option.splits)
    also have "\<dots> = (if n = name then Some d else tool_of a n)"
      unfolding looks by (cases "tool_of a n") simp_all
    finally show ?thesis .
  qed
  have sources: "source_of ?a' n = (if n = name then Some source else source_of a n)" for n
    by (simp add: source_of_def update_conv')
  have "name \<notin> fst ` set (tool_registry ?r)" using looks [of name] by (simp add: map_of_eq_None_iff)
  then have keyed': "well_keyed ?a'"
    using keyed by (simp add: well_keyed_def distinct_update remove_tool_def)
  show thesis
  proof (rule that [of ?a'])
    show "sync_mcp_tool schema_of ids (name, server, t, source) a = (Inr (), ?a')"
      using False d(1) by (auto simp: sync_mcp_tool_def builtin_def tool_of_def source_of_def on_tools_def op_bind_def
          remove_tool_def)
    show "source_of ?a' n = (if n = name \<and> \<not> builtin a name then Some source else source_of a n)" for n
      using False by (simp only: sources) simp
    show "n \<noteq> name \<or> builtin a name \<Longrightarrow> tool_of ?a' n = tool_of a n" for n
      using False by (simp only: tools) auto
    show "tool_of ?a' name \<noteq> None" by (simp only: tools) simp
    have "asks_first d" by (simp add: asks_first_def d(4))
    then show "wf_app_tools ?a'"
      using wf keyed' d(2,3) unfolding wf_app_tools_lookup tools sources by simp
  qed
qed

lemma sync_each_run:
  assumes "wf_app_tools a" and "list_all desired_item ds" and "distinct (map fst ds)"
  obtains a' where "sync_each schema_of ids ds a = (Inr (), a')" "wf_app_tools a'"
    "\<And>n. source_of a' n = (if builtin a n then None
       else case source_in ds n of Some source \<Rightarrow> Some source | None \<Rightarrow> source_of a n)"
    "\<And>n. source_in ds n = None \<or> builtin a n \<Longrightarrow> tool_of a' n = tool_of a n"
    "\<And>n. source_in ds n \<noteq> None \<Longrightarrow> tool_of a' n \<noteq> None"
  using assms
proof (induction ds arbitrary: a thesis)
  case Nil
  have "source_of a n = (if builtin a n then None else source_of a n)" for n
    by (simp add: builtin_def)
  with Nil.prems(2) show ?case
    by (intro Nil.prems(1) [of a]) (simp_all only: sync_each.simps op_return_def source_in_def map_of.simps
        option.map option.case simp_thms)
next
  case (Cons item ds)
  obtain name server t source where item: "item = (name, server, t, source)" by (cases item) auto
  have "desired_item (name, server, t, source)" using Cons.prems(3) by (simp add: item)
  then obtain b where b: "sync_mcp_tool schema_of ids item a = (Inr (), b)" "wf_app_tools b"
    "\<And>n. source_of b n = (if n = name \<and> \<not> builtin a name then Some source else source_of a n)"
    "\<And>n. n \<noteq> name \<or> builtin a name \<Longrightarrow> tool_of b n = tool_of a n"
    "tool_of b name \<noteq> None"
    using sync_mcp_tool_run [OF Cons.prems(2), of name server t source schema_of ids] unfolding item by blast
  have same: "builtin b n = builtin a n" for n
  proof (cases "n = name \<and> \<not> builtin a name")
    case True
    then have "source_of b n = Some source" by (simp only: b(3) simp_thms if_True)
    with True show ?thesis unfolding builtin_def [of b] by simp
  next
    case False
    then have "source_of b n = source_of a n" "tool_of b n = tool_of a n"
      using b(4) [of n] by (simp only: b(3) if_False, blast)
    then show ?thesis by (simp only: builtin_def)
  qed
  have ds: "list_all desired_item ds" "distinct (map fst ds)" using Cons.prems(3,4) by simp_all
  obtain a' where a': "sync_each schema_of ids ds b = (Inr (), a')" "wf_app_tools a'"
    "\<And>n. source_of a' n = (if builtin b n then None
       else case source_in ds n of Some source \<Rightarrow> Some source | None \<Rightarrow> source_of b n)"
    "\<And>n. source_in ds n = None \<or> builtin b n \<Longrightarrow> tool_of a' n = tool_of b n"
    "\<And>n. source_in ds n \<noteq> None \<Longrightarrow> tool_of a' n \<noteq> None"
    using Cons.IH [OF _ b(2) ds] by metis
  have fresh: "source_in ds name = None"
    using Cons.prems(4) by (simp add: item source_in_def map_of_eq_None_iff)
  have first: "source_in (item # ds) n = (if n = name then Some source else source_in ds n)" for n
    by (simp add: item source_in_def)
  show ?case
  proof (rule Cons.prems(1) [of a'])
    show "sync_each schema_of ids (item # ds) a = (Inr (), a')" by (simp add: op_bind_def b(1) a'(1))
    show "wf_app_tools a'" by (rule a'(2))
    show "source_of a' n = (if builtin a n then None
        else case source_in (item # ds) n of Some source \<Rightarrow> Some source | None \<Rightarrow> source_of a n)" for n
      by (cases "n = name"; cases "builtin a n"; simp add: a'(3) same b(3) first fresh split: option.split)
    show "source_in (item # ds) n = None \<or> builtin a n \<Longrightarrow> tool_of a' n = tool_of a n" for n
      using a'(4) [of n] b(4) [of n] same [of n] by (cases "n = name") (auto simp: first)
    show "source_in (item # ds) n \<noteq> None \<Longrightarrow> tool_of a' n \<noteq> None" for n
      using a'(4,5) [of n] b(5) fresh by (cases "n = name") (auto simp: first)
  qed
qed

section \<open>The properties\<close>

lemma sync_mcp_tools_run:
  assumes "wf_app_tools a"
  obtains a' where "sync_mcp_tools schema_of ids servers a = (Inr (), a')" "wf_app_tools a'"
    "\<And>n. builtin a n \<Longrightarrow> tool_of a' n = tool_of a n \<and> source_of a' n = None"
    "\<And>n. \<not> builtin a n \<Longrightarrow> source_of a' n = source_in (desired_tools servers) n \<and>
      (tool_of a' n = None \<longleftrightarrow> source_in (desired_tools servers) n = None)"
proof -
  let ?ds = "desired_tools servers"
  let ?b = "drop_stale_tools ?ds a"
  note b = drop_stale_tools_lookup [OF assms, of ?ds]
  obtain a' where a': "sync_each schema_of ids ?ds ?b = (Inr (), a')" "wf_app_tools a'"
    "\<And>n. source_of a' n = (if builtin ?b n then None
       else case source_in ?ds n of Some source \<Rightarrow> Some source | None \<Rightarrow> source_of ?b n)"
    "\<And>n. source_in ?ds n = None \<or> builtin ?b n \<Longrightarrow> tool_of a' n = tool_of ?b n"
    "\<And>n. source_in ?ds n \<noteq> None \<Longrightarrow> tool_of a' n \<noteq> None"
    using sync_each_run [OF b(1) conjunct1 [OF desired_tools_items] conjunct2 [OF desired_tools_items], of schema_of ids]
    by blast
  have desired: "source_in ?ds n = None \<longleftrightarrow> map_of ?ds n = None" for n by (simp add: source_in_def)
  have tools: "source_of a n \<noteq> None \<Longrightarrow> tool_of a n \<noteq> None" for n
    using assms unfolding wf_app_tools_lookup by (cases "source_of a n") (simp, fastforce)
  have same: "builtin ?b n = builtin a n" for n
    using tools [of n] unfolding builtin_def b(2,3)
    by (cases "map_of ?ds n"; cases "source_of a n"; simp del: split_paired_Ex split_paired_All not_None_eq)
  show thesis
  proof (rule that [of a'])
    show "sync_mcp_tools schema_of ids servers a = (Inr (), a')" by (simp only: sync_mcp_tools_def a'(1))
    show "wf_app_tools a'" by (rule a'(2))
    show "tool_of a' n = tool_of a n \<and> source_of a' n = None" if "builtin a n" for n
      using that a'(3,4) [of n] same [of n] b(3) [of n] by (simp add: builtin_def)
    show "source_of a' n = source_in ?ds n \<and> (tool_of a' n = None \<longleftrightarrow> source_in ?ds n = None)"
      if "\<not> builtin a n" for n
    proof (cases "source_in ?ds n")
      case None
      then have "source_of a' n = None" and "tool_of a' n = tool_of ?b n" and "map_of ?ds n = None"
        using that a'(3) [of n] a'(4) [of n] same [of n] b(2) [of n] desired [of n] by simp_all
      moreover have "tool_of ?b n = None"
        using that \<open>map_of ?ds n = None\<close> unfolding b(3) builtin_def by auto
      ultimately show ?thesis using None by simp
    next
      case (Some source)
      then show ?thesis using that a'(3,5) [of n] same [of n] by simp
    qed
  qed
qed

text \<open>
  What the connected servers offer: every tool of every enabled server, in the order of the servers and of their tools,
  under its public name (the one it declares, or else the one made of the prefix of the server and its name), with where
  it comes from.
\<close>

definition offered_name :: "mcp_server_config \<Rightarrow> mcp_tool_config \<Rightarrow> string" where
  "offered_name server t =
     (if mt_public_name t = None \<or> mt_public_name t = Some [] then public_mcp_tool_name (ms_tool_prefix server) (mt_name t)
      else the (mt_public_name t))"

definition offers :: "mcp_server_config list \<Rightarrow> (string \<times> mcp_source) list" where
  "offers servers = concat (map (\<lambda>server. map (\<lambda>t. (offered_name server t,
       (ms_server_id server, ms_server_url server, ms_auth_ref server, mt_name t))) (ms_tools server))
     (filter ms_enabled servers))"

lemma offered_name_registered: "registered_name server t = offered_name server t"
  by (auto simp: registered_name_def offered_name_def public_tool_name_def split: option.splits list.splits)

lemma add_desired_tools_source:
  "source_in (fold (add_desired_tool server) ts ds) n =
     (case source_in ds n of Some source \<Rightarrow> Some source
      | None \<Rightarrow> map_of (map (\<lambda>t. (offered_name server t,
          (ms_server_id server, ms_server_url server, ms_auth_ref server, mt_name t))) ts) n)"
proof (induction ts arbitrary: ds)
  case (Cons t ts)
  have "source_in (add_desired_tool server t ds) n =
      (case source_in ds n of Some source \<Rightarrow> Some source
       | None \<Rightarrow> if n = offered_name server t
           then Some (ms_server_id server, ms_server_url server, ms_auth_ref server, mt_name t) else None)"
    by (auto simp: add_desired_tool_def offered_name_registered Let_def source_in_def map_add_def split: option.splits)
  with Cons.IH show ?case by (auto split: option.splits)
qed (simp split: option.split)

lemma desired_tools_source: "source_in (desired_tools servers) n = map_of (offers servers) n"
proof -
  have "source_in (fold (\<lambda>server desired. if \<not> ms_enabled server then desired
      else fold (add_desired_tool server) (ms_tools server) desired) servers ds) n =
    (case source_in ds n of Some source \<Rightarrow> Some source | None \<Rightarrow> map_of (offers servers) n)" for ds
    by (induction servers arbitrary: ds)
      (auto simp: offers_def add_desired_tools_source map_add_def split: option.splits)
  from this [of "[]"] show ?thesis by (simp add: desired_tools_def source_in_def)
qed

text \<open>
  C18. The MCP tools of a chat follow the connected servers and never touch the tools of the
  application: bringing the tool set up to date never fails; a tool of the application keeps its
  definition, whatever a server calls its tools; any other name is registered exactly when some
  enabled server has a tool of that public name, and its source is the first such tool in the order
  of the servers and their tools; and every tool that is not read-only still asks for approval.
\<close>

theorem mcp_tools_follow_servers:
  assumes "wf_app_tools a" and "sync_mcp_tools schema_of ids servers a = (r, a')"
  shows "r = Inr () \<and> wf_app_tools a' \<and>
    (\<forall>name. builtin a name \<longrightarrow> builtin a' name \<and> tool_of a' name = tool_of a name) \<and>
    (\<forall>name. \<not> builtin a name \<longrightarrow> source_of a' name = map_of (offers servers) name \<and>
       (tool_of a' name \<noteq> None \<longleftrightarrow>
          (\<exists>server \<in> set servers. ms_enabled server \<and> (\<exists>t \<in> set (ms_tools server). offered_name server t = name))))"
proof -
  have offered: "map_of (offers servers) name \<noteq> None \<longleftrightarrow>
      (\<exists>server \<in> set servers. ms_enabled server \<and> (\<exists>t \<in> set (ms_tools server). offered_name server t = name))" for name
  proof -
    have "fst ` set (offers servers) = {name. \<exists>server \<in> set servers. ms_enabled server \<and>
        (\<exists>t \<in> set (ms_tools server). offered_name server t = name)}"
      unfolding offers_def by (force simp: image_iff)
    then show ?thesis by (simp add: map_of_eq_None_iff del: not_None_eq)
  qed
  obtain a1 where run: "sync_mcp_tools schema_of ids servers a = (Inr (), a1)" "wf_app_tools a1"
    "\<And>n. builtin a n \<Longrightarrow> tool_of a1 n = tool_of a n \<and> source_of a1 n = None"
    "\<And>n. \<not> builtin a n \<Longrightarrow> source_of a1 n = source_in (desired_tools servers) n \<and>
      (tool_of a1 n = None \<longleftrightarrow> source_in (desired_tools servers) n = None)"
    using sync_mcp_tools_run [OF assms(1), of schema_of ids servers] by blast
  have "r = Inr ()" "a' = a1" using assms(2) run(1) by simp_all
  then show ?thesis using run(2-4) unfolding desired_tools_source offered [symmetric] builtin_def [of a'] by (auto simp: builtin_def)
qed

lemma guards_pass_approval:
  assumes "guards_pass (chat_guards request other) Pre name ty stream_id options [approval_guard_def] s s'"
  shows "\<exists>ask decision world. request = Some ask \<and> ask name (cs_args s) (cs_world s) = (Inr decision, world) \<and>
    decision \<in> {''allow'', ''always_allow''}"
proof -
  let ?ctx = "context_for_guard approval_guard_def Pre name ty stream_id options s"
  have args: "kwargs_for_guard approval_guard_fn ?ctx = Inr [(''ctx'', Injected ?ctx)]"
    by (simp add: kwargs_for_guard_def bind_keyword_arguments_def approval_guard_fn_def param_def
        bind_parameters.simps Let_def)
  have fn: "gd_fn approval_guard_def = approval_guard_fn" by (simp add: approval_guard_def_def)
  from assms obtain res s1 where
    call: "call_guard (chat_guards request other) (gd_fn approval_guard_def) ?ctx s = (Inr res, s1)" and "gr_passed res"
    by auto
  then have "require_mutating_approval request ?ctx s = (Inr res, s1)"
    by (auto simp: call_guard_def fn args chat_guards_def op_bind_def op_lift_def op_return_def
        split: sum.splits prod.splits guard_return.splits)
  with \<open>gr_passed res\<close> show ?thesis
    by (auto simp: require_mutating_approval_def approval_result_def approval_refused_def context_for_guard_def
        split: option.splits prod.splits sum.splits if_splits)
qed

text \<open>
  C5. What changes something runs only when the user approved it: if the outcome of a call depends
  on what the function of a tool that is not read-only does, then the tool is available in this
  chat, the request for approval of this very call was made, with the arguments the model gave, and
  the answer was allow or always allow.
\<close>

theorem mutating_tool_needs_approval:
  assumes "wf_app_tools a" and "sync_mcp_tools schema_of ids servers a = (Inr (), a')"
    and "tool_of a' name = Some t" and "td_tool_type t \<in> {''mutating'', ''mcp'', ''admin''}"
    and "app_execute_tool schema_of ids servers available (chat_guards request other) run_tool name args
        stream_id call_id options (a, world)
      \<noteq> app_execute_tool schema_of ids servers available (chat_guards request other) run_tool' name args
        stream_id call_id options (a, world)"
  shows "name \<in> available \<and> (\<exists>ask decision world'. request = Some ask \<and>
    ask name args world = (Inr decision, world') \<and> decision \<in> {''allow'', ''always_allow''})"
proof -
  let ?options = "case options of None \<Rightarrow> DEFAULT_ACTIVITY_OPTIONS | Some own \<Rightarrow> own"
  have available: "name \<in> available"
  proof (rule ccontr)
    assume "name \<notin> available"
    with assms(2,5) show False by (simp add: app_execute_tool_def)
  qed
  have "wf_app_tools a'"
    using sync_mcp_tools_run [OF assms(1), of schema_of ids servers] assms(2) by (metis Pair_inject)
  with assms(3,4) have guards: "td_pre_guards t = [approval_guard_def]"
    unfolding wf_app_tools_lookup asks_first_def protected_types_def by blast
  have tool: "get_tool (at_tools a') name = Inr t"
    using assms(3) by (simp add: get_tool_def tool_of_def)
  have "run_between_guards (chat_guards request other) run_tool t name stream_id call_id ?options (call_start args world)
      \<noteq> run_between_guards (chat_guards request other) run_tool' t name stream_id call_id ?options (call_start args world)"
    using assms(5) available assms(2)
    by (auto simp: app_execute_tool_def execute_tool_def tool call_start_def split: sum.splits prod.splits)
  then obtain s' where "guards_pass (chat_guards request other) Pre name (td_tool_type t) stream_id ?options
      (td_pre_guards t) (call_start args world) s'"
    using blocked_before_tool by blast
  from guards_pass_approval [OF this [unfolded guards]] available show ?thesis by (simp add: call_start_def)
qed

section \<open>A chat with a server\<close>

definition sample_schema :: "string \<Rightarrow> model_fields \<Rightarrow> pydict res" where
  "sample_schema name inputs = Inr [(''title'', PStr name)]"

definition sandbox_def :: tool_def where
  "sandbox_def = \<lparr>td_schema = [(''name'', PStr ''python_sandbox'')], td_tool_type = ''mutating'',
     td_fn = python_sandbox_tool, td_pre_guards = [approval_guard_def], td_post_guards = [], td_args_mode = Signature\<rparr>"

text \<open>The tool set of the chat, cut down to one tool.\<close>

definition sample_app_tools :: app_tool_set where
  "sample_app_tools = \<lparr>at_tools = \<lparr>tool_registry = [(''python_sandbox'', sandbox_def)],
     ts_guards = \<lparr>guard_registry = [(''mutating_tool_approval'', approval_guard_def)],
       guard_functions = [(approval_guard_fn, approval_guard_def)], gs_guard_policy = default_guard_policy\<rparr>\<rparr>,
     at_sources = []\<rparr>"

lemma sample_app_tools_wf: "wf_app_tools sample_app_tools"
  by (simp add: wf_app_tools_def approval_ready_def sample_app_tools_def sandbox_def_def asks_first_def)

text \<open>The whole tool set can be built.\<close>

lemma build_tools_succeeds: "(case build_tools sample_schema of Inr a \<Rightarrow> True | Inl _ \<Rightarrow> False)"
  by code_simp

definition sample_server :: mcp_server_config where
  "sample_server = \<lparr>ms_server_id = ''s'', ms_label = ''Docs'', ms_server_url = ''https://docs'', ms_tool_prefix = ''docs'',
     ms_auth_ref = None, ms_auth_mode = ''none'', ms_enabled = True,
     ms_tools = [\<lparr>mt_name = ''search'', mt_description = [], mt_input_schema = [], mt_public_name = None\<rparr>,
       \<lparr>mt_name = ''run'', mt_description = [], mt_input_schema = [], mt_public_name = Some ''python_sandbox''\<rparr>]\<rparr>"

definition sample_ids :: "string \<Rightarrow> nat" where
  "sample_ids name = 1000"

lemma sample_desired:
  "map_of (offers [sample_server]) ''docs__search'' = Some (''s'', ''https://docs'', None, ''search'')"
  "tool_of sample_app_tools ''docs__search'' = None"
  "(case tool_of sample_app_tools ''python_sandbox'' of None \<Rightarrow> False | Some t \<Rightarrow> td_tool_type t = ''mutating'')"
  "source_of sample_app_tools ''python_sandbox'' = None"
  by code_simp+

theorem mcp_tools_follow_servers_witness:
  "\<exists>a'. sync_mcp_tools sample_schema sample_ids [sample_server] sample_app_tools = (Inr (), a') \<and>
     source_of a' ''docs__search'' = Some (''s'', ''https://docs'', None, ''search'') \<and>
     tool_of a' ''python_sandbox'' = tool_of sample_app_tools ''python_sandbox''"
proof -
  obtain r a' where run: "sync_mcp_tools sample_schema sample_ids [sample_server] sample_app_tools = (r, a')"
    by fastforce
  have "builtin sample_app_tools ''python_sandbox''" "\<not> builtin sample_app_tools ''docs__search''"
    using sample_desired by (auto simp: builtin_def split: option.splits)
  with mcp_tools_follow_servers [OF sample_app_tools_wf run] run sample_desired(1) show ?thesis by auto
qed

definition approve_all :: "nat approval_request" where
  "approve_all name args world = (Inr ''allow'', world + 10)"

lemma approved_outcome:
  "snd (snd (app_execute_tool sample_schema sample_ids [sample_server] {''python_sandbox''}
     (chat_guards (Some approve_all) (verdict True)) (counting 1) ''python_sandbox'' [(''code'', PStr ''1'')]
     None None None (sample_app_tools, 0))) = 11"
  "snd (snd (app_execute_tool sample_schema sample_ids [sample_server] {''python_sandbox''}
     (chat_guards (Some approve_all) (verdict True)) (counting 2) ''python_sandbox'' [(''code'', PStr ''1'')]
     None None None (sample_app_tools, 0))) = 12"
  by code_simp+

theorem mutating_tool_needs_approval_witness:
  "\<exists>decision world'. approve_all ''python_sandbox'' [(''code'', PStr ''1'')] 0 = (Inr decision, world') \<and>
     decision \<in> {''allow'', ''always_allow''}"
proof -
  obtain a' where a': "sync_mcp_tools sample_schema sample_ids [sample_server] sample_app_tools = (Inr (), a')"
    "\<And>n. builtin sample_app_tools n \<Longrightarrow> tool_of a' n = tool_of sample_app_tools n \<and> source_of a' n = None"
    using sync_mcp_tools_run [OF sample_app_tools_wf, of sample_schema sample_ids "[sample_server]"] by metis
  obtain t where t: "tool_of sample_app_tools ''python_sandbox'' = Some t" "td_tool_type t = ''mutating''"
    using sample_desired(3) by (auto split: option.splits)
  then have tool: "tool_of a' ''python_sandbox'' = Some t"
    using a'(2) [of "''python_sandbox''"] sample_desired(4) by (simp add: builtin_def)
  have type: "td_tool_type t \<in> {''mutating'', ''mcp'', ''admin''}" using t(2) by simp
  have differ: "app_execute_tool sample_schema sample_ids [sample_server] {''python_sandbox''}
      (chat_guards (Some approve_all) (verdict True)) (counting 1) ''python_sandbox'' [(''code'', PStr ''1'')]
      None None None (sample_app_tools, 0)
    \<noteq> app_execute_tool sample_schema sample_ids [sample_server] {''python_sandbox''}
      (chat_guards (Some approve_all) (verdict True)) (counting 2) ''python_sandbox'' [(''code'', PStr ''1'')]
      None None None (sample_app_tools, 0)"
    (is "?one \<noteq> ?two")
  proof
    assume "?one = ?two"
    then have "snd (snd ?one) = snd (snd ?two)" by (rule arg_cong)
    with approved_outcome show False by simp
  qed
  show ?thesis
    using mutating_tool_needs_approval [OF sample_app_tools_wf a'(1) tool type differ] by simp
qed

end
