(* ===== verification/UserChats.thy ===== *)
theory UserChats
  imports ChatWorkflow StateMachine
begin

text \<open>
  \<open>simple_chat_agent/worker/user_chats_workflow.py\<close>: the registry of the chats, MCP servers and demo
  workspace of a user, and its state machine. The updates \<open>create_chat\<close> and \<open>delete_chat\<close> suspend
  while they talk to the chat, so each is a first part and what follows the wait; the machine
  interleaves them in any way.

  Points in time are microseconds, as in \<open>ChatWorkflow\<close>; the ISO texts the code compares are ordered
  like the times they stand for. The name of the default task queue, read from the environment, is an
  argument.
\<close>

section \<open>Data\<close>

definition USER_WORKFLOW_RUN_TTL :: int where
  "USER_WORKFLOW_RUN_TTL = 15 * 24 * 60 * 60 * 1000000"

datatype record_status = Active | Deleting

record chat_record =
  rc_workflow_id :: string
  rc_run_id :: string
  rc_title :: string
  rc_status :: record_status
  rc_created_at :: datetime
  rc_updated_at :: datetime
  rc_task_queue :: string

record demo_workspace_record =
  ud_control_workflow_id :: string
  ud_status :: string
  ud_workspace_id :: string
  ud_namespace :: string
  ud_host :: string
  ud_url :: string
  ud_task_queue :: string
  ud_updated_at :: "datetime option"

record user_chats_input =
  ui_user_id :: string
  ui_user_email :: string
  ui_search_attr_name :: string
  ui_chats :: "chat_record list"
  ui_mcp_servers :: "mcp_server_config list"
  ui_demo_workspace :: "demo_workspace_record option"
  ui_last_touched_at :: "datetime option"

record create_chat_request =
  cc_system_prompt :: string
  cc_model :: string
  cc_max_tokens :: int
  cc_max_turns :: int
  cc_max_context_tokens :: int
  cc_thinking :: "pydict option"
  cc_initial_message :: "string option"
  cc_available_tool_names :: "string list"
  cc_github_connection_id :: "string option"
  cc_mcp_servers :: "mcp_server_config list"
  cc_good_place_censor :: bool
  cc_task_queue :: string

record user_chats =
  uc_user_id :: string
  uc_user_email :: string
  uc_search_attr_name :: string
  uc_chats :: "(string \<times> chat_record) list"
  uc_mcp_servers :: "(string \<times> mcp_server_config) list"
  uc_demo_workspace :: "demo_workspace_record option"
  uc_run_started_at :: "datetime option"
  uc_last_touched_at :: "datetime option"
  uc_touched_this_run :: bool

definition UserChatsWorkflow :: user_chats where
  "UserChatsWorkflow =
     \<lparr>uc_user_id = [], uc_user_email = [], uc_search_attr_name = [], uc_chats = [], uc_mcp_servers = [],
      uc_demo_workspace = None, uc_run_started_at = None, uc_last_touched_at = None,
      uc_touched_this_run = False\<rparr>"

section \<open>Helpers\<close>

definition user_email_search_attributes :: "string \<Rightarrow> string \<Rightarrow> (string \<times> string) list option" where
  "user_email_search_attributes search_attr_name user_email =
     (if search_attr_name = [] \<or> user_email = [] then None else Some [(search_attr_name, user_email)])"

definition conversation_title :: "string \<Rightarrow> string" where
  "conversation_title msg =
     (let normalized = py_join '' '' (py_split_words msg) in
      if normalized = [] then ''New chat''
      else if length normalized \<le> 64 then normalized
      else take 61 normalized @ ''...'')"

definition is_missing_external_workflow :: "py_exn \<Rightarrow> bool" where
  "is_missing_external_workflow err =
     (case exn_kind err of
        ExcApplication ty _ \<Rightarrow>
          (let error_type = py_lower (case ty of None \<Rightarrow> [] | Some t \<Rightarrow> t);
               msg = py_lower (exn_str err)
           in py_contains ''notfound'' error_type \<or> py_contains ''not_found'' error_type \<or>
              py_contains ''not found'' msg \<or> py_contains ''already completed'' msg \<or>
              py_contains ''not running'' msg)
      | _ \<Rightarrow> False)"

text \<open>\<open>user_chats_workflow_id\<close>; the prefix comes from the environment.\<close>

definition user_chats_workflow_id :: "(string \<Rightarrow> string) \<Rightarrow> string \<Rightarrow> string \<Rightarrow> string" where
  "user_chats_workflow_id sha256 prefix user_id = prefix @ ''simple-chat-user-'' @ take 32 (sha256 user_id)"

section \<open>Operations\<close>

definition touch_registry :: "datetime \<Rightarrow> user_chats \<Rightarrow> user_chats" where
  "touch_registry now u = u\<lparr>uc_last_touched_at := Some now, uc_touched_this_run := True\<rparr>"

text \<open>The start of \<open>run\<close>; the dictionaries are built from the lists of the input.\<close>

definition keyed :: "('v \<Rightarrow> string) \<Rightarrow> 'v list \<Rightarrow> (string \<times> 'v) list" where
  "keyed key vs = fold (\<lambda>v. AList.update (key v) v) vs []"

definition start_registry :: "datetime \<Rightarrow> user_chats_input \<Rightarrow> user_chats \<Rightarrow> user_chats" where
  "start_registry now inp u =
     (let (touched_at, touched) = (case ui_last_touched_at inp of
            None \<Rightarrow> (now, True) | Some t \<Rightarrow> (t, t > now))
      in u\<lparr>uc_run_started_at := Some now, uc_last_touched_at := Some touched_at, uc_touched_this_run := touched,
           uc_user_id := ui_user_id inp, uc_user_email := ui_user_email inp,
           uc_search_attr_name := ui_search_attr_name inp,
           uc_chats := keyed rc_workflow_id (ui_chats inp),
           uc_mcp_servers := keyed ms_server_id (ui_mcp_servers inp),
           uc_demo_workspace := ui_demo_workspace inp\<rparr>)"

definition initial_message :: "create_chat_request \<Rightarrow> string" where
  "initial_message request = (case cc_initial_message request of None \<Rightarrow> [] | Some m \<Rightarrow> py_strip m)"

definition chat_id :: "string \<Rightarrow> string" where
  "chat_id uuid = ''simple-chat-'' @ uuid"

text \<open>\<open>create_chat\<close> up to the start of the chat: the input the chat is started with.\<close>

definition new_chat_input :: "datetime \<Rightarrow> string \<Rightarrow> create_chat_request \<Rightarrow> user_chats \<Rightarrow> simple_chat_input" where
  "new_chat_input now workflow_id request u =
     \<lparr>ci_user_ref = uc_user_id u, ci_conversation_id = workflow_id, ci_system_prompt = cc_system_prompt request,
      ci_model = cc_model request, ci_max_tokens = cc_max_tokens request,
      ci_max_context_tokens = cc_max_context_tokens request, ci_thinking = cc_thinking request,
      ci_max_turns = cc_max_turns request, ci_stream_id = Some workflow_id,
      ci_available_tool_names = cc_available_tool_names request,
      ci_github_connection_id = cc_github_connection_id request, ci_mcp_servers = cc_mcp_servers request,
      ci_agent_state = None, ci_agent_context_state = None,
      ci_pending_messages =
        (if initial_message request = [] then []
         else [\<lparr>qm_content = initial_message request, qm_transcript_index = 0, qm_attachments = [],
                qm_settle_after_revision = 0, qm_available_tool_names = None, qm_github_connection_id = None,
                qm_mcp_servers = None\<rparr>]),
      ci_active_message_index = None, ci_active_settle_after_revision = 0, ci_approval_memory = [],
      ci_approval_counter = 0, ci_good_place_censor = cc_good_place_censor request, ci_state_revision = 0,
      ci_transcript_revision = 0, ci_transcript_deltas = [], ci_last_touched_at = Some now\<rparr>"

definition create_chat_begin ::
  "string \<Rightarrow> datetime \<Rightarrow> string \<Rightarrow> create_chat_request \<Rightarrow> user_chats \<Rightarrow> (string \<times> simple_chat_input) \<times> user_chats" where
  "create_chat_begin TASK_QUEUE now uuid request u =
     (let u = touch_registry now u;
          task_queue = (if cc_task_queue request = [] then TASK_QUEUE else cc_task_queue request)
      in ((task_queue, new_chat_input now (chat_id uuid) request u), u))"

text \<open>What follows when the chat was started; without a run id the code stores the empty text.\<close>

definition create_chat_end ::
  "datetime \<Rightarrow> string \<Rightarrow> create_chat_request \<Rightarrow> string \<Rightarrow> string \<Rightarrow> user_chats \<Rightarrow> chat_record \<times> user_chats" where
  "create_chat_end now workflow_id request task_queue run_id u =
     (let r = \<lparr>rc_workflow_id = workflow_id, rc_run_id = run_id,
            rc_title = conversation_title (initial_message request), rc_status = Active,
            rc_created_at = now, rc_updated_at = now, rc_task_queue = task_queue\<rparr>
      in (r, u\<lparr>uc_chats := AList.update workflow_id r (uc_chats u)\<rparr>))"

definition touch_chat :: "datetime \<Rightarrow> string \<Rightarrow> string option \<Rightarrow> user_chats \<Rightarrow> chat_record option \<times> user_chats" where
  "touch_chat now workflow_id title u =
     (let u = touch_registry now u in
      case map_of (uc_chats u) workflow_id of
        None \<Rightarrow> (None, u)
      | Some r \<Rightarrow>
          (let updated = r\<lparr>rc_title := or_text title (rc_title r), rc_updated_at := now\<rparr>
           in (Some updated, u\<lparr>uc_chats := AList.update workflow_id updated (uc_chats u)\<rparr>)))"

definition drop_chat :: "string \<Rightarrow> user_chats \<Rightarrow> user_chats" where
  "drop_chat workflow_id u = u\<lparr>uc_chats := AList.delete workflow_id (uc_chats u)\<rparr>"

definition forget_chat :: "datetime \<Rightarrow> string \<Rightarrow> user_chats \<Rightarrow> user_chats" where
  "forget_chat now workflow_id u = drop_chat workflow_id (touch_registry now u)"

definition list_mcp_servers :: "user_chats \<Rightarrow> mcp_server_config list" where
  "list_mcp_servers u = sort_key ms_label (map snd (uc_mcp_servers u))"

definition upsert_mcp_server :: "datetime \<Rightarrow> mcp_server_config \<Rightarrow> user_chats \<Rightarrow> mcp_server_config list \<times> user_chats" where
  "upsert_mcp_server now server u =
     (let u = (touch_registry now u)\<lparr>uc_mcp_servers := AList.update (ms_server_id server) server (uc_mcp_servers u)\<rparr>
      in (list_mcp_servers u, u))"

definition delete_mcp_server :: "datetime \<Rightarrow> string \<Rightarrow> user_chats \<Rightarrow> mcp_server_config list \<times> user_chats" where
  "delete_mcp_server now server_id u =
     (let u = (touch_registry now u)\<lparr>uc_mcp_servers := AList.delete server_id (uc_mcp_servers u)\<rparr>
      in (list_mcp_servers u, u))"

text \<open>\<open>delete_chat\<close> up to its signal to the chat: whether there is one to delete.\<close>

definition delete_chat_begin :: "datetime \<Rightarrow> string \<Rightarrow> user_chats \<Rightarrow> bool \<times> user_chats" where
  "delete_chat_begin now workflow_id u =
     (let u = touch_registry now u in
      case map_of (uc_chats u) workflow_id of
        None \<Rightarrow> (False, u)
      | Some r \<Rightarrow> (True, u\<lparr>uc_chats := AList.update workflow_id
           (r\<lparr>rc_status := Deleting, rc_updated_at := now\<rparr>) (uc_chats u)\<rparr>))"

text \<open>What follows, given what signalling and cancelling the chat raised, if anything.\<close>

definition delete_chat_end :: "string \<Rightarrow> py_exn option \<Rightarrow> user_chats \<Rightarrow> unit res \<times> user_chats" where
  "delete_chat_end workflow_id err u =
     (case err of
        Some e \<Rightarrow> (if is_missing_external_workflow e then (Inr (), drop_chat workflow_id u) else (Inl e, u))
      | None \<Rightarrow> (Inr (), drop_chat workflow_id u))"

definition set_demo_workspace :: "datetime \<Rightarrow> demo_workspace_record \<Rightarrow> user_chats \<Rightarrow> user_chats" where
  "set_demo_workspace now r u =
     (touch_registry now u)\<lparr>uc_demo_workspace := Some (r\<lparr>ud_updated_at :=
        Some (case ud_updated_at r of None \<Rightarrow> now | Some t \<Rightarrow> t)\<rparr>)\<rparr>"

definition clear_demo_workspace :: "datetime \<Rightarrow> user_chats \<Rightarrow> user_chats" where
  "clear_demo_workspace now u = (touch_registry now u)\<lparr>uc_demo_workspace := None\<rparr>"

text \<open>\<open>sorted\<close> with \<open>reverse=True\<close> keeps the order of chats with the same time.\<close>

definition list_chats :: "user_chats \<Rightarrow> chat_record list" where
  "list_chats u = rev (sort_key rc_updated_at (rev (map snd (uc_chats u))))"

definition has_chat :: "string \<Rightarrow> user_chats \<Rightarrow> bool" where
  "has_chat workflow_id u = (map_of (uc_chats u) workflow_id \<noteq> None)"

definition registry_checkpoint_due :: "datetime \<Rightarrow> user_chats \<Rightarrow> bool" where
  "registry_checkpoint_due now u =
     (case uc_run_started_at u of None \<Rightarrow> False | Some t \<Rightarrow> now \<ge> t + USER_WORKFLOW_RUN_TTL)"

definition registry_time_until_checkpoint :: "datetime \<Rightarrow> user_chats \<Rightarrow> int" where
  "registry_time_until_checkpoint now u =
     (case uc_run_started_at u of
        None \<Rightarrow> USER_WORKFLOW_RUN_TTL
      | Some t \<Rightarrow> max (t + USER_WORKFLOW_RUN_TTL - now) 0)"

definition continue_registry_input :: "user_chats \<Rightarrow> user_chats_input" where
  "continue_registry_input u =
     \<lparr>ui_user_id = uc_user_id u, ui_user_email = uc_user_email u, ui_search_attr_name = uc_search_attr_name u,
      ui_chats = map snd (uc_chats u), ui_mcp_servers = map snd (uc_mcp_servers u),
      ui_demo_workspace = uc_demo_workspace u, ui_last_touched_at = uc_last_touched_at u\<rparr>"

text \<open>What a pass of the loop of \<open>run\<close> does.\<close>

datatype registry_outcome = KeepWaiting | NewRun | CloseRegistry

definition registry_pass :: "datetime \<Rightarrow> bool \<Rightarrow> bool \<Rightarrow> user_chats \<Rightarrow> registry_outcome" where
  "registry_pass now continue_suggested all_handlers_finished u =
     (if \<not> all_handlers_finished then KeepWaiting
      else if continue_suggested then NewRun
      else if registry_checkpoint_due now u then (if uc_touched_this_run u then NewRun else CloseRegistry)
      else KeepWaiting)"

text \<open>The chats \<open>_delete_all_chats\<close> signals, in order, and what it does at the end.\<close>

definition chats_to_delete :: "user_chats \<Rightarrow> string list" where
  "chats_to_delete u = map rc_workflow_id (filter (\<lambda>r. rc_status r = Active) (map snd (uc_chats u)))"

definition clear_chats :: "user_chats \<Rightarrow> user_chats" where
  "clear_chats u = u\<lparr>uc_chats := []\<rparr>"

section \<open>The machine\<close>

datatype registry_phase = RegistryNotStarted user_chats_input | RegistryOpen | RegistryClosing "string list" | RegistryClosed

record registry_system =
  ry_state :: user_chats
  ry_phase :: registry_phase
  ry_starting :: "(string \<times> create_chat_request \<times> string) list"
  ry_deleting :: "string list"
  ry_used :: "string set"
  ry_started :: "string set"
  ry_forgotten :: "string set"
  ry_told :: "string set"

text \<open>
  \<open>ry_starting\<close> and \<open>ry_deleting\<close> are the updates that wait; the last four fields are history: the
  identifiers drawn, the chats that were started, those the client asked to forget, and those that
  were told to end (or were found to have ended).
\<close>

datatype registry_event =
    OpenRegistry datetime
  | CreateChat datetime string create_chat_request
  | ChatStarted datetime string string
  | ChatStartFails string
  | TouchChat datetime string "string option"
  | ForgetChat datetime string
  | UpsertServer datetime mcp_server_config
  | DeleteServer datetime string
  | DeleteChat datetime string
  | ChatDeleted string "py_exn option"
  | SetWorkspace datetime demo_workspace_record
  | ClearWorkspace datetime
  | RegistryPass datetime bool
  | ClosingStep "py_exn option"

definition registry_begin :: "user_chats_input \<Rightarrow> registry_system" where
  "registry_begin inp =
     \<lparr>ry_state = UserChatsWorkflow, ry_phase = RegistryNotStarted inp, ry_starting = [], ry_deleting = [],
      ry_used = set (map rc_workflow_id (ui_chats inp)), ry_started = set (map rc_workflow_id (ui_chats inp)),
      ry_forgotten = {}, ry_told = {}\<rparr>"

definition handlers_finished :: "registry_system \<Rightarrow> bool" where
  "handlers_finished s = (ry_starting s = [] \<and> ry_deleting s = [])"

definition told_of :: "string \<Rightarrow> py_exn option \<Rightarrow> string set" where
  "told_of workflow_id err =
     (case err of None \<Rightarrow> {workflow_id} | Some e \<Rightarrow> if is_missing_external_workflow e then {workflow_id} else {})"

text \<open>
  The updates. They may come before \<open>run\<close> starts, as Temporal delivers them; the start of a chat is
  only reported afterwards.
\<close>

definition update_next :: "string \<Rightarrow> registry_event \<Rightarrow> registry_system \<Rightarrow> registry_system option" where
  "update_next TASK_QUEUE ev s =
     (let u = ry_state s in
      case ev of
        CreateChat now uuid request \<Rightarrow>
          (if chat_id uuid \<in> ry_used s then None
           else (let ((task_queue, _), u) = create_chat_begin TASK_QUEUE now uuid request u
                 in Some (s\<lparr>ry_state := u, ry_starting := (chat_id uuid, request, task_queue) # ry_starting s,
                           ry_used := insert (chat_id uuid) (ry_used s)\<rparr>)))
      | ChatStarted now workflow_id run_id \<Rightarrow>
          (case map_of (ry_starting s) workflow_id of
             None \<Rightarrow> None
           | Some (request, task_queue) \<Rightarrow>
               Some (s\<lparr>ry_state := snd (create_chat_end now workflow_id request task_queue run_id u),
                      ry_starting := AList.delete workflow_id (ry_starting s),
                      ry_started := insert workflow_id (ry_started s)\<rparr>))
      | ChatStartFails workflow_id \<Rightarrow> Some (s\<lparr>ry_starting := AList.delete workflow_id (ry_starting s)\<rparr>)
      | TouchChat now workflow_id title \<Rightarrow> Some (s\<lparr>ry_state := snd (touch_chat now workflow_id title u)\<rparr>)
      | ForgetChat now workflow_id \<Rightarrow>
          Some (s\<lparr>ry_state := forget_chat now workflow_id u, ry_forgotten := insert workflow_id (ry_forgotten s)\<rparr>)
      | UpsertServer now server \<Rightarrow> Some (s\<lparr>ry_state := snd (upsert_mcp_server now server u)\<rparr>)
      | DeleteServer now server_id \<Rightarrow> Some (s\<lparr>ry_state := snd (delete_mcp_server now server_id u)\<rparr>)
      | DeleteChat now workflow_id \<Rightarrow>
          (let (found, u) = delete_chat_begin now workflow_id u
           in Some (s\<lparr>ry_state := u, ry_deleting := (if found then [workflow_id] else []) @ ry_deleting s\<rparr>))
      | ChatDeleted workflow_id err \<Rightarrow>
          (if workflow_id \<notin> set (ry_deleting s) then None
           else Some (s\<lparr>ry_state := snd (delete_chat_end workflow_id err u),
                       ry_deleting := remove1 workflow_id (ry_deleting s),
                       ry_told := told_of workflow_id err \<union> ry_told s\<rparr>))
      | SetWorkspace now r \<Rightarrow> Some (s\<lparr>ry_state := set_demo_workspace now r u\<rparr>)
      | ClearWorkspace now \<Rightarrow> Some (s\<lparr>ry_state := clear_demo_workspace now u\<rparr>)
      | _ \<Rightarrow> None)"

definition registry_loop :: "datetime \<Rightarrow> bool \<Rightarrow> registry_system \<Rightarrow> registry_system" where
  "registry_loop now suggested s =
     (case registry_pass now suggested (handlers_finished s) (ry_state s) of
        KeepWaiting \<Rightarrow> s
      | NewRun \<Rightarrow> s\<lparr>ry_state := UserChatsWorkflow, ry_phase := RegistryNotStarted (continue_registry_input (ry_state s)),
                    ry_starting := [], ry_deleting := []\<rparr>
      | CloseRegistry \<Rightarrow> s\<lparr>ry_phase := RegistryClosing (chats_to_delete (ry_state s))\<rparr>)"

text \<open>
  One chat of \<open>_delete_all_chats\<close> was signalled and cancelled, or that raised; an exception other than
  of a chat that is gone leaves \<open>run\<close>. When none is left the registry is empty and closed.
\<close>

definition closing_next :: "py_exn option \<Rightarrow> string list \<Rightarrow> registry_system \<Rightarrow> registry_system" where
  "closing_next err ids s =
     (case ids of
        [] \<Rightarrow> s\<lparr>ry_state := clear_chats (ry_state s), ry_phase := RegistryClosed\<rparr>
      | i # ids \<Rightarrow>
          (if told_of i err = {} then s\<lparr>ry_phase := RegistryClosed\<rparr>
           else s\<lparr>ry_phase := RegistryClosing ids, ry_told := insert i (ry_told s)\<rparr>))"

definition registry_next :: "string \<Rightarrow> registry_event \<Rightarrow> registry_system \<Rightarrow> registry_system option" where
  "registry_next TASK_QUEUE ev s =
     (case (ry_phase s, ev) of
        (RegistryNotStarted inp, OpenRegistry now) \<Rightarrow>
          Some (s\<lparr>ry_state := start_registry now inp (ry_state s), ry_phase := RegistryOpen\<rparr>)
      | (RegistryOpen, RegistryPass now suggested) \<Rightarrow> Some (registry_loop now suggested s)
      | (RegistryClosing ids, ClosingStep err) \<Rightarrow> Some (closing_next err ids s)
      | (RegistryNotStarted inp, ChatStarted now workflow_id run_id) \<Rightarrow> None
      | (RegistryNotStarted inp, _) \<Rightarrow> update_next TASK_QUEUE ev s
      | (RegistryOpen, _) \<Rightarrow> update_next TASK_QUEUE ev s
      | (RegistryClosing _, _) \<Rightarrow> update_next TASK_QUEUE ev s
      | _ \<Rightarrow> None)"

inductive registry_step :: "string \<Rightarrow> registry_system \<Rightarrow> registry_system \<Rightarrow> bool" for TASK_QUEUE :: string where
  registry_step_event: "registry_next TASK_QUEUE ev s = Some t \<Longrightarrow> registry_step TASK_QUEUE s t"

fun registry_trace :: "string \<Rightarrow> registry_event list \<Rightarrow> registry_system \<Rightarrow> registry_system option" where
  "registry_trace TASK_QUEUE [] s = Some s"
| "registry_trace TASK_QUEUE (ev # evs) s =
     (case registry_next TASK_QUEUE ev s of
        None \<Rightarrow> None
      | Some t \<Rightarrow> registry_trace TASK_QUEUE evs t)"

definition registry_states :: "string \<Rightarrow> user_chats_input \<Rightarrow> registry_system \<Rightarrow> bool" where
  "registry_states TASK_QUEUE inp = reachable (\<lambda>s. s = registry_begin inp) (registry_step TASK_QUEUE)"

end
