(* ===== verification/UserChatsProperties.thy ===== *)
theory UserChatsProperties
  imports UserChats
begin

text \<open>
  What the registry of chats promises: it never loses track of a chat it started, and it is the same
  in the next run of its workflow.
\<close>

section \<open>Dictionaries by a key of their values\<close>

definition well_indexed :: "('v \<Rightarrow> string) \<Rightarrow> (string \<times> 'v) list \<Rightarrow> bool" where
  "well_indexed key kvs = (distinct (map fst kvs) \<and> (\<forall>(k, v) \<in> set kvs. key v = k))"

lemma set_delete: "p \<in> set (AList.delete k kvs) \<Longrightarrow> p \<in> set kvs"
  by (simp add: AList.delete_eq)

lemma set_update:
  "distinct (map fst kvs) \<Longrightarrow> set (AList.update k v kvs) = insert (k, v) {p \<in> set kvs. fst p \<noteq> k}"
  by (induction kvs) force+

lemma well_indexed_update [intro]:
  "well_indexed key kvs \<Longrightarrow> key v = k \<Longrightarrow> well_indexed key (AList.update k v kvs)"
  unfolding well_indexed_def by (auto simp: set_update distinct_update)

lemma well_indexed_delete [intro]: "well_indexed key kvs \<Longrightarrow> well_indexed key (AList.delete k kvs)"
  unfolding well_indexed_def by (auto simp: distinct_delete dest: set_delete)

lemma keyed_fold:
  "well_indexed key kvs \<Longrightarrow> well_indexed key (fold (\<lambda>v. AList.update (key v) v) vs kvs) \<and>
   fst ` set (fold (\<lambda>v. AList.update (key v) v) vs kvs) = fst ` set kvs \<union> key ` set vs"
proof (induction vs arbitrary: kvs)
  case (Cons v vs)
  have "well_indexed key (AList.update (key v) v kvs)" using Cons.prems by auto
  from Cons.IH [OF this] show ?case by (auto simp: dom_update)
qed simp

lemma keyed_well_indexed: "well_indexed key (keyed key vs)" "fst ` set (keyed key vs) = key ` set vs"
  using keyed_fold [of key "[]" vs] by (simp_all add: keyed_def well_indexed_def)

lemma keyed_values:
  assumes "well_indexed key kvs"
  shows "keyed key (map snd kvs) = kvs"
proof -
  have "fold (\<lambda>v. AList.update (key v) v) (map snd kvs) init = init @ kvs"
    if "well_indexed key kvs" "fst ` set init \<inter> fst ` set kvs = {}" for init
    using that
  proof (induction kvs arbitrary: init)
    case (Cons kv kvs)
    obtain k v where kv: "kv = (k, v)" by (cases kv)
    have "AList.update (key v) v init = init @ [(k, v)]"
      using Cons.prems by (auto simp: well_indexed_def kv update_fresh)
    moreover have "well_indexed key kvs" using Cons.prems by (simp add: well_indexed_def)
    moreover have "fst ` set (init @ [(k, v)]) \<inter> fst ` set kvs = {}"
      using Cons.prems by (auto simp: well_indexed_def kv)
    ultimately show ?case using Cons.IH [of "init @ [(k, v)]"] by (simp add: kv)
  qed simp
  from this [OF assms, of "[]"] show ?thesis by (simp add: keyed_def)
qed

section \<open>The invariant\<close>

text \<open>The chats the registry knows: before \<open>run\<close> starts, those of its input.\<close>

definition known_chats :: "registry_system \<Rightarrow> string set" where
  "known_chats s = (case ry_phase s of
     RegistryNotStarted inp \<Rightarrow> rc_workflow_id ` set (ui_chats inp)
   | _ \<Rightarrow> fst ` set (uc_chats (ry_state s)))"

definition indexed_ok :: "user_chats \<Rightarrow> bool" where
  "indexed_ok u = (well_indexed rc_workflow_id (uc_chats u) \<and> well_indexed ms_server_id (uc_mcp_servers u))"

definition tracked :: "registry_system \<Rightarrow> bool" where
  "tracked s = (ry_phase s \<noteq> RegistryClosed \<longrightarrow>
     ry_started s \<subseteq> known_chats s \<union> ry_forgotten s \<union> ry_told s)"

definition registry_inv :: "registry_system \<Rightarrow> bool" where
  "registry_inv s = (indexed_ok (ry_state s) \<and> tracked s)"

lemma indexed_ok_updates:
  assumes "indexed_ok u"
  shows "indexed_ok (touch_registry now u)" "indexed_ok (snd (create_chat_end now i r q rid u))"
    "indexed_ok (snd (touch_chat now i title u))" "indexed_ok (drop_chat i u)"
    "indexed_ok (forget_chat now i u)" "indexed_ok (snd (upsert_mcp_server now server u))"
    "indexed_ok (snd (delete_mcp_server now sid u))" "indexed_ok (snd (delete_chat_begin now i u))"
    "indexed_ok (snd (delete_chat_end i err u))" "indexed_ok (set_demo_workspace now ws u)"
    "indexed_ok (clear_demo_workspace now u)" "indexed_ok (snd (create_chat_begin q now uuid r u))"
proof -
  have looked: "rc_workflow_id r = i" if "map_of (uc_chats u) i = Some r" for r i
    using assms map_of_SomeD [OF that] by (auto simp: indexed_ok_def well_indexed_def)
  note ok = assms [unfolded indexed_ok_def]
  show touched: "indexed_ok (touch_registry now u)" using ok by (simp add: indexed_ok_def touch_registry_def)
  show "indexed_ok (snd (create_chat_end now i r q rid u))"
    using ok by (auto simp: indexed_ok_def create_chat_end_def Let_def)
  show "indexed_ok (snd (touch_chat now i title u))"
    using ok looked by (auto simp: indexed_ok_def touch_chat_def touch_registry_def Let_def split: option.splits)
  show "indexed_ok (drop_chat i u)" using ok by (auto simp: indexed_ok_def drop_chat_def)
  show "indexed_ok (forget_chat now i u)"
    using ok by (auto simp: indexed_ok_def forget_chat_def drop_chat_def touch_registry_def)
  show "indexed_ok (snd (upsert_mcp_server now server u))"
    using ok by (auto simp: indexed_ok_def upsert_mcp_server_def touch_registry_def Let_def)
  show "indexed_ok (snd (delete_mcp_server now sid u))"
    using ok by (auto simp: indexed_ok_def delete_mcp_server_def touch_registry_def Let_def)
  show "indexed_ok (snd (delete_chat_begin now i u))"
    using ok looked by (auto simp: indexed_ok_def delete_chat_begin_def touch_registry_def Let_def split: option.splits)
  show "indexed_ok (snd (delete_chat_end i err u))"
    using ok by (auto simp: indexed_ok_def delete_chat_end_def drop_chat_def split: option.splits)
  show "indexed_ok (set_demo_workspace now ws u)" "indexed_ok (clear_demo_workspace now u)"
    using touched by (simp_all add: indexed_ok_def set_demo_workspace_def clear_demo_workspace_def)
  show "indexed_ok (snd (create_chat_begin q now uuid r u))"
    using touched by (simp add: create_chat_begin_def Let_def)
qed

text \<open>The chats in the registry after an update.\<close>

lemma chats_after_updates:
  "fst ` set (uc_chats (touch_registry now u)) = fst ` set (uc_chats u)"
  "fst ` set (uc_chats (snd (create_chat_end now i r q rid u))) = insert i (fst ` set (uc_chats u))"
  "fst ` set (uc_chats (snd (touch_chat now i title u))) = fst ` set (uc_chats u)"
  "fst ` set (uc_chats (drop_chat i u)) = fst ` set (uc_chats u) - {i}"
  "fst ` set (uc_chats (forget_chat now i u)) = fst ` set (uc_chats u) - {i}"
  "fst ` set (uc_chats (snd (upsert_mcp_server now server u))) = fst ` set (uc_chats u)"
  "fst ` set (uc_chats (snd (delete_mcp_server now sid u))) = fst ` set (uc_chats u)"
  "fst ` set (uc_chats (snd (delete_chat_begin now i u))) = fst ` set (uc_chats u)"
  "fst ` set (uc_chats (snd (delete_chat_end i err u))) = fst ` set (uc_chats u) - told_of i err"
  "fst ` set (uc_chats (set_demo_workspace now ws u)) = fst ` set (uc_chats u)"
  "fst ` set (uc_chats (clear_demo_workspace now u)) = fst ` set (uc_chats u)"
  "fst ` set (uc_chats (snd (create_chat_begin q now uuid r u))) = fst ` set (uc_chats u)"
  by (auto simp: touch_registry_def create_chat_end_def touch_chat_def drop_chat_def forget_chat_def
      upsert_mcp_server_def delete_mcp_server_def delete_chat_begin_def delete_chat_end_def told_of_def
      set_demo_workspace_def clear_demo_workspace_def create_chat_begin_def Let_def dom_update AList.delete_eq
      map_of_eq_None_iff rev_image_eqI dest: map_of_SomeD split: option.splits)

text \<open>An update leaves the phase, and keeps the invariant of the state.\<close>

lemma update_next_phase: "update_next q ev s = Some t \<Longrightarrow> ry_phase t = ry_phase s"
  by (auto simp: update_next_def Let_def case_prod_beta split: registry_event.splits option.splits if_splits)

lemma update_next_indexed:
  "update_next q ev s = Some t \<Longrightarrow> indexed_ok (ry_state s) \<Longrightarrow> indexed_ok (ry_state t)"
  by (cases ev) (auto simp: update_next_def Let_def case_prod_beta indexed_ok_updates
      split: option.splits if_splits)

lemma update_next_tracked:
  assumes "update_next q ev s = Some t" "tracked s"
    and "\<And>inp now i r. ry_phase s = RegistryNotStarted inp \<Longrightarrow> ev \<noteq> ChatStarted now i r"
  shows "tracked t"
proof (cases "\<exists>inp. ry_phase s = RegistryNotStarted inp")
  case True
  then obtain inp where p: "ry_phase s = RegistryNotStarted inp" by blast
  have "ry_started t = ry_started s \<and> ry_forgotten s \<subseteq> ry_forgotten t \<and> ry_told s \<subseteq> ry_told t"
    using assms(1,3) p by (cases ev)
      (auto simp: update_next_def Let_def case_prod_beta split: option.splits if_splits)
  moreover have "known_chats t = known_chats s"
    using p update_next_phase [OF assms(1)] by (simp add: known_chats_def)
  ultimately show ?thesis
    using assms(2) update_next_phase [OF assms(1)] by (auto simp: tracked_def)
next
  case False
  then have open_phase: "known_chats v = fst ` set (uc_chats (ry_state v))" if "ry_phase v = ry_phase s" for v
    using that by (simp add: known_chats_def split: registry_phase.splits)
  show ?thesis
  proof (cases "ry_phase s = RegistryClosed")
    case True
    then show ?thesis using update_next_phase [OF assms(1)] by (simp add: tracked_def)
  next
    case False
    then have before: "ry_started s \<subseteq> fst ` set (uc_chats (ry_state s)) \<union> ry_forgotten s \<union> ry_told s"
      using assms(2) open_phase [of s] by (simp add: tracked_def)
    have "ry_started t \<subseteq> fst ` set (uc_chats (ry_state t)) \<union> ry_forgotten t \<union> ry_told t"
      using assms(1) before by (cases ev)
        (auto simp: update_next_def Let_def case_prod_beta chats_after_updates simp del: set_map
          split: option.splits if_splits)
    then show ?thesis
      using open_phase [of t] update_next_phase [OF assms(1)] by (simp add: tracked_def)
  qed
qed


text \<open>A pass of \<open>run\<close>, and a step of \<open>_delete_all_chats\<close>.\<close>

lemma registry_loop_inv:
  assumes "registry_inv s" "ry_phase s = RegistryOpen"
  shows "registry_inv (registry_loop now suggested s)"
proof (cases "registry_pass now suggested (handlers_finished s) (ry_state s)")
  case NewRun
  have "well_indexed rc_workflow_id (uc_chats (ry_state s))"
    using assms(1) by (simp add: registry_inv_def indexed_ok_def)
  then have "rc_workflow_id ` snd ` set (uc_chats (ry_state s)) = fst ` set (uc_chats (ry_state s))"
    by (force simp: well_indexed_def image_image intro!: image_cong)
  then show ?thesis
    using assms NewRun by (simp add: registry_inv_def registry_loop_def tracked_def known_chats_def
        continue_registry_input_def indexed_ok_def well_indexed_def UserChatsWorkflow_def)
qed (use assms in \<open>simp_all add: registry_inv_def registry_loop_def tracked_def known_chats_def\<close>)

lemma closing_next_inv:
  "registry_inv s \<Longrightarrow> ry_phase s = RegistryClosing ids \<Longrightarrow> registry_inv (closing_next err ids s)"
  by (cases ids) (auto simp: registry_inv_def closing_next_def tracked_def known_chats_def indexed_ok_def
      well_indexed_def clear_chats_def)

lemma start_registry_inv:
  "registry_inv s \<Longrightarrow> ry_phase s = RegistryNotStarted inp \<Longrightarrow>
   registry_inv (s\<lparr>ry_state := start_registry now inp (ry_state s), ry_phase := RegistryOpen\<rparr>)"
  by (auto simp: registry_inv_def tracked_def known_chats_def indexed_ok_def start_registry_def
      keyed_well_indexed Let_def split: option.splits)

lemma registry_next_inv:
  assumes "registry_inv s" "registry_next q ev s = Some t"
  shows "registry_inv t"
proof -
  consider (update) "update_next q ev s = Some t" "\<And>inp now i r. ry_phase s = RegistryNotStarted inp \<Longrightarrow> ev \<noteq> ChatStarted now i r"
    | (start) now inp where "ry_phase s = RegistryNotStarted inp"
        "t = s\<lparr>ry_state := start_registry now inp (ry_state s), ry_phase := RegistryOpen\<rparr>"
    | (pass) now suggested where "ry_phase s = RegistryOpen" "t = registry_loop now suggested s"
    | (closing) ids err where "ry_phase s = RegistryClosing ids" "t = closing_next err ids s"
    using assms(2) by (cases "ry_phase s"; cases ev) (auto simp: registry_next_def)
  then show ?thesis
  proof cases
    case update
    then show ?thesis
      using assms(1) update_next_indexed update_next_tracked by (auto simp: registry_inv_def)
  qed (use assms(1) in \<open>auto intro: start_registry_inv registry_loop_inv closing_next_inv\<close>)
qed

interpretation registry: invariant_system "\<lambda>s. s = registry_begin inp" "registry_step q" registry_inv
  for inp q
proof
  show "registry_inv s" if "s = registry_begin inp" for s
    using that by (simp add: registry_inv_def registry_begin_def indexed_ok_def well_indexed_def
        UserChatsWorkflow_def tracked_def known_chats_def)
  show "registry_inv t" if "registry_inv s" "registry_step q s t" for s t
    using that(2) registry_next_inv [OF that(1)] by (cases rule: registry_step.cases)
qed

lemma registry_states_trace:
  assumes "registry_trace q evs s = Some t" "registry_states q inp s"
  shows "registry_states q inp t"
  using assms
proof (induction evs arbitrary: s)
  case (Cons ev evs)
  from Cons.prems(1) obtain u where u: "registry_next q ev s = Some u" "registry_trace q evs u = Some t"
    by (auto split: option.splits)
  have "registry_states q inp u"
    using Cons.prems(2) u(1) unfolding registry_states_def
    by (blast intro: reachable.reachable_step registry_step.registry_step_event)
  with u(2) show ?case by (rule Cons.IH)
qed simp

lemma registry_states_begin: "registry_states q inp (registry_begin inp)"
  by (simp add: registry_states_def reachable.reachable_initial)


section \<open>Properties\<close>

lemma has_chat_iff: "has_chat i u \<longleftrightarrow> i \<in> fst ` set (uc_chats u)"
  by (simp add: has_chat_def map_of_eq_None_iff)

lemma list_chats_set: "set (list_chats u) = snd ` set (uc_chats u)"
  by (simp add: list_chats_def)

lemma indexed_chat_listed:
  assumes "indexed_ok u" "i \<in> fst ` set (uc_chats u)"
  shows "\<exists>r. r \<in> set (list_chats u) \<and> rc_workflow_id r = i"
proof -
  obtain r where "(i, r) \<in> set (uc_chats u)" using assms(2) by auto
  moreover from this have "rc_workflow_id r = i"
    using assms(1) by (auto simp: indexed_ok_def well_indexed_def)
  ultimately show ?thesis by (metis image_eqI list_chats_set snd_conv)
qed

text \<open>
  What an event does to the updates that wait for a chat: none of them disappears but by its own end. A new run or the end
  of the registry therefore never cuts off a chat that is being started or told to end.
\<close>

lemma waiting_updates_are_kept:
  assumes "registry_next TASK_QUEUE ev s = Some t" "ry_phase s = RegistryOpen"
  shows "(\<forall>i \<in> fst ` set (ry_starting s). i \<in> fst ` set (ry_starting t) \<or> i \<in> ry_started t \<or> ev = ChatStartFails i) \<and>
    (\<forall>i \<in> set (ry_deleting s). i \<in> set (ry_deleting t) \<or> (\<exists>err. ev = ChatDeleted i err))"
proof (cases "\<exists>now suggested. ev = RegistryPass now suggested")
  case True
  then obtain now suggested where "t = registry_loop now suggested s" using assms by (auto simp: registry_next_def)
  then show ?thesis
    by (auto simp: registry_loop_def registry_pass_def handlers_finished_def split: if_splits)
next
  case False
  have "update_next TASK_QUEUE ev s = Some t" using assms False
    by (cases ev) (simp_all add: registry_next_def update_next_def)
  then show ?thesis
    by (cases ev) (auto simp: update_next_def Let_def case_prod_beta AList.delete_eq image_iff set_remove1_eq
        dest: in_set_remove1 [THEN iffD2, rotated] split: option.splits if_splits)
qed

text \<open>
  C26. A registry never loses a chat while \<open>run\<close> is in its main loop. For every interleaving of the updates (those
  that wait for a chat included), of the passes of \<open>run\<close> and of new runs of the workflow: a chat that was started by
  this registry, or was in its first input, and that the user did not ask to forget and that was not told to end, is
  known to \<open>has_chat\<close> and shown by \<open>list_chats\<close>; and an update that waits for a chat to start or to be told to end goes
  on waiting, over any event (a pass that would begin a new run or close the registry included), until it has its own
  outcome. It is not claimed of a registry that is closing itself, see the end of this theory.
\<close>

theorem registry_tracks_every_chat:
  assumes "registry_states TASK_QUEUE inp s" "ry_phase s = RegistryOpen"
  shows "(\<forall>i. i \<in> ry_started s \<and> i \<notin> ry_forgotten s \<and> i \<notin> ry_told s \<longrightarrow>
       has_chat i (ry_state s) \<and> (\<exists>r. r \<in> set (list_chats (ry_state s)) \<and> rc_workflow_id r = i)) \<and>
     (\<forall>ev t. registry_next TASK_QUEUE ev s = Some t \<longrightarrow>
       (\<forall>i \<in> fst ` set (ry_starting s). i \<in> fst ` set (ry_starting t) \<or> i \<in> ry_started t \<or> ev = ChatStartFails i) \<and>
       (\<forall>i \<in> set (ry_deleting s). i \<in> set (ry_deleting t) \<or> (\<exists>err. ev = ChatDeleted i err)))"
proof -
  have inv: "registry_inv s" using assms(1) unfolding registry_states_def by (rule registry.reachable_inv)
  have "has_chat i (ry_state s) \<and> (\<exists>r. r \<in> set (list_chats (ry_state s)) \<and> rc_workflow_id r = i)"
    if "i \<in> ry_started s \<and> i \<notin> ry_forgotten s \<and> i \<notin> ry_told s" for i
  proof -
    have "i \<in> fst ` set (uc_chats (ry_state s))"
      using inv assms(2) that by (auto simp: registry_inv_def tracked_def known_chats_def)
    then show ?thesis using inv by (simp add: has_chat_iff registry_inv_def indexed_chat_listed)
  qed
  with waiting_updates_are_kept [OF _ assms(2)] show ?thesis by blast
qed

definition sample_registry :: user_chats_input where
  "sample_registry = \<lparr>ui_user_id = ''u'', ui_user_email = [], ui_search_attr_name = [], ui_chats = [],
     ui_mcp_servers = [], ui_demo_workspace = None, ui_last_touched_at = None\<rparr>"

definition sample_create :: create_chat_request where
  "sample_create = \<lparr>cc_system_prompt = [], cc_model = ''m'', cc_max_tokens = 1, cc_max_turns = 1,
     cc_max_context_tokens = 1, cc_thinking = None, cc_initial_message = Some ''  hi  there '',
     cc_available_tool_names = [], cc_github_connection_id = None, cc_mcp_servers = [],
     cc_good_place_censor = False, cc_task_queue = []\<rparr>"

definition unreachable_chat :: py_exn where
  "unreachable_chat = PyExn (ExcApplication None False) [] None None"

text \<open>A chat that could not be told to end stays in the registry, over a new run.\<close>

definition sample_registry_events :: "registry_event list" where
  "sample_registry_events = [OpenRegistry 0, CreateChat 1 ''a'' sample_create, RegistryPass 2 True,
     ChatStarted 3 (chat_id ''a'') ''run'', DeleteChat 4 (chat_id ''a''),
     ChatDeleted (chat_id ''a'') (Some unreachable_chat), RegistryPass 5 True, OpenRegistry 6]"

definition sample_registry_run :: registry_system where
  "sample_registry_run = (case registry_trace ''q'' sample_registry_events (registry_begin sample_registry) of
     None \<Rightarrow> registry_begin sample_registry | Some s \<Rightarrow> s)"

lemma sample_registry_run_state:
  "ry_phase sample_registry_run = RegistryOpen \<and> ry_started sample_registry_run = {''simple-chat-a''} \<and>
   ry_forgotten sample_registry_run = {} \<and> ry_told sample_registry_run = {}"
  by code_simp

lemma sample_registry_run_reachable: "registry_states ''q'' sample_registry sample_registry_run"
  by (auto simp: sample_registry_run_def registry_states_begin split: option.splits
      intro: registry_states_trace [OF _ registry_states_begin])

lemma registry_tracks_every_chat_witness:
  "has_chat ''simple-chat-a'' (ry_state sample_registry_run) \<and>
   (\<exists>r. r \<in> set (list_chats (ry_state sample_registry_run)) \<and> rc_workflow_id r = ''simple-chat-a'')"
  using registry_tracks_every_chat [OF sample_registry_run_reachable] sample_registry_run_state by blast

text \<open>
  Whatever is known to a registry is known to its next run: starting from the input that
  \<open>continue_as_new\<close> is given, \<open>run\<close> restores the user, every chat and MCP server in the same order,
  the demo workspace and the time of the last update, so that all queries answer the same.
\<close>

theorem registry_survives_new_run:
  assumes "registry_states TASK_QUEUE inp s" "uc_last_touched_at (ry_state s) = Some t"
  shows "start_registry now (continue_registry_input (ry_state s)) UserChatsWorkflow =
     (ry_state s)\<lparr>uc_run_started_at := Some now, uc_touched_this_run := t > now\<rparr>"
proof -
  have "indexed_ok (ry_state s)"
    using registry.reachable_inv [OF assms(1) [unfolded registry_states_def]] by (simp add: registry_inv_def)
  then show ?thesis
    using assms(2) by (simp add: indexed_ok_def start_registry_def continue_registry_input_def
        UserChatsWorkflow_def keyed_values)
qed

lemma registry_survives_new_run_witness:
  "start_registry 7 (continue_registry_input (ry_state sample_registry_run)) UserChatsWorkflow =
     (ry_state sample_registry_run)\<lparr>uc_run_started_at := Some 7, uc_touched_this_run := False\<rparr>"
proof -
  have "uc_last_touched_at (ry_state sample_registry_run) = Some 4" by code_simp
  from registry_survives_new_run [OF sample_registry_run_reachable this, of 7] show ?thesis by simp
qed

section \<open>What the registry does not do\<close>

text \<open>
  An update that comes before \<open>run\<close> starts works on the state of the constructor: a chat is then started
  for no user, and what the update enters into the registry is replaced by the input.
\<close>

lemma early_chat_has_no_user:
  "ci_user_ref (snd (fst (create_chat_begin q now uuid request UserChatsWorkflow))) = []"
  by (simp add: create_chat_begin_def new_chat_input_def touch_registry_def UserChatsWorkflow_def Let_def)

lemma early_server_is_lost:
  "ui_mcp_servers inp = [] \<Longrightarrow>
   uc_mcp_servers (start_registry t inp (snd (upsert_mcp_server now server UserChatsWorkflow))) = []"
  by (simp add: start_registry_def keyed_def Let_def split: option.splits)

text \<open>
  When the run is due for a checkpoint and an update waits, the loop goes on without pausing: its wait
  has no time left.
\<close>

lemma due_pass_does_not_pause:
  "registry_checkpoint_due now u \<Longrightarrow>
   registry_pass now suggested False u = KeepWaiting \<and> registry_time_until_checkpoint now u = 0"
  by (auto simp: registry_pass_def registry_checkpoint_due_def registry_time_until_checkpoint_def split: option.splits)

text \<open>
  When the registry closes itself it tells the active chats to end. A chat whose deletion failed stays
  in state \<open>deleting\<close> and is not told; neither is one created while the others are being told.
\<close>

lemma closing_skips_failed_deletion:
  "case registry_trace ''q'' (butlast (butlast sample_registry_events) @
       [RegistryPass USER_WORKFLOW_RUN_TTL True, OpenRegistry USER_WORKFLOW_RUN_TTL,
        RegistryPass (2 * USER_WORKFLOW_RUN_TTL) False, ClosingStep None]) (registry_begin sample_registry) of
     None \<Rightarrow> False | Some s \<Rightarrow>
       ry_phase s = RegistryClosed \<and> ry_started s = {''simple-chat-a''} \<and> ry_told s = {} \<and> ry_forgotten s = {}"
  by code_simp

lemma closing_misses_created_chat:
  "case registry_trace ''q'' [OpenRegistry 0, RegistryPass USER_WORKFLOW_RUN_TTL False,
       CreateChat 1 ''b'' sample_create, ClosingStep None, ChatStarted 2 (chat_id ''b'') ''run'', ClosingStep None]
     (registry_begin (sample_registry\<lparr>ui_last_touched_at := Some 0, ui_chats := [\<lparr>rc_workflow_id = ''a'',
       rc_run_id = [], rc_title = [], rc_status = Active, rc_created_at = 0, rc_updated_at = 0, rc_task_queue = []\<rparr>]\<rparr>)) of
     None \<Rightarrow> False | Some s \<Rightarrow>
       ry_phase s = RegistryClosed \<and> ry_started s = {''a'', ''simple-chat-b''} \<and> ry_told s = {''a''} \<and>
       uc_chats (ry_state s) = []"
  by code_simp

end
