(* ===== verification/DemoWorkspace.thy ===== *)
theory DemoWorkspace
  imports UserChats
begin

text \<open>
  \<open>simple_chat_agent/worker/demo_workspace_workflow.py\<close>: the workflow that provisions a demo workspace
  for a user, and deletes it when it is idle or on request. The updates suspend at every activity and at
  every message to another workflow; the machine interleaves them, the signals and the main loop in any
  way (also in some ways the event loop of the SDK never does, as it wakes the main loop at once).
  SHA-256 is a parameter; points in time are numbers, an empty time text is \<open>None\<close>.
\<close>

section \<open>Data\<close>

definition DEMO_WORKSPACE_PREFIX :: string where
  "DEMO_WORKSPACE_PREFIX = ''simple-chat-demo-workspace-''"

definition IDLE_TIMEOUT :: int where
  "IDLE_TIMEOUT = 60 * 60 * 1000000"

datatype workspace_status = WsInactive | WsProvisioning | WsActive | WsDeleting | WsDeleted | WsFailed

record demo_workspace_config =
  wc_user_id :: string
  wc_user_email :: string
  wc_control_workflow_id :: string
  wc_temporal_namespace :: string
  wc_source_namespace :: string
  wc_source_secret_name :: string
  wc_tls_secret_name :: string
  wc_host_suffix :: string
  wc_parent_public_url :: string
  wc_task_queue_prefix :: string
  wc_workflow_prefix_prefix :: string
  wc_source_web_deployment :: string
  wc_source_api_deployment :: string
  wc_source_worker_deployment :: string
  wc_service_account_role_arn :: string
  wc_search_attr_name :: string

record workspace_chat_record =
  wr_workflow_id :: string
  wr_run_id :: string
  wr_task_queue :: string
  wr_created_at :: "datetime option"

record demo_workspace_state =
  dw_user_id :: string
  dw_user_email :: string
  dw_status :: workspace_status
  dw_workspace_id :: string
  dw_namespace :: string
  dw_temporal_namespace :: string
  dw_host :: string
  dw_url :: string
  dw_task_queue :: string
  dw_workflow_prefix :: string
  dw_registry_workflow_id :: string
  dw_created_at :: "datetime option"
  dw_updated_at :: "datetime option"
  dw_last_activity_at :: "datetime option"
  dw_error :: string
  dw_provisioning_step :: string
  dw_provisioning_message :: string
  dw_chats :: "workspace_chat_record list"

text \<open>\<open>DemoWorkspaceState(user_id=..., user_email=...)\<close>, all other fields at their default.\<close>

definition DemoWorkspaceState :: "string \<Rightarrow> string \<Rightarrow> demo_workspace_state" where
  "DemoWorkspaceState user_id user_email =
     \<lparr>dw_user_id = user_id, dw_user_email = user_email, dw_status = WsInactive, dw_workspace_id = [],
      dw_namespace = [], dw_temporal_namespace = [], dw_host = [], dw_url = [], dw_task_queue = [],
      dw_workflow_prefix = [], dw_registry_workflow_id = [], dw_created_at = None, dw_updated_at = None,
      dw_last_activity_at = None, dw_error = [], dw_provisioning_step = [], dw_provisioning_message = [],
      dw_chats = []\<rparr>"

record demo_workspace_input =
  wi_user_id :: string
  wi_user_email :: string
  wi_search_attr_name :: string
  wi_state :: "demo_workspace_state option"

record provision_demo_workspace_request =
  pr_namespace :: string
  pr_temporal_namespace :: string
  pr_host :: string
  pr_url :: string
  pr_task_queue :: string
  pr_workflow_prefix :: string
  pr_control_workflow_id :: string
  pr_parent_public_url :: string
  pr_source_namespace :: string
  pr_source_secret_name :: string
  pr_tls_secret_name :: string
  pr_source_web_deployment :: string
  pr_source_api_deployment :: string
  pr_source_worker_deployment :: string
  pr_user_email :: string
  pr_service_account_role_arn :: string
  pr_search_attr_name :: string

text \<open>The activities the workflow asks for; the images are what the first of them returned.\<close>

datatype workspace_activity =
    ResolveImages provision_demo_workspace_request
  | CreateNamespace provision_demo_workspace_request
  | ConfigureWorkspace provision_demo_workspace_request
  | DeployWorkloads provision_demo_workspace_request pyval
  | WaitDeployment string string
  | CrashWorkspace string
  | PurgePayloads string "string list"
  | DeleteNamespace string

fun activity_name :: "workspace_activity \<Rightarrow> string" where
  "activity_name (ResolveImages _) = ''resolve_demo_workspace_images''"
| "activity_name (CreateNamespace _) = ''create_demo_workspace_namespace''"
| "activity_name (ConfigureWorkspace _) = ''configure_demo_workspace''"
| "activity_name (DeployWorkloads _ _) = ''deploy_demo_workspace_workloads''"
| "activity_name (WaitDeployment _ _) = ''wait_demo_workspace_deployment''"
| "activity_name (CrashWorkspace _) = ''crash_demo_workspace''"
| "activity_name (PurgePayloads _ _) = ''purge_demo_workspace_payloads''"
| "activity_name (DeleteNamespace _) = ''delete_demo_workspace''"

text \<open>Start-to-close timeout and heartbeat timeout in seconds, and the attempts of the retry policy.\<close>

fun activity_limits :: "workspace_activity \<Rightarrow> int \<times> int option \<times> int" where
  "activity_limits (ResolveImages _) = (60, None, 3)"
| "activity_limits (CreateNamespace _) = (60, None, 3)"
| "activity_limits (ConfigureWorkspace _) = (120, None, 3)"
| "activity_limits (DeployWorkloads _ _) = (120, None, 3)"
| "activity_limits (WaitDeployment _ _) = (240, Some 30, 2)"
| "activity_limits (CrashWorkspace _) = (120, None, 2)"
| "activity_limits (PurgePayloads _ _) = (180, None, 3)"
| "activity_limits (DeleteNamespace _) = (180, None, 3)"

record demo_workspace =
  ws_state :: demo_workspace_state
  ws_finished :: bool
  ws_activity_version :: int

definition DemoWorkspaceWorkflow :: demo_workspace where
  "DemoWorkspaceWorkflow = \<lparr>ws_state = DemoWorkspaceState [] [], ws_finished = False, ws_activity_version = 0\<rparr>"

section \<open>Helpers\<close>

definition demo_workspace_workflow_id :: "(string \<Rightarrow> string) \<Rightarrow> string \<Rightarrow> string \<Rightarrow> string" where
  "demo_workspace_workflow_id sha256 prefix user_id = prefix @ DEMO_WORKSPACE_PREFIX @ take 32 (sha256 user_id)"

definition workspace_id :: "(string \<Rightarrow> string) \<Rightarrow> string \<Rightarrow> string" where
  "workspace_id sha256 user_id = ''temp-'' @ take 8 (sha256 user_id)"

definition registry_workflow_id :: "(string \<Rightarrow> string) \<Rightarrow> string \<Rightarrow> string \<Rightarrow> string" where
  "registry_workflow_id sha256 user_id workflow_prefix = workflow_prefix @ ''simple-chat-user-'' @ take 32 (sha256 user_id)"

definition provision_request :: "demo_workspace_config \<Rightarrow> demo_workspace_state \<Rightarrow> provision_demo_workspace_request" where
  "provision_request config st =
     \<lparr>pr_namespace = dw_namespace st, pr_temporal_namespace = dw_temporal_namespace st, pr_host = dw_host st,
      pr_url = dw_url st, pr_task_queue = dw_task_queue st, pr_workflow_prefix = dw_workflow_prefix st,
      pr_control_workflow_id = wc_control_workflow_id config, pr_parent_public_url = wc_parent_public_url config,
      pr_source_namespace = wc_source_namespace config, pr_source_secret_name = wc_source_secret_name config,
      pr_tls_secret_name = wc_tls_secret_name config,
      pr_source_web_deployment = wc_source_web_deployment config,
      pr_source_api_deployment = wc_source_api_deployment config,
      pr_source_worker_deployment = wc_source_worker_deployment config,
      pr_user_email = wc_user_email config,
      pr_service_account_role_arn = wc_service_account_role_arn config,
      pr_search_attr_name = wc_search_attr_name config\<rparr>"

definition on_state :: "(demo_workspace_state \<Rightarrow> demo_workspace_state) \<Rightarrow> demo_workspace \<Rightarrow> demo_workspace" where
  "on_state f w = w\<lparr>ws_state := f (ws_state w)\<rparr>"

definition touch_workspace :: "datetime \<Rightarrow> demo_workspace \<Rightarrow> demo_workspace" where
  "touch_workspace now w =
     (on_state (dw_updated_at_update (\<lambda>_. Some now) \<circ> dw_last_activity_at_update (\<lambda>_. Some now)) w)
       \<lparr>ws_activity_version := ws_activity_version w + 1\<rparr>"

definition mark_updated :: "datetime \<Rightarrow> demo_workspace \<Rightarrow> demo_workspace" where
  "mark_updated now = on_state (dw_updated_at_update (\<lambda>_. Some now))"

definition set_provisioning_step :: "datetime \<Rightarrow> string \<Rightarrow> string \<Rightarrow> demo_workspace \<Rightarrow> demo_workspace" where
  "set_provisioning_step now step msg w =
     mark_updated now (on_state (\<lambda>st. st\<lparr>dw_provisioning_step := step, dw_provisioning_message := msg\<rparr>) w)"

definition idle_expired :: "datetime \<Rightarrow> demo_workspace \<Rightarrow> bool" where
  "idle_expired now w =
     (dw_status (ws_state w) = WsActive \<and>
      (case dw_last_activity_at (ws_state w) of None \<Rightarrow> False | Some t \<Rightarrow> now \<ge> t + IDLE_TIMEOUT))"

section \<open>Provisioning\<close>

definition provisioning_plan :: "(string \<times> string) list" where
  "provisioning_plan =
     [(''resolving-images'', ''Resolving deployment images...''),
      (''creating-namespace'', ''Creating Kubernetes namespace...''),
      (''copying-configuration'', ''Copying configuration and TLS...''),
      (''starting-pods'', ''Creating services, routes, and deployments...''),
      (''waiting-web'', ''Waiting for web pod readiness...''),
      (''waiting-api'', ''Waiting for API pod readiness...''),
      (''waiting-worker'', ''Waiting for worker pod readiness...'')]"

definition provisioning_activity :: "demo_workspace_config \<Rightarrow> pyval \<Rightarrow> demo_workspace_state \<Rightarrow> nat \<Rightarrow> workspace_activity" where
  "provisioning_activity config images st k =
     (if k = 0 then ResolveImages (provision_request config st)
      else if k = 1 then CreateNamespace (provision_request config st)
      else if k = 2 then ConfigureWorkspace (provision_request config st)
      else if k = 3 then DeployWorkloads (provision_request config st) images
      else WaitDeployment (dw_namespace st)
        (if k = 4 then ''agent-harness-web'' else if k = 5 then ''agent-harness-api'' else ''agent-harness-worker''))"

text \<open>The state \<open>ensure_workspace\<close> starts from.\<close>

definition new_workspace_state :: "(string \<Rightarrow> string) \<Rightarrow> datetime \<Rightarrow> demo_workspace_config \<Rightarrow> demo_workspace_state" where
  "new_workspace_state sha256 now config =
     (let wid = workspace_id sha256 (wc_user_id config);
          workflow_prefix = wc_workflow_prefix_prefix config @ wid @ ''-'';
          host = wid @ wc_host_suffix config
      in (DemoWorkspaceState (wc_user_id config) (wc_user_email config))
        \<lparr>dw_status := WsProvisioning, dw_workspace_id := wid, dw_namespace := ''agent-harness-demo-'' @ wid,
         dw_temporal_namespace := wc_temporal_namespace config, dw_host := host, dw_url := ''https://'' @ host,
         dw_task_queue := wc_task_queue_prefix config @ ''-'' @ wid, dw_workflow_prefix := workflow_prefix,
         dw_registry_workflow_id := registry_workflow_id sha256 (wc_user_id config) workflow_prefix,
         dw_created_at := Some now, dw_updated_at := Some now, dw_last_activity_at := Some now\<rparr>)"

definition provision_step :: "datetime \<Rightarrow> demo_workspace_config \<Rightarrow> pyval \<Rightarrow> nat \<Rightarrow> demo_workspace \<Rightarrow> workspace_activity \<times> demo_workspace" where
  "provision_step now config images k w =
     (let (step, msg) = provisioning_plan ! k; w = set_provisioning_step now step msg w
      in (provisioning_activity config images (ws_state w) k, w))"

text \<open>\<open>ensure_workspace\<close> up to its first activity: \<open>None\<close> when the workspace is there already.\<close>

definition ensure_begin ::
  "(string \<Rightarrow> string) \<Rightarrow> datetime \<Rightarrow> demo_workspace_config \<Rightarrow> demo_workspace \<Rightarrow> workspace_activity option \<times> demo_workspace" where
  "ensure_begin sha256 now config w =
     (if dw_status (ws_state w) = WsActive \<or> dw_status (ws_state w) = WsProvisioning then (None, touch_workspace now w)
      else (case provision_step now config PNone 0 (w\<lparr>ws_state := new_workspace_state sha256 now config\<rparr>) of
              (a, w) \<Rightarrow> (Some a, w)))"

text \<open>After activity \<open>k\<close>: the next activity, or the workspace is ready.\<close>

definition ensure_finish :: "datetime \<Rightarrow> demo_workspace \<Rightarrow> demo_workspace" where
  "ensure_finish now w =
     touch_workspace now (on_state (\<lambda>st. st\<lparr>dw_status := WsActive, dw_error := [], dw_provisioning_step := ''ready'',
       dw_provisioning_message := []\<rparr>) w)"

definition ensure_continue ::
  "datetime \<Rightarrow> demo_workspace_config \<Rightarrow> pyval \<Rightarrow> nat \<Rightarrow> demo_workspace \<Rightarrow> workspace_activity option \<times> demo_workspace" where
  "ensure_continue now config images k w =
     (if k + 1 < length provisioning_plan
      then (case provision_step now config images (k + 1) w of (a, w) \<Rightarrow> (Some a, w))
      else (None, ensure_finish now w))"

definition ensure_failed :: "datetime \<Rightarrow> py_exn \<Rightarrow> demo_workspace \<Rightarrow> demo_workspace" where
  "ensure_failed now err w =
     mark_updated now (on_state (\<lambda>st. st\<lparr>dw_status := WsFailed, dw_error := exn_str err,
       dw_provisioning_message := ''Workspace creation failed.''\<rparr>) w)"

section \<open>Crashing and deleting\<close>

definition crash_begin :: "demo_workspace \<Rightarrow> workspace_activity option" where
  "crash_begin w =
     (if dw_status (ws_state w) \<noteq> WsActive \<or> dw_namespace (ws_state w) = [] then None
      else Some (CrashWorkspace (dw_namespace (ws_state w))))"

text \<open>Where \<open>_delete_current_workspace\<close> waits.\<close>

datatype deletion = TellingChats "string list" | PurgingPayloads | CancellingRegistry | DeletingNamespace

definition delete_finish :: "datetime \<Rightarrow> demo_workspace \<Rightarrow> demo_workspace" where
  "delete_finish now w =
     w\<lparr>ws_state := (DemoWorkspaceState (dw_user_id (ws_state w)) (dw_user_email (ws_state w)))
         \<lparr>dw_status := WsDeleted, dw_updated_at := Some now, dw_last_activity_at := Some now,
          dw_provisioning_step := ''deleted'', dw_provisioning_message := ''Workspace deleted.''\<rparr>,
       ws_finished := True\<rparr>"

type_synonym deletion_step = "deletion option \<times> workspace_activity option \<times> demo_workspace"

definition delete_namespace_part :: "datetime \<Rightarrow> demo_workspace \<Rightarrow> deletion_step" where
  "delete_namespace_part now w =
     (if dw_namespace (ws_state w) = [] then (None, None, delete_finish now w)
      else (Some DeletingNamespace, Some (DeleteNamespace (dw_namespace (ws_state w))),
            set_provisioning_step now ''deleting-namespace'' ''Deleting Kubernetes namespace...'' w))"

definition cancel_registry_part :: "datetime \<Rightarrow> demo_workspace \<Rightarrow> deletion_step" where
  "cancel_registry_part now w =
     (if dw_registry_workflow_id (ws_state w) = [] then delete_namespace_part now w
      else (Some CancellingRegistry, None, w))"

definition purge_payloads_part :: "datetime \<Rightarrow> demo_workspace \<Rightarrow> deletion_step" where
  "purge_payloads_part now w =
     (let ids = filter (\<lambda>i. i \<noteq> []) (map wr_workflow_id (dw_chats (ws_state w))) in
      if ids \<noteq> [] \<and> dw_temporal_namespace (ws_state w) \<noteq> []
      then (Some PurgingPayloads, Some (PurgePayloads (dw_temporal_namespace (ws_state w)) ids),
            set_provisioning_step now ''deleting-payloads'' ''Deleting offloaded chat payloads...'' w)
      else cancel_registry_part now w)"

definition tell_chats_part :: "datetime \<Rightarrow> string list \<Rightarrow> demo_workspace \<Rightarrow> deletion_step" where
  "tell_chats_part now ids w =
     (if ids = [] then purge_payloads_part now w else (Some (TellingChats ids), None, w))"

definition delete_begin :: "datetime \<Rightarrow> demo_workspace \<Rightarrow> deletion_step" where
  "delete_begin now w =
     (let w = touch_workspace now (on_state (\<lambda>st. st\<lparr>dw_status := WsDeleting, dw_provisioning_step := ''deleting'',
            dw_provisioning_message := ''Deleting demo workspace...''\<rparr>) w)
      in tell_chats_part now (map wr_workflow_id (dw_chats (ws_state w))) w)"

text \<open>
  What the wait brought: the exception it raised, if any. That a workflow that was to be told or
  cancelled is gone is no error; any other exception leaves the handler.
\<close>

definition delete_continue :: "datetime \<Rightarrow> py_exn option \<Rightarrow> deletion \<Rightarrow> demo_workspace \<Rightarrow> deletion_step res" where
  "delete_continue now err pc w =
     (case (pc, err) of
        (TellingChats ids, Some e) \<Rightarrow>
          (if is_missing_external_workflow e then Inr (tell_chats_part now (tl ids) w) else Inl e)
      | (TellingChats ids, None) \<Rightarrow> Inr (tell_chats_part now (tl ids) w)
      | (PurgingPayloads, None) \<Rightarrow> Inr (cancel_registry_part now w)
      | (CancellingRegistry, Some e) \<Rightarrow>
          (if is_missing_external_workflow e then Inr (delete_namespace_part now w) else Inl e)
      | (CancellingRegistry, None) \<Rightarrow> Inr (delete_namespace_part now w)
      | (DeletingNamespace, None) \<Rightarrow> Inr (None, None, delete_finish now w)
      | (_, Some e) \<Rightarrow> Inl e)"

section \<open>Signals\<close>

definition register_chat :: "datetime \<Rightarrow> workspace_chat_record \<Rightarrow> demo_workspace \<Rightarrow> demo_workspace" where
  "register_chat now chat w =
     (if wr_workflow_id chat = [] then w
      else touch_workspace now (on_state (\<lambda>st. st\<lparr>dw_chats :=
        filter (\<lambda>c. wr_workflow_id c \<noteq> wr_workflow_id chat) (dw_chats st) @
        [\<lparr>wr_workflow_id = wr_workflow_id chat, wr_run_id = wr_run_id chat,
          wr_task_queue = (if wr_task_queue chat = [] then dw_task_queue st else wr_task_queue chat),
          wr_created_at = Some (case wr_created_at chat of None \<Rightarrow> now | Some t \<Rightarrow> t)\<rparr>]\<rparr>) w))"

definition unregister_chat :: "datetime \<Rightarrow> string \<Rightarrow> demo_workspace \<Rightarrow> demo_workspace" where
  "unregister_chat now workflow_id w =
     touch_workspace now (on_state (\<lambda>st. st\<lparr>dw_chats := filter (\<lambda>c. wr_workflow_id c \<noteq> workflow_id) (dw_chats st)\<rparr>) w)"

section \<open>The main loop\<close>

definition start_workspace :: "demo_workspace_input \<Rightarrow> demo_workspace \<Rightarrow> demo_workspace" where
  "start_workspace inp w =
     (let st = (case wi_state inp of None \<Rightarrow> DemoWorkspaceState (wi_user_id inp) (wi_user_email inp) | Some st \<Rightarrow> st)
      in w\<lparr>ws_state := st, ws_finished := (dw_status st = WsDeleted)\<rparr>)"

definition continue_workspace_input :: "string \<Rightarrow> demo_workspace \<Rightarrow> demo_workspace_input" where
  "continue_workspace_input search_attr_name w =
     \<lparr>wi_user_id = dw_user_id (ws_state w), wi_user_email = dw_user_email (ws_state w),
      wi_search_attr_name = search_attr_name, wi_state = Some (ws_state w)\<rparr>"

text \<open>What the head of the loop does: return, continue as new, or wait in one of the two ways.\<close>

datatype workspace_pass = PassReturns | PassContinuesAsNew | PassWaitsForActive | PassWaitsForIdle int

definition loop_head :: "bool \<Rightarrow> bool \<Rightarrow> demo_workspace \<Rightarrow> workspace_pass" where
  "loop_head suggested all_handlers_finished w =
     (if ws_finished w then PassReturns
      else if suggested \<and> all_handlers_finished then PassContinuesAsNew
      else if dw_status (ws_state w) \<noteq> WsActive then PassWaitsForActive
      else PassWaitsForIdle (ws_activity_version w))"

text \<open>When a wait is over; the idle one also when its time is up.\<close>

definition wait_over :: "bool \<Rightarrow> bool \<Rightarrow> workspace_pass \<Rightarrow> demo_workspace \<Rightarrow> bool" where
  "wait_over suggested timed_out p w =
     (case p of
        PassWaitsForActive \<Rightarrow> dw_status (ws_state w) = WsActive \<or> ws_finished w \<or> suggested
      | PassWaitsForIdle v \<Rightarrow>
          dw_status (ws_state w) \<noteq> WsActive \<or> ws_finished w \<or> suggested \<or> ws_activity_version w \<noteq> v \<or> timed_out
      | _ \<Rightarrow> False)"

text \<open>Whether the loop deletes the workspace after the wait.\<close>

definition deletes_idle :: "datetime \<Rightarrow> bool \<Rightarrow> workspace_pass \<Rightarrow> demo_workspace \<Rightarrow> bool" where
  "deletes_idle now all_handlers_finished p w =
     (case p of
        PassWaitsForIdle _ \<Rightarrow>
          \<not> (dw_status (ws_state w) \<noteq> WsActive \<or> ws_finished w) \<and> idle_expired now w \<and> all_handlers_finished
      | _ \<Rightarrow> False)"


section \<open>The machine\<close>

datatype workspace_job = Provisioning demo_workspace_config pyval nat | Crashing | Deletion deletion

datatype workspace_main =
  MainNotStarted demo_workspace_input | MainWaits workspace_pass | MainDeletes deletion | MainDone

record workspace_system =
  we_workspace :: demo_workspace
  we_main :: workspace_main
  we_search_attr_name :: string
  we_jobs :: "(nat \<times> workspace_job) list"
  we_next :: nat
  we_users :: "string set"
  we_issued :: "workspace_activity list"

text \<open>
  \<open>we_jobs\<close> are the updates that wait, by number. The last two fields are history: the users whose
  workspace was asked for, and the activities issued, the latest first.
\<close>

datatype workspace_event =
    OpenWorkspace bool
  | EnsureWorkspace datetime demo_workspace_config
  | CrashUpdate
  | DeleteUpdate datetime
  | JobStep datetime nat "py_exn option" pyval
  | RegisterChat datetime workspace_chat_record
  | UnregisterChat datetime string
  | TouchSignal datetime
  | MainStep datetime bool bool
  | MainDeletionStep datetime bool "py_exn option"

definition input_users :: "demo_workspace_input \<Rightarrow> string set" where
  "input_users inp = (case wi_state inp of None \<Rightarrow> {} | Some st \<Rightarrow> {dw_user_id st})"

definition workspace_begin :: "demo_workspace_input \<Rightarrow> workspace_system" where
  "workspace_begin inp =
     \<lparr>we_workspace = DemoWorkspaceWorkflow, we_main = MainNotStarted inp,
      we_search_attr_name = wi_search_attr_name inp, we_jobs = [], we_next = 0, we_users = input_users inp,
      we_issued = []\<rparr>"

definition issue :: "workspace_activity option \<Rightarrow> workspace_system \<Rightarrow> workspace_system" where
  "issue a s = s\<lparr>we_issued := (case a of None \<Rightarrow> [] | Some a \<Rightarrow> [a]) @ we_issued s\<rparr>"

definition start_job :: "workspace_job option \<Rightarrow> workspace_system \<Rightarrow> workspace_system" where
  "start_job j s =
     (case j of None \<Rightarrow> s | Some j \<Rightarrow> s\<lparr>we_jobs := (we_next s, j) # we_jobs s, we_next := we_next s + 1\<rparr>)"

definition put_job :: "nat \<Rightarrow> workspace_job option \<Rightarrow> workspace_system \<Rightarrow> workspace_system" where
  "put_job i j s =
     s\<lparr>we_jobs := (case j of None \<Rightarrow> AList.delete i (we_jobs s) | Some j \<Rightarrow> AList.update i j (we_jobs s))\<rparr>"

definition put_workspace :: "demo_workspace \<Rightarrow> workspace_system \<Rightarrow> workspace_system" where
  "put_workspace w s = s\<lparr>we_workspace := w\<rparr>"

text \<open>An update of the workflow, from its call to its first wait.\<close>

definition ensure_workspace :: "(string \<Rightarrow> string) \<Rightarrow> datetime \<Rightarrow> demo_workspace_config \<Rightarrow> workspace_system \<Rightarrow> workspace_system" where
  "ensure_workspace sha256 now config s =
     (let (a, w) = ensure_begin sha256 now config (we_workspace s);
          s = issue a (put_workspace w s)
      in case a of
           None \<Rightarrow> s
         | Some _ \<Rightarrow> (start_job (Some (Provisioning config PNone 0)) s)\<lparr>we_users := insert (wc_user_id config) (we_users s)\<rparr>)"

definition crash_workspace :: "workspace_system \<Rightarrow> workspace_system" where
  "crash_workspace s =
     (case crash_begin (we_workspace s) of
        None \<Rightarrow> s
      | Some a \<Rightarrow> start_job (Some Crashing) (issue (Some a) s))"

definition delete_workspace :: "datetime \<Rightarrow> workspace_system \<Rightarrow> workspace_system" where
  "delete_workspace now s =
     (if dw_status (ws_state (we_workspace s)) = WsInactive \<or> dw_status (ws_state (we_workspace s)) = WsDeleting
         \<or> dw_status (ws_state (we_workspace s)) = WsDeleted then s
      else (case delete_begin now (we_workspace s) of (pc, a, w) \<Rightarrow>
              start_job (map_option Deletion pc) (issue a (put_workspace w s))))"

text \<open>What a waiting update does when its wait is over, with what the activity returned or raised.\<close>

definition job_step :: "datetime \<Rightarrow> nat \<Rightarrow> workspace_job \<Rightarrow> py_exn option \<Rightarrow> pyval \<Rightarrow> workspace_system \<Rightarrow> workspace_system" where
  "job_step now i j err value s =
     (case j of
        Provisioning config images k \<Rightarrow>
          (case err of
             Some e \<Rightarrow> put_job i None (put_workspace (ensure_failed now e (we_workspace s)) s)
           | None \<Rightarrow>
               (let images = (if k = 0 then value else images);
                    (a, w) = ensure_continue now config images k (we_workspace s)
                in put_job i (case a of None \<Rightarrow> None | Some _ \<Rightarrow> Some (Provisioning config images (k + 1)))
                     (issue a (put_workspace w s))))
      | Crashing \<Rightarrow>
          put_job i None (case err of
             Some _ \<Rightarrow> s
           | None \<Rightarrow> put_workspace (touch_workspace now (we_workspace s)) s)
      | Deletion pc \<Rightarrow>
          (case delete_continue now err pc (we_workspace s) of
             Inl _ \<Rightarrow> put_job i None s
           | Inr (pc, a, w) \<Rightarrow> put_job i (map_option Deletion pc) (issue a (put_workspace w s))))"

text \<open>The main loop, from its head to its next wait.\<close>

definition enter_loop :: "bool \<Rightarrow> workspace_system \<Rightarrow> workspace_system" where
  "enter_loop suggested s =
     (case loop_head suggested (we_jobs s = []) (we_workspace s) of
        PassReturns \<Rightarrow> s\<lparr>we_main := MainDone\<rparr>
      | PassContinuesAsNew \<Rightarrow>
          s\<lparr>we_main := MainNotStarted (continue_workspace_input (we_search_attr_name s) (we_workspace s)),
            we_workspace := DemoWorkspaceWorkflow, we_jobs := []\<rparr>
      | p \<Rightarrow> s\<lparr>we_main := MainWaits p\<rparr>)"

definition main_deletion :: "bool \<Rightarrow> deletion_step \<Rightarrow> workspace_system \<Rightarrow> workspace_system" where
  "main_deletion suggested d s =
     (case d of (pc, a, w) \<Rightarrow>
       (let s = issue a (put_workspace w s) in
        case pc of
          None \<Rightarrow> enter_loop suggested s
        | Some pc \<Rightarrow> s\<lparr>we_main := MainDeletes pc\<rparr>))"

definition workspace_next :: "(string \<Rightarrow> string) \<Rightarrow> workspace_event \<Rightarrow> workspace_system \<Rightarrow> workspace_system option" where
  "workspace_next sha256 ev s =
     (if we_main s = MainDone then None else
      case ev of
        OpenWorkspace suggested \<Rightarrow>
          (case we_main s of
             MainNotStarted inp \<Rightarrow> Some (enter_loop suggested (put_workspace (start_workspace inp (we_workspace s)) s))
           | _ \<Rightarrow> None)
      | EnsureWorkspace now config \<Rightarrow> Some (ensure_workspace sha256 now config s)
      | CrashUpdate \<Rightarrow> Some (crash_workspace s)
      | DeleteUpdate now \<Rightarrow> Some (delete_workspace now s)
      | JobStep now i err value \<Rightarrow>
          (case (we_main s, map_of (we_jobs s) i) of
             (MainNotStarted _, _) \<Rightarrow> None
           | (_, None) \<Rightarrow> None
           | (_, Some j) \<Rightarrow> Some (job_step now i j err value s))
      | RegisterChat now chat \<Rightarrow> Some (put_workspace (register_chat now chat (we_workspace s)) s)
      | UnregisterChat now i \<Rightarrow> Some (put_workspace (unregister_chat now i (we_workspace s)) s)
      | TouchSignal now \<Rightarrow> Some (put_workspace (touch_workspace now (we_workspace s)) s)
      | MainStep now suggested timed_out \<Rightarrow>
          (case we_main s of
             MainWaits p \<Rightarrow>
               (if \<not> wait_over suggested timed_out p (we_workspace s) then None
                else if deletes_idle now (we_jobs s = []) p (we_workspace s)
                then Some (main_deletion suggested (delete_begin now (we_workspace s)) s)
                else Some (enter_loop suggested s))
           | _ \<Rightarrow> None)
      | MainDeletionStep now suggested err \<Rightarrow>
          (case we_main s of
             MainDeletes pc \<Rightarrow>
               (case delete_continue now err pc (we_workspace s) of
                  Inl _ \<Rightarrow> Some (s\<lparr>we_main := MainDone\<rparr>)
                | Inr d \<Rightarrow> Some (main_deletion suggested d s))
           | _ \<Rightarrow> None))"

inductive workspace_step :: "(string \<Rightarrow> string) \<Rightarrow> workspace_system \<Rightarrow> workspace_system \<Rightarrow> bool" for sha256 where
  workspace_step_event: "workspace_next sha256 ev s = Some t \<Longrightarrow> workspace_step sha256 s t"

fun workspace_trace :: "(string \<Rightarrow> string) \<Rightarrow> workspace_event list \<Rightarrow> workspace_system \<Rightarrow> workspace_system option" where
  "workspace_trace sha256 [] s = Some s"
| "workspace_trace sha256 (ev # evs) s =
     (case workspace_next sha256 ev s of None \<Rightarrow> None | Some t \<Rightarrow> workspace_trace sha256 evs t)"

definition workspace_states :: "(string \<Rightarrow> string) \<Rightarrow> demo_workspace_input \<Rightarrow> workspace_system \<Rightarrow> bool" where
  "workspace_states sha256 inp = reachable (\<lambda>s. s = workspace_begin inp) (workspace_step sha256)"

end
