(* ===== verification/DemoWorkspaceProperties.thy ===== *)
theory DemoWorkspaceProperties
  imports DemoWorkspace
begin

text \<open>
  What the demo workspace workflow touches, whatever overlaps, what provisioning does when nothing
  goes wrong, and what overlapping updates do to it.
\<close>

section \<open>Whose namespace\<close>

definition user_namespace :: "(string \<Rightarrow> string) \<Rightarrow> string \<Rightarrow> string" where
  "user_namespace sha256 user_id = ''agent-harness-demo-temp-'' @ take 8 (sha256 user_id)"

text \<open>A state has no namespace, or that of its user, who asked for it.\<close>

definition namespace_ok :: "(string \<Rightarrow> string) \<Rightarrow> string set \<Rightarrow> demo_workspace_state \<Rightarrow> bool" where
  "namespace_ok sha256 users st =
     (dw_namespace st = [] \<or> (dw_user_id st \<in> users \<and> dw_namespace st = user_namespace sha256 (dw_user_id st)))"

fun target_namespace :: "workspace_activity \<Rightarrow> string option" where
  "target_namespace (ResolveImages r) = Some (pr_namespace r)"
| "target_namespace (CreateNamespace r) = Some (pr_namespace r)"
| "target_namespace (ConfigureWorkspace r) = Some (pr_namespace r)"
| "target_namespace (DeployWorkloads r _) = Some (pr_namespace r)"
| "target_namespace (WaitDeployment ns _) = Some ns"
| "target_namespace (CrashWorkspace ns) = Some ns"
| "target_namespace (PurgePayloads _ _) = None"
| "target_namespace (DeleteNamespace ns) = Some ns"

definition destroys :: "workspace_activity \<Rightarrow> bool" where
  "destroys a = (case a of CrashWorkspace _ \<Rightarrow> True | DeleteNamespace _ \<Rightarrow> True | _ \<Rightarrow> False)"

definition activity_ok :: "(string \<Rightarrow> string) \<Rightarrow> string set \<Rightarrow> workspace_activity \<Rightarrow> bool" where
  "activity_ok sha256 users a =
     (case target_namespace a of
        None \<Rightarrow> True
      | Some ns \<Rightarrow> ns \<in> user_namespace sha256 ` users \<or> (ns = [] \<and> \<not> destroys a))"

definition step_ok :: "(string \<Rightarrow> string) \<Rightarrow> string set \<Rightarrow> workspace_activity option \<Rightarrow> demo_workspace \<Rightarrow> bool" where
  "step_ok sha256 users a w =
     (namespace_ok sha256 users (ws_state w) \<and> (case a of None \<Rightarrow> True | Some a \<Rightarrow> activity_ok sha256 users a))"

lemma namespace_ok_mono: "namespace_ok sha256 users st \<Longrightarrow> users \<subseteq> users' \<Longrightarrow> namespace_ok sha256 users' st"
  by (auto simp: namespace_ok_def)

lemma activity_ok_mono: "activity_ok sha256 users a \<Longrightarrow> users \<subseteq> users' \<Longrightarrow> activity_ok sha256 users' a"
  by (auto simp: activity_ok_def split: option.splits)

text \<open>The operations that leave the namespace and the user alone.\<close>

lemma same_namespace [simp]:
  "dw_namespace (ws_state (touch_workspace now w)) = dw_namespace (ws_state w)"
  "dw_user_id (ws_state (touch_workspace now w)) = dw_user_id (ws_state w)"
  "dw_namespace (ws_state (mark_updated now w)) = dw_namespace (ws_state w)"
  "dw_user_id (ws_state (mark_updated now w)) = dw_user_id (ws_state w)"
  "dw_namespace (ws_state (set_provisioning_step now step msg w)) = dw_namespace (ws_state w)"
  "dw_user_id (ws_state (set_provisioning_step now step msg w)) = dw_user_id (ws_state w)"
  by (simp_all add: touch_workspace_def mark_updated_def set_provisioning_step_def on_state_def)

lemma namespace_ok_cong:
  "dw_namespace st = dw_namespace st' \<Longrightarrow> dw_user_id st = dw_user_id st' \<Longrightarrow>
   namespace_ok sha256 users st = namespace_ok sha256 users st'"
  by (simp add: namespace_ok_def)

lemma quiet_operations:
  assumes "namespace_ok sha256 users (ws_state w)"
  shows "namespace_ok sha256 users (ws_state (touch_workspace now w))"
    "namespace_ok sha256 users (ws_state (register_chat now chat w))"
    "namespace_ok sha256 users (ws_state (unregister_chat now i w))"
    "namespace_ok sha256 users (ws_state (ensure_finish now w))"
    "namespace_ok sha256 users (ws_state (ensure_failed now err w))"
    "namespace_ok sha256 users (ws_state (set_provisioning_step now step msg w))"
  using assms by (auto simp: register_chat_def unregister_chat_def ensure_finish_def ensure_failed_def
      on_state_def cong: namespace_ok_cong)

lemma step_ok_None [simp]: "step_ok sha256 users None w = namespace_ok sha256 users (ws_state w)"
  by (simp add: step_ok_def)

lemma delete_finish_ok [simp]: "namespace_ok sha256 users (ws_state (delete_finish now w))"
  by (simp add: namespace_ok_def delete_finish_def DemoWorkspaceState_def)

lemma provisioning_activity_target:
  "target_namespace (provisioning_activity config images st k) = Some (dw_namespace st)"
  "\<not> destroys (provisioning_activity config images st k)"
  by (simp_all add: provisioning_activity_def provision_request_def destroys_def)

lemma provision_step_ok:
  assumes "namespace_ok sha256 users (ws_state w)" "provision_step now config images k w = (a, w')"
  shows "step_ok sha256 users (Some a) w'"
proof -
  obtain step msg where "provisioning_plan ! k = (step, msg)" by fastforce
  then have "w' = set_provisioning_step now step msg w" "a = provisioning_activity config images (ws_state w') k"
    using assms(2) by (auto simp: provision_step_def Let_def)
  then show ?thesis
    using assms(1) quiet_operations(6) [OF assms(1)] provisioning_activity_target
    by (auto simp: step_ok_def activity_ok_def namespace_ok_def)
qed

lemma ensure_begin_ok:
  assumes "namespace_ok sha256 users (ws_state w)" "ensure_begin sha256 now config w = (a, w')"
  shows "step_ok sha256 (case a of None \<Rightarrow> users | Some _ \<Rightarrow> insert (wc_user_id config) users) a w'"
proof (cases "dw_status (ws_state w) = WsActive \<or> dw_status (ws_state w) = WsProvisioning")
  case True
  then show ?thesis
    using assms quiet_operations(1) [OF assms(1)] by (auto simp: ensure_begin_def step_ok_def)
next
  case False
  have "namespace_ok sha256 (insert (wc_user_id config) users) (new_workspace_state sha256 now config)"
    by (simp add: namespace_ok_def new_workspace_state_def user_namespace_def workspace_id_def Let_def
        DemoWorkspaceState_def)
  then show ?thesis
    using False assms(2) provision_step_ok
      [of sha256 "insert (wc_user_id config) users" "w\<lparr>ws_state := new_workspace_state sha256 now config\<rparr>"]
    by (auto simp: ensure_begin_def split: prod.splits)
qed

lemma ensure_continue_ok:
  assumes "namespace_ok sha256 users (ws_state w)" "ensure_continue now config images k w = (a, w')"
  shows "step_ok sha256 users a w'"
  using assms provision_step_ok [OF assms(1)] quiet_operations(4) [OF assms(1)]
  by (auto simp: ensure_continue_def step_ok_def split: if_splits prod.splits)

text \<open>The parts of a deletion, from the last to the first.\<close>

lemma delete_namespace_part_ok:
  assumes "namespace_ok sha256 users (ws_state w)" "delete_namespace_part now w = (pc, a, w')"
  shows "step_ok sha256 users a w'"
  using assms delete_finish_ok quiet_operations(6) [OF assms(1)]
  by (auto simp: delete_namespace_part_def step_ok_def activity_ok_def namespace_ok_def split: if_splits)

lemma cancel_registry_part_ok:
  assumes "namespace_ok sha256 users (ws_state w)" "cancel_registry_part now w = (pc, a, w')"
  shows "step_ok sha256 users a w'"
  using assms delete_namespace_part_ok [OF assms(1)]
  by (auto simp: cancel_registry_part_def split: if_splits)

lemma purge_payloads_part_ok:
  assumes "namespace_ok sha256 users (ws_state w)" "purge_payloads_part now w = (pc, a, w')"
  shows "step_ok sha256 users a w'"
  using assms cancel_registry_part_ok [OF assms(1)] quiet_operations(6) [OF assms(1)]
  by (auto simp: purge_payloads_part_def Let_def step_ok_def activity_ok_def split: if_splits)

lemma tell_chats_part_ok:
  assumes "namespace_ok sha256 users (ws_state w)" "tell_chats_part now ids w = (pc, a, w')"
  shows "step_ok sha256 users a w'"
  using assms purge_payloads_part_ok [OF assms(1)]
  by (auto simp: tell_chats_part_def split: if_splits)

lemma delete_begin_ok:
  assumes "namespace_ok sha256 users (ws_state w)" "delete_begin now w = (pc, a, w')"
  shows "step_ok sha256 users a w'"
proof (rule tell_chats_part_ok)
  let ?w = "touch_workspace now (on_state (\<lambda>st. st\<lparr>dw_status := WsDeleting, dw_provisioning_step := ''deleting'',
            dw_provisioning_message := ''Deleting demo workspace...''\<rparr>) w)"
  show "namespace_ok sha256 users (ws_state ?w)"
    using assms(1) by (simp add: namespace_ok_def on_state_def)
  show "tell_chats_part now (map wr_workflow_id (dw_chats (ws_state ?w))) ?w = (pc, a, w')"
    using assms(2) by (simp add: delete_begin_def Let_def)
qed

lemma delete_continue_ok:
  assumes "namespace_ok sha256 users (ws_state w)" "delete_continue now err pc w = Inr (pc', a, w')"
  shows "step_ok sha256 users a w'"
  using assms(2) tell_chats_part_ok [OF assms(1)] cancel_registry_part_ok [OF assms(1)]
    delete_namespace_part_ok [OF assms(1)] delete_finish_ok
  by (auto simp: delete_continue_def split: deletion.splits option.splits if_splits)

section \<open>The invariant of the machine\<close>

definition input_ok :: "(string \<Rightarrow> string) \<Rightarrow> string set \<Rightarrow> demo_workspace_input \<Rightarrow> bool" where
  "input_ok sha256 users inp = (case wi_state inp of None \<Rightarrow> True | Some st \<Rightarrow> namespace_ok sha256 users st)"

definition main_ok :: "(string \<Rightarrow> string) \<Rightarrow> string set \<Rightarrow> workspace_main \<Rightarrow> bool" where
  "main_ok sha256 users m = (case m of MainNotStarted inp \<Rightarrow> input_ok sha256 users inp | _ \<Rightarrow> True)"

lemma main_ok_simps [simp]:
  "main_ok sha256 users (MainNotStarted inp) = input_ok sha256 users inp"
  "main_ok sha256 users (MainWaits p)" "main_ok sha256 users (MainDeletes pc)" "main_ok sha256 users MainDone"
  by (simp_all add: main_ok_def)

lemma main_ok_mono: "main_ok sha256 users m \<Longrightarrow> users \<subseteq> users' \<Longrightarrow> main_ok sha256 users' m"
  by (auto simp: main_ok_def input_ok_def intro: namespace_ok_mono split: workspace_main.splits option.splits)

definition workspace_inv :: "(string \<Rightarrow> string) \<Rightarrow> workspace_system \<Rightarrow> bool" where
  "workspace_inv sha256 s =
     (namespace_ok sha256 (we_users s) (ws_state (we_workspace s)) \<and>
      (\<forall>a \<in> set (we_issued s). activity_ok sha256 (we_users s) a) \<and>
      main_ok sha256 (we_users s) (we_main s))"

lemma we_users_simps [simp]:
  "we_users (issue a s) = we_users s" "we_users (put_workspace w s) = we_users s" "we_users (start_job j s) = we_users s"
  by (auto simp: issue_def put_workspace_def start_job_def split: option.splits)

text \<open>Which fields matter to it, and what a step of the workspace does to it.\<close>

lemma workspace_inv_jobs [simp]:
  "workspace_inv sha256 (start_job j s) = workspace_inv sha256 s"
  "workspace_inv sha256 (put_job i j s) = workspace_inv sha256 s"
  by (auto simp: workspace_inv_def start_job_def put_job_def split: option.splits)

lemma workspace_inv_put:
  "workspace_inv sha256 s \<Longrightarrow> namespace_ok sha256 (we_users s) (ws_state w) \<Longrightarrow> workspace_inv sha256 (put_workspace w s)"
  by (simp add: workspace_inv_def put_workspace_def)

lemma workspace_inv_issue:
  "workspace_inv sha256 s \<Longrightarrow> step_ok sha256 (we_users s) a w \<Longrightarrow> workspace_inv sha256 (issue a (put_workspace w s))"
  by (auto simp: workspace_inv_def put_workspace_def issue_def step_ok_def split: option.splits)

lemma workspace_inv_now: "workspace_inv sha256 s \<Longrightarrow> namespace_ok sha256 (we_users s) (ws_state (we_workspace s))"
  by (simp add: workspace_inv_def)

lemma workspace_inv_users:
  assumes "workspace_inv sha256 s" "step_ok sha256 (insert u (we_users s)) a w"
  shows "workspace_inv sha256 ((start_job j (issue a (put_workspace w s)))\<lparr>we_users := insert u (we_users s)\<rparr>)"
proof -
  have sub: "we_users s \<subseteq> insert u (we_users s)" by blast
  show ?thesis
    using assms activity_ok_mono [OF _ sub] main_ok_mono [OF _ sub]
    by (auto simp: workspace_inv_def put_workspace_def issue_def start_job_def step_ok_def split: option.splits)
qed

lemma ensure_workspace_inv:
  assumes "workspace_inv sha256 s"
  shows "workspace_inv sha256 (ensure_workspace sha256 now config s)"
proof -
  obtain a w where e: "ensure_begin sha256 now config (we_workspace s) = (a, w)" by fastforce
  note ok = ensure_begin_ok [OF workspace_inv_now [OF assms] e]
  show ?thesis
  proof (cases a)
    case None
    then show ?thesis using ok assms by (simp add: ensure_workspace_def e workspace_inv_issue)
  next
    case (Some b)
    then have "step_ok sha256 (insert (wc_user_id config) (we_users s)) a w" using ok by simp
    from workspace_inv_users [OF assms this, of "Some (Provisioning config PNone 0)"] show ?thesis
      using Some by (simp add: ensure_workspace_def e)
  qed
qed

lemma crash_workspace_inv:
  assumes "workspace_inv sha256 s"
  shows "workspace_inv sha256 (crash_workspace s)"
proof (cases "crash_begin (we_workspace s)")
  case (Some a)
  then have "activity_ok sha256 (we_users s) a"
    using workspace_inv_now [OF assms] by (auto simp: crash_begin_def activity_ok_def namespace_ok_def split: if_splits)
  then have "workspace_inv sha256 (issue (Some a) s)" using assms by (simp add: workspace_inv_def issue_def)
  with Some show ?thesis by (simp add: crash_workspace_def)
qed (simp add: crash_workspace_def assms)

lemma delete_workspace_inv: "workspace_inv sha256 s \<Longrightarrow> workspace_inv sha256 (delete_workspace now s)"
  using delete_begin_ok [OF workspace_inv_now]
  by (auto simp: delete_workspace_def workspace_inv_issue split: prod.splits)

lemma job_step_inv:
  assumes "workspace_inv sha256 s"
  shows "workspace_inv sha256 (job_step now i j err value s)"
proof -
  note ok = workspace_inv_now [OF assms]
  show ?thesis
    using assms quiet_operations [OF ok] ensure_continue_ok [OF ok] delete_continue_ok [OF ok]
    by (auto simp: job_step_def Let_def workspace_inv_put workspace_inv_issue
        split: workspace_job.splits option.splits prod.splits sum.splits)
qed

lemma enter_loop_inv:
  assumes "workspace_inv sha256 s"
  shows "workspace_inv sha256 (enter_loop suggested s)"
  using assms by (auto simp: enter_loop_def workspace_inv_def input_ok_def continue_workspace_input_def
      DemoWorkspaceWorkflow_def DemoWorkspaceState_def namespace_ok_def split: workspace_pass.splits)

lemma main_deletion_inv:
  "workspace_inv sha256 s \<Longrightarrow> step_ok sha256 (we_users s) a w \<Longrightarrow> workspace_inv sha256 (main_deletion suggested (pc, a, w) s)"
  using workspace_inv_issue [of sha256 s a w]
  by (cases pc) (auto simp: main_deletion_def Let_def intro!: enter_loop_inv, auto simp: workspace_inv_def)

lemma workspace_next_inv:
  assumes "workspace_inv sha256 s" "workspace_next sha256 ev s = Some t"
  shows "workspace_inv sha256 t"
proof -
  note ok = workspace_inv_now [OF assms(1)]
  show ?thesis
  proof (cases ev)
    case (OpenWorkspace suggested)
    then obtain inp where "we_main s = MainNotStarted inp"
      "t = enter_loop suggested (put_workspace (start_workspace inp (we_workspace s)) s)"
      using assms(2) by (auto simp: workspace_next_def split: workspace_main.splits if_splits)
    moreover from this have "namespace_ok sha256 (we_users s) (ws_state (start_workspace inp (we_workspace s)))"
      using assms(1) by (auto simp: workspace_inv_def input_ok_def start_workspace_def Let_def namespace_ok_def
          DemoWorkspaceState_def split: option.splits)
    ultimately show ?thesis using assms(1) by (simp add: enter_loop_inv workspace_inv_put)
  next
    case (MainStep now suggested timed_out)
    obtain pc a w where "delete_begin now (we_workspace s) = (pc, a, w)" by (cases "delete_begin now (we_workspace s)")
    then show ?thesis
      using assms MainStep delete_begin_ok [OF ok, of now pc a w]
      by (auto simp: workspace_next_def enter_loop_inv main_deletion_inv split: workspace_main.splits if_splits)
  next
    case (MainDeletionStep now suggested err)
    then show ?thesis
      using assms delete_continue_ok [OF ok]
      by (auto simp: workspace_next_def main_deletion_inv split: workspace_main.splits if_splits sum.splits)
        (auto simp: workspace_inv_def)
  qed (use assms quiet_operations [OF ok] in \<open>auto simp: workspace_next_def ensure_workspace_inv crash_workspace_inv
      delete_workspace_inv job_step_inv workspace_inv_put split: if_splits workspace_main.splits option.splits\<close>)
qed

text \<open>The machine from any first input whose state, if it has one, is that of its user.\<close>

interpretation workspace: invariant_system
  "\<lambda>s. s = workspace_begin inp \<and> input_ok sha256 (input_users inp) inp" "workspace_step sha256" "workspace_inv sha256"
  for inp sha256
proof
  show "workspace_inv sha256 s" if "s = workspace_begin inp \<and> input_ok sha256 (input_users inp) inp" for s
    using that by (simp add: workspace_inv_def workspace_begin_def DemoWorkspaceWorkflow_def DemoWorkspaceState_def
        namespace_ok_def)
  show "workspace_inv sha256 t" if "workspace_inv sha256 s" "workspace_step sha256 s t" for s t
    using that(2) workspace_next_inv [OF that(1)] by (cases rule: workspace_step.cases)
qed

lemma workspace_states_inv:
  "workspace_states sha256 inp s \<Longrightarrow> input_ok sha256 (input_users inp) inp \<Longrightarrow> workspace_inv sha256 s"
  using workspace.reachable_inv [of inp sha256 s] by (simp add: workspace_states_def)

lemma workspace_states_trace:
  assumes "workspace_trace sha256 evs s = Some t" "workspace_states sha256 inp s"
  shows "workspace_states sha256 inp t"
  using assms
proof (induction evs arbitrary: s)
  case (Cons ev evs)
  from Cons.prems(1) obtain u where u: "workspace_next sha256 ev s = Some u" "workspace_trace sha256 evs u = Some t"
    by (auto split: option.splits)
  have "workspace_states sha256 inp u"
    using Cons.prems(2) u(1) unfolding workspace_states_def
    by (blast intro: reachable.reachable_step workspace_step.workspace_step_event)
  with u(2) show ?case by (rule Cons.IH)
qed simp

lemma workspace_states_begin: "workspace_states sha256 inp (workspace_begin inp)"
  by (simp add: workspace_states_def reachable.reachable_initial)

section \<open>Properties\<close>

text \<open>
  C27. The workflow never crashes or deletes a namespace that is not its own: however updates, signals,
  failing activities and new runs interleave, every activity that was issued to crash or delete a
  namespace names the demo namespace of a user whose workspace was asked for (or, in a new run, whose
  state was handed on), never the empty name and never that of anybody else.
\<close>

theorem workspace_destroys_only_its_own:
  assumes "workspace_states sha256 inp s" "input_ok sha256 (input_users inp) inp"
    and "a \<in> set (we_issued s)" "destroys a"
  shows "\<exists>user_id. user_id \<in> we_users s \<and> target_namespace a = Some (''agent-harness-demo-temp-'' @ take 8 (sha256 user_id))"
proof -
  have "activity_ok sha256 (we_users s) a"
    using workspace_states_inv [OF assms(1,2)] assms(3) by (simp add: workspace_inv_def)
  then show ?thesis
    using assms(4) by (auto simp: activity_ok_def destroys_def user_namespace_def split: option.splits workspace_activity.splits)
qed

definition sample_workspace_config :: demo_workspace_config where
  "sample_workspace_config = \<lparr>wc_user_id = ''u'', wc_user_email = [], wc_control_workflow_id = ''c'',
     wc_temporal_namespace = ''tns'', wc_source_namespace = [], wc_source_secret_name = [], wc_tls_secret_name = [],
     wc_host_suffix = ''.x'', wc_parent_public_url = [], wc_task_queue_prefix = ''q'', wc_workflow_prefix_prefix = ''p'',
     wc_source_web_deployment = [], wc_source_api_deployment = [], wc_source_worker_deployment = [],
     wc_service_account_role_arn = [], wc_search_attr_name = []\<rparr>"

definition sample_workspace_input :: demo_workspace_input where
  "sample_workspace_input = \<lparr>wi_user_id = ''u'', wi_user_email = [], wi_search_attr_name = [], wi_state = None\<rparr>"

definition sample_sha256 :: "string \<Rightarrow> string" where
  "sample_sha256 _ = ''0123456789abcdef0123456789abcdef0123456789abcdef0123456789abcdef''"

text \<open>Provisioning without incident, then the deletion of a workspace that was idle for an hour.\<close>

definition provisioned :: "workspace_event list" where
  "provisioned = [OpenWorkspace False, EnsureWorkspace 1 sample_workspace_config] @
     map (\<lambda>t. JobStep t 0 None PNone) [2, 3, 4, 5, 6, 7, 8]"

definition idle_deleted :: "workspace_event list" where
  "idle_deleted = provisioned @ [MainStep 9 False False, MainStep (IDLE_TIMEOUT + 8) False True,
     MainDeletionStep (IDLE_TIMEOUT + 9) False None, MainDeletionStep (IDLE_TIMEOUT + 10) False None]"

definition workspace_after :: "workspace_event list \<Rightarrow> workspace_system" where
  "workspace_after evs = (case workspace_trace sample_sha256 evs (workspace_begin sample_workspace_input) of
     None \<Rightarrow> workspace_begin sample_workspace_input | Some s \<Rightarrow> s)"

lemma workspace_after_reachable: "workspace_states sample_sha256 sample_workspace_input (workspace_after evs)"
  by (auto simp: workspace_after_def workspace_states_begin split: option.splits
      intro: workspace_states_trace [OF _ workspace_states_begin])

lemma provisioned_state:
  "dw_status (ws_state (we_workspace (workspace_after provisioned))) = WsActive \<and>
   map activity_name (rev (we_issued (workspace_after provisioned))) =
     [''resolve_demo_workspace_images'', ''create_demo_workspace_namespace'', ''configure_demo_workspace'',
      ''deploy_demo_workspace_workloads'', ''wait_demo_workspace_deployment'', ''wait_demo_workspace_deployment'',
      ''wait_demo_workspace_deployment'']"
  by code_simp

lemma idle_deleted_state:
  "we_main (workspace_after idle_deleted) = MainDone \<and>
   dw_status (ws_state (we_workspace (workspace_after idle_deleted))) = WsDeleted \<and>
   hd (we_issued (workspace_after idle_deleted)) = DeleteNamespace ''agent-harness-demo-temp-01234567'' \<and>
   we_issued (workspace_after idle_deleted) \<noteq> []"
  by code_simp

lemma workspace_destroys_only_its_own_witness:
  "\<exists>user_id. user_id \<in> we_users (workspace_after idle_deleted) \<and>
     target_namespace (DeleteNamespace ''agent-harness-demo-temp-01234567'') =
       Some (''agent-harness-demo-temp-'' @ take 8 (sample_sha256 user_id))"
proof (rule workspace_destroys_only_its_own [OF workspace_after_reachable])
  show "input_ok sample_sha256 (input_users sample_workspace_input) sample_workspace_input"
    by (simp add: input_ok_def sample_workspace_input_def)
  show "DeleteNamespace ''agent-harness-demo-temp-01234567'' \<in> set (we_issued (workspace_after idle_deleted))"
    using idle_deleted_state by (metis hd_in_set)
qed (simp add: destroys_def)

text \<open>The main loop deletes only an active workspace, idle for the whole timeout, while no update waits.\<close>

lemma idle_deletion_is_due:
  "deletes_idle now finished p w \<Longrightarrow>
   dw_status (ws_state w) = WsActive \<and> finished \<and>
   (\<exists>t. dw_last_activity_at (ws_state w) = Some t \<and> now - t \<ge> 60 * 60 * 1000000)"
  by (auto simp: deletes_idle_def idle_expired_def IDLE_TIMEOUT_def split: workspace_pass.splits option.splits)

section \<open>What overlapping updates do\<close>

text \<open>
  A workspace may be deleted while it is being provisioned, and the provisioning goes on. Here the
  namespace is created again after it was asked to be deleted; the state then says \<open>deleted\<close> and the
  workflow is over, so nothing deletes the namespace again.
\<close>

lemma deletion_during_provisioning:
  "case workspace_after [OpenWorkspace False, EnsureWorkspace 1 sample_workspace_config, DeleteUpdate 2,
       JobStep 3 1 None PNone, JobStep 4 0 None PNone, JobStep 5 1 None PNone, MainStep 5 False False] of s \<Rightarrow>
     map activity_name (we_issued s) =
       [''create_demo_workspace_namespace'', ''delete_demo_workspace'', ''resolve_demo_workspace_images''] \<and>
     target_namespace (hd (we_issued s)) = Some ''agent-harness-demo-temp-01234567'' \<and>
     dw_status (ws_state (we_workspace s)) = WsDeleted \<and> we_main s = MainDone"
  by code_simp

text \<open>Or the provisioning ends first: the workspace is then shown as active while it is being deleted.\<close>

lemma deleting_workspace_becomes_active:
  "case workspace_after ([OpenWorkspace False, EnsureWorkspace 1 sample_workspace_config, DeleteUpdate 2] @
       map (\<lambda>t. JobStep t 0 None PNone) [3, 4, 5, 6, 7, 8, 9]) of s \<Rightarrow>
     dw_status (ws_state (we_workspace s)) = WsActive \<and> we_jobs s = [(1, Deletion CancellingRegistry)]"
  by code_simp

text \<open>
  A deletion that failed leaves the status \<open>deleting\<close>, in which \<open>delete_workspace\<close> does nothing: it
  cannot be tried again.
\<close>

lemma failed_deletion_cannot_be_retried:
  "dw_status (ws_state (we_workspace s)) = WsDeleting \<Longrightarrow> delete_workspace now s = s"
  by (simp add: delete_workspace_def)

text \<open>
  When a new run is suggested while an update waits, the condition the loop waits for holds already, so
  the loop goes round without pause until the update is done.
\<close>

lemma suggested_run_does_not_pause:
  "\<not> ws_finished w \<Longrightarrow> wait_over True timed_out (loop_head True False w) w"
  by (simp add: wait_over_def loop_head_def)

text \<open>An update handled before \<open>run\<close> starts works on a state that \<open>run\<close> then replaces.\<close>

lemma early_workspace_is_replaced:
  "case workspace_after [EnsureWorkspace 1 sample_workspace_config, OpenWorkspace False, JobStep 2 0 None PNone] of s \<Rightarrow>
     hd (we_issued s) = CreateNamespace (provision_request sample_workspace_config (DemoWorkspaceState ''u'' []))"
  by code_simp

end
