(* ===== verification/Streaming.thy ===== *)
theory Streaming
  imports ProviderInterface Tools
begin

text \<open>
  \<open>agent_harness/streaming.py\<close>: the events a running agent shows to the user. What handles an event
  (the sink) is a parameter; a payload is a dictionary. A function of a provider that emits events is
  the list of what it emits, kind and payload, and the change of its own state: that state is local to
  the activity, so what it would be when emitting raises is seen by nobody.
\<close>

record stream_event =
  se_stream_id :: "string option"
  se_tool_name :: "string option"
  se_step :: "string option"
  se_kind :: string
  se_payload :: pyval
  se_sequence :: int

datatype agent_stream_event_kind =
    AGENT_START | AGENT_TEXT_DELTA | AGENT_THINKING_START | AGENT_THINKING_DELTA
  | AGENT_TOOL_INPUT_START | AGENT_TOOL_INPUT_DELTA | AGENT_TOOL_INPUT_COMPLETE
  | AGENT_COMPLETE | AGENT_CANCELLED

fun event_kind_value :: "agent_stream_event_kind \<Rightarrow> string" where
  "event_kind_value AGENT_START = ''agent_start''"
| "event_kind_value AGENT_TEXT_DELTA = ''agent_text_delta''"
| "event_kind_value AGENT_THINKING_START = ''agent_thinking_start''"
| "event_kind_value AGENT_THINKING_DELTA = ''agent_thinking_delta''"
| "event_kind_value AGENT_TOOL_INPUT_START = ''agent_tool_input_start''"
| "event_kind_value AGENT_TOOL_INPUT_DELTA = ''agent_tool_input_delta''"
| "event_kind_value AGENT_TOOL_INPUT_COMPLETE = ''agent_tool_input_complete''"
| "event_kind_value AGENT_COMPLETE = ''agent_complete''"
| "event_kind_value AGENT_CANCELLED = ''agent_cancelled''"

section \<open>Emitting\<close>

text \<open>The module state: the sink with what it raises on an event, and whether that is passed on.\<close>

record stream_env =
  sv_sink :: "(stream_event \<Rightarrow> py_exn option) option"
  sv_raise_stream_errors :: bool
  sv_activity_attempt :: "int option"

text \<open>The context of a stream, and the events given to the sink, the latest last.\<close>

record stream_context =
  sc_stream_id :: "string option"
  sc_tool_name :: "string option"
  sc_step :: "string option"
  sc_sequence :: int
  sc_emitted :: "stream_event list"

definition is_exception :: "py_exn \<Rightarrow> bool" where
  "is_exception e = (case exn_kind e of ExcBase _ \<Rightarrow> False | _ \<Rightarrow> True)"

definition stream_emit :: "stream_env \<Rightarrow> pyval \<Rightarrow> string \<Rightarrow> (stream_context, unit) op" where
  "stream_emit env payload kind ctx =
     (case sv_sink env of
        None \<Rightarrow> (Inr (), ctx)
      | Some emit \<Rightarrow>
          (let event = \<lparr>se_stream_id = sc_stream_id ctx, se_tool_name = sc_tool_name ctx, se_step = sc_step ctx,
                 se_kind = kind, se_payload = payload, se_sequence = sc_sequence ctx + 1\<rparr>;
               ctx = ctx\<lparr>sc_sequence := sc_sequence ctx + 1, sc_emitted := sc_emitted ctx @ [event]\<rparr>
           in case emit event of
                None \<Rightarrow> (Inr (), ctx)
              | Some e \<Rightarrow> if is_exception e \<and> \<not> sv_raise_stream_errors env then (Inr (), ctx) else (Inl e, ctx)))"

definition attempt_payload :: "int option \<Rightarrow> int option \<Rightarrow> pydict" where
  "attempt_payload activity_attempt stream_attempt =
     (let payload = (case stream_attempt of None \<Rightarrow> [] | Some n \<Rightarrow> [(''stream_attempt'', PInt n)]) @
            (case activity_attempt of None \<Rightarrow> [] | Some n \<Rightarrow> [(''activity_attempt'', PInt n)])
      in case stream_attempt of
           None \<Rightarrow> payload @ (case activity_attempt of None \<Rightarrow> [] | Some n \<Rightarrow> [(''attempt'', PInt n)])
         | Some n \<Rightarrow>
             payload @ [(''attempt'', PInt (n * 1000 +
               (case activity_attempt of None \<Rightarrow> 1 | Some a \<Rightarrow> if a = 0 then 1 else a)))])"

section \<open>The writer of a provider\<close>

type_synonym emission = "agent_stream_event_kind \<times> pydict"

record agent_stream_writer =
  aw_provider :: string
  aw_attempt :: "int option"

definition for_provider :: "string option \<Rightarrow> string option \<Rightarrow> string \<Rightarrow> int option \<Rightarrow> agent_stream_writer \<times> stream_context" where
  "for_provider stream_id step provider_name attempt =
     (\<lparr>aw_provider = provider_name, aw_attempt = attempt\<rparr>,
      \<lparr>sc_stream_id = stream_id, sc_tool_name = Some ''agent'', sc_step = step, sc_sequence = 0, sc_emitted = []\<rparr>)"

definition writer_emit :: "stream_env \<Rightarrow> agent_stream_writer \<Rightarrow> emission \<Rightarrow> (stream_context, unit) op" where
  "writer_emit env w em =
     stream_emit env
       (PDict (dict_update (dict_update [(''provider'', PStr (aw_provider w))] (snd em))
          (attempt_payload (sv_activity_attempt env) (aw_attempt w))))
       (event_kind_value (fst em))"

fun writer_emit_all :: "stream_env \<Rightarrow> agent_stream_writer \<Rightarrow> emission list \<Rightarrow> (stream_context, unit) op" where
  "writer_emit_all env w [] = op_return ()"
| "writer_emit_all env w (em # ems) = op_bind (writer_emit env w em) (\<lambda>_. writer_emit_all env w ems)"

definition opt_int :: "int option \<Rightarrow> pyval" where
  "opt_int n = (case n of None \<Rightarrow> PNone | Some i \<Rightarrow> PInt i)"

definition opt_dict :: "pydict option \<Rightarrow> pyval" where
  "opt_dict d = (case d of None \<Rightarrow> PNone | Some e \<Rightarrow> PDict e)"

definition agent_started :: "int option \<Rightarrow> emission" where
  "agent_started sequence = (AGENT_START, [(''sequence'', opt_int sequence)])"

definition agent_cancelled :: "int option \<Rightarrow> emission" where
  "agent_cancelled sequence = (AGENT_CANCELLED, [(''sequence'', opt_int sequence)])"

definition agent_completed ::
  "int option \<Rightarrow> string option \<Rightarrow> string option \<Rightarrow> string option \<Rightarrow> pydict option \<Rightarrow> string \<Rightarrow> pydict \<Rightarrow> emission" where
  "agent_completed sequence response_id model stop_reason stop_details txt usage =
     (AGENT_COMPLETE, [(''id'', opt_str response_id), (''model'', opt_str model), (''sequence'', opt_int sequence),
        (''stop_reason'', opt_str stop_reason), (''stop_details'', opt_dict stop_details), (''text'', PStr txt),
        (''usage'', PDict usage)])"

text \<open>What a stream has emitted when it is cancelled after the events \<open>ems\<close>.\<close>

definition cancelled_emissions :: "int option \<Rightarrow> emission list \<Rightarrow> emission list" where
  "cancelled_emissions sequence ems = agent_started sequence # ems @ [agent_cancelled sequence]"

definition text_delta :: "int option \<Rightarrow> string \<Rightarrow> emission" where
  "text_delta sequence txt = (AGENT_TEXT_DELTA, [(''sequence'', opt_int sequence), (''text'', PStr txt)])"

definition thinking_started :: "int option \<Rightarrow> int \<Rightarrow> emission" where
  "thinking_started sequence content_block_index =
     (AGENT_THINKING_START, [(''sequence'', opt_int sequence), (''content_block_index'', PInt content_block_index)])"

definition thinking_delta :: "int option \<Rightarrow> string \<Rightarrow> emission" where
  "thinking_delta sequence thinking =
     (AGENT_THINKING_DELTA, [(''sequence'', opt_int sequence), (''thinking'', PStr thinking)])"

text \<open>The fields the three events of a tool input share; the identifiers are as the provider gave them.\<close>

definition tool_input_fields :: "int option \<Rightarrow> int \<Rightarrow> pyval \<Rightarrow> pyval \<Rightarrow> pyval \<Rightarrow> pydict" where
  "tool_input_fields sequence content_block_index tool_use_id tool_name tool_type =
     [(''sequence'', opt_int sequence), (''content_block_index'', PInt content_block_index),
      (''tool_use_id'', tool_use_id), (''tool_name'', tool_name), (''tool_type'', tool_type)]"

definition tool_input_started :: "int option \<Rightarrow> int \<Rightarrow> pyval \<Rightarrow> pyval \<Rightarrow> pyval \<Rightarrow> emission" where
  "tool_input_started sequence i tool_use_id tool_name tool_type =
     (AGENT_TOOL_INPUT_START, tool_input_fields sequence i tool_use_id tool_name tool_type)"

definition tool_input_delta :: "int option \<Rightarrow> int \<Rightarrow> pyval \<Rightarrow> pyval \<Rightarrow> pyval \<Rightarrow> string \<Rightarrow> emission" where
  "tool_input_delta sequence i tool_use_id tool_name tool_type partial_json =
     (AGENT_TOOL_INPUT_DELTA, tool_input_fields sequence i tool_use_id tool_name tool_type @
        [(''partial_json'', PStr partial_json)])"

definition tool_input_completed :: "int option \<Rightarrow> int \<Rightarrow> pyval \<Rightarrow> pyval \<Rightarrow> pyval \<Rightarrow> pyval \<Rightarrow> string \<Rightarrow> emission" where
  "tool_input_completed sequence i tool_use_id tool_name tool_type inp input_preview =
     (AGENT_TOOL_INPUT_COMPLETE, tool_input_fields sequence i tool_use_id tool_name tool_type @
        [(''input'', inp), (''input_preview'', PStr input_preview)])"

text \<open>\<open>json_preview\<close> of \<open>providers/_shared.py\<close>; the values are JSON-like, so \<open>json.dumps\<close> does not raise.\<close>

definition json_preview :: "pyval \<Rightarrow> string" where
  "json_preview value =
     (let encoded = json_dumps (json_sort_keys value)
      in if length encoded \<le> 2000 then encoded else drop (length encoded - 2000) encoded)"

section \<open>What is emitted\<close>

text \<open>The texts of the events of a kind, in the order they were emitted.\<close>

definition emitted_texts :: "agent_stream_event_kind \<Rightarrow> string \<Rightarrow> emission list \<Rightarrow> string" where
  "emitted_texts kind field ems =
     concat (map (\<lambda>em. case dict_get_none (snd em) field of PStr t \<Rightarrow> t | _ \<Rightarrow> []) (filter (\<lambda>em. fst em = kind) ems))"

lemma emitted_texts_append [simp]:
  "emitted_texts kind field (xs @ ys) = emitted_texts kind field xs @ emitted_texts kind field ys"
  by (simp add: emitted_texts_def)

lemma emitted_texts_Nil [simp]: "emitted_texts kind field [] = []"
  by (simp add: emitted_texts_def)

lemma emitted_text_simps [simp]:
  "emitted_texts AGENT_TEXT_DELTA ''text'' (text_delta q t # ems) = t @ emitted_texts AGENT_TEXT_DELTA ''text'' ems"
  "emitted_texts AGENT_TEXT_DELTA ''text'' (thinking_started q i # ems) = emitted_texts AGENT_TEXT_DELTA ''text'' ems"
  "emitted_texts AGENT_TEXT_DELTA ''text'' (thinking_delta q t # ems) = emitted_texts AGENT_TEXT_DELTA ''text'' ems"
  "emitted_texts AGENT_TEXT_DELTA ''text'' (tool_input_started q i u n ty # ems) = emitted_texts AGENT_TEXT_DELTA ''text'' ems"
  "emitted_texts AGENT_TEXT_DELTA ''text'' (tool_input_delta q i u n ty p # ems) = emitted_texts AGENT_TEXT_DELTA ''text'' ems"
  "emitted_texts AGENT_TEXT_DELTA ''text'' (tool_input_completed q i u n ty v w # ems) = emitted_texts AGENT_TEXT_DELTA ''text'' ems"
  "emitted_texts AGENT_TEXT_DELTA ''text'' (agent_started q # ems) = emitted_texts AGENT_TEXT_DELTA ''text'' ems"
  "emitted_texts AGENT_TEXT_DELTA ''text'' (agent_completed q rid m r d t us # ems) = emitted_texts AGENT_TEXT_DELTA ''text'' ems"
  by (simp_all add: emitted_texts_def text_delta_def thinking_started_def thinking_delta_def tool_input_started_def
      tool_input_delta_def tool_input_completed_def agent_started_def agent_completed_def dict_get_none_def)

text \<open>
  When the sink raises nothing, or nothing that is passed on, every emission reaches it, numbered from
  one in order.
\<close>

definition quiet_sink :: "stream_env \<Rightarrow> bool" where
  "quiet_sink env = (\<exists>emit. sv_sink env = Some emit \<and>
     (\<forall>ev e. emit ev = Some e \<longrightarrow> is_exception e \<and> \<not> sv_raise_stream_errors env))"

lemma writer_emit_quiet:
  assumes "quiet_sink env"
  shows "\<exists>ctx'. writer_emit env w em ctx = (Inr (), ctx') \<and> sc_sequence ctx' = sc_sequence ctx + 1 \<and>
     (\<exists>ev. sc_emitted ctx' = sc_emitted ctx @ [ev] \<and> se_sequence ev = sc_sequence ctx + 1 \<and>
        se_kind ev = event_kind_value (fst em))"
  using assms by (auto simp: quiet_sink_def writer_emit_def stream_emit_def Let_def split: option.splits)

lemma writer_emit_all_quiet:
  assumes "quiet_sink env"
  shows "\<exists>ctx'. writer_emit_all env w ems ctx = (Inr (), ctx') \<and>
     sc_sequence ctx' = sc_sequence ctx + int (length ems) \<and>
     (\<exists>evs. sc_emitted ctx' = sc_emitted ctx @ evs \<and> map se_kind evs = map (event_kind_value \<circ> fst) ems \<and>
        map se_sequence evs = map (\<lambda>i. sc_sequence ctx + 1 + int i) [0..<length ems])"
proof (induction ems arbitrary: ctx)
  case (Cons em ems)
  from writer_emit_quiet [OF assms, of w em ctx] obtain ctx1 ev where 1:
    "writer_emit env w em ctx = (Inr (), ctx1)" "sc_sequence ctx1 = sc_sequence ctx + 1"
    "sc_emitted ctx1 = sc_emitted ctx @ [ev]" "se_sequence ev = sc_sequence ctx + 1"
    "se_kind ev = event_kind_value (fst em)" by blast
  from Cons.IH [of ctx1] obtain ctx2 evs where 2:
    "writer_emit_all env w ems ctx1 = (Inr (), ctx2)" "sc_sequence ctx2 = sc_sequence ctx1 + int (length ems)"
    "sc_emitted ctx2 = sc_emitted ctx1 @ evs" "map se_kind evs = map (event_kind_value \<circ> fst) ems"
    "map se_sequence evs = map (\<lambda>i. sc_sequence ctx1 + 1 + int i) [0..<length ems]" by blast
  have "map se_sequence (ev # evs) = map (\<lambda>i. sc_sequence ctx + 1 + int i) [0..<length (em # ems)]"
    using 1 2 by (simp add: map_upt_Suc algebra_simps del: upt_Suc)
  with 1 2 show ?case by (auto simp: op_bind_def)
qed (simp)

end
