(* ===== verification/Claude.thy ===== *)
theory Claude
  imports Streaming ToolExchanges
begin

text \<open>
  \<open>agent_harness/providers/claude.py\<close>: requests and responses of the Claude provider, the conversion
  of the conversation to Anthropic's format and back, and the events of its stream. The objects of the
  SDK are the dictionaries they convert to. The HTTP client is not modelled; what it returns or raises
  is an argument.
\<close>

section \<open>Values read from dictionaries\<close>

text \<open>\<open>d.get(k, default)\<close>.\<close>

definition dict_get_or :: "pydict \<Rightarrow> string \<Rightarrow> pyval \<Rightarrow> pyval" where
  "dict_get_or d k v = (case dict_get d k of None \<Rightarrow> v | Some w \<Rightarrow> w)"

text \<open>
  \<open>typing.cast\<close> checks nothing: a value of another type would be stored as it is. The records here are
  typed, so what they hold then is left open.
\<close>

definition cast_str :: "pyval \<Rightarrow> string" where
  "cast_str v = (case v of PStr s \<Rightarrow> s | _ \<Rightarrow> undefined)"

definition cast_int :: "pyval \<Rightarrow> int" where
  "cast_int v = (case v of PInt i \<Rightarrow> i | _ \<Rightarrow> undefined)"

definition cast_opt_str :: "pyval \<Rightarrow> string option" where
  "cast_opt_str v = (if v = PNone then None else Some (cast_str v))"

definition cast_opt_int :: "pyval \<Rightarrow> int option" where
  "cast_opt_int v = (if v = PNone then None else Some (cast_int v))"

lemma cast_simps [simp]:
  "cast_str (PStr s) = s" "cast_int (PInt i) = i" "cast_opt_str (opt_str so) = so" "cast_opt_int (opt_int io) = io"
  by (simp_all add: cast_str_def cast_int_def cast_opt_str_def cast_opt_int_def opt_str_def opt_int_def split: option.splits)

lemma copy_optional_mapping_opt_dict [simp]: "copy_optional_mapping (opt_dict d) = d"
  by (cases d) (simp_all add: copy_optional_mapping_def opt_dict_def copy_mapping_def)

lemma mapping_list_dicts [simp]: "mapping_list (PList (map PDict ds)) = ds"
  by (simp add: mapping_list_def copy_mapping_def comp_def)

section \<open>Requests and responses\<close>

definition DEFAULT_THINKING_BUDGET_TOKENS :: int where
  "DEFAULT_THINKING_BUDGET_TOKENS = 4096"

definition MIN_THINKING_BUDGET_TOKENS :: int where
  "MIN_THINKING_BUDGET_TOKENS = 1024"

definition CLAUDE_REFUSAL_FALLBACK :: string where
  "CLAUDE_REFUSAL_FALLBACK =
     ''Claude refused this turn. Anthropic did not return a provider-generated '' @
     ''refusal message, so the app stopped this agent run instead of retrying '' @
     ''the same request.''"

record claude_thinking_config =
  ct_enabled :: bool
  ct_mode :: string
  ct_budget_tokens :: int
  ct_effort :: "string option"
  ct_display :: "string option"

definition ClaudeThinkingConfig :: claude_thinking_config where
  "ClaudeThinkingConfig = \<lparr>ct_enabled = False, ct_mode = ''enabled'',
     ct_budget_tokens = DEFAULT_THINKING_BUDGET_TOKENS, ct_effort = None, ct_display = None\<rparr>"

record claude_request = provider_request +
  cq_thinking :: "pydict option"
  cq_output_config :: "pydict option"

text \<open>The parameters \<open>thinking\<close> and \<open>output_config\<close> of a request.\<close>

definition thinking_request_params :: "claude_thinking_config option \<Rightarrow> int \<Rightarrow> (pydict option \<times> pydict option) res" where
  "thinking_request_params thinking max_tokens =
     (case thinking of
        None \<Rightarrow> Inr (None, None)
      | Some t \<Rightarrow>
          (let display = (case ct_display t of None \<Rightarrow> [] | Some d \<Rightarrow> [(''display'', PStr d)]) in
           if \<not> ct_enabled t then Inr (None, None)
           else if ct_mode t = ''adaptive''
           then Inr (Some ((''type'', PStr ''adaptive'') # display),
                     map_option (\<lambda>e. [(''effort'', PStr e)]) (ct_effort t))
           else if max_tokens \<le> MIN_THINKING_BUDGET_TOKENS
           then Inl (value_error ''max_tokens must be greater than 1024 when extended thinking is enabled'')
           else Inr (Some ([(''type'', PStr ''enabled''),
                      (''budget_tokens'', PInt (min (max MIN_THINKING_BUDGET_TOKENS (ct_budget_tokens t)) (max_tokens - 1)))]
                      @ display), None)))"

definition claude_request_to_dict :: "claude_request \<Rightarrow> pydict" where
  "claude_request_to_dict r =
     [(''system_prompt'', PStr (pq_system_prompt r)), (''model'', PStr (pq_model r)),
      (''max_tokens'', PInt (pq_max_tokens r)), (''context_token_limit'', opt_int (pq_context_token_limit r)),
      (''thinking'', opt_dict (cq_thinking r)), (''tools'', PList (map PDict (pq_tools r))),
      (''chat_history'', PList (map PDict (pq_chat_history r))), (''stream_id'', opt_str (pq_stream_id r)),
      (''stream_sequence'', opt_int (pq_stream_sequence r)), (''stream_attempt'', opt_int (pq_stream_attempt r)),
      (''output_config'', opt_dict (cq_output_config r))]"

definition claude_request_from_dict :: "pydict \<Rightarrow> claude_request res" where
  "claude_request_from_dict d =
     res_bind (dict_index d ''system_prompt'') (\<lambda>system_prompt.
     res_bind (dict_index d ''model'') (\<lambda>model.
     res_bind (dict_index d ''max_tokens'') (\<lambda>max_tokens.
       Inr \<lparr>pq_system_prompt = cast_str system_prompt, pq_model = cast_str model, pq_max_tokens = cast_int max_tokens,
            pq_tools = mapping_list (dict_get_or d ''tools'' (PList [])),
            pq_chat_history = mapping_list (dict_get_or d ''chat_history'' (PList [])),
            pq_context_token_limit = cast_opt_int (dict_get_none d ''context_token_limit''),
            pq_stream_id = cast_opt_str (dict_get_none d ''stream_id''),
            pq_stream_sequence = cast_opt_int (dict_get_none d ''stream_sequence''),
            pq_stream_attempt = cast_opt_int (dict_get_none d ''stream_attempt''),
            cq_thinking = copy_optional_mapping (dict_get_none d ''thinking''),
            cq_output_config = copy_optional_mapping (dict_get_none d ''output_config'')\<rparr>)))"

text \<open>The response of every provider has the same fields and the same dictionary.\<close>

definition response_to_dict :: "provider_response \<Rightarrow> pydict" where
  "response_to_dict r =
     [(''id'', PStr (pr_id r)), (''model'', PStr (pr_model r)), (''message'', PDict (pr_message r)),
      (''stop_reason'', opt_str (pr_stop_reason r)), (''stop_sequence'', opt_str (pr_stop_sequence r)),
      (''usage'', PDict (pr_usage r)), (''guard_action'', opt_str (pr_guard_action r)),
      (''guard_reason'', opt_str (pr_guard_reason r)), (''stop_details'', opt_dict (pr_stop_details r))]"

text \<open>The way back; the providers differ in how they read the message.\<close>

definition response_from_dict :: "(pyval \<Rightarrow> pydict res) \<Rightarrow> pydict \<Rightarrow> provider_response res" where
  "response_from_dict read_message d =
     res_bind (dict_index d ''id'') (\<lambda>response_id.
     res_bind (dict_index d ''model'') (\<lambda>model.
     res_bind (dict_index d ''message'') (\<lambda>msg.
     res_bind (read_message msg) (\<lambda>msg.
       Inr \<lparr>pr_id = cast_str response_id, pr_model = cast_str model, pr_message = msg,
            pr_stop_reason = cast_opt_str (dict_get_none d ''stop_reason''),
            pr_stop_sequence = cast_opt_str (dict_get_none d ''stop_sequence''),
            pr_usage = copy_mapping (dict_get_or d ''usage'' (PDict [])),
            pr_guard_action = cast_opt_str (dict_get_none d ''guard_action''),
            pr_guard_reason = cast_opt_str (dict_get_none d ''guard_reason''),
            pr_stop_details = copy_optional_mapping (dict_get_none d ''stop_details'')\<rparr>))))"

definition claude_response_from_dict :: "pydict \<Rightarrow> provider_response res" where
  "claude_response_from_dict = response_from_dict (\<lambda>msg. Inr (copy_mapping msg))"

definition claude_response_from_guard_execution :: "llm_guard_execution \<Rightarrow> string \<Rightarrow> provider_response res" where
  "claude_response_from_guard_execution execution model =
     claude_response_from_dict (guard_response_dict execution model
       [(''role'', PStr ''assistant''), (''content'', PStr ''The response was blocked by an LLM guard.'')] ''refusal'')"

section \<open>Agent messages to Claude messages\<close>

definition agent_tool_use_to_claude_block :: "pydict \<Rightarrow> pydict res" where
  "agent_tool_use_to_claude_block b =
     (let claude_block = (case provider_data b ''claude'' of Some d \<Rightarrow> d | None \<Rightarrow> [(''type'', PStr ''tool_use'')]);
          claude_block = dict_set ''type'' (PStr ''tool_use'') claude_block
      in res_bind (dict_index b ''id'') (\<lambda>tool_id.
         res_bind (dict_index b ''name'') (\<lambda>name.
           Inr (dict_set ''input'' (PDict (copy_mapping (dict_get_or b ''input'' (PDict []))))
                 (dict_set ''name'' name (dict_set ''id'' tool_id claude_block))))))"

definition agent_tool_result_to_claude_block :: "pydict \<Rightarrow> pydict res" where
  "agent_tool_result_to_claude_block b =
     (let claude_block = (case provider_data b ''claude'' of Some d \<Rightarrow> d | None \<Rightarrow> [(''type'', PStr ''tool_result'')]);
          claude_block = dict_set ''type'' (PStr ''tool_result'') claude_block
      in res_bind (dict_index b ''tool_use_id'') (\<lambda>tool_id.
           Inr (dict_set ''is_error'' (PBool (truthy (dict_get_or b ''is_error'' (PBool False))))
                 (dict_set ''content'' (dict_get_or b ''content'' (PStr []))
                   (dict_set ''tool_use_id'' tool_id claude_block)))))"

text \<open>The text of a text block, of a compaction marker and of a refusal, as all providers read it.\<close>

definition text_of_block :: "pydict \<Rightarrow> string" where
  "text_of_block b = py_str (py_or (dict_get_none b ''text'') (PStr []))"

definition marker_text :: "pydict \<Rightarrow> string" where
  "marker_text b = py_str (py_or (dict_get_none b ''text'') (PStr CONTEXT_COMPACTION_MARKER_TEXT))"

definition refusal_text :: "pydict \<Rightarrow> string" where
  "refusal_text b = (case dict_get_none b ''refusal'' of PStr s \<Rightarrow> s | _ \<Rightarrow> [])"

definition agent_block_to_claude_block :: "pydict \<Rightarrow> pydict option res" where
  "agent_block_to_claude_block b =
     (if block_type_is b ''text'' then Inr (Some [(''type'', PStr ''text''), (''text'', PStr (text_of_block b))])
      else if block_type_is b CONTEXT_COMPACTION_MARKER
      then Inr (Some [(''type'', PStr ''text''), (''text'', PStr (marker_text b))])
      else if block_type_is b ''tool_use'' then res_bind (agent_tool_use_to_claude_block b) (\<lambda>d. Inr (Some d))
      else if block_type_is b ''tool_result'' then res_bind (agent_tool_result_to_claude_block b) (\<lambda>d. Inr (Some d))
      else if block_type_is b ''provider'' \<and> dict_get b ''provider'' = Some (PStr ''claude'')
      then Inr (case dict_get_none b ''data'' of PDict d \<Rightarrow> Some d | _ \<Rightarrow> None)
      else if block_type_is b ''refusal''
      then Inr (Some [(''type'', PStr ''text''), (''text'', PStr (refusal_text b))])
      else Inr None)"

definition agent_message_to_claude_message :: "pydict \<Rightarrow> pydict res" where
  "agent_message_to_claude_message msg =
     res_bind (normalize_message msg) (\<lambda>m.
     res_bind (case msg_content m of
         Text s \<Rightarrow> Inr (PStr s)
       | Blocks bs \<Rightarrow> res_bind (res_map agent_block_to_claude_block bs)
           (\<lambda>blocks. Inr (PList (map PDict (List.map_filter (\<lambda>x. x) blocks))))) (\<lambda>cont.
       Inr [(''role'', PStr (role_str (msg_role m))), (''content'', cont)]))"

definition agent_messages_to_claude_messages :: "pydict list \<Rightarrow> pydict list res" where
  "agent_messages_to_claude_messages = res_map agent_message_to_claude_message"

section \<open>Claude messages to agent messages\<close>

definition claude_block_to_agent_block :: "pyval \<Rightarrow> pydict res" where
  "claude_block_to_agent_block v =
     (let d = copy_mapping v in
      if block_type_is d ''text'' then Inr (text_block (text_of_block d))
      else if block_type_is d ''tool_use''
      then res_bind (dict_index d ''id'') (\<lambda>tool_id.
           res_bind (dict_index d ''name'') (\<lambda>name.
             Inr (tool_use_block tool_id name (copy_mapping (dict_get_or d ''input'' (PDict [])))
               (Some (provider_metadata ''claude'' ''tool_use'' d)))))
      else if block_type_is d ''tool_result''
      then Inr [(''type'', PStr ''tool_result''), (''tool_use_id'', dict_get_none d ''tool_use_id''),
                (''content'', dict_get_or d ''content'' (PStr [])),
                (''is_error'', PBool (truthy (dict_get_or d ''is_error'' (PBool False)))),
                (''provider'', PDict (provider_metadata ''claude'' ''tool_result'' d))]
      else if block_type_is d ''refusal'' then Inr (text_block (refusal_text d))
      else Inr (provider_block ''claude'' (py_str (py_or (dict_get_none d ''type'') (PStr ''unknown''))) d))"

definition claude_message_to_agent_message :: "pydict \<Rightarrow> agent_message res" where
  "claude_message_to_agent_message msg =
     (case parse_role (dict_get_none msg ''role'') of
        None \<Rightarrow> Inl (value_error (''Invalid Claude message role: '' @ py_str (dict_get_none msg ''role'')))
      | Some r \<Rightarrow>
          (case dict_get_none msg ''content'' of
             PStr s \<Rightarrow> Inr (message r (Text s))
           | PList bs \<Rightarrow> res_bind (res_map claude_block_to_agent_block bs) (\<lambda>blocks. Inr (message r (Blocks blocks)))
           | _ \<Rightarrow> Inl (value_error ''Claude message content must be a string or list'')))"

definition claude_messages_to_agent_messages :: "pydict list \<Rightarrow> agent_message list res" where
  "claude_messages_to_agent_messages = res_map claude_message_to_agent_message"

definition claude_message_text :: "pydict \<Rightarrow> string res" where
  "claude_message_text msg =
     res_bind (claude_message_to_agent_message msg) (\<lambda>m. Inr (message_text (message_dict m)))"

section \<open>The provider\<close>

definition claude_estimate_request_tokens :: "rat \<Rightarrow> string \<Rightarrow> pydict list \<Rightarrow> int res" where
  "claude_estimate_request_tokens cpt system_prompt tools =
     estimate_token_count (PDict [(''system'', PStr system_prompt), (''tools'', PList (map PDict tools))]) cpt"

text \<open>\<open>create_request\<close>, given the fields of the request; the history is that of agent messages.\<close>

definition claude_create_request :: "claude_thinking_config option \<Rightarrow> provider_request \<Rightarrow> claude_request res" where
  "claude_create_request thinking q =
     res_bind (agent_messages_to_claude_messages (pq_chat_history q)) (\<lambda>history.
     res_bind (thinking_request_params thinking (pq_max_tokens q)) (\<lambda>(t, output_config).
       Inr \<lparr>pq_system_prompt = pq_system_prompt q, pq_model = pq_model q, pq_max_tokens = pq_max_tokens q,
            pq_tools = pq_tools q, pq_chat_history = history, pq_context_token_limit = pq_context_token_limit q,
            pq_stream_id = pq_stream_id q, pq_stream_sequence = pq_stream_sequence q,
            pq_stream_attempt = pq_stream_attempt q, cq_thinking = t, cq_output_config = output_config\<rparr>))"

definition claude_request_chat_history :: "claude_request \<Rightarrow> agent_message list res" where
  "claude_request_chat_history q = claude_messages_to_agent_messages (pq_chat_history q)"

definition claude_replace_request_chat_history :: "claude_request \<Rightarrow> pydict list \<Rightarrow> claude_request res" where
  "claude_replace_request_chat_history q history =
     res_bind (agent_messages_to_claude_messages history) (\<lambda>h. Inr (q\<lparr>pq_chat_history := h\<rparr>))"

definition claude_replace_request_stream_attempt :: "claude_request \<Rightarrow> int option \<Rightarrow> claude_request" where
  "claude_replace_request_stream_attempt q attempt = q\<lparr>pq_stream_attempt := attempt\<rparr>"

definition claude_response_message :: "provider_response \<Rightarrow> agent_message res" where
  "claude_response_message r = claude_message_to_agent_message (pr_message r)"

definition claude_stop_reason_for_max_turns :: string where
  "claude_stop_reason_for_max_turns = ''max_tokens''"

section \<open>Refusals\<close>

definition claude_refusal_details_text :: "pydict option \<Rightarrow> string" where
  "claude_refusal_details_text stop_details =
     (case stop_details of
        Some (x # xs) \<Rightarrow>
          (let d = x # xs;
               category = (case dict_get_none d ''category'' of PStr (c # cs) \<Rightarrow> [''Refusal category: '' @ (c # cs) @ ''.''] | _ \<Rightarrow> []);
               explanation = (case dict_get_none d ''explanation'' of PStr (c # cs) \<Rightarrow> [c # cs] | _ \<Rightarrow> [])
           in py_join '' '' (category @ explanation))
      | _ \<Rightarrow> [])"

definition claude_refusal_fallback_text :: "pydict option \<Rightarrow> string" where
  "claude_refusal_fallback_text stop_details =
     refusal_fallback_text CLAUDE_REFUSAL_FALLBACK (claude_refusal_details_text stop_details)"

definition claude_needs_refusal_fallback :: "provider_response \<Rightarrow> bool res" where
  "claude_needs_refusal_fallback r =
     res_bind (claude_message_text (pr_message r)) (\<lambda>t.
       Inr (needs_refusal_fallback (pr_stop_reason r) {''refusal''} (pr_guard_action r) t))"

definition claude_response_with_visible_refusal :: "provider_response \<Rightarrow> provider_response res" where
  "claude_response_with_visible_refusal r =
     res_bind (claude_needs_refusal_fallback r) (\<lambda>needed.
       Inr (if \<not> needed then r
            else r\<lparr>pr_message :=
              [(''role'', dict_get_or (pr_message r) ''role'' (PStr ''assistant'')),
               (''content'', PStr (claude_refusal_fallback_text (pr_stop_details r)))]\<rparr>))"

definition text_from_block_dict :: "pyval \<Rightarrow> string" where
  "text_from_block_dict v =
     (case v of
        PDict d \<Rightarrow>
          (if block_type_is d ''text'' then (case dict_get_none d ''text'' of PStr t \<Rightarrow> t | _ \<Rightarrow> [])
           else if block_type_is d ''refusal'' then refusal_text d
           else [])
      | _ \<Rightarrow> [])"

definition text_from_content_blocks :: "pyval list \<Rightarrow> string" where
  "text_from_content_blocks cont =
     py_join newline (filter (\<lambda>t. t \<noteq> []) (map (\<lambda>b. text_from_block_dict (PDict (copy_mapping b))) cont))"

definition response_display_text :: "string option \<Rightarrow> pyval list \<Rightarrow> pydict option \<Rightarrow> string" where
  "response_display_text stop_reason cont stop_details =
     (let t = py_strip (text_from_content_blocks cont) in
      if t \<noteq> [] then t
      else if stop_reason = Some ''refusal'' then claude_refusal_fallback_text stop_details
      else [])"

section \<open>The activity\<close>

definition claude_create_params :: "claude_request \<Rightarrow> pydict" where
  "claude_create_params r =
     [(''model'', PStr (pq_model r)), (''max_tokens'', PInt (pq_max_tokens r)),
      (''system'', PStr (pq_system_prompt r)), (''messages'', PList (map PDict (pq_chat_history r)))] @
     (if pq_tools r = [] then [] else [(''tools'', PList (map PDict (pq_tools r)))]) @
     (case cq_thinking r of None \<Rightarrow> [] | Some t \<Rightarrow> [(''thinking'', PDict t)]) @
     (case cq_output_config r of None \<Rightarrow> [] | Some c \<Rightarrow> [(''output_config'', PDict c)])"

text \<open>\<open>_should_count_request_tokens\<close>, the same for Claude and Gemini.\<close>

definition should_count_request_tokens :: "'a provider_request_scheme \<Rightarrow> bool" where
  "should_count_request_tokens r =
     (pq_context_token_limit r \<noteq> None \<and> (case pq_stream_attempt r of None \<Rightarrow> False | Some n \<Rightarrow> n > 1))"

text \<open>The error for a request that is too large by the count of the provider.\<close>

definition context_too_large :: "string \<Rightarrow> 'a provider_request_scheme \<Rightarrow> int \<Rightarrow> py_exn option" where
  "context_too_large provider_name r input_tokens =
     (if counted_tokens_exceed_context input_tokens (pq_max_tokens r) (pq_context_token_limit r)
      then (case pq_context_token_limit r of
              None \<Rightarrow> None
            | Some n \<Rightarrow> Some (PyExn (ExcApplication (Some CONTEXT_WINDOW_EXCEEDED_ERROR_TYPE) True)
                (counted_context_window_message provider_name input_tokens (pq_max_tokens r) n) None None))
      else None)"

definition claude_count_params :: "claude_request \<Rightarrow> pydict" where
  "claude_count_params r =
     [(''model'', PStr (pq_model r)), (''messages'', PList (map PDict (pq_chat_history r))),
      (''system'', PStr (pq_system_prompt r))] @
     (if pq_tools r = [] then [] else [(''tools'', PList (map PDict (pq_tools r)))]) @
     (case cq_thinking r of None \<Rightarrow> [] | Some t \<Rightarrow> [(''thinking'', PDict t)]) @
     (case cq_output_config r of None \<Rightarrow> [] | Some c \<Rightarrow> [(''output_config'', PDict c)])"

text \<open>
  What the activity of a provider makes of an error of its SDK with a status: the class name and the text
  of the error, the status code if it has one.
\<close>

definition status_error :: "string \<Rightarrow> int option \<Rightarrow> py_exn \<Rightarrow> py_exn" where
  "status_error cls status_code err =
     (if status_error_is_context_window_exceeded status_code (exn_str err)
      then PyExn (ExcApplication (Some CONTEXT_WINDOW_EXCEEDED_ERROR_TYPE) True) (exn_str err) (Some err) None
      else if non_retryable_http_status status_code
      then PyExn (ExcApplication (Some cls) True) (exn_str err) (Some err) None
      else err)"

text \<open>
  A failed call of an SDK: the exception, with its class name and status code when it is the status error of the
  SDK, which the activities catch.
\<close>

record api_failure =
  af_status_error :: "(string \<times> int option) option"
  af_exception :: py_exn

definition api_error :: "api_failure \<Rightarrow> py_exn" where
  "api_error f =
     (case af_status_error f of
        None \<Rightarrow> af_exception f
      | Some (cls, status_code) \<Rightarrow> status_error cls status_code (af_exception f))"

definition api_call :: "api_failure + 'a \<Rightarrow> 'a res" where
  "api_call outcome = (case outcome of Inl f \<Rightarrow> Inl (api_error f) | Inr x \<Rightarrow> Inr x)"

text \<open>The final message of the SDK, and the response made of it.\<close>

record claude_final_message =
  cf_id :: string
  cf_model :: string
  cf_role :: string
  cf_content :: "pydict list"
  cf_stop_reason :: "string option"
  cf_stop_sequence :: "string option"
  cf_usage :: pydict
  cf_stop_details :: pyval

definition claude_response_of :: "claude_final_message \<Rightarrow> provider_response" where
  "claude_response_of f =
     \<lparr>pr_id = cf_id f, pr_model = cf_model f,
      pr_message = [(''role'', PStr (cf_role f)), (''content'', PList (map PDict (cf_content f)))],
      pr_stop_reason = cf_stop_reason f, pr_stop_sequence = cf_stop_sequence f, pr_usage = cf_usage f,
      pr_guard_action = None, pr_guard_reason = None,
      pr_stop_details = optional_object_to_dict (cf_stop_details f)\<rparr>"

definition claude_completed :: "int option \<Rightarrow> claude_final_message \<Rightarrow> emission" where
  "claude_completed sequence f =
     (let stop_details = optional_object_to_dict (cf_stop_details f) in
      agent_completed sequence (Some (cf_id f)) (Some (cf_model f)) (cf_stop_reason f) stop_details
        (response_display_text (cf_stop_reason f) (map PDict (cf_content f)) stop_details) (cf_usage f))"

text \<open>
  \<open>call_agent_api\<close>, given what the call that counts the tokens and the stream give; the tokens are counted only for
  a retry of a request with a known limit.
\<close>

definition check_counted_tokens ::
  "string \<Rightarrow> api_failure + int \<Rightarrow> 'a provider_request_scheme \<Rightarrow> unit res" where
  "check_counted_tokens provider_name counted r =
     (if \<not> should_count_request_tokens r then Inr ()
      else res_bind (api_call counted) (\<lambda>input_tokens.
        case context_too_large provider_name r input_tokens of Some e \<Rightarrow> Inl e | None \<Rightarrow> Inr ()))"

definition call_agent_api ::
  "api_failure + int \<Rightarrow> api_failure + claude_final_message \<Rightarrow> claude_request \<Rightarrow> provider_response res" where
  "call_agent_api counted streamed r =
     res_bind (check_counted_tokens ''Claude'' counted r) (\<lambda>_.
     res_bind (api_call streamed) (\<lambda>f. Inr (claude_response_of f)))"

section \<open>The stream\<close>

record claude_heartbeat_state =
  ch_sequence :: "int option"
  ch_phase :: string
  ch_events :: int
  ch_last_event_type :: "string option"
  ch_stop_reason :: "string option"

definition record_heartbeat_event :: "string option \<Rightarrow> claude_heartbeat_state \<Rightarrow> claude_heartbeat_state" where
  "record_heartbeat_event event_type h = h\<lparr>ch_events := ch_events h + 1, ch_last_event_type := event_type\<rparr>"

definition heartbeat_payload :: "string \<Rightarrow> string \<Rightarrow> claude_heartbeat_state \<Rightarrow> pydict" where
  "heartbeat_payload provider_name heartbeat_reason h =
     [(''kind'', PStr ''agent_stream''), (''provider'', PStr provider_name),
      (''heartbeat_reason'', PStr heartbeat_reason), (''sequence'', opt_int (ch_sequence h)),
      (''phase'', PStr (ch_phase h)), (''events'', PInt (ch_events h)),
      (''last_event_type'', opt_str (ch_last_event_type h)), (''stop_reason'', opt_str (ch_stop_reason h))]"

definition streaming_extra_headers :: "pydict \<Rightarrow> (string \<times> string) list option" where
  "streaming_extra_headers create_params =
     (if \<not> truthy (dict_get_none create_params ''tools'') then None
      else Some [(''anthropic-beta'', ''fine-grained-tool-streaming-2025-05-14'')])"

text \<open>A tool input as it arrives.\<close>

record tool_input_state =
  ti_content_block_index :: int
  ti_tool_use_id :: pyval
  ti_tool_name :: pyval
  ti_tool_type :: pyval
  ti_partial_json :: string

record claude_event =
  ce_type :: string
  ce_index :: int
  ce_content_block :: pyval
  ce_delta :: pyval

text \<open>A text that is a string and not empty.\<close>

definition some_text :: "pyval \<Rightarrow> string option" where
  "some_text v = (case v of PStr (c # cs) \<Rightarrow> Some (c # cs) | _ \<Rightarrow> None)"

type_synonym tool_inputs = "(int \<times> tool_input_state) list"

definition emit_block_start :: "int option \<Rightarrow> claude_event \<Rightarrow> tool_inputs \<Rightarrow> emission list \<times> tool_inputs" where
  "emit_block_start sequence event tools =
     (let b = copy_mapping (ce_content_block event); i = ce_index event; ty = dict_get_none b ''type'' in
      if ty = PStr ''thinking'' then ([thinking_started sequence i], tools)
      else if ty = PStr ''tool_use'' \<or> ty = PStr ''server_tool_use''
      then (let t = \<lparr>ti_content_block_index = i, ti_tool_use_id = dict_get_none b ''id'',
                     ti_tool_name = dict_get_none b ''name'', ti_tool_type = ty, ti_partial_json = []\<rparr>
            in ([tool_input_started sequence i (ti_tool_use_id t) (ti_tool_name t) (ti_tool_type t)],
                AList.update i t tools))
      else ([], tools))"

definition emit_block_delta :: "int option \<Rightarrow> claude_event \<Rightarrow> tool_inputs \<Rightarrow> emission list \<times> tool_inputs" where
  "emit_block_delta sequence event tools =
     (let d = copy_mapping (ce_delta event); ty = dict_get_none d ''type'' in
      if ty = PStr ''text_delta''
      then (case some_text (dict_get_none d ''text'') of None \<Rightarrow> [] | Some t \<Rightarrow> [text_delta sequence t], tools)
      else if ty = PStr ''refusal_delta''
      then (case some_text (dict_get_none d ''refusal'') of None \<Rightarrow> [] | Some t \<Rightarrow> [text_delta sequence t], tools)
      else if ty = PStr ''thinking_delta''
      then (case some_text (dict_get_none d ''thinking'') of None \<Rightarrow> [] | Some t \<Rightarrow> [thinking_delta sequence t], tools)
      else if ty = PStr ''input_json_delta''
      then (case (map_of tools (ce_index event), dict_get_none d ''partial_json'') of
              (Some t, PStr partial_json) \<Rightarrow>
                ([tool_input_delta sequence (ce_index event) (ti_tool_use_id t) (ti_tool_name t) (ti_tool_type t)
                    partial_json],
                 AList.update (ce_index event) (t\<lparr>ti_partial_json := ti_partial_json t @ partial_json\<rparr>) tools)
            | _ \<Rightarrow> ([], tools))
      else ([], tools))"

definition emit_block_stop :: "int option \<Rightarrow> claude_event \<Rightarrow> tool_inputs \<Rightarrow> emission list \<times> tool_inputs" where
  "emit_block_stop sequence event tools =
     (case map_of tools (ce_index event) of
        None \<Rightarrow> ([], tools)
      | Some t \<Rightarrow>
          (let input_value = dict_get_or (copy_mapping (ce_content_block event)) ''input'' (PStr (ti_partial_json t))
           in ([tool_input_completed sequence (ce_index event) (ti_tool_use_id t) (ti_tool_name t) (ti_tool_type t)
                  input_value (json_preview input_value)],
               AList.delete (ce_index event) tools)))"

definition emit_claude_raw_stream_event ::
  "int option \<Rightarrow> claude_event \<Rightarrow> tool_inputs \<Rightarrow> emission list \<times> tool_inputs" where
  "emit_claude_raw_stream_event sequence event tools =
     (if ce_type event = ''content_block_start'' then emit_block_start sequence event tools
      else if ce_type event = ''content_block_delta'' then emit_block_delta sequence event tools
      else if ce_type event = ''content_block_stop'' then emit_block_stop sequence event tools
      else ([], tools))"

text \<open>\<open>_stream_claude_message\<close>: the events in order, then the final message.\<close>

fun claude_stream_events :: "int option \<Rightarrow> claude_event list \<Rightarrow> tool_inputs \<Rightarrow> emission list \<times> tool_inputs" where
  "claude_stream_events sequence [] tools = ([], tools)"
| "claude_stream_events sequence (event # events) tools =
     (let (ems, tools) = emit_claude_raw_stream_event sequence event tools;
          (ems', tools) = claude_stream_events sequence events tools
      in (ems @ ems', tools))"

definition stream_claude_message :: "int option \<Rightarrow> claude_event list \<Rightarrow> claude_final_message \<Rightarrow> emission list" where
  "stream_claude_message sequence events f =
     agent_started sequence # fst (claude_stream_events sequence events []) @ [claude_completed sequence f]"

end
