(* ===== verification/ChatGPT.thy ===== *)
theory ChatGPT
  imports Claude
begin

text \<open>
  \<open>agent_harness/providers/chatgpt.py\<close>: requests and responses of the ChatGPT provider, the conversion of
  the conversation to the input items of OpenAI's Responses API and back, and the state its stream is
  collected in. \<open>json.loads\<close> is the parameter \<open>loads\<close>, \<open>None\<close> for a \<open>JSONDecodeError\<close>.
\<close>

section \<open>Requests and responses\<close>

definition OPENAI_REFUSAL_STOP_REASONS :: "string set" where
  "OPENAI_REFUSAL_STOP_REASONS = {''failed'', ''incomplete''}"

definition CHATGPT_REFUSAL_FALLBACK :: string where
  "CHATGPT_REFUSAL_FALLBACK =
     ''ChatGPT refused or failed this turn. OpenAI did not return a '' @
     ''provider-generated refusal message, so the app stopped this agent run '' @
     ''instead of retrying the same request.''"

record chatgpt_reasoning_config =
  gr_effort :: "string option"
  gr_summary :: "string option"

record chatgpt_request = provider_request +
  gq_reasoning :: "pydict option"

definition reasoning_config_to_openai :: "chatgpt_reasoning_config option \<Rightarrow> pydict option" where
  "reasoning_config_to_openai reasoning =
     (case reasoning of
        None \<Rightarrow> None
      | Some r \<Rightarrow>
          (let result = (case gr_effort r of None \<Rightarrow> [] | Some e \<Rightarrow> [(''effort'', PStr e)]) @
                 (case gr_summary r of None \<Rightarrow> [] | Some s \<Rightarrow> [(''summary'', PStr s)])
           in if result = [] then None else Some result))"

definition chatgpt_request_to_dict :: "chatgpt_request \<Rightarrow> pydict" where
  "chatgpt_request_to_dict r =
     [(''system_prompt'', PStr (pq_system_prompt r)), (''model'', PStr (pq_model r)),
      (''max_tokens'', PInt (pq_max_tokens r)), (''context_token_limit'', opt_int (pq_context_token_limit r)),
      (''tools'', PList (map PDict (pq_tools r))), (''chat_history'', PList (map PDict (pq_chat_history r))),
      (''stream_id'', opt_str (pq_stream_id r)), (''stream_sequence'', opt_int (pq_stream_sequence r)),
      (''stream_attempt'', opt_int (pq_stream_attempt r)), (''reasoning'', opt_dict (gq_reasoning r))]"

definition chatgpt_request_from_dict :: "pydict \<Rightarrow> chatgpt_request res" where
  "chatgpt_request_from_dict d =
     res_bind (dict_index d ''system_prompt'') (\<lambda>system_prompt.
     res_bind (dict_index d ''model'') (\<lambda>model.
     res_bind (dict_index d ''max_tokens'') (\<lambda>max_tokens.
       Inr \<lparr>pq_system_prompt = cast_str system_prompt, pq_model = cast_str model, pq_max_tokens = cast_int max_tokens,
            pq_tools = mapping_list (dict_get_or d ''tools'' (PList [])),
            pq_chat_history = mapping_list (dict_get_or d ''chat_history'' (PList [])),
            pq_context_token_limit = cast_opt_int (dict_get_none d ''context_token_limit''),
            pq_stream_id = cast_opt_str (dict_get_none d ''stream_id''),
            pq_stream_sequence = cast_opt_int (dict_get_none d ''stream_sequence''),
            pq_stream_attempt = cast_opt_int (dict_get_none d ''stream_attempt''),
            gq_reasoning = copy_optional_mapping (dict_get_none d ''reasoning'')\<rparr>)))"

text \<open>A message item of OpenAI with one text.\<close>

definition output_message :: "string \<Rightarrow> pydict" where
  "output_message t =
     [(''type'', PStr ''message''), (''role'', PStr ''assistant''),
      (''content'', PList [PDict [(''type'', PStr ''output_text''), (''text'', PStr t), (''annotations'', PList [])]]),
      (''status'', PStr ''completed'')]"

definition assistant_output :: "string \<Rightarrow> pydict" where
  "assistant_output t = [(''role'', PStr ''assistant''), (''content'', PList [PDict (output_message t)])]"

definition chatgpt_response_message_from_value :: "pyval \<Rightarrow> pydict" where
  "chatgpt_response_message_from_value v =
     (let msg = copy_mapping v in
      if dict_get msg ''content'' \<noteq> None then msg else assistant_output (text_of_block msg))"

definition chatgpt_response_from_dict :: "pydict \<Rightarrow> provider_response res" where
  "chatgpt_response_from_dict = response_from_dict (\<lambda>v. Inr (chatgpt_response_message_from_value v))"

definition chatgpt_response_from_guard_execution :: "llm_guard_execution \<Rightarrow> string \<Rightarrow> provider_response res" where
  "chatgpt_response_from_guard_execution execution model =
     chatgpt_response_from_dict (guard_response_dict execution model
       (assistant_output ''The response was blocked by an LLM guard.'') ''failed'')"

section \<open>Agent messages to input items\<close>

definition agent_tool_use_to_chatgpt_item :: "pydict \<Rightarrow> pydict res" where
  "agent_tool_use_to_chatgpt_item b =
     (let item = (case provider_data b ''chatgpt'' of Some d \<Rightarrow> d | None \<Rightarrow> [(''type'', PStr ''function_call'')]);
          item = dict_set ''type'' (PStr ''function_call'') item
      in res_bind (dict_index b ''id'') (\<lambda>tool_id.
         res_bind (dict_index b ''name'') (\<lambda>name.
           Inr (dict_set ''status'' (PStr ''completed'')
                 (dict_set ''arguments'' (PStr (json_dumps (json_sort_keys (dict_get_or b ''input'' (PDict [])))))
                   (dict_set ''name'' name (dict_set ''call_id'' tool_id item)))))))"

definition agent_tool_result_to_chatgpt_item :: "pydict \<Rightarrow> pydict res" where
  "agent_tool_result_to_chatgpt_item b =
     (let item = (case provider_data b ''chatgpt'' of Some d \<Rightarrow> d | None \<Rightarrow> [(''type'', PStr ''function_call_output'')]);
          item = dict_set ''type'' (PStr ''function_call_output'') item
      in res_bind (dict_index b ''tool_use_id'') (\<lambda>tool_id.
           Inr (dict_set ''status'' (PStr ''completed'')
                 (dict_set ''output'' (PStr (py_str (dict_get_or b ''content'' (PStr []))))
                   (dict_set ''call_id'' tool_id item)))))"

text \<open>The text of a block that is joined with its neighbours.\<close>

definition joined_text :: "pydict \<Rightarrow> string option" where
  "joined_text b =
     (if block_type_is b ''text'' then Some (text_of_block b)
      else if block_type_is b CONTEXT_COMPACTION_MARKER then Some (marker_text b)
      else if block_type_is b ''refusal'' then Some (refusal_text b)
      else None)"

definition flush_text :: "agent_role \<Rightarrow> string list \<Rightarrow> pydict list" where
  "flush_text r text_parts =
     (if text_parts = [] then []
      else [[(''role'', PStr (role_str r)), (''content'', PStr (py_join newline text_parts))]])"

definition block_items :: "pydict \<Rightarrow> pydict list res" where
  "block_items b =
     (if block_type_is b ''tool_use'' then res_bind (agent_tool_use_to_chatgpt_item b) (\<lambda>i. Inr [i])
      else if block_type_is b ''tool_result'' then res_bind (agent_tool_result_to_chatgpt_item b) (\<lambda>i. Inr [i])
      else if block_type_is b ''provider'' \<and> dict_get b ''provider'' = Some (PStr ''chatgpt'')
      then Inr (case dict_get_none b ''data'' of PDict d \<Rightarrow> [d] | _ \<Rightarrow> [])
      else Inr [])"

fun blocks_to_items :: "agent_role \<Rightarrow> string list \<Rightarrow> pydict list \<Rightarrow> pydict list res" where
  "blocks_to_items r text_parts [] = Inr (flush_text r text_parts)"
| "blocks_to_items r text_parts (b # bs) =
     (case joined_text b of
        Some t \<Rightarrow> blocks_to_items r (text_parts @ [t]) bs
      | None \<Rightarrow>
          res_bind (block_items b) (\<lambda>items.
          res_bind (blocks_to_items r [] bs) (\<lambda>rest. Inr (flush_text r text_parts @ items @ rest))))"

definition agent_message_to_chatgpt_input_items :: "pydict \<Rightarrow> pydict list res" where
  "agent_message_to_chatgpt_input_items msg =
     res_bind (normalize_message msg) (\<lambda>m.
       case msg_content m of
         Text s \<Rightarrow> Inr [[(''role'', PStr (role_str (msg_role m))), (''content'', PStr s)]]
       | Blocks bs \<Rightarrow> blocks_to_items (msg_role m) [] bs)"

definition agent_messages_to_chatgpt_input :: "pydict list \<Rightarrow> pydict list res" where
  "agent_messages_to_chatgpt_input msgs = res_bind (res_map agent_message_to_chatgpt_input_items msgs) (\<lambda>is. Inr (concat is))"

section \<open>Input items and responses to agent messages\<close>

definition chatgpt_tool_use_id :: "pydict \<Rightarrow> int \<Rightarrow> string" where
  "chatgpt_tool_use_id item index =
     (case some_text (dict_get_none item ''call_id'') of
        Some i \<Rightarrow> i
      | None \<Rightarrow>
          (case some_text (dict_get_none item ''id'') of
             Some i \<Rightarrow> i
           | None \<Rightarrow> ''chatgpt-tool-'' @ int_str index @ ''-'' @
               py_str (py_or (dict_get_none item ''name'') (PStr ''unknown''))))"

text \<open>\<open>_json_object\<close> on a value: \<open>json.loads\<close> raises for what is not a text.\<close>

definition json_object_of :: "(string \<Rightarrow> pyval option) \<Rightarrow> pyval \<Rightarrow> pydict res" where
  "json_object_of loads v =
     (if \<not> truthy v then Inr []
      else (case v of
              PStr s \<Rightarrow> Inr (json_object loads s)
            | _ \<Rightarrow> Inl (type_error ''the JSON object must be str, bytes or bytearray'')))"

definition chatgpt_function_call_to_agent_block :: "(string \<Rightarrow> pyval option) \<Rightarrow> pydict \<Rightarrow> int \<Rightarrow> pydict res" where
  "chatgpt_function_call_to_agent_block loads item index =
     res_bind (json_object_of loads (py_or (dict_get_none item ''arguments'') (PStr []))) (\<lambda>inp.
       Inr (tool_use_block (PStr (chatgpt_tool_use_id item index)) (py_or (dict_get_none item ''name'') (PStr [])) inp
         (Some (provider_metadata ''chatgpt'' ''function_call'' item))))"

definition chatgpt_function_output_to_agent_block :: "pydict \<Rightarrow> pydict" where
  "chatgpt_function_output_to_agent_block item =
     [(''type'', PStr ''tool_result''), (''tool_use_id'', dict_get_none item ''call_id''),
      (''content'', dict_get_or item ''output'' (PStr [])), (''is_error'', PBool False),
      (''provider'', PDict (provider_metadata ''chatgpt'' ''function_call_output'' item))]"

definition chatgpt_content_part_to_agent_block :: "pydict \<Rightarrow> pydict" where
  "chatgpt_content_part_to_agent_block part =
     (if block_type_is part ''output_text'' \<or> block_type_is part ''input_text'' then text_block (text_of_block part)
      else if block_type_is part ''refusal'' then text_block (refusal_text part)
      else provider_block ''chatgpt'' (py_str (py_or (dict_get_none part ''type'') (PStr ''unknown''))) part)"

definition content_parts :: "pyval list \<Rightarrow> pydict list" where
  "content_parts vs =
     map chatgpt_content_part_to_agent_block (List.map_filter (\<lambda>v. case v of PDict d \<Rightarrow> Some d | _ \<Rightarrow> None) vs)"

definition chatgpt_input_item_to_agent_message ::
  "(string \<Rightarrow> pyval option) \<Rightarrow> pydict \<Rightarrow> agent_message option res" where
  "chatgpt_input_item_to_agent_message loads item =
     (if block_type_is item ''function_call''
      then res_bind (chatgpt_function_call_to_agent_block loads item 0) (\<lambda>b. Inr (Some (message Assistant (Blocks [b]))))
      else if block_type_is item ''function_call_output''
      then Inr (Some (message User (Blocks [chatgpt_function_output_to_agent_block item])))
      else (case parse_role (dict_get_none item ''role'') of
              None \<Rightarrow> Inr None
            | Some r \<Rightarrow>
                (case dict_get_none item ''content'' of
                   PStr s \<Rightarrow> Inr (Some (message r (Text s)))
                 | PList vs \<Rightarrow> Inr (Some (message r (Blocks (content_parts vs))))
                 | _ \<Rightarrow> Inr (Some (message r (Text []))))))"

definition chatgpt_input_to_agent_messages :: "(string \<Rightarrow> pyval option) \<Rightarrow> pydict list \<Rightarrow> agent_message list res" where
  "chatgpt_input_to_agent_messages loads items =
     res_bind (res_map (chatgpt_input_item_to_agent_message loads) items) (\<lambda>ms. Inr (List.map_filter (\<lambda>m. m) ms))"

definition message_item_to_agent_blocks :: "pydict \<Rightarrow> pydict list" where
  "message_item_to_agent_blocks item =
     (case dict_get_none item ''content'' of
        PStr s \<Rightarrow> [text_block s]
      | PList vs \<Rightarrow> content_parts vs
      | _ \<Rightarrow> [])"

text \<open>The blocks of one output item; \<open>index\<close> is its place in the response.\<close>

definition output_item_blocks :: "(string \<Rightarrow> pyval option) \<Rightarrow> int \<Rightarrow> pydict \<Rightarrow> pydict list res" where
  "output_item_blocks loads index item =
     (if block_type_is item ''message'' then Inr (message_item_to_agent_blocks item)
      else if block_type_is item ''function_call''
      then res_bind (chatgpt_function_call_to_agent_block loads item index) (\<lambda>b. Inr [b])
      else if block_type_is item ''function_call_output'' then Inr [chatgpt_function_output_to_agent_block item]
      else Inr [provider_block ''chatgpt'' (py_str (py_or (dict_get_none item ''type'') (PStr ''unknown''))) item])"

definition chatgpt_message_to_agent_message :: "(string \<Rightarrow> pyval option) \<Rightarrow> pydict \<Rightarrow> agent_message res" where
  "chatgpt_message_to_agent_message loads msg =
     (case dict_get_none msg ''content'' of
        PStr s \<Rightarrow> Inr (message Assistant (Text s))
      | PList vs \<Rightarrow>
          res_bind (res_map (\<lambda>(i, v). output_item_blocks loads (int i) (copy_mapping v)) (enumerate 0 vs))
            (\<lambda>bss. Inr (message Assistant (Blocks (concat bss))))
      | _ \<Rightarrow> Inr (message Assistant (Text [])))"

section \<open>Tools\<close>

definition chatgpt_tool :: "pydict \<Rightarrow> pydict option" where
  "chatgpt_tool d =
     (case some_text (dict_get_none d ''name'') of
        None \<Rightarrow> None
      | Some name \<Rightarrow>
          Some ([(''type'', PStr ''function''), (''name'', PStr name),
                 (''parameters'', PDict (copy_mapping (dict_get_or d ''input_schema'' (PDict [])))),
                 (''strict'', PBool False)] @
                (case dict_get_none d ''description'' of PStr s \<Rightarrow> [(''description'', PStr s)] | _ \<Rightarrow> [])))"

definition chatgpt_tools_from_agent_tools :: "pydict list \<Rightarrow> pydict list" where
  "chatgpt_tools_from_agent_tools tools = List.map_filter chatgpt_tool tools"

section \<open>The provider\<close>

definition chatgpt_estimate_request_tokens :: "rat \<Rightarrow> string \<Rightarrow> pydict list \<Rightarrow> int res" where
  "chatgpt_estimate_request_tokens cpt system_prompt tools =
     estimate_token_count (PDict [(''instructions'', PStr system_prompt), (''tools'', PList (map PDict tools))]) cpt"

definition chatgpt_create_request :: "chatgpt_reasoning_config option \<Rightarrow> provider_request \<Rightarrow> chatgpt_request res" where
  "chatgpt_create_request reasoning q =
     res_bind (agent_messages_to_chatgpt_input (pq_chat_history q)) (\<lambda>history.
       Inr \<lparr>pq_system_prompt = pq_system_prompt q, pq_model = pq_model q, pq_max_tokens = pq_max_tokens q,
            pq_tools = chatgpt_tools_from_agent_tools (pq_tools q), pq_chat_history = history,
            pq_context_token_limit = pq_context_token_limit q, pq_stream_id = pq_stream_id q,
            pq_stream_sequence = pq_stream_sequence q, pq_stream_attempt = pq_stream_attempt q,
            gq_reasoning = reasoning_config_to_openai reasoning\<rparr>)"

definition chatgpt_request_chat_history :: "(string \<Rightarrow> pyval option) \<Rightarrow> chatgpt_request \<Rightarrow> agent_message list res" where
  "chatgpt_request_chat_history loads q = chatgpt_input_to_agent_messages loads (pq_chat_history q)"

definition chatgpt_replace_request_chat_history :: "chatgpt_request \<Rightarrow> pydict list \<Rightarrow> chatgpt_request res" where
  "chatgpt_replace_request_chat_history q history =
     res_bind (agent_messages_to_chatgpt_input history) (\<lambda>h. Inr (q\<lparr>pq_chat_history := h\<rparr>))"

definition chatgpt_response_message :: "(string \<Rightarrow> pyval option) \<Rightarrow> provider_response \<Rightarrow> agent_message res" where
  "chatgpt_response_message loads r = chatgpt_message_to_agent_message loads (pr_message r)"

section \<open>Refusals\<close>

definition chatgpt_refusal_details_text :: "pydict option \<Rightarrow> string" where
  "chatgpt_refusal_details_text stop_details =
     (case stop_details of
        None \<Rightarrow> []
      | Some d \<Rightarrow>
          (case (case dict_get_none d ''error'' of PDict e \<Rightarrow> some_text (dict_get_none e ''message'') | _ \<Rightarrow> None) of
             Some msg \<Rightarrow> msg
           | None \<Rightarrow>
               (case (case dict_get_none d ''incomplete_details'' of
                        PDict i \<Rightarrow> some_text (dict_get_none i ''reason'') | _ \<Rightarrow> None) of
                  Some reason \<Rightarrow> ''Incomplete reason: '' @ reason @ ''.''
                | None \<Rightarrow> [])))"

definition chatgpt_refusal_fallback_text :: "pydict option \<Rightarrow> string" where
  "chatgpt_refusal_fallback_text stop_details =
     refusal_fallback_text CHATGPT_REFUSAL_FALLBACK (chatgpt_refusal_details_text stop_details)"

definition chatgpt_needs_refusal_fallback :: "(string \<Rightarrow> pyval option) \<Rightarrow> provider_response \<Rightarrow> bool res" where
  "chatgpt_needs_refusal_fallback loads r =
     res_bind (chatgpt_message_to_agent_message loads (pr_message r)) (\<lambda>m.
       Inr (needs_refusal_fallback (pr_stop_reason r) OPENAI_REFUSAL_STOP_REASONS (pr_guard_action r)
         (message_text (message_dict m))))"

definition chatgpt_response_with_visible_refusal ::
  "(string \<Rightarrow> pyval option) \<Rightarrow> provider_response \<Rightarrow> provider_response res" where
  "chatgpt_response_with_visible_refusal loads r =
     res_bind (chatgpt_needs_refusal_fallback loads r) (\<lambda>needed.
       Inr (if \<not> needed then r
            else r\<lparr>pr_message :=
              [(''role'', dict_get_or (pr_message r) ''role'' (PStr ''assistant'')),
               (''content'', PList [PDict (output_message (chatgpt_refusal_fallback_text (pr_stop_details r)))])]\<rparr>))"

section \<open>The stream\<close>

text \<open>
  A tool input is one object that the code keeps under two keys; the table holds addresses, the store
  the objects.
\<close>

record chatgpt_tool_input =
  gt_item_id :: string
  gt_output_index :: int
  gt_tool_use_id :: pyval
  gt_tool_name :: pyval
  gt_partial_json :: string

record chatgpt_stream_state =
  gs_sequence :: "int option"
  gs_response_id :: "string option"
  gs_model :: "string option"
  gs_text_parts :: "string list"
  gs_reasoning_parts :: "string list"
  gs_output_items :: "pydict list"
  gs_output_item_indices :: "(int \<times> nat) list"
  gs_usage :: pydict
  gs_stop_reason :: "string option"
  gs_stop_details :: "pydict option"
  gs_events :: int
  gs_tool_inputs :: "(string \<times> nat) list"
  gs_tool_store :: "chatgpt_tool_input list"

definition chatgpt_stream_start :: "int option \<Rightarrow> chatgpt_stream_state" where
  "chatgpt_stream_start sequence =
     \<lparr>gs_sequence = sequence, gs_response_id = None, gs_model = None, gs_text_parts = [], gs_reasoning_parts = [],
      gs_output_items = [], gs_output_item_indices = [], gs_usage = [], gs_stop_reason = None,
      gs_stop_details = None, gs_events = 0, gs_tool_inputs = [], gs_tool_store = []\<rparr>"

definition chatgpt_stream_message :: "chatgpt_stream_state \<Rightarrow> pydict" where
  "chatgpt_stream_message s =
     (if gs_output_items s = [] \<and> gs_text_parts s \<noteq> [] then assistant_output (concat (gs_text_parts s))
      else [(''role'', PStr ''assistant''), (''content'', PList (map PDict (gs_output_items s)))])"

text \<open>An event of the stream, with the attributes the code reads and their defaults.\<close>

record chatgpt_event =
  ge_type :: string
  ge_delta :: pyval
  ge_item :: pyval
  ge_output_index :: int
  ge_item_id :: string
  ge_name :: pyval
  ge_arguments :: pyval
  ge_response :: pyval
  ge_message :: pyval
  ge_code :: pyval

definition upsert_output_item :: "int \<Rightarrow> pydict \<Rightarrow> chatgpt_stream_state \<Rightarrow> chatgpt_stream_state" where
  "upsert_output_item output_index item s =
     (if item = [] then s
      else (case map_of (gs_output_item_indices s) output_index of
              None \<Rightarrow> s\<lparr>gs_output_item_indices := AList.update output_index (length (gs_output_items s)) (gs_output_item_indices s),
                        gs_output_items := gs_output_items s @ [item]\<rparr>
            | Some i \<Rightarrow> s\<lparr>gs_output_items := (gs_output_items s)[i := item]\<rparr>))"

definition merge_function_call_arguments :: "int \<Rightarrow> string \<Rightarrow> chatgpt_stream_state \<Rightarrow> chatgpt_stream_state" where
  "merge_function_call_arguments output_index arguments s =
     (case map_of (gs_output_item_indices s) output_index of
        None \<Rightarrow> s
      | Some i \<Rightarrow>
          (if block_type_is (gs_output_items s ! i) ''function_call''
           then s\<lparr>gs_output_items := (gs_output_items s)[i := dict_set ''arguments'' (PStr arguments) (gs_output_items s ! i)]\<rparr>
           else s))"

text \<open>\<open>_tool_input_state\<close>: the address of the object, which is then under both keys.\<close>

definition tool_input_state_at :: "string \<Rightarrow> int \<Rightarrow> chatgpt_stream_state \<Rightarrow> nat \<times> chatgpt_stream_state" where
  "tool_input_state_at item_id output_index s =
     (let output_key = int_str output_index;
          (a, s) = (case map_of (gs_tool_inputs s) item_id of
             Some a \<Rightarrow> (a, s)
           | None \<Rightarrow>
               (case map_of (gs_tool_inputs s) output_key of
                  Some a \<Rightarrow> (a, s)
                | None \<Rightarrow> (length (gs_tool_store s),
                    s\<lparr>gs_tool_store := gs_tool_store s @
                      [\<lparr>gt_item_id = item_id, gt_output_index = output_index, gt_tool_use_id = PNone,
                        gt_tool_name = PNone, gt_partial_json = []\<rparr>]\<rparr>)))
      in (a, s\<lparr>gs_tool_inputs := AList.update output_key a (AList.update item_id a (gs_tool_inputs s))\<rparr>))"

definition text_event :: "chatgpt_event \<Rightarrow> chatgpt_stream_state \<Rightarrow> emission list \<times> chatgpt_stream_state" where
  "text_event event s =
     (case some_text (ge_delta event) of
        None \<Rightarrow> ([], s)
      | Some t \<Rightarrow> ([text_delta (gs_sequence s) t], s\<lparr>gs_text_parts := gs_text_parts s @ [t]\<rparr>))"

definition reasoning_event :: "chatgpt_event \<Rightarrow> chatgpt_stream_state \<Rightarrow> emission list \<times> chatgpt_stream_state" where
  "reasoning_event event s =
     (case some_text (ge_delta event) of
        None \<Rightarrow> ([], s)
      | Some t \<Rightarrow>
          ((if gs_reasoning_parts s = [] then [thinking_started (gs_sequence s) 0] else []) @
             [thinking_delta (gs_sequence s) t],
           s\<lparr>gs_reasoning_parts := gs_reasoning_parts s @ [t]\<rparr>))"

definition item_added_event :: "chatgpt_event \<Rightarrow> chatgpt_stream_state \<Rightarrow> emission list \<times> chatgpt_stream_state" where
  "item_added_event event s =
     (let item = copy_mapping (ge_item event);
          i = ge_output_index event;
          s = upsert_output_item i item s
      in if \<not> block_type_is item ''function_call'' then ([], s)
         else (let item_id = cast_str (py_or (dict_get_none item ''id'') (PStr []));
                   state_key = (if item_id = [] then int_str i else item_id);
                   t = \<lparr>gt_item_id = state_key, gt_output_index = i, gt_tool_use_id = dict_get_none item ''call_id'',
                        gt_tool_name = dict_get_none item ''name'',
                        gt_partial_json = cast_str (py_or (dict_get_none item ''arguments'') (PStr []))\<rparr>;
                   a = length (gs_tool_store s)
               in ([tool_input_started (gs_sequence s) i (gt_tool_use_id t) (gt_tool_name t) (PStr ''function_call'')],
                   s\<lparr>gs_tool_store := gs_tool_store s @ [t],
                     gs_tool_inputs := AList.update (int_str i) a (AList.update state_key a (gs_tool_inputs s))\<rparr>)))"

definition arguments_delta_event :: "chatgpt_event \<Rightarrow> chatgpt_stream_state \<Rightarrow> emission list \<times> chatgpt_stream_state" where
  "arguments_delta_event event s =
     (let i = ge_output_index event;
          state_key = (if ge_item_id event = [] then int_str i else ge_item_id event);
          (a, s) = tool_input_state_at state_key i s
      in case some_text (ge_delta event) of
           None \<Rightarrow> ([], s)
         | Some partial_json \<Rightarrow>
             (let t = (gs_tool_store s ! a)\<lparr>gt_partial_json := gt_partial_json (gs_tool_store s ! a) @ partial_json\<rparr>
              in ([tool_input_delta (gs_sequence s) (gt_output_index t) (gt_tool_use_id t) (gt_tool_name t)
                     (PStr ''function_call'') partial_json],
                  s\<lparr>gs_tool_store := (gs_tool_store s)[a := t]\<rparr>)))"

definition arguments_done_event ::
  "(string \<Rightarrow> pyval option) \<Rightarrow> chatgpt_event \<Rightarrow> chatgpt_stream_state \<Rightarrow> emission list \<times> chatgpt_stream_state" where
  "arguments_done_event loads event s =
     (let i = ge_output_index event;
          state_key = (if ge_item_id event = [] then int_str i else ge_item_id event);
          (a, s) = tool_input_state_at state_key i s;
          t = (gs_tool_store s ! a)\<lparr>gt_tool_name := py_or (ge_name event) (gt_tool_name (gs_tool_store s ! a))\<rparr>;
          (t, s) = (case ge_arguments event of
             PNone \<Rightarrow> (t, s)
           | v \<Rightarrow> (t\<lparr>gt_partial_json := cast_str v\<rparr>, merge_function_call_arguments i (cast_str v) s));
          input_value = PDict (json_object loads (gt_partial_json t))
      in ([tool_input_completed (gs_sequence s) (gt_output_index t) (gt_tool_use_id t) (gt_tool_name t)
             (PStr ''function_call'') input_value (json_preview input_value)],
          s\<lparr>gs_tool_store := (gs_tool_store s)[a := t]\<rparr>))"

text \<open>\<open>_record_final_openai_response\<close>, one field after the other.\<close>

definition final_id :: "pydict \<Rightarrow> chatgpt_stream_state \<Rightarrow> chatgpt_stream_state" where
  "final_id d s = s\<lparr>gs_response_id := (case some_text (dict_get_none d ''id'') of Some i \<Rightarrow> Some i | None \<Rightarrow> gs_response_id s)\<rparr>"

definition final_model :: "pydict \<Rightarrow> chatgpt_stream_state \<Rightarrow> chatgpt_stream_state" where
  "final_model d s = (case dict_get_none d ''model'' of PStr m \<Rightarrow> s\<lparr>gs_model := Some m\<rparr> | _ \<Rightarrow> s)"

definition final_status :: "pydict \<Rightarrow> chatgpt_stream_state \<Rightarrow> chatgpt_stream_state" where
  "final_status d s = (case dict_get_none d ''status'' of PStr t \<Rightarrow> s\<lparr>gs_stop_reason := Some t\<rparr> | _ \<Rightarrow> s)"

definition final_usage :: "pydict \<Rightarrow> chatgpt_stream_state \<Rightarrow> chatgpt_stream_state" where
  "final_usage d s = (case dict_get_none d ''usage'' of PDict u \<Rightarrow> s\<lparr>gs_usage := u\<rparr> | _ \<Rightarrow> s)"

definition final_stop_details :: "pydict \<Rightarrow> chatgpt_stream_state \<Rightarrow> chatgpt_stream_state" where
  "final_stop_details d s =
     (let stop_details = (case dict_get_none d ''error'' of PDict e \<Rightarrow> [(''error'', PDict e)] | _ \<Rightarrow> []) @
            (case dict_get_none d ''incomplete_details'' of PDict i \<Rightarrow> [(''incomplete_details'', PDict i)] | _ \<Rightarrow> [])
      in if stop_details = [] then s else s\<lparr>gs_stop_details := Some stop_details\<rparr>)"

definition final_output :: "pydict \<Rightarrow> chatgpt_stream_state \<Rightarrow> chatgpt_stream_state" where
  "final_output d s =
     (case dict_get_none d ''output'' of
        PList items \<Rightarrow> s\<lparr>gs_output_items := map copy_mapping items,
          gs_output_item_indices := map (\<lambda>i. (int i, i)) [0..<length items]\<rparr>
      | _ \<Rightarrow> s)"

definition record_final_openai_response :: "pyval \<Rightarrow> chatgpt_stream_state \<Rightarrow> chatgpt_stream_state" where
  "record_final_openai_response response s =
     (let d = copy_mapping response in
      final_output d (final_stop_details d (final_usage d (final_status d (final_model d (final_id d s))))))"

text \<open>\<open>_record_chatgpt_stream_event\<close>: what an event emits and how it changes the state; or it raises.\<close>

definition record_chatgpt_stream_event ::
  "(string \<Rightarrow> pyval option) \<Rightarrow> chatgpt_event \<Rightarrow> chatgpt_stream_state \<Rightarrow> (emission list \<times> chatgpt_stream_state) res" where
  "record_chatgpt_stream_event loads event s =
     (if ge_type event = ''response.output_text.delta'' \<or> ge_type event = ''response.refusal.delta''
      then Inr (text_event event s)
      else if ge_type event = ''response.reasoning_text.delta'' \<or> ge_type event = ''response.reasoning_summary_text.delta''
      then Inr (reasoning_event event s)
      else if ge_type event = ''response.output_item.added'' then Inr (item_added_event event s)
      else if ge_type event = ''response.output_item.done''
      then Inr ([], upsert_output_item (ge_output_index event) (copy_mapping (ge_item event)) s)
      else if ge_type event = ''response.function_call_arguments.delta'' then Inr (arguments_delta_event event s)
      else if ge_type event = ''response.function_call_arguments.done'' then Inr (arguments_done_event loads event s)
      else if ge_type event = ''response.completed'' \<or> ge_type event = ''response.failed''
              \<or> ge_type event = ''response.incomplete''
      then Inr ([], record_final_openai_response (ge_response event) s)
      else if ge_type event = ''error''
      then Inl (PyExn (ExcApplication (Some (case some_text (ge_code event) of Some c \<Rightarrow> c | None \<Rightarrow> ''OpenAIStreamError'')) True)
             (case some_text (ge_message event) of Some m \<Rightarrow> m | None \<Rightarrow> ''OpenAI stream error'') None None)
      else Inr ([], s))"

fun chatgpt_stream_events ::
  "(string \<Rightarrow> pyval option) \<Rightarrow> chatgpt_event list \<Rightarrow> chatgpt_stream_state \<Rightarrow> (emission list \<times> chatgpt_stream_state) res" where
  "chatgpt_stream_events loads [] s = Inr ([], s)"
| "chatgpt_stream_events loads (event # events) s =
     res_bind (record_chatgpt_stream_event loads event (s\<lparr>gs_events := gs_events s + 1\<rparr>)) (\<lambda>(ems, s).
     res_bind (chatgpt_stream_events loads events s) (\<lambda>(ems', s). Inr (ems @ ems', s)))"

definition stream_chatgpt_response ::
  "(string \<Rightarrow> pyval option) \<Rightarrow> int option \<Rightarrow> chatgpt_event list \<Rightarrow> (emission list \<times> chatgpt_stream_state) res" where
  "stream_chatgpt_response loads sequence events =
     res_bind (chatgpt_stream_events loads events (chatgpt_stream_start sequence)) (\<lambda>(ems, s).
       Inr (agent_started sequence # ems @
            [agent_completed sequence (gs_response_id s) (gs_model s) (gs_stop_reason s) (gs_stop_details s)
               (concat (gs_text_parts s)) (gs_usage s)], s))"

section \<open>The activity\<close>

definition chatgpt_create_params :: "chatgpt_request \<Rightarrow> pydict" where
  "chatgpt_create_params r =
     [(''model'', PStr (pq_model r)),
      (''instructions'', if pq_system_prompt r = [] then PNone else PStr (pq_system_prompt r)),
      (''input'', PList (map PDict (pq_chat_history r))), (''max_output_tokens'', PInt (pq_max_tokens r)),
      (''stream'', PBool True), (''store'', PBool False)] @
     (if pq_tools r = [] then []
      else [(''tools'', PList (map PDict (pq_tools r))), (''tool_choice'', PStr ''auto''),
            (''parallel_tool_calls'', PBool True)]) @
     (case gq_reasoning r of None \<Rightarrow> [] | Some d \<Rightarrow> [(''reasoning'', PDict d)])"

text \<open>
  \<open>call_chatgpt\<close>, given the API key of the environment and what the SDK gives: the events, or a failure. An error
  event of the stream is an \<open>ApplicationError\<close>, which is not caught.
\<close>

definition call_chatgpt ::
  "(string \<Rightarrow> pyval option) \<Rightarrow> string option \<Rightarrow> api_failure + chatgpt_event list \<Rightarrow> chatgpt_request \<Rightarrow> provider_response res" where
  "call_chatgpt loads api_key streamed r =
     (if (case api_key of None \<Rightarrow> True | Some k \<Rightarrow> k = [])
      then Inl (PyExn (ExcApplication (Some ''MissingApiKey'') True) ''OPENAI_API_KEY must be set to call ChatGPT'' None None)
      else res_bind (api_call streamed) (\<lambda>events.
        res_bind (stream_chatgpt_response loads (pq_stream_sequence r) events) (\<lambda>(_, s).
        Inr \<lparr>pr_id = (case gs_response_id s of
                 Some (c # cs) \<Rightarrow> c # cs
               | _ \<Rightarrow> ''chatgpt:'' @ int_str (case pq_stream_sequence r of None \<Rightarrow> 0 | Some n \<Rightarrow> n)),
             pr_model = (case gs_model s of Some (c # cs) \<Rightarrow> c # cs | _ \<Rightarrow> pq_model r),
             pr_message = chatgpt_stream_message s, pr_stop_reason = gs_stop_reason s, pr_stop_sequence = None,
             pr_usage = gs_usage s, pr_guard_action = None, pr_guard_reason = None,
             pr_stop_details = gs_stop_details s\<rparr>)))"

end
