(* ===== verification/ProviderHistory.thy ===== *)
theory ProviderHistory
  imports Claude
begin

text \<open>
  Every request of an agent takes its history through the format of the provider and back:
  \<open>_call_provider\<close> creates a request from the full history and then replaces the history by
  \<open>request_chat_history\<close> of that request. What must survive this are the texts, the tool calls and their results:
  this theory says what a message tells a model, and when two messages carry the same calls, for all providers.
\<close>

section \<open>The call or result of a block\<close>

definition call_view :: "pydict \<Rightarrow> (bool \<times> pyval) option" where
  "call_view b =
     (if block_type_is b ''tool_use'' then Some (True, dict_get_none b ''id'')
      else if block_type_is b ''tool_result'' then Some (False, dict_get_none b ''tool_use_id'')
      else None)"

definition call_views :: "pydict list \<Rightarrow> (bool \<times> pyval) set" where
  "call_views bs = {v. Some v \<in> call_view ` set bs}"

lemma call_views_simps [simp]:
  "call_views [] = {}"
  "call_views (b # bs) = (case call_view b of None \<Rightarrow> call_views bs | Some v \<Rightarrow> insert v (call_views bs))"
  by (auto simp: call_views_def split: option.splits)

lemma block_types_differ: "block_type_is b ty \<Longrightarrow> block_type_is b ty' \<Longrightarrow> ty = ty'"
  by (simp add: block_type_is_def)

lemma call_view_cases:
  "Some (True, v) = call_view b \<longleftrightarrow> block_type_is b ''tool_use'' \<and> v = dict_get_none b ''id''"
  "Some (False, v) = call_view b \<longleftrightarrow> block_type_is b ''tool_result'' \<and> v = dict_get_none b ''tool_use_id''"
  by (auto simp: call_view_def dest: block_types_differ)

lemma block_ids_set:
  "block_ids \<lparr>msg_role = r, msg_content = Blocks bs\<rparr> ty k =
     {s. \<exists>b \<in> set bs. block_type_is b ty \<and> PStr s = dict_get_none b k}"
proof -
  have id_iff: "block_id k b = Some s \<longleftrightarrow> PStr s = dict_get_none b k" for b s
    by (auto simp: block_id_def split: pyval.splits)
  have in_map_filter: "s \<in> set (List.map_filter f xs) \<longleftrightarrow> (\<exists>x \<in> set xs. f x = Some s)" for f :: "pydict \<Rightarrow> string option" and xs s
    by (induction xs) (auto simp: List.map_filter_simps split: option.splits)
  show ?thesis by (auto simp: block_ids_def in_map_filter id_iff)
qed

lemma tool_ids_call_views:
  "tool_use_ids \<lparr>msg_role = r, msg_content = Blocks bs\<rparr> = {s. (True, PStr s) \<in> call_views bs}"
  "tool_result_ids \<lparr>msg_role = r, msg_content = Blocks bs\<rparr> = {s. (False, PStr s) \<in> call_views bs}"
  by (auto simp: tool_use_ids_def tool_result_ids_def block_ids_set call_views_def image_iff call_view_cases)

lemma has_result_call_views:
  "message_has_block_type \<lparr>msg_role = r, msg_content = Blocks bs\<rparr> ''tool_result'' \<longleftrightarrow> (\<exists>v. (False, v) \<in> call_views bs)"
  by (induction bs) (auto simp: message_has_block_type_def call_view_def dest: block_types_differ split: option.splits if_splits)

section \<open>Messages with the same calls\<close>

definition same_calls :: "agent_message \<Rightarrow> agent_message \<Rightarrow> bool" where
  "same_calls m m' = (msg_role m = msg_role m' \<and> tool_use_ids m = tool_use_ids m' \<and> tool_result_ids m = tool_result_ids m' \<and>
     message_has_block_type m ''tool_result'' = message_has_block_type m' ''tool_result'')"

lemma same_calls_blocks:
  "call_views bs = call_views bs' \<Longrightarrow> same_calls (message r (Blocks bs)) (message r (Blocks bs'))"
  by (simp add: same_calls_def message_def tool_ids_call_views has_result_call_views)

lemma same_calls_asks: "same_calls m m' \<Longrightarrow> asks m' = asks m"
  by (simp add: same_calls_def asks_def del: asks_iff)

lemma same_calls_well_paired: "well_paired ms \<Longrightarrow> list_all2 same_calls ms ms' \<Longrightarrow> well_paired ms'"
proof (induction ms arbitrary: ms' rule: well_paired_induct)
  case (plain m ms)
  from plain.prems obtain m' ms'' where ms': "ms' = m' # ms''" "same_calls m m'" "list_all2 same_calls ms ms''"
    by (auto simp: list_all2_Cons1)
  then have "\<not> asks m'" "\<not> message_has_block_type m' ''tool_result''" "well_paired ms''"
    using plain.hyps plain.IH [OF ms'(3)] same_calls_asks [OF ms'(2)] by (simp_all add: same_calls_def)
  with ms'(1) show ?case by simp
next
  case (exchange m r rest)
  from exchange.prems obtain m' r' rest' where ms': "ms' = m' # r' # rest'" "same_calls m m'"
    "same_calls r r'" "list_all2 same_calls rest rest'"
    by (auto simp: list_all2_Cons1)
  then have "asks m'" "has_tool_results_for r' (tool_use_ids m')" "well_paired rest'"
    using exchange.hyps exchange.IH [OF ms'(4)] same_calls_asks [OF ms'(2)]
    by (simp_all add: same_calls_def has_tool_results_for_def)
  with ms'(1) show ?case by simp
qed simp

section \<open>What a message tells a model\<close>

text \<open>
  A block says a text, asks for a call (its identifier, the name of the tool and the input), answers one (its identifier,
  the content, and whether it is an error) or carries data of the provider. It tells a model nothing when it is of a type
  that the provider does not take, or carries data of another one.
\<close>

datatype block_view =
    Says string
  | Asks pyval pyval pydict
  | Answers pyval pyval bool
  | Carries pydict

definition said :: "pydict \<Rightarrow> string \<Rightarrow> string" where
  "said b other = (if truthy (dict_get_none b ''text'') then py_str (dict_get_none b ''text'') else other)"

definition refused :: "pydict \<Rightarrow> string" where
  "refused b = (case dict_get b ''refusal'' of Some (PStr s) \<Rightarrow> s | _ \<Rightarrow> [])"

definition block_view :: "string \<Rightarrow> (pydict \<Rightarrow> block_view) \<Rightarrow> pydict \<Rightarrow> block_view option" where
  "block_view provider raw b =
     (if block_type_is b ''text'' then Some (Says (said b []))
      else if block_type_is b CONTEXT_COMPACTION_MARKER then Some (Says (said b CONTEXT_COMPACTION_MARKER_TEXT))
      else if block_type_is b ''tool_use''
      then Some (Asks (dict_get_none b ''id'') (if truthy (dict_get_none b ''name'') then dict_get_none b ''name'' else PStr [])
        (case dict_get b ''input'' of Some (PDict d) \<Rightarrow> d | _ \<Rightarrow> []))
      else if block_type_is b ''tool_result''
      then Some (Answers (dict_get_none b ''tool_use_id'') (case dict_get b ''content'' of Some v \<Rightarrow> v | None \<Rightarrow> PStr [])
        (case dict_get b ''is_error'' of Some v \<Rightarrow> truthy v | None \<Rightarrow> False))
      else if block_type_is b ''provider'' \<and> dict_get b ''provider'' = Some (PStr provider)
      then (case dict_get b ''data'' of Some (PDict d) \<Rightarrow> Some (raw d) | _ \<Rightarrow> None)
      else if block_type_is b ''refusal'' then Some (Says (refused b))
      else None)"

definition message_view :: "(pydict \<Rightarrow> block_view option) \<Rightarrow> agent_message \<Rightarrow> agent_role \<times> block_view list" where
  "message_view view m =
     (msg_role m, case msg_content m of Text s \<Rightarrow> [Says s] | Blocks bs \<Rightarrow> List.map_filter view bs)"

definition carried :: "(block_view \<Rightarrow> block_view) \<Rightarrow> agent_role \<times> block_view list \<Rightarrow> agent_role \<times> block_view list" where
  "carried carry v = (fst v, map carry (snd v))"

lemma carried_id [simp]: "carried id v = v" "carried (\<lambda>x. x) v = v"
  by (simp_all add: carried_def)

lemma carried_twice: "carried f (carried g v) = carried (f \<circ> g) v"
  by (simp add: carried_def)

section \<open>The interface of a format\<close>

text \<open>
  What the agent's history has become after \<open>n\<close> requests of a provider, its own additions apart:
  \<open>Agent._call_provider\<close> replaces the history by \<open>request_chat_history\<close> of the request it made of it.
\<close>

primrec after_requests ::
  "(pydict list \<Rightarrow> pydict list res) \<Rightarrow> (pydict list \<Rightarrow> agent_message list res) \<Rightarrow> nat \<Rightarrow> agent_message list
     \<Rightarrow> agent_message list res" where
  "after_requests to_format of_format 0 ms = Inr ms"
| "after_requests to_format of_format (Suc n) ms =
     res_bind (to_format (map message_dict ms)) (\<lambda>ds.
     res_bind (of_format ds) (\<lambda>ms. after_requests to_format of_format n ms))"

definition unmarked :: "agent_message \<Rightarrow> bool" where
  "unmarked m = (\<not> message_has_block_type m CONTEXT_COMPACTION_MARKER)"

lemma same_calls_trans: "same_calls a b \<Longrightarrow> same_calls b c \<Longrightarrow> same_calls a c"
  by (simp add: same_calls_def)

lemma same_calls_refl: "list_all2 same_calls ms ms"
  by (simp add: list_all2_refl same_calls_def)

text \<open>
  What a format promises about messages it is ready to take: they come back with the same calls, telling a model the same
  up to what the format does to each block, without compaction markers, and ready to be taken again.
\<close>

locale history_format =
  fixes to_format :: "pydict list \<Rightarrow> pydict list res"
    and of_format :: "pydict list \<Rightarrow> agent_message list res"
    and ready :: "agent_message \<Rightarrow> bool"
    and view :: "pydict \<Rightarrow> block_view option"
    and carry :: "block_view \<Rightarrow> block_view"
  assumes round_trip: "list_all ready ms \<Longrightarrow>
    \<exists>ds ms'. to_format (map message_dict ms) = Inr ds \<and> of_format ds = Inr ms' \<and> list_all2 same_calls ms ms' \<and>
      map (message_view view) ms' = map (carried carry \<circ> message_view view) ms \<and>
      list_all unmarked ms' \<and> list_all ready ms'"
begin

lemma survives_requests:
  assumes "list_all ready ms"
  shows "\<exists>ms'. after_requests to_format of_format n ms = Inr ms' \<and> list_all2 same_calls ms ms' \<and>
     map (message_view view) ms' = map (carried (carry ^^ n) \<circ> message_view view) ms \<and> (0 < n \<longrightarrow> list_all unmarked ms')"
  using assms
proof (induction n arbitrary: ms)
  case (Suc n)
  from round_trip [OF Suc.prems] obtain ds ms1 where first: "to_format (map message_dict ms) = Inr ds" "of_format ds = Inr ms1"
    "list_all2 same_calls ms ms1" "map (message_view view) ms1 = map (carried carry \<circ> message_view view) ms"
    "list_all unmarked ms1" "list_all ready ms1" by blast
  from Suc.IH [OF first(6)] obtain ms' where others: "after_requests to_format of_format n ms1 = Inr ms'"
    "list_all2 same_calls ms1 ms'" "map (message_view view) ms' = map (carried (carry ^^ n) \<circ> message_view view) ms1"
    "0 < n \<longrightarrow> list_all unmarked ms'" by blast
  have "list_all2 same_calls ms ms'"
    using first(3) others(2) by (rule list_all2_trans [rotated]) (rule same_calls_trans)
  moreover have "map (message_view view) ms' = map (carried (carry ^^ Suc n) \<circ> message_view view) ms"
  proof -
    have "map (message_view view) ms' = map (carried (carry ^^ n)) (map (message_view view) ms1)" using others(3) by simp
    also have "\<dots> = map (carried (carry ^^ Suc n) \<circ> message_view view) ms"
      unfolding first(4) by (simp add: carried_twice funpow_Suc_right del: funpow.simps)
    finally show ?thesis .
  qed
  moreover have "list_all unmarked ms'" using others first(5) by (cases n) simp_all
  ultimately show ?case using first(1,2) others(1) by (auto simp del: funpow.simps)
qed (simp add: same_calls_refl)

lemma keeps_exchanges:
  assumes "list_all ready ms"
  shows "\<exists>ms'. after_requests to_format of_format n ms = Inr ms' \<and> list_all2 same_calls ms ms' \<and>
     map (message_view view) ms' = map (carried (carry ^^ n) \<circ> message_view view) ms \<and>
     (well_paired ms \<longrightarrow> well_paired ms') \<and> (0 < n \<longrightarrow> list_all unmarked ms')"
  using survives_requests [OF assms, of n] same_calls_well_paired by blast

end

end
