(* ===== verification/ClaudeProperties.thy ===== *)
theory ClaudeProperties
  imports ProviderHistory
begin

text \<open>
  What the Claude provider does to a request and to the history that passes through it.
\<close>

section \<open>Requests\<close>

lemma dict_index_Cons [simp]:
  "dict_index ((k, v) # d) k' = (if k' = k then Inr v else dict_index d k')"
  by (simp add: dict_index_def)

lemma dict_get_Cons [simp]:
  "dict_get_none ((k, v) # d) k' = (if k' = k then v else dict_get_none d k')"
  "dict_get_or ((k, v) # d) k' w = (if k' = k then v else dict_get_or d k' w)"
  by (simp_all add: dict_get_none_def dict_get_or_def)

lemma dict_get_Nil [simp]: "dict_get_none [] k = PNone" "dict_get_or [] k w = w"
  by (simp_all add: dict_get_none_def dict_get_or_def)

lemma claude_request_dict [simp]: "claude_request_from_dict (claude_request_to_dict q) = Inr q"
  by (cases q) (simp add: claude_request_from_dict_def claude_request_to_dict_def)

lemma response_dict: "read_message (PDict (pr_message r)) = Inr (pr_message r) \<Longrightarrow> response_from_dict read_message (response_to_dict r) = Inr r"
  by (cases r) (simp add: response_from_dict_def response_to_dict_def copy_mapping_def)

lemma claude_response_dict: "claude_response_from_dict (response_to_dict r) = Inr r"
  by (simp add: claude_response_from_dict_def response_dict copy_mapping_def)

text \<open>A thinking budget is at least the minimum and leaves a token for the answer.\<close>

lemma thinking_budget_bounds:
  assumes "thinking_request_params thinking max_tokens = Inr (Some p, oc)" "dict_get p ''budget_tokens'' = Some (PInt n)"
  shows "MIN_THINKING_BUDGET_TOKENS \<le> n \<and> n < max_tokens"
  using assms by (auto simp: thinking_request_params_def MIN_THINKING_BUDGET_TOKENS_def Let_def
      split: option.splits if_splits)

section \<open>A block that passes through the format of Claude\<close>

lemma block_type_Cons [simp]: "block_type_is ((''type'', PStr ty) # d) ty' \<longleftrightarrow> ty = ty'"
  by (simp add: block_type_is_def)

lemma dict_get_none_set [simp]: "dict_get_none (dict_set k v d) k' = (if k' = k then v else dict_get_none d k')"
  by (simp add: dict_get_none_def dict_get_set)

lemma block_type_set [simp]:
  "block_type_is (dict_set ''type'' (PStr ty) d) ty' \<longleftrightarrow> ty = ty'"
  "k \<noteq> ''type'' \<Longrightarrow> block_type_is (dict_set k v d) ty' \<longleftrightarrow> block_type_is d ty'"
  by (simp_all add: block_type_is_def dict_get_set)

text \<open>
  A block the conversion takes: a call has its identifier and name, a result its identifier, and a block
  with raw data of Claude does not hide a call or a result in them.
\<close>

definition claude_ready :: "pydict \<Rightarrow> bool" where
  "claude_ready b =
     ((block_type_is b ''tool_use'' \<longrightarrow> dict_get b ''id'' \<noteq> None \<and> dict_get b ''name'' \<noteq> None) \<and>
      (block_type_is b ''tool_result'' \<longrightarrow> dict_get b ''tool_use_id'' \<noteq> None) \<and>
      (block_type_is b ''provider'' \<longrightarrow> (case dict_get_none b ''data'' of
         PDict d \<Rightarrow> \<not> block_type_is d ''tool_use'' \<and> \<not> block_type_is d ''tool_result'' | _ \<Rightarrow> True)))"

text \<open>What a block tells Claude; raw data of Claude may themselves be a text or a refusal.\<close>

definition claude_raw :: "pydict \<Rightarrow> block_view" where
  "claude_raw d =
     (if block_type_is d ''text'' then Says (said d [])
      else if block_type_is d ''refusal'' then Says (refused d)
      else Carries d)"

definition claude_view :: "pydict \<Rightarrow> block_view option" where
  "claude_view = block_view ''claude'' claude_raw"

lemma text_of_block_said: "text_of_block b = said b []"
  by (simp add: text_of_block_def said_def py_or_def)

lemma marker_text_said: "marker_text b = said b CONTEXT_COMPACTION_MARKER_TEXT"
  by (simp add: marker_text_def said_def py_or_def)

lemma refusal_text_refused: "refusal_text b = refused b"
  by (simp add: refusal_text_def refused_def dict_get_none_def split: option.split)

lemmas texts_said = text_of_block_said marker_text_said refusal_text_refused

lemma said_text [simp]: "said [(''type'', t), (''text'', PStr s)] [] = s"
  by (simp add: said_def)

lemma view_of_text [simp]: "block_view provider raw (text_block t) = Some (Says t)"
  by (simp add: block_view_def text_block_def)

lemma claude_tool_use_roundtrip:
  assumes "block_type_is b ''tool_use''" "dict_get b ''id'' = Some i" "dict_get b ''name'' = Some n"
  shows "\<exists>d b'. agent_tool_use_to_claude_block b = Inr d \<and> claude_block_to_agent_block (PDict d) = Inr b' \<and>
     block_type_is b' ''tool_use'' \<and> dict_get_none b' ''id'' = i \<and> claude_view b' = claude_view b"
  using assms by (auto simp: agent_tool_use_to_claude_block_def dict_index_def Let_def claude_block_to_agent_block_def
      copy_mapping_def tool_use_block_def dict_get_set claude_view_def block_view_def block_type_is_def dict_get_none_def
      dict_get_or_def CONTEXT_COMPACTION_MARKER_def split: option.splits pyval.splits)

lemma claude_tool_result_roundtrip:
  assumes "block_type_is b ''tool_result''" "dict_get b ''tool_use_id'' = Some i"
  shows "\<exists>d b'. agent_tool_result_to_claude_block b = Inr d \<and> claude_block_to_agent_block (PDict d) = Inr b' \<and>
     block_type_is b' ''tool_result'' \<and> dict_get_none b' ''tool_use_id'' = i \<and> claude_view b' = claude_view b"
  using assms by (auto simp: agent_tool_result_to_claude_block_def dict_index_def Let_def claude_block_to_agent_block_def
      copy_mapping_def dict_get_set claude_view_def block_view_def block_type_is_def dict_get_none_def
      dict_get_or_def CONTEXT_COMPACTION_MARKER_def split: option.splits)

text \<open>Nothing that comes back is a compaction marker.\<close>

lemma claude_block_is_no_marker:
  "claude_block_to_agent_block v = Inr b \<Longrightarrow> \<not> block_type_is b CONTEXT_COMPACTION_MARKER"
  by (auto simp: claude_block_to_agent_block_def Let_def text_block_def tool_use_block_def provider_block_def
      CONTEXT_COMPACTION_MARKER_def res_bind_eq_Inr split: if_splits)

lemma claude_opaque_block:
  "\<not> block_type_is d ''tool_use'' \<Longrightarrow> \<not> block_type_is d ''tool_result'' \<Longrightarrow>
   \<exists>b'. claude_block_to_agent_block (PDict d) = Inr b' \<and> call_view b' = None \<and> claude_view b' = Some (claude_raw d)"
  by (auto simp: claude_block_to_agent_block_def copy_mapping_def Let_def text_block_def provider_block_def call_view_def
      claude_view_def block_view_def claude_raw_def texts_said CONTEXT_COMPACTION_MARKER_def)

lemma claude_block_roundtrip:
  assumes "claude_ready b"
  shows "\<exists>od. agent_block_to_claude_block b = Inr od \<and>
     (case od of None \<Rightarrow> call_view b = None \<and> claude_view b = None
      | Some d \<Rightarrow> \<exists>b'. claude_block_to_agent_block (PDict d) = Inr b' \<and> call_view b' = call_view b \<and>
          claude_view b' = claude_view b)"
proof -
  consider (use) i n where "block_type_is b ''tool_use''" "dict_get b ''id'' = Some i" "dict_get b ''name'' = Some n"
    | (answer) i where "block_type_is b ''tool_result''" "dict_get b ''tool_use_id'' = Some i"
    | (other) "\<not> block_type_is b ''tool_use''" "\<not> block_type_is b ''tool_result''"
    using assms by (auto simp: claude_ready_def)
  then show ?thesis
  proof cases
    case use
    from claude_tool_use_roundtrip [OF this] obtain d b' where
      "agent_tool_use_to_claude_block b = Inr d" "claude_block_to_agent_block (PDict d) = Inr b'"
      "block_type_is b' ''tool_use''" "dict_get_none b' ''id'' = i" "claude_view b' = claude_view b" by blast
    moreover from this use have "call_view b' = call_view b" by (simp add: call_view_def dict_get_none_def)
    ultimately show ?thesis
      using use(1) by (simp add: agent_block_to_claude_block_def block_type_is_def CONTEXT_COMPACTION_MARKER_def)
  next
    case answer
    from claude_tool_result_roundtrip [OF this] obtain d b' where
      "agent_tool_result_to_claude_block b = Inr d" "claude_block_to_agent_block (PDict d) = Inr b'"
      "block_type_is b' ''tool_result''" "dict_get_none b' ''tool_use_id'' = i" "claude_view b' = claude_view b" by blast
    moreover from this answer have "call_view b' = call_view b"
      by (auto simp: call_view_def dict_get_none_def dest: block_types_differ)
    ultimately show ?thesis
      using answer(1) by (simp add: agent_block_to_claude_block_def block_type_is_def CONTEXT_COMPACTION_MARKER_def)
  next
    case other
    have "call_view b = None" using other by (simp add: call_view_def)
    moreover have "\<exists>b'. claude_block_to_agent_block (PDict [(''type'', PStr ''text''), (''text'', PStr t)]) = Inr b'
       \<and> call_view b' = None \<and> claude_view b' = Some (Says t)" for t
      using claude_opaque_block [of "[(''type'', PStr ''text''), (''text'', PStr t)]"] by (simp add: claude_raw_def)
    moreover have "\<exists>b'. claude_block_to_agent_block (PDict d) = Inr b' \<and> call_view b' = None \<and> claude_view b' = Some (claude_raw d)"
      if "block_type_is b ''provider''" "dict_get_none b ''data'' = PDict d" for d
      using that assms by (intro claude_opaque_block) (auto simp: claude_ready_def)
    ultimately have view: "call_view b = None"
      "\<exists>b'. claude_block_to_agent_block (PDict [(''type'', PStr ''text''), (''text'', PStr t)]) = Inr b'
         \<and> call_view b' = None \<and> claude_view b' = Some (Says t)"
      "\<And>d. block_type_is b ''provider'' \<Longrightarrow> dict_get_none b ''data'' = PDict d \<Longrightarrow>
         \<exists>b'. claude_block_to_agent_block (PDict d) = Inr b' \<and> call_view b' = None \<and> claude_view b' = Some (claude_raw d)"
      for t by blast+
    have data: "(case dict_get b ''data'' of Some (PDict d) \<Rightarrow> Some (claude_raw d) | _ \<Rightarrow> None) =
        (case dict_get_none b ''data'' of PDict d \<Rightarrow> Some (claude_raw d) | _ \<Rightarrow> None)"
      by (simp add: dict_get_none_def split: option.split)
    show ?thesis
    proof (cases "block_type_is b ''provider'' \<and> dict_get b ''provider'' = Some (PStr ''claude'')")
      case True
      then show ?thesis using view(1,3) other
        by (cases "dict_get_none b ''data''")
          (simp_all add: agent_block_to_claude_block_def claude_view_def block_view_def data block_type_is_def
            CONTEXT_COMPACTION_MARKER_def)
    next
      case False
      have "agent_block_to_claude_block b = (if block_type_is b ''text'' then Inr (Some [(''type'', PStr ''text''), (''text'', PStr (said b []))])
          else if block_type_is b CONTEXT_COMPACTION_MARKER
          then Inr (Some [(''type'', PStr ''text''), (''text'', PStr (said b CONTEXT_COMPACTION_MARKER_TEXT))])
          else if block_type_is b ''refusal'' then Inr (Some [(''type'', PStr ''text''), (''text'', PStr (refused b))])
          else Inr None)"
        unfolding agent_block_to_claude_block_def if_not_P [OF False] texts_said using other by simp
      moreover have "claude_view b = (if block_type_is b ''text'' then Some (Says (said b []))
          else if block_type_is b CONTEXT_COMPACTION_MARKER then Some (Says (said b CONTEXT_COMPACTION_MARKER_TEXT))
          else if block_type_is b ''refusal'' then Some (Says (refused b)) else None)"
        unfolding claude_view_def block_view_def if_not_P [OF False] using other by simp
      ultimately show ?thesis using view(1,2) by simp
    qed
  qed
qed

section \<open>Messages and histories\<close>

lemma claude_blocks_roundtrip:
  assumes "list_all claude_ready bs"
  shows "\<exists>ods bs'. res_map agent_block_to_claude_block bs = Inr ods \<and>
     res_map claude_block_to_agent_block (map PDict (List.map_filter (\<lambda>x. x) ods)) = Inr bs' \<and> call_views bs' = call_views bs \<and>
     List.map_filter claude_view bs' = List.map_filter claude_view bs \<and>
     list_all (\<lambda>b. \<not> block_type_is b CONTEXT_COMPACTION_MARKER) bs'"
  using assms
proof (induction bs)
  case (Cons b bs)
  then obtain ods bs' where rest: "res_map agent_block_to_claude_block bs = Inr ods"
    "res_map claude_block_to_agent_block (map PDict (List.map_filter (\<lambda>x. x) ods)) = Inr bs'" "call_views bs' = call_views bs"
    "List.map_filter claude_view bs' = List.map_filter claude_view bs"
    "list_all (\<lambda>b. \<not> block_type_is b CONTEXT_COMPACTION_MARKER) bs'" by auto
  have "claude_ready b" using Cons.prems by simp
  from claude_block_roundtrip [OF this] obtain od where od: "agent_block_to_claude_block b = Inr od"
    "case od of None \<Rightarrow> call_view b = None \<and> claude_view b = None
     | Some d \<Rightarrow> \<exists>b'. claude_block_to_agent_block (PDict d) = Inr b' \<and> call_view b' = call_view b \<and>
         claude_view b' = claude_view b" by blast
  show ?case
  proof (cases od)
    case None
    with od rest show ?thesis by (simp add: List.map_filter_simps)
  next
    case (Some d)
    with od(2) obtain b' where "claude_block_to_agent_block (PDict d) = Inr b'" "call_view b' = call_view b"
      "claude_view b' = claude_view b" by auto
    with od(1) rest Some show ?thesis
      by (simp add: List.map_filter_simps claude_block_is_no_marker split: option.split)
  qed
qed (simp add: List.map_filter_simps)

definition message_ready :: "agent_message \<Rightarrow> bool" where
  "message_ready m = (wf_message m \<and> list_all claude_ready (content_blocks (msg_content m)))"

text \<open>What comes back from the format can be taken again.\<close>

lemma claude_block_comes_back_ready:
  assumes "claude_block_to_agent_block v = Inr b"
  shows "claude_ready b \<and> wf_block b"
proof (cases "block_type_is (copy_mapping v) ''tool_use''")
  case True
  then have "\<not> block_type_is (copy_mapping v) ''text''" by (auto dest: block_types_differ)
  with True assms show ?thesis
    by (auto simp: claude_block_to_agent_block_def Let_def tool_use_block_def res_bind_eq_Inr claude_ready_def
        wf_block_def dict_get_none_def)
next
  case False
  with assms show ?thesis
    by (auto simp: claude_block_to_agent_block_def Let_def provider_block_def claude_ready_def
        wf_block_def dict_get_none_def text_block_def dest: block_types_differ split: if_splits)
qed

lemma claude_message_comes_back_ready:
  assumes "claude_message_to_agent_message d = Inr m"
  shows "message_ready m"
proof -
  have "list_all claude_ready bs \<and> list_all wf_block bs" if "res_map claude_block_to_agent_block vs = Inr bs" for vs bs
    using that by (induction vs arbitrary: bs) (auto simp: res_bind_eq_Inr dest: claude_block_comes_back_ready)
  with assms show ?thesis
    by (auto simp: claude_message_to_agent_message_def message_ready_def wf_message_def content_blocks_def res_bind_eq_Inr
        split: option.splits pyval.splits)
qed

lemma claude_messages_come_back_ready:
  assumes "claude_messages_to_agent_messages ds = Inr ms"
  shows "list_all message_ready ms"
  using assms unfolding claude_messages_to_agent_messages_def
  by (induction ds arbitrary: ms) (auto simp: res_bind_eq_Inr dest: claude_message_comes_back_ready)

lemma claude_message_roundtrip:
  assumes "message_ready m"
  shows "\<exists>d m'. agent_message_to_claude_message (message_dict m) = Inr d \<and> claude_message_to_agent_message d = Inr m' \<and>
     same_calls m m' \<and> message_view claude_view m' = message_view claude_view m \<and> unmarked m'"
proof -
  have norm: "normalize_message (message_dict m) = Inr m"
    using assms by (simp add: message_ready_def normalize_message_dict)
  obtain r c where m: "m = message r c" by (cases m) (simp add: message_def)
  show ?thesis
  proof (cases c)
    case (Text s)
    then show ?thesis
      using norm by (simp add: agent_message_to_claude_message_def claude_message_to_agent_message_def m same_calls_def
          unmarked_def message_has_block_type_def message_view_def)
  next
    case (Blocks bs)
    then have "list_all claude_ready bs" using assms by (simp add: message_ready_def m content_blocks_def)
    from claude_blocks_roundtrip [OF this] obtain ods bs' where bs:
      "res_map agent_block_to_claude_block bs = Inr ods"
      "res_map claude_block_to_agent_block (map PDict (List.map_filter (\<lambda>x. x) ods)) = Inr bs'" "call_views bs' = call_views bs"
    "List.map_filter claude_view bs' = List.map_filter claude_view bs"
      "list_all (\<lambda>b. \<not> block_type_is b CONTEXT_COMPACTION_MARKER) bs'" by blast
    have "unmarked (message r (Blocks bs'))"
      using bs(5) by (auto simp: unmarked_def message_has_block_type_def list_ex_iff list_all_iff)
    with norm bs Blocks same_calls_blocks [of bs bs' r] show ?thesis
      by (simp add: agent_message_to_claude_message_def claude_message_to_agent_message_def m message_view_def)
  qed
qed

lemma claude_history_roundtrip:
  assumes "list_all message_ready ms"
  shows "\<exists>ds ms'. agent_messages_to_claude_messages (map message_dict ms) = Inr ds \<and>
     claude_messages_to_agent_messages ds = Inr ms' \<and> list_all2 same_calls ms ms' \<and>
     map (message_view claude_view) ms' = map (message_view claude_view) ms \<and> list_all unmarked ms'"
  using assms
proof (induction ms)
  case (Cons m ms)
  then obtain ds ms' where "agent_messages_to_claude_messages (map message_dict ms) = Inr ds"
    "claude_messages_to_agent_messages ds = Inr ms'" "list_all2 same_calls ms ms'"
    "map (message_view claude_view) ms' = map (message_view claude_view) ms" "list_all unmarked ms'" by auto
  moreover obtain d m' where "agent_message_to_claude_message (message_dict m) = Inr d"
    "claude_message_to_agent_message d = Inr m'" "same_calls m m'"
    "message_view claude_view m' = message_view claude_view m" "unmarked m'"
    using claude_message_roundtrip [of m] Cons.prems by auto
  ultimately show ?case
    by (simp add: agent_messages_to_claude_messages_def claude_messages_to_agent_messages_def)
qed (simp add: agent_messages_to_claude_messages_def claude_messages_to_agent_messages_def)

interpretation claude_format:
  history_format agent_messages_to_claude_messages claude_messages_to_agent_messages message_ready claude_view id
proof unfold_locales
  fix ms
  assume "list_all message_ready ms"
  from claude_history_roundtrip [OF this] obtain ds ms' where "agent_messages_to_claude_messages (map message_dict ms) = Inr ds"
    "claude_messages_to_agent_messages ds = Inr ms'" "list_all2 same_calls ms ms'"
    "map (message_view claude_view) ms' = map (message_view claude_view) ms" "list_all unmarked ms'" by blast
  with claude_messages_come_back_ready show "\<exists>ds ms'. agent_messages_to_claude_messages (map message_dict ms) = Inr ds \<and>
      claude_messages_to_agent_messages ds = Inr ms' \<and> list_all2 same_calls ms ms' \<and>
      map (message_view claude_view) ms' = map (carried id \<circ> message_view claude_view) ms \<and> list_all unmarked ms' \<and>
      list_all message_ready ms'" by auto
qed

section \<open>Properties\<close>

text \<open>
  C10. With Claude the history of the agent survives any number of requests. Whenever the calls of the history carry
  identifiers and names, its results identifiers, and the raw data of Claude in it are no calls or results themselves
  (and the thinking configuration fits the tokens of the answer), a request can be made of it and reads back unchanged
  after the guards saw it as a dictionary; and after \<open>n\<close> requests, each of which replaces the history by the one it
  sends, the history has the same messages in the same order, and each tells the model the same: the same role, texts,
  refusals, tool calls with their identifiers, names and inputs, results with their identifiers, contents and error
  flags, and raw data of Claude. It is sendable if it was. No compaction marker survives the first request, the texts of
  the markers become texts of the user; and blocks of a type that Claude is not sent are dropped.
\<close>

theorem claude_history_keeps_exchanges:
  assumes "pq_chat_history q = map message_dict ms" "list_all message_ready ms"
    and "thinking_request_params thinking (pq_max_tokens q) = Inr params"
  shows "(\<exists>cq. claude_create_request thinking q = Inr cq \<and> claude_request_from_dict (claude_request_to_dict cq) = Inr cq \<and>
       claude_request_chat_history cq =
         after_requests agent_messages_to_claude_messages claude_messages_to_agent_messages 1 ms) \<and>
     (\<exists>ms'. after_requests agent_messages_to_claude_messages claude_messages_to_agent_messages n ms = Inr ms' \<and>
       map (message_view claude_view) ms' = map (message_view claude_view) ms \<and>
       list_all2 same_calls ms ms' \<and> (well_paired ms \<longrightarrow> well_paired ms') \<and> (0 < n \<longrightarrow> list_all unmarked ms'))"
proof -
  obtain ds ms' where "agent_messages_to_claude_messages (map message_dict ms) = Inr ds"
    "claude_messages_to_agent_messages ds = Inr ms'"
    using claude_history_roundtrip [OF assms(2)] by blast
  moreover have "(id ^^ n) = (id :: block_view \<Rightarrow> block_view)" by (induction n) simp_all
  then obtain ms' where "after_requests agent_messages_to_claude_messages claude_messages_to_agent_messages n ms = Inr ms'"
    "map (message_view claude_view) ms' = map (message_view claude_view) ms" "list_all2 same_calls ms ms'"
    "well_paired ms \<longrightarrow> well_paired ms'" "0 < n \<longrightarrow> list_all unmarked ms'"
    using claude_format.keeps_exchanges [OF assms(2), of n] by (auto simp: comp_def)
  ultimately show ?thesis
    using assms by (cases params) (simp add: claude_create_request_def claude_request_chat_history_def)
qed

definition sample_exchange :: "agent_message list" where
  "sample_exchange =
     [message User (Blocks [context_compaction_marker_block (Some 4) ''older_messages_dropped'']),
      message User (Text ''weather?''),
      message Assistant (Blocks [text_block ''looking'',
        tool_use_block (PStr ''a'') (PStr ''get_weather'') [(''city'', PStr ''Oslo'')] None,
        tool_use_block (PStr ''b'') (PStr ''get_weather'') [(''city'', PStr ''Rome'')] None]),
      message User (Blocks [tool_result_block (PStr ''a'') ''{}'' False None, tool_result_block (PStr ''b'') ''{}'' True None])]"

definition sample_provider_request :: "pydict list \<Rightarrow> provider_request" where
  "sample_provider_request history = \<lparr>pq_system_prompt = [], pq_model = ''m'', pq_max_tokens = 2000, pq_tools = [],
     pq_chat_history = history, pq_context_token_limit = None, pq_stream_id = None, pq_stream_sequence = None,
     pq_stream_attempt = None\<rparr>"

lemma sample_exchange_ready: "list_all message_ready sample_exchange" "well_paired sample_exchange"
  by code_simp+

text \<open>What blocks that the agent itself makes tell a model.\<close>

lemma made_block_views:
  "block_view provider raw (tool_use_block i (PStr n) d p) = Some (Asks i (PStr n) d)"
  "block_view provider raw (tool_result_block i t e p) = Some (Answers i (PStr t) e)"
  "block_view provider raw (context_compaction_marker_block dropped r) = Some (Says CONTEXT_COMPACTION_MARKER_TEXT)"
  by (auto simp: block_view_def tool_use_block_def tool_result_block_def context_compaction_marker_block_def said_def
      CONTEXT_COMPACTION_MARKER_def CONTEXT_COMPACTION_MARKER_TEXT_def)

lemma sample_exchange_view:
  "map (message_view (block_view provider raw)) sample_exchange =
     [(User, [Says CONTEXT_COMPACTION_MARKER_TEXT]), (User, [Says ''weather?'']),
      (Assistant, [Says ''looking'', Asks (PStr ''a'') (PStr ''get_weather'') [(''city'', PStr ''Oslo'')],
         Asks (PStr ''b'') (PStr ''get_weather'') [(''city'', PStr ''Rome'')]]),
      (User, [Answers (PStr ''a'') (PStr ''{}'') False, Answers (PStr ''b'') (PStr ''{}'') True])]"
  by (simp add: sample_exchange_def message_view_def List.map_filter_simps made_block_views)

lemma claude_history_keeps_exchanges_witness:
  "\<exists>ms'. after_requests agent_messages_to_claude_messages claude_messages_to_agent_messages 7 sample_exchange = Inr ms' \<and>
     map (message_view claude_view) ms' =
       [(User, [Says CONTEXT_COMPACTION_MARKER_TEXT]), (User, [Says ''weather?'']),
        (Assistant, [Says ''looking'', Asks (PStr ''a'') (PStr ''get_weather'') [(''city'', PStr ''Oslo'')],
           Asks (PStr ''b'') (PStr ''get_weather'') [(''city'', PStr ''Rome'')]]),
        (User, [Answers (PStr ''a'') (PStr ''{}'') False, Answers (PStr ''b'') (PStr ''{}'') True])] \<and>
     well_paired ms' \<and> list_all unmarked ms'"
proof -
  have "thinking_request_params (Some (ClaudeThinkingConfig\<lparr>ct_enabled := True\<rparr>))
      (pq_max_tokens (sample_provider_request (map message_dict sample_exchange))) =
     Inr (Some [(''type'', PStr ''enabled''), (''budget_tokens'', PInt 1999)], None)"
    by code_simp
  from claude_history_keeps_exchanges [OF _ sample_exchange_ready(1) this, of 7] obtain ms' where
    "after_requests agent_messages_to_claude_messages claude_messages_to_agent_messages 7 sample_exchange = Inr ms'"
    "map (message_view claude_view) ms' = map (message_view claude_view) sample_exchange"
    "well_paired sample_exchange \<longrightarrow> well_paired ms'" "list_all unmarked ms'"
    by (auto simp: sample_provider_request_def)
  then show ?thesis using sample_exchange_ready(2) sample_exchange_view [of "''claude''" claude_raw]
    unfolding claude_view_def by auto
qed

text \<open>The history of the sample after a request: the marker is a plain text now.\<close>

lemma claude_forgets_markers:
  "message_has_block_type (hd sample_exchange) CONTEXT_COMPACTION_MARKER \<and>
   (case agent_messages_to_claude_messages (map message_dict sample_exchange) of Inl _ \<Rightarrow> False | Inr ds \<Rightarrow>
      (case claude_messages_to_agent_messages ds of Inl _ \<Rightarrow> False | Inr ms \<Rightarrow>
         hd ms = message User (Blocks [text_block CONTEXT_COMPACTION_MARKER_TEXT])))"
  by code_simp

end
