(* ===== verification/ChatGPTProperties.thy ===== *)
theory ChatGPTProperties
  imports ChatGPT ClaudeProperties
begin

text \<open>
  What the ChatGPT provider makes of a stream and of the history that passes through it.
\<close>

section \<open>Requests and responses\<close>

lemma chatgpt_request_dict [simp]: "chatgpt_request_from_dict (chatgpt_request_to_dict q) = Inr q"
  by (cases q) (simp add: chatgpt_request_from_dict_def chatgpt_request_to_dict_def)

lemma chatgpt_response_dict:
  "dict_get (pr_message r) ''content'' \<noteq> None \<Longrightarrow> chatgpt_response_from_dict (response_to_dict r) = Inr r"
  by (simp add: chatgpt_response_from_dict_def response_dict chatgpt_response_message_from_value_def copy_mapping_def)

section \<open>The stream\<close>

text \<open>
  Every address of the tool table is in the store, every index of an output item is in the list, so that no
  access of the code is out of range.
\<close>

definition below :: "nat \<Rightarrow> ('k \<times> nat) list \<Rightarrow> bool" where
  "below n al = (\<forall>a \<in> snd ` set al. a < n)"

lemma below_update [intro, simp]: "below n al \<Longrightarrow> v < n \<Longrightarrow> below n (AList.update k v al)"
  by (induction al) (auto simp: below_def)

lemma below_Suc [intro, simp]: "below n al \<Longrightarrow> below (Suc n) al"
  by (force simp: below_def)

lemma below_lookup: "map_of al k = Some v \<Longrightarrow> below n al \<Longrightarrow> v < n"
  by (force simp: below_def dest: map_of_SomeD)

lemma below_Nil [simp]: "below n []"
  by (simp add: below_def)

definition stream_ok :: "chatgpt_stream_state \<Rightarrow> bool" where
  "stream_ok s =
     (below (length (gs_tool_store s)) (gs_tool_inputs s) \<and> below (length (gs_output_items s)) (gs_output_item_indices s))"

lemma upsert_ok [intro]: "stream_ok s \<Longrightarrow> stream_ok (upsert_output_item i item s)"
  by (auto simp: stream_ok_def upsert_output_item_def split: option.splits)

lemma upsert_text [simp]:
  "gs_text_parts (upsert_output_item i item s) = gs_text_parts s" "gs_sequence (upsert_output_item i item s) = gs_sequence s"
  by (simp_all add: upsert_output_item_def split: option.splits)

lemma merge_ok [intro]: "stream_ok s \<Longrightarrow> stream_ok (merge_function_call_arguments i args s)"
  by (auto simp: stream_ok_def merge_function_call_arguments_def split: option.splits)

lemma merge_text [simp]:
  "gs_text_parts (merge_function_call_arguments i args s) = gs_text_parts s"
  "gs_sequence (merge_function_call_arguments i args s) = gs_sequence s"
  "gs_tool_store (merge_function_call_arguments i args s) = gs_tool_store s"
  by (simp_all add: merge_function_call_arguments_def split: option.splits)

lemma tool_input_state_at_ok:
  assumes "tool_input_state_at k i s = (a, s')" "stream_ok s"
  shows "stream_ok s' \<and> a < length (gs_tool_store s') \<and> gs_text_parts s' = gs_text_parts s \<and> gs_sequence s' = gs_sequence s"
proof -
  consider (found) a0 where "map_of (gs_tool_inputs s) k = Some a0 \<or> map_of (gs_tool_inputs s) (int_str i) = Some a0"
      "a = a0" "s' = s\<lparr>gs_tool_inputs := AList.update (int_str i) a0 (AList.update k a0 (gs_tool_inputs s))\<rparr>"
    | (new) t where "a = length (gs_tool_store s)"
      "s' = s\<lparr>gs_tool_store := gs_tool_store s @ [t], gs_tool_inputs := AList.update (int_str i) a (AList.update k a (gs_tool_inputs s))\<rparr>"
    using assms(1) by (auto simp: tool_input_state_at_def Let_def split: option.splits)
  then show ?thesis
  proof cases
    case found
    then have "a < length (gs_tool_store s)"
      using assms(2) below_lookup by (auto simp: stream_ok_def)
    then show ?thesis
      using found assms(2) by (auto simp: stream_ok_def)
  next
    case new
    then show ?thesis
      using assms(2) by (auto simp: stream_ok_def)
  qed
qed

text \<open>What an event does to the text: what is appended to the parts is what is emitted.\<close>

definition text_step :: "chatgpt_stream_state \<Rightarrow> emission list \<Rightarrow> chatgpt_stream_state \<Rightarrow> bool" where
  "text_step s ems s' =
     (stream_ok s' \<and> gs_sequence s' = gs_sequence s \<and>
      concat (gs_text_parts s') = concat (gs_text_parts s) @ emitted_texts AGENT_TEXT_DELTA ''text'' ems)"

lemma text_event_step: "stream_ok s \<Longrightarrow> text_step s (fst (text_event e s)) (snd (text_event e s))"
  by (auto simp: text_event_def text_step_def stream_ok_def split: option.splits)

lemma reasoning_event_step: "stream_ok s \<Longrightarrow> text_step s (fst (reasoning_event e s)) (snd (reasoning_event e s))"
  by (auto simp: reasoning_event_def text_step_def stream_ok_def split: option.splits)

lemma item_added_event_step:
  assumes "stream_ok s"
  shows "text_step s (fst (item_added_event e s)) (snd (item_added_event e s))"
proof -
  let ?s = "upsert_output_item (ge_output_index e) (copy_mapping (ge_item e)) s"
  have "stream_ok ?s" using assms by auto
  then have "stream_ok (?s\<lparr>gs_tool_store := gs_tool_store ?s @ [t], gs_tool_inputs :=
      AList.update k (length (gs_tool_store ?s)) (AList.update k' (length (gs_tool_store ?s)) (gs_tool_inputs ?s))\<rparr>)" for t k k'
    by (auto simp: stream_ok_def)
  then show ?thesis using \<open>stream_ok ?s\<close> by (auto simp: item_added_event_def text_step_def Let_def)
qed

lemma arguments_delta_event_step:
  assumes "stream_ok s"
  shows "text_step s (fst (arguments_delta_event e s)) (snd (arguments_delta_event e s))"
proof -
  let ?k = "if ge_item_id e = [] then int_str (ge_output_index e) else ge_item_id e"
  obtain a s' where s': "tool_input_state_at ?k (ge_output_index e) s = (a, s')" by fastforce
  from tool_input_state_at_ok [OF this assms] show ?thesis
    by (auto simp: arguments_delta_event_def Let_def s' text_step_def stream_ok_def split: option.splits)
qed

lemma arguments_done_event_step:
  assumes "stream_ok s"
  shows "text_step s (fst (arguments_done_event loads e s)) (snd (arguments_done_event loads e s))"
proof -
  let ?k = "if ge_item_id e = [] then int_str (ge_output_index e) else ge_item_id e"
  obtain a s' where s': "tool_input_state_at ?k (ge_output_index e) s = (a, s')" by fastforce
  note ok = tool_input_state_at_ok [OF this assms]
  have "stream_ok (merge_function_call_arguments i args s')" for i args using ok by auto
  with ok show ?thesis
    by (auto simp: arguments_done_event_def Let_def s' text_step_def stream_ok_def split: pyval.splits)
qed

text \<open>What a step leaves alone.\<close>

definition same_stream :: "chatgpt_stream_state \<Rightarrow> chatgpt_stream_state \<Rightarrow> bool" where
  "same_stream s s' = (gs_text_parts s' = gs_text_parts s \<and> gs_sequence s' = gs_sequence s \<and>
     gs_tool_store s' = gs_tool_store s \<and> gs_tool_inputs s' = gs_tool_inputs s \<and>
     gs_output_items s' = gs_output_items s \<and> gs_output_item_indices s' = gs_output_item_indices s)"

lemma final_fields:
  "same_stream s (final_id d s)" "same_stream s (final_model d s)" "same_stream s (final_status d s)"
  "same_stream s (final_usage d s)" "same_stream s (final_stop_details d s)"
  by (simp_all add: same_stream_def final_id_def final_model_def final_status_def final_usage_def
      final_stop_details_def Let_def split: pyval.split)

lemma final_output_ok: "stream_ok s \<Longrightarrow> stream_ok (final_output d s)"
  "gs_text_parts (final_output d s) = gs_text_parts s" "gs_sequence (final_output d s) = gs_sequence s"
  by (auto simp: final_output_def stream_ok_def below_def split: pyval.split)

lemma final_response_step:
  assumes "stream_ok s"
  shows "text_step s [] (record_final_openai_response v s)"
proof -
  let ?d = "copy_mapping v"
  let ?s = "final_stop_details ?d (final_usage ?d (final_status ?d (final_model ?d (final_id ?d s))))"
  have "same_stream s ?s" using final_fields by (metis (no_types, lifting) same_stream_def)
  then have "stream_ok ?s" "gs_text_parts ?s = gs_text_parts s" "gs_sequence ?s = gs_sequence s"
    using assms by (simp_all add: same_stream_def stream_ok_def)
  then show ?thesis by (simp add: record_final_openai_response_def Let_def text_step_def final_output_ok)
qed

lemma chatgpt_event_step:
  assumes "stream_ok s" "record_chatgpt_stream_event loads e s = Inr (ems, s')"
  shows "text_step s ems s'"
  using assms text_event_step [OF assms(1), of e] reasoning_event_step [OF assms(1), of e]
    item_added_event_step [OF assms(1), of e] arguments_delta_event_step [OF assms(1), of e]
    arguments_done_event_step [OF assms(1), of loads e] final_response_step [OF assms(1)] upsert_ok [OF assms(1)]
  by (auto simp: record_chatgpt_stream_event_def text_step_def split: if_splits)

lemma chatgpt_events_step:
  "stream_ok s \<Longrightarrow> chatgpt_stream_events loads events s = Inr (ems, s') \<Longrightarrow> text_step s ems s'"
proof (induction events arbitrary: s ems)
  case (Cons e events)
  let ?s = "s\<lparr>gs_events := gs_events s + 1\<rparr>"
  from Cons.prems(2) obtain ems1 s1 ems2 where 1: "record_chatgpt_stream_event loads e ?s = Inr (ems1, s1)"
    "chatgpt_stream_events loads events s1 = Inr (ems2, s')" "ems = ems1 @ ems2"
    by (auto simp: res_bind_eq_Inr)
  have "stream_ok ?s" using Cons.prems(1) by (simp add: stream_ok_def)
  from chatgpt_event_step [OF this 1(1)] have 2: "text_step ?s ems1 s1" .
  then have "stream_ok s1" by (simp add: text_step_def)
  from Cons.IH [OF this 1(2)] have "text_step s1 ems2 s'" .
  with 2 1(3) show ?case by (simp add: text_step_def)
qed (simp add: text_step_def)

text \<open>
  C28. The text the user sees while ChatGPT answers is the text of the answer. Whatever events arrive, if the
  stream ends without an error the texts of the emitted deltas, put together, are the text of the final event
  and, when the response listed no output items, the text of the message the agent records; and the tables of
  the stream never point outside their lists.
\<close>

theorem chatgpt_shows_what_it_says:
  assumes "stream_chatgpt_response loads sequence events = Inr (ems, s)"
  shows "dict_get_none (snd (last ems)) ''text'' = PStr (emitted_texts AGENT_TEXT_DELTA ''text'' ems) \<and>
     (gs_output_items s = [] \<longrightarrow> (\<exists>m. chatgpt_message_to_agent_message loads (chatgpt_stream_message s) = Inr m \<and>
        message_text (message_dict m) = emitted_texts AGENT_TEXT_DELTA ''text'' ems)) \<and> stream_ok s"
proof -
  obtain ems1 where run: "chatgpt_stream_events loads events (chatgpt_stream_start sequence) = Inr (ems1, s)"
    "ems = agent_started sequence # ems1 @
       [agent_completed sequence (gs_response_id s) (gs_model s) (gs_stop_reason s) (gs_stop_details s)
          (concat (gs_text_parts s)) (gs_usage s)]"
    using assms by (auto simp: stream_chatgpt_response_def res_bind_eq_Inr)
  have "stream_ok (chatgpt_stream_start sequence)" by (simp add: stream_ok_def chatgpt_stream_start_def)
  from chatgpt_events_step [OF this run(1)]
  have ok: "stream_ok s" "concat (gs_text_parts s) = emitted_texts AGENT_TEXT_DELTA ''text'' ems"
    by (simp_all add: text_step_def run(2) chatgpt_stream_start_def)
  have "\<exists>m. chatgpt_message_to_agent_message loads (chatgpt_stream_message s) = Inr m \<and>
      message_text (message_dict m) = concat (gs_text_parts s)" if "gs_output_items s = []"
    using that by (auto simp: chatgpt_stream_message_def chatgpt_message_to_agent_message_def assistant_output_def
        output_message_def copy_mapping_def output_item_blocks_def message_item_to_agent_blocks_def content_parts_def
        List.map_filter_simps chatgpt_content_part_to_agent_block_def text_block_def text_of_block_def py_or_def
        message_text_def content_value_def text_from_block_def block_mapping_def Let_def)
  moreover have "dict_get_none (snd (last ems)) ''text'' = PStr (concat (gs_text_parts s))"
    by (simp add: run(2) agent_completed_def)
  ultimately show ?thesis using ok by simp
qed

definition sample_chatgpt_event :: "string \<Rightarrow> string \<Rightarrow> chatgpt_event" where
  "sample_chatgpt_event ty delta = \<lparr>ge_type = ty, ge_delta = PStr delta, ge_item = PNone, ge_output_index = 0,
     ge_item_id = [], ge_name = PNone, ge_arguments = PNone, ge_response = PNone, ge_message = PNone, ge_code = PNone\<rparr>"

lemma chatgpt_shows_what_it_says_witness:
  "case stream_chatgpt_response (\<lambda>_. None) None [sample_chatgpt_event ''response.output_text.delta'' ''Hel'',
       sample_chatgpt_event ''response.output_text.delta'' ''lo''] of
     Inl _ \<Rightarrow> False
   | Inr (ems, s) \<Rightarrow> dict_get_none (snd (last ems)) ''text'' = PStr ''Hello'' \<and> stream_ok s"
proof -
  define r where "r = stream_chatgpt_response (\<lambda>_. None) None [sample_chatgpt_event ''response.output_text.delta'' ''Hel'',
       sample_chatgpt_event ''response.output_text.delta'' ''lo'']"
  have "\<exists>ems s. r = Inr (ems, s) \<and> emitted_texts AGENT_TEXT_DELTA ''text'' ems = ''Hello''"
    unfolding r_def by (simp add: stream_chatgpt_response_def record_chatgpt_stream_event_def sample_chatgpt_event_def
        text_event_def some_text_def)
  then obtain ems s where "r = Inr (ems, s)" "emitted_texts AGENT_TEXT_DELTA ''text'' ems = ''Hello''" by blast
  moreover from this chatgpt_shows_what_it_says [of "\<lambda>_. None" None _ ems s] have
    "dict_get_none (snd (last ems)) ''text'' = PStr ''Hello'' \<and> stream_ok s" unfolding r_def by auto
  ultimately show ?thesis unfolding r_def by simp
qed

section \<open>The history\<close>

lemma json_sort_keys_idem: "json_sort_keys (json_sort_keys v) = json_sort_keys v"
proof (induction v rule: json_sort_keys.induct)
  case (2 d)
  let ?g = "\<lambda>(k, v). (k, json_sort_keys v)"
  let ?s = "sort_key fst (map ?g d)"
  have "map ?g ?s = ?s" using "2.IH" by (intro map_idI) auto
  then show ?case by (simp add: sort_key_id_if_sorted)
qed simp_all

lemma dict_set_same: "dict_get d k = Some v \<Longrightarrow> dict_set k v d = d"
  by (induction d) auto

text \<open>An input item whose message gives the same item again.\<close>

definition item_stable :: "(string \<Rightarrow> pyval option) \<Rightarrow> pydict \<Rightarrow> bool" where
  "item_stable loads item = (\<exists>m. chatgpt_input_item_to_agent_message loads item = Inr (Some m) \<and>
     agent_message_to_chatgpt_input_items (message_dict m) = Inr [item])"

lemma text_item_stable: "item_stable loads [(''role'', PStr (role_str r)), (''content'', PStr t)]"
  by (simp add: item_stable_def chatgpt_input_item_to_agent_message_def block_type_is_def
      agent_message_to_chatgpt_input_items_def normalize_message_dict wf_message_def content_blocks_def)

lemma provider_data_metadata [simp]:
  "provider_data (tool_use_block i n inp (Some (provider_metadata p ty d))) p = Some d"
  "provider_data (chatgpt_function_output_to_agent_block d) ''chatgpt'' = Some d"
  by (simp_all add: provider_data_def tool_use_block_def provider_metadata_def chatgpt_function_output_to_agent_block_def)

lemma one_block_items:
  assumes "block_type_is b ty" "ty = ''tool_use'' \<or> ty = ''tool_result''" "block_items b = Inr [item]"
  shows "agent_message_to_chatgpt_input_items (message_dict (message r (Blocks [b]))) = Inr [item]"
proof -
  have "wf_message (message r (Blocks [b]))"
    using assms(1) by (simp add: wf_message_def content_blocks_def wf_block_def block_type_is_def dict_get_none_def)
  moreover have "joined_text b = None"
    using assms(1,2) by (auto simp: joined_text_def block_type_is_def CONTEXT_COMPACTION_MARKER_def)
  ultimately show ?thesis
    using assms(3) by (simp add: agent_message_to_chatgpt_input_items_def normalize_message_dict flush_text_def)
qed

text \<open>
  The condition on a block: a call has a non-empty identifier and a name, and \<open>json.loads\<close> reads its arguments
  back; a result has an identifier; there is no raw data of the provider.
\<close>

definition chatgpt_ready :: "(string \<Rightarrow> pyval option) \<Rightarrow> pydict \<Rightarrow> bool" where
  "chatgpt_ready loads b =
     ((block_type_is b ''tool_use'' \<longrightarrow>
        (\<exists>c cs n d. dict_get b ''id'' = Some (PStr (c # cs)) \<and> dict_get b ''name'' = Some (PStr n) \<and>
           dict_get_or b ''input'' (PDict []) = PDict d \<and>
           loads (json_dumps (json_sort_keys (PDict d))) = Some (json_sort_keys (PDict d)))) \<and>
      (block_type_is b ''tool_result'' \<longrightarrow> dict_get b ''tool_use_id'' \<noteq> None) \<and>
      \<not> block_type_is b ''provider'')"

lemma json_dumps_dict_nonempty: "json_dumps (json_sort_keys (PDict d)) \<noteq> []"
  by (simp add: json_dumps_def)

lemma call_item_stable:
  assumes "dict_get item ''type'' = Some (PStr ''function_call'')" "dict_get item ''call_id'' = Some (PStr (c # cs))"
    "dict_get item ''name'' = Some (PStr n)" "dict_get item ''status'' = Some (PStr ''completed'')"
    "dict_get item ''arguments'' = Some (PStr (json_dumps (json_sort_keys (PDict d))))"
    "loads (json_dumps (json_sort_keys (PDict d))) = Some (json_sort_keys (PDict d))"
  shows "item_stable loads item"
proof -
  obtain e where e: "json_sort_keys (PDict d) = PDict e" by simp
  have "json_sort_keys (PDict e) = PDict e" using json_sort_keys_idem [of "PDict d"] e by simp
  let ?b = "tool_use_block (PStr (c # cs)) (PStr n) e (Some (provider_metadata ''chatgpt'' ''function_call'' item))"
  have "chatgpt_input_item_to_agent_message loads item = Inr (Some (message Assistant (Blocks [?b])))"
    using assms json_dumps_dict_nonempty [of d] e
    by (simp add: chatgpt_input_item_to_agent_message_def block_type_is_def chatgpt_function_call_to_agent_block_def
        dict_get_none_def py_or_def json_object_of_def json_object_def chatgpt_tool_use_id_def some_text_def)
  moreover have "agent_message_to_chatgpt_input_items (message_dict (message Assistant (Blocks [?b]))) = Inr [item]"
  proof (rule one_block_items [where ty = "''tool_use''"])
    have "agent_tool_use_to_chatgpt_item ?b = Inr item"
      using assms e \<open>json_sort_keys (PDict e) = PDict e\<close>
      by (simp add: agent_tool_use_to_chatgpt_item_def Let_def dict_set_same dict_index_def del: json_sort_keys.simps)
        (simp add: tool_use_block_def dict_get_or_def dict_set_same)
    then show "block_items ?b = Inr [item]" by (simp add: block_items_def tool_use_block_def)
  qed (simp_all add: tool_use_block_def)
  ultimately show ?thesis unfolding item_stable_def by blast
qed

lemma output_item_stable:
  assumes "dict_get item ''type'' = Some (PStr ''function_call_output'')" "dict_get item ''call_id'' = Some i"
    "dict_get item ''status'' = Some (PStr ''completed'')" "dict_get item ''output'' = Some (PStr t)"
  shows "item_stable loads item"
proof -
  let ?b = "chatgpt_function_output_to_agent_block item"
  have "chatgpt_input_item_to_agent_message loads item = Inr (Some (message User (Blocks [?b])))"
    using assms by (simp add: chatgpt_input_item_to_agent_message_def block_type_is_def)
  moreover have "agent_message_to_chatgpt_input_items (message_dict (message User (Blocks [?b]))) = Inr [item]"
  proof (rule one_block_items [where ty = "''tool_result''"])
    have "agent_tool_result_to_chatgpt_item ?b = Inr item"
      using assms by (simp add: agent_tool_result_to_chatgpt_item_def Let_def dict_set_same dict_index_def)
        (simp add: chatgpt_function_output_to_agent_block_def dict_get_none_def dict_get_or_def dict_set_same)
    then show "block_items ?b = Inr [item]" by (simp add: block_items_def chatgpt_function_output_to_agent_block_def)
  qed (simp_all add: chatgpt_function_output_to_agent_block_def)
  ultimately show ?thesis unfolding item_stable_def by blast
qed

lemma block_items_stable:
  assumes "chatgpt_ready loads b" "joined_text b = None"
  shows "\<exists>items. block_items b = Inr items \<and> list_all (item_stable loads) items"
proof -
  consider (use) c cs n d where "block_type_is b ''tool_use''" "dict_get b ''id'' = Some (PStr (c # cs))"
      "dict_get b ''name'' = Some (PStr n)" "dict_get_or b ''input'' (PDict []) = PDict d"
      "loads (json_dumps (json_sort_keys (PDict d))) = Some (json_sort_keys (PDict d))"
    | (answer) i where "block_type_is b ''tool_result''" "dict_get b ''tool_use_id'' = Some i"
    | (other) "\<not> block_type_is b ''tool_use''" "\<not> block_type_is b ''tool_result''" "\<not> block_type_is b ''provider''"
    using assms(1) unfolding chatgpt_ready_def not_None_eq by blast
  then show ?thesis
  proof cases
    case use
    obtain item where item: "agent_tool_use_to_chatgpt_item b = Inr item"
      "dict_get item ''type'' = Some (PStr ''function_call'')" "dict_get item ''call_id'' = Some (PStr (c # cs))"
      "dict_get item ''name'' = Some (PStr n)" "dict_get item ''status'' = Some (PStr ''completed'')"
      "dict_get item ''arguments'' = Some (PStr (json_dumps (json_sort_keys (PDict d))))"
      using use by (simp add: agent_tool_use_to_chatgpt_item_def Let_def dict_index_def dict_get_set del: json_sort_keys.simps)
    from call_item_stable [where d = d and loads = loads, OF item(2-) use(5)] item(1) use(1) show ?thesis by (simp add: block_items_def)
  next
    case answer
    obtain item t where item: "agent_tool_result_to_chatgpt_item b = Inr item"
      "dict_get item ''type'' = Some (PStr ''function_call_output'')" "dict_get item ''call_id'' = Some i"
      "dict_get item ''status'' = Some (PStr ''completed'')" "dict_get item ''output'' = Some (PStr t)"
      using answer by (simp add: agent_tool_result_to_chatgpt_item_def Let_def dict_index_def dict_get_set)
    from output_item_stable [OF item(2-)] item(1) answer(1) show ?thesis
      by (simp add: block_items_def block_type_is_def)
  qed (simp add: block_items_def)
qed

lemma blocks_items_stable:
  "list_all (chatgpt_ready loads) bs \<Longrightarrow> \<exists>items. blocks_to_items r texts bs = Inr items \<and> list_all (item_stable loads) items"
proof (induction bs arbitrary: texts)
  case (Cons b bs)
  show ?case
  proof (cases "joined_text b")
    case None
    from Cons.IH [of "[]"] Cons.prems obtain rest where rest: "blocks_to_items r [] bs = Inr rest"
      "list_all (item_stable loads) rest" by auto
    from Cons.prems have "chatgpt_ready loads b" by simp
    from block_items_stable [OF this None] obtain items where "block_items b = Inr items"
      "list_all (item_stable loads) items" by blast
    with rest None show ?thesis by (simp add: flush_text_def text_item_stable)
  next
    case (Some t)
    with Cons.IH [of "texts @ [t]"] Cons.prems show ?thesis by simp
  qed
qed (simp add: flush_text_def text_item_stable)

definition chatgpt_message_ready :: "(string \<Rightarrow> pyval option) \<Rightarrow> agent_message \<Rightarrow> bool" where
  "chatgpt_message_ready loads m = (wf_message m \<and> list_all (chatgpt_ready loads) (content_blocks (msg_content m)))"

lemma message_items_stable:
  assumes "chatgpt_message_ready loads m"
  shows "\<exists>items. agent_message_to_chatgpt_input_items (message_dict m) = Inr items \<and> list_all (item_stable loads) items"
proof -
  have norm: "normalize_message (message_dict m) = Inr m"
    using assms by (simp add: chatgpt_message_ready_def normalize_message_dict)
  show ?thesis
  proof (cases "msg_content m")
    case (Text s)
    with norm show ?thesis by (simp add: agent_message_to_chatgpt_input_items_def text_item_stable)
  next
    case (Blocks bs)
    then have "list_all (chatgpt_ready loads) bs" using assms by (simp add: chatgpt_message_ready_def content_blocks_def)
    from blocks_items_stable [OF this, of "msg_role m" "[]"] norm Blocks show ?thesis
      by (simp add: agent_message_to_chatgpt_input_items_def)
  qed
qed

lemma history_items_stable:
  "list_all (chatgpt_message_ready loads) ms \<Longrightarrow>
   \<exists>items. agent_messages_to_chatgpt_input (map message_dict ms) = Inr items \<and> list_all (item_stable loads) items"
proof (induction ms)
  case (Cons m ms)
  then obtain items where "agent_messages_to_chatgpt_input (map message_dict ms) = Inr items"
    "list_all (item_stable loads) items" by auto
  moreover obtain items' where "agent_message_to_chatgpt_input_items (message_dict m) = Inr items'"
    "list_all (item_stable loads) items'" using message_items_stable Cons.prems by fastforce
  ultimately show ?case by (auto simp: agent_messages_to_chatgpt_input_def res_bind_eq_Inr)
qed (simp add: agent_messages_to_chatgpt_input_def)

lemma stable_items_return:
  "list_all (item_stable loads) items \<Longrightarrow>
   \<exists>ms. chatgpt_input_to_agent_messages loads items = Inr ms \<and>
     agent_messages_to_chatgpt_input (map message_dict ms) = Inr items \<and> length ms = length items"
proof (induction items)
  case (Cons item items)
  then obtain ms where ms: "chatgpt_input_to_agent_messages loads items = Inr ms"
    "agent_messages_to_chatgpt_input (map message_dict ms) = Inr items" "length ms = length items" by auto
  obtain m where m: "chatgpt_input_item_to_agent_message loads item = Inr (Some m)"
    "agent_message_to_chatgpt_input_items (message_dict m) = Inr [item]" using Cons.prems by (auto simp: item_stable_def)
  from ms(1) m(1) have "chatgpt_input_to_agent_messages loads (item # items) = Inr (m # ms)"
    by (auto simp: chatgpt_input_to_agent_messages_def res_bind_eq_Inr List.map_filter_simps)
  moreover from ms(2) m(2) have "agent_messages_to_chatgpt_input (map message_dict (m # ms)) = Inr (item # items)"
    by (auto simp: agent_messages_to_chatgpt_input_def res_bind_eq_Inr)
  ultimately show ?case using ms(3) by (intro exI [of _ "m # ms"]) simp
qed (simp add: chatgpt_input_to_agent_messages_def agent_messages_to_chatgpt_input_def List.map_filter_simps)

text \<open>
  What the history tells the model, item by item, said without the conversion: the texts of a message that follow each
  other are one text of its role, a call is one item with its identifier, its name and its arguments as sorted
  JSON, a result is one item with the identifier of its call and its content as text.
\<close>

datatype chatgpt_piece =
    Item_Text pyval string
  | Item_Call pyval pyval pyval
  | Item_Output pyval pyval
  | No_Item

definition chatgpt_piece :: "agent_role \<Rightarrow> pydict \<Rightarrow> chatgpt_piece" where
  "chatgpt_piece r b =
     (case block_view ''chatgpt'' Carries b of
        Some (Says t) \<Rightarrow> Item_Text (PStr (role_str r)) t
      | Some (Asks i n d) \<Rightarrow> Item_Call i n (PStr (json_dumps (json_sort_keys (PDict d))))
      | Some (Answers i v _) \<Rightarrow> Item_Output i (PStr (py_str v))
      | _ \<Rightarrow> No_Item)"

fun glued :: "chatgpt_piece list \<Rightarrow> chatgpt_piece list" where
  "glued (Item_Text r s # Item_Text _ t # ps) = glued (Item_Text r (s @ newline @ t) # ps)"
| "glued (p # ps) = p # glued ps"
| "glued [] = []"

definition chatgpt_pieces :: "agent_message \<Rightarrow> chatgpt_piece list" where
  "chatgpt_pieces m =
     (case msg_content m of
        Text s \<Rightarrow> [Item_Text (PStr (role_str (msg_role m))) s]
      | Blocks bs \<Rightarrow> filter (\<lambda>p. p \<noteq> No_Item) (glued (map (chatgpt_piece (msg_role m)) bs)))"

definition item_piece :: "pydict \<Rightarrow> chatgpt_piece" where
  "item_piece item =
     (if block_type_is item ''function_call''
      then Item_Call (dict_get_none item ''call_id'') (dict_get_none item ''name'') (dict_get_none item ''arguments'')
      else if block_type_is item ''function_call_output''
      then Item_Output (dict_get_none item ''call_id'') (dict_get_none item ''output'')
      else (case dict_get item ''content'' of Some (PStr s) \<Rightarrow> Item_Text (dict_get_none item ''role'') s | _ \<Rightarrow> No_Item))"

definition no_text :: "chatgpt_piece \<Rightarrow> bool" where
  "no_text p = (case p of Item_Text _ _ \<Rightarrow> False | _ \<Rightarrow> True)"

lemma glued_no_text: "no_text p \<Longrightarrow> glued (p # ps) = p # glued ps"
  by (cases p) (simp_all add: no_text_def)

lemma glued_text_no_text: "no_text p \<Longrightarrow> glued (Item_Text r t # p # ps) = Item_Text r t # p # glued ps"
  by (cases p) (simp_all add: no_text_def)

lemma piece_of_text: "joined_text b = Some t \<Longrightarrow> chatgpt_piece r b = Item_Text (PStr (role_str r)) t"
  by (auto simp: chatgpt_piece_def joined_text_def block_view_def texts_said block_type_is_def
      CONTEXT_COMPACTION_MARKER_def split: if_splits)

lemma py_join_snoc: "ts \<noteq> [] \<Longrightarrow> py_join sep (ts @ [t]) = py_join sep ts @ sep @ t"
proof (induction ts)
  case (Cons a ts)
  then show ?case by (cases ts) simp_all
qed simp

lemma item_piece_text [simp]:
  "item_piece [(''role'', PStr r), (''content'', PStr t)] = Item_Text (PStr r) t"
  by (simp add: item_piece_def block_type_is_def dict_get_none_def)

lemma no_text_pieces [simp]: "no_text (Item_Call i n a)" "no_text (Item_Output i v)" "no_text No_Item"
  by (simp_all add: no_text_def)

lemma block_items_piece:
  assumes "chatgpt_ready loads b" "joined_text b = None" "block_items b = Inr items"
  shows "map item_piece items = filter (\<lambda>p. p \<noteq> No_Item) [chatgpt_piece r b] \<and> no_text (chatgpt_piece r b)"
proof -
  consider (use) c cs n d where "block_type_is b ''tool_use''" "dict_get b ''id'' = Some (PStr (c # cs))"
      "dict_get b ''name'' = Some (PStr n)" "dict_get_or b ''input'' (PDict []) = PDict d"
    | (answer) i where "block_type_is b ''tool_result''" "dict_get b ''tool_use_id'' = Some i"
    | (other) "\<not> block_type_is b ''tool_use''" "\<not> block_type_is b ''tool_result''" "\<not> block_type_is b ''provider''"
    using assms(1) unfolding chatgpt_ready_def not_None_eq by blast
  then show ?thesis
  proof cases
    case use
    then have d: "(case dict_get b ''input'' of Some (PDict d) \<Rightarrow> d | _ \<Rightarrow> []) = d"
      by (auto simp: dict_get_or_def split: option.splits)
    have "block_view ''chatgpt'' Carries b = Some (Asks (PStr (c # cs)) (PStr n) d)"
      using use(1-3) d by (auto simp: block_view_def block_type_is_def dict_get_none_def CONTEXT_COMPACTION_MARKER_def)
    then show ?thesis using use assms(3)
      by (auto simp: chatgpt_piece_def block_items_def agent_tool_use_to_chatgpt_item_def Let_def dict_index_def
          item_piece_def block_type_is_def dict_get_set dict_get_none_def simp del: json_sort_keys.simps)
  next
    case answer
    then have "\<exists>e. block_view ''chatgpt'' Carries b = Some (Answers i (dict_get_or b ''content'' (PStr [])) e)"
      by (auto simp: block_view_def block_type_is_def dict_get_none_def dict_get_or_def CONTEXT_COMPACTION_MARKER_def
          split: option.splits)
    then obtain e where "block_view ''chatgpt'' Carries b = Some (Answers i (dict_get_or b ''content'' (PStr [])) e)" ..
    then show ?thesis using answer assms(3)
      by (auto simp: chatgpt_piece_def block_items_def agent_tool_result_to_chatgpt_item_def Let_def dict_index_def
          item_piece_def block_type_is_def dict_get_set dict_get_none_def)
  next
    case other
    then have "block_view ''chatgpt'' Carries b = None"
      using assms(2) by (auto simp: block_view_def joined_text_def split: if_splits)
    then show ?thesis using other assms(3) by (auto simp: chatgpt_piece_def block_items_def)
  qed
qed

lemma blocks_items_pieces:
  "list_all (chatgpt_ready loads) bs \<Longrightarrow> blocks_to_items r texts bs = Inr items \<Longrightarrow>
   map item_piece items = filter (\<lambda>p. p \<noteq> No_Item) (glued
     ((if texts = [] then [] else [Item_Text (PStr (role_str r)) (py_join newline texts)]) @ map (chatgpt_piece r) bs))"
proof (induction bs arbitrary: texts items)
  case Nil
  then show ?case by (auto simp: flush_text_def)
next
  case (Cons b bs)
  show ?case
  proof (cases "joined_text b")
    case None
    from Cons.prems None obtain made rest where split: "block_items b = Inr made" "blocks_to_items r [] bs = Inr rest"
      "items = flush_text r texts @ made @ rest" by (auto simp: res_bind_eq_Inr)
    from Cons.prems have "chatgpt_ready loads b" "list_all (chatgpt_ready loads) bs" by simp_all
    note piece = block_items_piece [OF this(1) None split(1), of r]
    note rest = Cons.IH [OF \<open>list_all (chatgpt_ready loads) bs\<close> split(2)]
    show ?thesis using piece rest split(3)
      by (simp add: glued_no_text glued_text_no_text flush_text_def split: if_splits)
  next
    case (Some t)
    with Cons.IH [of "texts @ [t]" items] Cons.prems piece_of_text [OF Some, of r] show ?thesis
      by (cases "texts = []") (simp_all add: py_join_snoc)
  qed
qed

lemma history_items_pieces:
  "list_all (chatgpt_message_ready loads) ms \<Longrightarrow> agent_messages_to_chatgpt_input (map message_dict ms) = Inr items \<Longrightarrow>
   map item_piece items = concat (map chatgpt_pieces ms)"
proof (induction ms arbitrary: items)
  case (Cons m ms)
  from Cons.prems(2) obtain made rest where split: "agent_message_to_chatgpt_input_items (message_dict m) = Inr made"
    "agent_messages_to_chatgpt_input (map message_dict ms) = Inr rest" "items = made @ rest"
    by (auto simp: agent_messages_to_chatgpt_input_def res_bind_eq_Inr)
  from Cons.prems(1) have norm: "normalize_message (message_dict m) = Inr m"
    and ready: "list_all (chatgpt_ready loads) (content_blocks (msg_content m))"
    by (simp_all add: chatgpt_message_ready_def normalize_message_dict)
  have "map item_piece made = chatgpt_pieces m"
  proof (cases "msg_content m")
    case (Text s)
    with split(1) norm show ?thesis by (auto simp: agent_message_to_chatgpt_input_items_def chatgpt_pieces_def)
  next
    case (Blocks bs)
    with ready have "list_all (chatgpt_ready loads) bs" by (simp add: content_blocks_def)
    from blocks_items_pieces [OF this] split(1) norm Blocks show ?thesis
      by (auto simp: agent_message_to_chatgpt_input_items_def chatgpt_pieces_def)
  qed
  with Cons.IH [OF _ split(2)] Cons.prems(1) split(3) show ?case by simp
qed (simp add: agent_messages_to_chatgpt_input_def)

text \<open>
  C12. With ChatGPT what is sent says what the history says and does not change when the history is taken from a
  request and a new request is made of it. The condition is on the history: it has no blocks of a provider
  (reasoning items among them), calls have a non-empty text as identifier, a text as name and a dictionary as input
  that \<open>json.loads\<close> reads back from what \<open>json.dumps\<close> writes, and results have the identifier of a call.
  Then the request can be made and reads back from its dictionary; its input items are, in order, those of the
  messages: the neighbouring texts of a message as one text of its role, a call with its identifier, its name and
  its arguments, a result with the identifier and the content of the answer. The history can be taken from
  the request, with one message for each item, and the request made of that history has the same input items.
\<close>

theorem chatgpt_input_is_stable:
  assumes "pq_chat_history q = map message_dict ms" "list_all (chatgpt_message_ready loads) ms"
  shows "\<exists>gq ms'. chatgpt_create_request reasoning q = Inr gq \<and>
     map item_piece (pq_chat_history gq) = concat (map chatgpt_pieces ms) \<and>
     chatgpt_request_from_dict (chatgpt_request_to_dict gq) = Inr gq \<and> chatgpt_request_chat_history loads gq = Inr ms' \<and>
     chatgpt_replace_request_chat_history gq (map message_dict ms') = Inr gq \<and> length ms' = length (pq_chat_history gq)"
proof -
  obtain items where items: "agent_messages_to_chatgpt_input (map message_dict ms) = Inr items"
    "list_all (item_stable loads) items" using history_items_stable [OF assms(2)] by blast
  note pieces = history_items_pieces [OF assms(2) items(1)]
  from stable_items_return [OF items(2)] obtain ms' where "chatgpt_input_to_agent_messages loads items = Inr ms'"
    "agent_messages_to_chatgpt_input (map message_dict ms') = Inr items" "length ms' = length items" by blast
  with items pieces assms show ?thesis
    by (simp add: chatgpt_create_request_def chatgpt_request_chat_history_def chatgpt_replace_request_chat_history_def)
qed

definition sample_loads :: "string \<Rightarrow> pyval option" where
  "sample_loads s =
     (if s = json_dumps (PDict [(''city'', PStr ''Oslo'')]) then Some (PDict [(''city'', PStr ''Oslo'')])
      else if s = json_dumps (PDict [(''city'', PStr ''Rome'')]) then Some (PDict [(''city'', PStr ''Rome'')])
      else None)"

lemma sample_arguments_differ:
  "json_dumps (PDict [(''city'', PStr ''Rome'')]) \<noteq> json_dumps (PDict [(''city'', PStr ''Oslo'')])"
  by code_simp

lemma sample_exchange_chatgpt_ready: "list_all (chatgpt_message_ready sample_loads) sample_exchange"
  by (simp add: sample_exchange_def chatgpt_message_ready_def content_blocks_def wf_message_def wf_block_def
      chatgpt_ready_def context_compaction_marker_block_def text_block_def tool_use_block_def tool_result_block_def
      CONTEXT_COMPACTION_MARKER_def dict_get_none_def dict_get_or_def sample_loads_def sample_arguments_differ)

lemma sample_exchange_pieces:
  "concat (map chatgpt_pieces sample_exchange) =
     [Item_Text (PStr ''user'') CONTEXT_COMPACTION_MARKER_TEXT, Item_Text (PStr ''user'') ''weather?'',
      Item_Text (PStr ''assistant'') ''looking'',
      Item_Call (PStr ''a'') (PStr ''get_weather'') (PStr (json_dumps (PDict [(''city'', PStr ''Oslo'')]))),
      Item_Call (PStr ''b'') (PStr ''get_weather'') (PStr (json_dumps (PDict [(''city'', PStr ''Rome'')]))),
      Item_Output (PStr ''a'') (PStr ''{}''), Item_Output (PStr ''b'') (PStr ''{}'')]"
  by code_simp

lemma chatgpt_input_is_stable_witness:
  "\<exists>gq ms'. chatgpt_create_request None (sample_provider_request (map message_dict sample_exchange)) = Inr gq \<and>
     map item_piece (pq_chat_history gq) =
       [Item_Text (PStr ''user'') CONTEXT_COMPACTION_MARKER_TEXT, Item_Text (PStr ''user'') ''weather?'',
        Item_Text (PStr ''assistant'') ''looking'',
        Item_Call (PStr ''a'') (PStr ''get_weather'') (PStr (json_dumps (PDict [(''city'', PStr ''Oslo'')]))),
        Item_Call (PStr ''b'') (PStr ''get_weather'') (PStr (json_dumps (PDict [(''city'', PStr ''Rome'')]))),
        Item_Output (PStr ''a'') (PStr ''{}''), Item_Output (PStr ''b'') (PStr ''{}'')] \<and>
     chatgpt_request_chat_history sample_loads gq = Inr ms' \<and> length ms' = 7 \<and>
     chatgpt_replace_request_chat_history gq (map message_dict ms') = Inr gq"
proof -
  have "pq_chat_history (sample_provider_request (map message_dict sample_exchange)) = map message_dict sample_exchange"
    by (simp add: sample_provider_request_def)
  from chatgpt_input_is_stable [OF this sample_exchange_chatgpt_ready, of None]
  obtain gq ms' where made: "chatgpt_create_request None (sample_provider_request (map message_dict sample_exchange)) = Inr gq"
    "chatgpt_request_chat_history sample_loads gq = Inr ms'"
    "chatgpt_replace_request_chat_history gq (map message_dict ms') = Inr gq" "length ms' = length (pq_chat_history gq)"
    and pieces: "map item_piece (pq_chat_history gq) = concat (map chatgpt_pieces sample_exchange)" by blast
  note pieces = pieces [unfolded sample_exchange_pieces]
  from arg_cong [OF pieces, of length] have "length (pq_chat_history gq) = 7" by simp
  with made(4) have "length ms' = 7" by simp
  with made(1-3) pieces show ?thesis by (intro exI conjI)
qed

section \<open>What is lost\<close>

text \<open>
  An assistant message with several calls comes back as one message for each call, so no call is followed by its
  result any more. The window manager then drops all of them: after its first request the model sees neither
  the calls nor their results.
\<close>

definition after_chatgpt :: "agent_message list \<Rightarrow> agent_message list" where
  "after_chatgpt ms =
     (case res_bind (agent_messages_to_chatgpt_input (map message_dict ms)) (chatgpt_input_to_agent_messages sample_loads) of
        Inl _ \<Rightarrow> [] | Inr ms' \<Rightarrow> ms')"

lemma parallel_calls_are_split:
  "length sample_exchange = 4 \<and> length (after_chatgpt sample_exchange) = 7 \<and>
   well_paired sample_exchange \<and> \<not> well_paired (after_chatgpt sample_exchange)"
  by code_simp

lemma parallel_calls_are_dropped:
  "drop_incomplete_tool_exchanges sample_exchange = sample_exchange \<and>
   drop_incomplete_tool_exchanges (after_chatgpt sample_exchange) =
     [message User (Text CONTEXT_COMPACTION_MARKER_TEXT), message User (Text ''weather?''),
      message Assistant (Text ''looking'')]"
  by code_simp

text \<open>A reasoning item of the response is sent with the next request, but not kept in the history.\<close>

lemma reasoning_items_are_dropped:
  "after_chatgpt [message Assistant (Blocks [provider_block ''chatgpt'' ''reasoning''
      [(''type'', PStr ''reasoning''), (''id'', PStr ''rs'')], text_block ''done''])] = [message Assistant (Text ''done'')]"
  by code_simp

text \<open>An error of a tool comes back as a success.\<close>

lemma tool_errors_are_forgotten:
  "map (\<lambda>m. map (\<lambda>b. dict_get_none b ''is_error'') (content_blocks (msg_content m))) (drop 6 (after_chatgpt sample_exchange)) =
     [[PBool False]]"
  by code_simp

end
