(* ===== verification/Gemini.thy ===== *)
theory Gemini
  imports Claude
begin

text \<open>
  \<open>agent_harness/providers/gemini.py\<close>: requests and responses of the Gemini provider, the conversion of the
  conversation to Google's contents and back, the schemas of its tools, and the state its stream is
  collected in. \<open>json.loads\<close> is the parameter \<open>loads\<close>, \<open>None\<close> for a \<open>JSONDecodeError\<close>; \<open>json.dumps\<close>
  of a payload is \<open>json_dumps\<close>.
\<close>

section \<open>Requests and responses\<close>

definition GEMINI_REFUSAL_STOP_REASONS :: "string set" where
  "GEMINI_REFUSAL_STOP_REASONS = {''SAFETY'', ''RECITATION'', ''BLOCKLIST'', ''PROHIBITED_CONTENT'', ''SPII''}"

definition GEMINI_REFUSAL_FALLBACK :: string where
  "GEMINI_REFUSAL_FALLBACK =
     ''Gemini refused this turn. Google did not return a provider-generated '' @
     ''refusal message, so the app stopped this agent run instead of retrying '' @
     ''the same request.''"

record gemini_thinking_config =
  gk_include_thoughts :: bool
  gk_thinking_budget :: "int option"
  gk_thinking_level :: "string option"

record gemini_request = provider_request +
  gm_thinking_config :: "pydict option"

definition thinking_config_to_gemini :: "gemini_thinking_config option \<Rightarrow> pydict option" where
  "thinking_config_to_gemini thinking =
     map_option (\<lambda>t. [(''include_thoughts'', PBool (gk_include_thoughts t))] @
       (case gk_thinking_budget t of None \<Rightarrow> [] | Some n \<Rightarrow> [(''thinking_budget'', PInt n)]) @
       (case gk_thinking_level t of None \<Rightarrow> [] | Some l \<Rightarrow> [(''thinking_level'', PStr l)])) thinking"

definition gemini_request_to_dict :: "gemini_request \<Rightarrow> pydict" where
  "gemini_request_to_dict r =
     [(''system_prompt'', PStr (pq_system_prompt r)), (''model'', PStr (pq_model r)),
      (''max_tokens'', PInt (pq_max_tokens r)), (''context_token_limit'', opt_int (pq_context_token_limit r)),
      (''tools'', PList (map PDict (pq_tools r))), (''chat_history'', PList (map PDict (pq_chat_history r))),
      (''stream_id'', opt_str (pq_stream_id r)), (''stream_sequence'', opt_int (pq_stream_sequence r)),
      (''stream_attempt'', opt_int (pq_stream_attempt r)), (''thinking_config'', opt_dict (gm_thinking_config r))]"

definition gemini_request_from_dict :: "pydict \<Rightarrow> gemini_request res" where
  "gemini_request_from_dict d =
     res_bind (dict_index d ''system_prompt'') (\<lambda>system_prompt.
     res_bind (dict_index d ''model'') (\<lambda>model.
     res_bind (dict_index d ''max_tokens'') (\<lambda>max_tokens.
       Inr \<lparr>pq_system_prompt = cast_str system_prompt, pq_model = cast_str model, pq_max_tokens = cast_int max_tokens,
            pq_tools = mapping_list (dict_get_or d ''tools'' (PList [])),
            pq_chat_history = mapping_list (dict_get_or d ''chat_history'' (PList [])),
            pq_context_token_limit = cast_opt_int (dict_get_none d ''context_token_limit''),
            pq_stream_id = cast_opt_str (dict_get_none d ''stream_id''),
            pq_stream_sequence = cast_opt_int (dict_get_none d ''stream_sequence''),
            pq_stream_attempt = cast_opt_int (dict_get_none d ''stream_attempt''),
            gm_thinking_config = copy_optional_mapping (dict_get_none d ''thinking_config'')\<rparr>)))"

section \<open>Agent messages to contents\<close>

definition gemini_function_call_id :: "pydict \<Rightarrow> string option" where
  "gemini_function_call_id d = some_text (dict_get_none d ''id'')"

definition gemini_tool_use_id :: "pydict \<Rightarrow> int \<Rightarrow> string" where
  "gemini_tool_use_id d index =
     (case gemini_function_call_id d of
        Some i \<Rightarrow> i
      | None \<Rightarrow> ''gemini-tool-'' @ int_str index @ ''-'' @ py_str (py_or (dict_get_none d ''name'') (PStr ''unknown'')))"

definition agent_tool_use_to_gemini_function_call :: "pydict \<Rightarrow> pydict res" where
  "agent_tool_use_to_gemini_function_call b =
     (let function_call = (case provider_data b ''gemini'' of
            Some d \<Rightarrow> copy_mapping (dict_get_or d ''function_call'' (PDict d))
          | None \<Rightarrow> [])
      in res_bind (dict_index b ''name'') (\<lambda>name.
         res_bind (dict_index b ''id'') (\<lambda>tool_id.
           Inr (dict_set ''id'' tool_id
                 (dict_set ''args'' (PDict (copy_mapping (dict_get_or b ''input'' (PDict []))))
                   (dict_set ''name'' name function_call))))))"

definition tool_result_response_payload :: "(string \<Rightarrow> pyval option) \<Rightarrow> pyval \<Rightarrow> bool \<Rightarrow> pydict" where
  "tool_result_response_payload loads cont is_error =
     (let payload = (case cont of PStr s \<Rightarrow> (case loads s of Some v \<Rightarrow> v | None \<Rightarrow> cont) | _ \<Rightarrow> cont)
      in [(''result'', payload)] @ (if is_error then [(''is_error'', PBool True)] else []))"

text \<open>The names of the calls seen so far; the identifier of a result is read as a text.\<close>

type_synonym call_names = "(string \<times> string) list"

definition agent_tool_result_to_gemini_function_response ::
  "(string \<Rightarrow> pyval option) \<Rightarrow> call_names \<Rightarrow> pydict \<Rightarrow> pydict" where
  "agent_tool_result_to_gemini_function_response loads names b =
     (let response = (case provider_data b ''gemini'' of
            Some d \<Rightarrow> copy_mapping (dict_get_or d ''function_response'' (PDict d))
          | None \<Rightarrow>
              (let tool_use_id = cast_str (py_or (dict_get_none b ''tool_use_id'') (PStr []))
               in [(''name'', PStr (case map_of names tool_use_id of Some n \<Rightarrow> n | None \<Rightarrow> tool_use_id)),
                   (''id'', PStr tool_use_id)]));
          payload = tool_result_response_payload loads (dict_get_or b ''content'' (PStr []))
            (truthy (dict_get_or b ''is_error'' (PBool False)))
      in [(''function_response'', PDict (dict_set ''response'' (PDict payload) response))])"

definition agent_block_to_gemini_parts ::
  "(string \<Rightarrow> pyval option) \<Rightarrow> call_names \<Rightarrow> pydict \<Rightarrow> (pydict list \<times> call_names) res" where
  "agent_block_to_gemini_parts loads names b =
     (if block_type_is b ''text'' then Inr ([[(''text'', PStr (text_of_block b))]], names)
      else if block_type_is b CONTEXT_COMPACTION_MARKER then Inr ([[(''text'', PStr (marker_text b))]], names)
      else if block_type_is b ''tool_use''
      then res_bind (agent_tool_use_to_gemini_function_call b) (\<lambda>c.
             Inr ([[(''function_call'', PDict c)]],
               case (gemini_function_call_id c, dict_get_none c ''name'') of
                 (Some i, PStr n) \<Rightarrow> AList.update i n names
               | _ \<Rightarrow> names))
      else if block_type_is b ''tool_result''
      then Inr ([agent_tool_result_to_gemini_function_response loads names b], names)
      else if block_type_is b ''provider'' \<and> dict_get b ''provider'' = Some (PStr ''gemini'')
      then Inr (case dict_get_none b ''data'' of PDict d \<Rightarrow> [d] | _ \<Rightarrow> [], names)
      else if block_type_is b ''refusal'' then Inr ([[(''text'', PStr (refusal_text b))]], names)
      else Inr ([], names))"

fun agent_blocks_to_gemini_parts ::
  "(string \<Rightarrow> pyval option) \<Rightarrow> call_names \<Rightarrow> pydict list \<Rightarrow> (pydict list \<times> call_names) res" where
  "agent_blocks_to_gemini_parts loads names [] = Inr ([], names)"
| "agent_blocks_to_gemini_parts loads names (b # bs) =
     res_bind (agent_block_to_gemini_parts loads names b) (\<lambda>(ps, names).
     res_bind (agent_blocks_to_gemini_parts loads names bs) (\<lambda>(qs, names). Inr (ps @ qs, names)))"

definition gemini_role :: "agent_role \<Rightarrow> string" where
  "gemini_role r = (case r of Assistant \<Rightarrow> ''model'' | User \<Rightarrow> ''user'')"

text \<open>A content, as its role and parts.\<close>

definition agent_message_to_gemini_content ::
  "(string \<Rightarrow> pyval option) \<Rightarrow> call_names \<Rightarrow> pydict \<Rightarrow> ((string \<times> pydict list) \<times> call_names) res" where
  "agent_message_to_gemini_content loads names msg =
     res_bind (normalize_message msg) (\<lambda>m.
       case msg_content m of
         Text s \<Rightarrow> Inr ((gemini_role (msg_role m), [[(''text'', PStr s)]]), names)
       | Blocks bs \<Rightarrow> res_bind (agent_blocks_to_gemini_parts loads names bs) (\<lambda>(ps, names).
           Inr ((gemini_role (msg_role m), ps), names)))"

definition content_dict :: "string \<times> pydict list \<Rightarrow> pydict" where
  "content_dict c = [(''role'', PStr (fst c)), (''parts'', PList (map PDict (snd c)))]"

fun gemini_contents_from :: "(string \<Rightarrow> pyval option) \<Rightarrow> call_names \<Rightarrow> pydict list \<Rightarrow> pydict list res" where
  "gemini_contents_from loads names [] = Inr []"
| "gemini_contents_from loads names (msg # msgs) =
     res_bind (agent_message_to_gemini_content loads names msg) (\<lambda>(c, names).
     res_bind (gemini_contents_from loads names msgs) (\<lambda>cs.
       Inr (if snd c = [] then cs else content_dict c # cs)))"

definition agent_messages_to_gemini_contents :: "(string \<Rightarrow> pyval option) \<Rightarrow> pydict list \<Rightarrow> pydict list res" where
  "agent_messages_to_gemini_contents loads = gemini_contents_from loads []"

section \<open>Contents to agent messages\<close>

definition normalize_gemini_function_call :: "pydict \<Rightarrow> pydict" where
  "normalize_gemini_function_call d =
     [(''name'', dict_get_none d ''name''), (''args'', PDict (copy_mapping (dict_get_or d ''args'' (PDict [])))),
      (''id'', dict_get_none d ''id'')]"

definition normalize_gemini_function_response :: "pydict \<Rightarrow> pydict" where
  "normalize_gemini_function_response d =
     [(''name'', dict_get_none d ''name''), (''response'', PDict (copy_mapping (dict_get_or d ''response'' (PDict [])))),
      (''id'', dict_get_none d ''id'')]"

definition gemini_call_block :: "pydict \<Rightarrow> int \<Rightarrow> pydict" where
  "gemini_call_block d index =
     (let normalized = normalize_gemini_function_call d
      in tool_use_block (PStr (gemini_tool_use_id normalized index)) (py_or (dict_get_none normalized ''name'') (PStr []))
           (copy_mapping (dict_get_or normalized ''args'' (PDict [])))
           (Some (provider_metadata ''gemini'' ''function_call'' [(''function_call'', PDict normalized)])))"

definition gemini_response_block :: "pydict \<Rightarrow> int \<Rightarrow> pydict" where
  "gemini_response_block d index =
     (let response = normalize_gemini_function_response d;
          payload = dict_get_or response ''response'' (PDict [])
      in [(''type'', PStr ''tool_result''), (''tool_use_id'', PStr (gemini_tool_use_id response index)),
          (''content'', PStr (json_dumps payload)),
          (''is_error'', PBool (case payload of PDict p \<Rightarrow> truthy (dict_get_none p ''is_error'') | _ \<Rightarrow> False)),
          (''provider'', PDict (provider_metadata ''gemini'' ''function_response''
             [(''function_response'', PDict response)]))])"

definition gemini_part_to_agent_block :: "pyval \<Rightarrow> int \<Rightarrow> pydict" where
  "gemini_part_to_agent_block part index =
     (let d = copy_mapping part in
      if dict_get_none d ''thought'' = PBool True then provider_block ''gemini'' ''thought'' d
      else case dict_get_none d ''text'' of
        PStr t \<Rightarrow> text_block t
      | _ \<Rightarrow>
          (case py_or (dict_get_none d ''function_call'') (dict_get_none d ''functionCall'') of
             PDict c \<Rightarrow> gemini_call_block c index
           | _ \<Rightarrow>
               (case py_or (dict_get_none d ''function_response'') (dict_get_none d ''functionResponse'') of
                  PDict r \<Rightarrow> gemini_response_block r index
                | _ \<Rightarrow> provider_block ''gemini'' (case d of [] \<Rightarrow> ''unknown'' | (k, _) # _ \<Rightarrow> k) d)))"

definition gemini_content_to_agent_message :: "pydict \<Rightarrow> agent_message" where
  "gemini_content_to_agent_message cont =
     (let r = (if dict_get cont ''role'' = Some (PStr ''model'') \<or> dict_get cont ''role'' = Some (PStr ''assistant'')
               then Assistant else User)
      in case dict_get_none cont ''parts'' of
           PStr s \<Rightarrow> message r (Text s)
         | PList ps \<Rightarrow> message r (Blocks (map (\<lambda>(i, p). gemini_part_to_agent_block p (int i)) (enumerate 0 ps)))
         | _ \<Rightarrow> message r (Text []))"

definition gemini_contents_to_agent_messages :: "pydict list \<Rightarrow> agent_message list" where
  "gemini_contents_to_agent_messages = map gemini_content_to_agent_message"

definition gemini_response_message_from_value :: "(string \<Rightarrow> pyval option) \<Rightarrow> pyval \<Rightarrow> pydict res" where
  "gemini_response_message_from_value loads v =
     (let msg = copy_mapping v in
      if dict_get msg ''parts'' \<noteq> None then Inr msg
      else (let r = (if dict_get msg ''role'' = Some (PStr ''user'') then User else Assistant)
            in res_bind (agent_message_to_gemini_content loads []
                 [(''role'', PStr (role_str r)), (''content'', dict_get_or msg ''content'' (PStr []))])
               (\<lambda>(c, _). Inr (content_dict c))))"

definition gemini_response_from_dict :: "(string \<Rightarrow> pyval option) \<Rightarrow> pydict \<Rightarrow> provider_response res" where
  "gemini_response_from_dict loads = response_from_dict (gemini_response_message_from_value loads)"

definition gemini_response_from_guard_execution ::
  "(string \<Rightarrow> pyval option) \<Rightarrow> llm_guard_execution \<Rightarrow> string \<Rightarrow> provider_response res" where
  "gemini_response_from_guard_execution loads execution model =
     gemini_response_from_dict loads (guard_response_dict execution model
       (content_dict (''model'', [[(''text'', PStr ''The response was blocked by an LLM guard.'')]])) ''SAFETY'')"

section \<open>Tools\<close>

text \<open>
  \<open>_schema_for_gemini\<close>; the result is built key by key, and the only alternative of an \<open>anyOf\<close> that is not null
  is merged into it.
\<close>

definition is_null_schema :: "pyval \<Rightarrow> bool" where
  "is_null_schema v = (case v of PDict d \<Rightarrow> dict_get d ''type'' = Some (PStr ''null'') | _ \<Rightarrow> False)"

definition dropped_schema_key :: "string \<Rightarrow> bool" where
  "dropped_schema_key k = (k \<in> {''title'', ''default'', ''$defs'', ''additionalProperties''})"

fun schema_for_gemini :: "pydict \<Rightarrow> pydict" and schema_entries :: "pydict \<Rightarrow> pydict \<Rightarrow> pydict" and
  schema_properties :: "pydict \<Rightarrow> pydict" and schema_alternative :: "pyval list \<Rightarrow> pydict option" where
  "schema_for_gemini d = schema_entries d []"
| "schema_entries [] result = result"
| "schema_entries ((k, v) # kvs) result =
     (if dropped_schema_key k then schema_entries kvs result
      else (case v of
         PList vs \<Rightarrow>
           (if k = ''anyOf''
            then schema_entries kvs (case (if length (filter (\<lambda>v. \<not> is_null_schema v) vs) = 1
                                          then schema_alternative vs else None) of
                                       None \<Rightarrow> result | Some d \<Rightarrow> dict_update result d)
            else schema_entries kvs (dict_set k (PList vs) result))
       | PDict d \<Rightarrow>
           (if k = ''properties'' then schema_entries kvs (dict_set k (PDict (schema_properties d)) result)
            else if k = ''items'' then schema_entries kvs (dict_set k (PDict (schema_entries d [])) result)
            else schema_entries kvs (dict_set k (PDict d) result))
       | _ \<Rightarrow> schema_entries kvs (dict_set k v result)))"
| "schema_properties [] = []"
| "schema_properties ((k, v) # kvs) =
     (case v of PDict d \<Rightarrow> (k, PDict (schema_entries d [])) # schema_properties kvs | _ \<Rightarrow> schema_properties kvs)"
| "schema_alternative [] = None"
| "schema_alternative (v # vs) =
     (if is_null_schema v then schema_alternative vs
      else (case v of PDict d \<Rightarrow> Some (schema_entries d []) | _ \<Rightarrow> None))"

definition gemini_declaration :: "pydict \<Rightarrow> pydict option" where
  "gemini_declaration d =
     (case some_text (dict_get_none d ''name'') of
        None \<Rightarrow> None
      | Some name \<Rightarrow>
          Some ([(''name'', PStr name)] @
                (case dict_get_none d ''description'' of PStr s \<Rightarrow> [(''description'', PStr s)] | _ \<Rightarrow> []) @
                (case dict_get_none d ''input_schema'' of
                   PDict schema \<Rightarrow> [(''parameters_json_schema'', PDict (schema_for_gemini schema))] | _ \<Rightarrow> [])))"

definition gemini_tools_from_agent_tools :: "pydict list \<Rightarrow> pydict list" where
  "gemini_tools_from_agent_tools tools =
     (case List.map_filter gemini_declaration tools of
        [] \<Rightarrow> []
      | ds \<Rightarrow> [[(''function_declarations'', PList (map PDict ds))]])"

section \<open>The provider\<close>

definition gemini_create_request ::
  "(string \<Rightarrow> pyval option) \<Rightarrow> gemini_thinking_config option \<Rightarrow> provider_request \<Rightarrow> gemini_request res" where
  "gemini_create_request loads thinking q =
     res_bind (agent_messages_to_gemini_contents loads (pq_chat_history q)) (\<lambda>history.
       Inr \<lparr>pq_system_prompt = pq_system_prompt q, pq_model = pq_model q, pq_max_tokens = pq_max_tokens q,
            pq_tools = gemini_tools_from_agent_tools (pq_tools q), pq_chat_history = history,
            pq_context_token_limit = pq_context_token_limit q, pq_stream_id = pq_stream_id q,
            pq_stream_sequence = pq_stream_sequence q, pq_stream_attempt = pq_stream_attempt q,
            gm_thinking_config = thinking_config_to_gemini thinking\<rparr>)"

definition gemini_request_chat_history :: "gemini_request \<Rightarrow> agent_message list" where
  "gemini_request_chat_history q = gemini_contents_to_agent_messages (pq_chat_history q)"

definition gemini_replace_request_chat_history ::
  "(string \<Rightarrow> pyval option) \<Rightarrow> gemini_request \<Rightarrow> pydict list \<Rightarrow> gemini_request res" where
  "gemini_replace_request_chat_history loads q history =
     res_bind (agent_messages_to_gemini_contents loads history) (\<lambda>h. Inr (q\<lparr>pq_chat_history := h\<rparr>))"

section \<open>Refusals\<close>

definition gemini_refusal_details_text :: "pydict option \<Rightarrow> string" where
  "gemini_refusal_details_text stop_details =
     (case stop_details of
        None \<Rightarrow> []
      | Some d \<Rightarrow>
          (case some_text (py_or (dict_get_none d ''block_reason'') (dict_get_none d ''blockReason'')) of
             Some reason \<Rightarrow> ''Block reason: '' @ reason @ ''.''
           | None \<Rightarrow> []))"

definition gemini_refusal_fallback_text :: "pydict option \<Rightarrow> string" where
  "gemini_refusal_fallback_text stop_details =
     refusal_fallback_text GEMINI_REFUSAL_FALLBACK (gemini_refusal_details_text stop_details)"

definition gemini_needs_refusal_fallback :: "provider_response \<Rightarrow> bool" where
  "gemini_needs_refusal_fallback r =
     needs_refusal_fallback (pr_stop_reason r) GEMINI_REFUSAL_STOP_REASONS (pr_guard_action r)
       (message_text (message_dict (gemini_content_to_agent_message (pr_message r))))"

definition gemini_response_with_visible_refusal :: "provider_response \<Rightarrow> provider_response" where
  "gemini_response_with_visible_refusal r =
     (if \<not> gemini_needs_refusal_fallback r then r
      else r\<lparr>pr_message :=
        [(''role'', dict_get_or (pr_message r) ''role'' (PStr ''model'')),
         (''parts'', PList [PDict [(''text'', PStr (gemini_refusal_fallback_text (pr_stop_details r)))]])]\<rparr>)"

section \<open>The stream\<close>

record gemini_stream_state =
  gn_sequence :: "int option"
  gn_response_id :: "string option"
  gn_model :: "string option"
  gn_text_parts :: "string list"
  gn_thought_parts :: "string list"
  gn_function_calls :: "pydict list"
  gn_usage :: pydict
  gn_stop_reason :: "string option"
  gn_stop_details :: "pydict option"
  gn_events :: int

definition gemini_stream_start :: "int option \<Rightarrow> string \<Rightarrow> gemini_stream_state" where
  "gemini_stream_start sequence model =
     \<lparr>gn_sequence = sequence, gn_response_id = None, gn_model = Some model, gn_text_parts = [], gn_thought_parts = [],
      gn_function_calls = [], gn_usage = [], gn_stop_reason = None, gn_stop_details = None, gn_events = 0\<rparr>"

definition gemini_stream_message :: "gemini_stream_state \<Rightarrow> pydict" where
  "gemini_stream_message s =
     (let t = concat (gn_text_parts s) in
      content_dict (''model'',
        (if t = [] then [] else [[(''type'', PStr ''text''), (''text'', PStr t)]]) @
        map (\<lambda>c. [(''function_call'', PDict c)]) (gn_function_calls s) @
        (if gn_thought_parts s = [] then []
         else [[(''thought'', PBool True), (''text'', PStr (concat (gn_thought_parts s)))]])))"

text \<open>A part and a chunk of the stream, with the fields the code reads.\<close>

record gemini_part =
  gp_text :: string
  gp_thought :: bool
  gp_function_call :: "pydict option"

record gemini_chunk =
  gc_response_id :: "string option"
  gc_model_version :: "string option"
  gc_usage_metadata :: "pydict option"
  gc_prompt_feedback :: "pydict option"
  gc_has_candidate :: bool
  gc_finish_reason :: "string option"
  gc_safety_ratings :: "pydict list"
  gc_parts :: "gemini_part list"

definition record_gemini_part :: "gemini_part \<Rightarrow> gemini_stream_state \<Rightarrow> emission list \<times> gemini_stream_state" where
  "record_gemini_part part s =
     (if gp_text part \<noteq> []
      then (if gp_thought part
            then ((if gn_thought_parts s = [] then [thinking_started (gn_sequence s) 0] else []) @
                    [thinking_delta (gn_sequence s) (gp_text part)],
                  s\<lparr>gn_thought_parts := gn_thought_parts s @ [gp_text part]\<rparr>)
            else ([text_delta (gn_sequence s) (gp_text part)], s\<lparr>gn_text_parts := gn_text_parts s @ [gp_text part]\<rparr>))
      else (case gp_function_call part of
              None \<Rightarrow> ([], s)
            | Some c \<Rightarrow>
                (let normalized = normalize_gemini_function_call c;
                     i = int (length (gn_function_calls s));
                     input_value = PDict (copy_mapping (dict_get_or normalized ''args'' (PDict [])));
                     tool_id = PStr (gemini_tool_use_id normalized i);
                     name = dict_get_none normalized ''name''
                 in ([tool_input_started (gn_sequence s) i tool_id name (PStr ''function_call''),
                      tool_input_completed (gn_sequence s) i tool_id name (PStr ''function_call'') input_value
                        (json_preview input_value)],
                     s\<lparr>gn_function_calls := gn_function_calls s @ [normalized]\<rparr>))))"

fun record_gemini_parts :: "gemini_part list \<Rightarrow> gemini_stream_state \<Rightarrow> emission list \<times> gemini_stream_state" where
  "record_gemini_parts [] s = ([], s)"
| "record_gemini_parts (p # ps) s =
     (let (ems, s) = record_gemini_part p s; (ems', s) = record_gemini_parts ps s in (ems @ ems', s))"

definition str_some :: "string option \<Rightarrow> string option \<Rightarrow> string option" where
  "str_some a b = (case a of Some (c # cs) \<Rightarrow> Some (c # cs) | _ \<Rightarrow> b)"

text \<open>The part of \<open>_record_gemini_chunk\<close> before the parts of the candidate.\<close>

definition record_chunk_metadata :: "gemini_chunk \<Rightarrow> gemini_stream_state \<Rightarrow> gemini_stream_state" where
  "record_chunk_metadata c s =
     (let details = (case gc_prompt_feedback c of None \<Rightarrow> gn_stop_details s | Some d \<Rightarrow> Some d);
          rated = gc_has_candidate c \<and> gc_safety_ratings c \<noteq> []
      in s\<lparr>gn_response_id := str_some (gc_response_id c) (gn_response_id s),
           gn_model := str_some (gc_model_version c) (gn_model s),
           gn_usage := (case gc_usage_metadata c of None \<Rightarrow> gn_usage s | Some u \<Rightarrow> u),
           gn_stop_reason := (case gc_finish_reason c of
              None \<Rightarrow> gn_stop_reason s | Some r \<Rightarrow> if gc_has_candidate c then Some r else gn_stop_reason s),
           gn_stop_details := (if rated
              then Some (dict_set ''safety_ratings'' (PList (map PDict (gc_safety_ratings c)))
                     (case details of None \<Rightarrow> [] | Some d \<Rightarrow> d))
              else details)\<rparr>)"

definition record_gemini_chunk :: "gemini_chunk \<Rightarrow> gemini_stream_state \<Rightarrow> emission list \<times> gemini_stream_state" where
  "record_gemini_chunk c s =
     (let s = record_chunk_metadata c s
      in if gc_has_candidate c then record_gemini_parts (gc_parts c) s else ([], s))"

fun gemini_stream_chunks :: "gemini_chunk list \<Rightarrow> gemini_stream_state \<Rightarrow> emission list \<times> gemini_stream_state" where
  "gemini_stream_chunks [] s = ([], s)"
| "gemini_stream_chunks (c # cs) s =
     (let (ems, s) = record_gemini_chunk c (s\<lparr>gn_events := gn_events s + 1\<rparr>);
          (ems', s) = gemini_stream_chunks cs s
      in (ems @ ems', s))"

definition stream_gemini_message ::
  "int option \<Rightarrow> string \<Rightarrow> gemini_chunk list \<Rightarrow> emission list \<times> gemini_stream_state" where
  "stream_gemini_message sequence model chunks =
     (let (ems, s) = gemini_stream_chunks chunks (gemini_stream_start sequence model)
      in (agent_started sequence # ems @
          [agent_completed sequence (gn_response_id s) (str_some (gn_model s) (Some model)) (gn_stop_reason s)
             (gn_stop_details s) (concat (gn_text_parts s)) (gn_usage s)], s))"

section \<open>The activity\<close>

text \<open>
  \<open>call_gemini\<close>, given the keys of the environment and what the SDK gives: the count of the tokens and the chunks,
  or failures.
\<close>

definition call_gemini ::
  "string option \<Rightarrow> string option \<Rightarrow> api_failure + int \<Rightarrow> api_failure + gemini_chunk list \<Rightarrow> gemini_request
     \<Rightarrow> provider_response res" where
  "call_gemini gemini_api_key google_api_key counted streamed r =
     (if (case str_some gemini_api_key google_api_key of None \<Rightarrow> True | Some k \<Rightarrow> k = [])
      then Inl (PyExn (ExcApplication (Some ''MissingApiKey'') True)
             ''GEMINI_API_KEY or GOOGLE_API_KEY must be set to call Gemini'' None None)
      else res_bind (check_counted_tokens ''Gemini'' counted r) (\<lambda>_.
        res_bind (api_call streamed) (\<lambda>chunks.
          case stream_gemini_message (pq_stream_sequence r) (pq_model r) chunks of
            (_, s) \<Rightarrow>
              Inr \<lparr>pr_id = (case gn_response_id s of
                       Some (x # xs) \<Rightarrow> x # xs
                     | _ \<Rightarrow> ''gemini:'' @ int_str (case pq_stream_sequence r of None \<Rightarrow> 0 | Some n \<Rightarrow> n)),
                   pr_model = (case gn_model s of Some (x # xs) \<Rightarrow> x # xs | _ \<Rightarrow> pq_model r),
                   pr_message = gemini_stream_message s, pr_stop_reason = gn_stop_reason s, pr_stop_sequence = None,
                   pr_usage = gn_usage s, pr_guard_action = None, pr_guard_reason = None,
                   pr_stop_details = gn_stop_details s\<rparr>)))"

end
