(* ===== verification/GeminiProperties.thy ===== *)
theory GeminiProperties
  imports Gemini ClaudeProperties
begin

text \<open>
  What the Gemini provider makes of a stream, of tool schemas and of the history that passes through it.
\<close>

section \<open>Requests and responses\<close>

lemma gemini_request_dict [simp]: "gemini_request_from_dict (gemini_request_to_dict q) = Inr q"
  by (cases q) (simp add: gemini_request_from_dict_def gemini_request_to_dict_def)

lemma gemini_response_dict:
  "dict_get (pr_message r) ''parts'' \<noteq> None \<Longrightarrow> gemini_response_from_dict loads (response_to_dict r) = Inr r"
  by (simp add: gemini_response_from_dict_def response_dict gemini_response_message_from_value_def copy_mapping_def)

section \<open>The stream\<close>

lemma gemini_part_text:
  "concat (gn_text_parts (snd (record_gemini_part p s))) =
   concat (gn_text_parts s) @ emitted_texts AGENT_TEXT_DELTA ''text'' (fst (record_gemini_part p s))"
  by (simp add: record_gemini_part_def Let_def split: option.split)

lemma gemini_parts_text:
  "concat (gn_text_parts (snd (record_gemini_parts ps s))) =
   concat (gn_text_parts s) @ emitted_texts AGENT_TEXT_DELTA ''text'' (fst (record_gemini_parts ps s))"
proof (induction ps arbitrary: s)
  case (Cons p ps)
  then show ?case using gemini_part_text [of p s] by (simp add: Let_def case_prod_beta)
qed simp

lemma record_chunk_metadata_text [simp]: "gn_text_parts (record_chunk_metadata c s) = gn_text_parts s"
  by (simp add: record_chunk_metadata_def Let_def)

lemma gemini_chunk_text:
  "concat (gn_text_parts (snd (record_gemini_chunk c s))) =
   concat (gn_text_parts s) @ emitted_texts AGENT_TEXT_DELTA ''text'' (fst (record_gemini_chunk c s))"
  using gemini_parts_text [of "gc_parts c" "record_chunk_metadata c s"]
  by (simp add: record_gemini_chunk_def Let_def)

lemma gemini_chunks_text:
  "concat (gn_text_parts (snd (gemini_stream_chunks cs s))) =
   concat (gn_text_parts s) @ emitted_texts AGENT_TEXT_DELTA ''text'' (fst (gemini_stream_chunks cs s))"
proof (induction cs arbitrary: s)
  case (Cons c cs)
  then show ?case using gemini_chunk_text [of c "s\<lparr>gn_events := gn_events s + 1\<rparr>"] by (simp add: Let_def case_prod_beta)
qed simp

text \<open>The text of a message of Gemini is that of its text parts.\<close>

lemma message_text_blocks: "message_text (message_dict (message r (Blocks bs))) = concat (map (\<lambda>b. text_from_block (PDict b)) bs)"
  by (simp add: message_text_def content_value_def comp_def)

lemma no_text_blocks [simp]:
  "text_from_block (PDict (provider_block p ty d)) = []"
  "text_from_block (PDict (gemini_call_block d i)) = []"
  by (simp_all add: text_from_block_def block_mapping_def provider_block_def gemini_call_block_def tool_use_block_def
      CONTEXT_COMPACTION_MARKER_def Let_def)

lemma gemini_stream_message_text:
  "message_text (message_dict (gemini_content_to_agent_message (gemini_stream_message s))) = concat (gn_text_parts s)"
proof -
  have call_text: "text_from_block (PDict (gemini_part_to_agent_block (PDict [(''function_call'', PDict c)]) i)) = []" for c i
    by (simp add: gemini_part_to_agent_block_def copy_mapping_def py_or_def dict_get_none_def split: list.split)
  have calls: "text_from_block (PDict (gemini_part_to_agent_block (snd q) (int (fst q)))) = []"
    if q: "q \<in> set (enumerate k (map (\<lambda>x. PDict [(''function_call'', PDict x)]) cs))" for q k cs
  proof -
    from q have "snd q \<in> snd ` set (enumerate k (map (\<lambda>x. PDict [(''function_call'', PDict x)]) cs))" by (rule imageI)
    then have "snd q \<in> set (map (\<lambda>x. PDict [(''function_call'', PDict x)]) cs)"
      by (simp only: set_map [symmetric] map_snd_enumerate)
    then show ?thesis using call_text by auto
  qed
  then have all_calls: "concat (map (\<lambda>q. text_from_block (PDict (gemini_part_to_agent_block (snd q) (int (fst q)))))
      (enumerate k (map (\<lambda>x. PDict [(''function_call'', PDict x)]) cs))) = []" for k cs
    unfolding concat_eq_Nil_conv by simp
  have thought: "text_from_block (PDict (gemini_part_to_agent_block (PDict [(''thought'', PBool True), (''text'', t)]) i)) = []" for t i
    by (simp add: gemini_part_to_agent_block_def copy_mapping_def)
  have "gemini_part_to_agent_block (PDict [(''type'', PStr ''text''), (''text'', PStr t)]) i = text_block t" for t i
    by (simp add: gemini_part_to_agent_block_def copy_mapping_def)
  moreover have "text_from_block (PDict (text_block t)) = t" for t
    by (simp add: text_from_block_def block_mapping_def text_block_def)
  ultimately show ?thesis
    by (simp add: gemini_stream_message_def gemini_content_to_agent_message_def content_dict_def message_text_blocks
        Let_def enumerate_append_eq comp_def case_prod_beta all_calls thought)
qed

text \<open>
  The text the user sees while Gemini answers is the text of the answer: whatever chunks arrive, the texts of
  the emitted deltas, put together, are the text of the final event and that of the message the agent records,
  thoughts and calls apart.
\<close>

theorem gemini_shows_what_it_says:
  assumes "stream_gemini_message sequence model chunks = (ems, s)"
  shows "dict_get_none (snd (last ems)) ''text'' = PStr (emitted_texts AGENT_TEXT_DELTA ''text'' ems) \<and>
     message_text (message_dict (gemini_content_to_agent_message (gemini_stream_message s))) =
       emitted_texts AGENT_TEXT_DELTA ''text'' ems"
proof -
  obtain ems1 where run: "gemini_stream_chunks chunks (gemini_stream_start sequence model) = (ems1, s)"
    "ems = agent_started sequence # ems1 @
       [agent_completed sequence (gn_response_id s) (str_some (gn_model s) (Some model)) (gn_stop_reason s)
          (gn_stop_details s) (concat (gn_text_parts s)) (gn_usage s)]"
    using assms by (auto simp: stream_gemini_message_def Let_def split: prod.splits)
  have "concat (gn_text_parts s) = emitted_texts AGENT_TEXT_DELTA ''text'' ems1"
    using gemini_chunks_text [of chunks "gemini_stream_start sequence model"] run(1) by (simp add: gemini_stream_start_def)
  then show ?thesis by (simp add: run(2) gemini_stream_message_text) (simp add: agent_completed_def)
qed

definition sample_gemini_chunk :: "gemini_part list \<Rightarrow> gemini_chunk" where
  "sample_gemini_chunk parts = \<lparr>gc_response_id = None, gc_model_version = None, gc_usage_metadata = None,
     gc_prompt_feedback = None, gc_has_candidate = True, gc_finish_reason = None, gc_safety_ratings = [], gc_parts = parts\<rparr>"

definition sample_gemini_call :: gemini_part where
  "sample_gemini_call = \<lparr>gp_text = [], gp_thought = False, gp_function_call = Some [(''name'', PStr ''f'')]\<rparr>"

lemma gemini_shows_what_it_says_witness:
  "message_text (message_dict (gemini_content_to_agent_message (gemini_stream_message
     (snd (stream_gemini_message None ''m'' [sample_gemini_chunk
        [\<lparr>gp_text = ''Hel'', gp_thought = False, gp_function_call = None\<rparr>,
         \<lparr>gp_text = ''why'', gp_thought = True, gp_function_call = None\<rparr>, sample_gemini_call],
       sample_gemini_chunk [\<lparr>gp_text = ''lo'', gp_thought = False, gp_function_call = None\<rparr>]]))))) = ''Hello''"
proof -
  define r where "r = stream_gemini_message None ''m'' [sample_gemini_chunk
        [\<lparr>gp_text = ''Hel'', gp_thought = False, gp_function_call = None\<rparr>,
         \<lparr>gp_text = ''why'', gp_thought = True, gp_function_call = None\<rparr>, sample_gemini_call],
       sample_gemini_chunk [\<lparr>gp_text = ''lo'', gp_thought = False, gp_function_call = None\<rparr>]]"
  have "emitted_texts AGENT_TEXT_DELTA ''text'' (fst r) = ''Hello''"
    unfolding r_def by (simp add: stream_gemini_message_def record_gemini_chunk_def sample_gemini_chunk_def
        record_gemini_part_def sample_gemini_call_def gemini_stream_start_def record_chunk_metadata_def Let_def)
  with gemini_shows_what_it_says [of None "''m''" _ "fst r" "snd r"] show ?thesis unfolding r_def by simp
qed

section \<open>Schemas\<close>

text \<open>
  A schema Gemini accepts: no key it does not know, no list of alternatives, and the same for the schemas of
  properties and items.
\<close>

fun clean_schema :: "pydict \<Rightarrow> bool" and clean_entry :: "string \<times> pyval \<Rightarrow> bool" and clean_value :: "pyval \<Rightarrow> bool" where
  "clean_schema d = list_all clean_entry d"
| "clean_entry (k, v) =
     (\<not> dropped_schema_key k \<and>
      (case v of
         PList _ \<Rightarrow> k \<noteq> ''anyOf''
       | PDict d \<Rightarrow>
           (if k = ''properties'' then list_all (\<lambda>(_, v). clean_value v) d
            else if k = ''items'' then list_all clean_entry d else True)
       | _ \<Rightarrow> True))"
| "clean_value (PDict d) = list_all clean_entry d"
| "clean_value _ = False"

lemma list_all_dict_set: "list_all P d \<Longrightarrow> P (k, v) \<Longrightarrow> list_all P (dict_set k v d)"
  by (induction d) auto

lemma list_all_dict_update: "list_all P d \<Longrightarrow> list_all P e \<Longrightarrow> list_all P (dict_update d e)"
  unfolding dict_update_def by (induction e arbitrary: d) (auto intro: list_all_dict_set)

lemma schema_entries_clean:
  "list_all clean_entry (schema_for_gemini d)"
  "list_all clean_entry result \<Longrightarrow> list_all clean_entry (schema_entries e result)"
  "list_all (\<lambda>(_, v). clean_value v) (schema_properties ps)"
  "\<forall>f. schema_alternative vs = Some f \<longrightarrow> list_all clean_entry f"
proof (induction d and e result and ps and vs rule: schema_for_gemini_schema_entries_schema_properties_schema_alternative.induct)
  case (3 k v kvs result)
  show ?case
  proof (cases "dropped_schema_key k")
    case True
    with 3 show ?thesis by simp
  next
    case kept: False
    show ?thesis
    proof (cases v)
      case (PList vs)
      show ?thesis
      proof (cases "k = ''anyOf''")
        case True
        let ?o = "if length (filter (\<lambda>v. \<not> is_null_schema v) vs) = 1 then schema_alternative vs else None"
        have "list_all clean_entry (case ?o of None \<Rightarrow> result | Some d \<Rightarrow> dict_update result d)"
          using kept PList True 3 by (auto intro: list_all_dict_update split: option.splits)
        with kept PList True 3 show ?thesis by simp
      next
        case False
        then have "list_all clean_entry (dict_set k (PList vs) result)"
          using kept 3 by (intro list_all_dict_set) simp_all
        with kept PList False 3 show ?thesis by simp
      qed
    next
      case (PDict d)
      consider "k = ''properties''" | "k = ''items''" | "k \<noteq> ''properties''" "k \<noteq> ''items''" by blast
      then show ?thesis
      proof cases
        case 1
        then have "list_all clean_entry (dict_set k (PDict (schema_properties d)) result)"
          using kept PDict 3 by (intro list_all_dict_set) simp_all
        with kept PDict 1 3 show ?thesis by simp
      next
        case items: 2
        then have "list_all clean_entry (dict_set k (PDict (schema_entries d [])) result)"
          using kept PDict 3 by (intro list_all_dict_set) simp_all
        with kept PDict items 3 show ?thesis by simp
      next
        case other: 3
        then have "list_all clean_entry (dict_set k (PDict d) result)"
          using kept PDict 3 by (intro list_all_dict_set) simp_all
        with kept PDict other 3 show ?thesis by simp
      qed
    qed (use kept 3 list_all_dict_set [of clean_entry result k v] in simp_all)
  qed
qed (auto split: pyval.splits if_splits)

lemma schema_entry_step:
  assumes "k \<noteq> ''anyOf''"
  shows "\<exists>w. schema_entries ((k, v) # d) result =
     (if dropped_schema_key k then schema_entries d result else schema_entries d (dict_set k w result))"
proof (cases v)
  case (PDict e)
  consider "k = ''properties''" | "k \<noteq> ''properties''" "k = ''items''" | "k \<noteq> ''properties''" "k \<noteq> ''items''" by blast
  then show ?thesis
  proof cases
    case 1
    then show ?thesis
      by (intro exI [of _ "PDict (schema_properties e)"]) (simp only: schema_entries.simps PDict pyval.case refl if_True)
  next
    case 2
    then show ?thesis
      by (intro exI [of _ "PDict (schema_entries e [])"])
        (simp only: schema_entries.simps PDict pyval.case refl if_True if_False)
  next
    case 3
    then show ?thesis by (intro exI [of _ v]) (simp only: schema_entries.simps PDict pyval.case if_False)
  qed
next
  case (PList e)
  show ?thesis
    by (rule exI [of _ v]) (simp only: schema_entries.simps PList pyval.case assms if_False)
qed (rule exI [of _ v], simp only: schema_entries.simps pyval.case)+

text \<open>
  What each key of a schema gives to the schema for Gemini: nothing when Gemini does not know it; the schema of the only
  alternative that is not null (and is a schema), and nothing when there is none or are several; the properties with their
  names, each with its own schema for Gemini; the items with theirs; and everything else as it is.
\<close>

definition gemini_contribution :: "string \<times> pyval \<Rightarrow> pydict" where
  "gemini_contribution = (\<lambda>(k, v).
     if k \<in> {''title'', ''default'', ''$defs'', ''additionalProperties''} then []
     else case v of
       PList vs \<Rightarrow>
         (if k = ''anyOf''
          then (case filter (\<lambda>a. case a of PDict d \<Rightarrow> dict_get d ''type'' \<noteq> Some (PStr ''null'') | _ \<Rightarrow> True) vs of
                  [PDict d] \<Rightarrow> schema_for_gemini d | _ \<Rightarrow> [])
          else [(k, v)])
     | PDict d \<Rightarrow>
         (if k = ''properties''
          then [(k, PDict (List.map_filter (\<lambda>(name, p). case p of PDict e \<Rightarrow> Some (name, PDict (schema_for_gemini e)) | _ \<Rightarrow> None) d))]
          else if k = ''items'' then [(k, PDict (schema_for_gemini d))]
          else [(k, v)])
     | _ \<Rightarrow> [(k, v)])"

lemma dict_update_get: "dict_get (dict_update d e) k = (case map_of (rev e) k of None \<Rightarrow> dict_get d k | Some v \<Rightarrow> Some v)"
  unfolding dict_update_def by (induction e arbitrary: d) (auto simp: dict_get_set map_add_def split: option.split)

lemma schema_properties_map:
  "schema_properties d = List.map_filter (\<lambda>(name, p). case p of PDict e \<Rightarrow> Some (name, PDict (schema_for_gemini e)) | _ \<Rightarrow> None) d"
  by (induction d) (auto simp: List.map_filter_simps split: pyval.split)

lemma schema_alternative_only:
  "(if length (filter (\<lambda>v. \<not> is_null_schema v) vs) = 1 then schema_alternative vs else None) =
   (case filter (\<lambda>a. case a of PDict d \<Rightarrow> dict_get d ''type'' \<noteq> Some (PStr ''null'') | _ \<Rightarrow> True) vs of
      [PDict d] \<Rightarrow> Some (schema_for_gemini d) | _ \<Rightarrow> None)"
proof -
  have null: "(\<lambda>a. case a of PDict d \<Rightarrow> dict_get d ''type'' \<noteq> Some (PStr ''null'') | _ \<Rightarrow> True) = (\<lambda>v. \<not> is_null_schema v)"
    by (auto simp: is_null_schema_def fun_eq_iff split: pyval.split)
  have "schema_alternative vs = (case filter (\<lambda>v. \<not> is_null_schema v) vs of PDict d # _ \<Rightarrow> Some (schema_for_gemini d) | _ \<Rightarrow> None)"
    by (induction vs) (auto split: pyval.split)
  then show ?thesis unfolding null by (auto split: list.splits pyval.splits)
qed

lemma schema_entry_contributes:
  "\<exists>r. schema_entries ((k', v) # d) result = schema_entries d r \<and>
     dict_get r k = (case map_of (rev (gemini_contribution (k', v))) k of None \<Rightarrow> dict_get result k | Some w \<Rightarrow> Some w)"
proof (cases "dropped_schema_key k'")
  case True
  then have "gemini_contribution (k', v) = []" by (simp add: gemini_contribution_def dropped_schema_key_def)
  with True show ?thesis by (intro exI [of _ result]) simp
next
  case kept: False
  then have known: "k' \<notin> {''title'', ''default'', ''$defs'', ''additionalProperties''}" by (simp add: dropped_schema_key_def)
  have stored: ?thesis if "schema_entries ((k', v) # d) result = schema_entries d (dict_set k' w result)"
    "gemini_contribution (k', v) = [(k', w)]" for w
    using that by (intro exI [of _ "dict_set k' w result"]) (simp add: dict_get_set)
  show ?thesis
  proof (cases v)
    case (PList vs)
    show ?thesis
    proof (cases "k' = ''anyOf''")
      case True
      define alt where "alt = (if length (filter (\<lambda>v. \<not> is_null_schema v) vs) = 1 then schema_alternative vs else None)"
      have "gemini_contribution (k', v) = (case alt of None \<Rightarrow> [] | Some a \<Rightarrow> a)"
        unfolding alt_def schema_alternative_only by (simp add: gemini_contribution_def PList True split: list.split pyval.split)
      moreover have "schema_entries ((k', v) # d) result = schema_entries d (case alt of None \<Rightarrow> result | Some a \<Rightarrow> dict_update result a)"
        using kept by (simp add: PList True alt_def)
      ultimately show ?thesis
        by (intro exI [of _ "case alt of None \<Rightarrow> result | Some a \<Rightarrow> dict_update result a"])
          (simp add: dict_update_get split: option.split)
    next
      case False
      then show ?thesis by (intro stored [of v]) (use kept known in \<open>simp_all add: PList gemini_contribution_def\<close>)
    qed
  next
    case (PDict e)
    consider "k' = ''properties''" | "k' \<noteq> ''properties''" "k' = ''items''" | "k' \<noteq> ''properties''" "k' \<noteq> ''items''" by blast
    then show ?thesis
    proof cases
      case 1
      then show ?thesis
        by (intro stored [of "PDict (schema_properties e)"])
          (use kept known in \<open>simp_all add: PDict gemini_contribution_def schema_properties_map\<close>)
    next
      case 2
      then show ?thesis
        by (intro stored [of "PDict (schema_entries e [])"]) (use kept known in \<open>simp_all add: PDict gemini_contribution_def\<close>)
    next
      case 3
      then show ?thesis by (intro stored [of v]) (use kept known in \<open>simp_all add: PDict gemini_contribution_def\<close>)
    qed
  qed (rule stored [of v]; use kept known in \<open>simp add: gemini_contribution_def\<close>)+
qed

lemma schema_entries_get:
  "dict_get (schema_entries d result) k =
     (case map_of (rev (concat (map gemini_contribution d))) k of None \<Rightarrow> dict_get result k | Some v \<Rightarrow> Some v)"
proof (induction d arbitrary: result)
  case (Cons e d)
  obtain k' v where e: "e = (k', v)" by (cases e)
  obtain r where r: "schema_entries ((k', v) # d) result = schema_entries d r"
      "dict_get r k = (case map_of (rev (gemini_contribution (k', v))) k of None \<Rightarrow> dict_get result k | Some w \<Rightarrow> Some w)"
    using schema_entry_contributes by blast
  show ?case unfolding e r(1) Cons.IH by (simp add: r(2) map_add_def split: option.split)
qed simp

text \<open>
  C29. Every tool schema that goes to Gemini, whatever the tool declared, is free of the keys Gemini does not know and of
  lists of alternatives: the schema itself and, down through them, the schemas of its properties and of its items (the
  conversion does not look into other places that hold schemas, such as \<open>oneOf\<close> or \<open>not\<close>). Nothing else is lost: what
  a key of the result holds is what the last key of the schema that gives it contributes, the value itself, the properties
  under their names or the items made fit for Gemini in the same way, or an entry of the only alternative that is not
  null; and a schema without alternatives keeps its other keys in order.
\<close>

theorem gemini_schemas_are_accepted:
  "clean_schema (schema_for_gemini d) \<and>
   (\<forall>k. dict_get (schema_for_gemini d) k = map_of (rev (concat (map gemini_contribution d))) k) \<and>
   (distinct (map fst d) \<and> ''anyOf'' \<notin> fst ` set d \<longrightarrow>
      map fst (schema_for_gemini d) = filter (\<lambda>k. \<not> dropped_schema_key k) (map fst d))"
proof -
  have update: "map fst (dict_set k v result) = map fst result @ [k]" if "k \<notin> fst ` set result" for k v and result :: pydict
    using that by (induction result) auto
  have "map fst (schema_entries d result) = map fst result @ filter (\<lambda>k. \<not> dropped_schema_key k) (map fst d)"
    if "distinct (map fst d)" "''anyOf'' \<notin> fst ` set d" "fst ` set result \<inter> fst ` set d = {}" for result
    using that
  proof (induction d arbitrary: result)
    case (Cons e d)
    obtain k v where e: "e = (k, v)" by (cases e)
    have "k \<noteq> ''anyOf''" using Cons.prems(2) e by auto
    then obtain w where step: "schema_entries ((k, v) # d) result =
        (if dropped_schema_key k then schema_entries d result else schema_entries d (dict_set k w result))"
      using schema_entry_step by blast
    have keys: "fst ` set (dict_set k w result) = insert k (fst ` set result)"
      by (simp add: dom_update)
    show ?case
    proof (cases "dropped_schema_key k")
      case True
      then show ?thesis using Cons e step by (simp del: schema_entries.simps)
    next
      case False
      have "map fst (schema_entries d (dict_set k w result)) =
          map fst (dict_set k w result) @ filter (\<lambda>k. \<not> dropped_schema_key k) (map fst d)"
        using Cons.prems e keys by (intro Cons.IH) auto
      then show ?thesis using Cons.prems e step False update [of k result w]
        by (simp del: schema_entries.simps)
    qed
  qed simp
  from this [of "[]"] have "distinct (map fst d) \<and> ''anyOf'' \<notin> fst ` set d \<longrightarrow>
      map fst (schema_for_gemini d) = filter (\<lambda>k. \<not> dropped_schema_key k) (map fst d)" by simp
  moreover have "dict_get (schema_for_gemini d) k = map_of (rev (concat (map gemini_contribution d))) k" for k
    by (simp add: schema_entries_get split: option.split)
  moreover have "clean_schema (schema_for_gemini d)" using schema_entries_clean(1) by simp
  ultimately show ?thesis by blast
qed

definition sample_gemini_schema :: pydict where
  "sample_gemini_schema =
     [(''title'', PStr ''Args''), (''type'', PStr ''object''),
      (''properties'', PDict [(''city'', PDict [(''default'', PNone),
         (''anyOf'', PList [PDict [(''type'', PStr ''string''), (''title'', PStr ''City'')], PDict [(''type'', PStr ''null'')]])])]),
      (''required'', PList [])]"

lemma gemini_schemas_are_accepted_witness:
  "map fst (schema_for_gemini sample_gemini_schema) = [''type'', ''properties'', ''required''] \<and>
   dict_get (schema_for_gemini sample_gemini_schema) ''properties'' = Some (PDict [(''city'', PDict [(''type'', PStr ''string'')])]) \<and>
   clean_schema (schema_for_gemini sample_gemini_schema)"
proof -
  have "distinct (map fst sample_gemini_schema)" "''anyOf'' \<notin> fst ` set sample_gemini_schema"
    "filter (\<lambda>k. \<not> dropped_schema_key k) (map fst sample_gemini_schema) = [''type'', ''properties'', ''required'']"
    "dict_get (schema_for_gemini sample_gemini_schema) ''properties'' = Some (PDict [(''city'', PDict [(''type'', PStr ''string'')])])"
    by code_simp+
  with gemini_schemas_are_accepted [of sample_gemini_schema] show ?thesis by simp
qed

section \<open>The history\<close>

text \<open>
  A block the conversion takes: a call has its name and an identifier, a result an identifier, which is the one of
  the data of Gemini it was made from when there are any, and raw data of Gemini are no call or result.
\<close>

definition opaque_part :: "pydict \<Rightarrow> bool" where
  "opaque_part d = (dict_get_none d ''thought'' = PBool True \<or>
     (\<forall>k \<in> {''function_call'', ''functionCall'', ''function_response'', ''functionResponse''}. dict_get d k = None))"

definition gemini_ready :: "pydict \<Rightarrow> bool" where
  "gemini_ready b =
     ((block_type_is b ''tool_use'' \<longrightarrow> dict_get b ''name'' \<noteq> None \<and> some_text (dict_get_none b ''id'') \<noteq> None) \<and>
      (block_type_is b ''tool_result'' \<longrightarrow> some_text (dict_get_none b ''tool_use_id'') \<noteq> None \<and>
        (case provider_data b ''gemini'' of
           None \<Rightarrow> True
         | Some d \<Rightarrow> dict_get_none (copy_mapping (dict_get_or d ''function_response'' (PDict d))) ''id'' =
             dict_get_none b ''tool_use_id'')) \<and>
      (block_type_is b ''provider'' \<longrightarrow> (case dict_get_none b ''data'' of PDict d \<Rightarrow> opaque_part d | _ \<Rightarrow> True)))"

text \<open>A block that becomes a part.\<close>

definition gemini_kept :: "pydict \<Rightarrow> bool" where
  "gemini_kept b = (list_ex (block_type_is b) [''text'', CONTEXT_COMPACTION_MARKER, ''tool_use'', ''tool_result'', ''refusal''])"

definition gemini_message_ready :: "agent_message \<Rightarrow> bool" where
  "gemini_message_ready m = (wf_message m \<and> list_all gemini_ready (content_blocks (msg_content m)) \<and>
     (case msg_content m of Text _ \<Rightarrow> True | Blocks bs \<Rightarrow> list_ex gemini_kept bs))"

lemma some_text_iff: "some_text v = Some i \<longleftrightarrow> v = PStr i \<and> i \<noteq> []"
  by (auto simp: some_text_def split: pyval.splits list.splits)

text \<open>What a block tells Gemini; raw data of Gemini may themselves be a text.\<close>

definition gemini_raw :: "pydict \<Rightarrow> block_view" where
  "gemini_raw d =
     (if dict_get d ''thought'' = Some (PBool True) then Carries d
      else case dict_get d ''text'' of Some (PStr t) \<Rightarrow> Says t | _ \<Rightarrow> Carries d)"

definition gemini_view :: "pydict \<Rightarrow> block_view option" where
  "gemini_view = block_view ''gemini'' gemini_raw"

text \<open>
  What a request does to a result: its content becomes the JSON of an object that has it, read as JSON when it is, as its
  \<open>result\<close>, and says whether it is an error. Everything else stays.
\<close>

definition wrapped_result :: "(string \<Rightarrow> pyval option) \<Rightarrow> pyval \<Rightarrow> bool \<Rightarrow> pyval" where
  "wrapped_result loads c e =
     PStr (json_dumps (PDict ((''result'', case c of PStr s \<Rightarrow> (case loads s of Some v \<Rightarrow> v | None \<Rightarrow> PStr s) | _ \<Rightarrow> c) #
       (if e then [(''is_error'', PBool True)] else []))))"

fun result_wrapped :: "(string \<Rightarrow> pyval option) \<Rightarrow> block_view \<Rightarrow> block_view" where
  "result_wrapped loads (Answers i c e) = Answers i (wrapped_result loads c e) e"
| "result_wrapped loads v = v"

text \<open>What a block comes back as: the same call or result, telling the same, ready to be taken again.\<close>

definition gemini_back :: "(string \<Rightarrow> pyval option) \<Rightarrow> pydict \<Rightarrow> pydict \<Rightarrow> bool" where
  "gemini_back loads b b' = (call_view b' = call_view b \<and> gemini_ready b' \<and> wf_block b' \<and> (gemini_kept b \<longrightarrow> gemini_kept b') \<and>
     gemini_view b' = map_option (result_wrapped loads) (gemini_view b))"

lemma gemini_part_of_call:
  assumes "some_text (dict_get_none c ''id'') = Some i"
  shows "gemini_part_to_agent_block (PDict [(''function_call'', PDict c)]) k = gemini_call_block c k"
proof -
  have "c \<noteq> []" using assms by (auto simp: dict_get_none_def some_text_def)
  then show ?thesis by (simp add: gemini_part_to_agent_block_def copy_mapping_def dict_get_none_def py_or_def)
qed

lemma gemini_part_of_response:
  assumes "some_text (dict_get_none r ''id'') = Some i"
  shows "gemini_part_to_agent_block (PDict [(''function_response'', PDict r)]) k = gemini_response_block r k"
proof -
  have "r \<noteq> []" using assms by (auto simp: dict_get_none_def some_text_def)
  then show ?thesis by (simp add: gemini_part_to_agent_block_def copy_mapping_def dict_get_none_def py_or_def)
qed

lemma gemini_normalized_id:
  assumes "some_text (dict_get_none d ''id'') = Some i"
  shows "gemini_tool_use_id (normalize_gemini_function_call d) k = i"
    and "gemini_tool_use_id (normalize_gemini_function_response d) k = i"
  using assms by (simp_all add: gemini_tool_use_id_def gemini_function_call_id_def normalize_gemini_function_call_def
      normalize_gemini_function_response_def dict_get_none_def)

lemma made_views:
  "block_view provider raw (tool_use_block i n d p) = Some (Asks i (py_or n (PStr [])) d)"
  "block_view provider raw (provider_block provider t d) = Some (raw d)"
  by (simp_all add: block_view_def tool_use_block_def provider_block_def dict_get_none_def py_or_def CONTEXT_COMPACTION_MARKER_def)

lemma py_or_twice [simp]: "py_or (py_or v w) w = py_or v w"
  by (simp add: py_or_def)

lemma gemini_call_part:
  assumes "call_view b = Some (True, PStr i)" "some_text (dict_get_none c ''id'') = Some i"
    and "gemini_view b = Some (Asks (PStr i) (py_or (dict_get_none c ''name'') (PStr [])) (copy_mapping (dict_get_or c ''args'' (PDict []))))"
  shows "gemini_back loads b (gemini_part_to_agent_block (PDict [(''function_call'', PDict c)]) k)"
proof -
  have i: "some_text (PStr i) = Some i" using assms(2) by (auto simp: some_text_iff)
  have "dict_get_none (normalize_gemini_function_call c) ''name'' = dict_get_none c ''name''"
    "copy_mapping (dict_get_or (normalize_gemini_function_call c) ''args'' (PDict [])) = copy_mapping (dict_get_or c ''args'' (PDict []))"
    by (simp_all add: normalize_gemini_function_call_def copy_mapping_def [of "PDict _"])
  then have "gemini_view (gemini_call_block c k) =
      Some (Asks (PStr i) (py_or (dict_get_none c ''name'') (PStr [])) (copy_mapping (dict_get_or c ''args'' (PDict []))))"
    by (simp add: gemini_view_def gemini_call_block_def Let_def made_views gemini_normalized_id(1) [OF assms(2)])
  with i show ?thesis
    unfolding gemini_part_of_call [OF assms(2)] using assms(1,3)
    by (simp add: gemini_back_def gemini_call_block_def Let_def tool_use_block_def gemini_normalized_id(1) [OF assms(2)]
        gemini_ready_def gemini_kept_def wf_block_def call_view_def [of "(''type'', _) # _"] dict_get_none_def)
qed

lemma gemini_response_part:
  assumes "call_view b = Some (False, PStr i)" "some_text (dict_get_none r ''id'') = Some i"
    and "gemini_view b = Some (Answers (PStr i) c e)" "dict_get r ''response'' = Some (PDict (tool_result_response_payload loads c e))"
  shows "gemini_back loads b (gemini_part_to_agent_block (PDict [(''function_response'', PDict r)]) k)"
proof -
  define data where "data = [(''function_response'', PDict (normalize_gemini_function_response r))]"
  have view: "call_view (gemini_response_block r k) = Some (False, PStr i)"
    by (simp add: gemini_response_block_def Let_def call_view_def gemini_normalized_id(2) [OF assms(2)] dict_get_none_def)
  have kept: "block_type_is (gemini_response_block r k) ''tool_result''" "wf_block (gemini_response_block r k)"
    "gemini_kept (gemini_response_block r k)"
    by (simp_all add: gemini_response_block_def Let_def wf_block_def dict_get_none_def gemini_kept_def)
  have "dict_get_none (gemini_response_block r k) ''tool_use_id'' = PStr i"
    using view kept(1) by (auto simp: call_view_def split: if_splits dest: block_types_differ)
  moreover have "provider_data (gemini_response_block r k) ''gemini'' = Some data"
    by (simp add: gemini_response_block_def Let_def provider_data_def provider_metadata_def dict_get_none_def data_def)
  moreover have "dict_get_none (copy_mapping (dict_get_or data ''function_response'' (PDict data))) ''id'' = PStr i"
    using assms(2) by (simp add: data_def dict_get_or_def copy_mapping_def normalize_gemini_function_response_def
        dict_get_none_def some_text_iff)
  ultimately have "gemini_ready (gemini_response_block r k)"
    using kept(1) assms(2) by (auto simp: gemini_ready_def some_text_iff dest: block_types_differ)
  moreover have "gemini_view (gemini_response_block r k) = Some (Answers (PStr i) (wrapped_result loads c e) e)"
  proof -
    define payload where "payload = tool_result_response_payload loads c e"
    have "dict_get_or (normalize_gemini_function_response r) ''response'' (PDict []) = PDict payload"
      using assms(4) by (simp add: normalize_gemini_function_response_def payload_def dict_get_or_def copy_mapping_def)
    then have "gemini_response_block r k = [(''type'', PStr ''tool_result''), (''tool_use_id'', PStr i),
        (''content'', PStr (json_dumps (PDict payload))), (''is_error'', PBool (truthy (dict_get_none payload ''is_error''))),
        (''provider'', PDict (provider_metadata ''gemini'' ''function_response''
           [(''function_response'', PDict (normalize_gemini_function_response r))]))]"
      by (simp add: gemini_response_block_def Let_def gemini_normalized_id(2) [OF assms(2)])
    moreover have "truthy (dict_get_none payload ''is_error'') = e"
      by (simp add: payload_def tool_result_response_payload_def)
    moreover have "PStr (json_dumps (PDict payload)) = wrapped_result loads c e"
      by (cases c) (simp_all add: payload_def tool_result_response_payload_def wrapped_result_def split: option.split)
    ultimately show ?thesis
      by (simp add: gemini_view_def block_view_def CONTEXT_COMPACTION_MARKER_def)
  qed
  ultimately show ?thesis
    using view kept assms(1,3) unfolding gemini_part_of_response [OF assms(2)] by (simp add: gemini_back_def)
qed

lemma gemini_opaque_part:
  assumes "opaque_part d" "call_view b = None" "\<not> gemini_kept b" "gemini_view b = Some (gemini_raw d)"
  shows "gemini_back loads b (gemini_part_to_agent_block (PDict d) k)"
proof (cases "dict_get_none d ''thought'' = PBool True")
  case True
  then have "dict_get d ''thought'' = Some (PBool True)" by (simp add: dict_get_none_def split: option.splits)
  with True show ?thesis
    using assms by (simp add: gemini_part_to_agent_block_def copy_mapping_def call_view_def provider_block_def
        gemini_back_def gemini_ready_def wf_block_def dict_get_none_def gemini_raw_def)
      (simp add: gemini_view_def block_view_def gemini_raw_def CONTEXT_COMPACTION_MARKER_def)
next
  case False
  with assms have none: "dict_get_none d ''function_call'' = PNone" "dict_get_none d ''functionCall'' = PNone"
    "dict_get_none d ''function_response'' = PNone" "dict_get_none d ''functionResponse'' = PNone"
    by (simp_all add: opaque_part_def dict_get_none_def)
  have thought: "dict_get d ''thought'' \<noteq> Some (PBool True)" using False by (auto simp: dict_get_none_def)
  have raw: "gemini_back loads b (provider_block ''gemini'' t d)" if "gemini_raw d = Carries d" for t
    using assms that by (simp add: gemini_back_def gemini_ready_def wf_block_def call_view_def provider_block_def dict_get_none_def)
      (simp add: gemini_view_def block_view_def CONTEXT_COMPACTION_MARKER_def)
  have texts: "gemini_back loads b (text_block t)" if "gemini_raw d = Says t" for t
    using assms that by (simp add: gemini_back_def gemini_ready_def wf_block_def call_view_def text_block_def dict_get_none_def)
      (simp add: gemini_view_def block_view_def)
  show ?thesis
  proof (cases "\<exists>t. dict_get d ''text'' = Some (PStr t)")
    case True
    then obtain t where t: "dict_get d ''text'' = Some (PStr t)" by blast
    with thought have "gemini_raw d = Says t" by (simp add: gemini_raw_def)
    from texts [OF this] t show ?thesis
      by (simp add: False gemini_part_to_agent_block_def copy_mapping_def dict_get_none_def [of d "''text''"])
  next
    case no_text: False
    then have "gemini_raw d = Carries d" using thought by (simp add: gemini_raw_def split: option.splits pyval.splits)
    moreover have "gemini_part_to_agent_block (PDict d) k =
        provider_block ''gemini'' (case d of [] \<Rightarrow> ''unknown'' | (k, _) # _ \<Rightarrow> k) d"
      using no_text by (cases "dict_get d ''text''")
        (auto simp: False none gemini_part_to_agent_block_def copy_mapping_def py_or_def dict_get_none_def [of d "''text''"]
          split: pyval.split)
    ultimately show ?thesis using raw by simp
  qed
qed

lemma gemini_text_part:
  assumes "call_view b = None" "gemini_view b = Some (Says t)"
  shows "gemini_back loads b (gemini_part_to_agent_block (PDict [(''text'', PStr t)]) k)"
  using assms by (simp add: gemini_part_to_agent_block_def copy_mapping_def gemini_back_def gemini_ready_def wf_block_def
      call_view_def text_block_def dict_get_none_def gemini_kept_def) (simp add: gemini_view_def block_view_def)

lemma gemini_part_is_no_marker: "\<not> block_type_is (gemini_part_to_agent_block v k) CONTEXT_COMPACTION_MARKER"
  by (simp add: gemini_part_to_agent_block_def Let_def text_block_def tool_use_block_def provider_block_def
      gemini_call_block_def gemini_response_block_def CONTEXT_COMPACTION_MARKER_def split: pyval.split)

lemma gemini_tool_use_part:
  assumes "dict_get b ''name'' = Some n" "dict_get b ''id'' = Some (PStr i)"
  shows "\<exists>c. agent_tool_use_to_gemini_function_call b = Inr c \<and> dict_get_none c ''id'' = PStr i \<and>
     dict_get_none c ''name'' = n \<and> copy_mapping (dict_get_or c ''args'' (PDict [])) = copy_mapping (dict_get_or b ''input'' (PDict []))"
  using assms by (simp add: agent_tool_use_to_gemini_function_call_def dict_index_def Let_def dict_get_or_def dict_get_set copy_mapping_def)

text \<open>The view of a call and of a result, as the fields the conversion reads.\<close>

lemma view_of_call:
  assumes "block_type_is b ''tool_use''"
  shows "gemini_view b = Some (Asks (dict_get_none b ''id'') (py_or (dict_get_none b ''name'') (PStr []))
    (copy_mapping (dict_get_or b ''input'' (PDict []))))"
  using assms by (auto simp: gemini_view_def block_view_def py_or_def copy_mapping_def dict_get_or_def block_type_is_def
      CONTEXT_COMPACTION_MARKER_def split: option.splits pyval.splits)

lemma view_of_result:
  assumes "block_type_is b ''tool_result''"
  shows "gemini_view b = Some (Answers (dict_get_none b ''tool_use_id'') (dict_get_or b ''content'' (PStr []))
    (truthy (dict_get_or b ''is_error'' (PBool False))))"
  using assms by (auto simp: gemini_view_def block_view_def dict_get_or_def block_type_is_def
      CONTEXT_COMPACTION_MARKER_def split: option.splits)

lemma gemini_tool_result_part:
  assumes "gemini_ready b" "block_type_is b ''tool_result''" "dict_get_none b ''tool_use_id'' = PStr i"
  shows "\<exists>r. agent_tool_result_to_gemini_function_response loads names b = [(''function_response'', PDict r)] \<and>
     dict_get_none r ''id'' = PStr i \<and> dict_get r ''response'' = Some (PDict (tool_result_response_payload loads
       (dict_get_or b ''content'' (PStr [])) (truthy (dict_get_or b ''is_error'' (PBool False)))))"
proof (cases "provider_data b ''gemini''")
  case None
  have "i \<noteq> []" using assms by (auto simp: gemini_ready_def some_text_def)
  then have "cast_str (py_or (dict_get_none b ''tool_use_id'') (PStr [])) = i"
    using assms(3) by (simp add: cast_str_def py_or_def)
  with None show ?thesis
    by (simp add: agent_tool_result_to_gemini_function_response_def Let_def dict_get_set)
next
  case (Some d)
  then show ?thesis
    using assms by (simp add: agent_tool_result_to_gemini_function_response_def Let_def gemini_ready_def dict_get_set)
qed

lemma gemini_block_roundtrip:
  assumes "gemini_ready b"
  shows "\<exists>ps names'. agent_block_to_gemini_parts loads names b = Inr (ps, names') \<and> (gemini_kept b \<longrightarrow> ps \<noteq> []) \<and>
     (if ps = [] then call_view b = None \<and> gemini_view b = None
      else length ps = 1 \<and> (\<forall>k. gemini_back loads b (gemini_part_to_agent_block (PDict (hd ps)) k)))"
proof -
  consider (use) i n where "block_type_is b ''tool_use''" "dict_get b ''id'' = Some (PStr i)" "dict_get b ''name'' = Some n" "i \<noteq> []"
    | (answer) i where "block_type_is b ''tool_result''" "dict_get_none b ''tool_use_id'' = PStr i" "i \<noteq> []"
    | (other) "\<not> block_type_is b ''tool_use''" "\<not> block_type_is b ''tool_result''"
    using assms by (auto simp: gemini_ready_def some_text_iff dict_get_none_def split: option.splits)
  then show ?thesis
  proof cases
    case use
    from gemini_tool_use_part [OF use(3,2)] obtain c where c:
      "agent_tool_use_to_gemini_function_call b = Inr c" "dict_get_none c ''id'' = PStr i" "dict_get_none c ''name'' = n"
      "copy_mapping (dict_get_or c ''args'' (PDict [])) = copy_mapping (dict_get_or b ''input'' (PDict []))" by blast
    have "dict_get_none b ''id'' = PStr i" "dict_get_none b ''name'' = n" using use by (simp_all add: dict_get_none_def)
    then have "gemini_back loads b (gemini_part_to_agent_block (PDict [(''function_call'', PDict c)]) k)" for k
      by (intro gemini_call_part [of b i]) (use c(2-4) use view_of_call [OF use(1)] in \<open>simp_all add: some_text_iff call_view_def\<close>)
    with c(1) use(1) show ?thesis
      by (simp add: agent_block_to_gemini_parts_def block_type_is_def CONTEXT_COMPACTION_MARKER_def)
  next
    case answer
    from gemini_tool_result_part [OF assms answer(1,2)] obtain r where r:
      "agent_tool_result_to_gemini_function_response loads names b = [(''function_response'', PDict r)]"
      "dict_get_none r ''id'' = PStr i" "dict_get r ''response'' = Some (PDict (tool_result_response_payload loads
         (dict_get_or b ''content'' (PStr [])) (truthy (dict_get_or b ''is_error'' (PBool False)))))" by blast
    have "call_view b = Some (False, PStr i)"
      using answer by (auto simp: call_view_def dest: block_types_differ)
    then have "gemini_back loads b (gemini_part_to_agent_block (PDict [(''function_response'', PDict r)]) k)" for k
      by (rule gemini_response_part [OF _ _ _ r(3)])
        (use r(2) answer view_of_result [OF answer(1)] in \<open>simp_all add: some_text_iff\<close>)
    with r(1) answer(1) show ?thesis
      by (simp add: agent_block_to_gemini_parts_def block_type_is_def CONTEXT_COMPACTION_MARKER_def)
  next
    case other
    have none: "call_view b = None" using other by (simp add: call_view_def)
    show ?thesis
    proof (cases "block_type_is b ''provider'' \<and> dict_get b ''provider'' = Some (PStr ''gemini'')")
      case True
      then have plain: "\<not> gemini_kept b" "\<not> block_type_is b ''text''" "\<not> block_type_is b CONTEXT_COMPACTION_MARKER"
        by (auto simp: gemini_kept_def CONTEXT_COMPACTION_MARKER_def dest: block_types_differ)
      have view: "gemini_view b = (case dict_get_none b ''data'' of PDict d \<Rightarrow> Some (gemini_raw d) | _ \<Rightarrow> None)"
        using True plain other by (simp add: gemini_view_def block_view_def dict_get_none_def split: option.split)
      have "gemini_back loads b (gemini_part_to_agent_block (PDict d) k)" if "dict_get_none b ''data'' = PDict d" for d k
        by (rule gemini_opaque_part [OF _ none])
          (use that True assms plain(1) view in \<open>simp_all add: gemini_ready_def\<close>)
      then show ?thesis using True none other plain view
        by (cases "dict_get_none b ''data''") (simp_all add: agent_block_to_gemini_parts_def)
    next
      case False
      have "agent_block_to_gemini_parts loads names b =
          (if block_type_is b ''text'' then Inr ([[(''text'', PStr (said b []))]], names)
           else if block_type_is b CONTEXT_COMPACTION_MARKER
           then Inr ([[(''text'', PStr (said b CONTEXT_COMPACTION_MARKER_TEXT))]], names)
           else if block_type_is b ''refusal'' then Inr ([[(''text'', PStr (refused b))]], names)
           else Inr ([], names))"
        unfolding agent_block_to_gemini_parts_def if_not_P [OF False] texts_said using other by simp
      moreover have "gemini_view b = (if block_type_is b ''text'' then Some (Says (said b []))
          else if block_type_is b CONTEXT_COMPACTION_MARKER then Some (Says (said b CONTEXT_COMPACTION_MARKER_TEXT))
          else if block_type_is b ''refusal'' then Some (Says (refused b)) else None)"
        unfolding gemini_view_def block_view_def if_not_P [OF False] using other by simp
      ultimately show ?thesis using none other gemini_text_part [OF none] by (simp add: gemini_kept_def)
    qed
  qed
qed

definition gemini_blocks_back :: "(string \<Rightarrow> pyval option) \<Rightarrow> pydict list \<Rightarrow> pydict list \<Rightarrow> bool" where
  "gemini_blocks_back loads bs bs' = (call_views bs' = call_views bs \<and> list_all gemini_ready bs' \<and> list_all wf_block bs' \<and>
     (list_ex gemini_kept bs \<longrightarrow> list_ex gemini_kept bs') \<and>
     List.map_filter gemini_view bs' = map (result_wrapped loads) (List.map_filter gemini_view bs))"

lemma gemini_blocks_back_simps:
  "gemini_blocks_back loads [] []"
  "call_view b = None \<Longrightarrow> gemini_view b = None \<Longrightarrow> \<not> gemini_kept b \<Longrightarrow> gemini_blocks_back loads bs bs' \<Longrightarrow>
     gemini_blocks_back loads (b # bs) bs'"
  "gemini_back loads b b' \<Longrightarrow> gemini_blocks_back loads bs bs' \<Longrightarrow> gemini_blocks_back loads (b # bs) (b' # bs')"
  by (auto simp: gemini_blocks_back_def gemini_back_def List.map_filter_simps split: option.split)

lemma gemini_blocks_roundtrip:
  assumes "list_all gemini_ready bs"
  shows "\<exists>ps names'. agent_blocks_to_gemini_parts loads names bs = Inr (ps, names') \<and> (list_ex gemini_kept bs \<longrightarrow> ps \<noteq> []) \<and>
     (\<forall>k. gemini_blocks_back loads bs (map (\<lambda>(i, p). gemini_part_to_agent_block p (int i)) (enumerate k (map PDict ps))))"
  using assms
proof (induction bs arbitrary: names)
  case (Cons b bs)
  from Cons.prems have "gemini_ready b" by simp
  from gemini_block_roundtrip [OF this, of loads names] obtain ps names1 where p:
    "agent_block_to_gemini_parts loads names b = Inr (ps, names1)" "gemini_kept b \<longrightarrow> ps \<noteq> []"
    "if ps = [] then call_view b = None \<and> gemini_view b = None
     else length ps = 1 \<and> (\<forall>k. gemini_back loads b (gemini_part_to_agent_block (PDict (hd ps)) k))" by blast
  obtain qs names2 where q: "agent_blocks_to_gemini_parts loads names1 bs = Inr (qs, names2)" "list_ex gemini_kept bs \<longrightarrow> qs \<noteq> []"
    "\<And>k. gemini_blocks_back loads bs (map (\<lambda>(i, p). gemini_part_to_agent_block p (int i)) (enumerate k (map PDict qs)))"
    using Cons.IH [of names1] Cons.prems by auto
  show ?case
  proof (cases ps)
    case Nil
    with p q show ?thesis by (auto intro: gemini_blocks_back_simps(2))
  next
    case (Cons d ds)
    with p q show ?thesis by (auto intro: gemini_blocks_back_simps(3))
  qed
qed (simp add: gemini_blocks_back_simps(1))

lemma gemini_message_roundtrip:
  assumes "gemini_message_ready m"
  shows "\<exists>c names'. agent_message_to_gemini_content loads names (message_dict m) = Inr (c, names') \<and> snd c \<noteq> [] \<and>
     same_calls m (gemini_content_to_agent_message (content_dict c)) \<and>
     message_view gemini_view (gemini_content_to_agent_message (content_dict c)) =
       carried (result_wrapped loads) (message_view gemini_view m) \<and>
     unmarked (gemini_content_to_agent_message (content_dict c)) \<and>
     gemini_message_ready (gemini_content_to_agent_message (content_dict c))"
proof -
  have norm: "normalize_message (message_dict m) = Inr m"
    using assms by (simp add: gemini_message_ready_def normalize_message_dict)
  obtain r c where m: "m = message r c" by (cases m) (simp add: message_def)
  have returns: "gemini_content_to_agent_message (content_dict (gemini_role r, ps)) =
      message r (Blocks (map (\<lambda>(i, p). gemini_part_to_agent_block p (int i)) (enumerate 0 (map PDict ps))))" for ps
    by (cases r) (simp_all add: gemini_content_to_agent_message_def content_dict_def gemini_role_def)
  have no_marker: "unmarked (message r (Blocks (map (\<lambda>(i, p). gemini_part_to_agent_block p (int i)) q)))" for q
    by (auto simp: unmarked_def message_has_block_type_def list_ex_iff gemini_part_is_no_marker)
  show ?thesis
  proof (cases c)
    case (Text s)
    have "same_calls (message r (Text s)) (message r (Blocks [text_block s]))"
      by (simp add: same_calls_def tool_use_ids_def tool_result_ids_def block_ids_def message_has_block_type_def
          text_block_def List.map_filter_simps)
    moreover have "gemini_part_to_agent_block (PDict [(''text'', PStr s)]) 0 = text_block s"
      by (simp add: gemini_part_to_agent_block_def copy_mapping_def)
    moreover have "gemini_message_ready (message r (Blocks [text_block s]))"
      by (simp add: gemini_message_ready_def wf_message_def content_blocks_def text_block_def gemini_ready_def gemini_kept_def
          wf_block_def dict_get_none_def)
    moreover have "message_view gemini_view (message r (Blocks [text_block s])) = carried (result_wrapped loads) (r, [Says s])"
      by (simp add: message_view_def gemini_view_def List.map_filter_simps carried_def)
    ultimately show ?thesis
      using norm returns [of "[[(''text'', PStr s)]]"] no_marker [of "[(0, PDict [(''text'', PStr s)])]"] Text
      by (simp add: agent_message_to_gemini_content_def m message_view_def)
  next
    case (Blocks bs)
    then have "list_all gemini_ready bs" "list_ex gemini_kept bs"
      using assms by (simp_all add: gemini_message_ready_def m content_blocks_def)
    with gemini_blocks_roundtrip [of bs loads names] obtain ps names' where bs:
      "agent_blocks_to_gemini_parts loads names bs = Inr (ps, names')" "ps \<noteq> []"
      "gemini_blocks_back loads bs (map (\<lambda>(i, p). gemini_part_to_agent_block p (int i)) (enumerate 0 (map PDict ps)))"
      by blast
    have "same_calls (message r (Blocks bs))
        (message r (Blocks (map (\<lambda>(i, p). gemini_part_to_agent_block p (int i)) (enumerate 0 (map PDict ps)))))"
      using bs(3) by (intro same_calls_blocks) (simp add: gemini_blocks_back_def)
    moreover have "message_view gemini_view (message r (Blocks (map (\<lambda>(i, p). gemini_part_to_agent_block p (int i)) (enumerate 0 (map PDict ps))))) =
        carried (result_wrapped loads) (message_view gemini_view m)"
      using bs(3) Blocks by (simp add: message_view_def m carried_def gemini_blocks_back_def)
    moreover have "gemini_message_ready
        (message r (Blocks (map (\<lambda>(i, p). gemini_part_to_agent_block p (int i)) (enumerate 0 (map PDict ps)))))"
      using bs(3) \<open>list_ex gemini_kept bs\<close>
      by (simp add: gemini_blocks_back_def gemini_message_ready_def wf_message_def content_blocks_def)
    ultimately show ?thesis using norm Blocks bs(1,2) returns [of ps] no_marker [of "enumerate 0 (map PDict ps)"]
      by (simp add: agent_message_to_gemini_content_def m)
  qed
qed

lemma gemini_history_roundtrip:
  assumes "list_all gemini_message_ready ms"
  shows "\<exists>cs. gemini_contents_from loads names (map message_dict ms) = Inr cs \<and>
     list_all2 same_calls ms (gemini_contents_to_agent_messages cs) \<and>
     map (message_view gemini_view) (gemini_contents_to_agent_messages cs) =
       map (carried (result_wrapped loads) \<circ> message_view gemini_view) ms \<and>
     list_all unmarked (gemini_contents_to_agent_messages cs) \<and>
     list_all gemini_message_ready (gemini_contents_to_agent_messages cs)"
  using assms
proof (induction ms arbitrary: names)
  case (Cons m ms)
  then obtain c names' where "agent_message_to_gemini_content loads names (message_dict m) = Inr (c, names')" "snd c \<noteq> []"
    "same_calls m (gemini_content_to_agent_message (content_dict c))"
    "message_view gemini_view (gemini_content_to_agent_message (content_dict c)) =
       carried (result_wrapped loads) (message_view gemini_view m)"
    "unmarked (gemini_content_to_agent_message (content_dict c))"
    "gemini_message_ready (gemini_content_to_agent_message (content_dict c))"
    using gemini_message_roundtrip [of m loads names] by auto
  moreover obtain cs where "gemini_contents_from loads names' (map message_dict ms) = Inr cs"
    "list_all2 same_calls ms (gemini_contents_to_agent_messages cs)"
    "map (message_view gemini_view) (gemini_contents_to_agent_messages cs) =
       map (carried (result_wrapped loads) \<circ> message_view gemini_view) ms"
    "list_all unmarked (gemini_contents_to_agent_messages cs)"
    "list_all gemini_message_ready (gemini_contents_to_agent_messages cs)"
    using Cons.IH [of names'] Cons.prems by auto
  ultimately show ?case by (simp add: gemini_contents_to_agent_messages_def)
qed (simp add: gemini_contents_to_agent_messages_def)

interpretation gemini_format:
  history_format "agent_messages_to_gemini_contents loads" "\<lambda>cs. Inr (gemini_contents_to_agent_messages cs)" gemini_message_ready
    gemini_view "result_wrapped loads"
  for loads
proof unfold_locales
  fix ms
  assume "list_all gemini_message_ready ms"
  from gemini_history_roundtrip [OF this, of loads "[]"] show "\<exists>ds ms'. agent_messages_to_gemini_contents loads (map message_dict ms) = Inr ds \<and>
      Inr (gemini_contents_to_agent_messages ds) = Inr ms' \<and> list_all2 same_calls ms ms' \<and>
      map (message_view gemini_view) ms' = map (carried (result_wrapped loads) \<circ> message_view gemini_view) ms \<and>
      list_all unmarked ms' \<and> list_all gemini_message_ready ms'"
    by (auto simp: agent_messages_to_gemini_contents_def)
qed

text \<open>
  C11. With Gemini the history survives any number of requests, too. Whenever the calls and results carry identifiers
  and the calls names, the identifier of a result is the one of the raw data of Gemini it was made from, other raw data
  of Gemini hide no calls or results, and every message that is a list of blocks has a text, marker, refusal, call or
  result among them, a request can be made of the history and reads back unchanged from its dictionary; and after \<open>n\<close> requests the history has the same
  messages in the same order, and each tells the model the same: the same role, texts, refusals, tool calls with their
  identifiers, names and inputs, raw data of Gemini, and results with their identifiers and error flags. Only the content
  of a result does not stay: each request wraps it once more in a JSON object, as its \<open>result\<close>. The history is sendable
  if it was; no compaction marker survives, and blocks of a type that Gemini is not sent are dropped.
\<close>

theorem gemini_history_keeps_exchanges:
  assumes "pq_chat_history q = map message_dict ms" "list_all gemini_message_ready ms"
  shows "(\<exists>gq. gemini_create_request loads thinking q = Inr gq \<and>
       gemini_request_from_dict (gemini_request_to_dict gq) = Inr gq \<and>
       Inr (gemini_request_chat_history gq) = after_requests (agent_messages_to_gemini_contents loads)
         (\<lambda>cs. Inr (gemini_contents_to_agent_messages cs)) 1 ms) \<and>
     (\<exists>ms'. after_requests (agent_messages_to_gemini_contents loads) (\<lambda>cs. Inr (gemini_contents_to_agent_messages cs)) n ms =
         Inr ms' \<and>
       map (message_view gemini_view) ms' = map (carried (result_wrapped loads ^^ n) \<circ> message_view gemini_view) ms \<and>
       list_all2 same_calls ms ms' \<and> (well_paired ms \<longrightarrow> well_paired ms') \<and> (0 < n \<longrightarrow> list_all unmarked ms'))"
proof -
  obtain cs where "agent_messages_to_gemini_contents loads (map message_dict ms) = Inr cs"
    using gemini_history_roundtrip [OF assms(2), of loads "[]"] by (auto simp: agent_messages_to_gemini_contents_def)
  then have "\<exists>gq. gemini_create_request loads thinking q = Inr gq \<and>
       gemini_request_from_dict (gemini_request_to_dict gq) = Inr gq \<and>
       Inr (gemini_request_chat_history gq) = after_requests (agent_messages_to_gemini_contents loads)
         (\<lambda>cs. Inr (gemini_contents_to_agent_messages cs)) 1 ms"
    using assms(1) by (simp add: gemini_create_request_def gemini_request_chat_history_def)
  with gemini_format.keeps_exchanges [OF assms(2), of loads n] show ?thesis by blast
qed

lemma wrapped_empty_results:
  assumes "loads ''{}'' = Some (PDict [])"
  shows "result_wrapped loads (Answers i (PStr ''{}'') False) = Answers i (PStr (json_dumps (PDict [(''result'', PDict [])]))) False"
    "result_wrapped loads (Answers i (PStr ''{}'') True) =
       Answers i (PStr (json_dumps (PDict [(''result'', PDict []), (''is_error'', PBool True)]))) True"
  using assms by (simp_all add: wrapped_result_def del: json_dumps_with.simps)

lemma gemini_history_keeps_exchanges_witness:
  "\<exists>ms'. after_requests (agent_messages_to_gemini_contents (\<lambda>s. if s = ''{}'' then Some (PDict []) else None))
         (\<lambda>cs. Inr (gemini_contents_to_agent_messages cs)) 1 sample_exchange = Inr ms' \<and>
     map (message_view gemini_view) ms' =
       [(User, [Says CONTEXT_COMPACTION_MARKER_TEXT]), (User, [Says ''weather?'']),
        (Assistant, [Says ''looking'', Asks (PStr ''a'') (PStr ''get_weather'') [(''city'', PStr ''Oslo'')],
           Asks (PStr ''b'') (PStr ''get_weather'') [(''city'', PStr ''Rome'')]]),
        (User, [Answers (PStr ''a'') (PStr (json_dumps (PDict [(''result'', PDict [])]))) False,
           Answers (PStr ''b'') (PStr (json_dumps (PDict [(''result'', PDict []), (''is_error'', PBool True)]))) True])] \<and>
     well_paired ms' \<and> list_all unmarked ms'"
proof -
  have "list_all gemini_message_ready sample_exchange" by code_simp
  moreover have "pq_chat_history (sample_provider_request (map message_dict sample_exchange)) = map message_dict sample_exchange"
    by (simp add: sample_provider_request_def)
  ultimately obtain ms' where ms':
    "after_requests (agent_messages_to_gemini_contents (\<lambda>s. if s = ''{}'' then Some (PDict []) else None))
       (\<lambda>cs. Inr (gemini_contents_to_agent_messages cs)) 1 sample_exchange = Inr ms'"
    "map (message_view gemini_view) ms' =
       map (carried (result_wrapped (\<lambda>s. if s = ''{}'' then Some (PDict []) else None) ^^ 1)) (map (message_view gemini_view) sample_exchange)"
    "well_paired sample_exchange \<longrightarrow> well_paired ms'" "list_all unmarked ms'"
    using gemini_history_keeps_exchanges [of "sample_provider_request (map message_dict sample_exchange)" sample_exchange
        "\<lambda>s. if s = ''{}'' then Some (PDict []) else None" None 1]
    by auto
  have "map (message_view gemini_view) ms' =
       [(User, [Says CONTEXT_COMPACTION_MARKER_TEXT]), (User, [Says ''weather?'']),
        (Assistant, [Says ''looking'', Asks (PStr ''a'') (PStr ''get_weather'') [(''city'', PStr ''Oslo'')],
           Asks (PStr ''b'') (PStr ''get_weather'') [(''city'', PStr ''Rome'')]]),
        (User, [Answers (PStr ''a'') (PStr (json_dumps (PDict [(''result'', PDict [])]))) False,
           Answers (PStr ''b'') (PStr (json_dumps (PDict [(''result'', PDict []), (''is_error'', PBool True)]))) True])]"
    unfolding ms'(2) unfolding gemini_view_def sample_exchange_view
    by (simp add: carried_def wrapped_empty_results del: json_dumps_with.simps result_wrapped.simps(1))
  moreover have "well_paired ms'" using ms'(3) sample_exchange_ready(2) by simp
  ultimately show ?thesis using ms'(1,4) by (intro exI [of _ ms'] conjI)
qed

text \<open>
  But the text of a result is wrapped once more on each way through a request: what came back as the JSON of a
  value \<open>v\<close> goes out as the response \<open>{"result": v}\<close>, and that is the text of the result that is read back.
\<close>

lemma gemini_results_nest:
  assumes "gemini_ready b" "block_type_is b ''tool_result''" "dict_get b ''content'' = Some (PStr (json_dumps v))"
    and "loads (json_dumps v) = Some v" "\<not> truthy (dict_get_or b ''is_error'' (PBool False))"
  shows "\<exists>r b'. agent_tool_result_to_gemini_function_response loads names b = [(''function_response'', PDict r)] \<and>
     gemini_part_to_agent_block (PDict [(''function_response'', PDict r)]) k = b' \<and>
     dict_get b' ''content'' = Some (PStr (json_dumps (PDict [(''result'', v)])))"
proof -
  obtain i where i: "dict_get_none b ''tool_use_id'' = PStr i" "i \<noteq> []"
    using assms(1,2) by (auto simp: gemini_ready_def some_text_iff)
  from gemini_tool_result_part [OF assms(1,2) i(1)] obtain r where r:
    "agent_tool_result_to_gemini_function_response loads names b = [(''function_response'', PDict r)]"
    "dict_get_none r ''id'' = PStr i" by blast
  have payload: "tool_result_response_payload loads (dict_get_or b ''content'' (PStr []))
      (truthy (dict_get_or b ''is_error'' (PBool False))) = [(''result'', v)]"
    using assms(3-5) by (simp add: tool_result_response_payload_def dict_get_or_def [of b "''content''"])
  have "dict_get r ''response'' = Some (PDict [(''result'', v)])"
    using r(1) payload by (auto simp: agent_tool_result_to_gemini_function_response_def Let_def dict_get_set)
  moreover have "r \<noteq> []" using r(2) by (auto simp: dict_get_none_def)
  ultimately have "dict_get (gemini_part_to_agent_block (PDict [(''function_response'', PDict r)]) k) ''content'' =
      Some (PStr (json_dumps (PDict [(''result'', v)])))"
    by (simp add: gemini_part_to_agent_block_def copy_mapping_def dict_get_none_def py_or_def gemini_response_block_def
        normalize_gemini_function_response_def Let_def dict_get_or_def)
  with r(1) show ?thesis by blast
qed

end
