(* ===== verification/ProviderErrors.thy ===== *)
theory ProviderErrors
  imports Agent ChatGPT Gemini
begin

text \<open>
  How the activities of the three providers report that a conversation is too long for the model, and that the agent
  recognises it: what the retry of \<open>_call_provider_with_context_recovery\<close> rests on.
\<close>

section \<open>What counts as an overflow\<close>

text \<open>The SDK refused the request, with a status and a text that say so.\<close>

definition overflow_failure :: "api_failure \<Rightarrow> bool" where
  "overflow_failure f =
     (case af_status_error f of
        None \<Rightarrow> False
      | Some (cls, status_code) \<Rightarrow> status_error_is_context_window_exceeded status_code (exn_str (af_exception f)))"

text \<open>The count of a retry, or the call itself, shows that the request is too large.\<close>

definition reported_overflow ::
  "'a provider_request_scheme \<Rightarrow> api_failure + int \<Rightarrow> api_failure + 'b \<Rightarrow> bool" where
  "reported_overflow r counted streamed =
     (if should_count_request_tokens r
      then (case counted of
              Inl f \<Rightarrow> overflow_failure f
            | Inr n \<Rightarrow> counted_tokens_exceed_context n (pq_max_tokens r) (pq_context_token_limit r) \<or>
                (case streamed of Inl f \<Rightarrow> overflow_failure f | Inr _ \<Rightarrow> False))
      else (case streamed of Inl f \<Rightarrow> overflow_failure f | Inr _ \<Rightarrow> False))"

text \<open>The outcome is an overflow the agent recognises, also when Temporal wraps it in the error of the activity.\<close>

definition recognised_overflow :: "'a res \<Rightarrow> bool" where
  "recognised_overflow outcome =
     (case outcome of
        Inr _ \<Rightarrow> False
      | Inl e \<Rightarrow> is_context_window_exceeded e \<and>
          is_context_window_exceeded (PyExn (ExcActivity ''call'' ''1'' None) ''Activity task failed'' (Some e) None))"

lemma recognised_application_error:
  "recognised_overflow (Inl (PyExn (ExcApplication (Some CONTEXT_WINDOW_EXCEEDED_ERROR_TYPE) nr) msg cause ctx))"
  by (simp add: recognised_overflow_def is_context_window_exceeded_def exception_chain_def eval_nat_numeral Let_def)

lemma overflow_failure_recognised: "overflow_failure f \<Longrightarrow> recognised_overflow (Inl (api_error f))"
  by (auto simp: overflow_failure_def api_error_def status_error_def recognised_application_error split: option.splits)

lemma checked_overflow:
  assumes "should_count_request_tokens r" "counted = Inr n"
    "counted_tokens_exceed_context n (pq_max_tokens r) (pq_context_token_limit r)"
  shows "\<exists>msg. check_counted_tokens provider_name counted r =
     Inl (PyExn (ExcApplication (Some CONTEXT_WINDOW_EXCEEDED_ERROR_TYPE) True) msg None None)"
  using assms by (auto simp: check_counted_tokens_def api_call_def context_too_large_def counted_tokens_exceed_context_def
      split: option.splits)

lemma overflow_step:
  assumes "reported_overflow r counted streamed"
  shows "recognised_overflow (res_bind (check_counted_tokens provider_name counted r) (\<lambda>_. res_bind (api_call streamed) g))"
proof (cases "should_count_request_tokens r")
  case True
  show ?thesis
  proof (cases counted)
    case (Inl f)
    with assms True show ?thesis
      by (simp add: reported_overflow_def check_counted_tokens_def api_call_def overflow_failure_recognised)
  next
    case (Inr n)
    show ?thesis
    proof (cases "counted_tokens_exceed_context n (pq_max_tokens r) (pq_context_token_limit r)")
      case True
      with checked_overflow [OF \<open>should_count_request_tokens r\<close> Inr, of provider_name] show ?thesis
        by (auto simp: recognised_application_error)
    next
      case False
      with assms True Inr show ?thesis
        by (auto simp: reported_overflow_def check_counted_tokens_def api_call_def context_too_large_def
            overflow_failure_recognised split: sum.splits)
    qed
  qed
next
  case False
  with assms show ?thesis
    by (auto simp: reported_overflow_def check_counted_tokens_def api_call_def overflow_failure_recognised split: sum.splits)
qed

section \<open>Properties\<close>

text \<open>
  C13. However a provider learns that a conversation is too long for the model, the agent is told so: when the count of a
  retry exceeds the limit together with the tokens reserved for the answer, or the call of the SDK is refused with a status
  and a text that say so, the activity of Claude, ChatGPT or Gemini fails with an error that the agent recognises as an
  overflow, also inside the error of the activity; it never answers.
\<close>

theorem provider_overflow_is_recognised:
  "(reported_overflow cr counted cstream \<longrightarrow> recognised_overflow (call_agent_api counted cstream cr)) \<and>
   (reported_overflow gr counted gstream \<and> str_some key google_key = Some (c # cs) \<longrightarrow>
      recognised_overflow (call_gemini key google_key counted gstream gr)) \<and>
   (overflow_failure f \<longrightarrow> recognised_overflow (call_chatgpt loads (Some (c # cs)) (Inl f) ar))"
proof -
  have "recognised_overflow (call_agent_api counted cstream cr)" if "reported_overflow cr counted cstream"
    using overflow_step [OF that] by (simp add: call_agent_api_def)
  moreover have "recognised_overflow (call_gemini key google_key counted gstream gr)"
    if "reported_overflow gr counted gstream" "str_some key google_key = Some (c # cs)"
    using overflow_step [OF that(1)] that(2) by (simp add: call_gemini_def)
  moreover have "recognised_overflow (call_chatgpt loads (Some (c # cs)) (Inl f) ar)" if "overflow_failure f"
    using overflow_failure_recognised [OF that] by (simp add: call_chatgpt_def api_call_def)
  ultimately show ?thesis by blast
qed

definition sample_refusal :: api_failure where
  "sample_refusal = \<lparr>af_status_error = Some (''BadRequestError'', Some 400),
     af_exception = PyExn (ExcOther ''BadRequestError'') ''prompt is too long: 210000 tokens > 200000 maximum'' None None\<rparr>"

definition sample_retry :: claude_request where
  "sample_retry = \<lparr>pq_system_prompt = [], pq_model = ''m'', pq_max_tokens = 2000, pq_tools = [], pq_chat_history = [],
     pq_context_token_limit = Some 10000, pq_stream_id = None, pq_stream_sequence = None, pq_stream_attempt = Some 2,
     cq_thinking = None, cq_output_config = None\<rparr>"

definition sample_chatgpt_retry :: chatgpt_request where
  "sample_chatgpt_retry = \<lparr>pq_system_prompt = [], pq_model = ''m'', pq_max_tokens = 2000, pq_tools = [], pq_chat_history = [],
     pq_context_token_limit = Some 10000, pq_stream_id = None, pq_stream_sequence = None, pq_stream_attempt = Some 2,
     gq_reasoning = None\<rparr>"

lemma provider_overflow_is_recognised_witness:
  "recognised_overflow (call_agent_api (Inr 8001) (Inl sample_refusal) sample_retry) \<and>
   recognised_overflow (call_chatgpt (\<lambda>_. None) (Some ''k'') (Inl sample_refusal) sample_chatgpt_retry)"
proof -
  have "reported_overflow sample_retry (Inr 8001) (Inl sample_refusal :: api_failure + claude_final_message)"
    "overflow_failure sample_refusal"
    by code_simp+
  then show ?thesis
    using provider_overflow_is_recognised [of sample_retry "Inr 8001" "Inl sample_refusal" _ _ _ _ "CHR ''k''" "[]"
        sample_refusal "\<lambda>_. None" sample_chatgpt_retry]
    by blast
qed

end
