(* ===== verification/StreamBroker.thy ===== *)
theory StreamBroker
  imports Transcript Activities
begin

text \<open>
  \<open>simple_chat_agent/api/streaming.py\<close>: the broker that keeps the events of each stream, in memory or, for
  local development, in a file, and serves them to browsers from a cursor on; and the writers of the file in
  \<open>simple_chat_agent/common/streaming.py\<close>. The clock and the fresh generation of a buffer are parameters.
\<close>

section \<open>Numbers in cursors\<close>

text \<open>\<open>int\<close> of a string: spaces around it, a sign, digits that single underscores may separate
  (CPython's bound of 4300 digits is left out).\<close>

fun digit_groups :: "string \<Rightarrow> bool" where
  "digit_groups [] = False"
| "digit_groups [c] = is_digit c"
| "digit_groups (c # d # cs) = (is_digit c \<and> (if d = CHR ''_'' then digit_groups cs else digit_groups (d # cs)))"

definition py_int :: "string \<Rightarrow> int option" where
  "py_int s =
     (let t = py_strip s;
          (sign, u) = (case t of
             c # cs \<Rightarrow> if c = CHR ''-'' then (-1, cs) else if c = CHR ''+'' then (1, cs) else (1, t)
           | [] \<Rightarrow> (1, []));
          ds = filter (\<lambda>c. c \<noteq> CHR ''_'') u
      in if digit_groups u then Some (sign * int (parse_nat ds)) else None)"

section \<open>Buffers\<close>

definition STREAM_BUFFER_TTL_SECONDS :: rat where
  "STREAM_BUFFER_TTL_SECONDS = 1800"

definition TURN_STREAM_REPLAY_LIMIT :: int where
  "TURN_STREAM_REPLAY_LIMIT = 100"

record broker_event =
  bk_event :: string
  bk_data :: pydict
  bk_idempotency_key :: string

record stream_buffer =
  sb_events :: "broker_event list"
  sb_idempotency :: "(string \<times> string) list"
  sb_generation :: string
  sb_updated :: rat

type_synonym stream_buffers = "(string \<times> stream_buffer) list"

definition ensure_buffer :: "string \<Rightarrow> rat \<Rightarrow> string \<Rightarrow> stream_buffers \<Rightarrow> stream_buffer \<times> stream_buffers" where
  "ensure_buffer generation now stream_id buffers =
     (case map_of buffers stream_id of
        Some entry \<Rightarrow> (entry, buffers)
      | None \<Rightarrow>
          (let entry = \<lparr>sb_events = [], sb_idempotency = [], sb_generation = generation, sb_updated = now\<rparr>
           in (entry, AList.update stream_id entry buffers)))"

definition buffer_event_id :: "stream_buffer \<Rightarrow> int \<Rightarrow> string" where
  "buffer_event_id entry position = sb_generation entry @ '':'' @ int_str position"

definition parse_buffer_event_id :: "string \<Rightarrow> stream_buffer \<Rightarrow> int option" where
  "parse_buffer_event_id last_event_id entry =
     (if last_event_id = [] then None
      else (case py_partition (CHR '':'') last_event_id of
              (generation, separator, position) \<Rightarrow>
                (if separator \<noteq> '':'' \<or> generation \<noteq> sb_generation entry then None
                 else map_option (max 0) (py_int position))))"

text \<open>Buffers that have been idle for too long are dropped.\<close>

definition evict_idle :: "rat \<Rightarrow> stream_buffers \<Rightarrow> stream_buffers" where
  "evict_idle now buffers = filter (\<lambda>e. \<not> now - sb_updated (snd e) > STREAM_BUFFER_TTL_SECONDS) buffers"

text \<open>No idempotency key is the empty one.\<close>

definition append_event ::
  "string \<Rightarrow> rat \<Rightarrow> string \<Rightarrow> string \<Rightarrow> pydict \<Rightarrow> string \<Rightarrow> stream_buffers \<Rightarrow> string \<times> stream_buffers" where
  "append_event generation now stream_id event data key buffers =
     (let (entry, buffers) = ensure_buffer generation now stream_id buffers in
      case (if key = [] then None else map_of (sb_idempotency entry) key) of
        Some existing \<Rightarrow> (existing, buffers)
      | None \<Rightarrow>
          (let events = sb_events entry @ [\<lparr>bk_event = event, bk_data = data, bk_idempotency_key = key\<rparr>];
               cursor = buffer_event_id entry (int (length events));
               entry = entry\<lparr>sb_events := events,
                 sb_idempotency := (if key = [] then sb_idempotency entry else AList.update key cursor (sb_idempotency entry)),
                 sb_updated := now\<rparr>
           in (cursor, evict_idle now (AList.update stream_id entry buffers))))"

definition append_stream :: "string \<Rightarrow> rat \<Rightarrow> string \<Rightarrow> pydict \<Rightarrow> stream_buffers \<Rightarrow> string \<times> stream_buffers" where
  "append_stream generation now stream_id data buffers = append_event generation now stream_id ''stream'' data [] buffers"

definition clear_buffer :: "string \<Rightarrow> stream_buffers \<Rightarrow> stream_buffers" where
  "clear_buffer stream_id buffers = AList.delete stream_id buffers"

definition buffer_cursor :: "string \<Rightarrow> rat \<Rightarrow> string \<Rightarrow> stream_buffers \<Rightarrow> string \<times> stream_buffers" where
  "buffer_cursor generation now stream_id buffers =
     (let (entry, buffers) = ensure_buffer generation now stream_id buffers
      in (buffer_event_id entry (int (length (sb_events entry))), buffers))"

section \<open>Replay\<close>

record replay_entry =
  re_id :: string
  re_event :: string
  re_data :: pydict

record stream_replay =
  rp_entries :: "replay_entry list"
  rp_cursor :: string
  rp_available :: bool
  rp_reason :: string

definition buffer_entry :: "stream_buffer \<Rightarrow> nat \<Rightarrow> replay_entry" where
  "buffer_entry entry index =
     (let e = sb_events entry ! index
      in \<lparr>re_id = buffer_event_id entry (int index + 1), re_event = bk_event e, re_data = bk_data e\<rparr>)"

text \<open>A missing cursor is the empty one.\<close>

definition buffer_replay_entries :: "stream_buffers \<Rightarrow> string \<Rightarrow> string \<Rightarrow> int \<Rightarrow> stream_replay" where
  "buffer_replay_entries buffers workflow_id cursor limit =
     (case map_of buffers workflow_id of
        None \<Rightarrow> \<lparr>rp_entries = [], rp_cursor = [], rp_available = False, rp_reason = ''stream buffer unavailable''\<rparr>
      | Some entry \<Rightarrow>
          (let n = int (length (sb_events entry));
               parsed = parse_buffer_event_id cursor entry
           in if cursor \<noteq> [] \<and> parsed = None
              then \<lparr>rp_entries = [], rp_cursor = buffer_event_id entry n, rp_available = False,
                    rp_reason = ''stream cursor unavailable''\<rparr>
              else (let start = min (max 0 (case parsed of None \<Rightarrow> 0 | Some p \<Rightarrow> p)) n;
                        end_index = min n (start + limit)
                    in \<lparr>rp_entries = map (buffer_entry entry) [nat start..<nat end_index],
                        rp_cursor = buffer_event_id entry end_index, rp_available = True, rp_reason = []\<rparr>)))"

text \<open>The events of kind \<open>stream\<close> of a replay, as \<open>replay\<close> returns them.\<close>

definition replay_stream_events :: "stream_replay \<Rightarrow> pydict list" where
  "replay_stream_events rp = map re_data (filter (\<lambda>e. re_event e = ''stream'') (rp_entries rp))"

section \<open>Server-sent events\<close>

record server_event =
  se_event :: string
  se_data :: string
  se_id :: string

definition sent_event :: "string \<Rightarrow> pydict \<Rightarrow> string \<Rightarrow> server_event" where
  "sent_event event data event_id = \<lparr>se_event = event, se_data = json_dumps (PDict data), se_id = event_id\<rparr>"

definition reconcile_event :: "string \<Rightarrow> string \<Rightarrow> string \<Rightarrow> server_event" where
  "reconcile_event workflow_id reason event_id =
     sent_event ''reconcile'' [(''workflow_id'', PStr workflow_id), (''reason'', PStr reason)] event_id"

text \<open>An entry as it is sent; the event that settles the turn carries the cursor.\<close>

definition entry_event :: "replay_entry \<Rightarrow> server_event" where
  "entry_event e =
     sent_event (re_event e)
       (if re_event e = ''turn_settled'' then dict_set ''cursor'' (PStr (re_id e)) (re_data e) else re_data e) (re_id e)"

text \<open>\<open>turn_event_stream\<close>: what is sent of the entries of a replay, the cursor reached, and whether the turn settled.\<close>

fun turn_entries :: "replay_entry list \<Rightarrow> string \<Rightarrow> server_event list \<times> string \<times> bool" where
  "turn_entries [] cursor = ([], cursor, False)"
| "turn_entries (e # es) cursor =
     (if re_event e = ''turn_settled'' then ([entry_event e], re_id e, True)
      else (let (sent, cursor, settled) = turn_entries es (re_id e) in (entry_event e # sent, cursor, settled)))"

text \<open>One pass of its loop: what is sent, and the next cursor unless the stream ends.\<close>

definition turn_pass :: "string \<Rightarrow> stream_replay \<Rightarrow> string \<Rightarrow> server_event list \<times> string option" where
  "turn_pass workflow_id rp cursor =
     (if \<not> rp_available rp
      then ([reconcile_event workflow_id (if rp_reason rp = [] then ''stream replay unavailable'' else rp_reason rp)
               (if rp_cursor rp = [] then cursor else rp_cursor rp)], None)
      else (case turn_entries (rp_entries rp) cursor of
              (sent, reached, settled) \<Rightarrow>
                (sent, if settled then None
                       else if rp_entries rp \<noteq> [] then Some reached
                       else Some (if rp_cursor rp = [] then reached else rp_cursor rp))))"

section \<open>The stream of a buffer\<close>

text \<open>
  \<open>_buffer_event_stream\<close>: where a client resumes, by the identifier of the last event it saw, or the event that tells it
  to fetch a snapshot.
\<close>

definition buffer_stream_start ::
  "string \<Rightarrow> rat \<Rightarrow> string \<Rightarrow> string \<Rightarrow> stream_buffers \<Rightarrow> (server_event + int \<times> string) \<times> stream_buffers" where
  "buffer_stream_start generation now workflow_id last_event_id buffers =
     (let (entry, buffers) = ensure_buffer generation now workflow_id buffers;
          n = int (length (sb_events entry));
          reconcile = reconcile_event workflow_id ''stream cursor unavailable'' (buffer_event_id entry n)
      in (if last_event_id = [] then Inl reconcile
          else (case parse_buffer_event_id last_event_id entry of
                  None \<Rightarrow> Inl reconcile
                | Some p \<Rightarrow> if p > n then Inl reconcile else Inr (p, sb_generation entry)), buffers))"

definition buffer_stream_pass ::
  "string \<Rightarrow> rat \<Rightarrow> string \<Rightarrow> int \<Rightarrow> string \<Rightarrow> stream_buffers \<Rightarrow> (server_event list \<times> int option) \<times> stream_buffers" where
  "buffer_stream_pass generation now workflow_id resume cursor_generation buffers =
     (let (entry, buffers) = ensure_buffer generation now workflow_id buffers;
          n = int (length (sb_events entry))
      in (if sb_generation entry \<noteq> cursor_generation \<or> resume > n
          then ([reconcile_event workflow_id ''stream buffer reset'' (buffer_event_id entry n)], None)
          else (map (entry_event \<circ> buffer_entry entry) [nat resume..<nat n], Some n), buffers))"

section \<open>The stream of a file\<close>

text \<open>
  A file is its characters, all of them ASCII, so that an offset is a number of characters. \<open>readline\<close> gives the
  characters up to and with the next line feed, or what is left. \<open>json.loads\<close> is the parameter \<open>loads\<close> for lines that are objects, \<open>None\<close> for a
  \<open>JSONDecodeError\<close>.
\<close>

definition line_at :: "string \<Rightarrow> nat \<Rightarrow> string" where
  "line_at file offset =
     (let rest = drop offset file; line = takeWhile (\<lambda>c. c \<noteq> CHR 10) rest
      in take (length line + 1) rest)"

definition entry_from_json :: "pydict \<Rightarrow> string \<times> pydict" where
  "entry_from_json value =
     (case (dict_get_none value ''event'', dict_get_none value ''data'') of
        (PStr event, PDict data) \<Rightarrow> (event, data)
      | _ \<Rightarrow> (''stream'', value))"

text \<open>The lines that are read, with the offset after each, at most \<open>room\<close> of which parse.\<close>

function file_lines ::
  "(string \<Rightarrow> pydict option) \<Rightarrow> string \<Rightarrow> nat \<Rightarrow> nat \<Rightarrow> replay_entry list \<times> nat" where
  "file_lines loads file room position =
     (if room = 0 \<or> length file \<le> position then ([], position)
      else (let line = line_at file position; position = position + length line in
            case loads line of
              None \<Rightarrow> file_lines loads file room position
            | Some value \<Rightarrow>
                (let (event, data) = entry_from_json value;
                     (entries, reached) = file_lines loads file (room - 1) position
                 in (\<lparr>re_id = nat_str position, re_event = event, re_data = data\<rparr> # entries, reached))))"
  by pat_completeness auto
termination
proof (relation "measure (\<lambda>(loads, file, room, position). length file - position)")
qed (auto simp: line_at_def Let_def)

declare file_lines.simps [simp del]

definition file_offset :: "string \<Rightarrow> int" where
  "file_offset cursor = (if cursor = [] then 0 else case py_int cursor of None \<Rightarrow> 0 | Some n \<Rightarrow> max 0 n)"

definition file_replay_entries ::
  "(string \<Rightarrow> pydict option) \<Rightarrow> string option \<Rightarrow> string \<Rightarrow> nat \<Rightarrow> stream_replay" where
  "file_replay_entries loads file cursor limit =
     (let offset = file_offset cursor in
      case file of
        None \<Rightarrow>
          (if offset = 0 then \<lparr>rp_entries = [], rp_cursor = ''0'', rp_available = True, rp_reason = []\<rparr>
           else \<lparr>rp_entries = [], rp_cursor = ''0'', rp_available = False, rp_reason = ''stream file unavailable''\<rparr>)
      | Some f \<Rightarrow>
          (let offset = (if offset > int (length f) then 0 else offset);
               (entries, position) = file_lines loads f limit (nat offset)
           in \<lparr>rp_entries = entries, rp_cursor = nat_str position, rp_available = True, rp_reason = []\<rparr>))"

definition file_size :: "string option \<Rightarrow> nat" where
  "file_size file = (case file of None \<Rightarrow> 0 | Some f \<Rightarrow> length f)"

text \<open>\<open>_file_event_stream\<close>: where a client resumes; \<open>_buffer_event_stream\<close> has the same shape.\<close>

definition file_stream_start :: "string \<Rightarrow> string option \<Rightarrow> string \<Rightarrow> server_event + nat" where
  "file_stream_start workflow_id file last_event_id =
     (let reconcile = reconcile_event workflow_id ''stream cursor unavailable'' (nat_str (file_size file))
      in if last_event_id = [] then Inl reconcile
         else (case py_int last_event_id of
                 None \<Rightarrow> Inl reconcile
               | Some n \<Rightarrow> if file = None \<or> max 0 n > int (file_size file) then Inl reconcile else Inr (nat (max 0 n))))"

definition file_stream_pass ::
  "(string \<Rightarrow> pydict option) \<Rightarrow> string \<Rightarrow> string option \<Rightarrow> nat \<Rightarrow> server_event list \<times> nat option" where
  "file_stream_pass loads workflow_id file offset =
     (case file of
        None \<Rightarrow> ([], Some offset)
      | Some f \<Rightarrow>
          (if offset > length f
           then ([reconcile_event workflow_id ''stream cursor reset'' (nat_str (length f))], None)
           else (case file_lines loads f (length f) offset of
                   (entries, _) \<Rightarrow> (map (\<lambda>e. sent_event (re_event e) (re_data e) (re_id e)) entries, Some (length f)))))"

section \<open>The writers of the file\<close>

definition stream_event_envelope :: "string \<Rightarrow> pydict \<Rightarrow> string \<Rightarrow> pydict" where
  "stream_event_envelope event data key =
     [(''event'', PStr event), (''data'', PDict data), (''idempotency_key'', PStr key)]"

text \<open>\<open>append_local_stream_event\<close>; \<open>loads\<close> of a line that is no mapping would raise there.\<close>

definition append_local_stream_event ::
  "(string \<Rightarrow> pydict option) \<Rightarrow> string \<Rightarrow> pydict \<Rightarrow> string \<Rightarrow> string option \<Rightarrow> string option" where
  "append_local_stream_event loads event data key file =
     (let old = (case file of None \<Rightarrow> [] | Some f \<Rightarrow> f);
          known = key \<noteq> [] \<and> file \<noteq> None \<and>
            list_ex (\<lambda>line. case loads line of
                 None \<Rightarrow> False | Some payload \<Rightarrow> dict_get payload ''idempotency_key'' = Some (PStr key)) (py_split (CHR 10) old)
      in if known then file
         else Some (old @ json_dumps (PDict (stream_event_envelope event data key)) @ [CHR 10]))"

end
