(* ===== verification/StreamBrokerProperties.thy ===== *)
theory StreamBrokerProperties
  imports StreamBroker TranscriptProperties StateMachine
begin

text \<open>
  What a browser receives that follows a stream of the broker from a cursor on, however appends, clears and the loss
  of idle buffers come between its polls.
\<close>

section \<open>Cursors\<close>

lemma no_digits [simp]: "\<not> is_digit CHR ''_''" "\<not> is_digit CHR ''-''" "\<not> is_digit CHR ''+''"
  by code_simp+

lemma digit_groups_digits: "ds \<noteq> [] \<Longrightarrow> list_all is_digit ds \<Longrightarrow> digit_groups ds"
proof (induction ds rule: digit_groups.induct)
  case (3 c d cs)
  then have "d \<noteq> CHR ''_''" by auto
  with 3 show ?case by simp
qed simp_all

lemma strip_digits:
  assumes "list_all is_digit ds"
  shows "py_strip ds = ds"
proof -
  have solid: "dropWhile py_space cs = cs" if "list_all is_digit cs" for cs
    using that by (cases cs) (auto simp: is_digit_def py_space_def)
  have "list_all is_digit (rev ds)" using assms by (simp add: list_all_iff)
  from solid [OF this] solid [OF assms] show ?thesis by (simp add: py_strip_def py_lstrip_def)
qed

lemma py_int_digits:
  assumes "ds \<noteq> []" "list_all is_digit ds"
  shows "py_int ds = Some (int (parse_nat ds))"
proof -
  have "filter (\<lambda>c. c \<noteq> CHR ''_'') ds = ds" using assms(2) by (auto simp: filter_id_conv list_all_iff)
  moreover obtain c cs where "ds = c # cs" using assms(1) by (cases ds) auto
  moreover from this have "c \<noteq> CHR ''-''" "c \<noteq> CHR ''+''" using assms(2) by auto
  ultimately show ?thesis
    using digit_groups_digits [OF assms] strip_digits [OF assms(2)] by (simp add: py_int_def)
qed

lemma py_int_nat_str: "py_int (nat_str n) = Some (int n)"
  by (simp add: py_int_digits nat_str_nonempty nat_str_digits)

definition cursor_at :: "string \<Rightarrow> nat \<Rightarrow> string" where
  "cursor_at generation n = generation @ '':'' @ int_str (int n)"

lemma buffer_event_id_cursor: "buffer_event_id entry (int n) = cursor_at (sb_generation entry) n"
  by (simp add: buffer_event_id_def cursor_at_def)

lemma cursor_at_nonempty [simp]: "cursor_at g n \<noteq> []"
  by (simp add: cursor_at_def)

lemma parse_cursor:
  assumes "CHR '':'' \<notin> set g"
  shows "parse_buffer_event_id (cursor_at g n) entry = (if g = sb_generation entry then Some (int n) else None)"
proof -
  have "py_partition (CHR '':'') (g @ CHR '':'' # t) = (g, '':'', t)" for t
    using assms by (induction g) auto
  then show ?thesis
    by (simp add: parse_buffer_event_id_def cursor_at_def int_str_def py_int_nat_str)
qed

section \<open>What is delivered\<close>

definition log_entry :: "string \<Rightarrow> broker_event list \<Rightarrow> nat \<Rightarrow> replay_entry" where
  "log_entry g es k = \<lparr>re_id = cursor_at g (k + 1), re_event = bk_event (es ! k), re_data = bk_data (es ! k)\<rparr>"

text \<open>The events of a log from position \<open>p\<close> up to \<open>q\<close>, as they are sent.\<close>

definition delivered :: "string \<Rightarrow> broker_event list \<Rightarrow> nat \<Rightarrow> nat \<Rightarrow> server_event list" where
  "delivered g es p q = map (entry_event \<circ> log_entry g es) [p..<q]"

lemma buffer_entry_log: "buffer_entry entry k = log_entry (sb_generation entry) (sb_events entry) k"
  using buffer_event_id_cursor [of entry "k + 1"] by (simp add: buffer_entry_def log_entry_def Let_def add.commute)

lemma delivered_append: "p \<le> q \<Longrightarrow> q \<le> r \<Longrightarrow> delivered g es p q @ delivered g es q r = delivered g es p r"
  using upt_add_eq_append [of p q "r - q"] by (simp add: delivered_def flip: map_append)

lemma delivered_same [simp]: "delivered g es p p = []"
  by (simp add: delivered_def)

lemma delivered_grows: "q \<le> length es \<Longrightarrow> delivered g (es @ fs) p q = delivered g es p q"
  by (simp add: delivered_def log_entry_def nth_append)

lemma turn_entries_delivered:
  assumes "q \<le> e"
  shows "\<exists>q'. q \<le> q' \<and> q' \<le> e \<and> fst (turn_entries (map (log_entry g es) [q..<e]) (cursor_at g q)) = delivered g es q q' \<and>
     fst (snd (turn_entries (map (log_entry g es) [q..<e]) (cursor_at g q))) = cursor_at g q' \<and>
     (snd (snd (turn_entries (map (log_entry g es) [q..<e]) (cursor_at g q))) \<or> q' = e)"
  using assms
proof (induction "e - q" arbitrary: q)
  case 0
  then show ?case by (intro exI [of _ q]) simp
next
  case (Suc n)
  then have upt: "[q..<e] = q # [Suc q..<e]" by (simp add: upt_conv_Cons)
  have one: "delivered g es q (Suc q) = [entry_event (log_entry g es q)]" by (simp add: delivered_def)
  have "re_id (log_entry g es q) = cursor_at g (Suc q)" by (simp add: log_entry_def)
  show ?case
  proof (cases "re_event (log_entry g es q) = ''turn_settled''")
    case True
    then show ?thesis using Suc.hyps(2) one
      by (intro exI [of _ "Suc q"]) (simp add: upt log_entry_def)
  next
    case False
    from Suc.hyps have "n = e - Suc q" "Suc q \<le> e" by simp_all
    from Suc.hyps(1) [OF this] obtain q' where q': "Suc q \<le> q'" "q' \<le> e"
      "fst (turn_entries (map (log_entry g es) [Suc q..<e]) (cursor_at g (Suc q))) = delivered g es (Suc q) q'"
      "fst (snd (turn_entries (map (log_entry g es) [Suc q..<e]) (cursor_at g (Suc q)))) = cursor_at g q'"
      "snd (snd (turn_entries (map (log_entry g es) [Suc q..<e]) (cursor_at g (Suc q)))) \<or> q' = e" by blast
    have "delivered g es q q' = entry_event (log_entry g es q) # delivered g es (Suc q) q'"
      using delivered_append [of q "Suc q" q' g es] q'(1) one by simp
    with q' False show ?thesis
      by (intro exI [of _ q']) (simp add: upt case_prod_beta \<open>re_id (log_entry g es q) = _\<close>)
  qed
qed

text \<open>A poll: the events from the cursor on, or the news that they are gone.\<close>

lemma turn_pass_delivers:
  assumes "CHR '':'' \<notin> set g"
    and "\<And>entry. map_of buffers w = Some entry \<Longrightarrow> sb_generation entry = g \<Longrightarrow> sb_events entry = es"
    and "q \<le> length es"
    and "turn_pass w (buffer_replay_entries buffers w (cursor_at g q) TURN_STREAM_REPLAY_LIMIT) (cursor_at g q) = (sent, reached)"
  shows "\<exists>q'. q \<le> q' \<and> q' \<le> length es \<and>
     (\<forall>entry. map_of buffers w = Some entry \<longrightarrow> sb_generation entry = g \<longrightarrow>
        reached = None \<or> q' = min (length es) (q + 100)) \<and>
     (sent = delivered g es q q' \<and> (\<forall>c. reached = Some c \<longrightarrow> c = cursor_at g q')
      \<or> q' = q \<and> reached = None \<and> (\<exists>reason i. sent = [reconcile_event w reason i]))"
proof (cases "\<exists>entry. map_of buffers w = Some entry \<and> sb_generation entry = g")
  case False
  then have "\<not> rp_available (buffer_replay_entries buffers w (cursor_at g q) TURN_STREAM_REPLAY_LIMIT)"
    by (auto simp: buffer_replay_entries_def parse_cursor [OF assms(1)] Let_def split: option.split)
  then show ?thesis using assms(3,4) by (auto simp: turn_pass_def)
next
  case True
  then obtain entry where entry: "map_of buffers w = Some entry" "sb_generation entry = g" by blast
  then have es: "sb_events entry = es" by (rule assms(2))
  define e where "e = min (length es) (q + 100)"
  have end_index: "min (int (length es)) (int q + TURN_STREAM_REPLAY_LIMIT) = int e"
    by (simp add: e_def TURN_STREAM_REPLAY_LIMIT_def)
  have rp: "buffer_replay_entries buffers w (cursor_at g q) TURN_STREAM_REPLAY_LIMIT =
      \<lparr>rp_entries = map (log_entry g es) [q..<e], rp_cursor = cursor_at g e, rp_available = True, rp_reason = []\<rparr>"
    using assms(3) entry es end_index buffer_event_id_cursor [of entry e]
    by (simp add: buffer_replay_entries_def parse_cursor [OF assms(1)] Let_def buffer_entry_log [abs_def] fun_eq_iff)
  have "q \<le> e" using assms(3) by (simp add: e_def)
  from turn_entries_delivered [OF this, of g es] obtain q' where q': "q \<le> q'" "q' \<le> e"
    "fst (turn_entries (map (log_entry g es) [q..<e]) (cursor_at g q)) = delivered g es q q'"
    "fst (snd (turn_entries (map (log_entry g es) [q..<e]) (cursor_at g q))) = cursor_at g q'"
    "snd (snd (turn_entries (map (log_entry g es) [q..<e]) (cursor_at g q))) \<or> q' = e" by blast
  have "sent = delivered g es q q'" "\<forall>c. reached = Some c \<longrightarrow> c = cursor_at g q'" "reached = None \<or> q' = e"
    using assms(4) q' unfolding rp by (auto simp: turn_pass_def case_prod_beta split: if_splits)
  moreover have "q' \<le> length es" using q'(2) by (simp add: e_def)
  ultimately show ?thesis using q'(1) unfolding e_def by blast
qed

section \<open>The broker with one client\<close>

text \<open>
  The broker and one client of the stream \<open>w\<close>, which polls as \<open>turn_event_stream\<close> does. Beside the state of the code there
  are the generations used so far and, for each, everything that was ever published in it.
\<close>

record stream_system =
  st_buffers :: stream_buffers
  st_clock :: rat
  st_used :: "string list"
  st_log :: "string \<Rightarrow> broker_event list"
  st_client :: "(string \<times> nat) option"
  st_cursor :: "string option"
  st_received :: "server_event list"

definition stream_begin :: stream_system where
  "stream_begin = \<lparr>st_buffers = [], st_clock = 0, st_used = [], st_log = (\<lambda>_. []), st_client = None, st_cursor = None,
     st_received = []\<rparr>"

text \<open>
  \<open>Publish\<close> takes the time and the generation of the buffer, should a new one be needed; \<open>Connect\<close> a cursor that was
  issued: a generation and a position in it.
\<close>

datatype stream_action =
    Publish rat string string string pydict string
  | Clear string
  | Connect string nat
  | Poll

definition published :: "string \<Rightarrow> rat \<Rightarrow> string \<Rightarrow> string \<Rightarrow> pydict \<Rightarrow> string \<Rightarrow> stream_system \<Rightarrow> string \<Rightarrow> broker_event list" where
  "published generation now stream_id event data key s =
     (let entry = fst (ensure_buffer generation now stream_id (st_buffers s)); g = sb_generation entry
      in if key \<noteq> [] \<and> map_of (sb_idempotency entry) key \<noteq> None then st_log s
         else (st_log s)(g := st_log s g @ [\<lparr>bk_event = event, bk_data = data, bk_idempotency_key = key\<rparr>]))"

fun stream_next :: "string \<Rightarrow> stream_action \<Rightarrow> stream_system \<Rightarrow> stream_system option" where
  "stream_next w (Publish now generation stream_id event data key) s =
     (if now < st_clock s \<or> CHR '':'' \<in> set generation \<or> generation \<in> set (st_used s) then None
      else Some (s\<lparr>st_clock := now, st_used := generation # st_used s,
             st_buffers := snd (append_event generation now stream_id event data key (st_buffers s)),
             st_log := published generation now stream_id event data key s\<rparr>))"
| "stream_next w (Clear stream_id) s = Some (s\<lparr>st_buffers := clear_buffer stream_id (st_buffers s)\<rparr>)"
| "stream_next w (Connect generation position) s =
     (if st_client s \<noteq> None \<or> CHR '':'' \<in> set generation \<or> length (st_log s generation) < position then None
      else Some (s\<lparr>st_client := Some (generation, position), st_cursor := Some (cursor_at generation position)\<rparr>))"
| "stream_next w Poll s =
     (case st_cursor s of
        None \<Rightarrow> None
      | Some cursor \<Rightarrow>
          (case turn_pass w (buffer_replay_entries (st_buffers s) w cursor TURN_STREAM_REPLAY_LIMIT) cursor of
             (sent, reached) \<Rightarrow> Some (s\<lparr>st_received := st_received s @ sent, st_cursor := reached\<rparr>)))"

definition stream_step :: "string \<Rightarrow> stream_system \<Rightarrow> stream_system \<Rightarrow> bool" where
  "stream_step w s t = (\<exists>a. stream_next w a s = Some t)"

fun stream_trace :: "string \<Rightarrow> stream_action list \<Rightarrow> stream_system \<Rightarrow> stream_system option" where
  "stream_trace w [] s = Some s"
| "stream_trace w (a # as) s = (case stream_next w a s of None \<Rightarrow> None | Some t \<Rightarrow> stream_trace w as t)"

section \<open>The invariant\<close>

definition keys_of :: "broker_event list \<Rightarrow> string list" where
  "keys_of es = filter (\<lambda>k. k \<noteq> []) (map bk_idempotency_key es)"

text \<open>A buffer holds all that was published in its generation and knows its keys.\<close>

definition buffer_ok :: "stream_system \<Rightarrow> stream_buffer \<Rightarrow> bool" where
  "buffer_ok s b \<longleftrightarrow> sb_generation b \<in> set (st_used s) \<and> st_log s (sb_generation b) = sb_events b \<and>
     (\<forall>key. key \<noteq> [] \<longrightarrow> (map_of (sb_idempotency b) key = None \<longleftrightarrow> key \<notin> set (keys_of (sb_events b))))"

definition buffers_ok :: "stream_system \<Rightarrow> bool" where
  "buffers_ok s \<longleftrightarrow> distinct (map fst (st_buffers s)) \<and>
     (\<forall>i b. map_of (st_buffers s) i = Some b \<longrightarrow> buffer_ok s b) \<and>
     (\<forall>i j b c. map_of (st_buffers s) i = Some b \<longrightarrow> map_of (st_buffers s) j = Some c \<longrightarrow>
        sb_generation b = sb_generation c \<longrightarrow> i = j)"

definition logs_ok :: "stream_system \<Rightarrow> bool" where
  "logs_ok s \<longleftrightarrow> (\<forall>g. g \<notin> set (st_used s) \<longrightarrow> st_log s g = []) \<and> (\<forall>g. distinct (keys_of (st_log s g)))"

text \<open>What a client that connected at a cursor has received: all events from there on, then perhaps a reconcile.\<close>

definition received_ok :: "string \<Rightarrow> string \<Rightarrow> nat \<Rightarrow> stream_system \<Rightarrow> bool" where
  "received_ok w g p s \<longleftrightarrow> (\<exists>q. p \<le> q \<and> q \<le> length (st_log s g) \<and>
     (st_received s = delivered g (st_log s g) p q \<and> (\<forall>c. st_cursor s = Some c \<longrightarrow> c = cursor_at g q) \<or>
      st_cursor s = None \<and> (\<exists>reason i. st_received s = delivered g (st_log s g) p q @ [reconcile_event w reason i])))"

definition client_ok :: "string \<Rightarrow> stream_system \<Rightarrow> bool" where
  "client_ok w s \<longleftrightarrow>
     (case st_client s of
        None \<Rightarrow> st_cursor s = None \<and> st_received s = []
      | Some (g, p) \<Rightarrow> CHR '':'' \<notin> set g \<and> received_ok w g p s)"

definition stream_inv :: "string \<Rightarrow> stream_system \<Rightarrow> bool" where
  "stream_inv w s \<longleftrightarrow> buffers_ok s \<and> logs_ok s \<and> client_ok w s"

lemma stream_inv_begin: "stream_inv w stream_begin"
  by (simp add: stream_inv_def buffers_ok_def logs_ok_def client_ok_def stream_begin_def keys_of_def)

text \<open>Dropping buffers keeps what is left.\<close>

lemma map_of_filter_sound:
  assumes "distinct (map fst bs)" "map_of (filter P bs) i = Some b"
  shows "map_of bs i = Some b"
  using assms by (auto dest: map_of_SomeD intro: map_of_is_SomeI)

lemma buffers_ok_filter:
  assumes "buffers_ok s"
  shows "buffers_ok (s\<lparr>st_buffers := filter P (st_buffers s)\<rparr>)"
proof -
  have "distinct (map fst (st_buffers s))" using assms by (simp add: buffers_ok_def)
  note sound = map_of_filter_sound [OF this]
  have "distinct (map fst (filter P (st_buffers s)))"
    using assms by (simp add: buffers_ok_def distinct_map_filter)
  moreover have "buffer_ok (s\<lparr>st_buffers := filter P (st_buffers s)\<rparr>) b"
    if "map_of (filter P (st_buffers s)) i = Some b" for i b
    using sound [OF that] assms by (simp add: buffers_ok_def buffer_ok_def)
  moreover have "i = j"
    if "map_of (filter P (st_buffers s)) i = Some b" "map_of (filter P (st_buffers s)) j = Some c"
      "sb_generation b = sb_generation c" for i j b c
    using sound [OF that(1)] sound [OF that(2)] that(3) assms unfolding buffers_ok_def by blast
  ultimately show ?thesis unfolding buffers_ok_def by simp
qed

lemma delete_as_filter: "AList.delete k bs = filter (\<lambda>e. fst e \<noteq> k) bs"
  by (auto simp: AList.delete_eq intro: filter_cong)

lemma clear_inv: "stream_inv w s \<Longrightarrow> stream_inv w (s\<lparr>st_buffers := clear_buffer i (st_buffers s)\<rparr>)"
  using buffers_ok_filter [of s "\<lambda>e. fst e \<noteq> i"]
  by (simp add: stream_inv_def clear_buffer_def delete_as_filter logs_ok_def client_ok_def received_ok_def cong: option.case_cong)

lemma buffers_okD:
  assumes "buffers_ok s" "map_of (st_buffers s) i = Some b"
  shows "buffer_ok s b" "\<And>j c. map_of (st_buffers s) j = Some c \<Longrightarrow> sb_generation b = sb_generation c \<Longrightarrow> i = j"
  using assms unfolding buffers_ok_def by blast+

lemma buffers_okI:
  assumes "distinct (map fst (st_buffers s))" "\<And>i b. map_of (st_buffers s) i = Some b \<Longrightarrow> buffer_ok s b"
    "\<And>i j b c. map_of (st_buffers s) i = Some b \<Longrightarrow> map_of (st_buffers s) j = Some c \<Longrightarrow>
       sb_generation b = sb_generation c \<Longrightarrow> i = j"
  shows "buffers_ok s"
  using assms unfolding buffers_ok_def by blast

lemma ensure_buffer_ok:
  assumes "buffers_ok s" "logs_ok s" "g \<notin> set (st_used s)" "ensure_buffer g now i (st_buffers s) = (entry, bs)"
  shows "buffers_ok (s\<lparr>st_clock := t, st_used := g # st_used s, st_buffers := bs\<rparr>)"
    and "logs_ok (s\<lparr>st_clock := t, st_used := g # st_used s, st_buffers := bs\<rparr>)" and "map_of bs i = Some entry"
proof -
  let ?s = "s\<lparr>st_clock := t, st_used := g # st_used s, st_buffers := bs\<rparr>"
  show "logs_ok ?s" using assms(2) by (simp add: logs_ok_def)
  have kept: "buffer_ok ?s b" if "map_of (st_buffers s) j = Some b" for j b
    using buffers_okD(1) [OF assms(1) that] by (simp add: buffer_ok_def)
  have distinct: "distinct (map fst (st_buffers s))" using assms(1) by (simp add: buffers_ok_def)
  show "map_of bs i = Some entry"
    using assms(4) by (auto simp: ensure_buffer_def Let_def update_conv' split: option.splits)
  show "buffers_ok ?s"
  proof (cases "map_of (st_buffers s) i")
    case (Some b)
    then have "bs = st_buffers s" using assms(4) by (simp add: ensure_buffer_def)
    with kept distinct buffers_okD(2) [OF assms(1)] show ?thesis by (intro buffers_okI) simp_all
  next
    case None
    define b where "b = \<lparr>sb_events = [], sb_idempotency = [], sb_generation = g, sb_updated = now\<rparr>"
    have bs: "bs = AList.update i b (st_buffers s)"
      using assms(4) None by (auto simp: ensure_buffer_def Let_def b_def)
    have new: "buffer_ok ?s b" using assms(2,3) by (simp add: buffer_ok_def b_def logs_ok_def keys_of_def)
    have unused: "sb_generation c \<noteq> g" if "map_of (st_buffers s) j = Some c" for j c
      using buffers_okD(1) [OF assms(1) that] assms(3) by (auto simp: buffer_ok_def)
    have "sb_generation b = g" by (simp add: b_def)
    with new kept unused distinct buffers_okD(2) [OF assms(1)] show ?thesis
      by (intro buffers_okI) (auto simp: bs update_conv' distinct_update split: if_splits)
  qed
qed

lemma keys_of_append: "keys_of (es @ fs) = keys_of es @ keys_of fs"
  by (simp add: keys_of_def)

lemma keys_of_one: "keys_of [e] = (if bk_idempotency_key e = [] then [] else [bk_idempotency_key e])"
  by (simp add: keys_of_def)

lemma put_event_ok:
  assumes "buffers_ok s" "logs_ok s" "map_of (st_buffers s) i = Some b" "key = [] \<or> map_of (sb_idempotency b) key = None"
    and e: "e = \<lparr>bk_event = event, bk_data = data, bk_idempotency_key = key\<rparr>"
    and b': "b' = b\<lparr>sb_events := sb_events b @ [e],
      sb_idempotency := (if key = [] then sb_idempotency b else AList.update key cursor (sb_idempotency b)), sb_updated := now\<rparr>"
    and s': "s' = s\<lparr>st_buffers := AList.update i b' (st_buffers s),
      st_log := (st_log s)(sb_generation b := st_log s (sb_generation b) @ [e])\<rparr>"
  shows "buffers_ok s'" "logs_ok s'"
proof -
  note ok = buffers_okD(1) [OF assms(1,3)]
  have fresh: "key \<noteq> [] \<Longrightarrow> key \<notin> set (keys_of (sb_events b))"
    using ok assms(4) by (auto simp: buffer_ok_def)
  have own: "sb_generation b \<in> set (st_used s)" "st_log s (sb_generation b) = sb_events b"
    using ok by (simp_all add: buffer_ok_def)
  have "distinct (keys_of (sb_events b))" using assms(2) own(2) unfolding logs_ok_def by metis
  then show "logs_ok s'"
    using assms(2) own fresh by (auto simp: logs_ok_def s' keys_of_append keys_of_one e)
  have "buffer_ok s' b'"
    using ok by (auto simp: buffer_ok_def b' s' e keys_of_append keys_of_one update_conv')
  moreover have "buffer_ok s' c" if "map_of (st_buffers s) j = Some c" "j \<noteq> i" for j c
  proof -
    have "sb_generation c \<noteq> sb_generation b" using buffers_okD(2) [OF assms(1) that(1) assms(3)] that(2) by blast
    with buffers_okD(1) [OF assms(1) that(1)] show ?thesis by (simp add: buffer_ok_def s')
  qed
  moreover have "j = i" if "map_of (st_buffers s) j = Some c" "sb_generation c = sb_generation b'" for j c
    using buffers_okD(2) [OF assms(1) that(1) assms(3)] that(2) by (simp add: b')
  moreover have "distinct (map fst (st_buffers s'))"
    using assms(1) by (simp add: buffers_ok_def s' distinct_update)
  ultimately show "buffers_ok s'"
    using buffers_okD(2) [OF assms(1)]
    by (intro buffers_okI) (auto simp: s' update_conv' split: if_splits)
qed

lemma client_ok_grows:
  assumes "client_ok w s" "\<And>g. \<exists>es. st_log s' g = st_log s g @ es"
    "st_client s' = st_client s" "st_cursor s' = st_cursor s" "st_received s' = st_received s"
  shows "client_ok w s'"
proof -
  have "received_ok w g p s'" if received: "received_ok w g p s" for g p
  proof -
    obtain es where es: "st_log s' g = st_log s g @ es" using assms(2) by blast
    from received obtain q where q: "p \<le> q" "q \<le> length (st_log s g)"
      "st_received s = delivered g (st_log s g) p q \<and> (\<forall>c. st_cursor s = Some c \<longrightarrow> c = cursor_at g q) \<or>
       st_cursor s = None \<and> (\<exists>reason i. st_received s = delivered g (st_log s g) p q @ [reconcile_event w reason i])"
      unfolding received_ok_def by blast
    then show ?thesis
      unfolding received_ok_def by (intro exI [of _ q]) (simp add: es delivered_grows assms(4,5))
  qed
  with assms(1) show ?thesis by (auto simp: client_ok_def assms(3-5) split: option.splits)
qed

lemma publish_inv:
  assumes "stream_inv w s" "stream_next w (Publish now g i event data key) s = Some t"
  shows "stream_inv w t"
proof -
  have fresh: "g \<notin> set (st_used s)" using assms(2) by (simp split: if_splits)
  have ok: "buffers_ok s" "logs_ok s" "client_ok w s" using assms(1) by (simp_all add: stream_inv_def)
  obtain b bs where b: "ensure_buffer g now i (st_buffers s) = (b, bs)" by fastforce
  let ?s = "s\<lparr>st_clock := now, st_used := g # st_used s, st_buffers := bs\<rparr>"
  note ensured = ensure_buffer_ok [OF ok(1,2) fresh b]
  have t: "t = s\<lparr>st_clock := now, st_used := g # st_used s, st_buffers := snd (append_event g now i event data key (st_buffers s)),
      st_log := published g now i event data key s\<rparr>"
    using assms(2) by (simp split: if_splits)
  have client: "client_ok w t"
    by (rule client_ok_grows [OF ok(3)]) (simp_all add: t published_def Let_def)
  show ?thesis
  proof (cases "key \<noteq> [] \<and> map_of (sb_idempotency b) key \<noteq> None")
    case True
    then have "t = ?s\<lparr>st_log := st_log s\<rparr>" by (auto simp: t append_event_def b published_def Let_def)
    then have "t = ?s" by simp
    with ensured(1,2) client show ?thesis by (simp add: stream_inv_def)
  next
    case False
    define e where "e = \<lparr>bk_event = event, bk_data = data, bk_idempotency_key = key\<rparr>"
    define b' where "b' = b\<lparr>sb_events := sb_events b @ [e], sb_idempotency := (if key = [] then sb_idempotency b
        else AList.update key (buffer_event_id b (int (length (sb_events b @ [e])))) (sb_idempotency b)), sb_updated := now\<rparr>"
    define s' where "s' = ?s\<lparr>st_buffers := AList.update i b' bs, st_log := (st_log s)(sb_generation b := st_log s (sb_generation b) @ [e])\<rparr>"
    have "buffers_ok s'" "logs_ok s'"
      using put_event_ok [OF ensured(1,2), where i = i and b = b and key = key and e = e and event = event and data = data
          and b' = b' and cursor = "buffer_event_id b (int (length (sb_events b @ [e])))" and now = now and s' = s']
        ensured(3) False e_def b'_def s'_def by auto
    moreover have "t = s'\<lparr>st_buffers := evict_idle now (st_buffers s')\<rparr>"
      using False by (auto simp: t s'_def append_event_def b published_def Let_def b'_def e_def)
    ultimately show ?thesis
      using client buffers_ok_filter [of s' "\<lambda>e. \<not> now - sb_updated (snd e) > STREAM_BUFFER_TTL_SECONDS"]
      by (simp add: stream_inv_def evict_idle_def logs_ok_def)
  qed
qed

lemma connect_inv:
  assumes "stream_inv w s" "stream_next w (Connect g p) s = Some t"
  shows "stream_inv w t"
proof -
  have "client_ok w s" using assms(1) by (simp add: stream_inv_def)
  moreover have "st_client s = None" "p \<le> length (st_log s g)"
    using assms(2) by (cases "st_client s"; simp split: if_splits)+
  ultimately have "st_received s = []" "p \<le> length (st_log s g)" by (simp_all add: client_ok_def)
  then have "received_ok w g p (s\<lparr>st_client := Some (g, p), st_cursor := Some (cursor_at g p)\<rparr>)"
    unfolding received_ok_def by (intro exI [of _ p]) simp
  then show ?thesis
    using assms by (auto simp: stream_inv_def client_ok_def buffers_ok_def buffer_ok_def logs_ok_def split: if_splits)
qed

text \<open>A poll of a client at position \<open>q\<close>.\<close>

lemma poll_step:
  assumes "stream_inv w s" "st_client s = Some (g, p)" "st_cursor s = Some c" "stream_next w Poll s = Some t"
  shows "\<exists>q q'. c = cursor_at g q \<and> p \<le> q \<and> q \<le> q' \<and> q' \<le> length (st_log s g) \<and>
     st_received s = delivered g (st_log s g) p q \<and>
     (\<forall>b. map_of (st_buffers s) w = Some b \<longrightarrow> sb_generation b = g \<longrightarrow>
        st_cursor t = None \<or> q' = min (length (st_log s g)) (q + 100)) \<and>
     (st_received t = delivered g (st_log s g) p q' \<and> (\<forall>c. st_cursor t = Some c \<longrightarrow> c = cursor_at g q') \<or>
      st_cursor t = None \<and> (\<exists>reason i. st_received t = delivered g (st_log s g) p q' @ [reconcile_event w reason i]))"
proof -
  have ok: "buffers_ok s" "CHR '':'' \<notin> set g" "received_ok w g p s"
    using assms(1,2) by (simp_all add: stream_inv_def client_ok_def)
  then obtain q where q: "p \<le> q" "q \<le> length (st_log s g)" "st_received s = delivered g (st_log s g) p q" "c = cursor_at g q"
    using assms(3) unfolding received_ok_def by auto
  obtain sent reached where pass: "turn_pass w (buffer_replay_entries (st_buffers s) w c TURN_STREAM_REPLAY_LIMIT) c = (sent, reached)"
    by fastforce
  have t: "t = s\<lparr>st_received := st_received s @ sent, st_cursor := reached\<rparr>"
    using assms(3,4) pass by simp
  have events: "sb_events b = st_log s g" if "map_of (st_buffers s) w = Some b" "sb_generation b = g" for b
    using buffers_okD(1) [OF ok(1) that(1)] that(2) by (auto simp: buffer_ok_def)
  obtain q' where q': "q \<le> q'" "q' \<le> length (st_log s g)"
    "\<forall>b. map_of (st_buffers s) w = Some b \<longrightarrow> sb_generation b = g \<longrightarrow> reached = None \<or> q' = min (length (st_log s g)) (q + 100)"
    "sent = delivered g (st_log s g) q q' \<and> (\<forall>c. reached = Some c \<longrightarrow> c = cursor_at g q')
      \<or> q' = q \<and> reached = None \<and> (\<exists>reason i. sent = [reconcile_event w reason i])"
    using turn_pass_delivers [OF ok(2) events q(2) pass [unfolded q(4)]] by blast
  show ?thesis
    using q q' delivered_append [OF q(1) q'(1)] by (intro exI [of _ q] exI [of _ q']) (auto simp: t)
qed

lemma poll_inv:
  assumes "stream_inv w s" "stream_next w Poll s = Some t"
  shows "stream_inv w t"
proof -
  obtain c where c: "st_cursor s = Some c" using assms(2) by (auto split: option.splits)
  with assms(1) obtain g p where client: "st_client s = Some (g, p)" "CHR '':'' \<notin> set g"
    by (auto simp: stream_inv_def client_ok_def split: option.splits)
  have fields: "st_client t = st_client s" "st_buffers t = st_buffers s" "st_used t = st_used s" "st_log t = st_log s"
    using assms(2) by (auto split: option.splits prod.splits)
  obtain q q' where q: "p \<le> q" "q \<le> q'" "q' \<le> length (st_log s g)"
     "st_received t = delivered g (st_log s g) p q' \<and> (\<forall>c. st_cursor t = Some c \<longrightarrow> c = cursor_at g q') \<or>
      st_cursor t = None \<and> (\<exists>reason i. st_received t = delivered g (st_log s g) p q' @ [reconcile_event w reason i])"
    using poll_step [OF assms(1) client(1) c assms(2)] by blast
  then have "received_ok w g p t"
    unfolding received_ok_def fields by (intro exI [of _ q']) simp
  then show ?thesis
    using assms(1) client by (simp add: stream_inv_def client_ok_def fields buffers_ok_def buffer_ok_def logs_ok_def)
qed

interpretation stream: invariant_system "\<lambda>s. s = stream_begin" "stream_step w" "stream_inv w" for w
proof unfold_locales
  fix s t assume inv: "stream_inv w s" and "stream_step w s t"
  then obtain a where a: "stream_next w a s = Some t" by (auto simp: stream_step_def)
  show "stream_inv w t"
  proof (cases a)
    case (Publish now g i event data key)
    with publish_inv [OF inv] a show ?thesis by blast
  next
    case (Clear i)
    with clear_inv [OF inv] a show ?thesis by auto
  next
    case (Connect g p)
    with connect_inv [OF inv] a show ?thesis by blast
  next
    case Poll
    with poll_inv [OF inv] a show ?thesis by blast
  qed
qed (simp add: stream_inv_begin)

lemma cursor_at_inject: "cursor_at g m = cursor_at g n \<longleftrightarrow> m = n"
proof -
  have "nat_str m = nat_str n \<longleftrightarrow> m = n" by (metis parse_nat_nat_str)
  then show ?thesis by (simp add: cursor_at_def int_str_def)
qed

section \<open>Properties\<close>

text \<open>
  C22. A client that follows a turn from a cursor it was given receives, whatever is published, cleared or dropped between its
  polls, the events after that cursor in order, each once and none left out, and at the end perhaps the news that it must
  fetch a snapshot; no event with an idempotency key is published twice in a buffer. While its buffer is there, a poll brings
  everything that is outstanding, up to a hundred events, or ends the stream.
\<close>

theorem stream_delivers_in_order:
  assumes "reachable (\<lambda>s. s = stream_begin) (stream_step w) s" "st_client s = Some (g, p)"
  shows "distinct (keys_of (st_log s g)) \<and>
     (\<exists>q. p \<le> q \<and> q \<le> length (st_log s g) \<and>
       (st_received s = delivered g (st_log s g) p q \<or>
        st_cursor s = None \<and> (\<exists>reason i. st_received s = delivered g (st_log s g) p q @ [reconcile_event w reason i])) \<and>
       (\<forall>b t. st_cursor s \<noteq> None \<longrightarrow> map_of (st_buffers s) w = Some b \<longrightarrow> sb_generation b = g \<longrightarrow>
          stream_next w Poll s = Some t \<longrightarrow>
          st_cursor t = None \<or> st_received t = delivered g (st_log s g) p (min (length (st_log s g)) (q + 100))))"
proof -
  have inv: "stream_inv w s" using assms(1) by (rule stream.reachable_inv)
  then have "distinct (keys_of (st_log s g))" by (simp add: stream_inv_def logs_ok_def)
  moreover obtain q where q: "p \<le> q" "q \<le> length (st_log s g)"
    "st_received s = delivered g (st_log s g) p q \<and> (\<forall>c. st_cursor s = Some c \<longrightarrow> c = cursor_at g q) \<or>
     st_cursor s = None \<and> (\<exists>reason i. st_received s = delivered g (st_log s g) p q @ [reconcile_event w reason i])"
    using inv assms(2) by (auto simp: stream_inv_def client_ok_def received_ok_def)
  moreover have "st_cursor t = None \<or> st_received t = delivered g (st_log s g) p (min (length (st_log s g)) (q + 100))"
    if cursor: "st_cursor s = Some c" and b: "map_of (st_buffers s) w = Some b" "sb_generation b = g"
      and t: "stream_next w Poll s = Some t" for c b t
    using poll_step [OF inv assms(2) cursor t] b q(3) cursor by (auto simp: cursor_at_inject)
  ultimately show ?thesis by blast
qed

definition sample_stream_actions :: "stream_action list" where
  "sample_stream_actions =
     [Publish 1 ''g1'' ''chat'' ''stream'' [(''n'', PInt 1)] [], Publish 2 ''g2'' ''chat'' ''stream'' [(''n'', PInt 2)] ''k'',
      Connect ''g1'' 1, Publish 3 ''g3'' ''chat'' ''stream'' [(''n'', PInt 2)] ''k'',
      Publish 4 ''g4'' ''chat'' ''stream'' [(''n'', PInt 3)] [], Poll, Clear ''chat'', Poll]"

lemma stream_trace_reachable:
  "reachable (\<lambda>s. s = stream_begin) (stream_step w) s \<Longrightarrow> stream_trace w as s = Some t \<Longrightarrow>
   reachable (\<lambda>s. s = stream_begin) (stream_step w) t"
proof (induction as arbitrary: s)
  case (Cons a as)
  then obtain u where u: "stream_next w a s = Some u" "stream_trace w as u = Some t" by (auto split: option.splits)
  then have "stream_step w s u" by (auto simp: stream_step_def)
  with Cons.prems(1) have "reachable (\<lambda>s. s = stream_begin) (stream_step w) u" by (rule reachable_step)
  with u(2) show ?case by (rule Cons.IH [rotated])
qed simp

lemma stream_delivers_in_order_witness:
  "\<exists>s. stream_trace ''chat'' sample_stream_actions stream_begin = Some s \<and> length (st_log s ''g1'') = 3 \<and>
     length (st_received s) = 3 \<and>
     (\<exists>reason i. st_received s = delivered ''g1'' (st_log s ''g1'') 1 3 @ [reconcile_event ''chat'' reason i])"
proof -
  have "case stream_trace ''chat'' sample_stream_actions stream_begin of None \<Rightarrow> False
     | Some s \<Rightarrow> st_client s = Some (''g1'', 1) \<and> length (st_log s ''g1'') = 3 \<and> length (st_received s) = 3 \<and>
         se_event (last (st_received s)) = ''reconcile'' \<and> se_event (st_received s ! 1) = ''stream''"
    by code_simp
  then obtain s where s: "stream_trace ''chat'' sample_stream_actions stream_begin = Some s" "st_client s = Some (''g1'', 1)"
    "length (st_log s ''g1'') = 3" "length (st_received s) = 3" 
    by (auto split: option.splits)
  have "reachable (\<lambda>s. s = stream_begin) (stream_step ''chat'') s"
    by (rule stream_trace_reachable [OF _ s(1)]) (rule reachable_initial, rule refl)
  from stream_delivers_in_order [OF this s(2)] obtain q where q: "1 \<le> q" "q \<le> 3"
    "st_received s = delivered ''g1'' (st_log s ''g1'') 1 q \<or>
     (\<exists>reason i. st_received s = delivered ''g1'' (st_log s ''g1'') 1 q @ [reconcile_event ''chat'' reason i])"
    using s(3) by auto
  have "length (delivered ''g1'' es 1 q) = q - 1" for es by (simp add: delivered_def)
  with q s(4) have "q = 3" by auto
  with q s show ?thesis by (auto simp: delivered_def)
qed

section \<open>What a file reader misses\<close>

text \<open>
  A reader that finds a line half written reads what is there, takes it for a broken line, and goes on after it: the event is
  never delivered. The writers give the line and its line feed to a buffered file, which writes a long line in pieces.
\<close>

definition sample_line :: string where
  "sample_line = json_dumps (PDict [(''event'', PStr ''stream''), (''data'', PDict [])]) @ [CHR 10]"

definition sample_line_loads :: "string \<Rightarrow> pydict option" where
  "sample_line_loads s = (if s = sample_line then Some [(''event'', PStr ''stream''), (''data'', PDict [])] else None)"

lemma torn_line_is_lost:
  "length (rp_entries (file_replay_entries sample_line_loads (Some sample_line) [] 9)) = 1 \<and>
   rp_cursor (file_replay_entries sample_line_loads (Some (take 5 sample_line)) [] 9) = ''5'' \<and>
   rp_entries (file_replay_entries sample_line_loads (Some sample_line) ''5'' 9) = []"
  by code_simp

text \<open>
  A cursor beyond the end of a file, which was cleared and written again, makes \<open>replay\<close> and \<open>turn_event_stream\<close> start at the
  beginning, where \<open>event_stream\<close> asks the client to reconcile.
\<close>

lemma stale_cursor_replays_everything:
  "length (rp_entries (file_replay_entries sample_line_loads (Some sample_line) ''999'' 9)) = 1 \<and>
   (case file_stream_start ''chat'' (Some sample_line) ''999'' of Inl e \<Rightarrow> se_event e = ''reconcile'' | Inr _ \<Rightarrow> False)"
  by code_simp

end
