(* ===== verification/Subagent.thy ===== *)
theory Subagent
  imports ChatTools ProviderInterface
begin

text \<open>
  \<open>simple_chat_agent/worker/tools/subagent.py\<close>: the tool that delegates a task to a child agent, and the workflow
  the child runs in, with the approvals it asks of its parent. The workflow of the child, the run of its agent and the
  identifiers Temporal gives are parameters.
\<close>

section \<open>Requests and responses\<close>

definition CREATE_SUBAGENT_TOOL :: string where
  "CREATE_SUBAGENT_TOOL = ''create_subagent''"

definition DISALLOWED_SUBAGENT_TOOLS :: "string set" where
  "DISALLOWED_SUBAGENT_TOOLS = {CREATE_SUBAGENT_TOOL}"

definition MAX_SUBAGENT_MAX_TURNS :: int where
  "MAX_SUBAGENT_MAX_TURNS = 12"

definition MAX_SUBAGENT_MAX_TOKENS :: int where
  "MAX_SUBAGENT_MAX_TOKENS = 32000"

record subagent_request =
  sq_system_prompt :: string
  sq_task :: string
  sq_model :: string
  sq_max_tokens :: int
  sq_max_turns :: int
  sq_tool_names :: "string list"
  sq_denied_tool_names :: "string list"
  sq_parent_workflow_id :: "string option"
  sq_user_ref :: "string option"
  sq_conversation_id :: "string option"
  sq_github_connection_id :: "string option"
  sq_mcp_servers :: "mcp_server_config list"
  sq_stream_id :: "string option"

record subagent_response =
  sr_text :: string
  sr_stop_reason :: "string option"
  sr_turns :: int
  sr_model :: string
  sr_tool_names :: "string list"
  sr_denied_tool_names :: "string list"

text \<open>\<open>asdict\<close> of a response.\<close>

definition subagent_response_dict :: "subagent_response \<Rightarrow> pydict" where
  "subagent_response_dict r =
     [(''text'', PStr (sr_text r)), (''stop_reason'', opt_str (sr_stop_reason r)), (''turns'', PInt (sr_turns r)),
      (''model'', PStr (sr_model r)), (''tool_names'', PList (map PStr (sr_tool_names r))),
      (''denied_tool_names'', PList (map PStr (sr_denied_tool_names r)))]"

section \<open>Choosing the tools\<close>

definition split_requested_tools :: "string list \<Rightarrow> string list \<Rightarrow> string list \<times> string list" where
  "split_requested_tools requested available =
     (filter (\<lambda>name. name \<in> set available) requested, filter (\<lambda>name. name \<notin> set available) requested)"

fun dedupe_unseen :: "string set \<Rightarrow> string list \<Rightarrow> string list" where
  "dedupe_unseen seen [] = []"
| "dedupe_unseen seen (v # vs) = (if v \<in> seen then dedupe_unseen seen vs else v # dedupe_unseen (insert v seen) vs)"

definition dedupe :: "string list \<Rightarrow> string list" where
  "dedupe vs = dedupe_unseen {} vs"

section \<open>The tool\<close>

text \<open>What \<open>SubagentProvider\<close> is constructed with: the values its callbacks give.\<close>

record subagent_provider =
  sp_default_model :: string
  sp_user_ref :: "string option"
  sp_conversation_id :: "string option"
  sp_github_connection_id :: "string option"
  sp_mcp_servers :: "mcp_server_config list"

text \<open>The arguments of the model, the defaults of the signature filled in.\<close>

record subagent_args =
  sx_system_prompt :: string
  sx_task :: string
  sx_tool_names :: "string list option"
  sx_model :: "string option"
  sx_max_tokens :: int
  sx_max_turns :: int

definition error_result :: "string \<Rightarrow> tool_result" where
  "error_result msg = \<lparr>tr_payload = [(''error'', PStr msg)], tr_error = True\<rparr>"

text \<open>The request for the child, or the error the model is told.\<close>

definition subagent_request_for ::
  "subagent_provider \<Rightarrow> string \<Rightarrow> string list \<Rightarrow> string option \<Rightarrow> subagent_args \<Rightarrow> tool_result + subagent_request" where
  "subagent_request_for p workflow_id ctx_tool_names stream_id args =
     (if py_strip (sx_system_prompt args) = [] then Inl (error_result ''system_prompt is required.'')
      else if py_strip (sx_task args) = [] then Inl (error_result ''task is required.'')
      else (let available = filter (\<lambda>name. name \<notin> DISALLOWED_SUBAGENT_TOOLS) ctx_tool_names;
                requested = dedupe (case sx_tool_names args of None \<Rightarrow> [] | Some names \<Rightarrow> names);
                (granted, denied) = split_requested_tools requested available
            in Inr \<lparr>sq_system_prompt = sx_system_prompt args, sq_task = sx_task args,
                 sq_model = (case sx_model args of Some (c # cs) \<Rightarrow> c # cs | _ \<Rightarrow> sp_default_model p),
                 sq_max_tokens = max 1024 (min (sx_max_tokens args) MAX_SUBAGENT_MAX_TOKENS),
                 sq_max_turns = max 1 (min (sx_max_turns args) MAX_SUBAGENT_MAX_TURNS),
                 sq_tool_names = granted, sq_denied_tool_names = denied, sq_parent_workflow_id = Some workflow_id,
                 sq_user_ref = sp_user_ref p, sq_conversation_id = sp_conversation_id p,
                 sq_github_connection_id = sp_github_connection_id p, sq_mcp_servers = sp_mcp_servers p,
                 sq_stream_id = stream_id\<rparr>))"

text \<open>\<open>create_subagent\<close>; \<open>run_child\<close> is \<open>workflow.execute_child_workflow\<close>, told the identifier and the request.\<close>

definition create_subagent ::
  "subagent_provider \<Rightarrow> string \<Rightarrow> string \<Rightarrow> string list \<Rightarrow> string option
   \<Rightarrow> (string \<Rightarrow> subagent_request \<Rightarrow> ('w, subagent_response) op) \<Rightarrow> subagent_args \<Rightarrow> ('w, tool_result) op" where
  "create_subagent p workflow_id uuid ctx_tool_names stream_id run_child args =
     (case subagent_request_for p workflow_id ctx_tool_names stream_id args of
        Inl err \<Rightarrow> op_return err
      | Inr request \<Rightarrow>
          op_bind (run_child (workflow_id @ ''-subagent-'' @ uuid) request) (\<lambda>response.
            op_return \<lparr>tr_payload = subagent_response_dict response, tr_error = False\<rparr>))"

section \<open>The workflow of the child\<close>

definition add_servers ::
  "(string \<Rightarrow> model_fields \<Rightarrow> pydict res) \<Rightarrow> (string \<Rightarrow> nat) \<Rightarrow> mcp_server_config list \<Rightarrow> (tool_set, unit) op" where
  "add_servers schema_of closure_id servers =
     add_each (\<lambda>server. add_mcp_provider ''HttpMcpProvider'' (Some (register_mcp schema_of closure_id server))) servers"

definition build_subagent_tools ::
  "(string \<Rightarrow> model_fields \<Rightarrow> pydict res) \<Rightarrow> (string \<Rightarrow> nat) \<Rightarrow> mcp_server_config list \<Rightarrow> tool_set res" where
  "build_subagent_tools schema_of closure_id mcp_servers =
     fst ((op_bind (add_provider schema_of ''MutatingToolApprovalProvider'' MutatingToolApprovalProvider None {}) (\<lambda>_.
        op_bind (add_provider schema_of ''ArtifactProvider'' ArtifactProvider None {}) (\<lambda>_.
        op_bind (add_tool schema_of [fetch_url_tool, python_sandbox_tool]) (\<lambda>_.
        op_bind (add_provider schema_of ''ResearchProvider'' ResearchProvider None {}) (\<lambda>_.
        op_bind (add_provider schema_of ''GitHubProvider'' GitHubProvider None DISALLOWED_SUBAGENT_TOOLS) (\<lambda>_.
        op_bind (add_servers schema_of closure_id mcp_servers) (\<lambda>_ ts. (Inr ts, ts))))))))
       \<lparr>tool_registry = [], ts_guards = GuardSet None\<rparr>)"

definition parent_of_request :: "string option \<Rightarrow> subagent_request \<Rightarrow> string option" where
  "parent_of_request info_parent r =
     (case sq_parent_workflow_id r of Some i \<Rightarrow> Some i | None \<Rightarrow> info_parent)"

text \<open>What the agent of the child is constructed and run with; its tools are those of \<open>build_subagent_tools\<close>.\<close>

record subagent_agent =
  sa_system_prompt :: string
  sa_model :: string
  sa_max_tokens :: int
  sa_tool_names :: "string list"
  sa_stream_id :: "string option"
  sa_task :: string
  sa_max_turns :: int

record subagent_outcome =
  so_message :: pydict
  so_stop_reason :: "string option"
  so_turns :: int

definition visible_block_text :: "pyval \<Rightarrow> string" where
  "visible_block_text v =
     (let b = block_mapping v in
      if block_type_is b ''text'' then (case dict_get_none b ''text'' of PStr s \<Rightarrow> s | _ \<Rightarrow> [])
      else if block_type_is b ''refusal'' then (case dict_get_none b ''refusal'' of PStr s \<Rightarrow> s | _ \<Rightarrow> [])
      else [])"

definition outcome_text :: "pydict \<Rightarrow> string res" where
  "outcome_text msg =
     res_bind (dict_index msg ''content'') (\<lambda>content.
       case content of
         PStr s \<Rightarrow> Inr s
       | PList bs \<Rightarrow> Inr (py_join newline (filter (\<lambda>t. t \<noteq> []) (map visible_block_text bs)))
       | PDict _ \<Rightarrow> Inr []
       | _ \<Rightarrow> Inl (type_error ''object is not iterable''))"

definition subagent_plan :: "string list \<Rightarrow> subagent_request \<Rightarrow> string list \<times> string list" where
  "subagent_plan available r =
     (let (granted, denied) = split_requested_tools (dedupe (sq_tool_names r))
            (filter (\<lambda>name. name \<notin> DISALLOWED_SUBAGENT_TOOLS) available)
      in (granted, dedupe (sq_denied_tool_names r @ denied)))"

text \<open>\<open>SubagentWorkflow.run\<close>; \<open>run_agent\<close> is the run of the agent with a tool set, in the world of the workflow.\<close>

definition run_subagent ::
  "(string \<Rightarrow> model_fields \<Rightarrow> pydict res) \<Rightarrow> (string \<Rightarrow> nat) \<Rightarrow> (tool_set \<Rightarrow> subagent_agent \<Rightarrow> ('w, subagent_outcome) op)
   \<Rightarrow> subagent_request \<Rightarrow> ('w, subagent_response) op" where
  "run_subagent schema_of closure_id run_agent r =
     op_bind (op_lift (build_subagent_tools schema_of closure_id (sq_mcp_servers r))) (\<lambda>tools.
     case subagent_plan (tool_names tools) r of (granted, denied) \<Rightarrow>
     op_bind (run_agent tools \<lparr>sa_system_prompt = sq_system_prompt r, sa_model = sq_model r,
         sa_max_tokens = sq_max_tokens r, sa_tool_names = granted, sa_stream_id = sq_stream_id r,
         sa_task = sq_task r, sa_max_turns = sq_max_turns r\<rparr>) (\<lambda>result.
     op_bind (op_lift (outcome_text (so_message result))) (\<lambda>text.
       op_return \<lparr>sr_text = text, sr_stop_reason = so_stop_reason result, sr_turns = so_turns result,
         sr_model = sq_model r, sr_tool_names = granted, sr_denied_tool_names = denied\<rparr>)))"

section \<open>Approvals asked of the parent\<close>

record subagent_workflow =
  sw_approval_decisions :: "(string \<times> string) list"
  sw_approval_counter :: nat
  sw_parent_workflow_id :: "string option"

definition SubagentWorkflow :: subagent_workflow where
  "SubagentWorkflow = \<lparr>sw_approval_decisions = [], sw_approval_counter = 0, sw_parent_workflow_id = None\<rparr>"

definition resolve_delegated_approval :: "string \<Rightarrow> string \<Rightarrow> subagent_workflow \<Rightarrow> subagent_workflow" where
  "resolve_delegated_approval approval_id decision s =
     (if decision \<in> {''allow'', ''always_allow'', ''deny'', ''expired'', ''cancelled''}
      then s\<lparr>sw_approval_decisions := AList.update approval_id decision (sw_approval_decisions s)\<rparr>
      else s)"

text \<open>The signal to the parent: its workflow, the identifiers, the tool and its arguments.\<close>

record delegated_request =
  dr_parent :: string
  dr_child_workflow_id :: string
  dr_child_approval_id :: string
  dr_tool_name :: string
  dr_tool_args :: pydict

text \<open>\<open>_request_parent_tool_approval\<close> up to its wait: the request that is signalled, or a decision at once.\<close>

definition begin_delegated_approval ::
  "string \<Rightarrow> string \<Rightarrow> pydict \<Rightarrow> subagent_workflow \<Rightarrow> (string + delegated_request) \<times> subagent_workflow" where
  "begin_delegated_approval workflow_id tool_name tool_args s =
     (case sw_parent_workflow_id s of
        None \<Rightarrow> (Inl ''deny'', s)
      | Some parent \<Rightarrow>
          (let n = sw_approval_counter s + 1
           in (Inr \<lparr>dr_parent = parent, dr_child_workflow_id = workflow_id,
                 dr_child_approval_id = ''child-approval-'' @ int_str (int n), dr_tool_name = tool_name,
                 dr_tool_args = tool_args\<rparr>,
               s\<lparr>sw_approval_counter := n\<rparr>)))"

text \<open>
  After the wait. When it timed out the parent is signalled and the answer is \<open>expired\<close>, without a look at the table;
  otherwise the decision is taken out of the table. \<open>None\<close> is a wait that goes on.
\<close>

definition finish_delegated_approval ::
  "string \<Rightarrow> bool \<Rightarrow> subagent_workflow \<Rightarrow> string option \<times> subagent_workflow" where
  "finish_delegated_approval approval_id timed_out s =
     (if timed_out then (Some ''expired'', s)
      else (case map_of (sw_approval_decisions s) approval_id of
        Some decision \<Rightarrow>
          (Some decision, s\<lparr>sw_approval_decisions := AList.delete approval_id (sw_approval_decisions s)\<rparr>)
      | None \<Rightarrow> (None, s)))"

end
