(* ===== verification/SubagentProperties.thy ===== *)
theory SubagentProperties
  imports Subagent ChatToolProperties
begin

text \<open>
  What a subagent can do: the tools it is given, the limits of its run, and the approvals it needs.
\<close>

section \<open>The tool set of a child asks first\<close>

lemma keeps_ready_Pair: "keeps_ready (Pair r)"
  by (simp add: keeps_ready_def)

lemma dynamic_mcp_ready:
  "keeps_ready (add_dynamic_tool schema_of name description input_schema (PStr ''mcp'') f
     [GuardName ''mutating_tool_approval''] [])"
  unfolding keeps_ready_def
proof (intro allI impI)
  fix ts assume ready: "approval_ready ts"
  then have guards: "resolve_guard_refs [GuardName ''mutating_tool_approval''] [] ts = (Inr [approval_guard_def], ts)"
    by (rule resolve_approval_ref) simp
  show "approval_ready (snd (add_dynamic_tool schema_of name description input_schema (PStr ''mcp'') f
      [GuardName ''mutating_tool_approval''] [] ts))"
    unfolding add_dynamic_tool_def op_bind_def guards
    using ready by (simp add: op_return_def register_tool_ready)
qed

lemma add_servers_ready: "keeps_ready (add_servers schema_of ids servers)"
proof -
  have "keeps_ready (register_mcp_tools schema_of ids server ts)" for server ts
    by (induction ts) (auto simp: Let_def intro!: keeps_ready_bind dynamic_mcp_ready keeps_ready_Pair)
  then have "keeps_ready (register_mcp schema_of ids server)" for server
    by (auto simp: register_mcp_def intro: keeps_ready_Pair)
  then have one: "keeps_ready (add_mcp_provider p (Some (register_mcp schema_of ids server)))" for p server
    by (auto simp: add_mcp_provider_def intro!: keeps_ready_bind keeps_ready_Pair)
  then show ?thesis
    unfolding add_servers_def by (induction servers) (auto intro!: keeps_ready_bind one keeps_ready_Pair)
qed

lemma build_subagent_tools_ready:
  assumes "build_subagent_tools schema_of ids servers = Inr ts"
  shows "approval_ready ts"
proof -
  let ?add = "\<lambda>p c. add_provider schema_of p c None {}"
  let ?start = "\<lparr>tool_registry = [], ts_guards = GuardSet None\<rparr>"
  let ?rest = "op_bind (?add ''ArtifactProvider'' ArtifactProvider) (\<lambda>_.
    op_bind (add_tool schema_of [fetch_url_tool, python_sandbox_tool]) (\<lambda>_.
    op_bind (?add ''ResearchProvider'' ResearchProvider) (\<lambda>_.
    op_bind (add_provider schema_of ''GitHubProvider'' GitHubProvider None DISALLOWED_SUBAGENT_TOOLS) (\<lambda>_.
    add_servers schema_of ids servers))))"
  have plain: "keeps_ready (add_provider schema_of p (provider_class fs) None excluded)"
    if "distinct (map (\<lambda>m. fn_name (tool_function m)) fs)" "list_all plain_tool fs" for p fs excluded
    by (rule add_provider_ready [OF provider_class_methods [OF that] that(2)])
  have rest: "keeps_ready ?rest"
    unfolding ArtifactProvider_def ResearchProvider_def GitHubProvider_def
    using chat_tools_plain
    by (intro keeps_ready_bind plain add_tool_ready add_servers_ready) (simp_all add: declared_tools declared_tool_def)
  obtain r ts0 where approval: "?add ''MutatingToolApprovalProvider'' MutatingToolApprovalProvider ?start = (r, ts0)"
    by fastforce
  have "ts = snd (?rest ts0)"
    using assms approval
    by (cases r) (auto simp: build_subagent_tools_def op_bind_def split: prod.splits sum.splits)
  then show ?thesis using rest approval_provider_ready [OF approval] by (simp add: keeps_ready_def)
qed

section \<open>Choosing tools\<close>

lemma dedupe_unseen_set: "set (dedupe_unseen seen vs) = set vs - seen"
  by (induction vs arbitrary: seen) auto

lemma dedupe_unseen_distinct: "distinct (dedupe_unseen seen vs)"
  by (induction vs arbitrary: seen) (auto simp: dedupe_unseen_set)

lemma dedupe_set [simp]: "set (dedupe vs) = set vs"
  by (simp add: dedupe_def dedupe_unseen_set)

lemma dedupe_distinct [simp]: "distinct (dedupe vs)"
  by (simp add: dedupe_def dedupe_unseen_distinct)

section \<open>Properties\<close>

text \<open>
  C21. A child gets no tool its parent could not use, none it was not asked to get, never the tool that makes subagents, and
  none twice; what it does not get is reported as denied. Its turns and tokens stay within the limits, whatever the
  model asks for. And the run of the child depends on its agent only as one with tools among those granted.
\<close>

theorem subagent_is_limited:
  assumes "subagent_request_for p workflow_id available stream_id args = Inr q"
  shows "set (sq_tool_names q) \<subseteq> set available - {CREATE_SUBAGENT_TOOL} \<and> distinct (sq_tool_names q) \<and>
     set (sq_tool_names q) \<union> set (sq_denied_tool_names q) = set (case sx_tool_names args of None \<Rightarrow> [] | Some names \<Rightarrow> names) \<and>
     set (sq_tool_names q) \<inter> set (sq_denied_tool_names q) = {} \<and>
     1 \<le> sq_max_turns q \<and> sq_max_turns q \<le> 12 \<and> 1024 \<le> sq_max_tokens q \<and> sq_max_tokens q \<le> 32000 \<and>
     ((\<forall>ts a. set (sa_tool_names a) \<subseteq> set (sq_tool_names q) \<longrightarrow> run_agent ts a = run_agent' ts a) \<longrightarrow>
        run_subagent schema_of ids run_agent q s = run_subagent schema_of ids run_agent' q s)"
proof -
  have q: "sq_tool_names q = filter (\<lambda>n. n \<in> set available \<and> n \<noteq> CREATE_SUBAGENT_TOOL)
      (dedupe (case sx_tool_names args of None \<Rightarrow> [] | Some names \<Rightarrow> names))"
    "sq_denied_tool_names q = filter (\<lambda>n. \<not> (n \<in> set available \<and> n \<noteq> CREATE_SUBAGENT_TOOL))
      (dedupe (case sx_tool_names args of None \<Rightarrow> [] | Some names \<Rightarrow> names))"
    "1 \<le> sq_max_turns q \<and> sq_max_turns q \<le> 12 \<and> 1024 \<le> sq_max_tokens q \<and> sq_max_tokens q \<le> 32000"
    using assms by (auto simp: subagent_request_for_def split_requested_tools_def DISALLOWED_SUBAGENT_TOOLS_def
        MAX_SUBAGENT_MAX_TURNS_def MAX_SUBAGENT_MAX_TOKENS_def Let_def split: if_splits)
  have granted: "set (fst (subagent_plan own q)) \<subseteq> set (sq_tool_names q)" for own
    by (auto simp: subagent_plan_def split_requested_tools_def)
  have "run_subagent schema_of ids run_agent q s = run_subagent schema_of ids run_agent' q s"
    if "\<forall>ts a. set (sa_tool_names a) \<subseteq> set (sq_tool_names q) \<longrightarrow> run_agent ts a = run_agent' ts a"
    using that granted by (simp add: run_subagent_def case_prod_beta)
  then show ?thesis using q by auto
qed

definition sample_subagent_args :: subagent_args where
  "sample_subagent_args = \<lparr>sx_system_prompt = ''Be brief.'', sx_task = ''Look it up.'',
     sx_tool_names = Some [''fetch_url'', ''create_subagent'', ''fetch_url'', ''shell''], sx_model = None,
     sx_max_tokens = 10, sx_max_turns = 99\<rparr>"

definition sample_subagent_provider :: subagent_provider where
  "sample_subagent_provider = \<lparr>sp_default_model = ''m'', sp_user_ref = None, sp_conversation_id = None,
     sp_github_connection_id = None, sp_mcp_servers = []\<rparr>"

lemma subagent_is_limited_witness:
  "\<exists>q. subagent_request_for sample_subagent_provider ''w'' [''create_subagent'', ''fetch_url''] None sample_subagent_args = Inr q \<and>
     sq_tool_names q = [''fetch_url''] \<and> sq_max_turns q = 12 \<and> ''create_subagent'' \<notin> set (sq_tool_names q)"
proof -
  have "case subagent_request_for sample_subagent_provider ''w'' [''create_subagent'', ''fetch_url''] None sample_subagent_args of
      Inl _ \<Rightarrow> False | Inr q \<Rightarrow> sq_tool_names q = [''fetch_url''] \<and> sq_max_turns q = 12"
    by code_simp
  then obtain q where q: "subagent_request_for sample_subagent_provider ''w'' [''create_subagent'', ''fetch_url''] None
      sample_subagent_args = Inr q" "sq_tool_names q = [''fetch_url'']" "sq_max_turns q = 12"
    by (auto split: sum.splits)
  from subagent_is_limited [OF q(1), THEN conjunct1] have "''create_subagent'' \<notin> set (sq_tool_names q)"
    by (auto simp: CREATE_SUBAGENT_TOOL_def)
  with q show ?thesis by blast
qed

text \<open>
  C20. What changes something runs in a child only when the user of its parent approved it: if the outcome of a call depends
  on what the function of a tool that is not read-only does, the child asked for approval of this very call, with the
  arguments of the model, and the answer was allow or always allow.
\<close>

theorem subagent_tool_needs_approval:
  assumes "build_subagent_tools schema_of ids servers = Inr ts"
    and "map_of (tool_registry ts) name = Some t" and "td_tool_type t \<in> {''mutating'', ''mcp'', ''admin''}"
    and "execute_tool (chat_guards request other) run_tool ts name args stream_id call_id options world
      \<noteq> execute_tool (chat_guards request other) run_tool' ts name args stream_id call_id options world"
  shows "\<exists>ask decision world'. request = Some ask \<and> ask name args world = (Inr decision, world') \<and>
    decision \<in> {''allow'', ''always_allow''}"
proof -
  let ?options = "case options of None \<Rightarrow> DEFAULT_ACTIVITY_OPTIONS | Some own \<Rightarrow> own"
  have guards: "td_pre_guards t = [approval_guard_def]"
    using build_subagent_tools_ready [OF assms(1)] assms(2,3)
    by (auto simp: approval_ready_def asks_first_def protected_types_def)
  have tool: "get_tool ts name = Inr t" using assms(2) by (simp add: get_tool_def)
  have "run_between_guards (chat_guards request other) run_tool t name stream_id call_id ?options (call_start args world)
      \<noteq> run_between_guards (chat_guards request other) run_tool' t name stream_id call_id ?options (call_start args world)"
    using assms(4) by (auto simp: execute_tool_def tool call_start_def split: sum.splits prod.splits)
  then obtain s' where "guards_pass (chat_guards request other) Pre name (td_tool_type t) stream_id ?options
      (td_pre_guards t) (call_start args world) s'"
    using blocked_before_tool by blast
  from guards_pass_approval [OF this [unfolded guards]] show ?thesis by (simp add: call_start_def)
qed

lemma sample_child:
  "case build_subagent_tools sample_schema sample_ids [] of
     Inl _ \<Rightarrow> False
   | Inr ts \<Rightarrow> validate_tool_guards (ts_guards ts) ''mutating'' [approval_guard_def] [] = Inr () \<and>
     (case map_of (tool_registry ts) ''python_sandbox'' of
       None \<Rightarrow> False
     | Some t \<Rightarrow> td_tool_type t = ''mutating'' \<and> td_fn t = python_sandbox_tool \<and> td_post_guards t = [] \<and>
         td_args_mode t = Signature)"
  by code_simp

lemma sandbox_outcome:
  "cs_world (snd (run_between_guards (chat_guards (Some approve_all) (verdict True)) (counting 1) sandbox_def ''python_sandbox''
     None None DEFAULT_ACTIVITY_OPTIONS (call_start [(''code'', PStr ''1'')] 0))) = 11"
  "cs_world (snd (run_between_guards (chat_guards (Some approve_all) (verdict True)) (counting 2) sandbox_def ''python_sandbox''
     None None DEFAULT_ACTIVITY_OPTIONS (call_start [(''code'', PStr ''1'')] 0))) = 12"
  by code_simp+

lemma subagent_tool_needs_approval_witness:
  "\<exists>decision world'. approve_all ''python_sandbox'' [(''code'', PStr ''1'')] 0 = (Inr decision, world') \<and>
     decision \<in> {''allow'', ''always_allow''}"
proof -
  obtain ts t where built: "build_subagent_tools sample_schema sample_ids [] = Inr ts"
    and valid: "validate_tool_guards (ts_guards ts) ''mutating'' [approval_guard_def] [] = Inr ()"
    and t: "map_of (tool_registry ts) ''python_sandbox'' = Some t" "td_tool_type t = ''mutating''"
      "td_fn t = python_sandbox_tool" "td_post_guards t = []" "td_args_mode t = Signature"
    using sample_child by (auto split: sum.splits option.splits)
  have type: "td_tool_type t \<in> {''mutating'', ''mcp'', ''admin''}" using t(2) by simp
  have guards: "td_pre_guards t = [approval_guard_def]"
    using build_subagent_tools_ready [OF built] t(1,2) by (auto simp: approval_ready_def asks_first_def protected_types_def)
  have fields: "td_tool_type sandbox_def = ''mutating''" "td_fn sandbox_def = python_sandbox_tool"
      "td_pre_guards sandbox_def = [approval_guard_def]" "td_post_guards sandbox_def = []"
      "td_args_mode sandbox_def = Signature"
    by (simp_all add: sandbox_def_def)
  have same: "run_between_guards g run_tool t = run_between_guards g run_tool sandbox_def" for g run_tool
    by (intro ext) (simp only: run_between_guards_def t guards fields)
  have run: "snd (execute_tool (chat_guards (Some approve_all) (verdict True)) run_tool ts ''python_sandbox''
      [(''code'', PStr ''1'')] None None None (0 :: nat)) =
    cs_world (snd (run_between_guards (chat_guards (Some approve_all) (verdict True)) run_tool sandbox_def ''python_sandbox''
      None None DEFAULT_ACTIVITY_OPTIONS (call_start [(''code'', PStr ''1'')] 0)))" for run_tool
    by (simp add: execute_tool_def get_tool_def t guards valid same call_start_def split_beta)
  have differ: "execute_tool (chat_guards (Some approve_all) (verdict True)) (counting 1) ts ''python_sandbox''
      [(''code'', PStr ''1'')] None None None 0
    \<noteq> execute_tool (chat_guards (Some approve_all) (verdict True)) (counting 2) ts ''python_sandbox''
      [(''code'', PStr ''1'')] None None None 0" (is "?one \<noteq> ?two")
  proof
    assume "?one = ?two"
    then have "snd ?one = snd ?two" by (rule arg_cong)
    with sandbox_outcome show False by (simp add: run)
  qed
  show ?thesis using subagent_tool_needs_approval [OF built t(1) type differ] by simp
qed

text \<open>
  The tool set of a chat passes over a tool of a server whose name is taken; that of a child raises, so that with such a
  server every subagent fails, whatever tools it was to get.
\<close>

lemma name_clash_stops_subagents:
  "case build_subagent_tools sample_schema sample_ids [sample_server] of Inl e \<Rightarrow> exn_kind e = ExcValueError | Inr _ \<Rightarrow> False"
  by code_simp

lemma name_clash_keeps_chats:
  "\<exists>a'. sync_mcp_tools sample_schema sample_ids [sample_server] sample_app_tools = (Inr (), a')"
  using sync_mcp_tools_run [OF sample_app_tools_wf] by metis

section \<open>Decisions of the parent\<close>

lemma map_of_AList_delete: "map_of (AList.delete k xs) i = (if i = k then None else map_of xs i)"
  by (simp add: delete_conv')

text \<open>A request of a child is answered by a decision signalled for it, or else denied, or expired after the wait.\<close>

datatype delegation_event = Ask string pydict | Resolve string string | Finish string bool

definition delegation_next :: "string \<Rightarrow> delegation_event \<Rightarrow> subagent_workflow \<Rightarrow> (string \<times> string) list \<times> subagent_workflow" where
  "delegation_next workflow_id e s =
     (case e of
        Ask name args \<Rightarrow> ([], snd (begin_delegated_approval workflow_id name args s))
      | Resolve i decision \<Rightarrow> ([], resolve_delegated_approval i decision s)
      | Finish i timed_out \<Rightarrow>
          (case finish_delegated_approval i timed_out s of
             (None, s) \<Rightarrow> ([], s) | (Some decision, s) \<Rightarrow> ([(i, decision)], s)))"

fun delegation_trace :: "string \<Rightarrow> delegation_event list \<Rightarrow> subagent_workflow \<Rightarrow> (string \<times> string) list" where
  "delegation_trace workflow_id [] s = []"
| "delegation_trace workflow_id (e # es) s =
     (case delegation_next workflow_id e s of (answers, s) \<Rightarrow> answers @ delegation_trace workflow_id es s)"

lemma delegated_decisions_come_from_the_parent:
  assumes "(i, d) \<in> set (delegation_trace workflow_id es s)"
  shows "d = ''expired'' \<or> map_of (sw_approval_decisions s) i = Some d \<or> Resolve i d \<in> set es"
  using assms
proof (induction es arbitrary: s)
  case (Cons e es)
  show ?case
  proof (cases e)
    case (Ask name args)
    have "sw_approval_decisions (snd (begin_delegated_approval workflow_id name args s)) = sw_approval_decisions s"
      by (simp add: begin_delegated_approval_def Let_def split: option.split)
    with Cons Ask show ?thesis by (fastforce simp: delegation_next_def)
  next
    case (Resolve j decision)
    have "map_of (sw_approval_decisions (resolve_delegated_approval j decision s)) i = Some d \<Longrightarrow>
        map_of (sw_approval_decisions s) i = Some d \<or> i = j \<and> d = decision"
      by (auto simp: resolve_delegated_approval_def update_conv' split: if_splits)
    with Cons Resolve show ?thesis by (fastforce simp: delegation_next_def)
  next
    case (Finish j timed_out)
    have "map_of (sw_approval_decisions (snd (finish_delegated_approval j timed_out s))) i = Some d \<Longrightarrow>
        map_of (sw_approval_decisions s) i = Some d"
      by (auto simp: finish_delegated_approval_def map_of_AList_delete split: option.splits if_splits)
    moreover have "fst (finish_delegated_approval j timed_out s) = Some a \<Longrightarrow>
        a = ''expired'' \<or> map_of (sw_approval_decisions s) j = Some a" for a
      by (auto simp: finish_delegated_approval_def split: option.splits if_splits)
    ultimately show ?thesis
      using Cons Finish by (fastforce simp: delegation_next_def split: prod.splits option.splits)
  qed
qed simp

end
