(* ===== verification/AppStore.thy ===== *)
theory AppStore
  imports Mcp "HOL-Library.List_Lexorder" "HOL-Library.Char_ord"
begin

text \<open>
  \<open>simple_chat_agent/common/store.py\<close>: conversations, OAuth states, OAuth connections and artifacts, kept in a SQLite
  database and a directory of files, or, the last two, in DynamoDB and S3. Each table of the database is the list of its
  rows in the order they were inserted. DynamoDB and S3 are the operations of a parameter.
\<close>

section \<open>Clock, identifiers and JSON\<close>

text \<open>
  What a call finds around it: the time, how times are written and read (a text without a zone is UTC; \<open>None\<close> is a
  \<open>ValueError\<close>), the next \<open>uuid4().hex\<close>, SHA-256 in hexadecimal and \<open>json.loads\<close>.
\<close>

record store_env =
  ev_now :: rat
  ev_isoformat :: "rat \<Rightarrow> string"
  ev_fromisoformat :: "string \<Rightarrow> rat option"
  ev_uuid :: string
  ev_sha256 :: "string \<Rightarrow> string"
  ev_loads :: "string \<Rightarrow> pyval res"

definition now_text :: "store_env \<Rightarrow> string" where
  "now_text env = ev_isoformat env (ev_now env)"

definition integrity_error :: py_exn where
  "integrity_error = PyExn (ExcOther ''IntegrityError'') ''UNIQUE constraint failed'' None None"

text \<open>\<open>json.loads(text or "{}")\<close>, as the dictionary it gives.\<close>

definition load_metadata :: "store_env \<Rightarrow> string \<Rightarrow> pydict res" where
  "load_metadata env t =
     res_bind (ev_loads env (if t = [] then ''{}'' else t)) (\<lambda>v. case v of PDict d \<Rightarrow> Inr d
       | _ \<Rightarrow> Inl (type_error ''metadata is not an object''))"

section \<open>Rows and records\<close>

record conversation_row =
  cv_user_id :: string
  cv_workflow_id :: string
  cv_run_id :: string
  cv_title :: string
  cv_created_at :: string
  cv_updated_at :: string

record conversation_record =
  cc_workflow_id :: string
  cc_run_id :: string
  cc_title :: string
  cc_created_at :: string
  cc_updated_at :: string

record oauth_state_row =
  os_state :: string
  os_user_id :: string
  os_provider :: string
  os_metadata_json :: string
  os_created_at :: string

record oauth_connection_row =
  ow_connection_id :: string
  ow_user_id :: string
  ow_provider :: string
  ow_access_token :: string
  ow_token_type :: string
  ow_scope :: string
  ow_provider_user_id :: "string option"
  ow_provider_user_login :: "string option"
  ow_metadata_json :: string
  ow_created_at :: string
  ow_updated_at :: string

record oauth_connection =
  oc_connection_id :: string
  oc_user_id :: string
  oc_provider :: string
  oc_access_token :: string
  oc_token_type :: string
  oc_scope :: string
  oc_provider_user_id :: "string option"
  oc_provider_user_login :: "string option"
  oc_metadata :: pydict
  oc_created_at :: string
  oc_updated_at :: string

record artifact_row =
  aw_artifact_id :: string
  aw_user_id :: string
  aw_conversation_id :: string
  aw_workflow_id :: string
  aw_name :: string
  aw_mime_type :: string
  aw_size_bytes :: nat
  aw_path :: string
  aw_metadata_json :: string
  aw_created_at :: string

record artifact_record =
  ar_artifact_id :: string
  ar_user_id :: string
  ar_conversation_id :: string
  ar_workflow_id :: string
  ar_name :: string
  ar_mime_type :: string
  ar_size_bytes :: nat
  ar_path :: string
  ar_metadata :: pydict
  ar_created_at :: string

definition conversation_from_row :: "conversation_row \<Rightarrow> conversation_record" where
  "conversation_from_row r =
     \<lparr>cc_workflow_id = cv_workflow_id r, cc_run_id = cv_run_id r, cc_title = cv_title r,
      cc_created_at = cv_created_at r, cc_updated_at = cv_updated_at r\<rparr>"

definition oauth_connection_from_row :: "store_env \<Rightarrow> oauth_connection_row option \<Rightarrow> oauth_connection option res" where
  "oauth_connection_from_row env row =
     (case row of
        None \<Rightarrow> Inr None
      | Some r \<Rightarrow> res_bind (load_metadata env (ow_metadata_json r)) (\<lambda>metadata. Inr (Some
          \<lparr>oc_connection_id = ow_connection_id r, oc_user_id = ow_user_id r, oc_provider = ow_provider r,
           oc_access_token = ow_access_token r, oc_token_type = ow_token_type r, oc_scope = ow_scope r,
           oc_provider_user_id = ow_provider_user_id r, oc_provider_user_login = ow_provider_user_login r,
           oc_metadata = metadata, oc_created_at = ow_created_at r, oc_updated_at = ow_updated_at r\<rparr>)))"

definition artifact_from_row :: "store_env \<Rightarrow> artifact_row option \<Rightarrow> artifact_record option res" where
  "artifact_from_row env row =
     (case row of
        None \<Rightarrow> Inr None
      | Some r \<Rightarrow> res_bind (load_metadata env (aw_metadata_json r)) (\<lambda>metadata. Inr (Some
          \<lparr>ar_artifact_id = aw_artifact_id r, ar_user_id = aw_user_id r, ar_conversation_id = aw_conversation_id r,
           ar_workflow_id = aw_workflow_id r, ar_name = aw_name r, ar_mime_type = aw_mime_type r,
           ar_size_bytes = aw_size_bytes r, ar_path = aw_path r, ar_metadata = metadata,
           ar_created_at = aw_created_at r\<rparr>)))"

section \<open>Names, identifiers and expiry of artifacts\<close>

definition ARTIFACT_RETENTION_DAYS :: rat where
  "ARTIFACT_RETENTION_DAYS = 30"

text \<open>\<open>Path(s).name\<close>: the last component; empty components and dots are none.\<close>

definition path_name :: "string \<Rightarrow> string" where
  "path_name s =
     (let parts = filter (\<lambda>p. p \<noteq> [] \<and> p \<noteq> ''.'') (py_split (CHR ''/'') s) in if parts = [] then [] else last parts)"

definition artifact_char :: "char \<Rightarrow> bool" where
  "artifact_char c =
     (65 \<le> code c \<and> code c \<le> 90 \<or> 97 \<le> code c \<and> code c \<le> 122 \<or> 48 \<le> code c \<and> code c \<le> 57
      \<or> c = CHR ''.'' \<or> c = CHR ''_'' \<or> c = CHR '' '' \<or> c = CHR ''-'')"

text \<open>Every run of other characters becomes one underscore.\<close>

fun underscore_runs :: "bool \<Rightarrow> string \<Rightarrow> string" where
  "underscore_runs in_run [] = []"
| "underscore_runs in_run (c # cs) =
     (if artifact_char c then c # underscore_runs False cs
      else if in_run then underscore_runs True cs
      else CHR ''_'' # underscore_runs True cs)"

definition safe_artifact_name :: "string \<Rightarrow> string" where
  "safe_artifact_name name =
     (let leaf_name = path_name (py_strip name);
          safe_name = strip_chars (\<lambda>c. c = CHR '' '' \<or> c = CHR ''.'') (underscore_runs False leaf_name)
      in if take 160 safe_name = [] then ''artifact.txt'' else take 160 safe_name)"

text \<open>No idempotency key is the empty one.\<close>

definition artifact_id :: "store_env \<Rightarrow> string \<Rightarrow> string \<Rightarrow> string \<Rightarrow> string" where
  "artifact_id env user_id workflow_id key =
     (if key = [] then ''artifact_'' @ ev_uuid env
      else ''artifact_'' @ take 32 (ev_sha256 env
        (user_id @ [CHR 0x1F] @ workflow_id @ [CHR 0x1F] @ key)))"

definition expiration_for_created_at :: "store_env \<Rightarrow> string \<Rightarrow> string" where
  "expiration_for_created_at env created_at =
     (let created = (case ev_fromisoformat env created_at of Some t \<Rightarrow> t | None \<Rightarrow> ev_now env)
      in ev_isoformat env (created + ARTIFACT_RETENTION_DAYS * 86400))"

definition metadata_with_expiration :: "store_env \<Rightarrow> pydict \<Rightarrow> string \<Rightarrow> pydict" where
  "metadata_with_expiration env metadata created_at =
     dict_setdefault ''expires_at'' (PStr (expiration_for_created_at env created_at)) metadata"

definition artifact_expires_at :: "store_env \<Rightarrow> artifact_record \<Rightarrow> string" where
  "artifact_expires_at env a =
     (case dict_get_none (ar_metadata a) ''expires_at'' of
        PStr (c # cs) \<Rightarrow> c # cs | _ \<Rightarrow> expiration_for_created_at env (ar_created_at a))"

definition artifact_is_expired :: "store_env \<Rightarrow> artifact_record \<Rightarrow> bool" where
  "artifact_is_expired env a =
     (case ev_fromisoformat env (artifact_expires_at env a) of None \<Rightarrow> False | Some expires \<Rightarrow> ev_now env \<ge> expires)"

text \<open>Of an \<open>s3://\<close> address: the bucket and the key.\<close>

definition parse_s3_uri :: "string \<Rightarrow> string \<times> string" where
  "parse_s3_uri uri = (case py_partition (CHR ''/'') (drop (length ''s3://'') uri) of (bucket, _, key) \<Rightarrow> (bucket, key))"

section \<open>The database and its directory\<close>

text \<open>
  \<open>db_undeletable\<close> are the paths whose \<open>unlink\<close> the operating system refuses with an \<open>OSError\<close> when the files of a
  conversation are deleted (a file that a call has just written itself can be removed by it).
\<close>

record app_db =
  db_conversations :: "conversation_row list"
  db_states :: "oauth_state_row list"
  db_connections :: "oauth_connection_row list"
  db_artifacts :: "artifact_row list"
  db_files :: "(string \<times> string) list"
  db_undeletable :: "string list"

definition empty_db :: app_db where
  "empty_db = \<lparr>db_conversations = [], db_states = [], db_connections = [], db_artifacts = [], db_files = [],
     db_undeletable = []\<rparr>"

text \<open>\<open>order by key desc\<close>; rows with equal keys stay in the order of insertion.\<close>

definition sort_desc :: "('r \<Rightarrow> string) \<Rightarrow> 'r list \<Rightarrow> 'r list" where
  "sort_desc key rows = rev (sort_key key (rev rows))"

subsection \<open>Conversations\<close>

definition record_conversation ::
  "store_env \<Rightarrow> string \<Rightarrow> string \<Rightarrow> string \<Rightarrow> string \<Rightarrow> (app_db, unit) op" where
  "record_conversation env user_id workflow_id run_id title =
     op_modify (\<lambda>db.
       if workflow_id \<in> cv_workflow_id ` set (db_conversations db)
       then db\<lparr>db_conversations := map (\<lambda>r. if cv_workflow_id r = workflow_id
              then r\<lparr>cv_run_id := run_id, cv_title := title, cv_updated_at := now_text env\<rparr> else r) (db_conversations db)\<rparr>
       else db\<lparr>db_conversations := db_conversations db @
              [\<lparr>cv_user_id = user_id, cv_workflow_id = workflow_id, cv_run_id = run_id, cv_title = title,
                cv_created_at = now_text env, cv_updated_at = now_text env\<rparr>]\<rparr>)"

definition list_conversations :: "string \<Rightarrow> app_db \<Rightarrow> conversation_record list" where
  "list_conversations user_id db =
     map conversation_from_row (sort_desc cv_updated_at (filter (\<lambda>r. cv_user_id r = user_id) (db_conversations db)))"

definition get_conversation :: "string \<Rightarrow> string \<Rightarrow> app_db \<Rightarrow> conversation_record option" where
  "get_conversation user_id workflow_id db =
     map_option conversation_from_row
       (List.find (\<lambda>r. cv_user_id r = user_id \<and> cv_workflow_id r = workflow_id) (db_conversations db))"

definition touch_conversation ::
  "store_env \<Rightarrow> string \<Rightarrow> string \<Rightarrow> string option \<Rightarrow> (app_db, unit) op" where
  "touch_conversation env user_id workflow_id title =
     op_modify (\<lambda>db. db\<lparr>db_conversations := map (\<lambda>r.
       if cv_user_id r = user_id \<and> cv_workflow_id r = workflow_id
       then (case title of
               None \<Rightarrow> r\<lparr>cv_updated_at := now_text env\<rparr>
             | Some t \<Rightarrow> r\<lparr>cv_title := t, cv_updated_at := now_text env\<rparr>)
       else r) (db_conversations db)\<rparr>)"

definition delete_conversation :: "string \<Rightarrow> string \<Rightarrow> (app_db, unit) op" where
  "delete_conversation user_id workflow_id =
     op_modify (\<lambda>db. db\<lparr>db_conversations :=
       filter (\<lambda>r. \<not> (cv_user_id r = user_id \<and> cv_workflow_id r = workflow_id)) (db_conversations db)\<rparr>)"

subsection \<open>OAuth states\<close>

definition create_oauth_state :: "store_env \<Rightarrow> string \<Rightarrow> string \<Rightarrow> pydict \<Rightarrow> (app_db, string) op" where
  "create_oauth_state env user_id provider metadata = (\<lambda>db.
     if ev_uuid env \<in> os_state ` set (db_states db) then (Inl integrity_error, db)
     else (Inr (ev_uuid env), db\<lparr>db_states := db_states db @
            [\<lparr>os_state = ev_uuid env, os_user_id = user_id, os_provider = provider,
              os_metadata_json = json_dumps (PDict metadata), os_created_at = now_text env\<rparr>]\<rparr>))"

text \<open>
  The row is read, then deleted, before anything else is decided. Nothing else uses the database within one call; two
  processes that call it at the same time can both read the row, which is not modelled.
\<close>

definition consume_oauth_state ::
  "store_env \<Rightarrow> string \<Rightarrow> string \<Rightarrow> rat \<Rightarrow> (app_db, (string \<times> pyval) option) op" where
  "consume_oauth_state env state provider max_age = (\<lambda>db.
     let hit = (\<lambda>r. os_state r = state \<and> os_provider r = provider);
         row = List.find hit (db_states db);
         db = db\<lparr>db_states := filter (\<lambda>r. \<not> hit r) (db_states db)\<rparr>
     in (case row of
           None \<Rightarrow> Inr None
         | Some r \<Rightarrow>
             (case ev_fromisoformat env (os_created_at r) of
                None \<Rightarrow> Inl (value_error ''Invalid isoformat string'')
              | Some created \<Rightarrow>
                  (if created < ev_now env - max_age then Inr None
                   else res_bind (ev_loads env (os_metadata_json r)) (\<lambda>metadata. Inr (Some (os_user_id r, metadata))))), db))"

subsection \<open>OAuth connections\<close>

record connection_args =
  ca_user_id :: string
  ca_provider :: string
  ca_access_token :: string
  ca_token_type :: string
  ca_scope :: string
  ca_provider_user_id :: "string option"
  ca_provider_user_login :: "string option"
  ca_metadata :: pydict

definition connection_row :: "store_env \<Rightarrow> connection_args \<Rightarrow> string \<Rightarrow> string \<Rightarrow> oauth_connection_row" where
  "connection_row env a connection_id created_at =
     \<lparr>ow_connection_id = connection_id, ow_user_id = ca_user_id a, ow_provider = ca_provider a,
      ow_access_token = ca_access_token a, ow_token_type = ca_token_type a, ow_scope = ca_scope a,
      ow_provider_user_id = ca_provider_user_id a, ow_provider_user_login = ca_provider_user_login a,
      ow_metadata_json = json_dumps (PDict (ca_metadata a)), ow_created_at = created_at, ow_updated_at = now_text env\<rparr>"

definition sqlite_connection_row :: "string \<Rightarrow> string \<Rightarrow> app_db \<Rightarrow> oauth_connection_row option" where
  "sqlite_connection_row user_id provider db =
     List.find (\<lambda>r. ow_user_id r = user_id \<and> ow_provider r = provider) (db_connections db)"

definition sqlite_get_connection :: "store_env \<Rightarrow> string \<Rightarrow> string \<Rightarrow> (app_db, oauth_connection option) op" where
  "sqlite_get_connection env user_id provider =
     op_check (\<lambda>db. oauth_connection_from_row env (sqlite_connection_row user_id provider db))"

text \<open>\<open>insert \<dots> on conflict(user_id, provider) do update\<close>, which keeps \<open>created_at\<close>.\<close>

definition insert_connection :: "oauth_connection_row \<Rightarrow> (app_db, unit) op" where
  "insert_connection row = (\<lambda>db.
     let same = (\<lambda>r. ow_user_id r = ow_user_id row \<and> ow_provider r = ow_provider row) in
     if \<exists>r \<in> set (db_connections db). \<not> same r \<and> ow_connection_id r = ow_connection_id row
     then (Inl integrity_error, db)
     else if \<exists>r \<in> set (db_connections db). same r
     then (Inr (), db\<lparr>db_connections :=
            map (\<lambda>r. if same r then row\<lparr>ow_created_at := ow_created_at r\<rparr> else r) (db_connections db)\<rparr>)
     else (Inr (), db\<lparr>db_connections := db_connections db @ [row]\<rparr>))"

definition connection_id_for :: "store_env \<Rightarrow> string \<Rightarrow> oauth_connection option \<Rightarrow> string" where
  "connection_id_for env provider existing =
     (case existing of Some c \<Rightarrow> oc_connection_id c | None \<Rightarrow> provider @ ''_'' @ ev_uuid env)"

definition created_at_for :: "store_env \<Rightarrow> oauth_connection option \<Rightarrow> string" where
  "created_at_for env existing = (case existing of Some c \<Rightarrow> oc_created_at c | None \<Rightarrow> now_text env)"

definition sqlite_upsert_connection :: "store_env \<Rightarrow> connection_args \<Rightarrow> (app_db, string) op" where
  "sqlite_upsert_connection env a =
     op_bind (sqlite_get_connection env (ca_user_id a) (ca_provider a)) (\<lambda>existing.
     op_bind (insert_connection
        (connection_row env a (connection_id_for env (ca_provider a) existing) (created_at_for env existing))) (\<lambda>_.
     op_return (connection_id_for env (ca_provider a) existing)))"

definition sqlite_connection_by_id :: "store_env \<Rightarrow> string \<Rightarrow> (app_db, oauth_connection option) op" where
  "sqlite_connection_by_id env connection_id =
     op_check (\<lambda>db. oauth_connection_from_row env (List.find (\<lambda>r. ow_connection_id r = connection_id) (db_connections db)))"

definition sqlite_connection_by_provider :: "store_env \<Rightarrow> string \<Rightarrow> (app_db, oauth_connection option) op" where
  "sqlite_connection_by_provider env provider =
     op_check (\<lambda>db.
       let rows = take 2 (sort_desc ow_updated_at (filter (\<lambda>r. ow_provider r = provider) (db_connections db)))
       in if length rows > 1 then Inl (value_error (''Multiple OAuth connections found for provider: '' @ provider))
          else oauth_connection_from_row env (if rows \<noteq> [] then Some (hd rows) else None))"

definition sqlite_delete_connection :: "string \<Rightarrow> string \<Rightarrow> (app_db, unit) op" where
  "sqlite_delete_connection user_id provider =
     op_modify (\<lambda>db. db\<lparr>db_connections :=
       filter (\<lambda>r. \<not> (ow_user_id r = user_id \<and> ow_provider r = provider)) (db_connections db)\<rparr>)"

subsection \<open>Artifacts\<close>

record artifact_args =
  aa_user_id :: string
  aa_conversation_id :: string
  aa_workflow_id :: string
  aa_name :: string
  aa_mime_type :: string
  aa_content :: string
  aa_metadata :: pydict
  aa_idempotency_key :: string

definition artifact_args_id :: "store_env \<Rightarrow> artifact_args \<Rightarrow> string" where
  "artifact_args_id env a = artifact_id env (aa_user_id a) (aa_workflow_id a) (aa_idempotency_key a)"

definition artifact_metadata_json :: "store_env \<Rightarrow> artifact_args \<Rightarrow> string" where
  "artifact_metadata_json env a =
     json_dumps (PDict (metadata_with_expiration env
       (if aa_idempotency_key a = [] then aa_metadata a
        else dict_set ''idempotency_key'' (PStr (aa_idempotency_key a)) (aa_metadata a)) (now_text env)))"

definition artifact_row_for :: "store_env \<Rightarrow> artifact_args \<Rightarrow> string \<Rightarrow> artifact_row" where
  "artifact_row_for env a path =
     \<lparr>aw_artifact_id = artifact_args_id env a, aw_user_id = aa_user_id a, aw_conversation_id = aa_conversation_id a,
      aw_workflow_id = aa_workflow_id a, aw_name = safe_artifact_name (aa_name a), aw_mime_type = aa_mime_type a,
      aw_size_bytes = length (aa_content a), aw_path = path, aw_metadata_json = artifact_metadata_json env a,
      aw_created_at = now_text env\<rparr>"

text \<open>The record a new artifact is returned as: that of its row.\<close>

definition new_artifact :: "store_env \<Rightarrow> artifact_row \<Rightarrow> artifact_record res" where
  "new_artifact env row =
     res_bind (ev_loads env (aw_metadata_json row)) (\<lambda>v. case v of
       PDict metadata \<Rightarrow> Inr
         \<lparr>ar_artifact_id = aw_artifact_id row, ar_user_id = aw_user_id row, ar_conversation_id = aw_conversation_id row,
          ar_workflow_id = aw_workflow_id row, ar_name = aw_name row, ar_mime_type = aw_mime_type row,
          ar_size_bytes = aw_size_bytes row, ar_path = aw_path row, ar_metadata = metadata,
          ar_created_at = aw_created_at row\<rparr>
     | _ \<Rightarrow> Inl (type_error ''metadata is not an object''))"

definition sqlite_artifact_row :: "string \<Rightarrow> string \<Rightarrow> app_db \<Rightarrow> artifact_row option" where
  "sqlite_artifact_row user_id i db =
     List.find (\<lambda>r. aw_user_id r = user_id \<and> aw_artifact_id r = i) (db_artifacts db)"

definition sqlite_get_artifact :: "store_env \<Rightarrow> string \<Rightarrow> string \<Rightarrow> (app_db, artifact_record option) op" where
  "sqlite_get_artifact env user_id i =
     op_check (\<lambda>db. artifact_from_row env (sqlite_artifact_row user_id i db))"

definition local_artifact_path :: "string \<Rightarrow> store_env \<Rightarrow> artifact_args \<Rightarrow> string" where
  "local_artifact_path dir env a = dir @ ''/'' @ artifact_args_id env a @ ''-'' @ safe_artifact_name (aa_name a)"

text \<open>
  \<open>create_artifact\<close> in two parts, between which another process may write: the look for an artifact of the same key, and
  the file and the row. A row that another process inserted first makes the insertion fail.
\<close>

definition find_existing_artifact :: "store_env \<Rightarrow> artifact_args \<Rightarrow> (app_db, artifact_record option) op" where
  "find_existing_artifact env a =
     (if aa_idempotency_key a = [] then op_return None
      else sqlite_get_artifact env (aa_user_id a) (artifact_args_id env a))"

definition insert_artifact :: "artifact_row \<Rightarrow> (app_db, unit) op" where
  "insert_artifact row = (\<lambda>db.
     if aw_artifact_id row \<in> aw_artifact_id ` set (db_artifacts db) then (Inl integrity_error, db)
     else (Inr (), db\<lparr>db_artifacts := db_artifacts db @ [row]\<rparr>))"

definition store_artifact :: "string \<Rightarrow> store_env \<Rightarrow> artifact_args \<Rightarrow> (app_db, artifact_record) op" where
  "store_artifact dir env a =
     (let path = local_artifact_path dir env a; row = artifact_row_for env a path in
      op_bind (op_modify (\<lambda>db. db\<lparr>db_files := AList.update path (aa_content a) (db_files db)\<rparr>)) (\<lambda>_.
      op_bind
        (op_catch
           (op_bind (insert_artifact row) (\<lambda>_. op_return None))
           (\<lambda>e. op_bind (op_modify (\<lambda>db. db\<lparr>db_files := AList.delete path (db_files db)\<rparr>)) (\<lambda>_.
              op_bind (sqlite_get_artifact env (aa_user_id a) (artifact_args_id env a)) (\<lambda>existing.
                case existing of Some r \<Rightarrow> op_return (Some r) | None \<Rightarrow> op_raise e))))
        (\<lambda>existing. case existing of Some r \<Rightarrow> op_return r | None \<Rightarrow> op_lift (new_artifact env row))))"

definition sqlite_create_artifact :: "string \<Rightarrow> store_env \<Rightarrow> artifact_args \<Rightarrow> (app_db, artifact_record) op" where
  "sqlite_create_artifact dir env a =
     op_bind (find_existing_artifact env a) (\<lambda>existing.
       case existing of Some r \<Rightarrow> op_return r | None \<Rightarrow> store_artifact dir env a)"

definition sqlite_list_artifacts :: "store_env \<Rightarrow> string \<Rightarrow> string \<Rightarrow> (app_db, artifact_record list) op" where
  "sqlite_list_artifacts env user_id workflow_id =
     op_check (\<lambda>db. res_bind
       (res_map (\<lambda>r. artifact_from_row env (Some r))
          (sort_key aw_created_at (filter (\<lambda>r. aw_user_id r = user_id \<and> aw_workflow_id r = workflow_id) (db_artifacts db))))
       (\<lambda>found. Inr (map the (filter (\<lambda>r. r \<noteq> None) found))))"

text \<open>Every file of the conversation is unlinked; an \<open>OSError\<close> is suppressed, and that file stays.\<close>

definition sqlite_delete_artifacts :: "string \<Rightarrow> string \<Rightarrow> (app_db, unit) op" where
  "sqlite_delete_artifacts user_id workflow_id =
     op_modify (\<lambda>db.
       let hit = (\<lambda>r. aw_user_id r = user_id \<and> aw_workflow_id r = workflow_id);
           paths = filter (\<lambda>path. path \<notin> set (db_undeletable db)) (map aw_path (filter hit (db_artifacts db)))
       in db\<lparr>db_artifacts := filter (\<lambda>r. \<not> hit r) (db_artifacts db), db_files := fold AList.delete paths (db_files db)\<rparr>)"

definition file_not_found :: "string \<Rightarrow> py_exn" where
  "file_not_found path = PyExn (ExcOther ''FileNotFoundError'') path None None"

definition read_local_artifact :: "artifact_record \<Rightarrow> (app_db, string) op" where
  "read_local_artifact a =
     op_check (\<lambda>db. case map_of (db_files db) (ar_path a) of None \<Rightarrow> Inl (file_not_found (ar_path a)) | Some c \<Rightarrow> Inr c)"

end
