(* ===== verification/CloudStore.thy ===== *)
theory CloudStore
  imports AppStore
begin

text \<open>
  \<open>DynamoOAuthStore\<close> and \<open>S3DynamoArtifactStore\<close> of \<open>simple_chat_agent/common/store.py\<close>: the same two tables in DynamoDB,
  the bytes of artifacts in S3. The clients of both services are a record of operations on a state of their own.
\<close>

section \<open>The services\<close>

text \<open>
  The calls the code makes: \<open>get_item\<close> (a consistent read), \<open>put_item\<close> and \<open>delete_item\<close> of a table by its two keys, the
  query of a secondary index by its name and value, and the objects of a bucket. Each may fail.
\<close>

record 'd cloud =
  cl_get_item :: "string \<Rightarrow> string \<times> string \<Rightarrow> ('d, pydict option) op"
  cl_put_item :: "string \<Rightarrow> string \<times> string \<Rightarrow> pydict \<Rightarrow> ('d, unit) op"
  cl_delete_item :: "string \<Rightarrow> string \<times> string \<Rightarrow> ('d, unit) op"
  cl_query :: "string \<Rightarrow> string \<Rightarrow> string \<Rightarrow> nat option \<Rightarrow> ('d, pydict list) op"
  cl_put_object :: "string \<Rightarrow> string \<Rightarrow> string \<Rightarrow> ('d, unit) op"
  cl_get_object :: "string \<Rightarrow> string \<Rightarrow> ('d, string) op"
  cl_delete_object :: "string \<Rightarrow> string \<Rightarrow> ('d, unit) op"

section \<open>Items\<close>

text \<open>An attribute the code takes for a string; the tables hold strings there.\<close>

definition item_text :: "pyval \<Rightarrow> string" where
  "item_text v = (case v of PStr s \<Rightarrow> s | _ \<Rightarrow> [])"

definition item_index :: "pydict \<Rightarrow> string \<Rightarrow> string res" where
  "item_index item k = res_bind (dict_index item k) (\<lambda>v. Inr (item_text v))"

definition item_get :: "pydict \<Rightarrow> string \<Rightarrow> string" where
  "item_get item k = item_text (dict_get_none item k)"

definition item_optional :: "pydict \<Rightarrow> string \<Rightarrow> string option" where
  "item_optional item k = (case dict_get_none item k of PNone \<Rightarrow> None | v \<Rightarrow> Some (item_text v))"

definition oauth_connection_from_item :: "store_env \<Rightarrow> pydict option \<Rightarrow> oauth_connection option res" where
  "oauth_connection_from_item env item =
     (case item of
        None \<Rightarrow> Inr None
      | Some d \<Rightarrow>
          (if d = [] then Inr None
           else
             res_bind (item_index d ''connection_id'') (\<lambda>connection_id.
             res_bind (item_index d ''user_id'') (\<lambda>user_id.
             res_bind (item_index d ''provider'') (\<lambda>provider.
             res_bind (item_index d ''access_token'') (\<lambda>access_token.
             res_bind (item_index d ''token_type'') (\<lambda>token_type.
             res_bind (load_metadata env (item_get d ''metadata_json'')) (\<lambda>metadata.
             res_bind (item_index d ''created_at'') (\<lambda>created_at.
             res_bind (item_index d ''updated_at'') (\<lambda>updated_at.
             Inr (Some \<lparr>oc_connection_id = connection_id, oc_user_id = user_id, oc_provider = provider,
               oc_access_token = access_token, oc_token_type = token_type, oc_scope = item_get d ''scope'',
               oc_provider_user_id = item_optional d ''provider_user_id'',
               oc_provider_user_login = item_optional d ''provider_user_login'', oc_metadata = metadata,
               oc_created_at = created_at, oc_updated_at = updated_at\<rparr>)))))))))))"

definition connection_item :: "oauth_connection_row \<Rightarrow> pydict" where
  "connection_item r =
     [(''user_id'', PStr (ow_user_id r)), (''provider'', PStr (ow_provider r)),
      (''connection_id'', PStr (ow_connection_id r)), (''access_token'', PStr (ow_access_token r)),
      (''token_type'', PStr (ow_token_type r)), (''scope'', PStr (ow_scope r)),
      (''metadata_json'', PStr (ow_metadata_json r)), (''created_at'', PStr (ow_created_at r)),
      (''updated_at'', PStr (ow_updated_at r))] @
     (case ow_provider_user_id r of None \<Rightarrow> [] | Some i \<Rightarrow> [(''provider_user_id'', PStr i)]) @
     (case ow_provider_user_login r of None \<Rightarrow> [] | Some l \<Rightarrow> [(''provider_user_login'', PStr l)])"

definition artifact_from_item :: "store_env \<Rightarrow> pydict option \<Rightarrow> artifact_record option res" where
  "artifact_from_item env item =
     (case item of
        None \<Rightarrow> Inr None
      | Some d \<Rightarrow>
          (if d = [] then Inr None
           else
             res_bind (item_index d ''artifact_id'') (\<lambda>artifact_id.
             res_bind (item_index d ''user_id'') (\<lambda>user_id.
             res_bind (item_index d ''workflow_id'') (\<lambda>workflow_id.
             res_bind (item_index d ''name'') (\<lambda>name.
             res_bind (item_index d ''mime_type'') (\<lambda>mime_type.
             res_bind (item_index d ''path'') (\<lambda>path.
             res_bind (load_metadata env (item_get d ''metadata_json'')) (\<lambda>metadata.
             res_bind (item_index d ''created_at'') (\<lambda>created_at.
             Inr (Some \<lparr>ar_artifact_id = artifact_id, ar_user_id = user_id,
               ar_conversation_id = item_get d ''conversation_id'', ar_workflow_id = workflow_id, ar_name = name,
               ar_mime_type = mime_type,
               ar_size_bytes = (case dict_get_none d ''size_bytes'' of PInt n \<Rightarrow> nat n | _ \<Rightarrow> 0), ar_path = path,
               ar_metadata = metadata, ar_created_at = created_at\<rparr>)))))))))))"

definition artifact_item :: "artifact_row \<Rightarrow> pydict" where
  "artifact_item r =
     [(''user_id'', PStr (aw_user_id r)), (''artifact_id'', PStr (aw_artifact_id r)),
      (''workflow_id'', PStr (aw_workflow_id r)), (''conversation_id'', PStr (aw_conversation_id r)),
      (''name'', PStr (aw_name r)), (''mime_type'', PStr (aw_mime_type r)),
      (''size_bytes'', PInt (int (aw_size_bytes r))), (''path'', PStr (aw_path r)),
      (''metadata_json'', PStr (aw_metadata_json r)), (''created_at'', PStr (aw_created_at r))]"

section \<open>Connections\<close>

definition CONNECTION_ID_INDEX :: string where
  "CONNECTION_ID_INDEX = ''connection-id-index''"

definition PROVIDER_INDEX :: string where
  "PROVIDER_INDEX = ''provider-index''"

definition WORKFLOW_INDEX :: string where
  "WORKFLOW_INDEX = ''workflow-index''"

definition cloud_get_connection ::
  "'d cloud \<Rightarrow> string \<Rightarrow> store_env \<Rightarrow> string \<Rightarrow> string \<Rightarrow> ('d, oauth_connection option) op" where
  "cloud_get_connection cl table env user_id provider =
     op_bind (cl_get_item cl table (user_id, provider)) (\<lambda>item. op_lift (oauth_connection_from_item env item))"

definition cloud_upsert_connection ::
  "'d cloud \<Rightarrow> string \<Rightarrow> store_env \<Rightarrow> connection_args \<Rightarrow> ('d, string) op" where
  "cloud_upsert_connection cl table env a =
     op_bind (cloud_get_connection cl table env (ca_user_id a) (ca_provider a)) (\<lambda>existing.
     op_bind (cl_put_item cl table (ca_user_id a, ca_provider a) (connection_item
        (connection_row env a (connection_id_for env (ca_provider a) existing) (created_at_for env existing)))) (\<lambda>_.
     op_return (connection_id_for env (ca_provider a) existing)))"

definition cloud_connection_by_id ::
  "'d cloud \<Rightarrow> string \<Rightarrow> store_env \<Rightarrow> string \<Rightarrow> ('d, oauth_connection option) op" where
  "cloud_connection_by_id cl table env connection_id =
     op_bind (cl_query cl table CONNECTION_ID_INDEX connection_id (Some 1)) (\<lambda>items.
       op_lift (oauth_connection_from_item env (if items \<noteq> [] then Some (hd items) else None)))"

definition cloud_connection_by_provider ::
  "'d cloud \<Rightarrow> string \<Rightarrow> store_env \<Rightarrow> string \<Rightarrow> ('d, oauth_connection option) op" where
  "cloud_connection_by_provider cl table env provider =
     op_bind (cl_query cl table PROVIDER_INDEX provider (Some 2)) (\<lambda>items.
       if length items > 1 then op_raise (value_error (''Multiple OAuth connections found for provider: '' @ provider))
       else op_lift (oauth_connection_from_item env (if items \<noteq> [] then Some (hd items) else None)))"

definition cloud_delete_connection :: "'d cloud \<Rightarrow> string \<Rightarrow> string \<Rightarrow> string \<Rightarrow> ('d, unit) op" where
  "cloud_delete_connection cl table user_id provider = cl_delete_item cl table (user_id, provider)"

section \<open>Artifacts\<close>

definition artifact_key :: "store_env \<Rightarrow> artifact_args \<Rightarrow> string" where
  "artifact_key env a =
     ''artifacts/'' @ aa_user_id a @ ''/'' @ aa_workflow_id a @ ''/'' @ artifact_args_id env a @ ''-''
       @ safe_artifact_name (aa_name a)"

definition cloud_get_artifact ::
  "'d cloud \<Rightarrow> string \<Rightarrow> store_env \<Rightarrow> string \<Rightarrow> string \<Rightarrow> ('d, artifact_record option) op" where
  "cloud_get_artifact cl table env user_id i =
     op_bind (cl_get_item cl table (user_id, i)) (\<lambda>item. op_lift (artifact_from_item env item))"

definition cloud_create_artifact ::
  "'d cloud \<Rightarrow> string \<Rightarrow> string \<Rightarrow> store_env \<Rightarrow> artifact_args \<Rightarrow> ('d, artifact_record) op" where
  "cloud_create_artifact cl table bucket env a =
     op_bind (if aa_idempotency_key a = [] then op_return None
              else cloud_get_artifact cl table env (aa_user_id a) (artifact_args_id env a)) (\<lambda>existing.
       case existing of
         Some r \<Rightarrow> op_return r
       | None \<Rightarrow>
           (let key = artifact_key env a; row = artifact_row_for env a (''s3://'' @ bucket @ ''/'' @ key) in
            op_bind (cl_put_object cl bucket key (aa_content a)) (\<lambda>_.
            op_bind (cl_put_item cl table (aa_user_id a, artifact_args_id env a) (artifact_item row)) (\<lambda>_.
            op_lift (new_artifact env row)))))"

definition cloud_list_artifacts ::
  "'d cloud \<Rightarrow> string \<Rightarrow> store_env \<Rightarrow> string \<Rightarrow> string \<Rightarrow> ('d, artifact_record list) op" where
  "cloud_list_artifacts cl table env user_id workflow_id =
     op_bind (cl_query cl table WORKFLOW_INDEX workflow_id None) (\<lambda>items.
     op_bind (op_lift (res_map (\<lambda>item. artifact_from_item env (Some item)) items)) (\<lambda>found.
       op_return (sort_key ar_created_at
         (filter (\<lambda>r. ar_user_id r = user_id) (map the (filter (\<lambda>r. r \<noteq> None) found))))))"

text \<open>One item: its object goes first, whatever happens to it, then the item.\<close>

definition cloud_delete_artifact :: "'d cloud \<Rightarrow> string \<Rightarrow> pydict \<Rightarrow> ('d, unit) op" where
  "cloud_delete_artifact cl table item =
     op_bind
       (case parse_s3_uri (item_get item ''path'') of (bucket, key) \<Rightarrow>
          if bucket \<noteq> [] \<and> key \<noteq> [] then op_catch (cl_delete_object cl bucket key) (\<lambda>_. op_return ()) else op_return ())
       (\<lambda>_. op_bind (op_lift (item_index item ''user_id'')) (\<lambda>user_id.
          op_bind (op_lift (item_index item ''artifact_id'')) (\<lambda>i. cl_delete_item cl table (user_id, i))))"

fun cloud_delete_items :: "'d cloud \<Rightarrow> string \<Rightarrow> string \<Rightarrow> pydict list \<Rightarrow> ('d, unit) op" where
  "cloud_delete_items cl table user_id [] = op_return ()"
| "cloud_delete_items cl table user_id (item # items) =
     (if dict_get_none item ''user_id'' \<noteq> PStr user_id then cloud_delete_items cl table user_id items
      else op_bind (cloud_delete_artifact cl table item) (\<lambda>_. cloud_delete_items cl table user_id items))"

definition cloud_delete_artifacts :: "'d cloud \<Rightarrow> string \<Rightarrow> string \<Rightarrow> string \<Rightarrow> ('d, unit) op" where
  "cloud_delete_artifacts cl table user_id workflow_id =
     op_bind (cl_query cl table WORKFLOW_INDEX workflow_id None) (cloud_delete_items cl table user_id)"

section \<open>The store of the application\<close>

text \<open>
  \<open>AppStore\<close> with what its constructor found configured: the directory of artifacts, the table of connections, and the table
  and bucket of artifacts. Its state is the database beside that of the services.
\<close>

record 'd app_config =
  ac_artifact_dir :: string
  ac_cloud :: "'d cloud"
  ac_oauth_table :: "string option"
  ac_artifact_store :: "(string \<times> string) option"

definition on_database :: "(app_db, 'a) op \<Rightarrow> (app_db \<times> 'd, 'a) op" where
  "on_database m = (\<lambda>(db, d). case m db of (r, db) \<Rightarrow> (r, (db, d)))"

definition on_cloud :: "('d, 'a) op \<Rightarrow> (app_db \<times> 'd, 'a) op" where
  "on_cloud m = (\<lambda>(db, d). case m d of (r, d) \<Rightarrow> (r, (db, d)))"

text \<open>\<open>table or None\<close> of the trimmed values of the environment; artifacts need both of theirs.\<close>

definition configured_name :: "string option \<Rightarrow> string option" where
  "configured_name value =
     (let name = py_strip (case value of None \<Rightarrow> [] | Some v \<Rightarrow> v) in if name = [] then None else Some name)"

definition configured_app :: "string \<Rightarrow> 'd cloud \<Rightarrow> string option \<Rightarrow> string option \<Rightarrow> string option \<Rightarrow> 'd app_config" where
  "configured_app dir cl oauth_table artifacts_table bucket =
     \<lparr>ac_artifact_dir = dir, ac_cloud = cl, ac_oauth_table = configured_name oauth_table,
      ac_artifact_store = (case (configured_name artifacts_table, configured_name bucket) of
        (Some t, Some b) \<Rightarrow> Some (t, b) | _ \<Rightarrow> None)\<rparr>"

definition upsert_oauth_connection :: "'d app_config \<Rightarrow> store_env \<Rightarrow> connection_args \<Rightarrow> (app_db \<times> 'd, string) op" where
  "upsert_oauth_connection c env a =
     (case ac_oauth_table c of
        Some table \<Rightarrow> on_cloud (cloud_upsert_connection (ac_cloud c) table env a)
      | None \<Rightarrow> on_database (sqlite_upsert_connection env a))"

definition get_oauth_connection ::
  "'d app_config \<Rightarrow> store_env \<Rightarrow> string \<Rightarrow> string \<Rightarrow> (app_db \<times> 'd, oauth_connection option) op" where
  "get_oauth_connection c env user_id provider =
     (case ac_oauth_table c of
        Some table \<Rightarrow> on_cloud (cloud_get_connection (ac_cloud c) table env user_id provider)
      | None \<Rightarrow> on_database (sqlite_get_connection env user_id provider))"

definition get_oauth_connection_by_id ::
  "'d app_config \<Rightarrow> store_env \<Rightarrow> string \<Rightarrow> (app_db \<times> 'd, oauth_connection option) op" where
  "get_oauth_connection_by_id c env connection_id =
     (case ac_oauth_table c of
        Some table \<Rightarrow> on_cloud (cloud_connection_by_id (ac_cloud c) table env connection_id)
      | None \<Rightarrow> on_database (sqlite_connection_by_id env connection_id))"

definition get_oauth_connection_by_provider ::
  "'d app_config \<Rightarrow> store_env \<Rightarrow> string \<Rightarrow> (app_db \<times> 'd, oauth_connection option) op" where
  "get_oauth_connection_by_provider c env provider =
     (case ac_oauth_table c of
        Some table \<Rightarrow> on_cloud (cloud_connection_by_provider (ac_cloud c) table env provider)
      | None \<Rightarrow> on_database (sqlite_connection_by_provider env provider))"

definition delete_oauth_connection :: "'d app_config \<Rightarrow> string \<Rightarrow> string \<Rightarrow> (app_db \<times> 'd, unit) op" where
  "delete_oauth_connection c user_id provider =
     (case ac_oauth_table c of
        Some table \<Rightarrow> on_cloud (cloud_delete_connection (ac_cloud c) table user_id provider)
      | None \<Rightarrow> on_database (sqlite_delete_connection user_id provider))"

definition create_artifact :: "'d app_config \<Rightarrow> store_env \<Rightarrow> artifact_args \<Rightarrow> (app_db \<times> 'd, artifact_record) op" where
  "create_artifact c env a =
     (case ac_artifact_store c of
        Some (table, bucket) \<Rightarrow> on_cloud (cloud_create_artifact (ac_cloud c) table bucket env a)
      | None \<Rightarrow> on_database (sqlite_create_artifact (ac_artifact_dir c) env a))"

definition get_artifact :: "'d app_config \<Rightarrow> store_env \<Rightarrow> string \<Rightarrow> string \<Rightarrow> (app_db \<times> 'd, artifact_record option) op" where
  "get_artifact c env user_id i =
     (case ac_artifact_store c of
        Some (table, _) \<Rightarrow> on_cloud (cloud_get_artifact (ac_cloud c) table env user_id i)
      | None \<Rightarrow> on_database (sqlite_get_artifact env user_id i))"

definition list_artifacts :: "'d app_config \<Rightarrow> store_env \<Rightarrow> string \<Rightarrow> string \<Rightarrow> (app_db \<times> 'd, artifact_record list) op" where
  "list_artifacts c env user_id workflow_id =
     (case ac_artifact_store c of
        Some (table, _) \<Rightarrow> on_cloud (cloud_list_artifacts (ac_cloud c) table env user_id workflow_id)
      | None \<Rightarrow> on_database (sqlite_list_artifacts env user_id workflow_id))"

definition delete_artifacts_for_conversation :: "'d app_config \<Rightarrow> string \<Rightarrow> string \<Rightarrow> (app_db \<times> 'd, unit) op" where
  "delete_artifacts_for_conversation c user_id workflow_id =
     (case ac_artifact_store c of
        Some (table, _) \<Rightarrow> on_cloud (cloud_delete_artifacts (ac_cloud c) table user_id workflow_id)
      | None \<Rightarrow> on_database (sqlite_delete_artifacts user_id workflow_id))"

definition read_artifact_bytes :: "'d app_config \<Rightarrow> artifact_record \<Rightarrow> (app_db \<times> 'd, string) op" where
  "read_artifact_bytes c a =
     (if py_startswith (ar_path a) ''s3://''
      then (case parse_s3_uri (ar_path a) of (bucket, key) \<Rightarrow> on_cloud (cl_get_object (ac_cloud c) bucket key))
      else on_database (read_local_artifact a))"

end
