(* ===== verification/AppStoreProperties.thy ===== *)
theory AppStoreProperties
  imports CloudStore
begin

text \<open>
  What the store keeps: the contract of the connections, on which SQLite and DynamoDB agree, the contract of the artifacts,
  OAuth states, and the names of files.
\<close>

section \<open>Rows by their keys\<close>

lemma find_row_iff:
  assumes "distinct (map key rows)"
  shows "List.find (\<lambda>r. key r = k) rows = Some r \<longleftrightarrow> r \<in> set rows \<and> key r = k"
  using assms by (induction rows) (auto simp: image_iff)

lemma find_row_None: "List.find (\<lambda>r. key r = k) rows = None \<longleftrightarrow> k \<notin> key ` set rows"
  by (auto simp: find_None_iff)

lemma find_row_append:
  "List.find P (rows @ new) = (case List.find P rows of Some r \<Rightarrow> Some r | None \<Rightarrow> List.find P new)"
  by (induction rows) auto

lemma find_row_map:
  "(\<And>r. key (f r) = key r) \<Longrightarrow>
   List.find (\<lambda>r. key r = k) (map f rows) = map_option f (List.find (\<lambda>r. key r = k) rows)"
  by (induction rows) auto

lemma find_row_filter: "List.find (\<lambda>r. key r = k) (filter (\<lambda>r. key r \<noteq> l) rows) =
    (if k = l then None else List.find (\<lambda>r. key r = k) rows)"
  by (induction rows) auto

section \<open>Connections\<close>

text \<open>The contract: what is stored is a table by user and provider.\<close>

definition upserted :: "store_env \<Rightarrow> connection_args \<Rightarrow> oauth_connection_row option \<Rightarrow> oauth_connection_row" where
  "upserted env a old =
     (case old of
        None \<Rightarrow> connection_row env a (ca_provider a @ ''_'' @ ev_uuid env) (now_text env)
      | Some r \<Rightarrow> connection_row env a (ow_connection_id r) (ow_created_at r))"

locale connection_store =
  fixes get :: "store_env \<Rightarrow> string \<Rightarrow> string \<Rightarrow> ('s, oauth_connection option) op"
    and upsert :: "store_env \<Rightarrow> connection_args \<Rightarrow> ('s, string) op"
    and delete :: "string \<Rightarrow> string \<Rightarrow> ('s, unit) op"
    and stored :: "'s \<Rightarrow> string \<times> string \<Rightarrow> oauth_connection_row option"
    and inv :: "'s \<Rightarrow> bool"
  assumes get_law: "inv s \<Longrightarrow> get env u p s = (Inr r, s') \<Longrightarrow>
      inv s' \<and> stored s' = stored s \<and> oauth_connection_from_row env (stored s (u, p)) = Inr r"
    and upsert_law: "inv s \<Longrightarrow> upsert env a s = (Inr i, s') \<Longrightarrow>
      inv s' \<and> stored s' = (stored s)((ca_user_id a, ca_provider a) \<mapsto> upserted env a (stored s (ca_user_id a, ca_provider a))) \<and>
      i = ow_connection_id (upserted env a (stored s (ca_user_id a, ca_provider a)))"
    and delete_law: "inv s \<Longrightarrow> delete u p s = (Inr x, s') \<Longrightarrow> inv s' \<and> stored s' = (stored s)((u, p) := None)"

text \<open>Calls and replies; a sequence of calls, up to the first that raises; and what a table answers.\<close>

datatype connection_call = GetConnection store_env string string | UpsertConnection store_env connection_args
  | DeleteConnection string string

datatype connection_reply = FoundConnection "oauth_connection option" | ConnectionId string | ConnectionGone

definition connection_op ::
  "(store_env \<Rightarrow> string \<Rightarrow> string \<Rightarrow> ('s, oauth_connection option) op) \<Rightarrow> (store_env \<Rightarrow> connection_args \<Rightarrow> ('s, string) op)
   \<Rightarrow> (string \<Rightarrow> string \<Rightarrow> ('s, unit) op) \<Rightarrow> connection_call \<Rightarrow> ('s, connection_reply) op" where
  "connection_op get upsert delete c =
     (case c of
        GetConnection env u p \<Rightarrow> op_bind (get env u p) (\<lambda>r. op_return (FoundConnection r))
      | UpsertConnection env a \<Rightarrow> op_bind (upsert env a) (\<lambda>i. op_return (ConnectionId i))
      | DeleteConnection u p \<Rightarrow> op_bind (delete u p) (\<lambda>_. op_return ConnectionGone))"

fun run_calls :: "('c \<Rightarrow> ('s, 'r) op) \<Rightarrow> 'c list \<Rightarrow> ('s, 'r list) op" where
  "run_calls call [] = op_return []"
| "run_calls call (c # cs) = op_bind (call c) (\<lambda>r. op_bind (run_calls call cs) (\<lambda>rs. op_return (r # rs)))"

type_synonym connection_table = "string \<times> string \<Rightarrow> oauth_connection_row option"

definition table_op :: "connection_call \<Rightarrow> (connection_table, connection_reply) op" where
  "table_op c = (\<lambda>m.
     case c of
       GetConnection env u p \<Rightarrow> (res_bind (oauth_connection_from_row env (m (u, p))) (\<lambda>r. Inr (FoundConnection r)), m)
     | UpsertConnection env a \<Rightarrow>
         (let row = upserted env a (m (ca_user_id a, ca_provider a))
          in (Inr (ConnectionId (ow_connection_id row)), m((ca_user_id a, ca_provider a) \<mapsto> row)))
     | DeleteConnection u p \<Rightarrow> (Inr ConnectionGone, m((u, p) := None)))"

lemma op_bind_Inr_iff: "op_bind m f s = (Inr y, s'') \<longleftrightarrow> (\<exists>x s'. m s = (Inr x, s') \<and> f x s' = (Inr y, s''))"
  by (auto simp: op_bind_def split: prod.splits sum.splits)

context connection_store
begin

lemma op_refines:
  "inv s \<Longrightarrow> connection_op get upsert delete c s = (Inr r, s') \<Longrightarrow> inv s' \<and> table_op c (stored s) = (Inr r, stored s')"
  by (cases c) (auto simp: connection_op_def table_op_def op_bind_Inr_iff Let_def dest: get_law upsert_law delete_law)

lemma run_refines:
  "inv s \<Longrightarrow> run_calls (connection_op get upsert delete) cs s = (Inr rs, s') \<Longrightarrow>
   inv s' \<and> run_calls table_op cs (stored s) = (Inr rs, stored s')"
proof (induction cs arbitrary: s rs)
  case (Cons c cs)
  then obtain r t rs' where run: "connection_op get upsert delete c s = (Inr r, t)"
    "run_calls (connection_op get upsert delete) cs t = (Inr rs', s')" "rs = r # rs'"
    by (auto simp: op_bind_Inr_iff)
  with op_refines [OF Cons.prems(1) run(1)] Cons.IH [of t rs'] show ?case by (simp add: op_bind_Inr_iff)
qed simp

end

subsection \<open>SQLite\<close>

definition connection_key :: "oauth_connection_row \<Rightarrow> string \<times> string" where
  "connection_key r = (ow_user_id r, ow_provider r)"

definition sqlite_stored :: "app_db \<Rightarrow> connection_table" where
  "sqlite_stored db k = List.find (\<lambda>r. connection_key r = k) (db_connections db)"

definition sqlite_connections_ok :: "app_db \<Rightarrow> bool" where
  "sqlite_connections_ok db \<longleftrightarrow> distinct (map connection_key (db_connections db)) \<and>
     distinct (map ow_connection_id (db_connections db))"

lemma sqlite_row_stored: "sqlite_connection_row u p db = sqlite_stored db (u, p)"
  by (simp add: sqlite_connection_row_def sqlite_stored_def connection_key_def)

lemma from_row_Inr: "oauth_connection_from_row env row = Inr r \<Longrightarrow>
    connection_id_for env p r = (case row of None \<Rightarrow> p @ ''_'' @ ev_uuid env | Some w \<Rightarrow> ow_connection_id w) \<and>
    created_at_for env r = (case row of None \<Rightarrow> now_text env | Some w \<Rightarrow> ow_created_at w)"
  by (auto simp: oauth_connection_from_row_def connection_id_for_def created_at_for_def res_bind_eq_Inr split: option.splits)

lemma connection_key_row [simp]:
  "connection_key (connection_row env a i t) = (ca_user_id a, ca_provider a)"
  "connection_key (r\<lparr>ow_created_at := t\<rparr>) = connection_key r"
  "ow_connection_id (connection_row env a i t) = i"
  "ow_created_at (connection_row env a i t) = t"
  by (simp_all add: connection_key_def connection_row_def)

lemma upserted_row: "upserted env a old = connection_row env a
    (case old of None \<Rightarrow> ca_provider a @ ''_'' @ ev_uuid env | Some w \<Rightarrow> ow_connection_id w)
    (case old of None \<Rightarrow> now_text env | Some w \<Rightarrow> ow_created_at w)"
  by (simp add: upserted_def split: option.split)

lemma insert_connection_stored:
  assumes "sqlite_connections_ok db" and "insert_connection row db = (Inr x, db')"
    and "\<And>old. sqlite_stored db (connection_key row) = Some old \<Longrightarrow> ow_created_at row = ow_created_at old"
  shows "sqlite_connections_ok db' \<and> sqlite_stored db' = (sqlite_stored db)(connection_key row \<mapsto> row)"
proof -
  let ?rows = "db_connections db" and ?k = "connection_key row"
  have same: "ow_user_id r = ow_user_id row \<and> ow_provider r = ow_provider row \<longleftrightarrow> connection_key r = ?k" for r
    by (auto simp: connection_key_def)
  have distinct: "distinct (map connection_key ?rows)" "distinct (map ow_connection_id ?rows)"
    using assms(1) by (simp_all add: sqlite_connections_ok_def)
  have other: "connection_key r = ?k" if "r \<in> set ?rows" "ow_connection_id r = ow_connection_id row" for r
    using assms(2) that by (auto simp: insert_connection_def same Let_def split: if_splits)
  show ?thesis
  proof (cases "\<exists>r \<in> set ?rows. connection_key r = ?k")
    case True
    then obtain old where old: "old \<in> set ?rows" "connection_key old = ?k" by blast
    have found: "sqlite_stored db ?k = Some old"
      using old find_row_iff [OF distinct(1)] by (auto simp: sqlite_stored_def)
    let ?f = "\<lambda>r. if connection_key r = ?k then row\<lparr>ow_created_at := ow_created_at r\<rparr> else r"
    have db': "db' = db\<lparr>db_connections := map ?f ?rows\<rparr>"
      using assms(2) True by (auto simp: insert_connection_def same Let_def split: if_splits)
    have mapped: "List.find (\<lambda>r. connection_key r = k) (map ?f ?rows) =
        map_option ?f (List.find (\<lambda>r. connection_key r = k) ?rows)" for k
      by (rule find_row_map [of connection_key ?f]) simp
    have keys: "map connection_key (map ?f ?rows) = map connection_key ?rows" by simp
    have "sqlite_stored db' k = ((sqlite_stored db)(?k \<mapsto> row)) k" for k
    proof (cases "k = ?k")
      case True
      then have "sqlite_stored db' k = Some (?f old)"
        using mapped found by (simp add: sqlite_stored_def db')
      with True old(2) assms(3) [OF found] show ?thesis by (cases row) simp
    next
      case False
      have "sqlite_stored db' k = map_option ?f (sqlite_stored db k)"
        using mapped by (simp add: sqlite_stored_def db')
      also have "\<dots> = sqlite_stored db k"
      proof (cases "sqlite_stored db k")
        case (Some r)
        then have "connection_key r = k" by (auto simp: sqlite_stored_def find_Some_iff)
        with Some False show ?thesis by simp
      qed simp
      finally show ?thesis using False by simp
    qed
    moreover have "distinct (map ow_connection_id (map ?f ?rows))"
    proof -
      have ids: "ow_connection_id (?f r) = (if connection_key r = ?k then ow_connection_id row else ow_connection_id r)" for r
        by simp
      have "inj_on (\<lambda>r. ow_connection_id (?f r)) (set ?rows)"
      proof (rule inj_onI)
        fix x y assume xy: "x \<in> set ?rows" "y \<in> set ?rows" "ow_connection_id (?f x) = ow_connection_id (?f y)"
        have keys: "inj_on connection_key (set ?rows)" "inj_on ow_connection_id (set ?rows)"
          using distinct by (simp_all add: distinct_map)
        have "connection_key x = connection_key y \<or> ow_connection_id x = ow_connection_id y"
          using xy other [of x] other [of y] unfolding ids by (auto split: if_splits)
        then show "x = y"
          using inj_onD [OF keys(1) _ xy(1,2)] inj_onD [OF keys(2) _ xy(1,2)] by blast
      qed
      then show ?thesis using distinct(1) by (simp add: distinct_map comp_def)
    qed
    ultimately show ?thesis
      using distinct(1) by (auto simp: sqlite_connections_ok_def db' keys simp del: map_map)
  next
    case False
    have db': "db' = db\<lparr>db_connections := ?rows @ [row]\<rparr>"
      using assms(2) False by (auto simp: insert_connection_def same Let_def split: if_splits)
    have "ow_connection_id row \<notin> ow_connection_id ` set ?rows" using other False by force
    moreover have "sqlite_stored db' k = ((sqlite_stored db)(?k \<mapsto> row)) k" for k
    proof -
      have none: "List.find (\<lambda>r. connection_key r = ?k) ?rows = None" using False by (auto simp: find_None_iff)
      show ?thesis
        by (cases "k = ?k"; cases "List.find (\<lambda>r. connection_key r = k) ?rows")
          (simp_all add: sqlite_stored_def db' find_row_append none)
    qed
    ultimately show ?thesis
      using distinct False by (auto simp: sqlite_connections_ok_def db')
  qed
qed

interpretation sqlite: connection_store sqlite_get_connection sqlite_upsert_connection sqlite_delete_connection
  sqlite_stored sqlite_connections_ok
proof unfold_locales
  fix db env u p r db'
  assume "sqlite_connections_ok db" "sqlite_get_connection env u p db = (Inr r, db')"
  then show "sqlite_connections_ok db' \<and> sqlite_stored db' = sqlite_stored db \<and>
      oauth_connection_from_row env (sqlite_stored db (u, p)) = Inr r"
    by (auto simp: sqlite_get_connection_def op_check_def sqlite_row_stored)
next
  fix db env a i db'
  assume ok: "sqlite_connections_ok db" and run: "sqlite_upsert_connection env a db = (Inr i, db')"
  let ?k = "(ca_user_id a, ca_provider a)"
  let ?row = "upserted env a (sqlite_stored db ?k)"
  obtain existing where read: "oauth_connection_from_row env (sqlite_stored db ?k) = Inr existing"
    and insert: "insert_connection (connection_row env a (connection_id_for env (ca_provider a) existing)
      (created_at_for env existing)) db = (Inr (), db')" "i = connection_id_for env (ca_provider a) existing"
    using run by (auto simp: sqlite_upsert_connection_def op_bind_Inr_iff sqlite_get_connection_def op_check_def sqlite_row_stored)
  have row: "connection_row env a (connection_id_for env (ca_provider a) existing) (created_at_for env existing) = ?row"
    using from_row_Inr [OF read] by (simp add: upserted_row)
  have "sqlite_connections_ok db' \<and> sqlite_stored db' = (sqlite_stored db)(connection_key ?row \<mapsto> ?row)"
    by (rule insert_connection_stored [OF ok insert(1) [unfolded row]]) (simp add: upserted_row)
  moreover have "i = ow_connection_id ?row" using insert(2) from_row_Inr [OF read] by (simp add: upserted_row)
  ultimately show "sqlite_connections_ok db' \<and> sqlite_stored db' = (sqlite_stored db)(?k \<mapsto> ?row) \<and> i = ow_connection_id ?row"
    by (simp add: upserted_row)
next
  fix db u p x db'
  assume "sqlite_connections_ok db" "sqlite_delete_connection u p db = (Inr x, db')"
  moreover have "(\<lambda>r. \<not> (ow_user_id r = u \<and> ow_provider r = p)) = (\<lambda>r. connection_key r \<noteq> (u, p))"
    by (auto simp: connection_key_def)
  ultimately show "sqlite_connections_ok db' \<and> sqlite_stored db' = (sqlite_stored db)((u, p) := None)"
    by (auto simp: sqlite_delete_connection_def op_modify_def sqlite_connections_ok_def sqlite_stored_def
        find_row_filter distinct_map_filter fun_eq_iff)
qed
subsection \<open>DynamoDB\<close>

text \<open>
  What the services promise of a call that returns: a consistent read gives the item under its keys and a write is seen by
  the next one; objects likewise; tables and buckets do not disturb each other. Nothing is said of secondary indexes, which
  lag behind, and of calls that fail.
\<close>

type_synonym item_tables = "string \<Rightarrow> string \<times> string \<Rightarrow> pydict option"

type_synonym buckets = "string \<times> string \<Rightarrow> string option"

definition cloud_behaves :: "'d cloud \<Rightarrow> ('d \<Rightarrow> item_tables) \<Rightarrow> ('d \<Rightarrow> buckets) \<Rightarrow> bool" where
  "cloud_behaves cl items objects \<longleftrightarrow>
     (\<forall>t k d r d'. cl_get_item cl t k d = (Inr r, d') \<longrightarrow> r = items d t k \<and> items d' = items d \<and> objects d' = objects d) \<and>
     (\<forall>t k x d d'. cl_put_item cl t k x d = (Inr (), d') \<longrightarrow>
        items d' = (items d)(t := (items d t)(k \<mapsto> x)) \<and> objects d' = objects d) \<and>
     (\<forall>t k d d'. cl_delete_item cl t k d = (Inr (), d') \<longrightarrow>
        items d' = (items d)(t := (items d t)(k := None)) \<and> objects d' = objects d) \<and>
     (\<forall>b k c d d'. cl_put_object cl b k c d = (Inr (), d') \<longrightarrow> items d' = items d \<and> objects d' = (objects d)((b, k) \<mapsto> c)) \<and>
     (\<forall>b k c d d'. cl_get_object cl b k d = (Inr c, d') \<longrightarrow>
        objects d (b, k) = Some c \<and> items d' = items d \<and> objects d' = objects d) \<and>
     (\<forall>b k d d'. cl_delete_object cl b k d = (Inr (), d') \<longrightarrow> items d' = items d \<and> objects d' = (objects d)((b, k) := None))"

lemma cloud_behavesD:
  assumes "cloud_behaves cl items objects"
  shows "cl_get_item cl t k d = (Inr r, d') \<Longrightarrow> r = items d t k \<and> items d' = items d \<and> objects d' = objects d"
    and "cl_put_item cl t k x d = (Inr (), d') \<Longrightarrow> items d' = (items d)(t := (items d t)(k \<mapsto> x)) \<and> objects d' = objects d"
    and "cl_delete_item cl t k d = (Inr (), d') \<Longrightarrow> items d' = (items d)(t := (items d t)(k := None)) \<and> objects d' = objects d"
    and "cl_put_object cl b i c d = (Inr (), d') \<Longrightarrow> items d' = items d \<and> objects d' = (objects d)((b, i) \<mapsto> c)"
    and "cl_get_object cl b i d = (Inr c, d') \<Longrightarrow> objects d (b, i) = Some c \<and> items d' = items d \<and> objects d' = objects d"
  proof -
  note laws = assms [unfolded cloud_behaves_def]
  note reads = laws [THEN conjunct1] and laws = laws [THEN conjunct2]
  note puts = laws [THEN conjunct1] and laws = laws [THEN conjunct2]
  note deletes = laws [THEN conjunct1] and laws = laws [THEN conjunct2]
  note stores = laws [THEN conjunct1] and loads = laws [THEN conjunct2, THEN conjunct1]
  show "cl_get_item cl t k d = (Inr r, d') \<Longrightarrow> r = items d t k \<and> items d' = items d \<and> objects d' = objects d"
    by (rule reads [THEN spec, THEN spec, THEN spec, THEN spec, THEN spec, THEN mp])
  show "cl_put_item cl t k x d = (Inr (), d') \<Longrightarrow> items d' = (items d)(t := (items d t)(k \<mapsto> x)) \<and> objects d' = objects d"
    by (rule puts [THEN spec, THEN spec, THEN spec, THEN spec, THEN spec, THEN mp])
  show "cl_delete_item cl t k d = (Inr (), d') \<Longrightarrow> items d' = (items d)(t := (items d t)(k := None)) \<and> objects d' = objects d"
    by (rule deletes [THEN spec, THEN spec, THEN spec, THEN spec, THEN mp])
  show "cl_put_object cl b i c d = (Inr (), d') \<Longrightarrow> items d' = items d \<and> objects d' = (objects d)((b, i) \<mapsto> c)"
    by (rule stores [THEN spec, THEN spec, THEN spec, THEN spec, THEN spec, THEN mp])
  show "cl_get_object cl b i d = (Inr c, d') \<Longrightarrow> objects d (b, i) = Some c \<and> items d' = items d \<and> objects d' = objects d"
    by (rule loads [THEN spec, THEN spec, THEN spec, THEN spec, THEN spec, THEN mp])
qed

text \<open>The row an item was made of.\<close>

definition connection_of_item :: "pydict \<Rightarrow> oauth_connection_row" where
  "connection_of_item d =
     \<lparr>ow_connection_id = item_get d ''connection_id'', ow_user_id = item_get d ''user_id'',
      ow_provider = item_get d ''provider'', ow_access_token = item_get d ''access_token'',
      ow_token_type = item_get d ''token_type'', ow_scope = item_get d ''scope'',
      ow_provider_user_id = item_optional d ''provider_user_id'',
      ow_provider_user_login = item_optional d ''provider_user_login'',
      ow_metadata_json = item_get d ''metadata_json'', ow_created_at = item_get d ''created_at'',
      ow_updated_at = item_get d ''updated_at''\<rparr>"

lemmas item_reads = item_get_def item_optional_def item_index_def item_text_def dict_get_none_def dict_index_def

lemma connection_of_item [simp]: "connection_of_item (connection_item r) = r"
  by (cases "ow_provider_user_id r"; cases "ow_provider_user_login r")
    (simp_all add: connection_of_item_def connection_item_def item_reads)

lemma oauth_connection_from_item:
  "oauth_connection_from_item env (Some (connection_item r)) = oauth_connection_from_row env (Some r)"
  by (cases "ow_provider_user_id r"; cases "ow_provider_user_login r")
    (simp_all add: oauth_connection_from_item_def oauth_connection_from_row_def connection_item_def item_reads)

definition cloud_stored :: "('d \<Rightarrow> item_tables) \<Rightarrow> string \<Rightarrow> 'd \<Rightarrow> connection_table" where
  "cloud_stored items table d k = map_option connection_of_item (items d table k)"

definition cloud_connections_ok :: "('d \<Rightarrow> item_tables) \<Rightarrow> string \<Rightarrow> 'd \<Rightarrow> bool" where
  "cloud_connections_ok items table d \<longleftrightarrow>
     (\<forall>k x. items d table k = Some x \<longrightarrow> (\<exists>r. x = connection_item r \<and> connection_key r = k))"

lemma cloud_item_row:
  assumes "cloud_connections_ok items table d"
  shows "oauth_connection_from_item env (items d table k) = oauth_connection_from_row env (cloud_stored items table d k)"
proof (cases "items d table k")
  case None
  then show ?thesis by (simp add: cloud_stored_def oauth_connection_from_item_def oauth_connection_from_row_def)
next
  case (Some x)
  with assms obtain r where "x = connection_item r" unfolding cloud_connections_ok_def by blast
  with Some show ?thesis by (simp add: cloud_stored_def oauth_connection_from_item)
qed

lemma cloud_connection_store:
  assumes cloud: "cloud_behaves cl items objects"
  shows "connection_store (cloud_get_connection cl table) (cloud_upsert_connection cl table) (cloud_delete_connection cl table)
     (cloud_stored items table) (cloud_connections_ok items table)"
proof unfold_locales
  note reads = cloud_behavesD(1) [OF cloud] and writes = cloud_behavesD(2) [OF cloud] and deletes = cloud_behavesD(3) [OF cloud]
  have same: "cloud_stored items table d' = cloud_stored items table d"
    "cloud_connections_ok items table d' = cloud_connections_ok items table d" if "items d' = items d" for d d'
    using that by (simp_all add: cloud_stored_def [abs_def] cloud_connections_ok_def)
  have get: "cloud_connections_ok items table d' \<and> cloud_stored items table d' = cloud_stored items table d \<and>
      oauth_connection_from_row env (cloud_stored items table d (u, p)) = Inr r"
    if "cloud_connections_ok items table d" "cloud_get_connection cl table env u p d = (Inr r, d')" for d env u p r d'
  proof -
    note run = that(2)
    obtain item where item: "cl_get_item cl table (u, p) d = (Inr item, d')" "oauth_connection_from_item env item = Inr r"
      using run by (auto simp: cloud_get_connection_def op_bind_Inr_iff)
    from reads [OF item(1)] have eqs: "item = items d table (u, p)" "items d' = items d" by simp_all
    have "oauth_connection_from_row env (cloud_stored items table d (u, p)) = Inr r"
      using item(2) unfolding eqs(1) cloud_item_row [OF that(1)] .
    then show ?thesis using that(1) unfolding same [OF eqs(2)] by blast
  qed
  then show "cloud_connections_ok items table d' \<and> cloud_stored items table d' = cloud_stored items table d \<and>
      oauth_connection_from_row env (cloud_stored items table d (u, p)) = Inr r"
    if "cloud_connections_ok items table d" "cloud_get_connection cl table env u p d = (Inr r, d')" for d env u p r d'
    using that by blast
  have update: "cloud_stored items table d' = (cloud_stored items table d)(k \<mapsto> row)"
    if "items d' table = (items d table)(k \<mapsto> connection_item row)" for d d' k row
    by (rule ext) (simp add: cloud_stored_def that)
  fix d env a i d'
  assume ok: "cloud_connections_ok items table d" and run: "cloud_upsert_connection cl table env a d = (Inr i, d')"
  let ?k = "(ca_user_id a, ca_provider a)"
  let ?row = "upserted env a (cloud_stored items table d ?k)"
  obtain existing d1 where read: "cloud_get_connection cl table env (ca_user_id a) (ca_provider a) d = (Inr existing, d1)"
    and put: "cl_put_item cl table ?k (connection_item (connection_row env a (connection_id_for env (ca_provider a) existing)
      (created_at_for env existing))) d1 = (Inr (), d')" "i = connection_id_for env (ca_provider a) existing"
    using run by (auto simp: cloud_upsert_connection_def op_bind_Inr_iff)
  from get [OF ok read] have d1: "cloud_connections_ok items table d1" "cloud_stored items table d1 = cloud_stored items table d"
    and row: "oauth_connection_from_row env (cloud_stored items table d ?k) = Inr existing" by simp_all
  have new: "connection_row env a (connection_id_for env (ca_provider a) existing) (created_at_for env existing) = ?row"
    using from_row_Inr [OF row] by (simp add: upserted_row)
  have "items d' = (items d1)(table := (items d1 table)(?k \<mapsto> connection_item ?row))"
    using writes [OF put(1)] by (simp add: new)
  then have items: "items d' table = (items d1 table)(?k \<mapsto> connection_item ?row)" by simp
  have "connection_key ?row = ?k" by (simp add: upserted_row)
  then have "cloud_connections_ok items table d'" using d1(1) by (auto simp: cloud_connections_ok_def items)
  moreover have "cloud_stored items table d' = (cloud_stored items table d)(?k \<mapsto> ?row)"
    using update [OF items] unfolding d1(2) .
  moreover have "i = ow_connection_id ?row" using put(2) from_row_Inr [OF row] by (simp add: upserted_row)
  ultimately show "cloud_connections_ok items table d' \<and>
      cloud_stored items table d' = (cloud_stored items table d)(?k \<mapsto> ?row) \<and> i = ow_connection_id ?row" by blast
next
  fix d u p x d'
  assume "cloud_connections_ok items table d" "cloud_delete_connection cl table u p d = (Inr x, d')"
  then show "cloud_connections_ok items table d' \<and> cloud_stored items table d' = (cloud_stored items table d)((u, p) := None)"
    by (auto simp: cloud_delete_connection_def cloud_connections_ok_def cloud_stored_def fun_eq_iff
        dest!: cloud_behavesD(3) [OF cloud] split: if_splits)
qed
subsection \<open>Either of them\<close>

lemma on_database_Inr: "on_database m (db, d) = (Inr x, s') \<longleftrightarrow> (\<exists>db'. m db = (Inr x, db') \<and> s' = (db', d))"
  by (auto simp: on_database_def split: prod.splits)

lemma on_cloud_Inr: "on_cloud m (db, d) = (Inr x, s') \<longleftrightarrow> (\<exists>d'. m d = (Inr x, d') \<and> s' = (db, d'))"
  by (auto simp: on_cloud_def split: prod.splits)

lemma connection_store_on_database:
  assumes "connection_store get upsert delete stored ok"
  shows "connection_store (\<lambda>env u p. on_database (get env u p)) (\<lambda>env a. on_database (upsert env a))
     (\<lambda>u p. on_database (delete u p)) (stored \<circ> fst) (ok \<circ> fst)"
proof -
  note store = assms
  show ?thesis
  proof unfold_locales
    fix s env u p r s'
    assume "(ok \<circ> fst) s" "on_database (get env u p) s = (Inr r, s')"
    then show "(ok \<circ> fst) s' \<and> (stored \<circ> fst) s' = (stored \<circ> fst) s \<and>
        oauth_connection_from_row env ((stored \<circ> fst) s (u, p)) = Inr r"
      using connection_store.get_law [OF store] by (cases s) (fastforce simp: on_database_Inr)
  next
    fix s env a i s'
    assume "(ok \<circ> fst) s" "on_database (upsert env a) s = (Inr i, s')"
    then show "(ok \<circ> fst) s' \<and> (stored \<circ> fst) s' = ((stored \<circ> fst) s)((ca_user_id a, ca_provider a) \<mapsto>
        upserted env a ((stored \<circ> fst) s (ca_user_id a, ca_provider a))) \<and>
        i = ow_connection_id (upserted env a ((stored \<circ> fst) s (ca_user_id a, ca_provider a)))"
      using connection_store.upsert_law [OF store] by (cases s) (fastforce simp: on_database_Inr)
  next
    fix s u p x s'
    assume "(ok \<circ> fst) s" "on_database (delete u p) s = (Inr x, s')"
    then show "(ok \<circ> fst) s' \<and> (stored \<circ> fst) s' = ((stored \<circ> fst) s)((u, p) := None)"
      using connection_store.delete_law [OF store] by (cases s) (fastforce simp: on_database_Inr)
  qed
qed

lemma connection_store_on_cloud:
  assumes "connection_store get upsert delete stored ok"
  shows "connection_store (\<lambda>env u p. on_cloud (get env u p)) (\<lambda>env a. on_cloud (upsert env a))
     (\<lambda>u p. on_cloud (delete u p)) (stored \<circ> snd) (ok \<circ> snd)"
proof -
  note store = assms
  show ?thesis
  proof unfold_locales
    fix s env u p r s'
    assume "(ok \<circ> snd) s" "on_cloud (get env u p) s = (Inr r, s')"
    then show "(ok \<circ> snd) s' \<and> (stored \<circ> snd) s' = (stored \<circ> snd) s \<and>
        oauth_connection_from_row env ((stored \<circ> snd) s (u, p)) = Inr r"
      using connection_store.get_law [OF store] by (cases s) (fastforce simp: on_cloud_Inr)
  next
    fix s env a i s'
    assume "(ok \<circ> snd) s" "on_cloud (upsert env a) s = (Inr i, s')"
    then show "(ok \<circ> snd) s' \<and> (stored \<circ> snd) s' = ((stored \<circ> snd) s)((ca_user_id a, ca_provider a) \<mapsto>
        upserted env a ((stored \<circ> snd) s (ca_user_id a, ca_provider a))) \<and>
        i = ow_connection_id (upserted env a ((stored \<circ> snd) s (ca_user_id a, ca_provider a)))"
      using connection_store.upsert_law [OF store] by (cases s) (fastforce simp: on_cloud_Inr)
  next
    fix s u p x s'
    assume "(ok \<circ> snd) s" "on_cloud (delete u p) s = (Inr x, s')"
    then show "(ok \<circ> snd) s' \<and> (stored \<circ> snd) s' = ((stored \<circ> snd) s)((u, p) := None)"
      using connection_store.delete_law [OF store] by (cases s) (fastforce simp: on_cloud_Inr)
  qed
qed

definition app_connections :: "'d app_config \<Rightarrow> ('d \<Rightarrow> item_tables) \<Rightarrow> app_db \<times> 'd \<Rightarrow> connection_table" where
  "app_connections c items = (case ac_oauth_table c of
     None \<Rightarrow> sqlite_stored \<circ> fst | Some table \<Rightarrow> cloud_stored items table \<circ> snd)"

definition app_connections_ok :: "'d app_config \<Rightarrow> ('d \<Rightarrow> item_tables) \<Rightarrow> app_db \<times> 'd \<Rightarrow> bool" where
  "app_connections_ok c items = (case ac_oauth_table c of
     None \<Rightarrow> sqlite_connections_ok \<circ> fst | Some table \<Rightarrow> cloud_connections_ok items table \<circ> snd)"

lemma app_connection_store:
  assumes "cloud_behaves (ac_cloud c) items objects"
  shows "connection_store (get_oauth_connection c) (upsert_oauth_connection c) (delete_oauth_connection c)
     (app_connections c items) (app_connections_ok c items)"
  using connection_store_on_database [OF sqlite.connection_store_axioms]
    connection_store_on_cloud [OF cloud_connection_store [OF assms]]
  by (cases "ac_oauth_table c")
    (simp_all add: get_oauth_connection_def [abs_def] upsert_oauth_connection_def [abs_def]
      delete_oauth_connection_def [abs_def] app_connections_def app_connections_ok_def)

text \<open>
  C23. Whichever service keeps the OAuth connections, SQLite or a DynamoDB that behaves, the replies to any sequence of
  reads, updates and deletions that return are those of one table by user and provider: an update keeps the identifier and
  the time of creation of a connection it replaces, and changes no other; the table is then that of the sequence.
\<close>

theorem connections_refine_a_table:
  assumes "cloud_behaves (ac_cloud c) items objects" and "app_connections_ok c items s"
    and "run_calls (connection_op (get_oauth_connection c) (upsert_oauth_connection c) (delete_oauth_connection c)) calls s
      = (Inr replies, s')"
  shows "run_calls table_op calls (app_connections c items s) = (Inr replies, app_connections c items s') \<and>
     app_connections_ok c items s'"
  using connection_store.run_refines [OF app_connection_store [OF assms(1)] assms(2,3)] by blast

text \<open>Services that keep everything in memory.\<close>

definition memory_cloud :: "(item_tables \<times> buckets) cloud" where
  "memory_cloud =
     \<lparr>cl_get_item = (\<lambda>t k d. (Inr (fst d t k), d)),
      cl_put_item = (\<lambda>t k x d. (Inr (), ((fst d)(t := (fst d t)(k \<mapsto> x)), snd d))),
      cl_delete_item = (\<lambda>t k d. (Inr (), ((fst d)(t := (fst d t)(k := None)), snd d))),
      cl_query = (\<lambda>t i v n d. (Inr [], d)),
      cl_put_object = (\<lambda>b k x d. (Inr (), (fst d, (snd d)((b, k) \<mapsto> x)))),
      cl_get_object = (\<lambda>b k d. (case snd d (b, k) of None \<Rightarrow> Inl (key_error k) | Some x \<Rightarrow> Inr x, d)),
      cl_delete_object = (\<lambda>b k d. (Inr (), (fst d, (snd d)((b, k) := None))))\<rparr>"

lemma memory_cloud_behaves: "cloud_behaves memory_cloud fst snd"
  by (auto simp: cloud_behaves_def memory_cloud_def split: option.splits)

definition sample_env :: "rat \<Rightarrow> string \<Rightarrow> store_env" where
  "sample_env now uuid =
     \<lparr>ev_now = now, ev_isoformat = (\<lambda>t. if t < 10 then ''1'' else ''2''),
      ev_fromisoformat = (\<lambda>s. if s = ''1'' then Some 1 else if s = ''2'' then Some 2000 else None), ev_uuid = uuid,
      ev_sha256 = (\<lambda>s. ''ab''), ev_loads = (\<lambda>s. Inr (PDict []))\<rparr>"

definition sample_connection :: "string \<Rightarrow> connection_args" where
  "sample_connection token = \<lparr>ca_user_id = ''u'', ca_provider = ''github'', ca_access_token = token, ca_token_type = ''bearer'',
     ca_scope = ''repo'', ca_provider_user_id = Some ''7'', ca_provider_user_login = None, ca_metadata = []\<rparr>"

definition sample_calls :: "connection_call list" where
  "sample_calls = [UpsertConnection (sample_env 1 ''a'') (sample_connection ''t1''),
     UpsertConnection (sample_env 2000 ''b'') (sample_connection ''t2''), GetConnection (sample_env 2000 ''c'') ''u'' ''github'',
     DeleteConnection ''u'' ''github'', GetConnection (sample_env 2000 ''c'') ''u'' ''github'']"

definition sample_config :: "string option \<Rightarrow> (item_tables \<times> buckets) app_config" where
  "sample_config table = configured_app ''files'' memory_cloud table None None"

definition empty_state :: "app_db \<times> item_tables \<times> buckets" where
  "empty_state = (empty_db, (\<lambda>_ _. None), (\<lambda>_. None))"

lemma connections_refine_a_table_witness:
  "\<exists>replies s'. run_calls (connection_op (get_oauth_connection (sample_config (Some ''t''))) (upsert_oauth_connection (sample_config (Some ''t'')))
       (delete_oauth_connection (sample_config (Some ''t'')))) sample_calls empty_state = (Inr replies, s') \<and>
     fst (run_calls table_op sample_calls (\<lambda>_. None)) = Inr replies \<and>
     replies ! 1 = ConnectionId ''github_a'' \<and> replies ! 4 = FoundConnection None"
proof -
  let ?c = "sample_config (Some ''t'')"
  have "case fst (run_calls (connection_op (get_oauth_connection ?c) (upsert_oauth_connection ?c) (delete_oauth_connection ?c))
      sample_calls empty_state) of Inl _ \<Rightarrow> False
    | Inr replies \<Rightarrow> replies ! 1 = ConnectionId ''github_a'' \<and> replies ! 4 = FoundConnection None"
    by code_simp
  then obtain replies s' where run: "run_calls (connection_op (get_oauth_connection ?c) (upsert_oauth_connection ?c)
      (delete_oauth_connection ?c)) sample_calls empty_state = (Inr replies, s')"
    "replies ! 1 = ConnectionId ''github_a''" "replies ! 4 = FoundConnection None"
    by (cases "run_calls (connection_op (get_oauth_connection ?c) (upsert_oauth_connection ?c) (delete_oauth_connection ?c))
      sample_calls empty_state") (auto split: sum.splits)
  have table: "ac_oauth_table ?c = Some ''t''" by code_simp
  have cloud: "cloud_behaves (ac_cloud ?c) fst snd"
    using memory_cloud_behaves by (simp add: sample_config_def configured_app_def)
  have ok: "app_connections_ok ?c fst empty_state"
    by (simp add: app_connections_ok_def table cloud_connections_ok_def empty_state_def)
  have "app_connections ?c fst empty_state = (\<lambda>_. None)"
    by (simp add: app_connections_def table cloud_stored_def [abs_def] empty_state_def fun_eq_iff)
  then show ?thesis using connections_refine_a_table [OF cloud ok run(1)] run by (auto simp del: split_paired_Ex)
qed
section \<open>Artifacts\<close>

lemma new_artifact_row:
  assumes "aw_metadata_json row \<noteq> []"
  shows "artifact_from_row env (Some row) = res_bind (new_artifact env row) (\<lambda>r. Inr (Some r))"
proof (cases "ev_loads env (aw_metadata_json row)")
  case (Inr v)
  with assms show ?thesis by (cases v) (simp_all add: artifact_from_row_def new_artifact_def load_metadata_def)
qed (use assms in \<open>simp add: artifact_from_row_def new_artifact_def load_metadata_def\<close>)

text \<open>
  The contract: the table of artifacts by user and identifier, and the bytes by address. A creation without a key needs an
  identifier that is not in use.
\<close>

locale artifact_store =
  fixes get :: "store_env \<Rightarrow> string \<Rightarrow> string \<Rightarrow> ('s, artifact_record option) op"
    and create :: "store_env \<Rightarrow> artifact_args \<Rightarrow> ('s, artifact_record) op"
    and read :: "artifact_record \<Rightarrow> ('s, string) op"
    and stored :: "'s \<Rightarrow> string \<times> string \<Rightarrow> artifact_row option"
    and content :: "'s \<Rightarrow> string \<Rightarrow> string option"
    and inv :: "'s \<Rightarrow> bool"
  assumes get_law: "inv s \<Longrightarrow> get env u i s = (Inr found, s') \<Longrightarrow>
      stored s' = stored s \<and> content s' = content s \<and> inv s' \<and> artifact_from_row env (stored s (u, i)) = Inr found"
    and create_law: "inv s \<Longrightarrow> create env a s = (Inr r, s') \<Longrightarrow>
      aa_idempotency_key a = [] \<longrightarrow> (\<forall>u. stored s (u, artifact_args_id env a) = None) \<Longrightarrow>
      inv s' \<and>
      (if stored s (aa_user_id a, artifact_args_id env a) \<noteq> None
       then artifact_from_row env (stored s (aa_user_id a, artifact_args_id env a)) = Inr (Some r) \<and>
         stored s' = stored s \<and> content s' = content s
       else \<exists>row. row = artifact_row_for env a (ar_path r) \<and> new_artifact env row = Inr r \<and>
         stored s' = (stored s)((aa_user_id a, artifact_args_id env a) \<mapsto> row) \<and>
         content s' = (content s)(ar_path r \<mapsto> aa_content a))"
    and read_law: "inv s \<Longrightarrow> read r s = (Inr c, s') \<Longrightarrow> content s (ar_path r) = Some c"
begin

text \<open>A creation with the key of an earlier one gives its artifact and changes nothing.\<close>

lemma created_found:
  assumes "inv s" and "create env a s = (Inr r, s1)"
    and "aa_idempotency_key a = [] \<longrightarrow> (\<forall>u. stored s (u, artifact_args_id env a) = None)"
  shows "inv s1 \<and> stored s1 (aa_user_id a, artifact_args_id env a) \<noteq> None \<and>
     artifact_from_row env (stored s1 (aa_user_id a, artifact_args_id env a)) = Inr (Some r)"
proof -
  have new: "artifact_from_row env (Some row) = Inr (Some r)" if "new_artifact env row = Inr r" "aw_metadata_json row \<noteq> []" for row
    by (simp add: new_artifact_row that)
  have json: "aw_metadata_json (artifact_row_for env a p) \<noteq> []" for p
    by (simp add: artifact_row_for_def artifact_metadata_json_def json_dumps_def)
  show ?thesis using create_law [OF assms] new json by (auto split: if_splits)
qed

lemma created_once:
  assumes "inv s" and "create env a s = (Inr r, s1)"
    and "aa_idempotency_key a = [] \<longrightarrow> (\<forall>u. stored s (u, artifact_args_id env a) = None)"
    and "aa_idempotency_key b \<noteq> []" "artifact_args_id env' b = artifact_args_id env a" "aa_user_id b = aa_user_id a"
    and "artifact_from_row env' = artifact_from_row env" and "create env' b s1 = (Inr r', s2)"
  shows "inv s2 \<and> r' = r \<and> stored s2 = stored s1 \<and> content s2 = content s1"
  using created_found [OF assms(1,2,3)] create_law [of s1 env' b r' s2] assms(4-8) by auto

text \<open>A new artifact reads as it was written.\<close>

lemma created_readable:
  assumes "inv s" and "create env a s = (Inr r, s1)"
    and "\<forall>u. stored s (u, artifact_args_id env a) = None" and "read r s1 = (Inr c, s2)"
  shows "c = aa_content a"
  using create_law [OF assms(1,2)] assms(3) read_law [OF _ assms(4)] by auto

end

subsection \<open>SQLite and files\<close>

definition artifact_row_key :: "artifact_row \<Rightarrow> string \<times> string" where
  "artifact_row_key r = (aw_user_id r, aw_artifact_id r)"

definition sqlite_artifacts :: "app_db \<Rightarrow> string \<times> string \<Rightarrow> artifact_row option" where
  "sqlite_artifacts db k = List.find (\<lambda>r. artifact_row_key r = k) (db_artifacts db)"

definition sqlite_content :: "app_db \<Rightarrow> string \<Rightarrow> string option" where
  "sqlite_content db = map_of (db_files db)"

definition sqlite_artifacts_ok :: "app_db \<Rightarrow> bool" where
  "sqlite_artifacts_ok db \<longleftrightarrow> distinct (map aw_artifact_id (db_artifacts db))"

lemma sqlite_artifact_row_stored: "sqlite_artifact_row u i db = sqlite_artifacts db (u, i)"
  by (simp add: sqlite_artifact_row_def sqlite_artifacts_def artifact_row_key_def)

lemma artifact_row_for_key [simp]:
  "artifact_row_key (artifact_row_for env a p) = (aa_user_id a, artifact_args_id env a)"
  "aw_artifact_id (artifact_row_for env a p) = artifact_args_id env a"
  "aw_path (artifact_row_for env a p) = p"
  by (simp_all add: artifact_row_for_def artifact_row_key_def)

lemma artifact_from_row_None [simp]: "artifact_from_row env row = Inr None \<longleftrightarrow> row = None" "artifact_from_row env None = Inr None"
  by (cases row) (auto simp: artifact_from_row_def res_bind_eq_Inr)

lemma new_artifact_path:
  assumes "new_artifact env row = Inr r"
  shows "ar_path r = aw_path row"
proof -
  obtain v where "ev_loads env (aw_metadata_json row) = Inr v" using assms by (auto simp: new_artifact_def res_bind_eq_Inr)
  with assms show ?thesis by (cases v) (simp_all add: new_artifact_def, auto)
qed

lemma sqlite_artifacts_files [simp]: "sqlite_artifacts (db\<lparr>db_files := fs\<rparr>) = sqlite_artifacts db"
  by (simp add: sqlite_artifacts_def fun_eq_iff)

lemma artifact_from_row_Some: "artifact_from_row env row = Inr (Some r) \<Longrightarrow> \<exists>w. row = Some w"
  by (cases row) (simp_all add: artifact_from_row_def)

text \<open>What storing does: the file and the row, or, when the identifier is taken, neither.\<close>

lemma store_artifact_run:
  assumes "store_artifact dir env a db = (Inr r, db')"
  shows "(artifact_args_id env a \<notin> aw_artifact_id ` set (db_artifacts db) \<and>
      new_artifact env (artifact_row_for env a (local_artifact_path dir env a)) = Inr r \<and>
      db' = db\<lparr>db_files := AList.update (local_artifact_path dir env a) (aa_content a) (db_files db),
        db_artifacts := db_artifacts db @ [artifact_row_for env a (local_artifact_path dir env a)]\<rparr>)
    \<or> sqlite_artifacts db (aa_user_id a, artifact_args_id env a) \<noteq> None"
  using assms
  by (auto simp: store_artifact_def Let_def op_bind_def op_modify_def op_catch_def insert_artifact_def sqlite_get_artifact_def
      op_check_def sqlite_artifact_row_stored dest: artifact_from_row_Some
      split: if_splits prod.splits sum.splits option.splits)

lemma sqlite_artifacts_append:
  "sqlite_artifacts db (artifact_row_key row) = None \<Longrightarrow>
   sqlite_artifacts (db\<lparr>db_files := fs, db_artifacts := db_artifacts db @ [row]\<rparr>) = (sqlite_artifacts db)(artifact_row_key row \<mapsto> row)"
proof (rule ext)
  fix k assume none: "sqlite_artifacts db (artifact_row_key row) = None"
  show "sqlite_artifacts (db\<lparr>db_files := fs, db_artifacts := db_artifacts db @ [row]\<rparr>) k =
      ((sqlite_artifacts db)(artifact_row_key row \<mapsto> row)) k"
    using none by (cases "k = artifact_row_key row"; cases "sqlite_artifacts db k")
      (simp_all add: sqlite_artifacts_def find_row_append)
qed

interpretation sqlite_artifacts: artifact_store sqlite_get_artifact "sqlite_create_artifact dir" read_local_artifact
  sqlite_artifacts sqlite_content sqlite_artifacts_ok for dir
proof unfold_locales
  fix db env u i r db'
  assume "sqlite_artifacts_ok db" "sqlite_get_artifact env u i db = (Inr r, db')"
  then show "sqlite_artifacts db' = sqlite_artifacts db \<and> sqlite_content db' = sqlite_content db \<and> sqlite_artifacts_ok db' \<and>
      artifact_from_row env (sqlite_artifacts db (u, i)) = Inr r"
    by (auto simp: sqlite_get_artifact_def op_check_def sqlite_artifact_row_stored)
next
  fix db env a r db'
  assume ok: "sqlite_artifacts_ok db" and run: "sqlite_create_artifact dir env a db = (Inr r, db')"
    and fresh: "aa_idempotency_key a = [] \<longrightarrow> (\<forall>u. sqlite_artifacts db (u, artifact_args_id env a) = None)"
  let ?k = "(aa_user_id a, artifact_args_id env a)"
  let ?row = "artifact_row_for env a (local_artifact_path dir env a)"
  show "sqlite_artifacts_ok db' \<and>
      (if sqlite_artifacts db ?k \<noteq> None
       then artifact_from_row env (sqlite_artifacts db ?k) = Inr (Some r) \<and> sqlite_artifacts db' = sqlite_artifacts db \<and>
         sqlite_content db' = sqlite_content db
       else \<exists>row. row = artifact_row_for env a (ar_path r) \<and> new_artifact env row = Inr r \<and>
         sqlite_artifacts db' = (sqlite_artifacts db)(?k \<mapsto> row) \<and>
         sqlite_content db' = (sqlite_content db)(ar_path r \<mapsto> aa_content a))"
  proof (cases "sqlite_artifacts db ?k")
    case (Some row)
    then have "aa_idempotency_key a \<noteq> []" using fresh by auto
    moreover have "artifact_from_row env (Some row) \<noteq> Inr None" by simp
    ultimately have "artifact_from_row env (Some row) = Inr (Some r) \<and> db' = db"
      using Some run by (auto simp: sqlite_create_artifact_def find_existing_artifact_def op_bind_def sqlite_get_artifact_def
          op_check_def sqlite_artifact_row_stored simp del: artifact_from_row_None split: sum.splits option.splits)
    with Some ok show ?thesis by simp
  next
    case None
    then have "store_artifact dir env a db = (Inr r, db')"
      using run by (auto simp: sqlite_create_artifact_def find_existing_artifact_def op_bind_def sqlite_get_artifact_def
          op_check_def sqlite_artifact_row_stored split: if_splits)
    from store_artifact_run [OF this] None have new: "artifact_args_id env a \<notin> aw_artifact_id ` set (db_artifacts db)"
      "new_artifact env ?row = Inr r"
      "db' = db\<lparr>db_files := AList.update (local_artifact_path dir env a) (aa_content a) (db_files db),
        db_artifacts := db_artifacts db @ [?row]\<rparr>" by blast+
    have path: "ar_path r = local_artifact_path dir env a" using new_artifact_path [OF new(2)] by simp
    have "sqlite_artifacts db (artifact_row_key ?row) = None" using None by simp
    from sqlite_artifacts_append [OF this] have stored: "sqlite_artifacts db' = (sqlite_artifacts db)(?k \<mapsto> ?row)"
      unfolding new(3) by simp
    have content: "sqlite_content db' = (sqlite_content db)(ar_path r \<mapsto> aa_content a)"
      by (simp add: sqlite_content_def new(3) path update_conv')
    have "sqlite_artifacts_ok db'" using ok new(1) by (simp add: sqlite_artifacts_ok_def new(3))
    with None stored content new(2) path show ?thesis by simp
  qed
next
  fix db r c db'
  assume "sqlite_artifacts_ok db" "read_local_artifact r db = (Inr c, db')"
  then show "sqlite_content db (ar_path r) = Some c"
    by (auto simp: read_local_artifact_def op_check_def sqlite_content_def split: option.splits)
qed
subsection \<open>DynamoDB and S3\<close>

definition artifact_of_item :: "pydict \<Rightarrow> artifact_row" where
  "artifact_of_item d =
     \<lparr>aw_artifact_id = item_get d ''artifact_id'', aw_user_id = item_get d ''user_id'',
      aw_conversation_id = item_get d ''conversation_id'', aw_workflow_id = item_get d ''workflow_id'',
      aw_name = item_get d ''name'', aw_mime_type = item_get d ''mime_type'',
      aw_size_bytes = (case dict_get_none d ''size_bytes'' of PInt n \<Rightarrow> nat n | _ \<Rightarrow> 0), aw_path = item_get d ''path'',
      aw_metadata_json = item_get d ''metadata_json'', aw_created_at = item_get d ''created_at''\<rparr>"

lemma artifact_of_item [simp]: "artifact_of_item (artifact_item r) = r"
  by (simp add: artifact_of_item_def artifact_item_def item_reads)

lemma artifact_from_item: "artifact_from_item env (Some (artifact_item r)) = artifact_from_row env (Some r)"
  by (simp add: artifact_from_item_def artifact_from_row_def artifact_item_def item_reads)

definition cloud_artifacts :: "('d \<Rightarrow> item_tables) \<Rightarrow> string \<Rightarrow> 'd \<Rightarrow> string \<times> string \<Rightarrow> artifact_row option" where
  "cloud_artifacts items table d k = map_option artifact_of_item (items d table k)"

definition cloud_artifacts_ok :: "('d \<Rightarrow> item_tables) \<Rightarrow> string \<Rightarrow> 'd \<Rightarrow> bool" where
  "cloud_artifacts_ok items table d \<longleftrightarrow>
     (\<forall>k x. items d table k = Some x \<longrightarrow> (\<exists>r. x = artifact_item r \<and> artifact_row_key r = k))"

definition s3_uri :: "string \<Rightarrow> string \<Rightarrow> string" where
  "s3_uri bucket key = ''s3://'' @ bucket @ ''/'' @ key"

text \<open>An address is that of one object.\<close>

definition cloud_content :: "('d \<Rightarrow> buckets) \<Rightarrow> 'd \<Rightarrow> string \<Rightarrow> string option" where
  "cloud_content objects d p =
     (case parse_s3_uri p of (bucket, key) \<Rightarrow> if p = s3_uri bucket key then objects d (bucket, key) else None)"

definition read_cloud_artifact :: "'d cloud \<Rightarrow> artifact_record \<Rightarrow> ('d, string) op" where
  "read_cloud_artifact cl r = (case parse_s3_uri (ar_path r) of (bucket, key) \<Rightarrow>
     if ar_path r = s3_uri bucket key then cl_get_object cl bucket key else op_raise (file_not_found (ar_path r)))"

lemma parse_s3_uri_s3_uri:
  assumes "CHR ''/'' \<notin> set bucket"
  shows "parse_s3_uri (s3_uri bucket key) = (bucket, key)"
  using partition_no_sep [OF assms, of key] by (simp add: parse_s3_uri_def s3_uri_def)

lemma cloud_artifact_item:
  assumes "cloud_artifacts_ok items table d"
  shows "artifact_from_item env (items d table k) = artifact_from_row env (cloud_artifacts items table d k)"
proof (cases "items d table k")
  case None
  then show ?thesis by (simp add: cloud_artifacts_def artifact_from_item_def)
next
  case (Some x)
  with assms obtain r where "x = artifact_item r" unfolding cloud_artifacts_ok_def by blast
  with Some show ?thesis by (simp add: cloud_artifacts_def artifact_from_item)
qed

lemma cloud_artifacts_put:
  assumes "items d' table = (items d table)(artifact_row_key row \<mapsto> artifact_item row)"
  shows "cloud_artifacts items table d' = (cloud_artifacts items table d)(artifact_row_key row \<mapsto> row)"
    and "cloud_artifacts_ok items table d \<Longrightarrow> cloud_artifacts_ok items table d'"
proof -
  show "cloud_artifacts items table d' = (cloud_artifacts items table d)(artifact_row_key row \<mapsto> row)"
    by (rule ext) (simp add: cloud_artifacts_def assms)
  show "cloud_artifacts_ok items table d'" if "cloud_artifacts_ok items table d"
    unfolding cloud_artifacts_ok_def
  proof (intro allI impI)
    fix k x assume "items d' table k = Some x"
    show "\<exists>r. x = artifact_item r \<and> artifact_row_key r = k"
    proof (cases "k = artifact_row_key row")
      case True
      with \<open>items d' table k = Some x\<close> show ?thesis by (auto simp: assms)
    next
      case False
      with \<open>items d' table k = Some x\<close> have "items d table k = Some x" by (simp add: assms)
      with that show ?thesis unfolding cloud_artifacts_ok_def by blast
    qed
  qed
qed

lemma cloud_content_put:
  assumes "CHR ''/'' \<notin> set bucket" and "objects d' = (objects d)((bucket, key) \<mapsto> c)"
  shows "cloud_content objects d' = (cloud_content objects d)(s3_uri bucket key \<mapsto> c)"
proof (rule ext)
  fix p
  show "cloud_content objects d' p = ((cloud_content objects d)(s3_uri bucket key \<mapsto> c)) p"
  proof (cases "p = s3_uri bucket key")
    case True
    then show ?thesis by (simp add: cloud_content_def parse_s3_uri_s3_uri [OF assms(1)] assms(2))
  next
    case False
    then show ?thesis by (cases "parse_s3_uri p") (auto simp: cloud_content_def assms(2))
  qed
qed

lemma cloud_same:
  assumes "items d' = items d"
  shows "cloud_artifacts items table d' = cloud_artifacts items table d"
    and "cloud_artifacts_ok items table d' = cloud_artifacts_ok items table d"
  unfolding cloud_artifacts_def [abs_def] cloud_artifacts_ok_def assms by (rule refl)+

lemma cloud_content_same: "objects d' = objects d \<Longrightarrow> cloud_content objects d' = cloud_content objects d"
  by (rule ext) (simp add: cloud_content_def split_beta)

lemma cloud_get_artifact_run:
  assumes cloud: "cloud_behaves cl items objects" and ok: "cloud_artifacts_ok items table d"
    and run: "cloud_get_artifact cl table env u i d = (Inr r, d')"
  shows "items d' = items d \<and> objects d' = objects d \<and> artifact_from_row env (cloud_artifacts items table d (u, i)) = Inr r"
proof -
  obtain item where item: "cl_get_item cl table (u, i) d = (Inr item, d')" "artifact_from_item env item = Inr r"
    using run by (auto simp: cloud_get_artifact_def op_bind_Inr_iff)
  from cloud_behavesD(1) [OF cloud item(1)] have eqs: "item = items d table (u, i)" "items d' = items d" "objects d' = objects d"
    by simp_all
  have "artifact_from_row env (cloud_artifacts items table d (u, i)) = Inr r"
    using item(2) unfolding eqs(1) cloud_artifact_item [OF ok] .
  with eqs show ?thesis by blast
qed

lemma cloud_create_artifact_run:
  assumes cloud: "cloud_behaves cl items objects" and ok: "cloud_artifacts_ok items table d"
    and run: "cloud_create_artifact cl table bucket env a d = (Inr r, d')"
    and fresh: "aa_idempotency_key a = [] \<longrightarrow> (\<forall>u. cloud_artifacts items table d (u, artifact_args_id env a) = None)"
  defines "k \<equiv> (aa_user_id a, artifact_args_id env a)"
    and "row \<equiv> artifact_row_for env a (s3_uri bucket (artifact_key env a))"
  shows "cloud_artifacts items table d k \<noteq> None \<and> artifact_from_row env (cloud_artifacts items table d k) = Inr (Some r) \<and>
       items d' = items d \<and> objects d' = objects d
     \<or> cloud_artifacts items table d k = None \<and> new_artifact env row = Inr r \<and>
       items d' table = (items d table)(k \<mapsto> artifact_item row) \<and>
       objects d' = (objects d)((bucket, artifact_key env a) \<mapsto> aa_content a)"
proof -
  obtain existing d1 where look: "(if aa_idempotency_key a = [] then op_return None
      else cloud_get_artifact cl table env (aa_user_id a) (artifact_args_id env a)) d = (Inr existing, d1)"
    and rest: "(case existing of Some r \<Rightarrow> op_return r | None \<Rightarrow>
      op_bind (cl_put_object cl bucket (artifact_key env a) (aa_content a)) (\<lambda>_.
      op_bind (cl_put_item cl table k (artifact_item row)) (\<lambda>_. op_lift (new_artifact env row)))) d1 = (Inr r, d')"
    using run unfolding cloud_create_artifact_def Let_def k_def row_def s3_uri_def op_bind_Inr_iff by blast
  have d1: "items d1 = items d" "objects d1 = objects d"
    and found: "artifact_from_row env (cloud_artifacts items table d k) = Inr existing"
    using look cloud_get_artifact_run [OF cloud ok] fresh by (auto simp: k_def split: if_splits)
  show ?thesis
  proof (cases existing)
    case None
    then obtain d2 where puts: "cl_put_object cl bucket (artifact_key env a) (aa_content a) d1 = (Inr (), d2)"
      "cl_put_item cl table k (artifact_item row) d2 = (Inr (), d')" "new_artifact env row = Inr r"
      using rest by (auto simp: op_bind_Inr_iff)
    with cloud_behavesD(4) [OF cloud puts(1)] cloud_behavesD(2) [OF cloud puts(2)] d1 found None show ?thesis by simp
  next
    case (Some e)
    with rest found d1 show ?thesis using artifact_from_row_Some by fastforce
  qed
qed

lemma cloud_artifact_store:
  assumes cloud: "cloud_behaves cl items objects" and bucket: "CHR ''/'' \<notin> set bucket"
  shows "artifact_store (cloud_get_artifact cl table) (cloud_create_artifact cl table bucket) (read_cloud_artifact cl)
     (cloud_artifacts items table) (cloud_content objects) (cloud_artifacts_ok items table)"
proof unfold_locales
  fix d env u i found d'
  assume ok: "cloud_artifacts_ok items table d" and run: "cloud_get_artifact cl table env u i d = (Inr found, d')"
  from cloud_get_artifact_run [OF cloud ok run]
  have same: "items d' = items d" "objects d' = objects d"
    and row: "artifact_from_row env (cloud_artifacts items table d (u, i)) = Inr found" by blast+
  show "cloud_artifacts items table d' = cloud_artifacts items table d \<and> cloud_content objects d' = cloud_content objects d \<and>
      cloud_artifacts_ok items table d' \<and> artifact_from_row env (cloud_artifacts items table d (u, i)) = Inr found"
    unfolding cloud_same [OF same(1)] cloud_content_same [where objects = objects, OF same(2)] using ok row by blast
next
  fix d env a r d'
  assume ok: "cloud_artifacts_ok items table d" and run: "cloud_create_artifact cl table bucket env a d = (Inr r, d')"
    and fresh: "aa_idempotency_key a = [] \<longrightarrow> (\<forall>u. cloud_artifacts items table d (u, artifact_args_id env a) = None)"
  let ?k = "(aa_user_id a, artifact_args_id env a)"
  let ?row = "artifact_row_for env a (s3_uri bucket (artifact_key env a))"
  from cloud_create_artifact_run [OF cloud ok run fresh]
  consider (old) "cloud_artifacts items table d ?k \<noteq> None" "artifact_from_row env (cloud_artifacts items table d ?k) = Inr (Some r)"
      "items d' = items d" "objects d' = objects d"
    | (new) "cloud_artifacts items table d ?k = None" "new_artifact env ?row = Inr r"
      "items d' table = (items d table)(?k \<mapsto> artifact_item ?row)"
      "objects d' = (objects d)((bucket, artifact_key env a) \<mapsto> aa_content a)"
    by (elim disjE conjE) assumption+
  then show "cloud_artifacts_ok items table d' \<and>
      (if cloud_artifacts items table d ?k \<noteq> None
       then artifact_from_row env (cloud_artifacts items table d ?k) = Inr (Some r) \<and>
         cloud_artifacts items table d' = cloud_artifacts items table d \<and> cloud_content objects d' = cloud_content objects d
       else \<exists>row. row = artifact_row_for env a (ar_path r) \<and> new_artifact env row = Inr r \<and>
         cloud_artifacts items table d' = (cloud_artifacts items table d)(?k \<mapsto> row) \<and>
         cloud_content objects d' = (cloud_content objects d)(ar_path r \<mapsto> aa_content a))"
  proof cases
    case old
    then show ?thesis unfolding cloud_same [OF old(3)] cloud_content_same [where objects = objects, OF old(4)] using ok by simp
  next
    case new
    have path: "ar_path r = s3_uri bucket (artifact_key env a)" using new_artifact_path [OF new(2)] by simp
    have items: "items d' table = (items d table)(artifact_row_key ?row \<mapsto> artifact_item ?row)" using new(3) by simp
    show ?thesis
      unfolding cloud_content_put [where objects = objects, OF bucket new(4)]
        cloud_artifacts_put(1) [where items = items and row = ?row, OF items] path
      using new(1,2) cloud_artifacts_put(2) [where items = items and row = ?row, OF items ok] by simp
  qed
next
  fix d r c d'
  assume "cloud_artifacts_ok items table d" "read_cloud_artifact cl r d = (Inr c, d')"
  then show "cloud_content objects d (ar_path r) = Some c"
    using cloud_behavesD(5) [OF cloud]
    by (cases "parse_s3_uri (ar_path r)") (auto simp: read_cloud_artifact_def cloud_content_def split: if_splits)
qed

end
