(* ===== verification/ArtifactProperties.thy ===== *)
theory ArtifactProperties
  imports AppStoreProperties StateMachine
begin

text \<open>
  The artifacts of the store whichever service keeps them, their names, what two processes that create the same artifact do
  to each other, and the OAuth states.
\<close>

section \<open>Created once\<close>

definition app_artifacts :: "'d app_config \<Rightarrow> ('d \<Rightarrow> item_tables) \<Rightarrow> app_db \<times> 'd \<Rightarrow> string \<times> string \<Rightarrow> artifact_row option" where
  "app_artifacts c items s = (case ac_artifact_store c of
     None \<Rightarrow> sqlite_artifacts (fst s) | Some (table, _) \<Rightarrow> cloud_artifacts items table (snd s))"

definition app_content :: "'d app_config \<Rightarrow> ('d \<Rightarrow> buckets) \<Rightarrow> app_db \<times> 'd \<Rightarrow> string \<Rightarrow> string option" where
  "app_content c objects s = (case ac_artifact_store c of
     None \<Rightarrow> sqlite_content (fst s) | Some _ \<Rightarrow> cloud_content objects (snd s))"

definition app_artifacts_ok :: "'d app_config \<Rightarrow> ('d \<Rightarrow> item_tables) \<Rightarrow> app_db \<times> 'd \<Rightarrow> bool" where
  "app_artifacts_ok c items s = (case ac_artifact_store c of
     None \<Rightarrow> sqlite_artifacts_ok (fst s)
   | Some (table, bucket) \<Rightarrow> cloud_artifacts_ok items table (snd s) \<and> CHR ''/'' \<notin> set bucket)"

lemma from_row_loads: "ev_loads env' = ev_loads env \<Longrightarrow> artifact_from_row env' = artifact_from_row env"
proof (rule ext)
  fix row assume "ev_loads env' = ev_loads env"
  then have "load_metadata env' = load_metadata env" by (simp add: load_metadata_def [abs_def])
  then show "artifact_from_row env' row = artifact_from_row env row" by (cases row) (simp_all add: artifact_from_row_def)
qed

lemma sqlite_create_again:
  assumes "aa_idempotency_key b \<noteq> []"
    and "artifact_from_row env (sqlite_artifacts db (aa_user_id b, artifact_args_id env b)) = Inr (Some r)"
  shows "sqlite_create_artifact dir env b db = (Inr r, db)"
  using assms by (simp add: sqlite_create_artifact_def find_existing_artifact_def op_bind_def sqlite_get_artifact_def op_check_def
      sqlite_artifact_row_stored)

text \<open>
  C24. An artifact that is created with an idempotency key is created once: creating it again in the next state, at any time
  and with any name, content or fresh identifier, changes nothing and gives the same record, on SQLite as on DynamoDB and S3
  that behave; and on SQLite the second creation does return. A new artifact is stored with its bytes.
\<close>

theorem artifact_is_created_once:
  assumes "cloud_behaves (ac_cloud c) items objects" and "app_artifacts_ok c items s"
    and "create_artifact c env a s = (Inr r, s1)" and "aa_idempotency_key a \<noteq> []"
    and "aa_user_id b = aa_user_id a" "aa_workflow_id b = aa_workflow_id a" "aa_idempotency_key b = aa_idempotency_key a"
    and "ev_sha256 env' = ev_sha256 env" "ev_loads env' = ev_loads env"
  shows "(\<forall>r' s2. create_artifact c env' b s1 = (Inr r', s2) \<longrightarrow>
       r' = r \<and> app_artifacts c items s2 = app_artifacts c items s1 \<and> app_content c objects s2 = app_content c objects s1) \<and>
     (ac_artifact_store c = None \<longrightarrow> create_artifact c env' b s1 = (Inr r, s1)) \<and>
     (app_artifacts c items s (aa_user_id a, artifact_args_id env a) = None \<longrightarrow>
       app_content c objects s1 (ar_path r) = Some (aa_content a))"
proof -
  have id: "artifact_args_id env' b = artifact_args_id env a"
    using assms(4-8) by (simp add: artifact_args_id_def artifact_id_def)
  have row: "artifact_from_row env' = artifact_from_row env" using assms(9) by (rule from_row_loads)
  have key: "aa_idempotency_key b \<noteq> []" using assms(4,7) by simp
  obtain db d where s: "s = (db, d)" by (cases s)
  show ?thesis
  proof (cases "ac_artifact_store c")
    case None
    let ?create = "sqlite_create_artifact (ac_artifact_dir c)"
    have create: "create_artifact c env a = on_database (?create env a)" for env a by (simp add: create_artifact_def None)
    obtain db1 where first: "?create env a db = (Inr r, db1)" "s1 = (db1, d)"
      using assms(3) by (auto simp: create s on_database_Inr)
    have ok: "sqlite_artifacts_ok db" using assms(2) by (simp add: app_artifacts_ok_def None s)
    have found: "artifact_from_row env' (sqlite_artifacts db1 (aa_user_id b, artifact_args_id env' b)) = Inr (Some r)"
      using sqlite_artifacts.created_found [OF ok first(1)] assms(4,5) by (simp add: id row)
    have again: "create_artifact c env' b s1 = (Inr r, s1)"
      using sqlite_create_again [OF key found] by (simp add: create first(2) on_database_def)
    have "sqlite_content db1 (ar_path r) = Some (aa_content a)"
      if "sqlite_artifacts db (aa_user_id a, artifact_args_id env a) = None"
      using sqlite_artifacts.create_law [OF ok first(1)] that assms(4) by auto
    with again show ?thesis by (simp add: None app_artifacts_def app_content_def first(2) s)
  next
    case (Some store)
    obtain table bucket where store: "store = (table, bucket)" by (cases store)
    let ?create = "cloud_create_artifact (ac_cloud c) table bucket"
    have create: "create_artifact c env a = on_cloud (?create env a)" for env a by (simp add: create_artifact_def Some store)
    obtain d1 where first: "?create env a d = (Inr r, d1)" "s1 = (db, d1)"
      using assms(3) by (auto simp: create s on_cloud_Inr)
    have ok: "cloud_artifacts_ok items table d" "CHR ''/'' \<notin> set bucket"
      using assms(2) by (simp_all add: app_artifacts_ok_def Some store s)
    note cloud = cloud_artifact_store [OF assms(1) ok(2), of table]
    have "r' = r \<and> cloud_artifacts items table d2 = cloud_artifacts items table d1 \<and>
        cloud_content objects d2 = cloud_content objects d1" if "?create env' b d1 = (Inr r', d2)" for r' d2
      using artifact_store.created_once [OF cloud ok(1) first(1) _ key id assms(5) row that] assms(4) by simp
    moreover have "cloud_content objects d1 (ar_path r) = Some (aa_content a)"
      if "cloud_artifacts items table d (aa_user_id a, artifact_args_id env a) = None"
      using artifact_store.create_law [OF cloud ok(1) first(1)] that assms(4) by auto
    ultimately show ?thesis
      by (auto simp: Some store app_artifacts_def app_content_def first(2) s create on_cloud_Inr)
  qed
qed

definition sample_artifact :: "string \<Rightarrow> string \<Rightarrow> artifact_args" where
  "sample_artifact name body = \<lparr>aa_user_id = ''u'', aa_conversation_id = ''c'', aa_workflow_id = ''w'', aa_name = name,
     aa_mime_type = ''text/plain'', aa_content = body, aa_metadata = [], aa_idempotency_key = ''k''\<rparr>"

definition sample_creation :: "artifact_record res \<times> app_db \<times> item_tables \<times> buckets" where
  "sample_creation = create_artifact (sample_config None) (sample_env 1 ''a'') (sample_artifact ''../notes.md'' ''hello'') empty_state"

lemma sample_artifact_created:
  "case fst sample_creation of Inr r \<Rightarrow> ar_path r = ''files/artifact_ab-notes.md'' | Inl _ \<Rightarrow> False"
  by code_simp

lemma artifact_is_created_once_witness:
  "\<exists>r s1. sample_creation = (Inr r, s1) \<and> ar_path r = ''files/artifact_ab-notes.md'' \<and>
     create_artifact (sample_config None) (sample_env 2000 ''b'') (sample_artifact ''other'' ''bye'') s1 = (Inr r, s1)"
proof -
  obtain r where r: "fst sample_creation = Inr r" "ar_path r = ''files/artifact_ab-notes.md''"
    using sample_artifact_created by (cases "fst sample_creation") simp_all
  define s1 where "s1 = snd sample_creation"
  have creation: "sample_creation = (Inr r, s1)" unfolding s1_def r(1) [symmetric] by simp
  then have run: "create_artifact (sample_config None) (sample_env 1 ''a'') (sample_artifact ''../notes.md'' ''hello'')
      empty_state = (Inr r, s1)" unfolding sample_creation_def .
  have cloud: "cloud_behaves (ac_cloud (sample_config None)) fst snd"
    using memory_cloud_behaves by (simp add: sample_config_def configured_app_def)
  have local: "ac_artifact_store (sample_config None) = None" by code_simp
  have ok: "app_artifacts_ok (sample_config None) fst empty_state"
    by (simp add: app_artifacts_ok_def local sqlite_artifacts_ok_def empty_state_def empty_db_def)
  have "create_artifact (sample_config None) (sample_env 2000 ''b'') (sample_artifact ''other'' ''bye'') s1 = (Inr r, s1)"
    by (rule artifact_is_created_once [OF cloud ok run, THEN conjunct2, THEN conjunct1, THEN mp, OF _ _ _ _ _ _ local])
      (simp_all add: sample_artifact_def sample_env_def)
  with creation r(2) show ?thesis by blast
qed

text \<open>
  Two processes that create the same artifact on SQLite at the same time: both find nothing, the first writes the file and
  the row, the second writes the same file, fails to insert its row and removes the file, which is that of the first.
\<close>

definition after_lost_race :: "(artifact_record res \<times> string option) option" where
  "after_lost_race =
     (let a = sample_artifact ''notes.md'' ''hello''; env = sample_env 1 ''x'' in
      case (find_existing_artifact env a empty_db, find_existing_artifact env a empty_db) of
        ((Inr None, _), (Inr None, _)) \<Rightarrow>
          (case store_artifact ''files'' env a empty_db of
             (Inr first, db) \<Rightarrow>
               (case store_artifact ''files'' env a db of
                  (second, db) \<Rightarrow> Some (second, map_of (db_files db) (ar_path first)))
           | _ \<Rightarrow> None)
      | _ \<Rightarrow> None)"

lemma lost_race_removes_file:
  "case after_lost_race of Some (Inr r, file) \<Rightarrow> ar_name r = ''notes.md'' \<and> file = None | _ \<Rightarrow> False"
  by code_simp
section \<open>Names of artifacts\<close>

lemma underscore_runs_chars: "list_all artifact_char (underscore_runs b s)"
  by (induction b s rule: underscore_runs.induct) (simp_all add: artifact_char_def)

lemma strip_chars_ends: "\<exists>before after. s = before @ strip_chars p s @ after"
proof -
  have "s = takeWhile p s @ dropWhile p s" by simp
  moreover have "rev (dropWhile p s) = takeWhile p (rev (dropWhile p s)) @ dropWhile p (rev (dropWhile p s))" by simp
  then have "dropWhile p s = strip_chars p s @ rev (takeWhile p (rev (dropWhile p s)))"
    unfolding strip_chars_def by (metis rev_append rev_rev_ident)
  ultimately show ?thesis by metis
qed

lemma strip_chars_hd:
  assumes "strip_chars p s \<noteq> []"
  shows "\<not> p (hd (strip_chars p s))"
proof -
  let ?t = "dropWhile p s"
  have "rev ?t = takeWhile p (rev ?t) @ dropWhile p (rev ?t)" by simp
  then have t: "?t = strip_chars p s @ rev (takeWhile p (rev ?t))"
    unfolding strip_chars_def by (metis rev_append rev_rev_ident)
  have "?t \<noteq> []" using assms by (subst t) simp
  moreover have "hd ?t = hd (strip_chars p s)" using t assms by (metis hd_append2)
  ultimately show ?thesis by (metis hd_dropWhile)
qed

text \<open>
  Whatever the name of an artifact is, with separators, dots or control characters, the name it is stored under is one
  component of a path: never empty, at most 160 characters, of letters, digits, dots, underscores, spaces and hyphens only,
  and it does not begin with a space or a dot, so it is no hidden file and not the directory above.
\<close>

theorem artifact_name_is_safe:
  "safe_artifact_name name \<noteq> [] \<and> length (safe_artifact_name name) \<le> 160 \<and> list_all artifact_char (safe_artifact_name name) \<and>
   hd (safe_artifact_name name) \<notin> {CHR '' '', CHR ''.''} \<and> CHR ''/'' \<notin> set (safe_artifact_name name)"
proof -
  define s where "s = strip_chars (\<lambda>c. c = CHR '' '' \<or> c = CHR ''.'') (underscore_runs False (path_name (py_strip name)))"
  have chars: "list_all artifact_char s"
    unfolding s_def by (rule strip_chars_subset [OF underscore_runs_chars])
  have def: "safe_artifact_name name = (if take 160 s = [] then ''artifact.txt'' else take 160 s)"
    by (simp add: safe_artifact_name_def s_def Let_def)
  have slash: "\<not> artifact_char CHR ''/''" by code_simp
  have "list_all artifact_char (safe_artifact_name name)"
  proof (cases "take 160 s = []")
    case True
    then have "safe_artifact_name name = ''artifact.txt''" by (simp add: def)
    then show ?thesis by (simp only:) code_simp
  next
    case False
    with chars show ?thesis by (auto simp: def list_all_iff dest: in_set_takeD)
  qed
  moreover have "hd (safe_artifact_name name) \<notin> {CHR '' '', CHR ''.''}"
  proof (cases s)
    case Nil
    then show ?thesis by (simp add: def)
  next
    case (Cons c cs)
    then have "s \<noteq> []" by simp
    from strip_chars_hd [OF this [unfolded s_def]] have "hd s \<noteq> CHR '' ''" "hd s \<noteq> CHR ''.''" by (simp_all add: s_def)
    with Cons show ?thesis by (simp add: def)
  qed
  moreover from calculation have "CHR ''/'' \<notin> set (safe_artifact_name name)" using slash by (auto simp: list_all_iff)
  ultimately show ?thesis by (simp add: def)
qed

section \<open>OAuth states\<close>

datatype state_call = CreateState store_env string string pydict | ConsumeState store_env string string rat

definition state_after :: "state_call \<Rightarrow> app_db \<Rightarrow> app_db" where
  "state_after c db =
     (case c of
        CreateState env u p metadata \<Rightarrow> snd (create_oauth_state env u p metadata db)
      | ConsumeState env st p age \<Rightarrow> snd (consume_oauth_state env st p age db))"

abbreviation states_after :: "state_call list \<Rightarrow> app_db \<Rightarrow> app_db" where
  "states_after \<equiv> fold state_after"

definition creates_state :: "string \<Rightarrow> state_call \<Rightarrow> bool" where
  "creates_state st c = (case c of CreateState env u p metadata \<Rightarrow> ev_uuid env = st | ConsumeState env s p age \<Rightarrow> False)"

definition state_row :: "store_env \<Rightarrow> string \<Rightarrow> string \<Rightarrow> pydict \<Rightarrow> oauth_state_row" where
  "state_row env u p metadata = \<lparr>os_state = ev_uuid env, os_user_id = u, os_provider = p,
     os_metadata_json = json_dumps (PDict metadata), os_created_at = now_text env\<rparr>"

definition made_by :: "state_call list \<Rightarrow> oauth_state_row \<Rightarrow> bool" where
  "made_by calls r \<longleftrightarrow> (\<exists>env u p metadata. CreateState env u p metadata \<in> set calls \<and> r = state_row env u p metadata)"

definition states_ok :: "state_call list \<Rightarrow> app_db \<Rightarrow> bool" where
  "states_ok calls db \<longleftrightarrow> distinct (map os_state (db_states db)) \<and> (\<forall>r \<in> set (db_states db). made_by calls r)"

lemma made_by_more: "made_by calls r \<Longrightarrow> made_by (calls @ [c]) r"
  unfolding made_by_def set_append by blast

lemma made_by_last: "made_by (calls @ [CreateState env u p metadata]) (state_row env u p metadata)"
  unfolding made_by_def set_append list.set by blast

lemma db_states_after:
  "db_states (state_after c db) =
     (case c of
        CreateState env u p metadata \<Rightarrow>
          if ev_uuid env \<in> os_state ` set (db_states db) then db_states db else db_states db @ [state_row env u p metadata]
      | ConsumeState env st p age \<Rightarrow> filter (\<lambda>r. \<not> (os_state r = st \<and> os_provider r = p)) (db_states db))"
  by (simp add: state_after_def create_oauth_state_def consume_oauth_state_def state_row_def Let_def split: state_call.split)

lemma states_ok_step: "states_ok calls db \<Longrightarrow> states_ok (calls @ [c]) (state_after c db)"
proof (cases c)
  case (CreateState env u p metadata)
  assume "states_ok calls db"
  moreover have "os_state (state_row env u p metadata) = ev_uuid env" by (simp add: state_row_def)
  ultimately show ?thesis
    using made_by_more made_by_last by (auto simp: states_ok_def db_states_after CreateState)
next
  case (ConsumeState env st p age)
  assume "states_ok calls db"
  then show ?thesis using made_by_more by (simp add: states_ok_def db_states_after ConsumeState distinct_map_filter)
qed

lemma states_ok_after: "states_ok before db \<Longrightarrow> states_ok (before @ calls) (states_after calls db)"
proof (induction calls arbitrary: before db)
  case (Cons c calls)
  from Cons.IH [OF states_ok_step [OF Cons.prems]] show ?case by simp
qed simp

lemma state_stays_gone:
  "st \<notin> os_state ` set (db_states db) \<Longrightarrow> list_all (\<lambda>c. \<not> creates_state st c) calls \<Longrightarrow>
   st \<notin> os_state ` set (db_states (states_after calls db))"
proof (induction calls arbitrary: db)
  case (Cons c calls)
  have "st \<notin> os_state ` set (db_states (state_after c db))"
    using Cons.prems by (cases c) (auto simp: db_states_after creates_state_def state_row_def)
  with Cons show ?case by simp
qed simp

lemma consume_missing: "st \<notin> os_state ` set (db_states db) \<Longrightarrow> fst (consume_oauth_state env st p age db) = Inr None"
proof -
  assume "st \<notin> os_state ` set (db_states db)"
  then have "List.find (\<lambda>r. os_state r = st \<and> os_provider r = p) (db_states db) = None" by (auto simp: find_None_iff)
  then show ?thesis by (simp add: consume_oauth_state_def Let_def)
qed

text \<open>
  C25. A state of an OAuth flow is worth one callback: it is accepted only for the user, the provider and the metadata it was
  created with, while it is no older than the limit, and, whatever is created and consumed afterwards, never again unless the
  same identifier is drawn once more.
\<close>

theorem oauth_state_is_single_use:
  assumes "consume_oauth_state env st p age (states_after calls empty_db) = (Inr (Some (u, m)), db)"
  shows "(\<exists>env0 metadata t. CreateState env0 u p metadata \<in> set calls \<and> ev_uuid env0 = st \<and>
       ev_loads env (json_dumps (PDict metadata)) = Inr m \<and>
       ev_fromisoformat env (now_text env0) = Some t \<and> ev_now env - age \<le> t) \<and>
     (\<forall>more env' p' age'. list_all (\<lambda>c. \<not> creates_state st c) more \<longrightarrow>
       fst (consume_oauth_state env' st p' age' (states_after more db)) = Inr None)"
proof -
  let ?db = "states_after calls empty_db"
  have "states_ok [] empty_db" by (simp add: states_ok_def empty_db_def)
  from states_ok_after [OF this] have ok: "states_ok calls ?db" by simp
  obtain r t where r: "List.find (\<lambda>r. os_state r = st \<and> os_provider r = p) (db_states ?db) = Some r"
    "ev_fromisoformat env (os_created_at r) = Some t" "ev_now env - age \<le> t" "os_user_id r = u"
    "ev_loads env (os_metadata_json r) = Inr m"
    using assms by (auto simp: consume_oauth_state_def Let_def res_bind_eq_Inr split: option.splits if_splits)
  then have row: "r \<in> set (db_states ?db)" "os_state r = st" "os_provider r = p" by (auto simp: find_Some_iff)
  with ok obtain env0 u0 p0 metadata where made: "CreateState env0 u0 p0 metadata \<in> set calls" "r = state_row env0 u0 p0 metadata"
    unfolding states_ok_def made_by_def by blast
  have db: "db_states db = filter (\<lambda>r. \<not> (os_state r = st \<and> os_provider r = p)) (db_states ?db)"
    using assms by (auto simp: consume_oauth_state_def Let_def)
  have "inj_on os_state (set (db_states ?db))" using ok by (simp add: states_ok_def distinct_map)
  then have "st \<notin> os_state ` set (db_states db)"
    using row unfolding db by (auto dest: inj_onD)
  from consume_missing [OF state_stays_gone [OF this]]
  have "list_all (\<lambda>c. \<not> creates_state st c) more \<Longrightarrow> fst (consume_oauth_state env' st p' age' (states_after more db)) = Inr None"
    for more env' p' age' .
  moreover have "u0 = u" "p0 = p" "ev_uuid env0 = st" using made(2) r(4) row by (simp_all add: state_row_def)
  ultimately show ?thesis
    using made(1) r(2,3,5) unfolding made(2)
    by (intro conjI allI impI exI [of _ env0] exI [of _ metadata] exI [of _ t]) (simp_all add: state_row_def)
qed

definition sample_states :: "state_call list" where
  "sample_states = [CreateState (sample_env 1 ''s1'') ''u'' ''github'' [], CreateState (sample_env 1 ''s2'') ''v'' ''github'' [],
     ConsumeState (sample_env 1 ''x'') ''s2'' ''github'' 600]"

lemma oauth_state_is_single_use_witness:
  "\<exists>db. consume_oauth_state (sample_env 2 ''x'') ''s1'' ''github'' 600 (states_after sample_states empty_db)
      = (Inr (Some (''u'', PDict [])), db) \<and>
     fst (consume_oauth_state (sample_env 3 ''x'') ''s1'' ''github'' 600 db) = Inr None"
proof -
  have "fst (consume_oauth_state (sample_env 2 ''x'') ''s1'' ''github'' 600 (states_after sample_states empty_db))
      = Inr (Some (''u'', PDict []))"
    by code_simp
  then obtain db where run: "consume_oauth_state (sample_env 2 ''x'') ''s1'' ''github'' 600 (states_after sample_states empty_db)
      = (Inr (Some (''u'', PDict [])), db)"
    by (metis prod.collapse)
  from oauth_state_is_single_use [OF run, THEN conjunct2, THEN spec, of "[]"] run show ?thesis by auto
qed

end
