(* ===== verification/Base64.thy ===== *)
theory Base64
  imports Prelude
begin

text \<open>
  Python's \<open>base64\<close>: encoding, and decoding as \<open>binascii.a2b_base64\<close> does it, strictly (\<open>validate=True\<close>) or skipping
  characters that are not of the alphabet, and the variant without padding of \<open>simple_chat_agent/api/auth.py\<close>. A byte
  string is a list of characters.
\<close>

section \<open>Sextets\<close>

definition sextet_char :: "nat \<Rightarrow> char" where
  "sextet_char n =
     (if n < 26 then char_of (65 + n) else if n < 52 then char_of (71 + n) else if n < 62 then char_of (n - 4)
      else if n = 62 then CHR ''+'' else CHR ''/'')"

definition char_sextet :: "char \<Rightarrow> nat option" where
  "char_sextet c =
     (let n = code c in
      if 65 \<le> n \<and> n \<le> 90 then Some (n - 65) else if 97 \<le> n \<and> n \<le> 122 then Some (n - 71)
      else if 48 \<le> n \<and> n \<le> 57 then Some (n + 4)
      else if c = CHR ''+'' then Some 62 else if c = CHR ''/'' then Some 63 else None)"

fun b64encode :: "string \<Rightarrow> string" where
  "b64encode [] = []"
| "b64encode [a] = [sextet_char (code a div 4), sextet_char (code a mod 4 * 16), CHR ''='', CHR ''='']"
| "b64encode [a, b] =
     [sextet_char (code a div 4), sextet_char (code a mod 4 * 16 + code b div 16), sextet_char (code b mod 16 * 4), CHR ''='']"
| "b64encode (a # b # c # s) =
     [sextet_char (code a div 4), sextet_char (code a mod 4 * 16 + code b div 16),
      sextet_char (code b mod 16 * 4 + code c div 64), sextet_char (code c mod 64)] @ b64encode s"

section \<open>Decoding\<close>

definition binascii_error :: py_exn where
  "binascii_error = PyExn ExcValueError ''Invalid base64-encoded string'' None None"

text \<open>The whole bytes of the sextets of a group.\<close>

fun group_bytes :: "nat list \<Rightarrow> string" where
  "group_bytes [p, q] = [char_of (p * 4 + q div 16)]"
| "group_bytes [p, q, r] = [char_of (p * 4 + q div 16), char_of (q mod 16 * 16 + r div 4)]"
| "group_bytes [p, q, r, t] =
     [char_of (p * 4 + q div 16), char_of (q mod 16 * 16 + r div 4), char_of (r mod 4 * 64 + t)]"
| "group_bytes _ = []"

text \<open>
  \<open>pend\<close> holds the sextets of the group that has begun, \<open>started\<close> whether a padding character was seen, \<open>pads\<close> those since
  the last sextet. Enough padding ends the input.
\<close>

fun a2b_base64 :: "bool \<Rightarrow> bool \<Rightarrow> nat \<Rightarrow> nat list \<Rightarrow> string \<Rightarrow> string res" where
  "a2b_base64 strict started pads pend [] = (if pend = [] then Inr [] else Inl binascii_error)"
| "a2b_base64 strict started pads pend (c # s) =
     (if c = CHR ''='' then
        (if 2 \<le> length pend \<and> 4 \<le> length pend + pads + 1
         then (if strict \<and> s \<noteq> [] then Inl binascii_error else Inr (group_bytes pend))
         else a2b_base64 strict True (if 2 \<le> length pend then pads + 1 else pads) pend s)
      else
        (case char_sextet c of
           None \<Rightarrow> (if strict then Inl binascii_error else a2b_base64 strict started pads pend s)
         | Some n \<Rightarrow>
             (if strict \<and> started then Inl binascii_error
              else if length pend = 3
              then res_bind (a2b_base64 strict started 0 [] s) (\<lambda>rest. Inr (group_bytes (pend @ [n]) @ rest))
              else a2b_base64 strict started 0 (pend @ [n]) s)))"

definition b64decode :: "bool \<Rightarrow> string \<Rightarrow> string res" where
  "b64decode validate s =
     (if validate \<and> py_startswith s ''='' then Inl binascii_error else a2b_base64 validate False 0 [] s)"

section \<open>The alphabet for addresses, without padding\<close>

definition url_char :: "char \<Rightarrow> char" where
  "url_char c = (if c = CHR ''+'' then CHR ''-'' else if c = CHR ''/'' then CHR ''_'' else c)"

definition plain_char :: "char \<Rightarrow> char" where
  "plain_char c = (if c = CHR ''-'' then CHR ''+'' else if c = CHR ''_'' then CHR ''/'' else c)"

definition base64url_encode :: "string \<Rightarrow> string" where
  "base64url_encode raw = rev (dropWhile (\<lambda>c. c = CHR ''='') (rev (map url_char (b64encode raw))))"

text \<open>A text that is not ASCII raises a \<open>ValueError\<close>.\<close>

definition ascii_text :: "string \<Rightarrow> bool" where
  "ascii_text s = list_all (\<lambda>c. code c < 128) s"

definition base64url_decode :: "string \<Rightarrow> string res" where
  "base64url_decode s =
     (if ascii_text s then b64decode False (map plain_char (s @ replicate (nat (- int (length s) mod 4)) (CHR ''='')))
      else Inl (value_error ''string argument should contain only ASCII characters''))"

section \<open>Round trips\<close>

lemma code_sextet: "n < 64 \<Longrightarrow> code (sextet_char n) =
    (if n < 26 then 65 + n else if n < 52 then 71 + n else if n < 62 then n - 4 else if n = 62 then 43 else 47)"
  by (auto simp: sextet_char_def code_def)

lemma char_sextet_char [simp]: "n < 64 \<Longrightarrow> char_sextet (sextet_char n) = Some n"
  by (auto simp: char_sextet_def code_sextet Let_def sextet_char_def code_def)

lemma char_of_code [simp]: "char_of (code c) = c"
  by (simp add: code_def)

lemma code_halves [simp]:
  "char_of (code a div 4 * 4 + code a mod 4) = a"
  "char_of (code a div 16 * 16 + code a mod 16) = a" "char_of (code a mod 16 + code a div 16 * 16) = a"
  "char_of (code a div 64 * 64 + code a mod 64) = a"
  by (simp_all add: add.commute)

lemma sextet_bounds [simp]:
  shows "code a div 4 < 64" and "code a mod 4 * 16 + code b div 16 < 64" and "code b mod 16 * 4 + code c div 64 < 64"
    and "code a mod 4 * 16 < 64" and "code b mod 16 * 4 < 64" and "code c mod 64 < 64"
    and "code b div 16 mod 16 = code b div 16" and "code c div 64 mod 4 = code c div 64"
proof -
  note less = code_less [of a] code_less [of b] code_less [of c]
  show "code a div 4 < 64" using less by linarith
  show "code a mod 4 * 16 + code b div 16 < 64" using less by linarith
  show "code b mod 16 * 4 + code c div 64 < 64" using less by linarith
  show "code a mod 4 * 16 < 64" by linarith
  show "code b mod 16 * 4 < 64" by linarith
  show "code c mod 64 < 64" by simp
  show "code b div 16 mod 16 = code b div 16" using less by simp
  show "code c div 64 mod 4 = code c div 64" using less by simp
qed

lemma group_parts [simp]:
  "(code a mod 4 * 16 + code b div 16) div 16 = code a mod 4" "(code a mod 4 * 16 + code b div 16) mod 16 = code b div 16"
  "(code b mod 16 * 4 + code c div 64) div 4 = code b mod 16" "(code b mod 16 * 4 + code c div 64) mod 4 = code c div 64"
  using code_less [of b] code_less [of c] by (simp_all add: div_add1_eq mod_add_eq [symmetric])

lemma sextet_no_pad: "n < 64 \<Longrightarrow> sextet_char n \<noteq> CHR ''=''"
proof
  assume "n < 64" "sextet_char n = CHR ''=''"
  then have "code (sextet_char n) = 61" by (simp add: code_def)
  with \<open>n < 64\<close> show False by (simp add: code_sextet split: if_splits)
qed

lemma a2b_encode: "a2b_base64 strict False pads [] (b64encode s) = Inr s"
proof (induction s arbitrary: pads rule: b64encode.induct)
  case (4 a b c s)
  show ?case using 4 by (simp add: sextet_no_pad)
qed (simp_all add: sextet_no_pad)

theorem b64decode_encode: "b64decode validate (b64encode s) = Inr s"
proof -
  have "\<not> py_startswith (b64encode s) ''=''"
    by (induction s rule: b64encode.induct) (simp_all add: py_startswith_def sextet_no_pad)
  then show ?thesis by (simp add: b64decode_def a2b_encode)
qed

definition body_char :: "char \<Rightarrow> bool" where
  "body_char c = (c \<noteq> CHR ''='' \<and> c \<noteq> CHR ''-'' \<and> c \<noteq> CHR ''_'' \<and> c \<noteq> CHR ''.'' \<and> code c < 128)"

lemma sextet_body: "n < 64 \<Longrightarrow> body_char (sextet_char n)"
proof -
  assume n: "n < 64"
  have "code (sextet_char n) \<noteq> 61 \<and> code (sextet_char n) \<noteq> 45 \<and> code (sextet_char n) \<noteq> 95 \<and>
      code (sextet_char n) \<noteq> 46 \<and> code (sextet_char n) < 128"
    using n by (auto simp: code_sextet)
  then show ?thesis by (auto simp: body_char_def code_def)
qed

text \<open>An encoding is its body and as much padding as makes its length a multiple of four.\<close>

lemma b64encode_shape: "\<exists>body k. b64encode s = body @ replicate k (CHR ''='') \<and> k = nat (- int (length body) mod 4) \<and>
    list_all body_char body"
proof (induction s rule: b64encode.induct)
  case 1
  show ?case by (rule exI [of _ "[]"]) simp
next
  case (2 a)
  show ?case
    by (rule exI [of _ "take 2 (b64encode [a])"]) (simp add: sextet_body numeral_2_eq_2)
next
  case (3 a b)
  show ?case
    by (rule exI [of _ "take 3 (b64encode [a, b])"]) (simp add: sextet_body numeral_3_eq_3)
next
  case (4 a b c s)
  then obtain body k where s: "b64encode s = body @ replicate k (CHR ''='')" "k = nat (- int (length body) mod 4)"
    "list_all body_char body" by blast
  have "- int (4 + length body) mod 4 = - int (length body) mod 4" by presburger
  with s show ?case
    by (intro exI [of _ "take 4 (b64encode (a # b # c # s)) @ body"] exI [of _ k]) (simp add: sextet_body)
qed

lemma drop_padding: "list_all body_char body \<Longrightarrow>
    rev (dropWhile (\<lambda>c. c = CHR ''='') (rev (map url_char (body @ replicate k (CHR ''=''))))) = map url_char body"
proof -
  assume body: "list_all body_char body"
  have pads: "url_char (CHR ''='') = CHR ''=''" by (simp add: url_char_def)
  have "dropWhile (\<lambda>c. c = CHR ''='') (replicate k (CHR ''='') @ ys) = dropWhile (\<lambda>c. c = CHR ''='') ys" for ys :: string
    by (induction k) simp_all
  moreover have "dropWhile (\<lambda>c. c = CHR ''='') (rev (map url_char body)) = rev (map url_char body)"
    using body by (cases body rule: rev_cases) (auto simp: body_char_def url_char_def)
  ultimately show ?thesis by (simp add: pads)
qed

lemma plain_url: "list_all body_char body \<Longrightarrow> map plain_char (map url_char body) = body"
  by (induction body) (auto simp: body_char_def url_char_def plain_char_def)

theorem base64url_round_trip: "base64url_decode (base64url_encode raw) = Inr raw"
proof -
  obtain body k where raw: "b64encode raw = body @ replicate k (CHR ''='')" "k = nat (- int (length body) mod 4)"
    "list_all body_char body" using b64encode_shape by blast
  have url: "base64url_encode raw = map url_char body" unfolding base64url_encode_def raw(1) using raw(3) by (rule drop_padding)
  have "map plain_char (map url_char body @ replicate k (CHR ''='')) = b64encode raw"
    unfolding map_append plain_url [OF raw(3)] raw(1) by (simp add: plain_char_def)
  moreover have "ascii_text (map url_char body)"
    using raw(3) unfolding ascii_text_def by (induction body) (auto simp: body_char_def url_char_def code_def)
  ultimately show ?thesis using raw(2)
    by (simp add: base64url_decode_def url b64decode_encode del: map_append map_map map_replicate)
qed

text \<open>An encoding is ASCII and has no dot.\<close>

lemma base64url_chars: "ascii_text (base64url_encode raw) \<and> CHR ''.'' \<notin> set (base64url_encode raw)"
proof -
  obtain body k where raw: "b64encode raw = body @ replicate k (CHR ''='')" "list_all body_char body"
    using b64encode_shape by blast
  have url: "base64url_encode raw = map url_char body" unfolding base64url_encode_def raw(1) using raw(2) by (rule drop_padding)
  show ?thesis using raw(2) unfolding url ascii_text_def
    by (induction body) (auto simp: body_char_def url_char_def code_def)
qed

end
