(* ===== verification/UserAttachments.thy ===== *)
theory UserAttachments
  imports ChatWorkflow Streaming Base64 StreamBroker CloudStore
begin

text \<open>
  The files of the user and of the agent on their way in and out of the store: \<open>common/attachments.py\<close> (uploads and pasted
  text), the tools \<open>read_attachment\<close> and \<open>create_artifact\<close> (\<open>worker/tools/attachments.py\<close>, \<open>worker/tools/artifacts.py\<close>),
  and the answers that serve them (\<open>api/artifacts.py\<close>). File contents are byte strings.
\<close>

section \<open>Text in byte strings\<close>

text \<open>
  What the code takes from the codecs and from \<open>mimetypes\<close>, \<open>hashlib\<close> and \<open>float\<close>: decoding with a named encoding (an
  unknown one is a \<open>LookupError\<close>, bytes that are not of it a \<open>UnicodeDecodeError\<close>), decoding as UTF-8 with replacement
  characters, encoding to UTF-8, the type that a file name suggests, SHA-256, and the whole part of a
  float.
\<close>

record text_codec =
  tc_decode :: "string \<Rightarrow> string \<Rightarrow> string res"
  tc_decode_replace :: "string \<Rightarrow> string"
  tc_encode :: "string \<Rightarrow> string"
  tc_guess_type :: "string \<Rightarrow> string option"
  tc_sha256 :: "string \<Rightarrow> string"
  tc_float_int :: "string \<Rightarrow> int res"

text \<open>The byte strings that \<open>bytes.decode("utf-8")\<close> accepts.\<close>

definition utf8_next :: "char \<Rightarrow> bool" where
  "utf8_next b = (128 \<le> code b \<and> code b \<le> 191)"

definition utf8_two :: "char \<Rightarrow> char \<Rightarrow> bool" where
  "utf8_two a b = (194 \<le> code a \<and> code a \<le> 223 \<and> utf8_next b)"

definition utf8_three :: "char \<Rightarrow> char \<Rightarrow> char \<Rightarrow> bool" where
  "utf8_three a b c = (224 \<le> code a \<and> code a \<le> 239 \<and> utf8_next b \<and> utf8_next c \<and>
     (code a = 224 \<longrightarrow> 160 \<le> code b) \<and> (code a = 237 \<longrightarrow> code b \<le> 159))"

definition utf8_four :: "char \<Rightarrow> char \<Rightarrow> char \<Rightarrow> char \<Rightarrow> bool" where
  "utf8_four a b c d = (240 \<le> code a \<and> code a \<le> 244 \<and> utf8_next b \<and> utf8_next c \<and> utf8_next d \<and>
     (code a = 240 \<longrightarrow> 144 \<le> code b) \<and> (code a = 244 \<longrightarrow> code b \<le> 143))"

fun utf8_valid :: "string \<Rightarrow> bool" where
  "utf8_valid [] = True"
| "utf8_valid (a # s) =
     (if code a < 128 then utf8_valid s
      else (case s of
         [] \<Rightarrow> False
       | b # s \<Rightarrow>
           (if utf8_two a b then utf8_valid s
            else (case s of
               [] \<Rightarrow> False
             | c # s \<Rightarrow>
                 (if utf8_three a b c then utf8_valid s
                  else (case s of [] \<Rightarrow> False | d # s \<Rightarrow> utf8_four a b c d \<and> utf8_valid s))))))"

definition looks_like_text :: "string \<Rightarrow> bool" where
  "looks_like_text body =
     (if body = [] then False
      else (let sample = take 2048 body in if CHR 0x00 \<in> set sample then False else utf8_valid sample))"

section \<open>Kinds of attachments\<close>

definition USER_ATTACHMENT_SOURCE :: string where
  "USER_ATTACHMENT_SOURCE = ''user_attachment''"

definition MAX_ATTACHMENT_BYTES :: int where
  "MAX_ATTACHMENT_BYTES = 10000000"

definition MAX_PASTE_BYTES :: int where
  "MAX_PASTE_BYTES = 2000000"

definition TEXT_PREVIEW_CHARS :: nat where
  "TEXT_PREVIEW_CHARS = 1000"

definition TEXT_ATTACHMENT_KINDS :: "string list" where
  "TEXT_ATTACHMENT_KINDS = [''text'', ''code'', ''markdown'', ''paste'']"

definition MARKDOWN_SUFFIXES :: "string list" where
  "MARKDOWN_SUFFIXES = [''.md'', ''.markdown'']"

definition CODE_SUFFIXES :: "string list" where
  "CODE_SUFFIXES = [''.c'', ''.cc'', ''.cpp'', ''.css'', ''.go'', ''.h'', ''.hpp'', ''.html'', ''.java'', ''.js'', ''.json'',
     ''.jsx'', ''.mermaid'', ''.mjs'', ''.mmd'', ''.py'', ''.rb'', ''.rs'', ''.sh'', ''.sql'', ''.toml'', ''.ts'', ''.tsx'',
     ''.xml'', ''.yaml'', ''.yml'']"

definition TEXT_SUFFIXES :: "string list" where
  "TEXT_SUFFIXES = [''.csv'', ''.env'', ''.graphql'', ''.ini'', ''.log'', ''.svg'', ''.txt'']"

text \<open>\<open>PurePath(name).suffix\<close>: from the last dot of the last component, which neither begins nor ends there.\<close>

definition path_suffix :: "string \<Rightarrow> string" where
  "path_suffix name =
     (let leaf = path_name name; ext = rev (takeWhile (\<lambda>c. c \<noteq> CHR ''.'') (rev leaf))
      in if CHR ''.'' \<in> set leaf \<and> ext \<noteq> [] \<and> length ext + 1 < length leaf then CHR ''.'' # ext else [])"

definition TEXT_MIME_TYPES :: "string list" where
  "TEXT_MIME_TYPES = [''application/json'', ''application/ld+json'', ''application/javascript'', ''application/sql'',
     ''application/toml'', ''application/typescript'', ''application/xml'', ''application/yaml'', ''application/x-yaml'']"

definition detect_content_kind :: "string \<Rightarrow> string \<Rightarrow> string \<Rightarrow> string" where
  "detect_content_kind name mime upload_kind =
     (let normalized_mime = py_strip (fst (py_partition (CHR '';'') (py_lower mime)));
          suffix = py_lower (path_suffix name)
      in if upload_kind = ''paste'' then ''paste''
         else if normalized_mime = ''application/pdf'' then ''pdf''
         else if py_startswith normalized_mime ''image/'' then ''image''
         else if normalized_mime \<in> set [''text/markdown'', ''text/x-markdown''] \<or> suffix \<in> set MARKDOWN_SUFFIXES then ''markdown''
         else if suffix \<in> set CODE_SUFFIXES then ''code''
         else if py_startswith normalized_mime ''text/'' \<or> normalized_mime \<in> set TEXT_MIME_TYPES \<or> suffix \<in> set TEXT_SUFFIXES
         then ''text''
         else ''binary'')"

definition text_like_content_kind :: "string \<Rightarrow> bool" where
  "text_like_content_kind kind = (kind \<in> set TEXT_ATTACHMENT_KINDS)"

text \<open>A missing type is the empty one.\<close>

definition normalize_mime_type :: "text_codec \<Rightarrow> string \<Rightarrow> string \<Rightarrow> string \<Rightarrow> string" where
  "normalize_mime_type tc mime name body =
     (let unknown = (\<lambda>t. t = [] \<or> t = ''application/octet-stream'');
          candidate = py_strip mime;
          candidate = (if unknown candidate
            then (case tc_guess_type tc name of Some t \<Rightarrow> if t \<noteq> [] then t else candidate | None \<Rightarrow> candidate)
            else candidate)
      in if unknown candidate then (if looks_like_text body then ''text/plain'' else ''application/octet-stream'')
         else candidate)"

definition sniff_attachment_text_kind :: "text_codec \<Rightarrow> string \<Rightarrow> string \<Rightarrow> string \<Rightarrow> string \<Rightarrow> string \<times> string" where
  "sniff_attachment_text_kind tc name mime body upload_kind =
     (let normalized_mime = normalize_mime_type tc mime name body;
          kind = detect_content_kind name normalized_mime upload_kind
      in if text_like_content_kind kind then (kind, normalized_mime)
         else if looks_like_text body then (''text'', ''text/plain'')
         else (kind, normalized_mime))"

definition undecodable :: "py_exn \<Rightarrow> bool" where
  "undecodable e = (exn_kind e = ExcOther ''LookupError'' \<or> exn_kind e = ExcOther ''UnicodeDecodeError'')"

definition charset_of :: "string \<Rightarrow> string" where
  "charset_of mime =
     (case List.find (\<lambda>(key, _, v). py_lower key = ''charset'' \<and> v \<noteq> [])
             (map (\<lambda>part. py_partition (CHR ''='') (py_strip part)) (tl (py_split (CHR '';'') mime))) of
        Some (_, _, v) \<Rightarrow> py_strip v
      | None \<Rightarrow> ''utf-8'')"

definition decode_text_attachment :: "text_codec \<Rightarrow> string \<Rightarrow> string \<Rightarrow> string res" where
  "decode_text_attachment tc body mime =
     (case tc_decode tc (charset_of mime) body of
        Inr t \<Rightarrow> Inr t
      | Inl e \<Rightarrow> if undecodable e then Inr (tc_decode_replace tc body) else Inl e)"

definition text_preview_for_bytes :: "text_codec \<Rightarrow> string \<Rightarrow> string \<Rightarrow> string \<Rightarrow> (string \<times> nat option) res" where
  "text_preview_for_bytes tc body kind mime =
     (if \<not> text_like_content_kind kind then Inr ([], None)
      else res_bind (decode_text_attachment tc body mime) (\<lambda>t.
        let normalized = py_join '' '' (py_split_words t) in Inr (take TEXT_PREVIEW_CHARS normalized, Some (length t))))"

section \<open>Uploads\<close>

definition safe_upload_name :: "string \<Rightarrow> string \<Rightarrow> string" where
  "safe_upload_name name upload_kind =
     (let candidate = py_strip (path_name name)
      in if candidate = [] then (if upload_kind = ''paste'' then ''pasted-text.txt'' else ''attachment'') else candidate)"

definition validation_error :: "string \<Rightarrow> py_exn" where
  "validation_error detail = PyExn (ExcOther ''AttachmentValidationError'') detail None None"

definition upload_metadata :: "text_codec \<Rightarrow> string \<Rightarrow> string \<Rightarrow> string \<Rightarrow> string \<times> nat option \<Rightarrow> pydict" where
  "upload_metadata tc upload_kind kind body preview =
     (let chars = (case snd preview of Some n \<Rightarrow> PInt (int n) | None \<Rightarrow> PNone)
      in [(''source'', PStr USER_ATTACHMENT_SOURCE),
          (''upload_kind'', PStr upload_kind),
          (''content_kind'', PStr kind),
          (''sha256'', PStr (tc_sha256 tc body)),
          (''text_preview'', PStr (fst preview)),
          (''text_chars'', chars),
          (''extraction_status'', PStr (if snd preview \<noteq> None then ''ready'' else ''none''))])"

definition create_user_attachment ::
  "'d app_config \<Rightarrow> store_env \<Rightarrow> text_codec \<Rightarrow> string \<Rightarrow> string \<Rightarrow> string \<Rightarrow> string \<Rightarrow> string \<Rightarrow> string \<Rightarrow> string
   \<Rightarrow> (app_db \<times> 'd, artifact_record) op" where
  "create_user_attachment c env tc user_id conversation_id workflow_id name body mime upload_kind =
     (let normalized_name = safe_upload_name name upload_kind;
          (kind, normalized_mime) = sniff_attachment_text_kind tc normalized_name mime body upload_kind;
          max_bytes = (if upload_kind = ''paste'' then MAX_PASTE_BYTES else MAX_ATTACHMENT_BYTES)
      in if body = [] then op_raise (validation_error ''Attachment content is empty.'')
         else if int (length body) > max_bytes
         then op_raise (validation_error (''Attachment is too large. Max bytes: '' @ int_str max_bytes @ ''.''))
         else op_bind (op_lift (text_preview_for_bytes tc body kind normalized_mime)) (\<lambda>preview.
           create_artifact c env
             \<lparr>aa_user_id = user_id, aa_conversation_id = conversation_id, aa_workflow_id = workflow_id,
              aa_name = normalized_name, aa_mime_type = normalized_mime, aa_content = body,
              aa_metadata = upload_metadata tc upload_kind kind body preview, aa_idempotency_key = []\<rparr>))"

section \<open>References and listings\<close>

definition artifact_is_user_attachment :: "artifact_record \<Rightarrow> bool" where
  "artifact_is_user_attachment a = (dict_get_none (ar_metadata a) ''source'' = PStr USER_ATTACHMENT_SOURCE)"

definition CONTENT_KINDS :: "string list" where
  "CONTENT_KINDS = [''text'', ''code'', ''markdown'', ''image'', ''pdf'', ''binary'', ''paste'']"

text \<open>A kind that is a list or a dictionary cannot be looked up in a set.\<close>

definition metadata_content_kind :: "pydict \<Rightarrow> string res" where
  "metadata_content_kind meta =
     (case dict_get_none meta ''content_kind'' of
        PStr kind \<Rightarrow> Inr (if kind \<in> set CONTENT_KINDS then kind else ''binary'')
      | PList _ \<Rightarrow> Inl (type_error (''unhashable type: '' @ repr_string ''list''))
      | PDict _ \<Rightarrow> Inl (type_error (''unhashable type: '' @ repr_string ''dict''))
      | _ \<Rightarrow> Inr ''binary'')"

text \<open>\<open>int(value)\<close>.\<close>

definition int_of_value :: "text_codec \<Rightarrow> pyval \<Rightarrow> int res" where
  "int_of_value tc v =
     (case v of
        PInt n \<Rightarrow> Inr n
      | PBool b \<Rightarrow> Inr (if b then 1 else 0)
      | PFloat r \<Rightarrow> tc_float_int tc r
      | PStr s \<Rightarrow> (case py_int s of Some n \<Rightarrow> Inr n | None \<Rightarrow> Inl (value_error ''invalid literal for int() with base 10''))
      | _ \<Rightarrow> Inl (type_error ''int() argument must be a string, a bytes-like object or a real number''))"

definition attachment_ref_from_artifact :: "store_env \<Rightarrow> text_codec \<Rightarrow> artifact_record \<Rightarrow> attachment_ref res" where
  "attachment_ref_from_artifact env tc a =
     (let meta = ar_metadata a; preview = dict_get_none meta ''text_preview'' in
      res_bind (metadata_content_kind meta) (\<lambda>kind.
      res_bind (case dict_get_none meta ''text_chars'' of PNone \<Rightarrow> Inr None
                | v \<Rightarrow> res_bind (int_of_value tc v) (\<lambda>n. Inr (Some n))) (\<lambda>chars.
      Inr \<lparr>attachment_id = ar_artifact_id a, att_name = ar_name a, mime_type = ar_mime_type a,
           size_bytes = int (ar_size_bytes a), content_kind = kind, att_source = USER_ATTACHMENT_SOURCE,
           text_preview = (if truthy preview then py_str preview else []), text_chars = chars,
           expires_at = artifact_expires_at env a, metadata = meta\<rparr>)))"

definition attachment_dict :: "store_env \<Rightarrow> text_codec \<Rightarrow> artifact_record \<Rightarrow> pydict res" where
  "attachment_dict env tc a =
     res_bind (attachment_ref_from_artifact env tc a) (\<lambda>ref. Inr
       [(''attachment_id'', PStr (attachment_id ref)),
        (''artifact_id'', PStr (attachment_id ref)),
        (''conversation_id'', PStr (ar_conversation_id a)),
        (''workflow_id'', PStr (ar_workflow_id a)),
        (''name'', PStr (att_name ref)),
        (''mime_type'', PStr (mime_type ref)),
        (''size_bytes'', PInt (size_bytes ref)),
        (''content_kind'', PStr (content_kind ref)),
        (''source'', PStr (att_source ref)),
        (''text_preview'', PStr (text_preview ref)),
        (''text_chars'', (case text_chars ref of None \<Rightarrow> PNone | Some n \<Rightarrow> PInt n)),
        (''expires_at'', PStr (expires_at ref)),
        (''created_at'', PStr (ar_created_at a)),
        (''metadata'', PDict (metadata ref)),
        (''view_url'', PStr (''/api/attachments/'' @ attachment_id ref)),
        (''download_url'', PStr (''/api/attachments/'' @ attachment_id ref @ ''/download''))])"

definition attachment_dicts :: "store_env \<Rightarrow> text_codec \<Rightarrow> artifact_record list \<Rightarrow> pydict list res" where
  "attachment_dicts env tc artifacts = res_map (attachment_dict env tc) (filter artifact_is_user_attachment artifacts)"

definition generated_artifacts :: "artifact_record list \<Rightarrow> artifact_record list" where
  "generated_artifacts artifacts = filter (\<lambda>a. \<not> artifact_is_user_attachment a) artifacts"

section \<open>The tool that reads an attachment\<close>

text \<open>What an activity streams goes to a log beside the store.\<close>

type_synonym stream_log = "(string \<times> pydict) list"

definition emit_event :: "pydict \<Rightarrow> string \<Rightarrow> ('s \<times> stream_log, unit) op" where
  "emit_event payload kind = op_modify (\<lambda>(s, evs). (s, evs @ [(kind, payload)]))"

definition on_store :: "('s, 'a) op \<Rightarrow> ('s \<times> stream_log, 'a) op" where
  "on_store m = (\<lambda>(s, evs). case m s of (r, s') \<Rightarrow> (r, s', evs))"

definition MAX_ATTACHMENT_READ_CHARS :: int where
  "MAX_ATTACHMENT_READ_CHARS = 50000"

definition read_limit :: "int \<Rightarrow> nat" where
  "read_limit max_chars = nat (max 1 (min (if max_chars = 0 then 12000 else max_chars) MAX_ATTACHMENT_READ_CHARS))"

definition reported :: "pydict \<Rightarrow> string \<Rightarrow> ('s \<times> stream_log, pydict) op" where
  "reported payload kind = op_bind (emit_event payload kind) (\<lambda>_. op_return payload)"

definition attachment_not_found :: "string \<Rightarrow> ('s \<times> stream_log, pydict) op" where
  "attachment_not_found i =
     reported [(''error'', PStr ''Attachment not found.''), (''attachment_id'', PStr i)] ''attachment_read_error''"

definition attachment_expired :: "pydict \<Rightarrow> ('s \<times> stream_log, pydict) op" where
  "attachment_expired attachment =
     reported [(''error'', PStr ''Attachment has expired.''),
       (''type'', PStr ''AttachmentExpired''),
       (''attachment'', PDict attachment),
       (''content_available'', PBool False),
       (''reason'', PStr (''This attachment is past its retention window and may no longer '' @
          ''be available. Ask the user to upload it again if the content is still needed.''))] ''attachment_read_error''"

definition attachment_unavailable :: "pydict \<Rightarrow> py_exn \<Rightarrow> ('s \<times> stream_log, pydict) op" where
  "attachment_unavailable attachment err =
     reported [(''error'', PStr ''Attachment content is unavailable.''),
       (''type'', PStr ''AttachmentUnavailable''),
       (''attachment'', PDict attachment),
       (''content_available'', PBool False),
       (''reason'', PStr (''The attachment metadata exists, but the stored bytes could not '' @
          ''be read. It may have expired or been deleted.'')),
       (''detail'', PStr (py_type_name err @ '': '' @ exn_str err))] ''attachment_read_error''"

text \<open>The attachment with the kind that its bytes show, when its recorded one is not a text.\<close>

definition redetected :: "text_codec \<Rightarrow> artifact_record \<Rightarrow> string \<Rightarrow> pydict \<Rightarrow> string \<Rightarrow> string \<times> pydict" where
  "redetected tc a kind attachment body =
     (if text_like_content_kind kind then (kind, attachment)
      else (case sniff_attachment_text_kind tc (ar_name a) (ar_mime_type a) body ''file'' of
        (detected_kind, detected_mime) \<Rightarrow>
          (if text_like_content_kind detected_kind
           then (let meta = (case dict_get_none attachment ''metadata'' of PDict d \<Rightarrow> d | _ \<Rightarrow> []);
                     meta = dict_set ''detected_mime_type'' (PStr detected_mime)
                       (dict_set ''detected_content_kind'' (PStr detected_kind) meta)
                 in (detected_kind, dict_set ''metadata'' (PDict meta)
                       (dict_set ''mime_type'' (PStr detected_mime)
                         (dict_set ''content_kind'' (PStr detected_kind) attachment))))
           else (kind, attachment))))"

definition attachment_content :: "pydict \<Rightarrow> nat \<Rightarrow> string \<Rightarrow> string \<Rightarrow> ('s \<times> stream_log, pydict) op" where
  "attachment_content attachment limit i t =
     (let truncated = length t > limit; returned = PInt (int (min (length t) limit)) in
      op_bind (emit_event [(''attachment_id'', PStr i), (''content_available'', PBool True), (''truncated'', PBool truncated),
          (''returned_chars'', returned)] ''attachment_read_complete'') (\<lambda>_.
      op_return [(''attachment'', PDict attachment), (''content_available'', PBool True), (''content'', PStr (take limit t)),
        (''truncated'', PBool truncated), (''original_chars'', PInt (int (length t))), (''returned_chars'', returned)]))"

definition attachment_not_text :: "pydict \<Rightarrow> string \<Rightarrow> ('s \<times> stream_log, pydict) op" where
  "attachment_not_text attachment i =
     op_bind (emit_event [(''attachment_id'', PStr i), (''content_available'', PBool False)] ''attachment_read_complete'') (\<lambda>_.
     op_return [(''attachment'', PDict attachment), (''content_available'', PBool False),
       (''reason'', PStr (''This attachment is not a text-like file. Provider-native '' @
          ''inspection may be available for supported models, otherwise '' @
          ''ask the user for a text version.''))])"

definition attachment_mime :: "pydict \<Rightarrow> artifact_record \<Rightarrow> string" where
  "attachment_mime attachment a = py_str (py_or (dict_get_none attachment ''mime_type'') (PStr (ar_mime_type a)))"

definition read_found_attachment ::
  "'d app_config \<Rightarrow> text_codec \<Rightarrow> artifact_record \<Rightarrow> string \<Rightarrow> pydict \<Rightarrow> nat \<Rightarrow> string
   \<Rightarrow> ((app_db \<times> 'd) \<times> stream_log, pydict) op" where
  "read_found_attachment c tc a kind attachment limit i =
     op_bind (op_catch (op_bind (on_store (read_artifact_bytes c a)) (\<lambda>body. op_return (Inr body)))
         (\<lambda>e. if is_exception e then op_return (Inl e) else op_raise e))
       (\<lambda>outcome. case outcome of
          Inl err \<Rightarrow> attachment_unavailable attachment err
        | Inr body \<Rightarrow>
            (case redetected tc a kind attachment body of (kind, attachment) \<Rightarrow>
               if \<not> text_like_content_kind kind then attachment_not_text attachment i
               else op_bind (op_lift (decode_text_attachment tc body (attachment_mime attachment a)))
                 (attachment_content attachment limit i)))"

definition read_attachment_activity ::
  "'d app_config \<Rightarrow> store_env \<Rightarrow> text_codec \<Rightarrow> string \<Rightarrow> string \<Rightarrow> string \<Rightarrow> int
   \<Rightarrow> ((app_db \<times> 'd) \<times> stream_log, pydict) op" where
  "read_attachment_activity c env tc user_id workflow_id i max_chars =
     op_bind (emit_event [(''attachment_id'', PStr i), (''max_chars'', PInt (int (read_limit max_chars)))]
       ''attachment_read_start'') (\<lambda>_.
     op_bind (on_store (get_artifact c env user_id i)) (\<lambda>found. case found of
       None \<Rightarrow> attachment_not_found i
     | Some a \<Rightarrow>
         if \<not> artifact_is_user_attachment a \<or> ar_workflow_id a \<noteq> workflow_id then attachment_not_found i
         else op_bind (op_lift (attachment_dict env tc a)) (\<lambda>attachment.
           if artifact_is_expired env a then attachment_expired attachment
           else read_found_attachment c tc a (py_str (dict_get_none attachment ''content_kind'')) attachment
             (read_limit max_chars) i)))"

text \<open>The bodies of the tools: the activity is called with the identity of the chat, and its \<open>error\<close> is that of the result.\<close>

definition activity_tool_result :: "pydict \<Rightarrow> tool_result" where
  "activity_tool_result payload = \<lparr>tr_payload = payload, tr_error = dict_get payload ''error'' \<noteq> None\<rparr>"

definition identity_missing :: "string \<Rightarrow> tool_result" where
  "identity_missing what =
     \<lparr>tr_payload = [(''error'', PStr (what @ '' identity context is not available.''))], tr_error = True\<rparr>"

definition read_attachment ::
  "string option \<Rightarrow> string \<Rightarrow> string \<Rightarrow> int \<Rightarrow> (pydict \<Rightarrow> ('s, pydict) op) \<Rightarrow> ('s, tool_result) op" where
  "read_attachment user_ref workflow_id i max_chars activity =
     (case user_ref of
        None \<Rightarrow> op_return (identity_missing ''Attachment'')
      | Some user \<Rightarrow> op_bind (activity [(''user_id'', PStr user), (''workflow_id'', PStr workflow_id),
          (''attachment_id'', PStr i), (''max_chars'', PInt max_chars)]) (\<lambda>payload. op_return (activity_tool_result payload)))"

section \<open>The tool that creates an artifact\<close>

definition MAX_ARTIFACT_BYTES :: int where
  "MAX_ARTIFACT_BYTES = 2000000"

definition decode_content :: "text_codec \<Rightarrow> string \<Rightarrow> string \<Rightarrow> string res" where
  "decode_content tc body encoding =
     (if encoding = ''text'' then Inr (tc_encode tc body)
      else if encoding = ''base64''
      then (case b64decode True body of Inr d \<Rightarrow> Inr d
            | Inl e \<Rightarrow> Inl (PyExn ExcValueError ''Artifact content is not valid base64.'' (Some e) (Some e)))
      else Inl (value_error (''Unsupported artifact encoding: '' @ encoding)))"

definition mime_char :: "char \<Rightarrow> bool" where
  "mime_char c = (65 \<le> code c \<and> code c \<le> 90 \<or> 97 \<le> code c \<and> code c \<le> 122 \<or> 48 \<le> code c \<and> code c \<le> 57 \<or>
     c = CHR ''.'' \<or> c = CHR ''+'' \<or> c = CHR ''_'' \<or> c = CHR ''-'')"

definition valid_mime_type :: "string \<Rightarrow> bool" where
  "valid_mime_type mime =
     (case py_partition (CHR ''/'') mime of (kind, sep, subtype) \<Rightarrow>
        sep \<noteq> [] \<and> kind \<noteq> [] \<and> list_all mime_char kind \<and> subtype \<noteq> [] \<and> list_all mime_char subtype)"

definition validate_artifact :: "string \<Rightarrow> string \<Rightarrow> string \<Rightarrow> unit res" where
  "validate_artifact name mime body =
     (if py_strip name = [] then Inl (value_error ''Artifact name is required.'')
      else if CHR ''/'' \<in> set name \<or> CHR 0x5C \<in> set name
      then Inl (value_error ''Artifact name must be a file name, not a path.'')
      else if \<not> valid_mime_type mime then Inl (value_error ''Artifact mime_type must be a valid MIME type.'')
      else if body = [] then Inl (value_error ''Artifact content is empty.'')
      else if int (length body) > MAX_ARTIFACT_BYTES
      then Inl (value_error (''Artifact is too large. Max bytes: '' @ int_str MAX_ARTIFACT_BYTES @ ''.''))
      else Inr ())"

definition created_artifact_dict :: "store_env \<Rightarrow> artifact_record \<Rightarrow> pydict" where
  "created_artifact_dict env a =
     [(''artifact_id'', PStr (ar_artifact_id a)),
      (''name'', PStr (ar_name a)),
      (''mime_type'', PStr (ar_mime_type a)),
      (''size_bytes'', PInt (int (ar_size_bytes a))),
      (''view_url'', PStr (''/api/artifacts/'' @ ar_artifact_id a)),
      (''download_url'', PStr (''/api/artifacts/'' @ ar_artifact_id a @ ''/download'')),
      (''created_at'', PStr (ar_created_at a)),
      (''expires_at'', PStr (artifact_expires_at env a))]"

definition create_artifact_activity ::
  "'d app_config \<Rightarrow> store_env \<Rightarrow> text_codec \<Rightarrow> string \<Rightarrow> string \<Rightarrow> string \<Rightarrow> string \<Rightarrow> string \<Rightarrow> string \<Rightarrow> string \<Rightarrow> string
   \<Rightarrow> ((app_db \<times> 'd) \<times> stream_log, pydict) op" where
  "create_artifact_activity c env tc user_id conversation_id workflow_id name body mime encoding key =
     op_bind (emit_event [(''name'', PStr name), (''mime_type'', PStr mime), (''encoding'', PStr encoding),
       (''chars'', PInt (int (length body)))] ''artifact_create_start'') (\<lambda>_.
     case res_bind (decode_content tc body encoding) (\<lambda>raw. res_bind (validate_artifact name mime raw) (\<lambda>_. Inr raw)) of
       Inl err \<Rightarrow> reported [(''error'', PStr (exn_str err)), (''type'', PStr ''ArtifactValidationError'')]
         ''artifact_create_rejected''
     | Inr raw \<Rightarrow>
         op_bind (on_store (create_artifact c env
           \<lparr>aa_user_id = user_id, aa_conversation_id = conversation_id, aa_workflow_id = workflow_id, aa_name = name,
            aa_mime_type = mime, aa_content = raw, aa_metadata = [(''encoding'', PStr encoding)],
            aa_idempotency_key = key\<rparr>)) (\<lambda>a.
         op_bind (emit_event (created_artifact_dict env a) ''artifact_create_complete'') (\<lambda>_.
         op_return [(''artifact'', PDict (created_artifact_dict env a))])))"

definition create_artifact_tool_body ::
  "string option \<Rightarrow> string option \<Rightarrow> string \<Rightarrow> string \<Rightarrow> string \<Rightarrow> string \<Rightarrow> string \<Rightarrow> string
   \<Rightarrow> (pydict \<Rightarrow> ('s, pydict) op) \<Rightarrow> ('s, tool_result) op" where
  "create_artifact_tool_body user_ref conversation_id workflow_id name body mime encoding key activity =
     (case (user_ref, conversation_id) of
        (Some user, Some conversation) \<Rightarrow>
          op_bind (activity [(''user_id'', PStr user), (''conversation_id'', PStr conversation),
            (''workflow_id'', PStr workflow_id), (''name'', PStr name), (''content'', PStr body), (''mime_type'', PStr mime),
            (''encoding'', PStr encoding), (''idempotency_key'', PStr key)])
            (\<lambda>payload. op_return (activity_tool_result payload))
      | _ \<Rightarrow> op_return (identity_missing ''Artifact''))"

section \<open>Serving a file\<close>

text \<open>FastAPI's \<open>HTTPException\<close>, and what is raised from another exception.\<close>

definition http_exception :: "nat \<Rightarrow> string \<Rightarrow> py_exn option \<Rightarrow> py_exn" where
  "http_exception status detail cause = PyExn (ExcOther ''HTTPException'') (nat_str status @ '': '' @ detail) cause cause"

definition quote_char :: "char \<Rightarrow> bool" where
  "quote_char c = (c = CHR 0x22 \<or> c = CHR 0x5C \<or> c = CHR 0x0D \<or> c = CHR 0x0A)"

text \<open>\<open>re.sub(r'["\\\r\n]+', "_", filename)\<close>.\<close>

fun replace_quote_runs :: "bool \<Rightarrow> string \<Rightarrow> string" where
  "replace_quote_runs in_run [] = []"
| "replace_quote_runs in_run (c # s) =
     (if \<not> quote_char c then c # replace_quote_runs False s
      else if in_run then replace_quote_runs True s
      else CHR ''_'' # replace_quote_runs True s)"

text \<open>\<open>quote(s, safe="")\<close>: the bytes that are no unreserved characters, in hexadecimal.\<close>

definition unreserved :: "char \<Rightarrow> bool" where
  "unreserved c = (65 \<le> code c \<and> code c \<le> 90 \<or> 97 \<le> code c \<and> code c \<le> 122 \<or> 48 \<le> code c \<and> code c \<le> 57 \<or>
     c = CHR ''_'' \<or> c = CHR ''.'' \<or> c = CHR ''-'' \<or> c = CHR ''~'')"

definition upper_hex :: "nat \<Rightarrow> char" where
  "upper_hex n = (if n < 10 then char_of (48 + n) else char_of (55 + n))"

definition percent_quote :: "text_codec \<Rightarrow> string \<Rightarrow> string" where
  "percent_quote tc s = concat (map (\<lambda>b. if unreserved b then [b]
     else [CHR ''%'', upper_hex (code b div 16), upper_hex (code b mod 16)]) (tc_encode tc s))"

definition content_disposition :: "text_codec \<Rightarrow> string \<Rightarrow> string \<Rightarrow> string" where
  "content_disposition tc disposition filename =
     (let ascii_filename = replace_quote_runs False filename;
          ascii_filename = (if ascii_filename = [] then ''artifact'' else ascii_filename)
      in disposition @ ''; filename='' @ [CHR 0x22] @ ascii_filename @ [CHR 0x22] @ ''; filename*=UTF-8'' @
         [CHR 0x27, CHR 0x27] @ percent_quote tc filename)"

definition safe_inline_media_type :: "string \<Rightarrow> string" where
  "safe_inline_media_type mime =
     (if mime = ''application/pdf'' then mime
      else if py_startswith mime ''image/'' \<and> mime \<noteq> ''image/svg+xml'' then mime
      else if py_startswith mime ''audio/'' \<or> py_startswith mime ''video/'' then mime
      else ''text/plain; charset=utf-8'')"

record file_response =
  fr_content :: string
  fr_media_type :: string
  fr_headers :: "(string \<times> string) list"

definition artifact_response ::
  "'d app_config \<Rightarrow> store_env \<Rightarrow> text_codec \<Rightarrow> artifact_record \<Rightarrow> string \<Rightarrow> (app_db \<times> 'd, file_response) op" where
  "artifact_response c env tc a disposition =
     (if artifact_is_expired env a then op_raise (http_exception 410 ''Artifact has expired'' None)
      else op_bind (op_catch (read_artifact_bytes c a)
          (\<lambda>e. op_raise (if is_exception e then http_exception 404 ''Artifact file not found'' (Some e) else e)))
        (\<lambda>body. op_return
          \<lparr>fr_content = body,
           fr_media_type = (if disposition = ''attachment'' then ar_mime_type a else safe_inline_media_type (ar_mime_type a)),
           fr_headers = [(''Content-Disposition'', content_disposition tc disposition (ar_name a)),
             (''X-Content-Type-Options'', ''nosniff'')]\<rparr>))"

end
