(* ===== verification/SessionTokens.thy ===== *)
theory SessionTokens
  imports UserAttachments
begin

text \<open>
  Who a request comes from: session tokens (\<open>api/auth.py\<close>), local and Google sign-in (\<open>api/local_auth.py\<close>,
  \<open>api/google_oauth.py\<close>), feature switches (\<open>api/features.py\<close>), and what \<open>api/main.py\<close> makes of them. HMAC-SHA256,
  SHA-256 in hexadecimal and \<open>json.loads\<close> are parameters, as are the answers of Google.
\<close>

section \<open>The environment and its switches\<close>

text \<open>The variables of the process, the clock in whole seconds, and the parameters above.\<close>

record auth_env =
  ax_environ :: "string \<Rightarrow> string option"
  ax_time :: int
  ax_hmac :: "string \<Rightarrow> string \<Rightarrow> string"
  ax_sha256 :: "string \<Rightarrow> string"
  ax_loads :: "string \<Rightarrow> pyval res"

definition environ_get :: "auth_env \<Rightarrow> string \<Rightarrow> string \<Rightarrow> string" where
  "environ_get x name other = (case ax_environ x name of None \<Rightarrow> other | Some v \<Rightarrow> v)"

definition env_flag :: "auth_env \<Rightarrow> string \<Rightarrow> bool \<Rightarrow> bool" where
  "env_flag x name other =
     (case ax_environ x name of
        None \<Rightarrow> other
      | Some v \<Rightarrow> py_lower (py_strip v) \<in> set [''1'', ''true'', ''yes'', ''on''])"

definition demo_workspace_mode :: "auth_env \<Rightarrow> bool" where
  "demo_workspace_mode x = env_flag x ''SIMPLE_CHAT_DEMO_WORKSPACE'' False"

definition demo_workspaces_enabled :: "auth_env \<Rightarrow> bool" where
  "demo_workspaces_enabled x =
     (if demo_workspace_mode x then False else env_flag x ''SIMPLE_CHAT_DEMO_WORKSPACES_ENABLED'' False)"

definition github_tools_enabled :: "auth_env \<Rightarrow> bool" where
  "github_tools_enabled x = env_flag x ''SIMPLE_CHAT_GITHUB_TOOLS_ENABLED'' (\<not> demo_workspace_mode x)"

definition good_place_enabled :: "auth_env \<Rightarrow> bool" where
  "good_place_enabled x =
     (py_lower (environ_get x ''SIMPLE_CHAT_GOOD_PLACE'' ''1'') \<in> set [''1'', ''true'', ''yes''])"

definition local_auth_requested :: "auth_env \<Rightarrow> bool" where
  "local_auth_requested x =
     (py_lower (environ_get x ''SIMPLE_CHAT_LOCAL_AUTH_ENABLED'' []) \<in> set [''1'', ''true'', ''yes'', ''on''])"

definition google_oauth_configured :: "auth_env \<Rightarrow> bool" where
  "google_oauth_configured x =
     (environ_get x ''GOOGLE_OAUTH_CLIENT_ID'' [] \<noteq> [] \<and> environ_get x ''GOOGLE_OAUTH_CLIENT_SECRET'' [] \<noteq> [])"

definition local_auth_route_enabled :: "auth_env \<Rightarrow> bool" where
  "local_auth_route_enabled x =
     (local_auth_requested x \<and> \<not> google_oauth_configured x \<and> \<not> demo_workspace_mode x)"

section \<open>Session tokens\<close>

definition DEFAULT_SESSION_SECONDS :: int where
  "DEFAULT_SESSION_SECONDS = 60 * 60"

record auth_user =
  au_user_id :: string
  au_username :: string

definition auth_error :: "string \<Rightarrow> py_exn" where
  "auth_error detail = PyExn (ExcOther ''AuthError'') detail None None"

definition attribute_error :: "string \<Rightarrow> py_exn" where
  "attribute_error detail = PyExn (ExcOther ''AttributeError'') detail None None"

definition short_digest :: "auth_env \<Rightarrow> string \<Rightarrow> string" where
  "short_digest x v = take 24 (ax_sha256 x v)"

definition user_from_google_subject :: "auth_env \<Rightarrow> string \<Rightarrow> string \<Rightarrow> auth_user" where
  "user_from_google_subject x subject email =
     \<lparr>au_user_id = ''user_google_'' @ short_digest x subject, au_username = email\<rparr>"

definition user_from_local_username :: "auth_env \<Rightarrow> string \<Rightarrow> auth_user" where
  "user_from_local_username x username =
     \<lparr>au_user_id = ''user_local_'' @ short_digest x username, au_username = username\<rparr>"

definition session_secret :: "auth_env \<Rightarrow> string" where
  "session_secret x = environ_get x ''SIMPLE_CHAT_JWT_SECRET'' ''dev-only-simple-chat-secret''"

definition base64url_json :: "pyval \<Rightarrow> string" where
  "base64url_json v = base64url_encode (json_dumps_compact (json_sort_keys v))"

definition encode_jwt :: "auth_env \<Rightarrow> pydict \<Rightarrow> string \<Rightarrow> string" where
  "encode_jwt x payload secret =
     (let header = PDict [(''alg'', PStr ''HS256''), (''typ'', PStr ''JWT'')];
          signing_input = py_join ''.'' [base64url_json header, base64url_json (PDict payload)];
          signature = ax_hmac x secret signing_input
      in signing_input @ ''.'' @ base64url_encode signature)"

definition session_payload :: "auth_env \<Rightarrow> auth_user \<Rightarrow> int \<Rightarrow> pydict" where
  "session_payload x user ttl_seconds =
     [(''sub'', PStr (au_user_id user)), (''username'', PStr (au_username user)),
      (''iat'', PInt (ax_time x)), (''exp'', PInt (ax_time x + ttl_seconds))]"

definition create_session_token :: "auth_env \<Rightarrow> auth_user \<Rightarrow> int \<Rightarrow> string" where
  "create_session_token x user ttl_seconds = encode_jwt x (session_payload x user ttl_seconds) (session_secret x)"

text \<open>\<open>isinstance(v, int)\<close>, which holds of booleans.\<close>

definition int_instance :: "pyval \<Rightarrow> int option" where
  "int_instance v = (case v of PInt n \<Rightarrow> Some n | PBool b \<Rightarrow> Some (if b then 1 else 0) | _ \<Rightarrow> None)"

definition ascii_bytes :: "string \<Rightarrow> string res" where
  "ascii_bytes s =
     (if ascii_text s then Inr s
      else Inl (PyExn (ExcOther ''UnicodeEncodeError'') ''ordinal not in range(128)'' None None))"

definition decode_jwt :: "auth_env \<Rightarrow> string \<Rightarrow> string \<Rightarrow> pydict res" where
  "decode_jwt x token secret =
     (case py_split (CHR ''.'') token of
        [head, body, sig] \<Rightarrow>
          (let signing_input = head @ ''.'' @ body in
           res_bind (ascii_bytes signing_input) (\<lambda>raw.
           res_bind (base64url_decode sig) (\<lambda>actual_signature.
             if actual_signature \<noteq> ax_hmac x secret raw then Inl (auth_error ''Invalid session signature'')
             else res_bind (base64url_decode body) (\<lambda>text. res_bind (ax_loads x text) (\<lambda>v. case v of
               PDict payload \<Rightarrow>
                 (case int_instance (dict_get_none payload ''exp'') of
                    None \<Rightarrow> Inl (auth_error ''Session token expired'')
                  | Some until \<Rightarrow>
                      (if until < ax_time x then Inl (auth_error ''Session token expired'') else Inr payload))
             | _ \<Rightarrow> Inl (attribute_error ''object has no attribute get''))))))
      | _ \<Rightarrow> Inl (auth_error ''Invalid session token''))"

definition user_from_session_token :: "auth_env \<Rightarrow> string \<Rightarrow> auth_user res" where
  "user_from_session_token x token =
     res_bind (decode_jwt x token (session_secret x)) (\<lambda>payload.
       case (dict_get_none payload ''sub'', dict_get_none payload ''username'') of
         (PStr user_id, PStr username) \<Rightarrow> Inr \<lparr>au_user_id = user_id, au_username = username\<rparr>
       | _ \<Rightarrow> Inl (auth_error ''Session token is missing user identity''))"

text \<open>\<open>_current_user\<close> of \<open>main.py\<close>, of the session cookie of a request.\<close>

definition current_user :: "auth_env \<Rightarrow> string option \<Rightarrow> auth_user res" where
  "current_user x cookie =
     (case cookie of
        None \<Rightarrow> Inl (http_exception 401 ''Not authenticated'' None)
      | Some token \<Rightarrow>
          (case user_from_session_token x token of
             Inr user \<Rightarrow> Inr user
           | Inl e \<Rightarrow> Inl (if exn_kind e = ExcOther ''AuthError'' then http_exception 401 (exn_str e) (Some e) else e)))"

section \<open>Local sign-in\<close>

text \<open>\<open>hmac.compare_digest\<close> takes no texts that are not ASCII.\<close>

definition compare_digest :: "string \<Rightarrow> string \<Rightarrow> bool res" where
  "compare_digest a b =
     (if ascii_text a \<and> ascii_text b then Inr (a = b)
      else Inl (type_error ''comparing strings with non-ASCII characters is not supported''))"

definition local_auth_credentials_valid :: "auth_env \<Rightarrow> string \<Rightarrow> string \<Rightarrow> bool res" where
  "local_auth_credentials_valid x username password =
     res_bind (compare_digest username (environ_get x ''SIMPLE_CHAT_LOCAL_AUTH_USERNAME'' ''demo'')) (\<lambda>same.
       if same then compare_digest password (environ_get x ''SIMPLE_CHAT_LOCAL_AUTH_PASSWORD'' ''demo'') else Inr False)"

text \<open>The body of the request is \<open>None\<close> when it is no JSON. The answer is the user and the cookie that is set.\<close>

definition local_auth_login :: "auth_env \<Rightarrow> pyval option \<Rightarrow> (auth_user \<times> string) res" where
  "local_auth_login x body =
     (if \<not> local_auth_route_enabled x then Inl (http_exception 404 ''Not found'' None)
      else
        (let d = (case body of Some (PDict d) \<Rightarrow> d | _ \<Rightarrow> []) in
         case (dict_get_none d ''username'', dict_get_none d ''password'') of
           (PStr username, PStr password) \<Rightarrow>
             res_bind (local_auth_credentials_valid x username password) (\<lambda>ok.
               if ok then (let user = user_from_local_username x username
                           in Inr (user, create_session_token x user DEFAULT_SESSION_SECONDS))
               else Inl (http_exception 401 ''Invalid local credentials'' None))
         | _ \<Rightarrow> Inl (http_exception 401 ''Invalid local credentials'' None)))"

section \<open>Google sign-in\<close>

record google_identity =
  gi_subject :: string
  gi_email :: string
  gi_name :: "string option"
  gi_picture :: "string option"
  gi_hosted_domain :: "string option"

definition google_error :: "string \<Rightarrow> py_exn" where
  "google_error detail = PyExn (ExcOther ''GoogleOAuthError'') detail None None"

definition google_allowed_domain :: "auth_env \<Rightarrow> string option" where
  "google_allowed_domain x =
     (let v = py_strip (environ_get x ''GOOGLE_OAUTH_ALLOWED_DOMAIN'' ''temporal.io'') in if v = [] then None else Some v)"

definition value_errors :: "exn_kind list" where
  "value_errors = [ExcValueError, ExcOther ''JSONDecodeError'', ExcOther ''UnicodeDecodeError'']"

definition decode_id_token_claims :: "auth_env \<Rightarrow> string \<Rightarrow> pyval res" where
  "decode_id_token_claims x id_token =
     (case py_split (CHR ''.'') id_token of
        [_, body, _] \<Rightarrow>
          (case res_bind (base64url_decode body) (ax_loads x) of
             Inr v \<Rightarrow> Inr v
           | Inl e \<Rightarrow> Inl (if exn_kind e \<in> set value_errors
               then PyExn (ExcOther ''GoogleOAuthError'') ''ID token payload could not be decoded.'' (Some e) (Some e) else e))
      | _ \<Rightarrow> Inl (google_error ''ID token is malformed.''))"

text \<open>\<open>email.rsplit("@", 1)[-1]\<close>.\<close>

definition after_last_at :: "string \<Rightarrow> string" where
  "after_last_at s = rev (takeWhile (\<lambda>c. c \<noteq> CHR ''@'') (rev s))"

definition str_claim :: "pydict \<Rightarrow> string \<Rightarrow> string option" where
  "str_claim claims key = (case dict_get_none claims key of PStr s \<Rightarrow> Some s | _ \<Rightarrow> None)"

definition domain_allowed :: "auth_env \<Rightarrow> pydict \<Rightarrow> string \<Rightarrow> bool" where
  "domain_allowed x claims email =
     (case google_allowed_domain x of
        None \<Rightarrow> True
      | Some domain \<Rightarrow> dict_get_none claims ''hd'' = PStr domain \<or> py_lower (after_last_at email) = py_lower domain)"

definition identity_of_claims :: "auth_env \<Rightarrow> pydict \<Rightarrow> google_identity res" where
  "identity_of_claims x claims =
     (let client_id = environ_get x ''GOOGLE_OAUTH_CLIENT_ID'' [] in
      if dict_get_none claims ''iss'' \<notin> set [PStr ''https://accounts.google.com'', PStr ''accounts.google.com'']
      then Inl (google_error ''ID token has unexpected issuer.'')
      else if client_id \<noteq> [] \<and> dict_get_none claims ''aud'' \<noteq> PStr client_id
      then Inl (google_error ''ID token audience does not match this client.'')
      else if (case int_instance (dict_get_none claims ''exp'') of None \<Rightarrow> True | Some until \<Rightarrow> until < ax_time x)
      then Inl (google_error ''ID token is expired.'')
      else (case (dict_get_none claims ''email'', dict_get_none claims ''sub'') of
        (PStr email, PStr subject) \<Rightarrow>
          (if dict_get_none claims ''email_verified'' \<noteq> PBool True
           then Inl (google_error ''Google account email is not verified.'')
           else if \<not> domain_allowed x claims email
           then Inl (google_error (''Only '' @ the (google_allowed_domain x) @ '' accounts are allowed to sign in.''))
           else Inr \<lparr>gi_subject = subject, gi_email = email, gi_name = str_claim claims ''name'',
             gi_picture = str_claim claims ''picture'', gi_hosted_domain = str_claim claims ''hd''\<rparr>)
      | _ \<Rightarrow> Inl (google_error ''ID token is missing identity claims.'')))"

definition identity_from_id_token :: "auth_env \<Rightarrow> string \<Rightarrow> google_identity res" where
  "identity_from_id_token x id_token =
     res_bind (decode_id_token_claims x id_token) (\<lambda>v. case v of
       PDict claims \<Rightarrow> identity_of_claims x claims
     | _ \<Rightarrow> Inl (attribute_error ''object has no attribute get''))"

section \<open>Redirects\<close>

text \<open>
  \<open>urllib.parse.urlparse\<close> of an \<open>https\<close> or \<open>http\<close> address. Tabs and line breaks are dropped, and control characters and
  spaces in front. A bracketed host is checked by \<open>ip_literal_ok\<close>, a parameter; one that fails raises.
\<close>

record parsed_url =
  pu_scheme :: string
  pu_netloc :: string
  pu_path :: string
  pu_params :: string
  pu_query :: string
  pu_fragment :: string

definition letter :: "char \<Rightarrow> bool" where
  "letter c = (65 \<le> code c \<and> code c \<le> 90 \<or> 97 \<le> code c \<and> code c \<le> 122)"

definition scheme_char :: "char \<Rightarrow> bool" where
  "scheme_char c = (letter c \<or> 48 \<le> code c \<and> code c \<le> 57 \<or> c = CHR ''+'' \<or> c = CHR ''-'' \<or> c = CHR ''.'')"

definition clean_url :: "string \<Rightarrow> string" where
  "clean_url url = filter (\<lambda>c. c \<noteq> CHR 0x09 \<and> c \<noteq> CHR 0x0D \<and> c \<noteq> CHR 0x0A) (dropWhile (\<lambda>c. code c \<le> 32) url)"

definition split_scheme :: "string \<Rightarrow> string \<times> string" where
  "split_scheme url =
     (case py_partition (CHR '':'') url of
        (before, sep, after) \<Rightarrow>
          (if sep \<noteq> [] \<and> before \<noteq> [] \<and> letter (hd before) \<and> list_all scheme_char before
           then (py_lower before, after) else ([], url)))"

definition netloc_end :: "char \<Rightarrow> bool" where
  "netloc_end c = (c = CHR ''/'' \<or> c = CHR ''?'' \<or> c = CHR ''#'')"

text \<open>\<open>_splitparams\<close>: from the first semicolon after the last slash.\<close>

definition split_params :: "string \<Rightarrow> string \<times> string" where
  "split_params url =
     (let leaf = rev (takeWhile (\<lambda>c. c \<noteq> CHR ''/'') (rev url));
          front = take (length url - length leaf) url
      in case py_partition (CHR '';'') leaf of (before, _, after) \<Rightarrow> (front @ before, after))"

definition urlparse :: "(string \<Rightarrow> bool) \<Rightarrow> string \<Rightarrow> parsed_url res" where
  "urlparse ip_literal_ok value =
     (let (scheme, url) = split_scheme (clean_url value);
          (netloc, url) = (if py_startswith url ''//''
             then (takeWhile (\<lambda>c. \<not> netloc_end c) (drop 2 url), dropWhile (\<lambda>c. \<not> netloc_end c) (drop 2 url)) else ([], url));
          (url, _, fragment) = py_partition (CHR ''#'') url;
          (url, _, query) = py_partition (CHR ''?'') url;
          (path, params) = split_params url
      in if (CHR ''['' \<in> set netloc \<or> CHR '']'' \<in> set netloc) \<and> \<not> ip_literal_ok netloc
         then Inl (value_error ''Invalid IPv6 URL'')
         else Inr \<lparr>pu_scheme = scheme, pu_netloc = netloc, pu_path = path, pu_params = params, pu_query = query,
           pu_fragment = fragment\<rparr>)"

text \<open>\<open>rpartition("@")\<close> of the network location: what is before the last one, if any, and what follows it.\<close>

definition user_info :: "string \<Rightarrow> string option" where
  "user_info netloc =
     (if CHR ''@'' \<in> set netloc then Some (take (length netloc - length (after_last_at netloc) - 1) netloc) else None)"

definition url_username :: "parsed_url \<Rightarrow> string option" where
  "url_username p = map_option (\<lambda>u. fst (py_partition (CHR '':'') u)) (user_info (pu_netloc p))"

definition url_password :: "parsed_url \<Rightarrow> string option" where
  "url_password p =
     (case user_info (pu_netloc p) of
        None \<Rightarrow> None
      | Some u \<Rightarrow> (case py_partition (CHR '':'') u of (_, sep, password) \<Rightarrow> if sep = [] then None else Some password))"

definition url_hostname :: "parsed_url \<Rightarrow> string" where
  "url_hostname p =
     (let hostinfo = after_last_at (pu_netloc p);
          (_, bracket, bracketed) = py_partition (CHR ''['') hostinfo;
          host = (if bracket \<noteq> [] then fst (py_partition (CHR '']'') bracketed) else fst (py_partition (CHR '':'') hostinfo));
          (name, percent, zone) = py_partition (CHR ''%'') host
      in py_lower name @ percent @ zone)"

definition py_endswith :: "string \<Rightarrow> string \<Rightarrow> bool" where
  "py_endswith s t = (length t \<le> length s \<and> drop (length s - length t) s = t)"

definition workspace_host_suffix :: "auth_env \<Rightarrow> string \<Rightarrow> string" where
  "workspace_host_suffix x TASK_QUEUE =
     py_strip (environ_get x ''SIMPLE_CHAT_DEMO_WORKSPACE_HOST_SUFFIX''
       (if py_endswith TASK_QUEUE ''-testing'' \<or> py_contains ''testing'' TASK_QUEUE
        then ''-agent-harness-demo.testing.tmprl-demo.cloud'' else ''-agent-harness-demo.tmprl-demo.cloud''))"

definition filled :: "string option \<Rightarrow> bool" where
  "filled v = (case v of None \<Rightarrow> False | Some t \<Rightarrow> t \<noteq> [])"

text \<open>A missing hostname is the empty one.\<close>

definition allowed_demo_workspace_return_to :: "(string \<Rightarrow> bool) \<Rightarrow> auth_env \<Rightarrow> string \<Rightarrow> string \<Rightarrow> string res" where
  "allowed_demo_workspace_return_to ip_literal_ok x TASK_QUEUE value =
     (if value = [] then Inr []
      else res_bind (urlparse ip_literal_ok value) (\<lambda>parsed.
        let allowed_host = dropWhile (\<lambda>c. c = CHR ''.'') (workspace_host_suffix x TASK_QUEUE);
            hostname = py_lower (url_hostname parsed)
        in if pu_scheme parsed \<noteq> ''https'' \<or> pu_netloc parsed = [] then Inr []
           else if filled (url_username parsed) \<or> filled (url_password parsed) \<or> pu_params parsed \<noteq> [] \<or>
             pu_query parsed \<noteq> [] \<or> pu_fragment parsed \<noteq> [] then Inr []
           else if hostname = [] \<or> allowed_host = [] then Inr []
           else if \<not> py_endswith hostname (py_lower allowed_host) then Inr []
           else if pu_path parsed \<noteq> [] \<and> pu_path parsed \<noteq> ''/'' then Inr []
           else Inr (''https://'' @ pu_netloc parsed)))"

text \<open>Where a sign-in ends: the address of a demo workspace takes a token, and the browser gets a cookie.\<close>

definition signed_in :: "text_codec \<Rightarrow> auth_env \<Rightarrow> auth_user \<Rightarrow> string \<Rightarrow> string \<times> string" where
  "signed_in tc x user return_to =
     (let token = create_session_token x user DEFAULT_SESSION_SECONDS in
      (if return_to = [] then ''/''
       else rev (dropWhile (\<lambda>c. c = CHR ''/'') (rev return_to)) @ ''/api/demo-workspace/login?token='' @
         percent_quote tc token, token))"

end
