(* ===== verification/ApiMain.thy ===== *)
theory ApiMain
  imports SessionTokens UserChats DemoWorkspace
begin

text \<open>
  What the routes of the web API call (\<open>simple_chat_agent/api/main.py\<close>): the owner of a chat, the registry of a user, the
  signals to a chat, the parent of a demo workspace, and the sign-in with Google. The Temporal client is a record of
  operations on a state of its own; it and the store are ready. A request happens at one time and draws at most one fresh identifier.
\<close>

section \<open>The client of Temporal\<close>

text \<open>
  An RPC error has its status in its class. A query answers with the value of its workflow; an update or a signal returns
  when it was accepted, or the update completed.
\<close>

definition rpc_error :: "string \<Rightarrow> py_exn" where
  "rpc_error status = PyExn (ExcOther (''RPCError '' @ status)) status None None"

definition is_temporal_not_found :: "py_exn \<Rightarrow> bool" where
  "is_temporal_not_found e = (exn_kind e = ExcOther ''RPCError NOT_FOUND'')"

definition is_demo_workspace_absent :: "py_exn \<Rightarrow> bool" where
  "is_demo_workspace_absent e =
     (exn_kind e \<in> set [ExcOther ''RPCError NOT_FOUND'', ExcOther ''RPCError FAILED_PRECONDITION''])"

datatype sent_signal =
    ChatSignal chat_signal_request
  | SteerSignal string string "attachment_ref list"
  | InterruptSignal string
  | ResolveApprovalSignal string string

datatype workspace_signal = RegisterChatSignal workspace_chat_record | UnregisterChatSignal string | TouchWorkspaceSignal

record 't temporal =
  tw_namespace :: string
  tw_start_registry :: "string \<Rightarrow> user_chats_input \<Rightarrow> ('t, unit) op"
  tw_start_workspace :: "string \<Rightarrow> demo_workspace_input \<Rightarrow> ('t, unit) op"
  tw_has_chat :: "string \<Rightarrow> string \<Rightarrow> ('t, bool) op"
  tw_list_chats :: "string \<Rightarrow> ('t, chat_record list) op"
  tw_list_mcp_servers :: "string \<Rightarrow> ('t, mcp_server_config list) op"
  tw_demo_workspace :: "string \<Rightarrow> ('t, demo_workspace_record option) op"
  tw_create_chat :: "string \<Rightarrow> create_chat_request \<Rightarrow> ('t, chat_record) op"
  tw_touch_chat :: "string \<Rightarrow> string \<Rightarrow> string option \<Rightarrow> ('t, unit) op"
  tw_forget_chat :: "string \<Rightarrow> string \<Rightarrow> ('t, unit) op"
  tw_delete_chat :: "string \<Rightarrow> string \<Rightarrow> ('t, unit) op"
  tw_upsert_mcp_server :: "string \<Rightarrow> mcp_server_config \<Rightarrow> ('t, unit) op"
  tw_delete_mcp_server :: "string \<Rightarrow> string \<Rightarrow> ('t, unit) op"
  tw_set_demo_workspace :: "string \<Rightarrow> demo_workspace_record \<Rightarrow> ('t, unit) op"
  tw_clear_demo_workspace :: "string \<Rightarrow> ('t, unit) op"
  tw_state :: "string \<Rightarrow> ('t, simple_chat_state) op"
  tw_snapshot :: "string \<Rightarrow> int \<Rightarrow> int \<Rightarrow> ('t, simple_chat_state \<times> TranscriptPage) op"
  tw_transcript_page :: "string \<Rightarrow> int option \<Rightarrow> int \<Rightarrow> int \<Rightarrow> ('t, TranscriptPage) op"
  tw_transcript_deltas :: "string \<Rightarrow> int \<Rightarrow> int \<Rightarrow> ('t, TranscriptDeltaResult) op"
  tw_signal_chat :: "string \<Rightarrow> sent_signal \<Rightarrow> ('t, unit) op"
  tw_workspace_state :: "string \<Rightarrow> ('t, demo_workspace_state) op"
  tw_signal_workspace :: "string \<Rightarrow> workspace_signal \<Rightarrow> ('t, unit) op"
  tw_ensure_workspace :: "string \<Rightarrow> demo_workspace_config \<Rightarrow> ('t, demo_workspace_state) op"
  tw_crash_workspace :: "string \<Rightarrow> ('t, demo_workspace_state) op"
  tw_delete_workspace :: "string \<Rightarrow> ('t, demo_workspace_state) op"

section \<open>The state and the surroundings of a request\<close>

record ('d, 't) api_state =
  as_store :: "app_db \<times> 'd"
  as_buffers :: stream_buffers
  as_temporal :: 't

text \<open>\<open>pe_purge\<close> is \<open>purge_workflow_payloads\<close>; \<open>pe_research\<close> the names of the research tools that are configured.\<close>

record ('d, 't) api_env =
  pe_auth :: auth_env
  pe_config :: "'d app_config"
  pe_store_env :: store_env
  pe_codec :: text_codec
  pe_client :: "'t temporal"
  pe_generation :: string
  pe_now :: rat
  pe_prefix :: string
  pe_purge :: "string \<Rightarrow> ('t, unit) op"
  pe_research :: "string list"
  pe_task_queue :: string
  pe_ip_literal_ok :: "string \<Rightarrow> bool"
  pe_isoformat :: "datetime \<Rightarrow> string"

definition with_store :: "(app_db \<times> 'd, 'a) op \<Rightarrow> (('d, 't) api_state, 'a) op" where
  "with_store m = (\<lambda>s. case m (as_store s) of (r, st) \<Rightarrow> (r, s\<lparr>as_store := st\<rparr>))"

definition with_client :: "('t, 'a) op \<Rightarrow> (('d, 't) api_state, 'a) op" where
  "with_client m = (\<lambda>s. case m (as_temporal s) of (r, t) \<Rightarrow> (r, s\<lparr>as_temporal := t\<rparr>))"

definition with_broker :: "(stream_buffers \<Rightarrow> 'a \<times> stream_buffers) \<Rightarrow> (('d, 't) api_state, 'a) op" where
  "with_broker f = (\<lambda>s. case f (as_buffers s) of (x, b) \<Rightarrow> (Inr x, s\<lparr>as_buffers := b\<rparr>))"

definition clear_stream :: "string \<Rightarrow> (('d, 't) api_state, unit) op" where
  "clear_stream w = with_broker (\<lambda>b. ((), clear_buffer w b))"

definition stream_cursor :: "('d, 't) api_env \<Rightarrow> string \<Rightarrow> (('d, 't) api_state, string) op" where
  "stream_cursor p w = with_broker (buffer_cursor (pe_generation p) (pe_now p) w)"

text \<open>What is done as well as it can be: an exception is printed.\<close>

definition best_effort :: "('s, unit) op \<Rightarrow> ('s, unit) op" where
  "best_effort m = op_catch m (\<lambda>e. if is_exception e then op_return () else op_raise e)"

definition environ_strip :: "('d, 't) api_env \<Rightarrow> string \<Rightarrow> string" where
  "environ_strip p name = py_strip (environ_get (pe_auth p) name [])"

definition user_email_sa_name :: "('d, 't) api_env \<Rightarrow> string" where
  "user_email_sa_name p = environ_strip p ''SIMPLE_CHAT_USER_EMAIL_SEARCH_ATTR''"

definition parent_workflow_id :: "('d, 't) api_env \<Rightarrow> string" where
  "parent_workflow_id p = environ_strip p ''SIMPLE_CHAT_DEMO_PARENT_WORKFLOW_ID''"

section \<open>The registry of a user\<close>

definition workspace_status_text :: "workspace_status \<Rightarrow> string" where
  "workspace_status_text st = (case st of WsInactive \<Rightarrow> ''inactive'' | WsProvisioning \<Rightarrow> ''provisioning''
     | WsActive \<Rightarrow> ''active'' | WsDeleting \<Rightarrow> ''deleting'' | WsDeleted \<Rightarrow> ''deleted'' | WsFailed \<Rightarrow> ''failed'')"

definition require_demo_workspace_can_start_registry :: "('d, 't) api_env \<Rightarrow> (('d, 't) api_state, unit) op" where
  "require_demo_workspace_can_start_registry p =
     (let gone = (\<lambda>cause. http_exception 410 ''Demo workspace is no longer available.'' cause) in
      if \<not> demo_workspace_mode (pe_auth p) then op_return ()
      else if parent_workflow_id p = [] then op_raise (gone None)
      else op_bind (op_catch (with_client (tw_workspace_state (pe_client p) (parent_workflow_id p)))
          (\<lambda>e. op_raise (if is_demo_workspace_absent e then gone (Some e) else e)))
        (\<lambda>st. if dw_status st \<in> set [WsActive, WsProvisioning] then op_return ()
          else op_raise (http_exception 410 (''Demo workspace is '' @ workspace_status_text (dw_status st) @ ''.'') None)))"

definition registry_of :: "('d, 't) api_env \<Rightarrow> string \<Rightarrow> string" where
  "registry_of p user_id = user_chats_workflow_id (ax_sha256 (pe_auth p)) (pe_prefix p) user_id"

text \<open>\<open>_ensure_user_chats_workflow\<close>: the handle it returns is the identifier of the registry.\<close>

definition ensure_user_chats_workflow :: "('d, 't) api_env \<Rightarrow> string \<Rightarrow> string \<Rightarrow> (('d, 't) api_state, string) op" where
  "ensure_user_chats_workflow p user_id user_email =
     op_bind (require_demo_workspace_can_start_registry p) (\<lambda>_.
     op_bind (with_client (tw_start_registry (pe_client p) (registry_of p user_id)
       \<lparr>ui_user_id = user_id, ui_user_email = user_email, ui_search_attr_name = user_email_sa_name p, ui_chats = [],
        ui_mcp_servers = [], ui_demo_workspace = None, ui_last_touched_at = None\<rparr>)) (\<lambda>_.
     op_return (registry_of p user_id)))"

definition list_user_chats :: "('d, 't) api_env \<Rightarrow> string \<Rightarrow> string \<Rightarrow> (('d, 't) api_state, chat_record list) op" where
  "list_user_chats p user_id user_email =
     op_bind (ensure_user_chats_workflow p user_id user_email) (\<lambda>r. with_client (tw_list_chats (pe_client p) r))"

definition touch_user_chat ::
  "('d, 't) api_env \<Rightarrow> string \<Rightarrow> string \<Rightarrow> string option \<Rightarrow> string \<Rightarrow> (('d, 't) api_state, unit) op" where
  "touch_user_chat p user_id w title user_email =
     op_bind (ensure_user_chats_workflow p user_id user_email) (\<lambda>r. with_client (tw_touch_chat (pe_client p) r w title))"

definition forget_conversation :: "('d, 't) api_env \<Rightarrow> string \<Rightarrow> string \<Rightarrow> string \<Rightarrow> (('d, 't) api_state, unit) op" where
  "forget_conversation p user_id w user_email =
     op_bind (ensure_user_chats_workflow p user_id user_email) (\<lambda>r.
     op_bind (with_client (tw_forget_chat (pe_client p) r w)) (\<lambda>_.
     op_bind (with_store (delete_artifacts_for_conversation (pe_config p) user_id w)) (\<lambda>_.
     op_bind (clear_stream w) (\<lambda>_.
     best_effort (with_client (pe_purge p w))))))"

text \<open>\<open>_require_conversation_owner\<close>; a request is known by its session cookie.\<close>

definition require_conversation_owner ::
  "('d, 't) api_env \<Rightarrow> string option \<Rightarrow> string \<Rightarrow> (('d, 't) api_state, auth_user) op" where
  "require_conversation_owner p cookie w =
     op_bind (op_lift (current_user (pe_auth p) cookie)) (\<lambda>user.
     op_bind (ensure_user_chats_workflow p (au_user_id user) (au_username user)) (\<lambda>r.
     op_bind (with_client (tw_has_chat (pe_client p) r w)) (\<lambda>found.
       if found then op_return user else op_raise (http_exception 404 ''Conversation not found'' None))))"

definition signal_workflow ::
  "('d, 't) api_env \<Rightarrow> string option \<Rightarrow> string \<Rightarrow> sent_signal \<Rightarrow> (('d, 't) api_state, unit) op" where
  "signal_workflow p cookie w sig =
     op_catch (with_client (tw_signal_chat (pe_client p) w sig)) (\<lambda>e.
       if \<not> is_temporal_not_found e then op_raise e
       else op_bind (op_lift (current_user (pe_auth p) cookie)) (\<lambda>user.
         op_bind (forget_conversation p (au_user_id user) w (au_username user)) (\<lambda>_.
         op_raise (http_exception 404 ''Workflow execution not found. Start a new chat.'' (Some e)))))"

definition upsert_user_mcp_server :: "('d, 't) api_env \<Rightarrow> auth_user \<Rightarrow> mcp_server_config \<Rightarrow> (('d, 't) api_state, unit) op" where
  "upsert_user_mcp_server p user server =
     op_bind (ensure_user_chats_workflow p (au_user_id user) (au_username user)) (\<lambda>r.
       with_client (tw_upsert_mcp_server (pe_client p) r server))"

definition GITHUB_PROVIDER :: string where
  "GITHUB_PROVIDER = ''github''"

definition github_connection_id_for_user :: "('d, 't) api_env \<Rightarrow> auth_user \<Rightarrow> (('d, 't) api_state, string option) op" where
  "github_connection_id_for_user p user =
     (if \<not> github_tools_enabled (pe_auth p) then op_return None
      else op_bind (with_store (get_oauth_connection (pe_config p) (pe_store_env p) (au_user_id user) GITHUB_PROVIDER))
        (\<lambda>connection. op_return (map_option oc_connection_id connection)))"

section \<open>Demo workspaces\<close>

definition ensure_demo_workspace_workflow :: "('d, 't) api_env \<Rightarrow> auth_user \<Rightarrow> (('d, 't) api_state, string) op" where
  "ensure_demo_workspace_workflow p user =
     (let w = demo_workspace_workflow_id (ax_sha256 (pe_auth p)) (pe_prefix p) (au_user_id user) in
      op_bind (with_client (tw_start_workspace (pe_client p) w
        \<lparr>wi_user_id = au_user_id user, wi_user_email = au_username user, wi_search_attr_name = user_email_sa_name p,
         wi_state = None\<rparr>)) (\<lambda>_. op_return w))"

text \<open>The defaults of a workspace depend on the task queue; \<open>pod_namespace\<close> is the namespace of the pod, if known.\<close>

definition config_of_demo_workspace :: "('d, 't) api_env \<Rightarrow> string \<Rightarrow> auth_user \<Rightarrow> demo_workspace_config res" where
  "config_of_demo_workspace p pod_namespace user =
     (let x = pe_auth p; TASK_QUEUE = pe_task_queue p;
          testing = (py_endswith TASK_QUEUE ''-testing'' \<or> py_contains ''testing'' TASK_QUEUE);
          source = environ_strip p ''SIMPLE_CHAT_DEMO_SOURCE_NAMESPACE'';
          source = (if source \<noteq> [] then source else if pod_namespace \<noteq> [] then pod_namespace
                    else ''temporal-michaelj-agent-harness-demo'');
          public_url = environ_strip p ''SIMPLE_CHAT_PUBLIC_URL'';
          suffixed = (\<lambda>name. if testing then name @ ''-testing'' else name)
      in if public_url = []
         then Inl (http_exception 500 ''SIMPLE_CHAT_PUBLIC_URL is required to create demo workspaces.'' None)
         else Inr
           \<lparr>wc_user_id = au_user_id user, wc_user_email = au_username user,
            wc_control_workflow_id = demo_workspace_workflow_id (ax_sha256 x) (pe_prefix p) (au_user_id user),
            wc_temporal_namespace = tw_namespace (pe_client p), wc_source_namespace = source,
            wc_source_secret_name = environ_get x ''SIMPLE_CHAT_DEMO_SOURCE_SECRET_NAME'' ''agent-harness-secrets'',
            wc_tls_secret_name = environ_get x ''SIMPLE_CHAT_DEMO_TLS_SECRET_NAME''
              (if testing then ''agent-harness-workspace-testing-tls'' else ''agent-harness-workspace-tls''),
            wc_host_suffix = environ_get x ''SIMPLE_CHAT_DEMO_WORKSPACE_HOST_SUFFIX''
              (if testing then ''-agent-harness-demo.testing.tmprl-demo.cloud'' else ''-agent-harness-demo.tmprl-demo.cloud''),
            wc_parent_public_url = public_url,
            wc_task_queue_prefix = environ_get x ''SIMPLE_CHAT_DEMO_TASK_QUEUE_PREFIX'' (TASK_QUEUE @ ''-workspace''),
            wc_workflow_prefix_prefix = environ_get x ''SIMPLE_CHAT_DEMO_WORKFLOW_PREFIX_PREFIX'' ''workspace-'',
            wc_source_web_deployment = environ_get x ''SIMPLE_CHAT_DEMO_SOURCE_WEB_DEPLOYMENT'' (suffixed ''agent-harness-web''),
            wc_source_api_deployment = environ_get x ''SIMPLE_CHAT_DEMO_SOURCE_API_DEPLOYMENT'' (suffixed ''agent-harness-api''),
            wc_source_worker_deployment =
              environ_get x ''SIMPLE_CHAT_DEMO_SOURCE_WORKER_DEPLOYMENT'' (suffixed ''agent-harness-worker''),
            wc_service_account_role_arn = environ_strip p ''SIMPLE_CHAT_DEMO_WORKSPACE_ROLE_ARN'',
            wc_search_attr_name = user_email_sa_name p\<rparr>)"

definition signal_parent :: "('d, 't) api_env \<Rightarrow> workspace_signal \<Rightarrow> (('d, 't) api_state, unit) op" where
  "signal_parent p sig =
     (if parent_workflow_id p = [] then op_return ()
      else best_effort (with_client (tw_signal_workspace (pe_client p) (parent_workflow_id p) sig)))"

definition register_demo_workspace_chat :: "('d, 't) api_env \<Rightarrow> chat_record \<Rightarrow> (('d, 't) api_state, unit) op" where
  "register_demo_workspace_chat p conversation =
     signal_parent p (RegisterChatSignal \<lparr>wr_workflow_id = rc_workflow_id conversation,
       wr_run_id = rc_run_id conversation, wr_task_queue = rc_task_queue conversation, wr_created_at = None\<rparr>)"

definition unregister_demo_workspace_chat :: "('d, 't) api_env \<Rightarrow> string \<Rightarrow> (('d, 't) api_state, unit) op" where
  "unregister_demo_workspace_chat p w = signal_parent p (UnregisterChatSignal w)"

definition touch_demo_workspace :: "('d, 't) api_env \<Rightarrow> (('d, 't) api_state, unit) op" where
  "touch_demo_workspace p = signal_parent p TouchWorkspaceSignal"

section \<open>Events from the workers\<close>

text \<open>
  \<open>POST /internal/stream\<close>: the header, and the body, an object. The code takes any identifier that is not empty; the buffers
  of the model are those of texts, and another one raises.
\<close>

definition stream_token_ok :: "('d, 't) api_env \<Rightarrow> string option \<Rightarrow> bool" where
  "stream_token_ok p header =
     (let token = environ_strip p ''SIMPLE_CHAT_STREAM_TOKEN'' in token \<noteq> [] \<and> header = Some token)"

definition internal_stream :: "('d, 't) api_env \<Rightarrow> string option \<Rightarrow> pydict \<Rightarrow> (('d, 't) api_state, unit) op" where
  "internal_stream p header event =
     (if \<not> stream_token_ok p header then op_raise (http_exception 401 ''Invalid stream token.'' None)
      else (case dict_get_none event ''stream_id'' of
        PStr (c # cs) \<Rightarrow> with_broker (\<lambda>b. ((), snd (append_stream (pe_generation p) (pe_now p) (c # cs) event b)))
      | v \<Rightarrow> (if truthy v then op_raise (type_error ''unhashable or unexpected stream id'') else op_return ())))"

definition text_field :: "pydict \<Rightarrow> string \<Rightarrow> string" where
  "text_field d key = py_str (py_or (dict_get_none d key) (PStr []))"

definition internal_stream_event :: "('d, 't) api_env \<Rightarrow> string option \<Rightarrow> pydict \<Rightarrow> (('d, 't) api_state, string) op" where
  "internal_stream_event p header payload =
     (if \<not> stream_token_ok p header then op_raise (http_exception 401 ''Invalid stream token.'' None)
      else (case (text_field payload ''stream_id'', text_field payload ''event'', dict_get_none payload ''data'') of
        (c # cs, k # ks, PDict data) \<Rightarrow>
          with_broker (append_event (pe_generation p) (pe_now p) (c # cs) (k # ks) data (text_field payload ''idempotency_key''))
      | _ \<Rightarrow> op_raise (http_exception 400 ''Invalid stream event payload.'' None)))"

section \<open>Sign-in with Google\<close>

text \<open>\<open>urlencode\<close>: spaces become plus signs.\<close>

definition quote_plus :: "text_codec \<Rightarrow> string \<Rightarrow> string" where
  "quote_plus tc s = concat (map (\<lambda>b. if b = CHR '' '' then ''+'' else if unreserved b then [b]
     else [CHR ''%'', upper_hex (code b div 16), upper_hex (code b mod 16)]) (tc_encode tc s))"

definition urlencode :: "text_codec \<Rightarrow> (string \<times> string) list \<Rightarrow> string" where
  "urlencode tc params = py_join ''&'' (map (\<lambda>(k, v). quote_plus tc k @ ''='' @ quote_plus tc v) params)"

definition rstrip_slash :: "string \<Rightarrow> string" where
  "rstrip_slash s = rev (dropWhile (\<lambda>c. c = CHR ''/'') (rev s))"

definition google_redirect_uri_from_base :: "auth_env \<Rightarrow> string \<Rightarrow> string" where
  "google_redirect_uri_from_base x base_url =
     (let explicit = py_strip (environ_get x ''GOOGLE_OAUTH_REDIRECT_URI'' [])
      in if explicit \<noteq> [] then explicit else rstrip_slash base_url @ ''/oauth/google/callback'')"

definition google_authorize_url :: "text_codec \<Rightarrow> auth_env \<Rightarrow> string \<Rightarrow> string \<Rightarrow> string res" where
  "google_authorize_url tc x state redirect_uri =
     (case ax_environ x ''GOOGLE_OAUTH_CLIENT_ID'' of
        None \<Rightarrow> Inl (key_error ''GOOGLE_OAUTH_CLIENT_ID'')
      | Some client_id \<Rightarrow> Inr (''https://accounts.google.com/o/oauth2/v2/auth?'' @ urlencode tc
          ([(''client_id'', client_id), (''redirect_uri'', redirect_uri), (''response_type'', ''code''),
            (''scope'', ''openid email profile''), (''state'', state), (''access_type'', ''online''),
            (''prompt'', ''select_account'')] @
           (case google_allowed_domain x of None \<Rightarrow> [] | Some domain \<Rightarrow> [(''hd'', domain)]))))"

definition google_oauth_start :: "('d, 't) api_env \<Rightarrow> string \<Rightarrow> string \<Rightarrow> (('d, 't) api_state, string) op" where
  "google_oauth_start p base_url return_to =
     (let x = pe_auth p; tc = pe_codec p; parent_url = environ_strip p ''SIMPLE_CHAT_DEMO_PARENT_PUBLIC_URL'' in
      if demo_workspace_mode x
      then (if parent_url = [] then op_raise (http_exception 400 ''Demo workspace parent URL is not configured'' None)
            else op_return (rstrip_slash parent_url @ ''/oauth/google/start?'' @
              urlencode tc [(''return_to'', rstrip_slash base_url)]))
      else if \<not> google_oauth_configured x then op_raise (http_exception 400 ''Google OAuth is not configured'' None)
      else op_bind (op_lift (allowed_demo_workspace_return_to (pe_ip_literal_ok p) x (pe_task_queue p) return_to)) (\<lambda>allowed.
        op_bind (with_store (on_database (create_oauth_state (pe_store_env p) [] ''google''
          (if allowed = [] then [] else [(''return_to'', PStr allowed)])))) (\<lambda>state.
        op_lift (google_authorize_url tc x state (google_redirect_uri_from_base x base_url)))))"

definition oauth_error :: "text_codec \<Rightarrow> string \<Rightarrow> string \<times> string option" where
  "oauth_error tc detail = (''/?oauth_error='' @ percent_quote tc detail, None)"

text \<open>
  \<open>exchange\<close> is Google's answer to a code: the payload, or what \<open>exchange_google_code\<close> raises. A metadata that is no object
  has no \<open>get\<close>. The result is where the browser is sent and the cookie it is given.
\<close>

definition google_identity_of_code ::
  "('d, 't) api_env \<Rightarrow> (string \<Rightarrow> string \<Rightarrow> pydict res) \<Rightarrow> string \<Rightarrow> string \<Rightarrow> google_identity res" where
  "google_identity_of_code p exchange base_url code_value =
     res_bind (exchange code_value (google_redirect_uri_from_base (pe_auth p) base_url)) (\<lambda>token_payload.
       case dict_get_none token_payload ''id_token'' of
         PStr id_token \<Rightarrow> identity_from_id_token (pe_auth p) id_token
       | _ \<Rightarrow> Inl (google_error ''Google did not return an ID token.''))"

definition google_oauth_callback ::
  "('d, 't) api_env \<Rightarrow> (string \<Rightarrow> string \<Rightarrow> pydict res) \<Rightarrow> string \<Rightarrow> string option \<Rightarrow> string option
   \<Rightarrow> string option \<Rightarrow> string option \<Rightarrow> (('d, 't) api_state, string \<times> string option) op" where
  "google_oauth_callback p exchange base_url code_value state err err_description =
     (let x = pe_auth p; tc = pe_codec p in
      case err of
        Some e \<Rightarrow> op_return (oauth_error tc (str_or err_description e))
      | None \<Rightarrow>
          (if \<not> filled code_value \<or> \<not> filled state
           then op_return (''/?oauth_error=Missing%20Google%20OAuth%20callback'', None)
           else op_bind (with_store (on_database
               (consume_oauth_state (pe_store_env p) (the state) ''google'' (10 * 60)))) (\<lambda>consumed.
             case consumed of
               None \<Rightarrow> op_return (''/?oauth_error=Invalid%20or%20expired%20OAuth%20state'', None)
             | Some (_, meta) \<Rightarrow>
                 (case google_identity_of_code p exchange base_url (the code_value) of
                    Inl e \<Rightarrow> (if exn_kind e = ExcOther ''GoogleOAuthError'' then op_return (oauth_error tc (exn_str e))
                      else op_raise e)
                  | Inr identity \<Rightarrow>
                      (let user = user_from_google_subject x (gi_subject identity) (gi_email identity);
                           asked = (case meta of
                             PDict d \<Rightarrow> (case dict_get d ''return_to'' of None \<Rightarrow> Inr [] | Some (PStr u) \<Rightarrow> Inr u
                               | Some _ \<Rightarrow> Inl (attribute_error ''object is no text''))
                           | _ \<Rightarrow> Inl (attribute_error ''object has no attribute get''))
                       in op_bind (op_lift (res_bind asked
                            (allowed_demo_workspace_return_to (pe_ip_literal_ok p) x (pe_task_queue p)))) (\<lambda>return_to.
                          case signed_in tc x user return_to of (address, token) \<Rightarrow> op_return (address, Some token)))))))"

end
