(* ===== verification/ModelCatalog.thy ===== *)
theory ModelCatalog
  imports SessionTokens Claude
begin

text \<open>
  The models a chat may use (\<open>simple_chat_agent/api/anthropic_models.py\<close>) and the thinking configuration of a new chat
  (\<open>api/thinking.py\<close>). The list of models that Anthropic returns is a parameter, its objects records; times are read by a
  function.
\<close>

section \<open>Models\<close>

definition FALLBACK_MODEL_OPTIONS :: "string list" where
  "FALLBACK_MODEL_OPTIONS = [''claude-sonnet-4-5'', ''claude-sonnet-4-6'', ''claude-opus-4-5'', ''claude-opus-4-7'',
     ''claude-opus-4-8'', ''claude-haiku-4-5'']"

definition FALLBACK_ADAPTIVE_THINKING_MODEL_PREFIXES :: "string list" where
  "FALLBACK_ADAPTIVE_THINKING_MODEL_PREFIXES = [''claude-opus-4-6'', ''claude-opus-4-7'', ''claude-opus-4-8'']"

definition THINKING_MODE_ORDER :: "string list" where
  "THINKING_MODE_ORDER = [''adaptive'', ''enabled'']"

definition EFFORT_ORDER :: "string list" where
  "EFFORT_ORDER = [''low'', ''medium'', ''high'', ''xhigh'', ''max'']"

definition DEFAULT_MODEL_CACHE_SECONDS :: int where
  "DEFAULT_MODEL_CACHE_SECONDS = 300"

definition DEFAULT_MAX_OUTPUT_TOKENS :: int where
  "DEFAULT_MAX_OUTPUT_TOKENS = 32000"

definition FALLBACK_MODEL_CAPABILITIES :: "(string \<times> int option \<times> int option) list" where
  "FALLBACK_MODEL_CAPABILITIES = [(''claude-opus-4-6'', Some 1000000, Some 128000),
     (''claude-opus-4-7'', Some 1000000, Some 128000), (''claude-opus-4-8'', Some 1000000, Some 128000)]"

record model_option =
  mo_id :: string
  mo_display_name :: string
  mo_created_at :: "string option"
  mo_max_input_tokens :: "int option"
  mo_max_tokens :: "int option"
  mo_thinking_modes :: "string list"
  mo_effort_options :: "string list"

record model_catalog =
  mc_source :: string
  mc_models :: "model_option list"
  mc_default_model :: string
  mc_error :: "string option"

definition model_by_id :: "model_catalog \<Rightarrow> string \<Rightarrow> model_option option" where
  "model_by_id catalog model_id = List.find (\<lambda>m. mo_id m = model_id) (mc_models catalog)"

definition default_thinking_mode :: "model_option option \<Rightarrow> string" where
  "default_thinking_mode model =
     (case model of
        None \<Rightarrow> ''enabled''
      | Some m \<Rightarrow> if ''adaptive'' \<in> set (mo_thinking_modes m) then ''adaptive'' else ''enabled'')"

definition default_effort :: "model_option option \<Rightarrow> string" where
  "default_effort model =
     (case model of
        None \<Rightarrow> ''max''
      | Some m \<Rightarrow> (case List.find (\<lambda>e. e \<in> set (mo_effort_options m)) (rev EFFORT_ORDER) of None \<Rightarrow> ''max'' | Some e \<Rightarrow> e))"

definition model_to_api_dict :: "model_option \<Rightarrow> pydict" where
  "model_to_api_dict m =
     [(''id'', PStr (mo_id m)), (''display_name'', PStr (mo_display_name m)), (''created_at'', opt_str (mo_created_at m)),
      (''max_input_tokens'', opt_int (mo_max_input_tokens m)), (''max_tokens'', opt_int (mo_max_tokens m)),
      (''thinking'', PDict [(''supported'', PBool (mo_thinking_modes m \<noteq> [])),
         (''modes'', PList (map PStr (mo_thinking_modes m))), (''default_mode'', PStr (default_thinking_mode (Some m)))]),
      (''effort_options'', PList (map PStr (mo_effort_options m))), (''default_effort'', PStr (default_effort (Some m)))]"

section \<open>Limits\<close>

definition fallback_capability :: "string \<Rightarrow> int option \<times> int option" where
  "fallback_capability model =
     (case List.find (\<lambda>(prefix, _). py_startswith model prefix) FALLBACK_MODEL_CAPABILITIES of
        Some (_, capability) \<Rightarrow> capability
      | None \<Rightarrow> (None, Some DEFAULT_MAX_OUTPUT_TOKENS))"

definition fallback_max_input_tokens :: "string \<Rightarrow> int option" where
  "fallback_max_input_tokens model = fst (fallback_capability model)"

text \<open>\<open>value or default\<close>: zero is no value.\<close>

definition or_int :: "int option \<Rightarrow> int \<Rightarrow> int" where
  "or_int v n = (case v of None \<Rightarrow> n | Some m \<Rightarrow> if m = 0 then n else m)"

definition fallback_max_output_tokens :: "string \<Rightarrow> int" where
  "fallback_max_output_tokens model = or_int (snd (fallback_capability model)) DEFAULT_MAX_OUTPUT_TOKENS"

definition max_output_tokens_for_model :: "model_catalog \<Rightarrow> string \<Rightarrow> int" where
  "max_output_tokens_for_model catalog model_id =
     (case Option.bind (model_by_id catalog model_id) mo_max_tokens of
        None \<Rightarrow> fallback_max_output_tokens model_id
      | Some n \<Rightarrow> max 1 n)"

definition max_context_tokens_for_model :: "model_catalog \<Rightarrow> string \<Rightarrow> int" where
  "max_context_tokens_for_model catalog model_id =
     (case Option.bind (model_by_id catalog model_id) mo_max_input_tokens of
        None \<Rightarrow> or_int (fallback_max_input_tokens model_id) DEFAULT_MAX_CONTEXT_TOKENS
      | Some n \<Rightarrow> max 1 n)"

definition clamp_output_tokens_for_model :: "int option \<Rightarrow> model_catalog \<Rightarrow> string \<Rightarrow> int" where
  "clamp_output_tokens_for_model requested catalog model_id =
     (let maximum = max_output_tokens_for_model catalog model_id in
      case requested of None \<Rightarrow> maximum | Some n \<Rightarrow> max 1 (min n maximum))"

section \<open>The catalog\<close>

fun dedupe_models :: "string list \<Rightarrow> model_option list \<Rightarrow> model_option list" where
  "dedupe_models seen [] = []"
| "dedupe_models seen (m # ms) =
     (if mo_id m \<in> set seen then dedupe_models seen ms else m # dedupe_models (mo_id m # seen) ms)"

definition family_rank :: "string \<Rightarrow> int" where
  "family_rank model_id =
     (let normalized = py_lower model_id in
      if py_contains ''opus'' normalized then 3
      else if py_contains ''sonnet'' normalized then 2
      else if py_contains ''haiku'' normalized then 1
      else 0)"

text \<open>\<open>timestamps\<close> reads a time that has no \<open>Z\<close>; \<open>None\<close> is a \<open>ValueError\<close>.\<close>

definition created_timestamp :: "(string \<Rightarrow> rat option) \<Rightarrow> string option \<Rightarrow> rat" where
  "created_timestamp timestamps created_at =
     (case created_at of
        None \<Rightarrow> 0
      | Some t \<Rightarrow>
          (if t = [] then 0
           else (case timestamps (concat (map (\<lambda>c. if c = CHR ''Z'' then ''+00:00'' else [c]) t)) of
                   None \<Rightarrow> 0 | Some r \<Rightarrow> r)))"

text \<open>
  \<open>sorted\<close> by rank, time and identifier, from the greatest to the least; the identifiers are different, so that stable
  sorts by one key after the other give that order.
\<close>

definition sorted_models :: "(string \<Rightarrow> rat option) \<Rightarrow> model_option list \<Rightarrow> model_option list" where
  "sorted_models timestamps models =
     rev (sort_key (family_rank \<circ> mo_id) (sort_key (created_timestamp timestamps \<circ> mo_created_at) (sort_key mo_id models)))"

definition fallback_thinking_modes :: "string \<Rightarrow> string list" where
  "fallback_thinking_modes model =
     (if list_ex (py_startswith model) FALLBACK_ADAPTIVE_THINKING_MODEL_PREFIXES then [''adaptive'', ''enabled''] else [''enabled''])"

definition fallback_model :: "string \<Rightarrow> model_option" where
  "fallback_model model =
     \<lparr>mo_id = model, mo_display_name = model, mo_created_at = None, mo_max_input_tokens = fallback_max_input_tokens model,
      mo_max_tokens = Some (fallback_max_output_tokens model), mo_thinking_modes = fallback_thinking_modes model,
      mo_effort_options = EFFORT_ORDER\<rparr>"

definition fallback_catalog :: "auth_env \<Rightarrow> (string \<Rightarrow> rat option) \<Rightarrow> string option \<Rightarrow> model_catalog" where
  "fallback_catalog x timestamps err =
     (let configured = filter (\<lambda>m. m \<noteq> []) (map py_strip (py_split (CHR '','') (environ_get x ''ANTHROPIC_MODEL_OPTIONS'' [])));
          options = (if configured \<noteq> [] then configured else FALLBACK_MODEL_OPTIONS);
          configured_default = py_strip (environ_get x ''ANTHROPIC_MODEL'' []);
          options = (if configured_default \<noteq> [] then configured_default # options else options);
          models = sorted_models timestamps (dedupe_models [] (map fallback_model options))
      in \<lparr>mc_source = ''fallback'', mc_models = models,
          mc_default_model = (if configured_default \<noteq> [] then configured_default
            else if models \<noteq> [] then mo_id (hd models) else hd FALLBACK_MODEL_OPTIONS),
          mc_error = err\<rparr>)"

text \<open>What Anthropic says of a model.\<close>

record listed_model =
  lm_type :: "string option"
  lm_id :: string
  lm_display_name :: string
  lm_created_at :: "string option"
  lm_max_input_tokens :: "int option"
  lm_max_tokens :: "int option"
  lm_capabilities :: pyval

definition get_field :: "pyval \<Rightarrow> string \<Rightarrow> pyval" where
  "get_field v name = (case v of PDict d \<Rightarrow> dict_get_none d name | _ \<Rightarrow> PNone)"

definition supported :: "pyval \<Rightarrow> bool" where
  "supported v = truthy (get_field v ''supported'')"

definition thinking_modes :: "pyval \<Rightarrow> string list" where
  "thinking_modes capabilities =
     (let thinking = get_field capabilities ''thinking'' in
      if \<not> supported thinking then []
      else filter (\<lambda>mode. supported (get_field (get_field thinking ''types'') mode)) THINKING_MODE_ORDER)"

definition effort_options :: "pyval \<Rightarrow> string list" where
  "effort_options capabilities =
     (let effort = get_field capabilities ''effort'' in
      if \<not> supported effort then [] else filter (\<lambda>name. supported (get_field effort name)) EFFORT_ORDER)"

definition model_of_listed :: "listed_model \<Rightarrow> model_option" where
  "model_of_listed m =
     \<lparr>mo_id = lm_id m, mo_display_name = (if lm_display_name m = [] then lm_id m else lm_display_name m),
      mo_created_at = lm_created_at m, mo_max_input_tokens = lm_max_input_tokens m, mo_max_tokens = lm_max_tokens m,
      mo_thinking_modes = thinking_modes (lm_capabilities m), mo_effort_options = effort_options (lm_capabilities m)\<rparr>"

definition load_anthropic_model_catalog ::
  "auth_env \<Rightarrow> (string \<Rightarrow> rat option) \<Rightarrow> (string \<Rightarrow> listed_model list res) \<Rightarrow> model_catalog res" where
  "load_anthropic_model_catalog x timestamps list_models =
     (let api_key = environ_get x ''ANTHROPIC_API_KEY'' [] in
      if api_key = [] then Inr (fallback_catalog x timestamps (Some ''ANTHROPIC_API_KEY is not configured''))
      else (case list_models api_key of
        Inl e \<Rightarrow> (if is_exception e then Inr (fallback_catalog x timestamps (Some (exn_str e))) else Inl e)
      | Inr listed \<Rightarrow>
          (let models = map model_of_listed (filter (\<lambda>m. lm_type m = Some ''model'') listed);
               models = sorted_models timestamps (dedupe_models [] models)
           in if models = [] then Inr (fallback_catalog x timestamps (Some ''Anthropic returned no models''))
              else Inr \<lparr>mc_source = ''anthropic'', mc_models = models, mc_default_model = mo_id (hd models), mc_error = None\<rparr>)))"

definition model_cache_seconds :: "auth_env \<Rightarrow> int" where
  "model_cache_seconds x =
     (let raw = environ_get x ''ANTHROPIC_MODEL_CACHE_SECONDS'' [] in
      if raw = [] then DEFAULT_MODEL_CACHE_SECONDS
      else (case py_int raw of Some n \<Rightarrow> max 1 n | None \<Rightarrow> DEFAULT_MODEL_CACHE_SECONDS))"

text \<open>\<open>get_anthropic_model_catalog\<close>, with the cache as its state: a catalog and the time until which it is used.\<close>

definition get_anthropic_model_catalog ::
  "auth_env \<Rightarrow> rat \<Rightarrow> model_catalog res \<Rightarrow> ((rat \<times> model_catalog) option, model_catalog) op" where
  "get_anthropic_model_catalog x now load = (\<lambda>cached.
     case cached of
       Some (until, catalog) \<Rightarrow>
         (if until > now then (Inr catalog, cached)
          else (case load of Inl e \<Rightarrow> (Inl e, cached)
                | Inr c \<Rightarrow> (Inr c, Some (now + of_int (model_cache_seconds x), c))))
     | None \<Rightarrow>
         (case load of Inl e \<Rightarrow> (Inl e, None) | Inr c \<Rightarrow> (Inr c, Some (now + of_int (model_cache_seconds x), c))))"

section \<open>Thinking\<close>

record thinking_request =
  tq_enabled :: bool
  tq_mode :: "string option"
  tq_budget_tokens :: int
  tq_effort :: string

text \<open>\<open>default_thinking_mode_for_model\<close>, of the catalog.\<close>

definition default_thinking_mode_for_model :: "model_catalog \<Rightarrow> string \<Rightarrow> string" where
  "default_thinking_mode_for_model catalog model_id =
     (if default_thinking_mode (model_by_id catalog model_id) = ''adaptive'' then ''adaptive'' else ''enabled'')"

definition thinking_config_from_request ::
  "model_catalog \<Rightarrow> thinking_request \<Rightarrow> string \<Rightarrow> int \<Rightarrow> claude_thinking_config option res" where
  "thinking_config_from_request catalog request model max_tokens =
     (if \<not> tq_enabled request then Inr None
      else
        (let mode = str_or (tq_mode request) (default_thinking_mode_for_model catalog model) in
         if mode = ''adaptive''
         then Inr (Some (ClaudeThinkingConfig\<lparr>ct_enabled := True, ct_mode := ''adaptive'',
           ct_effort := Some (tq_effort request), ct_display := Some ''summarized''\<rparr>))
         else if max_tokens \<le> MIN_THINKING_BUDGET_TOKENS
         then Inl (http_exception 400 ''max_tokens must be greater than 1024 for extended thinking.'' None)
         else Inr (Some (ClaudeThinkingConfig\<lparr>ct_enabled := True, ct_mode := ''enabled'',
           ct_budget_tokens := min (max (tq_budget_tokens request) MIN_THINKING_BUDGET_TOKENS) (max_tokens - 1),
           ct_display := Some ''summarized''\<rparr>))))"

end
