(* ===== verification/SessionRoutes.thy ===== *)
theory SessionRoutes
  imports ApiMain ModelCatalog
begin

text \<open>
  The routes of a chat (\<open>simple_chat_agent/api/routes/sessions.py\<close>) and how their answers are written
  (\<open>api/serialization.py\<close>, \<open>api/thinking.py\<close>). An answer is the JSON object and its headers; \<open>Server-Timing\<close> and the constant
  headers of event streams are left out. The broker keeps
  its events in buffers, as it is deployed.
\<close>

section \<open>Answers\<close>

record api_answer =
  an_body :: pydict
  an_headers :: "(string \<times> string) list"

definition json_answer :: "pydict \<Rightarrow> api_answer" where
  "json_answer body = \<lparr>an_body = body, an_headers = []\<rparr>"

definition status_ok :: api_answer where
  "status_ok = json_answer [(''status'', PStr ''ok'')]"

definition strs :: "string list \<Rightarrow> pyval" where
  "strs ts = PList (map PStr ts)"

text \<open>\<open>asdict\<close> of the dataclasses. Points in time are written by a function, as the workflows keep their texts.\<close>

definition mcp_tool_dict :: "mcp_tool_config \<Rightarrow> pydict" where
  "mcp_tool_dict t =
     [(''name'', PStr (mt_name t)), (''description'', PStr (mt_description t)), (''input_schema'', PDict (mt_input_schema t)),
      (''public_name'', opt_str (mt_public_name t))]"

definition mcp_server_dict :: "mcp_server_config \<Rightarrow> pydict" where
  "mcp_server_dict s =
     [(''server_id'', PStr (ms_server_id s)), (''label'', PStr (ms_label s)), (''server_url'', PStr (ms_server_url s)),
      (''tool_prefix'', PStr (ms_tool_prefix s)), (''auth_ref'', opt_str (ms_auth_ref s)),
      (''auth_mode'', PStr (ms_auth_mode s)), (''enabled'', PBool (ms_enabled s)),
      (''tools'', PList (map (PDict \<circ> mcp_tool_dict) (ms_tools s)))]"

definition approval_dict :: "(datetime \<Rightarrow> string) \<Rightarrow> pending_approval \<Rightarrow> pydict" where
  "approval_dict fmt a =
     [(''approval_id'', PStr (pa_approval_id a)), (''tool_name'', PStr (pa_tool_name a)), (''tool_args'', PDict (pa_tool_args a)),
      (''summary'', PStr (pa_summary a)), (''memory_key'', PStr (pa_memory_key a)),
      (''expires_at'', opt_str (map_option fmt (pa_expires_at a))),
      (''requesting_workflow_id'', opt_str (pa_requesting_workflow_id a)),
      (''requesting_approval_id'', opt_str (pa_requesting_approval_id a))]"

definition simple_chat_state_dict :: "(datetime \<Rightarrow> string) \<Rightarrow> simple_chat_state \<Rightarrow> pydict" where
  "simple_chat_state_dict fmt st =
     [(''status'', PStr (status_text (st_status st))), (''pending_messages'', PInt (int (st_pending_messages st))),
      (''user_ref'', opt_str (st_user_ref st)), (''conversation_id'', opt_str (st_conversation_id st)),
      (''model'', opt_str (st_model st)), (''thinking'', (case st_thinking st of None \<Rightarrow> PNone | Some d \<Rightarrow> PDict d)),
      (''available_tool_names'', strs (st_available_tool_names st)), (''github_connected'', PBool (st_github_connected st)),
      (''mcp_servers'', PList (map (PDict \<circ> mcp_server_dict) (st_mcp_servers st))),
      (''pending_approvals'', PList (map (PDict \<circ> approval_dict fmt) (st_pending_approvals st))),
      (''active_message_index'', opt_int (st_active_message_index st)),
      (''queued_message_indices'', PList (map PInt (st_queued_message_indices st))),
      (''transcript'', PList (map (PDict \<circ> chat_message_dict) (st_transcript st))),
      (''transcript_length'', PInt (int (st_transcript_length st))), (''state_revision'', PInt (st_state_revision st)),
      (''transcript_revision'', PInt (st_transcript_revision st))]"

definition chat_record_dict :: "(datetime \<Rightarrow> string) \<Rightarrow> chat_record \<Rightarrow> pydict" where
  "chat_record_dict fmt r =
     [(''workflow_id'', PStr (rc_workflow_id r)), (''run_id'', PStr (rc_run_id r)), (''title'', PStr (rc_title r)),
      (''status'', PStr (case rc_status r of Active \<Rightarrow> ''active'' | Deleting \<Rightarrow> ''deleting'')),
      (''created_at'', PStr (fmt (rc_created_at r))), (''updated_at'', PStr (fmt (rc_updated_at r))),
      (''task_queue'', PStr (rc_task_queue r))]"

section \<open>Serialization\<close>

definition artifact_dict :: "store_env \<Rightarrow> artifact_record \<Rightarrow> pydict" where
  "artifact_dict env a =
     [(''artifact_id'', PStr (ar_artifact_id a)), (''conversation_id'', PStr (ar_conversation_id a)),
      (''workflow_id'', PStr (ar_workflow_id a)), (''name'', PStr (ar_name a)), (''mime_type'', PStr (ar_mime_type a)),
      (''size_bytes'', PInt (int (ar_size_bytes a))), (''created_at'', PStr (ar_created_at a)),
      (''expires_at'', PStr (artifact_expires_at env a)), (''metadata'', PDict (ar_metadata a)),
      (''view_url'', PStr (''/api/artifacts/'' @ ar_artifact_id a)),
      (''download_url'', PStr (''/api/artifacts/'' @ ar_artifact_id a @ ''/download''))]"

definition artifact_dicts :: "store_env \<Rightarrow> artifact_record list \<Rightarrow> pydict list" where
  "artifact_dicts env artifacts = map (artifact_dict env) artifacts"

text \<open>\<open>state_to_dict\<close> with the files of the chat.\<close>

definition state_to_dict ::
  "(datetime \<Rightarrow> string) \<Rightarrow> store_env \<Rightarrow> text_codec \<Rightarrow> artifact_record list \<Rightarrow> simple_chat_state \<Rightarrow> pydict res" where
  "state_to_dict fmt env tc artifacts st =
     res_bind (attachment_dicts env tc artifacts) (\<lambda>attachments. Inr
       (dict_set ''attachments'' (PList (map PDict attachments))
         (dict_set ''artifacts'' (PList (map PDict (artifact_dicts env (generated_artifacts artifacts))))
           (simple_chat_state_dict fmt st))))"

definition TRANSCRIPT_KEYS :: "string list" where
  "TRANSCRIPT_KEYS = [''transcript'', ''transcript_offset'', ''transcript_total'', ''transcript_has_more_before'',
     ''transcript_length'', ''transcript_revision'']"

definition state_patch_to_dict :: "(datetime \<Rightarrow> string) \<Rightarrow> simple_chat_state \<Rightarrow> pydict" where
  "state_patch_to_dict fmt st = filter (\<lambda>(k, _). k \<notin> set TRANSCRIPT_KEYS) (simple_chat_state_dict fmt st)"

definition transcript_page_to_dict :: "TranscriptPage \<Rightarrow> pydict" where
  "transcript_page_to_dict page =
     [(''messages'', PList (map (PDict \<circ> chat_message_dict) (tp_messages page))), (''start'', PInt (tp_start page)),
      (''end'', PInt (tp_end page)), (''total'', PInt (tp_total page)), (''revision'', PInt (tp_transcript_revision page)),
      (''has_more_before'', PBool (tp_start page > 0)), (''limited'', PBool (tp_limited page)),
      (''byte_limit'', PInt (tp_byte_limit page)), (''estimated_bytes'', PInt (tp_estimated_bytes page))]"

definition snapshot_fields :: "simple_chat_state \<Rightarrow> TranscriptPage \<Rightarrow> pydict" where
  "snapshot_fields st page =
     [(''transcript'', PList (map (PDict \<circ> chat_message_dict) (tp_messages page))),
      (''transcript_offset'', PInt (tp_start page)), (''transcript_total'', PInt (tp_total page)),
      (''transcript_has_more_before'', PBool (tp_start page > 0)),
      (''transcript_revision'', PInt (max (st_transcript_revision st) (tp_transcript_revision page))),
      (''transcript_length'', PInt (tp_total page)), (''limited'', PBool (tp_limited page)),
      (''byte_limit'', PInt (tp_byte_limit page)), (''estimated_bytes'', PInt (tp_estimated_bytes page))]"

definition snapshot_to_dict ::
  "(datetime \<Rightarrow> string) \<Rightarrow> store_env \<Rightarrow> text_codec \<Rightarrow> simple_chat_state \<times> TranscriptPage \<Rightarrow> artifact_record list \<Rightarrow> pydict res" where
  "snapshot_to_dict fmt env tc snapshot artifacts =
     res_bind (state_to_dict fmt env tc artifacts (fst snapshot)) (\<lambda>d. Inr (dict_update d (snapshot_fields (fst snapshot) (snd snapshot))))"

definition transcript_delta_result_to_dict :: "TranscriptDeltaResult \<Rightarrow> pydict" where
  "transcript_delta_result_to_dict r =
     [(''from_revision'', PInt (dr_from_revision r)), (''to_revision'', PInt (dr_to_revision r)),
      (''needs_snapshot'', PBool (dr_needs_snapshot r)), (''transcript_length'', PInt (int (dr_transcript_length r))),
      (''status'', PStr (status_text (dr_status r))), (''pending_messages'', PInt (int (dr_pending_messages r))),
      (''active_message_index'', opt_int (dr_active_message_index r)), (''state_revision'', PInt (dr_state_revision r)),
      (''limited'', PBool (dr_limited r)), (''byte_limit'', PInt (dr_byte_limit r)),
      (''estimated_bytes'', PInt (dr_estimated_bytes r)),
      (''deltas'', PList (map (\<lambda>d. PDict [(''revision'', PInt (dl_revision d)), (''index'', PInt (dl_index d)),
         (''message'', PDict (chat_message_dict (dl_message d)))]) (dr_deltas r)))]"

definition bool_header :: "bool \<Rightarrow> string" where
  "bool_header b = (if b then ''true'' else ''false'')"

definition page_headers :: "int \<Rightarrow> int \<Rightarrow> TranscriptPage \<Rightarrow> (string \<times> string) list" where
  "page_headers start end_index page =
     [(''X-Transcript-Start'', int_str start), (''X-Transcript-End'', int_str end_index),
      (''X-Transcript-Total'', int_str (tp_total page)), (''X-Transcript-Limited'', bool_header (tp_limited page)),
      (''X-Transcript-Byte-Limit'', int_str (tp_byte_limit page)),
      (''X-Transcript-Estimated-Bytes'', int_str (tp_estimated_bytes page))]"

text \<open>\<open>set_transcript_headers\<close>, of the snapshot that was written: the end is the start and the messages sent.\<close>

definition set_transcript_headers :: "TranscriptPage \<Rightarrow> (string \<times> string) list" where
  "set_transcript_headers page = page_headers (tp_start page) (tp_start page + int (length (tp_messages page))) page"

definition no_store :: "(string \<times> string) list" where
  "no_store = [(''Cache-Control'', ''no-store'')]"

section \<open>Requests\<close>

record message_request =
  mq_message :: string
  mq_attachment_ids :: "string list"
  mq_after_revision :: int

record create_session_request =
  sq_system_prompt :: string
  sq_model :: "string option"
  sq_max_tokens :: "int option"
  sq_max_turns :: int
  sq_thinking :: thinking_request
  sq_initial_message :: "string option"

text \<open>The routes whose path names a chat, with their parameters.\<close>

datatype session_route =
    GetStatePatch int
  | GetSnapshot int int
  | GetMessages "int option" int int
  | GetMessageDeltas int int
  | PostChat message_request
  | PostChatStream message_request
  | PostSteer message_request string
  | PostInterrupt message_request
  | PostApproval string string
  | GetArtifacts
  | GetAttachments
  | PostAttachment string string "string option"
  | PostTextAttachment string string string
  | GetEvents
  | GetTurnEvents "string option" "string option"
  | GetStreamEvents "string option" int
  | DeleteSession

section \<open>Attachments of a message\<close>

definition get_user_attachment ::
  "('d, 't) api_env \<Rightarrow> string \<Rightarrow> string \<Rightarrow> (('d, 't) api_state, artifact_record) op" where
  "get_user_attachment p user_id i =
     op_bind (with_store (get_artifact (pe_config p) (pe_store_env p) user_id i)) (\<lambda>found. case found of
       None \<Rightarrow> op_raise (http_exception 404 ''Attachment not found'' None)
     | Some a \<Rightarrow>
         (if \<not> artifact_is_user_attachment a then op_raise (http_exception 404 ''Attachment not found'' None)
          else if artifact_is_expired (pe_store_env p) a then op_raise (http_exception 410 ''Attachment has expired'' None)
          else op_return a))"

fun attachment_refs ::
  "('d, 't) api_env \<Rightarrow> string \<Rightarrow> string \<Rightarrow> string list \<Rightarrow> string list \<Rightarrow> (('d, 't) api_state, attachment_ref list) op" where
  "attachment_refs p user_id w seen [] = op_return []"
| "attachment_refs p user_id w seen (i # ids) =
     (let normalized_id = py_strip i in
      if normalized_id = [] \<or> normalized_id \<in> set seen then attachment_refs p user_id w seen ids
      else op_bind (get_user_attachment p user_id normalized_id) (\<lambda>a.
        if ar_workflow_id a \<noteq> w then op_raise (http_exception 404 ''Attachment not found'' None)
        else op_bind (op_lift (attachment_ref_from_artifact (pe_store_env p) (pe_codec p) a)) (\<lambda>ref.
          op_bind (attachment_refs p user_id w (normalized_id # seen) ids) (\<lambda>refs. op_return (ref # refs)))))"

definition attachment_refs_for_request ::
  "('d, 't) api_env \<Rightarrow> string \<Rightarrow> string \<Rightarrow> string list \<Rightarrow> (('d, 't) api_state, attachment_ref list) op" where
  "attachment_refs_for_request p user_id w ids = attachment_refs p user_id w [] ids"

definition chat_signal_message ::
  "('d, 't) api_env \<Rightarrow> auth_user \<Rightarrow> message_request \<Rightarrow> attachment_ref list \<Rightarrow> (('d, 't) api_state, chat_signal_request) op" where
  "chat_signal_message p user request attachments =
     op_bind (ensure_user_chats_workflow p (au_user_id user) (au_username user)) (\<lambda>r.
     op_bind (with_client (tw_list_mcp_servers (pe_client p) r)) (\<lambda>servers.
     op_bind (github_connection_id_for_user p user) (\<lambda>github. op_return
       \<lparr>cr_message = mq_message request, cr_attachments = attachments, cr_after_revision = mq_after_revision request,
        cr_available_tool_names = tool_names_for_connections github servers (pe_research p),
        cr_github_connection_id = github, cr_mcp_servers = servers\<rparr>)))"

section \<open>Reading a chat\<close>

text \<open>A query; a chat that is gone is forgotten.\<close>

definition query_chat ::
  "('d, 't) api_env \<Rightarrow> auth_user \<Rightarrow> string \<Rightarrow> ('t, 'a) op \<Rightarrow> (('d, 't) api_state, 'a) op" where
  "query_chat p user w query =
     op_catch (with_client query) (\<lambda>e.
       if \<not> is_exception e \<or> \<not> is_temporal_not_found e then op_raise e
       else op_bind (forget_conversation p (au_user_id user) w (au_username user)) (\<lambda>_.
         op_raise (http_exception 404 ''Workflow execution not found. Start a new chat.'' (Some e))))"

definition get_state_patch ::
  "('d, 't) api_env \<Rightarrow> auth_user \<Rightarrow> string \<Rightarrow> int \<Rightarrow> (('d, 't) api_state, api_answer) op" where
  "get_state_patch p user w after_revision =
     op_bind (query_chat p user w (tw_state (pe_client p) w)) (\<lambda>st. op_return
       \<lparr>an_body = (if after_revision \<ge> st_state_revision st
          then [(''unchanged'', PBool True), (''state_revision'', PInt (st_state_revision st))]
          else [(''unchanged'', PBool False), (''state'', PDict (state_patch_to_dict (pe_isoformat p) st))]),
        an_headers = no_store @ [(''X-State-Revision'', int_str (st_state_revision st))]\<rparr>)"

definition list_chat_artifacts :: "('d, 't) api_env \<Rightarrow> auth_user \<Rightarrow> string \<Rightarrow> (('d, 't) api_state, artifact_record list) op" where
  "list_chat_artifacts p user w = with_store (list_artifacts (pe_config p) (pe_store_env p) (au_user_id user) w)"

definition get_snapshot ::
  "('d, 't) api_env \<Rightarrow> auth_user \<Rightarrow> string \<Rightarrow> int \<Rightarrow> int \<Rightarrow> (('d, 't) api_state, api_answer) op" where
  "get_snapshot p user w limit max_bytes =
     op_bind (stream_cursor p w) (\<lambda>cursor.
     op_bind (query_chat p user w (tw_snapshot (pe_client p) w limit max_bytes)) (\<lambda>snapshot.
     op_bind (list_chat_artifacts p user w) (\<lambda>artifacts.
     op_bind (op_lift (snapshot_to_dict (pe_isoformat p) (pe_store_env p) (pe_codec p) snapshot artifacts)) (\<lambda>body. op_return
       \<lparr>an_body = body,
        an_headers = no_store @ [(''X-Stream-Cursor'', cursor)] @ set_transcript_headers (snd snapshot)\<rparr>))))"

definition get_messages ::
  "('d, 't) api_env \<Rightarrow> auth_user \<Rightarrow> string \<Rightarrow> int option \<Rightarrow> int \<Rightarrow> int \<Rightarrow> (('d, 't) api_state, api_answer) op" where
  "get_messages p user w before limit max_bytes =
     op_bind (query_chat p user w (tw_transcript_page (pe_client p) w before limit max_bytes)) (\<lambda>page. op_return
       \<lparr>an_body = transcript_page_to_dict page, an_headers = no_store @ page_headers (tp_start page) (tp_end page) page\<rparr>)"

definition get_message_deltas ::
  "('d, 't) api_env \<Rightarrow> auth_user \<Rightarrow> string \<Rightarrow> int \<Rightarrow> int \<Rightarrow> (('d, 't) api_state, api_answer) op" where
  "get_message_deltas p user w after_revision max_bytes =
     op_bind (query_chat p user w (tw_transcript_deltas (pe_client p) w after_revision max_bytes)) (\<lambda>r. op_return
       \<lparr>an_body = transcript_delta_result_to_dict r,
        an_headers = no_store @ [(''X-Transcript-Revision'', int_str (dr_to_revision r)),
          (''X-Transcript-Total'', int_str (int (dr_transcript_length r))),
          (''X-Transcript-Limited'', bool_header (dr_limited r)),
          (''X-Transcript-Byte-Limit'', int_str (dr_byte_limit r)),
          (''X-Transcript-Estimated-Bytes'', int_str (dr_estimated_bytes r))]\<rparr>)"

section \<open>Writing to a chat\<close>

text \<open>What every route does after it changed a chat.\<close>

definition touched ::
  "('d, 't) api_env \<Rightarrow> auth_user \<Rightarrow> string \<Rightarrow> string option \<Rightarrow> (('d, 't) api_state, unit) op" where
  "touched p user w title =
     op_bind (touch_user_chat p (au_user_id user) w title (au_username user)) (\<lambda>_. touch_demo_workspace p)"

text \<open>A message: the cursor of the chat's stream from before it is sent.\<close>

definition send_message ::
  "('d, 't) api_env \<Rightarrow> string option \<Rightarrow> auth_user \<Rightarrow> string \<Rightarrow> message_request \<Rightarrow> (('d, 't) api_state, string) op" where
  "send_message p cookie user w request =
     op_bind (attachment_refs_for_request p (au_user_id user) w (mq_attachment_ids request)) (\<lambda>attachments.
     op_bind (stream_cursor p w) (\<lambda>cursor.
     op_bind (chat_signal_message p user request attachments) (\<lambda>message.
     op_bind (signal_workflow p cookie w (ChatSignal message)) (\<lambda>_.
     op_bind (touched p user w (Some (conversation_title (mq_message request)))) (\<lambda>_.
     op_return cursor)))))"

definition post_chat ::
  "('d, 't) api_env \<Rightarrow> string option \<Rightarrow> auth_user \<Rightarrow> string \<Rightarrow> message_request \<Rightarrow> (('d, 't) api_state, api_answer) op" where
  "post_chat p cookie user w request =
     op_bind (send_message p cookie user w request) (\<lambda>cursor. op_return
       (json_answer [(''status'', PStr ''ok''), (''cursor'', PStr cursor), (''workflow_id'', PStr w)]))"

text \<open>The stream of the turn begins with \<open>turn_accepted\<close> and goes on from the cursor; the answer is that event.\<close>

definition post_chat_stream ::
  "('d, 't) api_env \<Rightarrow> string option \<Rightarrow> auth_user \<Rightarrow> string \<Rightarrow> message_request \<Rightarrow> (('d, 't) api_state, api_answer) op" where
  "post_chat_stream p cookie user w request =
     op_bind (send_message p cookie user w request) (\<lambda>cursor. op_return
       (json_answer [(''workflow_id'', PStr w), (''cursor'', PStr cursor)]))"

definition post_steer ::
  "('d, 't) api_env \<Rightarrow> string option \<Rightarrow> auth_user \<Rightarrow> string \<Rightarrow> message_request \<Rightarrow> string \<Rightarrow> (('d, 't) api_state, api_answer) op" where
  "post_steer p cookie user w request mode =
     op_bind (attachment_refs_for_request p (au_user_id user) w (mq_attachment_ids request)) (\<lambda>attachments.
     op_bind (signal_workflow p cookie w (SteerSignal (mq_message request) mode attachments)) (\<lambda>_.
     op_bind (touched p user w None) (\<lambda>_. op_return status_ok)))"

definition post_signal ::
  "('d, 't) api_env \<Rightarrow> string option \<Rightarrow> auth_user \<Rightarrow> string \<Rightarrow> sent_signal \<Rightarrow> (('d, 't) api_state, api_answer) op" where
  "post_signal p cookie user w sig =
     op_bind (signal_workflow p cookie w sig) (\<lambda>_. op_bind (touched p user w None) (\<lambda>_. op_return status_ok))"

definition upload ::
  "('d, 't) api_env \<Rightarrow> auth_user \<Rightarrow> string \<Rightarrow> string \<Rightarrow> string \<Rightarrow> string \<Rightarrow> string \<Rightarrow> (('d, 't) api_state, api_answer) op" where
  "upload p user w name body mime upload_kind =
     op_bind (op_catch (with_store (create_user_attachment (pe_config p) (pe_store_env p) (pe_codec p) (au_user_id user) w w
         name body mime upload_kind))
       (\<lambda>e. op_raise (if exn_kind e = ExcOther ''AttachmentValidationError'' then http_exception 400 (exn_str e) (Some e) else e)))
       (\<lambda>a. op_bind (touched p user w None) (\<lambda>_.
          op_bind (op_lift (attachment_dict (pe_store_env p) (pe_codec p) a)) (\<lambda>d. op_return
            (json_answer [(''attachment'', PDict d)]))))"

definition delete_session ::
  "('d, 't) api_env \<Rightarrow> auth_user \<Rightarrow> string \<Rightarrow> (('d, 't) api_state, api_answer) op" where
  "delete_session p user w =
     op_bind (ensure_user_chats_workflow p (au_user_id user) (au_username user)) (\<lambda>r.
     op_bind (with_client (tw_delete_chat (pe_client p) r w)) (\<lambda>_.
     op_bind (with_store (delete_artifacts_for_conversation (pe_config p) (au_user_id user) w)) (\<lambda>_.
     op_bind (clear_stream w) (\<lambda>_.
     op_bind (unregister_demo_workspace_chat p w) (\<lambda>_. op_return status_ok)))))"

section \<open>Events\<close>

text \<open>
  The cursor a stream of events begins with: that of the header \<open>Last-Event-ID\<close>, of the query, or of the present end. \<open>events\<close>
  serves from the header alone; what is streamed is in \<open>StreamBroker\<close>.
\<close>

definition turn_events_cursor ::
  "('d, 't) api_env \<Rightarrow> string \<Rightarrow> string option \<Rightarrow> string option \<Rightarrow> (('d, 't) api_state, api_answer) op" where
  "turn_events_cursor p w last_event_id cursor =
     (if filled last_event_id then op_return (json_answer [(''cursor'', PStr (the last_event_id))])
      else if filled cursor then op_return (json_answer [(''cursor'', PStr (the cursor))])
      else op_bind (stream_cursor p w) (\<lambda>c. op_return (json_answer [(''cursor'', PStr c)])))"

definition stream_replay_answer ::
  "('d, 't) api_env \<Rightarrow> string \<Rightarrow> string option \<Rightarrow> int \<Rightarrow> (('d, 't) api_state, api_answer) op" where
  "stream_replay_answer p w cursor limit =
     op_get (\<lambda>s. let rp = buffer_replay_entries (as_buffers s) w (case cursor of None \<Rightarrow> [] | Some c \<Rightarrow> c) limit in
       json_answer [(''cursor'', PStr (rp_cursor rp)), (''replay_available'', PBool (rp_available rp)),
         (''reason'', PStr (rp_reason rp)), (''events'', PList (map PDict (replay_stream_events rp)))])"

section \<open>The routes\<close>

definition serve_session ::
  "('d, 't) api_env \<Rightarrow> string option \<Rightarrow> auth_user \<Rightarrow> string \<Rightarrow> session_route \<Rightarrow> (('d, 't) api_state, api_answer) op" where
  "serve_session p cookie user w route =
     (case route of
        GetStatePatch after_revision \<Rightarrow> get_state_patch p user w after_revision
      | GetSnapshot limit max_bytes \<Rightarrow> get_snapshot p user w limit max_bytes
      | GetMessages before limit max_bytes \<Rightarrow> get_messages p user w before limit max_bytes
      | GetMessageDeltas after_revision max_bytes \<Rightarrow> get_message_deltas p user w after_revision max_bytes
      | PostChat request \<Rightarrow> post_chat p cookie user w request
      | PostChatStream request \<Rightarrow> post_chat_stream p cookie user w request
      | PostSteer request mode \<Rightarrow> post_steer p cookie user w request mode
      | PostInterrupt request \<Rightarrow> post_signal p cookie user w (InterruptSignal (mq_message request))
      | PostApproval approval_id decision \<Rightarrow> post_signal p cookie user w (ResolveApprovalSignal approval_id decision)
      | GetArtifacts \<Rightarrow>
          op_bind (list_chat_artifacts p user w) (\<lambda>artifacts. op_return (json_answer [(''artifacts'',
            PList (map PDict (artifact_dicts (pe_store_env p) (generated_artifacts artifacts))))]))
      | GetAttachments \<Rightarrow>
          op_bind (list_chat_artifacts p user w) (\<lambda>artifacts.
          op_bind (op_lift (attachment_dicts (pe_store_env p) (pe_codec p) artifacts)) (\<lambda>ds.
          op_return (json_answer [(''attachments'', PList (map PDict ds))])))
      | PostAttachment name body mime \<Rightarrow>
          upload p user w (if name = [] then ''attachment'' else name) body (case mime of None \<Rightarrow> [] | Some t \<Rightarrow> t) ''file''
      | PostTextAttachment name body mime \<Rightarrow> upload p user w name (tc_encode (pe_codec p) body) mime ''paste''
      | GetEvents \<Rightarrow> op_return (json_answer [])
      | GetTurnEvents last_event_id cursor \<Rightarrow> turn_events_cursor p w last_event_id cursor
      | GetStreamEvents cursor limit \<Rightarrow> stream_replay_answer p w cursor limit
      | DeleteSession \<Rightarrow> delete_session p user w)"

definition session_request ::
  "('d, 't) api_env \<Rightarrow> string option \<Rightarrow> string \<Rightarrow> session_route \<Rightarrow> (('d, 't) api_state, api_answer) op" where
  "session_request p cookie w route =
     op_bind (require_conversation_owner p cookie w) (\<lambda>user. serve_session p cookie user w route)"

section \<open>Files\<close>

datatype file_route = ViewArtifact string | DownloadArtifact string | ViewAttachment string | DownloadAttachment string

definition get_generated_artifact ::
  "('d, 't) api_env \<Rightarrow> string \<Rightarrow> string \<Rightarrow> (('d, 't) api_state, artifact_record) op" where
  "get_generated_artifact p user_id i =
     op_bind (with_store (get_artifact (pe_config p) (pe_store_env p) user_id i)) (\<lambda>found. case found of
       None \<Rightarrow> op_raise (http_exception 404 ''Artifact not found'' None)
     | Some a \<Rightarrow>
         (if artifact_is_user_attachment a then op_raise (http_exception 404 ''Artifact not found'' None) else op_return a))"

definition serve_file ::
  "('d, 't) api_env \<Rightarrow> string \<Rightarrow> artifact_record \<Rightarrow> (('d, 't) api_state, file_response) op" where
  "serve_file p disposition a =
     with_store (artifact_response (pe_config p) (pe_store_env p) (pe_codec p) a disposition)"

definition file_request ::
  "('d, 't) api_env \<Rightarrow> string option \<Rightarrow> file_route \<Rightarrow> (('d, 't) api_state, file_response) op" where
  "file_request p cookie route =
     op_bind (op_lift (current_user (pe_auth p) cookie)) (\<lambda>user. case route of
       ViewArtifact i \<Rightarrow> op_bind (get_generated_artifact p (au_user_id user) i) (serve_file p ''inline'')
     | DownloadArtifact i \<Rightarrow> op_bind (get_generated_artifact p (au_user_id user) i) (serve_file p ''attachment'')
     | ViewAttachment i \<Rightarrow> op_bind (get_user_attachment p (au_user_id user) i) (serve_file p ''inline'')
     | DownloadAttachment i \<Rightarrow> op_bind (get_user_attachment p (au_user_id user) i) (serve_file p ''attachment''))"

section \<open>Chats\<close>

definition temporal_ui_base_url :: "auth_env \<Rightarrow> string" where
  "temporal_ui_base_url x =
     (let explicit = environ_get x ''TEMPORAL_UI_URL'' [] in
      if explicit \<noteq> [] then explicit
      else if py_contains ''tmprl.cloud'' (environ_get x ''TEMPORAL_ENDPOINT'' []) then ''https://cloud.temporal.io''
      else ''http://localhost:8233'')"

definition temporal_ui_url :: "text_codec \<Rightarrow> auth_env \<Rightarrow> string \<Rightarrow> string \<Rightarrow> string \<Rightarrow> string" where
  "temporal_ui_url tc x namespace w run_id =
     rstrip_slash (temporal_ui_base_url x) @ ''/namespaces/'' @ percent_quote tc namespace @ ''/workflows/'' @
     percent_quote tc w @
     (if percent_quote tc run_id \<noteq> [] then ''/'' @ percent_quote tc run_id @ ''/timeline'' else [])"

definition chat_ui_url :: "('d, 't) api_env \<Rightarrow> chat_record \<Rightarrow> string" where
  "chat_ui_url p r = temporal_ui_url (pe_codec p) (pe_auth p) (tw_namespace (pe_client p)) (rc_workflow_id r) (rc_run_id r)"

definition get_conversations :: "('d, 't) api_env \<Rightarrow> string option \<Rightarrow> (('d, 't) api_state, api_answer) op" where
  "get_conversations p cookie =
     op_bind (op_lift (current_user (pe_auth p) cookie)) (\<lambda>user.
     op_bind (list_user_chats p (au_user_id user) (au_username user)) (\<lambda>rs. op_return
       (json_answer [(''conversations'', PList (map (\<lambda>r. PDict (chat_record_dict (pe_isoformat p) r @
          [(''temporal_ui_url'', PStr (chat_ui_url p r))])) rs))])))"

text \<open>\<open>asdict\<close> of a thinking configuration, as the workflow keeps it.\<close>

definition thinking_dict :: "claude_thinking_config \<Rightarrow> pydict" where
  "thinking_dict t =
     [(''enabled'', PBool (ct_enabled t)), (''mode'', PStr (ct_mode t)), (''budget_tokens'', PInt (ct_budget_tokens t)),
      (''effort'', opt_str (ct_effort t)), (''display'', opt_str (ct_display t))]"

definition new_chat_request ::
  "('d, 't) api_env \<Rightarrow> model_catalog \<Rightarrow> create_session_request \<Rightarrow> string option \<Rightarrow> mcp_server_config list
   \<Rightarrow> create_chat_request res" where
  "new_chat_request p catalog request github servers =
     (let model = str_or (sq_model request) (mc_default_model catalog);
          max_tokens = clamp_output_tokens_for_model (sq_max_tokens request) catalog model in
      res_bind (thinking_config_from_request catalog (sq_thinking request) model max_tokens) (\<lambda>thinking. Inr
        \<lparr>cc_system_prompt = sq_system_prompt request, cc_model = model, cc_max_tokens = max_tokens,
         cc_max_turns = sq_max_turns request, cc_max_context_tokens = max_context_tokens_for_model catalog model,
         cc_thinking = map_option thinking_dict thinking, cc_initial_message = sq_initial_message request,
         cc_available_tool_names = tool_names_for_connections github servers (pe_research p),
         cc_github_connection_id = github, cc_mcp_servers = servers,
         cc_good_place_censor = good_place_enabled (pe_auth p), cc_task_queue = []\<rparr>))"

text \<open>The catalog is what \<open>get_anthropic_model_catalog\<close> gives.\<close>

definition create_session ::
  "('d, 't) api_env \<Rightarrow> string option \<Rightarrow> model_catalog res \<Rightarrow> create_session_request \<Rightarrow> (('d, 't) api_state, api_answer) op" where
  "create_session p cookie catalog request =
     op_bind (op_lift (current_user (pe_auth p) cookie)) (\<lambda>user.
     op_bind (github_connection_id_for_user p user) (\<lambda>github.
     op_bind (ensure_user_chats_workflow p (au_user_id user) (au_username user)) (\<lambda>r.
     op_bind (with_client (tw_list_mcp_servers (pe_client p) r)) (\<lambda>servers.
     op_bind (op_lift catalog) (\<lambda>catalog.
     op_bind (op_lift (new_chat_request p catalog request github servers)) (\<lambda>chat_request.
     op_bind (with_client (tw_create_chat (pe_client p) r chat_request)) (\<lambda>conversation.
     op_bind (clear_stream (rc_workflow_id conversation)) (\<lambda>_.
     op_bind (register_demo_workspace_chat p conversation) (\<lambda>_. op_return (json_answer
       [(''workflow_id'', PStr (rc_workflow_id conversation)), (''run_id'', PStr (rc_run_id conversation)),
        (''temporal_ui_url'', PStr (chat_ui_url p conversation))]))))))))))"

end
