(* ===== verification/UserAttachmentProperties.thy ===== *)
theory UserAttachmentProperties
  imports UserAttachments ArtifactProperties
begin

text \<open>
  What the model may read of the files of a user, what an upload stores, and what a browser is told about a file.
\<close>

section \<open>Reading\<close>

lemma case_Inr: "(case m of Inl _ \<Rightarrow> False | Inr x \<Rightarrow> P x) \<longleftrightarrow> (\<exists>x. m = Inr x \<and> P x)"
  by (cases m) auto

lemma emit_event_run [simp]: "emit_event p k (s, evs) = (Inr (), s, evs @ [(k, p)])"
  by (simp add: emit_event_def op_modify_def)

lemma on_store_Inr: "on_store m (s, evs) = (Inr x, s', evs') \<longleftrightarrow> m s = (Inr x, s') \<and> evs' = evs"
  by (auto simp: on_store_def split: prod.splits)

lemma reported_run [simp]: "reported p k (s, evs) = (Inr p, s, evs @ [(k, p)])"
  by (simp add: reported_def op_bind_def)

lemma read_limit_bound: "0 < read_limit n \<and> read_limit n \<le> 50000"
  by (auto simp: read_limit_def MAX_ATTACHMENT_READ_CHARS_def)

lemmas refusals = attachment_not_found_def attachment_expired_def attachment_unavailable_def attachment_not_text_def

lemma read_found_content:
  assumes "read_found_attachment c tc a kind attachment limit i (s, evs) = (Inr payload, s', evs')"
    and "dict_get payload ''content'' = Some v"
  shows "\<exists>body mime t. read_artifact_bytes c a s = (Inr body, s') \<and> decode_text_attachment tc body mime = Inr t \<and>
     v = PStr (take limit t) \<and> dict_get payload ''truncated'' = Some (PBool (limit < length t))"
proof -
  obtain r s1 where read: "read_artifact_bytes c a s = (r, s1)" by (rule prod.exhaust)
  show ?thesis
  proof (cases r)
    case (Inl e)
    then show ?thesis using assms
      by (auto simp: read_found_attachment_def op_bind_def op_catch_def on_store_def read refusals split: if_splits)
  next
    case (Inr body)
    then show ?thesis using assms
      by (auto simp: read_found_attachment_def op_bind_def op_catch_def on_store_def read refusals attachment_content_def
          Let_def split: if_splits prod.splits sum.splits, blast)
  qed
qed

text \<open>
  C38. The text that the tool \<open>read_attachment\<close> shows the model is that of an attachment of the user of the chat, which
  belongs to this chat and has not expired: the first characters, 50000 at most, of its decoded bytes, and the answer says
  whether there are more.
\<close>

theorem attachment_is_read_in_its_chat:
  assumes "read_attachment_activity c env tc user w i n (s, evs) = (Inr payload, s', evs')"
    and "dict_get payload ''content'' = Some v"
  shows "\<exists>a s1 body mime t. get_artifact c env user i s = (Inr (Some a), s1) \<and> artifact_is_user_attachment a \<and>
     ar_workflow_id a = w \<and> \<not> artifact_is_expired env a \<and> read_artifact_bytes c a s1 = (Inr body, s') \<and>
     decode_text_attachment tc body mime = Inr t \<and> v = PStr (take (read_limit n) t) \<and> read_limit n \<le> 50000 \<and>
     dict_get payload ''truncated'' = Some (PBool (read_limit n < length t))"
proof -
  obtain r s1 where get: "get_artifact c env user i s = (r, s1)" by (rule prod.exhaust)
  note run = assms(1) [unfolded read_attachment_activity_def]
  from run obtain found where r: "r = Inr found" by (cases r) (auto simp: op_bind_def on_store_def get)
  from run assms(2) obtain a where a: "found = Some a"
    by (cases found) (auto simp: op_bind_def on_store_def get r refusals)
  with run assms(2) have own: "artifact_is_user_attachment a" "ar_workflow_id a = w"
    by (auto simp: op_bind_def on_store_def get r refusals split: if_splits)
  with run obtain attachment where d: "attachment_dict env tc a = Inr attachment"
    by (cases "attachment_dict env tc a") (auto simp: op_bind_def on_store_def get r a)
  with run own assms(2) have live: "\<not> artifact_is_expired env a"
    by (auto simp: op_bind_def on_store_def get r a refusals split: if_splits)
  with run own d obtain kind log1 where
    "read_found_attachment c tc a kind attachment (read_limit n) i (s1, log1) = (Inr payload, s', evs')"
    by (auto simp: op_bind_def on_store_def get r a)
  from read_found_content [OF this assms(2)] show ?thesis using get r a own live read_limit_bound [of n] by blast
qed

text \<open>A codec for ASCII, and a store in which every record has the metadata of a text attachment.\<close>

definition ascii_codec :: text_codec where
  "ascii_codec = \<lparr>tc_decode = \<lambda>_ b. Inr b, tc_decode_replace = \<lambda>b. b, tc_encode = \<lambda>t. t, tc_guess_type = \<lambda>_. None,
     tc_sha256 = \<lambda>b. b, tc_float_int = \<lambda>_. Inr 0\<rparr>"

definition attachment_env :: "rat \<Rightarrow> string \<Rightarrow> store_env" where
  "attachment_env t i = (sample_env t i)\<lparr>ev_loads := \<lambda>_. Inr (PDict [(''source'', PStr USER_ATTACHMENT_SOURCE),
     (''content_kind'', PStr ''text''), (''expires_at'', PStr ''never'')])\<rparr>"

definition sample_upload :: "artifact_record res \<times> app_db \<times> item_tables \<times> buckets" where
  "sample_upload = create_artifact (sample_config None) (attachment_env 1 ''x'') ((sample_artifact ''notes.txt'' ''hello world'')
     \<lparr>aa_idempotency_key := []\<rparr>) empty_state"

definition sample_reading :: "pydict res \<times> (app_db \<times> item_tables \<times> buckets) \<times> stream_log" where
  "sample_reading = read_attachment_activity (sample_config None) (attachment_env 2 ''y'') ascii_codec ''u'' ''w''
     ''artifact_x'' 5 (snd sample_upload, [])"

lemma sample_reading_payload:
  "case fst sample_reading of Inr payload \<Rightarrow> dict_get payload ''content'' = Some (PStr ''hello'') | Inl _ \<Rightarrow> False"
  by code_simp

lemma attachment_is_read_in_its_chat_witness:
  "\<exists>payload s' evs' a s1 body mime t. sample_reading = (Inr payload, s', evs') \<and>
     get_artifact (sample_config None) (attachment_env 2 ''y'') ''u'' ''artifact_x'' (snd sample_upload) = (Inr (Some a), s1) \<and>
     ar_workflow_id a = ''w'' \<and> read_artifact_bytes (sample_config None) a s1 = (Inr body, s') \<and>
     decode_text_attachment ascii_codec body mime = Inr t \<and> PStr ''hello'' = PStr (take (read_limit 5) t)"
proof -
  obtain r s' evs' where run: "sample_reading = (r, s', evs')" by (cases sample_reading) blast
  then have "fst sample_reading = r" by (rule HOL.ssubst) (rule fst_conv)
  then have "case r of Inr payload \<Rightarrow> dict_get payload ''content'' = Some (PStr ''hello'') | Inl _ \<Rightarrow> False"
    using sample_reading_payload by (rule subst)
  then obtain payload where payload: "r = Inr payload" "dict_get payload ''content'' = Some (PStr ''hello'')" by (cases r) simp_all
  show ?thesis
    using attachment_is_read_in_its_chat [OF run [unfolded payload(1) sample_reading_def] payload(2)] run payload(1) by blast
qed

section \<open>Uploading\<close>

text \<open>The end of the sample that decides whether a file is text may fall inside a character: such a file is no text.\<close>

definition han_text :: string where
  "han_text = concat (replicate 683 [CHR 0xE4, CHR 0xBD, CHR 0xA0])"

abbreviation han :: string where
  "han \<equiv> [CHR 0xE4, CHR 0xBD, CHR 0xA0]"

lemma han_valid: "utf8_valid (concat (replicate n han)) \<and> CHR 0x00 \<notin> set (concat (replicate n han))"
  by (induction n) (auto simp: utf8_two_def utf8_three_def utf8_next_def code_def)

lemma han_cut: "\<not> utf8_valid (concat (replicate n han) @ [CHR 0xE4, CHR 0xBD])"
  by (induction n) (simp_all add: utf8_two_def utf8_three_def utf8_next_def code_def)

lemma han_sample: "take (3 * n + 2) (concat (replicate (Suc n) han)) = concat (replicate n han) @ [CHR 0xE4, CHR 0xBD]"
proof (induction n)
  case (Suc n)
  have "3 * Suc n + 2 = Suc (Suc (Suc (3 * n + 2)))" by simp
  then have "take (3 * Suc n + 2) (concat (replicate (Suc (Suc n)) han)) = han @ take (3 * n + 2) (concat (replicate (Suc n) han))"
    by (simp only: replicate_Suc concat.simps append_Cons append_Nil take_Suc_Cons)
  with Suc show ?case by simp
qed simp

lemma long_text_taken_for_binary:
  "utf8_valid han_text \<and> CHR 0x00 \<notin> set han_text \<and> \<not> looks_like_text han_text \<and>
   sniff_attachment_text_kind ascii_codec ''notes'' [] han_text ''file'' = (''binary'', ''application/octet-stream'')"
proof -
  have binary: "\<not> looks_like_text han_text"
    using han_cut [of 682] han_sample [of 682] unfolding looks_like_text_def han_text_def Let_def by simp
  moreover have "\<not> text_like_content_kind (detect_content_kind ''notes'' ''application/octet-stream'' ''file'') \<and>
      detect_content_kind ''notes'' ''application/octet-stream'' ''file'' = ''binary''" by code_simp
  moreover from binary have "normalize_mime_type ascii_codec [] ''notes'' han_text = ''application/octet-stream''"
    by (simp add: normalize_mime_type_def ascii_codec_def py_strip_def py_lstrip_def)
  moreover have "utf8_valid han_text \<and> CHR 0x00 \<notin> set han_text" unfolding han_text_def by (rule han_valid)
  ultimately show ?thesis using binary by (simp add: sniff_attachment_text_kind_def Let_def)
qed

section \<open>Serving\<close>

lemma replaced_runs: "list_all (\<lambda>c. \<not> quote_char c) (replace_quote_runs b s)"
  by (induction b s rule: replace_quote_runs.induct) (auto simp: quote_char_def)

lemma upper_hex_safe: "n < 16 \<Longrightarrow> unreserved (upper_hex n)"
proof -
  assume "n < 16"
  then have "code (upper_hex n) = (if n < 10 then 48 + n else 55 + n)" by (auto simp: upper_hex_def code_def)
  with \<open>n < 16\<close> show ?thesis by (auto simp: unreserved_def)
qed

lemma percent_quote_chars: "list_all (\<lambda>c. unreserved c \<or> c = CHR ''%'') (percent_quote tc s)"
proof -
  have "list_all (\<lambda>c. unreserved c \<or> c = CHR ''%'') (concat (map (\<lambda>b. if unreserved b then [b]
     else [CHR ''%'', upper_hex (code b div 16), upper_hex (code b mod 16)]) bs))" for bs
  proof (induction bs)
    case (Cons b bs)
    have "code b div 16 < 16" using code_less [of b] by simp
    then have "unreserved (upper_hex (code b div 16))" by (rule upper_hex_safe)
    moreover have "unreserved (upper_hex (code b mod 16))" by (rule upper_hex_safe) simp
    ultimately show ?case using Cons by simp
  qed simp
  then show ?thesis by (simp add: percent_quote_def)
qed

text \<open>
  Whatever a file is called, its \<open>Content-Disposition\<close> header is the disposition, one quoted name that is not empty and
  holds no quote, backslash or line break, and one extended name of unreserved characters and percent escapes: the name
  of a file can neither end the quotation nor begin another header.
\<close>

theorem disposition_is_one_header:
  "\<exists>quoted extended. content_disposition tc disposition filename =
       disposition @ ''; filename='' @ [CHR 0x22] @ quoted @ [CHR 0x22] @ ''; filename*=UTF-8'' @ [CHR 0x27, CHR 0x27] @ extended \<and>
     quoted \<noteq> [] \<and> list_all (\<lambda>c. \<not> quote_char c) quoted \<and> list_all (\<lambda>c. unreserved c \<or> c = CHR ''%'') extended"
proof -
  let ?quoted = "if replace_quote_runs False filename = [] then ''artifact'' else replace_quote_runs False filename"
  have "list_all (\<lambda>c. \<not> quote_char c) ?quoted" using replaced_runs [of False filename] by (simp add: quote_char_def)
  then show ?thesis using percent_quote_chars [of tc filename]
    by (intro exI [of _ ?quoted] exI [of _ "percent_quote tc filename"]) (simp add: content_disposition_def Let_def)
qed

text \<open>An SVG picture may run scripts, so it is served as text, unless its type is written in capitals.\<close>

lemma svg_served_inline:
  "valid_mime_type ''image/SVG+xml'' \<and> py_lower ''image/SVG+xml'' = ''image/svg+xml'' \<and>
   safe_inline_media_type ''image/svg+xml'' = ''text/plain; charset=utf-8'' \<and>
   safe_inline_media_type ''image/SVG+xml'' = ''image/SVG+xml''"
  by code_simp

end
