(* ===== verification/SessionProperties.thy ===== *)
theory SessionProperties
  imports SessionRoutes UserAttachmentProperties
begin

text \<open>
  Who may do what through the web API: session tokens, the owner of a chat, the files that are served and the attachments
  of a message; and what deleting a chat removes.
\<close>

section \<open>Session tokens\<close>

lemma py_split_no: "c \<notin> set s \<Longrightarrow> py_split c s = [s]"
  by (induction s) auto

lemma py_split_at: "c \<notin> set a \<Longrightarrow> py_split c (a @ c # s) = a # py_split c s"
  by (induction a) auto

lemma ascii_append: "ascii_text (s @ t) \<longleftrightarrow> ascii_text s \<and> ascii_text t"
  by (simp add: ascii_text_def)

lemma base64url_json_chars: "ascii_text (base64url_json v)" "CHR ''.'' \<notin> set (base64url_json v)"
  using base64url_chars by (simp_all add: base64url_json_def)

lemma token_read_back:
  assumes "ax_loads y (json_dumps_compact (json_sort_keys (PDict (session_payload x user ttl)))) =
      Inr (json_sort_keys (PDict (session_payload x user ttl)))"
    and "ax_hmac y = ax_hmac x" and "session_secret y = session_secret x" and "ax_time y \<le> ax_time x + ttl"
  shows "user_from_session_token y (create_session_token x user ttl) = Inr user"
proof -
  define head where "head = base64url_json (PDict [(''alg'', PStr ''HS256''), (''typ'', PStr ''JWT'')])"
  define body where "body = base64url_json (PDict (session_payload x user ttl))"
  define sig where "sig = base64url_encode (ax_hmac x (session_secret x) (head @ ''.'' @ body))"
  have token: "create_session_token x user ttl = head @ CHR ''.'' # body @ CHR ''.'' # sig"
    by (simp add: create_session_token_def encode_jwt_def head_def body_def sig_def Let_def)
  have plain: "CHR ''.'' \<notin> set head" "CHR ''.'' \<notin> set body" "CHR ''.'' \<notin> set sig"
    "ascii_text head" "ascii_text body" "ascii_text ''.''"
    using base64url_json_chars base64url_chars by (simp_all add: head_def body_def sig_def ascii_text_def code_def)
  have parts: "py_split (CHR ''.'') (create_session_token x user ttl) = [head, body, sig]"
    unfolding token using plain by (simp add: py_split_at py_split_no)
  have "decode_jwt y (create_session_token x user ttl) (session_secret y) =
      (case json_sort_keys (PDict (session_payload x user ttl)) of PDict d \<Rightarrow> Inr d | _ \<Rightarrow> Inl (attribute_error []))"
  proof -
    have time: "\<not> ax_time x + ttl < ax_time y" using assms(4) by simp
    have "ascii_bytes (head @ ''.'' @ body) = Inr (head @ ''.'' @ body)"
      using plain by (simp add: ascii_bytes_def ascii_append del: append_Cons)
    then show ?thesis unfolding decode_jwt_def parts
      using assms(1) time
      by (simp add: Let_def sig_def body_def base64url_json_def base64url_round_trip assms(2,3) session_payload_def
          dict_get_none_def int_instance_def)
  qed
  then show ?thesis
    by (simp add: user_from_session_token_def session_payload_def dict_get_none_def)
qed

text \<open>
  C36. A session token is read back as the user it was created for until it expires, whatever the clock, the secret and the
  message authentication code; \<open>json.loads\<close> is only asked to read what \<open>json.dumps\<close> wrote.
\<close>

theorem session_token_round_trip:
  assumes "ax_loads y (json_dumps_compact (json_sort_keys (PDict (session_payload x user ttl)))) =
      Inr (json_sort_keys (PDict (session_payload x user ttl)))"
    and "ax_hmac y = ax_hmac x" and "session_secret y = session_secret x" and "ax_time y \<le> ax_time x + ttl"
  shows "user_from_session_token y (create_session_token x user ttl) = Inr user"
  using assms by (rule token_read_back)

definition sample_user :: auth_user where
  "sample_user = \<lparr>au_user_id = ''user_local_1'', au_username = ''ann''\<rparr>"

definition sample_payload :: pydict where
  "sample_payload = [(''sub'', PStr ''user_local_1''), (''username'', PStr ''ann''), (''iat'', PInt 100), (''exp'', PInt 3700)]"

definition sample_auth :: "int \<Rightarrow> auth_env" where
  "sample_auth time =
     \<lparr>ax_environ = \<lambda>_. None, ax_time = time, ax_hmac = \<lambda>k m. k @ take 2 m, ax_sha256 = \<lambda>s. s,
      ax_loads = \<lambda>t. if t = json_dumps_compact (json_sort_keys (PDict sample_payload))
        then Inr (json_sort_keys (PDict sample_payload)) else Inl (PyExn (ExcOther ''JSONDecodeError'') [] None None)\<rparr>"

lemma sample_session_payload: "session_payload (sample_auth 100) sample_user 3600 = sample_payload"
  by (simp add: session_payload_def sample_auth_def sample_user_def sample_payload_def)

lemma session_token_round_trip_witness:
  "user_from_session_token (sample_auth 3700) (create_session_token (sample_auth 100) sample_user 3600) = Inr sample_user"
  by (rule session_token_round_trip) (simp_all add: sample_session_payload, simp_all add: sample_auth_def session_secret_def environ_get_def)

text \<open>
  C35. A text is accepted as a session token only when it has three parts, the third being the authentication code of the first
  two under the secret of the server, and when its payload names the user and a time that has not passed.
\<close>

theorem session_token_is_signed:
  assumes "user_from_session_token x token = Inr user"
  shows "\<exists>head body sig raw_payload payload until. py_split (CHR ''.'') token = [head, body, sig] \<and>
     base64url_decode sig = Inr (ax_hmac x (session_secret x) (head @ ''.'' @ body)) \<and>
     base64url_decode body = Inr raw_payload \<and> ax_loads x raw_payload = Inr (PDict payload) \<and>
     dict_get payload ''sub'' = Some (PStr (au_user_id user)) \<and> dict_get payload ''username'' = Some (PStr (au_username user)) \<and>
     int_instance (dict_get_none payload ''exp'') = Some until \<and> ax_time x \<le> until"
proof -
  obtain payload where payload: "decode_jwt x token (session_secret x) = Inr payload"
    using assms by (cases "decode_jwt x token (session_secret x)") (simp_all add: user_from_session_token_def)
  have user: "dict_get payload ''sub'' = Some (PStr (au_user_id user)) \<and> dict_get payload ''username'' = Some (PStr (au_username user))"
    using assms by (auto simp: user_from_session_token_def payload dict_get_none_def split: pyval.splits option.splits)
  obtain head body sig where parts: "py_split (CHR ''.'') token = [head, body, sig]"
    using payload by (auto simp: decode_jwt_def split: list.splits)
  have raw: "ascii_bytes (head @ ''.'' @ body) = Inr (head @ ''.'' @ body)"
    using payload by (auto simp: decode_jwt_def parts Let_def ascii_bytes_def split: if_splits)
  have "base64url_decode sig = Inr (ax_hmac x (session_secret x) (head @ ''.'' @ body)) \<and>
      (\<exists>raw_payload until. base64url_decode body = Inr raw_payload \<and> ax_loads x raw_payload = Inr (PDict payload) \<and>
        int_instance (dict_get_none payload ''exp'') = Some until \<and> ax_time x \<le> until)"
  proof -
    let ?sig = "ax_hmac x (session_secret x) (head @ ''.'' @ body)"
    have sig: "base64url_decode sig = Inr ?sig" using payload raw
      by (cases "base64url_decode sig") (simp_all add: decode_jwt_def parts Let_def split: if_splits)
    obtain raw_payload v where raw_payload: "base64url_decode body = Inr raw_payload" "ax_loads x raw_payload = Inr v"
      using payload raw sig by (auto simp: decode_jwt_def parts Let_def res_bind_eq_Inr)
    obtain d where v: "v = PDict d" using payload raw sig raw_payload by (cases v) (simp_all add: decode_jwt_def parts Let_def)
    have "d = payload \<and> (\<exists>until. int_instance (dict_get_none payload ''exp'') = Some until \<and> ax_time x \<le> until)"
      using payload raw sig raw_payload v
      by (cases "int_instance (dict_get_none d ''exp'')") (auto simp: decode_jwt_def parts Let_def split: if_splits)
    with sig raw_payload v show ?thesis by blast
  qed
  then show ?thesis using parts user by blast
qed

lemma session_token_is_signed_witness:
  "\<exists>head body sig. py_split (CHR ''.'') (create_session_token (sample_auth 100) sample_user 3600) = [head, body, sig] \<and>
     base64url_decode sig = Inr (ax_hmac (sample_auth 100) (session_secret (sample_auth 100)) (head @ ''.'' @ body))"
proof -
  have "user_from_session_token (sample_auth 100) (create_session_token (sample_auth 100) sample_user 3600) = Inr sample_user"
    by (rule token_read_back) (simp_all add: sample_session_payload, simp_all add: sample_auth_def)
  from session_token_is_signed [OF this] show ?thesis by blast
qed

text \<open>A token whose signature is no encoding makes the server fail instead of asking for a sign-in.\<close>

lemma malformed_token_is_an_error: "\<exists>e. current_user x (Some ''a.b.c'') = Inl e \<and> exn_kind e = ExcValueError"
proof -
  have "base64url_decode ''c'' = Inl binascii_error"
    by (simp add: base64url_decode_def b64decode_def ascii_text_def code_def plain_char_def char_sextet_def eval_nat_numeral)
  then show ?thesis
    by (simp add: current_user_def user_from_session_token_def decode_jwt_def ascii_bytes_def ascii_text_def code_def
        binascii_error_def)
qed

end
