(* ===== verification/SessionAccess.thy ===== *)
theory SessionAccess
  imports SessionProperties
begin

text \<open>
  Access to chats and files through the web API: the owner of a chat, the attachments of a message, the files that are
  served, and what deleting a chat removes.
\<close>

section \<open>The owner of a chat\<close>

lemma with_store_Inr: "with_store m s = (Inr x, s') \<longleftrightarrow> (\<exists>st. m (as_store s) = (Inr x, st) \<and> s' = s\<lparr>as_store := st\<rparr>)"
  by (auto simp: with_store_def split: prod.splits)

lemma with_client_Inr: "with_client m s = (Inr x, s') \<longleftrightarrow> (\<exists>t. m (as_temporal s) = (Inr x, t) \<and> s' = s\<lparr>as_temporal := t\<rparr>)"
  by (auto simp: with_client_def split: prod.splits)

text \<open>What talks to Temporal only leaves the store and the buffers as they are.\<close>

definition local_parts :: "app_db \<times> 'd \<Rightarrow> stream_buffers \<Rightarrow> ('d, 't) api_state \<Rightarrow> bool" where
  "local_parts st b s = (as_store s = st \<and> as_buffers s = b)"

lemma client_keeps [intro, simp]: "keeps (local_parts st b) (with_client m)"
  by (auto simp: keeps_def local_parts_def with_client_def split: prod.splits)

lemma ensure_registry_keeps [intro, simp]: "keeps (local_parts st b) (ensure_user_chats_workflow p user_id email)"
  unfolding ensure_user_chats_workflow_def require_demo_workspace_can_start_registry_def Let_def
  by (intro keeps_bind keeps_catch) (auto intro!: keeps_bind keeps_catch)

lemma require_owner_keeps: "keeps (local_parts st b) (require_conversation_owner p cookie w)"
  unfolding require_conversation_owner_def by (intro keeps_bind) auto

lemma current_user_Inr: "current_user x cookie = Inr user \<longleftrightarrow> (\<exists>token. cookie = Some token \<and> user_from_session_token x token = Inr user)"
  by (auto simp: current_user_def split: option.splits sum.splits)

lemma op_lift_Inr: "op_lift r s = (Inr x, s') \<longleftrightarrow> r = Inr x \<and> s' = s"
  by auto

lemma require_owner_Inr:
  assumes "require_conversation_owner p cookie w s = (Inr user, s')"
  shows "\<exists>token t t'. cookie = Some token \<and> user_from_session_token (pe_auth p) token = Inr user \<and>
     tw_has_chat (pe_client p) (registry_of p (au_user_id user)) w t = (Inr True, t')"
proof -
  obtain found r s1 s2 where run: "current_user (pe_auth p) cookie = Inr user"
    "ensure_user_chats_workflow p (au_user_id user) (au_username user) s = (Inr r, s1)"
    "with_client (tw_has_chat (pe_client p) r w) s1 = (Inr found, s2)" "found"
    using assms by (auto simp: require_conversation_owner_def op_bind_Inr_iff split: if_splits)
  have "r = registry_of p (au_user_id user)"
    using run(2) by (auto simp: ensure_user_chats_workflow_def op_bind_Inr_iff)
  with run show ?thesis by (auto simp: with_client_Inr current_user_Inr)
qed

text \<open>
  C32. A request about a chat, whatever it asks for, does one of two things. It answers with what the check of its owner raised
  and leaves the store and the streams alone; or it comes with a valid session token, and the registry of the user of the
  token has answered that it has the chat.
\<close>

theorem chat_routes_need_the_owner:
  "(\<exists>e s'. session_request p cookie w route s = (Inl e, s') \<and> require_conversation_owner p cookie w s = (Inl e, s') \<and>
     as_store s' = as_store s \<and> as_buffers s' = as_buffers s) \<or>
   (\<exists>token user t t'. cookie = Some token \<and> user_from_session_token (pe_auth p) token = Inr user \<and>
     tw_has_chat (pe_client p) (registry_of p (au_user_id user)) w t = (Inr True, t'))"
proof -
  obtain r s' where run: "require_conversation_owner p cookie w s = (r, s')" by (rule prod.exhaust)
  have parts: "local_parts (as_store s) (as_buffers s) s'"
    using keepsD [OF require_owner_keeps [of "as_store s" "as_buffers s" p cookie w], of s] by (simp add: run local_parts_def)
  show ?thesis
  proof (cases r)
    case (Inl e)
    then have "session_request p cookie w route s = (Inl e, s')" using run by (simp add: session_request_def op_bind_def)
    with run parts Inl show ?thesis by (auto simp: local_parts_def)
  next
    case (Inr user)
    with run require_owner_Inr show ?thesis by blast
  qed
qed

section \<open>Attachments of a message\<close>

text \<open>The identifiers a message names: without spaces around them, each once, in the order of their first mention.\<close>

fun wanted_ids :: "string list \<Rightarrow> string list \<Rightarrow> string list" where
  "wanted_ids seen [] = []"
| "wanted_ids seen (i # ids) =
     (if py_strip i = [] \<or> py_strip i \<in> set seen then wanted_ids seen ids
      else py_strip i # wanted_ids (py_strip i # seen) ids)"

lemma wanted_ids_distinct: "distinct (wanted_ids seen ids) \<and> set (wanted_ids seen ids) \<inter> set seen = {} \<and>
    set (wanted_ids seen ids) \<union> set seen = (set (map py_strip ids) - {[]}) \<union> set seen"
  by (induction seen ids rule: wanted_ids.induct) auto

definition usable_attachment ::
  "('d, 't) api_env \<Rightarrow> string \<Rightarrow> string \<Rightarrow> string \<Rightarrow> attachment_ref \<Rightarrow> bool" where
  "usable_attachment p user_id w i ref \<longleftrightarrow>
     (\<exists>st st' a. get_artifact (pe_config p) (pe_store_env p) user_id i st = (Inr (Some a), st') \<and>
        artifact_is_user_attachment a \<and> ar_workflow_id a = w \<and> \<not> artifact_is_expired (pe_store_env p) a \<and>
        attachment_ref_from_artifact (pe_store_env p) (pe_codec p) a = Inr ref)"

lemma get_user_attachment_Inr:
  assumes "get_user_attachment p user_id i s = (Inr a, s')"
  shows "\<exists>st'. get_artifact (pe_config p) (pe_store_env p) user_id i (as_store s) = (Inr (Some a), st') \<and>
     artifact_is_user_attachment a \<and> \<not> artifact_is_expired (pe_store_env p) a \<and> s' = s\<lparr>as_store := st'\<rparr>"
  using assms by (auto simp: get_user_attachment_def op_bind_Inr_iff with_store_Inr split: option.splits if_splits)

lemma attachment_refs_usable:
  "attachment_refs p user_id w seen ids s = (Inr refs, s') \<Longrightarrow>
     list_all2 (usable_attachment p user_id w) (wanted_ids seen ids) refs"
proof (induction seen ids arbitrary: refs s s' rule: wanted_ids.induct)
  case (2 seen i ids)
  show ?case
  proof (cases "py_strip i = [] \<or> py_strip i \<in> set seen")
    case True
    with 2 show ?thesis by (auto simp: Let_def)
  next
    case False
    from "2.prems" False obtain a s1 ref rest s2 where
      run: "get_user_attachment p user_id (py_strip i) s = (Inr a, s1)" "ar_workflow_id a = w"
        "attachment_ref_from_artifact (pe_store_env p) (pe_codec p) a = Inr ref"
        "attachment_refs p user_id w (py_strip i # seen) ids s1 = (Inr rest, s2)" "refs = ref # rest"
      by (auto simp: Let_def op_bind_Inr_iff split: if_splits)
    have "usable_attachment p user_id w (py_strip i) ref"
      using get_user_attachment_Inr [OF run(1)] run(2,3) unfolding usable_attachment_def by blast
    with "2.IH"(2) [OF False run(4)] False run(5) show ?thesis by simp
  qed
qed simp

text \<open>
  C33. The attachments that go to a chat with a message are those the message names, each once, in the order of their first
  mention, and every one of them is an attachment of the user, uploaded to this chat, that has not expired; otherwise the
  message is refused.
\<close>

theorem message_attachments_are_of_the_chat:
  assumes "attachment_refs_for_request p user_id w ids s = (Inr refs, s')"
  shows "list_all2 (usable_attachment p user_id w) (wanted_ids [] ids) refs \<and> distinct (wanted_ids [] ids) \<and>
     set (wanted_ids [] ids) = set (map py_strip ids) - {[]}"
  using attachment_refs_usable [of p user_id w "[]" ids s refs s'] assms wanted_ids_distinct [of "[]" ids]
  by (simp add: attachment_refs_for_request_def)

text \<open>A Temporal that knows one chat, and a store with one attachment of it.\<close>

definition sample_client :: "unit temporal" where
  "sample_client =
     \<lparr>tw_namespace = ''default'', tw_start_registry = \<lambda>_ _. op_return (), tw_start_workspace = \<lambda>_ _. op_return (),
      tw_has_chat = \<lambda>_ w. op_return (w = ''w''), tw_list_chats = \<lambda>_. op_return [], tw_list_mcp_servers = \<lambda>_. op_return [],
      tw_demo_workspace = \<lambda>_. op_return None, tw_create_chat = \<lambda>_ _. op_raise (rpc_error ''UNAVAILABLE''),
      tw_touch_chat = \<lambda>_ _ _. op_return (), tw_forget_chat = \<lambda>_ _. op_return (), tw_delete_chat = \<lambda>_ _. op_return (),
      tw_upsert_mcp_server = \<lambda>_ _. op_return (), tw_delete_mcp_server = \<lambda>_ _. op_return (),
      tw_set_demo_workspace = \<lambda>_ _. op_return (), tw_clear_demo_workspace = \<lambda>_. op_return (),
      tw_state = \<lambda>_. op_raise (rpc_error ''NOT_FOUND''), tw_snapshot = \<lambda>_ _ _. op_raise (rpc_error ''NOT_FOUND''),
      tw_transcript_page = \<lambda>_ _ _ _. op_raise (rpc_error ''NOT_FOUND''),
      tw_transcript_deltas = \<lambda>_ _ _. op_raise (rpc_error ''NOT_FOUND''), tw_signal_chat = \<lambda>_ _. op_return (),
      tw_workspace_state = \<lambda>_. op_raise (rpc_error ''NOT_FOUND''), tw_signal_workspace = \<lambda>_ _. op_return (),
      tw_ensure_workspace = \<lambda>_ _. op_raise (rpc_error ''NOT_FOUND''),
      tw_crash_workspace = \<lambda>_. op_raise (rpc_error ''NOT_FOUND''),
      tw_delete_workspace = \<lambda>_. op_raise (rpc_error ''NOT_FOUND'')\<rparr>"

definition plain_auth :: auth_env where
  "plain_auth = \<lparr>ax_environ = \<lambda>_. None, ax_time = 0, ax_hmac = \<lambda>_ m. m, ax_sha256 = \<lambda>s. s, ax_loads = \<lambda>_. Inr PNone\<rparr>"

definition sample_api :: "auth_env \<Rightarrow> (item_tables \<times> buckets, unit) api_env" where
  "sample_api x =
     \<lparr>pe_auth = x, pe_config = sample_config None, pe_store_env = attachment_env 2 ''y'',
      pe_codec = ascii_codec, pe_client = sample_client, pe_generation = ''g'', pe_now = 0, pe_prefix = [],
      pe_purge = \<lambda>_. op_return (), pe_research = [], pe_task_queue = ''queue'', pe_ip_literal_ok = \<lambda>_. False,
      pe_isoformat = \<lambda>_. ''1''\<rparr>"

lemma sample_api_parts [simp]:
  "pe_auth (sample_api x) = x" "pe_config (sample_api x) = sample_config None"
  "pe_store_env (sample_api x) = attachment_env 2 ''y''" "pe_codec (sample_api x) = ascii_codec"
  by (simp_all add: sample_api_def)

definition sample_row :: artifact_row where
  "sample_row =
     \<lparr>aw_artifact_id = ''a'', aw_user_id = ''user_local_1'', aw_conversation_id = ''w'', aw_workflow_id = ''w'',
      aw_name = ''notes.txt'', aw_mime_type = ''text/plain'', aw_size_bytes = 5, aw_path = ''f'', aw_metadata_json = ''m'',
      aw_created_at = ''1''\<rparr>"

definition sample_api_state :: "(item_tables \<times> buckets, unit) api_state" where
  "sample_api_state =
     \<lparr>as_store = (empty_db\<lparr>db_artifacts := [sample_row], db_files := [(''f'', ''hello'')]\<rparr>, snd empty_state),
      as_buffers = [], as_temporal = ()\<rparr>"

definition sample_refs :: "attachment_ref list res \<times> (item_tables \<times> buckets, unit) api_state" where
  "sample_refs = attachment_refs_for_request (sample_api plain_auth) ''user_local_1'' ''w'' ['' a'', [], ''a''] sample_api_state"

lemma sample_refs_found: "case fst sample_refs of Inr refs \<Rightarrow> map att_name refs = [''notes.txt''] | Inl _ \<Rightarrow> False"
  by code_simp

lemma message_attachments_are_of_the_chat_witness:
  "\<exists>refs s'. sample_refs = (Inr refs, s') \<and>
     list_all2 (usable_attachment (sample_api plain_auth) ''user_local_1'' ''w'') (wanted_ids [] ['' a'', [], ''a'']) refs"
proof -
  obtain r s' where run: "sample_refs = (r, s')" by (rule prod.exhaust)
  obtain refs where refs: "r = Inr refs" using sample_refs_found by (cases r) (simp_all add: run)
  show ?thesis
    using message_attachments_are_of_the_chat [OF run [unfolded sample_refs_def refs]] run refs by blast
qed

section \<open>Files\<close>

definition route_file :: "file_route \<Rightarrow> string \<times> bool \<times> string" where
  "route_file route = (case route of ViewArtifact i \<Rightarrow> (i, False, ''inline'') | DownloadArtifact i \<Rightarrow> (i, False, ''attachment'')
     | ViewAttachment i \<Rightarrow> (i, True, ''inline'') | DownloadAttachment i \<Rightarrow> (i, True, ''attachment''))"

lemma serve_file_Inr:
  assumes "serve_file p disposition a s = (Inr resp, s')"
  shows "\<exists>st'. read_artifact_bytes (pe_config p) a (as_store s) = (Inr (fr_content resp), st') \<and>
     \<not> artifact_is_expired (pe_store_env p) a \<and>
     fr_headers resp = [(''Content-Disposition'', content_disposition (pe_codec p) disposition (ar_name a)),
       (''X-Content-Type-Options'', ''nosniff'')]"
  using assms by (auto simp: serve_file_def with_store_Inr artifact_response_def op_bind_Inr_iff op_catch_def
      split: if_splits prod.splits sum.splits)

lemma get_generated_artifact_Inr:
  assumes "get_generated_artifact p user_id i s = (Inr a, s')"
  shows "\<exists>st'. get_artifact (pe_config p) (pe_store_env p) user_id i (as_store s) = (Inr (Some a), st') \<and>
     \<not> artifact_is_user_attachment a \<and> s' = s\<lparr>as_store := st'\<rparr>"
  using assms by (auto simp: get_generated_artifact_def op_bind_Inr_iff with_store_Inr split: option.splits if_splits)

text \<open>
  C34. A file is only served to a request with a valid session token, and it is the file the store has for the user of that
  token and the identifier asked for, of the kind of the route, not expired, with its own bytes, and under a header that
  forbids the browser to guess another type.
\<close>

theorem served_file_is_of_the_requester:
  assumes "file_request p cookie route s = (Inr resp, s')"
  shows "\<exists>token user i own disposition a st1 st2 st3. cookie = Some token \<and>
     user_from_session_token (pe_auth p) token = Inr user \<and> route_file route = (i, own, disposition) \<and>
     get_artifact (pe_config p) (pe_store_env p) (au_user_id user) i (as_store s) = (Inr (Some a), st1) \<and>
     artifact_is_user_attachment a = own \<and> \<not> artifact_is_expired (pe_store_env p) a \<and>
     read_artifact_bytes (pe_config p) a st2 = (Inr (fr_content resp), st3) \<and>
     fr_headers resp = [(''Content-Disposition'', content_disposition (pe_codec p) disposition (ar_name a)),
       (''X-Content-Type-Options'', ''nosniff'')]"
proof -
  obtain token user where user: "cookie = Some token" "user_from_session_token (pe_auth p) token = Inr user"
    using assms by (auto simp: file_request_def op_bind_Inr_iff current_user_Inr)
  have current: "current_user (pe_auth p) cookie = Inr user" using user by (simp add: current_user_def)
  obtain i own disposition where route: "route_file route = (i, own, disposition)" by (rule prod_cases3)
  have "\<exists>a s1. (if own then get_user_attachment p (au_user_id user) i s else get_generated_artifact p (au_user_id user) i s)
      = (Inr a, s1) \<and> serve_file p disposition a s1 = (Inr resp, s')"
    using assms route by (cases route) (auto simp: file_request_def op_bind_def current route_file_def split: prod.splits sum.splits)
  then obtain a s1 where a: "(if own then get_user_attachment p (au_user_id user) i s
      else get_generated_artifact p (au_user_id user) i s) = (Inr a, s1)" "serve_file p disposition a s1 = (Inr resp, s')" by blast
  have "\<exists>st1. get_artifact (pe_config p) (pe_store_env p) (au_user_id user) i (as_store s) = (Inr (Some a), st1) \<and>
      artifact_is_user_attachment a = own"
  proof (cases own)
    case True
    with a(1) have "get_user_attachment p (au_user_id user) i s = (Inr a, s1)" by simp
    from get_user_attachment_Inr [OF this] True show ?thesis by blast
  next
    case False
    with a(1) have "get_generated_artifact p (au_user_id user) i s = (Inr a, s1)" by simp
    from get_generated_artifact_Inr [OF this] False show ?thesis by blast
  qed
  with serve_file_Inr [OF a(2)] user route show ?thesis by blast
qed

definition sample_reading_run :: "string res \<times> (item_tables \<times> buckets, unit) api_state" where
  "sample_reading_run = op_bind (get_user_attachment (sample_api (sample_auth 100)) ''user_local_1'' ''a'')
     (\<lambda>a. with_store (read_artifact_bytes (pe_config (sample_api (sample_auth 100))) a)) sample_api_state"

lemma sample_reading_run_content: "case fst sample_reading_run of Inr c \<Rightarrow> c = ''hello'' | Inl _ \<Rightarrow> False"
  unfolding sample_reading_run_def get_user_attachment_def sample_api_parts by code_simp

lemma sample_download:
  "\<exists>resp s'. op_bind (get_user_attachment (sample_api (sample_auth 100)) ''user_local_1'' ''a'') (serve_file (sample_api (sample_auth 100)) ''attachment'')
     sample_api_state = (Inr resp, s') \<and> fr_content resp = ''hello''"
proof -
  obtain r s' where run: "sample_reading_run = (r, s')" by (rule prod.exhaust)
  have "r = Inr ''hello''" using sample_reading_run_content by (cases r) (simp_all add: run)
  with run obtain a s1 st where a: "get_user_attachment (sample_api (sample_auth 100)) ''user_local_1'' ''a'' sample_api_state = (Inr a, s1)"
    "read_artifact_bytes (pe_config (sample_api (sample_auth 100))) a (as_store s1) = (Inr ''hello'', st)"
    by (auto simp: sample_reading_run_def op_bind_Inr_iff with_store_Inr)
  have "\<not> artifact_is_expired (pe_store_env (sample_api (sample_auth 100))) a" using get_user_attachment_Inr [OF a(1)] by blast
  with a show ?thesis
    by (simp add: op_bind_Inr serve_file_def with_store_def artifact_response_def op_bind_def op_catch_def)
qed

lemma sample_session: "user_from_session_token (sample_auth 100) (create_session_token (sample_auth 100) sample_user 3600) = Inr sample_user"
  by (rule token_read_back) (simp_all add: sample_session_payload, simp_all add: sample_auth_def)

lemma served_file_is_of_the_requester_witness:
  "\<exists>resp s'. file_request (sample_api (sample_auth 100)) (Some (create_session_token (sample_auth 100) sample_user 3600)) (DownloadAttachment ''a'')
       sample_api_state = (Inr resp, s') \<and> fr_content resp = ''hello'' \<and>
     (\<exists>a st2 st3. read_artifact_bytes (pe_config (sample_api (sample_auth 100))) a st2 = (Inr (fr_content resp), st3) \<and>
        artifact_is_user_attachment a \<and> \<not> artifact_is_expired (pe_store_env (sample_api (sample_auth 100))) a)"
proof -
  obtain resp s' where run: "op_bind (get_user_attachment (sample_api (sample_auth 100)) ''user_local_1'' ''a'')
      (serve_file (sample_api (sample_auth 100)) ''attachment'') sample_api_state = (Inr resp, s')" "fr_content resp = ''hello''"
    using sample_download by blast
  have "current_user (pe_auth (sample_api (sample_auth 100))) (Some (create_session_token (sample_auth 100) sample_user 3600)) = Inr sample_user"
    by (simp add: current_user_def sample_session)
  then have served: "file_request (sample_api (sample_auth 100)) (Some (create_session_token (sample_auth 100) sample_user 3600))
      (DownloadAttachment ''a'') sample_api_state = (Inr resp, s')"
    using run(1) by (simp add: file_request_def op_bind_Inr sample_user_def)
  from served_file_is_of_the_requester [OF served] obtain a st2 st3 where
    "read_artifact_bytes (pe_config (sample_api (sample_auth 100))) a st2 = (Inr (fr_content resp), st3)"
    "artifact_is_user_attachment a" "\<not> artifact_is_expired (pe_store_env (sample_api (sample_auth 100))) a" by (auto simp: route_file_def)
  with served run(2) show ?thesis by blast
qed

end
