(* ===== verification/ApiProperties.thy ===== *)
theory ApiProperties
  imports SessionAccess "HOL-Library.Multiset"
begin

text \<open>
  What deleting a chat removes, the limits of a new chat, the catalog of models, and where a sign-in may send its token.
\<close>

section \<open>Deleting a chat\<close>

lemma files_without: "map_of (fold AList.delete ps files) k = (if k \<in> set ps then None else map_of files k)"
  by (induction ps arbitrary: files) (auto simp: delete_conv)

lemma buffer_cleared: "map_of (clear_buffer w b) w = None"
  by (simp add: clear_buffer_def delete_conv)

lemma parent_signal_keeps: "keeps (local_parts st b) (signal_parent p sig)"
  unfolding signal_parent_def best_effort_def by (auto intro!: keeps_catch)

lemma delete_session_run:
  assumes "delete_session p user w s = (Inr ans, s')" and "ac_artifact_store (pe_config p) = None"
  shows "as_store s' = (snd (sqlite_delete_artifacts (au_user_id user) w (fst (as_store s))), snd (as_store s)) \<and>
     as_buffers s' = clear_buffer w (as_buffers s) \<and>
     (\<exists>t t'. tw_delete_chat (pe_client p) (registry_of p (au_user_id user)) w t = (Inr (), t'))"
proof -
  obtain r s1 s2 s3 s4 where run:
    "ensure_user_chats_workflow p (au_user_id user) (au_username user) s = (Inr r, s1)"
    "with_client (tw_delete_chat (pe_client p) r w) s1 = (Inr (), s2)"
    "with_store (delete_artifacts_for_conversation (pe_config p) (au_user_id user) w) s2 = (Inr (), s3)"
    "clear_stream w s3 = (Inr (), s4)" "unregister_demo_workspace_chat p w s4 = (Inr (), s')"
    using assms(1) by (auto simp: delete_session_def op_bind_Inr_iff)
  have r: "r = registry_of p (au_user_id user)" using run(1) by (auto simp: ensure_user_chats_workflow_def op_bind_Inr_iff)
  have "local_parts (as_store s) (as_buffers s) s1"
    using keepsD [OF ensure_registry_keeps [of "as_store s" "as_buffers s" p "au_user_id user" "au_username user"], of s] run(1)
    by (simp add: local_parts_def)
  then have s2: "as_store s2 = as_store s" "as_buffers s2 = as_buffers s" "\<exists>t t'. tw_delete_chat (pe_client p) r w t = (Inr (), t')"
    using run(2) by (auto simp: with_client_Inr local_parts_def)
  have s3: "as_store s3 = (snd (sqlite_delete_artifacts (au_user_id user) w (fst (as_store s))), snd (as_store s))"
    "as_buffers s3 = as_buffers s"
    using run(3) s2 assms(2)
    by (auto simp: with_store_Inr delete_artifacts_for_conversation_def on_database_def split: prod.splits)
  have s4: "as_store s4 = as_store s3" "as_buffers s4 = clear_buffer w (as_buffers s3)"
    using run(4) by (auto simp: clear_stream_def with_broker_def)
  have "local_parts (as_store s4) (as_buffers s4) s'"
    using keepsD [OF parent_signal_keeps [of "as_store s4" "as_buffers s4" p "UnregisterChatSignal w"], of s4] run(5)
    by (simp add: local_parts_def unregister_demo_workspace_chat_def)
  with s2 s3 s4 r show ?thesis by (auto simp: local_parts_def)
qed

text \<open>
  C37. When a request to delete a chat succeeds, with files kept in the local database and directory (not in DynamoDB and S3):
  no record of a file of the user in that chat is left, and neither are its bytes unless the operating system refused to
  remove that file (the code goes on without a word then); the records and files of other chats and users are untouched,
  the stream of the chat is empty, and the registry of the user has been told to delete the chat.
\<close>

theorem deleting_a_chat_removes_its_files:
  assumes "session_request p cookie w DeleteSession s = (Inr ans, s')" and "ac_artifact_store (pe_config p) = None"
  defines "db \<equiv> fst (as_store s)" and "db' \<equiv> fst (as_store s')"
  shows "\<exists>user. current_user (pe_auth p) cookie = Inr user \<and>
     db_artifacts db' = filter (\<lambda>r. \<not> (aw_user_id r = au_user_id user \<and> aw_workflow_id r = w)) (db_artifacts db) \<and>
     (\<forall>path. map_of (db_files db') path =
        (if (\<exists>r \<in> set (db_artifacts db). aw_path r = path \<and> aw_user_id r = au_user_id user \<and> aw_workflow_id r = w) \<and>
            path \<notin> set (db_undeletable db)
         then None else map_of (db_files db) path)) \<and>
     map_of (as_buffers s') w = None \<and>
     (\<exists>t t'. tw_delete_chat (pe_client p) (registry_of p (au_user_id user)) w t = (Inr (), t'))"
proof -
  obtain user s1 where run: "require_conversation_owner p cookie w s = (Inr user, s1)" "delete_session p user w s1 = (Inr ans, s')"
    using assms(1) by (auto simp: session_request_def serve_session_def op_bind_Inr_iff)
  have "local_parts (as_store s) (as_buffers s) s1"
    using keepsD [OF require_owner_keeps [of "as_store s" "as_buffers s" p cookie w], of s] run(1) by (simp add: local_parts_def)
  then have s1: "as_store s1 = as_store s" by (simp add: local_parts_def)
  have user: "current_user (pe_auth p) cookie = Inr user" using require_owner_Inr [OF run(1)] by (auto simp: current_user_Inr)
  have db': "db' = snd (sqlite_delete_artifacts (au_user_id user) w db)" "map_of (as_buffers s') w = None"
    "\<exists>t t'. tw_delete_chat (pe_client p) (registry_of p (au_user_id user)) w t = (Inr (), t')"
    using delete_session_run [OF run(2) assms(2)] by (simp_all add: db_def db'_def s1 buffer_cleared)
  have "map_of (db_files db') path = (if (\<exists>r \<in> set (db_artifacts db). aw_path r = path \<and> aw_user_id r = au_user_id user \<and>
        aw_workflow_id r = w) \<and> path \<notin> set (db_undeletable db) then None else map_of (db_files db) path)" for path
    unfolding db'(1) sqlite_delete_artifacts_def op_modify_def Let_def by (auto simp: files_without)
  moreover have "db_artifacts db' = filter (\<lambda>r. \<not> (aw_user_id r = au_user_id user \<and> aw_workflow_id r = w)) (db_artifacts db)"
    unfolding db'(1) sqlite_delete_artifacts_def op_modify_def Let_def by simp
  ultimately show ?thesis using user db'(2,3) by blast
qed

lemma sample_owner:
  "require_conversation_owner (sample_api (sample_auth 100)) (Some (create_session_token (sample_auth 100) sample_user 3600)) ''w''
     sample_api_state = (Inr sample_user, sample_api_state)"
proof -
  have user: "current_user (sample_auth 100) (Some (create_session_token (sample_auth 100) sample_user 3600)) = Inr sample_user"
    by (simp add: current_user_def sample_session)
  have "ensure_user_chats_workflow (sample_api (sample_auth 100)) u e sample_api_state =
      (Inr (registry_of (sample_api (sample_auth 100)) u), sample_api_state)" for u e
    by (simp add: ensure_user_chats_workflow_def require_demo_workspace_can_start_registry_def op_bind_def demo_workspace_mode_def
        env_flag_def with_client_def) (simp add: sample_auth_def sample_api_def sample_client_def sample_api_state_def)
  then show ?thesis
    by (simp add: require_conversation_owner_def op_bind_def user with_client_def)
      (simp add: sample_api_def sample_client_def sample_api_state_def)
qed

lemma deleting_a_chat_removes_its_files_witness:
  "\<exists>ans s'. session_request (sample_api (sample_auth 100)) (Some (create_session_token (sample_auth 100) sample_user 3600)) ''w''
       DeleteSession sample_api_state = (Inr ans, s') \<and> map_of (db_files (fst (as_store s'))) ''f'' = None \<and>
     map_of (db_files (fst (as_store sample_api_state))) ''f'' = Some ''hello''"
proof -
  have ensure: "ensure_user_chats_workflow (sample_api (sample_auth 100)) u e sample_api_state =
      (Inr (registry_of (sample_api (sample_auth 100)) u), sample_api_state)" for u e
    by (simp add: ensure_user_chats_workflow_def require_demo_workspace_can_start_registry_def op_bind_def demo_workspace_mode_def
        env_flag_def with_client_def) (simp add: sample_auth_def sample_api_def sample_client_def sample_api_state_def)
  have parent: "parent_workflow_id (sample_api (sample_auth 100)) = []"
    by (simp add: parent_workflow_id_def environ_strip_def environ_get_def sample_auth_def py_strip_def py_lstrip_def)
  have client: "with_client (tw_delete_chat (pe_client (sample_api (sample_auth 100))) r ''w'') sample_api_state =
      (Inr (), sample_api_state)" for r
    by (simp add: with_client_def sample_api_def sample_client_def sample_api_state_def)
  have store: "ac_artifact_store (sample_config None) = None" by code_simp
  have "\<exists>s'. delete_session (sample_api (sample_auth 100)) sample_user ''w'' sample_api_state = (Inr status_ok, s')"
    by (auto simp: delete_session_def op_bind_def ensure client with_store_def unregister_demo_workspace_chat_def signal_parent_def
        parent clear_stream_def with_broker_def delete_artifacts_for_conversation_def store on_database_def
        sqlite_delete_artifacts_def op_modify_def split: prod.splits)
  then obtain s' where "session_request (sample_api (sample_auth 100))
      (Some (create_session_token (sample_auth 100) sample_user 3600)) ''w'' DeleteSession sample_api_state = (Inr status_ok, s')"
    by (auto simp: session_request_def serve_session_def op_bind_def sample_owner)
  moreover have "ac_artifact_store (pe_config (sample_api (sample_auth 100))) = None" by (simp add: store)
  moreover have "current_user (pe_auth (sample_api (sample_auth 100)))
      (Some (create_session_token (sample_auth 100) sample_user 3600)) = Inr sample_user"
    by (simp add: current_user_def sample_session)
  ultimately show ?thesis
    using deleting_a_chat_removes_its_files [of "sample_api (sample_auth 100)"
        "Some (create_session_token (sample_auth 100) sample_user 3600)" "''w''" sample_api_state status_ok s']
    by (auto simp: sample_api_state_def sample_row_def sample_user_def empty_db_def)
qed

section \<open>Limits of a new chat\<close>

text \<open>
  C40. Whatever thinking and however many tokens a new chat asks for, when the web API accepts it the tokens of an answer are
  at least one and at most what the model allows, exactly as many as were asked for when that is within those bounds, and
  Claude's provider accepts the thinking and sends it: nothing when thinking is off; when the mode is adaptive (asked for, or
  not said and known of the model) adaptive thinking with the effort that was asked for; otherwise extended thinking with
  the budget that was asked for, brought between 1024 tokens and one less than the tokens of an answer.
\<close>

theorem thinking_of_a_new_chat_is_accepted:
  assumes "thinking_config_from_request catalog request model (clamp_output_tokens_for_model requested catalog model) = Inr config"
  defines "n \<equiv> clamp_output_tokens_for_model requested catalog model"
    and "most \<equiv> max_output_tokens_for_model catalog model"
    and "adaptive \<equiv> tq_mode request = Some ''adaptive'' \<or>
      (tq_mode request \<in> {None, Some []} \<and> (\<exists>m. model_by_id catalog model = Some m \<and> ''adaptive'' \<in> set (mo_thinking_modes m)))"
  shows "1 \<le> n \<and> n \<le> most \<and> n = (case requested of None \<Rightarrow> most | Some k \<Rightarrow> if k < 1 then 1 else if most < k then most else k) \<and>
     thinking_request_params config n =
       Inr (if \<not> tq_enabled request then (None, None)
            else if adaptive
            then (Some [(''type'', PStr ''adaptive''), (''display'', PStr ''summarized'')],
                  Some [(''effort'', PStr (tq_effort request))])
            else (Some [(''type'', PStr ''enabled''), (''budget_tokens'', PInt (max 1024 (min (tq_budget_tokens request) (n - 1)))),
                        (''display'', PStr ''summarized'')], None)) \<and>
     (tq_enabled request \<and> \<not> adaptive \<longrightarrow> max 1024 (min (tq_budget_tokens request) (n - 1)) < n)"
proof -
  have capability: "0 < most"
    by (auto simp: most_def max_output_tokens_for_model_def fallback_max_output_tokens_def fallback_capability_def or_int_def
        DEFAULT_MAX_OUTPUT_TOKENS_def FALLBACK_MODEL_CAPABILITIES_def split: option.splits if_splits)
  then have n: "1 \<le> n \<and> n \<le> most \<and> n = (case requested of None \<Rightarrow> most | Some k \<Rightarrow> if k < 1 then 1 else if most < k then most else k)"
    by (auto simp: n_def most_def clamp_output_tokens_for_model_def Let_def split: option.splits)
  have mode: "(str_or (tq_mode request) (default_thinking_mode_for_model catalog model) = ''adaptive'') = adaptive"
    by (auto simp: adaptive_def str_or_def default_thinking_mode_for_model_def default_thinking_mode_def split: option.splits list.splits)
  have config: "thinking_config_from_request catalog request model n = Inr config" using assms(1) by (simp add: n_def)
  have "thinking_request_params config n =
       Inr (if \<not> tq_enabled request then (None, None)
            else if adaptive
            then (Some [(''type'', PStr ''adaptive''), (''display'', PStr ''summarized'')],
                  Some [(''effort'', PStr (tq_effort request))])
            else (Some [(''type'', PStr ''enabled''), (''budget_tokens'', PInt (max 1024 (min (tq_budget_tokens request) (n - 1)))),
                        (''display'', PStr ''summarized'')], None)) \<and>
     (tq_enabled request \<and> \<not> adaptive \<longrightarrow> max 1024 (min (tq_budget_tokens request) (n - 1)) < n)"
    using config unfolding thinking_config_from_request_def mode Let_def
    by (auto simp: thinking_request_params_def ClaudeThinkingConfig_def MIN_THINKING_BUDGET_TOKENS_def split: if_splits)
  with n show ?thesis by blast
qed

lemma thinking_of_a_new_chat_is_accepted_witness:
  "thinking_request_params
     (Some (ClaudeThinkingConfig\<lparr>ct_enabled := True, ct_budget_tokens := 1999, ct_display := Some ''summarized''\<rparr>)) 2000
     = Inr (Some [(''type'', PStr ''enabled''), (''budget_tokens'', PInt 1999), (''display'', PStr ''summarized'')], None)"
proof -
  let ?catalog = "\<lparr>mc_source = ''fallback'', mc_models = [fallback_model ''claude-sonnet-4-5''],
    mc_default_model = ''claude-sonnet-4-5'', mc_error = None\<rparr>"
  let ?request = "\<lparr>tq_enabled = True, tq_mode = Some ''enabled'', tq_budget_tokens = 4096, tq_effort = ''max''\<rparr>"
  have max: "max_output_tokens_for_model ?catalog ''claude-sonnet-4-5'' = 32000" by code_simp
  then have clamp: "clamp_output_tokens_for_model (Some 2000) ?catalog ''claude-sonnet-4-5'' = 2000"
    by (simp add: clamp_output_tokens_for_model_def)
  have config: "thinking_config_from_request ?catalog ?request ''claude-sonnet-4-5''
      (clamp_output_tokens_for_model (Some 2000) ?catalog ''claude-sonnet-4-5'') =
      Inr (Some (ClaudeThinkingConfig\<lparr>ct_enabled := True, ct_budget_tokens := 1999, ct_display := Some ''summarized''\<rparr>))"
    by (simp add: clamp thinking_config_from_request_def str_or_def MIN_THINKING_BUDGET_TOKENS_def ClaudeThinkingConfig_def)
  show ?thesis using thinking_of_a_new_chat_is_accepted [OF config] unfolding clamp by simp
qed

section \<open>Where a sign-in ends\<close>

lemma partition_at: "c \<notin> set a \<Longrightarrow> py_partition c (a @ c # s) = (a, [c], s)"
  by (induction a) auto

lemma url_of_netloc:
  assumes "\<forall>c \<in> set n. \<not> netloc_end c \<and> c \<noteq> CHR 0x09 \<and> c \<noteq> CHR 0x0D \<and> c \<noteq> CHR 0x0A"
    and "\<forall>c \<in> set rest. c \<noteq> CHR 0x09 \<and> c \<noteq> CHR 0x0D \<and> c \<noteq> CHR 0x0A"
    and "CHR ''['' \<in> set n \<or> CHR '']'' \<in> set n \<Longrightarrow> ok n"
  shows "\<exists>parsed. urlparse ok (''https://'' @ n @ CHR ''/'' # rest) = Inr parsed \<and> pu_scheme parsed = ''https'' \<and>
     pu_netloc parsed = n"
proof -
  have "clean_url (''https://'' @ n @ CHR ''/'' # rest) = ''https://'' @ n @ CHR ''/'' # rest"
    using assms(1,2) by (auto simp: clean_url_def code_def filter_id_conv)
  moreover have "split_scheme (''https://'' @ n @ CHR ''/'' # rest) = (''https'', ''//'' @ n @ CHR ''/'' # rest)"
    by (simp add: split_scheme_def letter_def scheme_char_def code_def py_lower_def py_lower_char_def)
  moreover have "takeWhile (\<lambda>c. \<not> netloc_end c) (n @ CHR ''/'' # rest) = n"
    using assms(1) by (simp add: takeWhile_append2 netloc_end_def)
  ultimately show ?thesis using assms(3)
    by (auto simp: urlparse_def py_startswith_def Let_def split: prod.splits)
qed

lemma urlparse_netloc:
  assumes "urlparse ok value = Inr parsed"
  shows "(\<forall>c \<in> set (pu_netloc parsed). \<not> netloc_end c \<and> c \<noteq> CHR 0x09 \<and> c \<noteq> CHR 0x0D \<and> c \<noteq> CHR 0x0A) \<and>
     (CHR ''['' \<in> set (pu_netloc parsed) \<or> CHR '']'' \<in> set (pu_netloc parsed) \<longrightarrow> ok (pu_netloc parsed))"
proof -
  obtain scheme url where url: "split_scheme (clean_url value) = (scheme, url)" by (rule prod.exhaust)
  have part: "set before \<union> set after \<subseteq> set t" if "py_partition c t = (before, sep, after)" for c t before sep after
    using that by (induction t arbitrary: before) (auto split: if_splits prod.splits)
  have "set url \<subseteq> set (clean_url value)"
    using url part [of "CHR '':''" "clean_url value"] by (auto simp: split_scheme_def split: prod.splits if_splits)
  then have clean: "c \<noteq> CHR 0x09 \<and> c \<noteq> CHR 0x0D \<and> c \<noteq> CHR 0x0A" if "c \<in> set url" for c
    using that by (auto simp: clean_url_def)
  have netloc: "pu_netloc parsed = (if py_startswith url ''//'' then takeWhile (\<lambda>c. \<not> netloc_end c) (drop 2 url) else [])"
    "CHR ''['' \<in> set (pu_netloc parsed) \<or> CHR '']'' \<in> set (pu_netloc parsed) \<longrightarrow> ok (pu_netloc parsed)"
    using assms by (auto simp: urlparse_def url Let_def split: prod.splits if_splits)
  have "c \<in> set url \<and> \<not> netloc_end c" if "c \<in> set (pu_netloc parsed)" for c
    using that by (auto simp: netloc dest!: set_takeWhileD in_set_dropD split: if_splits)
  with clean netloc(2) show ?thesis by blast
qed

text \<open>
  C39. When a sign-in with Google ends at another site, that is where the browser takes its token: an address of scheme
  \<open>https\<close>, without user or password, whose host, as it is read from the whole address, ends with the configured suffix of
  the demo workspaces once the dots before that suffix are taken off, and what is left of the suffix is not empty. (A suffix
  that begins with a dot is therefore not taken as the border of a domain, see the host below.)
\<close>

theorem token_goes_to_a_workspace_host:
  assumes "allowed_demo_workspace_return_to ok x queue value = Inr return_to" and "return_to \<noteq> []"
  shows "\<exists>parsed. urlparse ok (fst (signed_in tc x user return_to)) = Inr parsed \<and> pu_scheme parsed = ''https'' \<and>
     \<not> filled (url_username parsed) \<and> \<not> filled (url_password parsed) \<and>
     py_endswith (py_lower (url_hostname parsed)) (py_lower (dropWhile (\<lambda>c. c = CHR ''.'') (workspace_host_suffix x queue))) \<and>
     dropWhile (\<lambda>c. c = CHR ''.'') (workspace_host_suffix x queue) \<noteq> []"
proof -
  obtain p where p: "urlparse ok value = Inr p" "return_to = ''https://'' @ pu_netloc p" "pu_netloc p \<noteq> []"
    "\<not> filled (url_username p)" "\<not> filled (url_password p)"
    "py_endswith (py_lower (url_hostname p)) (py_lower (dropWhile (\<lambda>c. c = CHR ''.'') (workspace_host_suffix x queue)))"
    "dropWhile (\<lambda>c. c = CHR ''.'') (workspace_host_suffix x queue) \<noteq> []"
    using assms by (auto simp: allowed_demo_workspace_return_to_def res_bind_eq_Inr Let_def split: if_splits)
  note netloc = urlparse_netloc [OF p(1)]
  let ?token = "percent_quote tc (create_session_token x user DEFAULT_SESSION_SECONDS)"
  have "last (pu_netloc p) \<noteq> CHR ''/''" using netloc last_in_set [OF p(3)] by (auto simp: netloc_end_def)
  then have "rev (dropWhile (\<lambda>c. c = CHR ''/'') (rev return_to)) = return_to"
    using p(2,3) by (cases "pu_netloc p" rule: rev_cases) simp_all
  then have address: "fst (signed_in tc x user return_to) =
      ''https://'' @ pu_netloc p @ CHR ''/'' # ''api/demo-workspace/login?token='' @ ?token"
    using assms(2) by (simp add: signed_in_def Let_def p(2))
  have "\<forall>c \<in> set (''api/demo-workspace/login?token='' @ ?token). c \<noteq> CHR 0x09 \<and> c \<noteq> CHR 0x0D \<and> c \<noteq> CHR 0x0A"
    using percent_quote_chars [of tc "create_session_token x user DEFAULT_SESSION_SECONDS"]
    by (auto simp: list_all_iff unreserved_def code_def)
  from url_of_netloc [OF _ this, of "pu_netloc p" ok] netloc obtain parsed where
    "urlparse ok (fst (signed_in tc x user return_to)) = Inr parsed" "pu_scheme parsed = ''https''" "pu_netloc parsed = pu_netloc p"
    unfolding address by blast
  with p(4-7) show ?thesis
    by (auto simp: url_username_def url_password_def url_hostname_def cong: option.case_cong)
qed

text \<open>
  A suffix that begins with a dot, as the name of a domain above the workspaces may be written, loses it: then the host of
  another domain with the same ending is taken for a workspace, and is sent the token.
\<close>

definition dotted_auth :: auth_env where
  "dotted_auth = plain_auth\<lparr>ax_environ := \<lambda>name. if name = ''SIMPLE_CHAT_DEMO_WORKSPACE_HOST_SUFFIX'' then Some ''.example.com'' else None\<rparr>"

definition foreign_return :: "string res" where
  "foreign_return = allowed_demo_workspace_return_to (\<lambda>_. False) dotted_auth ''queue'' ''https://evilexample.com''"

lemma foreign_host_is_accepted: "case foreign_return of Inr address \<Rightarrow> address = ''https://evilexample.com'' | Inl _ \<Rightarrow> False"
  by code_simp

lemma token_goes_to_a_workspace_host_witness:
  "\<exists>return_to parsed. allowed_demo_workspace_return_to (\<lambda>_. False) dotted_auth ''queue'' ''https://evilexample.com'' = Inr return_to \<and>
     urlparse (\<lambda>_. False) (fst (signed_in ascii_codec dotted_auth sample_user return_to)) = Inr parsed \<and> pu_scheme parsed = ''https''"
proof -
  have r: "foreign_return = Inr ''https://evilexample.com''"
    using foreign_host_is_accepted by (auto simp: case_Inr)
  from token_goes_to_a_workspace_host [OF r [unfolded foreign_return_def], of ascii_codec sample_user] r show ?thesis
    by (auto simp: foreign_return_def)
qed

section \<open>Models\<close>

lemma dedupe_models_ids: "distinct (map mo_id (dedupe_models seen ms)) \<and> set (map mo_id (dedupe_models seen ms)) \<inter> set seen = {} \<and>
    set (map mo_id (dedupe_models seen ms)) \<union> set seen = set (map mo_id ms) \<union> set seen"
  by (induction seen ms rule: dedupe_models.induct) auto

lemma sorted_models_set: "set (sorted_models timestamps ms) = set ms" "distinct (map mo_id (sorted_models timestamps ms)) = distinct (map mo_id ms)"
proof -
  show "set (sorted_models timestamps ms) = set ms" by (simp add: sorted_models_def)
  have "mset (map mo_id (sorted_models timestamps ms)) = mset (map mo_id ms)" by (simp add: sorted_models_def)
  then show "distinct (map mo_id (sorted_models timestamps ms)) = distinct (map mo_id ms)" by (rule mset_eq_imp_distinct_iff)
qed

lemma sorted_models_rank: "sorted_wrt (\<lambda>m n. family_rank (mo_id n) \<le> family_rank (mo_id m)) (sorted_models timestamps ms)"
proof -
  have "sorted (map (family_rank \<circ> mo_id) (sort_key (family_rank \<circ> mo_id) xs))" for xs by (rule sorted_sort_key)
  then show ?thesis by (simp add: sorted_models_def sorted_wrt_rev sorted_wrt_map o_def)
qed

text \<open>
  Every catalog of models the web API offers, whether Anthropic answers or not, lists each model once and the families from
  Opus down, and its default model is one of them.
\<close>

theorem catalog_is_well_formed:
  assumes "load_anthropic_model_catalog x timestamps list_models = Inr catalog"
  shows "distinct (map mo_id (mc_models catalog)) \<and> mc_default_model catalog \<in> mo_id ` set (mc_models catalog) \<and>
     sorted_wrt (\<lambda>m n. family_rank (mo_id n) \<le> family_rank (mo_id m)) (mc_models catalog)"
proof -
  have listed: "distinct (map mo_id ms) \<and> sorted_wrt (\<lambda>m n. family_rank (mo_id n) \<le> family_rank (mo_id m)) ms \<and>
      mo_id ` set ms = mo_id ` set options" if "ms = sorted_models timestamps (dedupe_models [] options)" for ms options
    unfolding that using dedupe_models_ids [of "[]" options] by (simp add: sorted_models_set sorted_models_rank)
  have fallback: "distinct (map mo_id (mc_models c)) \<and> mc_default_model c \<in> mo_id ` set (mc_models c) \<and>
      sorted_wrt (\<lambda>m n. family_rank (mo_id n) \<le> family_rank (mo_id m)) (mc_models c)"
    if "c = fallback_catalog x timestamps err" for c err
  proof -
    define configured where "configured =
      filter (\<lambda>m. m \<noteq> []) (map py_strip (py_split (CHR '','') (environ_get x ''ANTHROPIC_MODEL_OPTIONS'' [])))"
    define chosen where "chosen = py_strip (environ_get x ''ANTHROPIC_MODEL'' [])"
    define base where "base = (if configured \<noteq> [] then configured else FALLBACK_MODEL_OPTIONS)"
    define options where "options = (if chosen \<noteq> [] then chosen # base else base)"
    have options: "mc_models c = sorted_models timestamps (dedupe_models [] (map fallback_model options))"
      by (simp add: that fallback_catalog_def Let_def options_def base_def chosen_def configured_def)
    have "options \<noteq> []" by (simp add: options_def base_def FALLBACK_MODEL_OPTIONS_def)
    moreover have "mc_default_model c \<in> set options \<or> (mc_models c \<noteq> [] \<longrightarrow> mc_default_model c = mo_id (hd (mc_models c)))"
      by (simp add: that fallback_catalog_def Let_def options_def base_def chosen_def configured_def)
    moreover have ids: "mo_id ` set (map fallback_model options) = set options" by (auto simp: fallback_model_def image_iff)
    ultimately show ?thesis using listed [OF options] by (cases "mc_models c") auto
  qed
  show ?thesis
  proof (cases "mc_source catalog = ''anthropic''")
    case True
    with assms obtain options where os: "mc_models catalog = sorted_models timestamps (dedupe_models [] options)"
      "mc_models catalog \<noteq> []" "mc_default_model catalog = mo_id (hd (mc_models catalog))"
      by (auto simp: load_anthropic_model_catalog_def fallback_catalog_def Let_def split: if_splits sum.splits)
    show ?thesis using listed [OF os(1)] os(2,3) by (cases "mc_models catalog") auto
  next
    case False
    with assms obtain err where "catalog = fallback_catalog x timestamps err"
      by (auto simp: load_anthropic_model_catalog_def Let_def split: if_splits sum.splits)
    then show ?thesis by (rule fallback)
  qed
qed

lemma catalog_is_well_formed_witness:
  "mc_default_model (fallback_catalog plain_auth (\<lambda>_. None) (Some ''ANTHROPIC_API_KEY is not configured'')) \<in>
     mo_id ` set (mc_models (fallback_catalog plain_auth (\<lambda>_. None) (Some ''ANTHROPIC_API_KEY is not configured'')))"
proof -
  have "load_anthropic_model_catalog plain_auth (\<lambda>_. None) (\<lambda>_. Inr []) =
      Inr (fallback_catalog plain_auth (\<lambda>_. None) (Some ''ANTHROPIC_API_KEY is not configured''))"
    by (simp add: load_anthropic_model_catalog_def plain_auth_def environ_get_def)
  from catalog_is_well_formed [OF this] show ?thesis by blast
qed

end
