(* ===== verification/Spec2Isabelle.thy ===== *)
theory Spec2Isabelle
  imports AgentProperties WindowProperties ContextInterface ToolProperties LlmGuards Attachments
    TranscriptProperties ChatDeltas ChatProperties ChatToolProperties UserChatsProperties
    DemoWorkspaceProperties ChatGPTProperties GeminiProperties ProviderErrors
    StreamBrokerProperties SubagentProperties ArtifactProperties ApiProperties
begin

text \<open>
  A verification development for this repository: \<open>agent_harness\<close>, a library that runs a
  large-language-model agent inside a Temporal workflow, and the chat application
  \<open>simple_chat_agent\<close> that is built on it.

  \<^bold>\<open>The program.\<close> An \<open>Agent\<close> (\<open>agent.py\<close>) alternates between calling a provider and running the
  tools the model asks for. Its history is kept by a context manager
  (\<open>sliding_window_context_manager.py\<close>), which decides what part of the history the model sees and
  shortens it to a token budget (\<open>context_manager.py\<close>). Tools are registered in a \<open>ToolSet\<close>
  (\<open>tools.py\<close>); each is protected by guards before and after it (\<open>guards.py\<close>), under a policy that
  demands guards for categories of tools (\<open>tool_types.py\<close>). LLM guards (\<open>llm_guards.py\<close>) inspect,
  rewrite or stop each request and response of the provider. Tools and guards receive their
  arguments by name and their context by annotation (\<open>invocation.py\<close>), and do their side effects in
  activities, which are named by references to functions and scheduled with options
  (\<open>activity_router.py\<close>, \<open>workflow_activities.py\<close>, \<open>activity_options.py\<close>). Users steer and
  interrupt a running agent by signals, and a long conversation continues in a new workflow run
  from a snapshot of its context.

  In the application a chat is a workflow (\<open>simple_chat_agent/worker/workflow.py\<close>) around such an
  agent: it queues the messages of the user and answers them one after the other, shows the user
  the transcript by queries (whole pages, or the changes since a revision), asks for approval of the
  tool calls that change something, for its own tools and those of its subagents, and continues as
  new when its history grows or its time is up. Its tools (\<open>worker/tools/\<close>) follow the connections
  of the user, among them MCP servers (\<open>mcp.py\<close>).

  \<^bold>\<open>Theories.\<close>
  \<^item> \<open>Prelude\<close>: Python values and dictionaries, exceptions, computations that raise, with state
    (\<open>op\<close>), string functions, \<open>repr\<close> and \<open>json.dumps\<close>.
  \<^item> \<open>Messages\<close>, \<open>Attachments\<close>: \<open>messages.py\<close>, \<open>attachments.py\<close>.
  \<^item> \<open>ContextBudget\<close>: \<open>ContextTokenBudget\<close>, token estimates, and the \<open>ContextManager\<close> protocol as
    a record of operations (\<open>context_ops\<close>), through which the agent uses its manager.
  \<^item> \<open>SlidingWindow\<close>: every method and helper of \<open>sliding_window_context_manager.py\<close>, with the
    proof that the truncation loops end. \<open>ToolExchanges\<close>: pairing of tool calls and results, kept
    by every step. \<open>BudgetFitting\<close>: what the truncation loops achieve, and that what they
    cut are only texts (\<open>cut_list\<close>). \<open>WindowProperties\<close>: the
    properties of the manager. \<open>ContextInterface\<close>: the locale \<open>context_contract\<close>, what the agent
    relies on, interpreted on the sliding window.
  \<^item> \<open>Activities\<close>: activity options, routed activities, function references, heartbeats.
  \<^item> \<open>Invocation\<close>: \<open>bind_keyword_arguments\<close>.
  \<^item> \<open>Registry\<close>: the locale \<open>name_registry\<close> of a table that only grows, interpreted on the guard
    registry and on the tool registry.
  \<^item> \<open>Guards\<close>, \<open>Tools\<close>: \<open>guards.py\<close>, \<open>tool_types.py\<close>, \<open>tools.py\<close>; \<open>ToolProperties\<close>: their
    properties. \<open>LlmGuards\<close>: \<open>llm_guards.py\<close>.
  \<^item> \<open>ProviderInterface\<close>: requests, responses and the protocol of a provider, and the helpers the
    providers share. \<open>Agent\<close>: \<open>agent.py\<close>; \<open>AgentProperties\<close>: its properties.
  \<^item> \<open>Streaming\<close>: the events a provider emits while it answers (\<open>streaming.py\<close>). \<open>Claude\<close>,
    \<open>ChatGPT\<close>, \<open>Gemini\<close>: the providers (\<open>providers/claude.py\<close>, \<open>chatgpt.py\<close>, \<open>gemini.py\<close>);
    \<open>Claude\<close> also holds what the three share. \<open>ProviderHistory\<close>: when a history that passed through
    the format of a provider has kept its calls, what its messages tell the model
    (\<open>block_view\<close>, \<open>message_view\<close>), and the locale \<open>history_format\<close>, interpreted on Claude
    and Gemini. \<open>ClaudeProperties\<close>, \<open>ChatGPTProperties\<close>, \<open>GeminiProperties\<close>: their properties.
    \<open>ProviderErrors\<close>: overflows of the context, from the providers to the agent.
  \<^item> \<open>Mcp\<close>: names, registration and error payloads of MCP tools (\<open>mcp_types.py\<close>, \<open>mcp.py\<close>).
  \<^item> \<open>Transcript\<close>: the functions of \<open>workflow.py\<close> that turn the agent's history into what the user
    sees, read attachments back from text and limit the size of answers; \<open>TranscriptProperties\<close>.
  \<^item> \<open>StateMachine\<close>: reachability, and the locales \<open>invariant_system\<close> and \<open>forward_simulation\<close>.
  \<^item> \<open>ChatWorkflow\<close>: the state of \<open>SimpleChatWorkflow\<close>, its signal handlers, queries and the parts
    of its main loop between suspensions. \<open>ChatSteps\<close>: their composition to a state machine.
    \<open>ChatInvariants\<close>: the locale \<open>signal_handler\<close>, interpreted on each handler, and the queue.
    \<open>ChatTurns\<close>: the active turn. \<open>ChatApprovals\<close>: approvals. \<open>ChatDeltas\<close>: the buffer of
    transcript changes. \<open>ChatProperties\<close>: the properties of the machine.
  \<^item> \<open>ChatTools\<close>: the tools the chat declares, the approval guard (\<open>approval.py\<close>), \<open>AppToolSet\<close> and
    \<open>build_tools\<close> (\<open>worker/tools/__init__.py\<close>); \<open>ChatToolProperties\<close>.
  \<^item> \<open>UserChats\<close>: the registry of the chats of a user (\<open>user_chats_workflow.py\<close>) as a state machine;
    \<open>UserChatsProperties\<close>.
  \<^item> \<open>DemoWorkspace\<close>: the life of a demo workspace (\<open>demo_workspace_workflow.py\<close>) as a state machine;
    \<open>DemoWorkspaceProperties\<close>.
  \<^item> \<open>Subagent\<close>: the tool that delegates a task, the workflow of the child and its approvals
    (\<open>worker/tools/subagent.py\<close>); \<open>SubagentProperties\<close>.
  \<^item> \<open>StreamBroker\<close>: the events of each stream, kept for browsers in buffers or files
    (\<open>api/streaming.py\<close>, \<open>common/streaming.py\<close>); \<open>StreamBrokerProperties\<close>, with the broker and a
    client as a state machine.
  \<^item> \<open>AppStore\<close>, \<open>CloudStore\<close>: the store of the application (\<open>common/store.py\<close>) on SQLite and on
    DynamoDB with S3. \<open>AppStoreProperties\<close>: the locales \<open>connection_store\<close> and \<open>artifact_store\<close>,
    interpreted on SQLite and shown for every DynamoDB and S3 that behave; \<open>ArtifactProperties\<close>.
  \<^item> \<open>Base64\<close>: Python's base64. \<open>UserAttachments\<close>: files of the user and of the agent
    (\<open>common/attachments.py\<close>), the tools \<open>read_attachment\<close> and \<open>create_artifact\<close> (\<open>worker/tools/\<close>), and
    how files are served (\<open>api/artifacts.py\<close>); \<open>UserAttachmentProperties\<close>.
  \<^item> \<open>SessionTokens\<close>: session tokens and sign-in (\<open>api/auth.py\<close>, \<open>local_auth.py\<close>, \<open>google_oauth.py\<close>,
    \<open>features.py\<close>). \<open>ModelCatalog\<close>: the models on offer (\<open>api/anthropic_models.py\<close>, \<open>thinking.py\<close>).
    \<open>ApiMain\<close>: what the routes share (\<open>api/main.py\<close>). \<open>SessionRoutes\<close>: the routes of chats and files
    (\<open>api/routes/sessions.py\<close>, \<open>serialization.py\<close>). \<open>SessionProperties\<close>, \<open>SessionAccess\<close>,
    \<open>ApiProperties\<close>: tokens, who may do what, and what the routes do.

  \<^bold>\<open>Conventions.\<close> A class is a record of its fields, an operation that changes it takes and returns
  the record; a computation that may raise returns \<open>'a res\<close>, the exception or the result, and one
  with state \<open>('s, 'a) op\<close> keeps the state reached when it raises. Dictionaries that are ordered
  data (message blocks, snapshots, registries) are association lists with Python's order of keys.
  Definitions have the names of the source without their leading underscore. Strings are lists of
  characters with codes below 256; integers are unbounded, as in Python; durations and the ratio of
  characters to tokens are rationals.

  \<^bold>\<open>The environment.\<close> What a tool, guard or LLM guard function does, the provider's activity, the
  Temporal SDK and the scheduler are parameters. The agent runs in an \<open>agent_env\<close>: signals arrive
  whenever the coroutine is suspended, in any number; the outcomes of the concurrently running
  tool tasks are given by the environment, told which calls reach the tool set and whether the
  tasks that were not done have been cancelled. To the agent a provider is a record of functions. In the chat
  machine every event that the phase of the main loop allows may come next: a signal, a pass of the
  loop, a request for approval or its end; during a turn the agent may change in any way.

  \<^bold>\<open>Bounds and fuel.\<close> \<open>run_loop\<close> has fuel for its passes, because a pass that an interrupt discards
  does not count as a turn; \<open>agent_loop_ends\<close> shows how much is enough. The truncation loops are
  total functions: each pass removes characters. A provider call is retried once
  (\<open>CONTEXT_OVERFLOW_RECOVERY_ATTEMPTS\<close>), a chain of exceptions is followed for six links. Texts
  in \<open>over_budget_only_when_exhausted\<close> are shorter than \<open>10 ^ 20\<close> characters.

  \<^bold>\<open>What is shown.\<close> Safety of tools (guards are called before the tool, in order, and fail closed;
  injected contexts cannot be forged; only allowed tools run; every call gets its answer), of the
  conversation (what is sent is always accepted by a provider: calls and answers are paired), of
  the budget (fitting drops whole exchanges from the middle and shortens texts only when it must;
  the retry after an overflow asks for less), of the loop (it ends, within the turns allowed, and a
  terminated agent stays inert), and round trips of snapshots and references. The agent replaces its
  history by that of each request: with Claude and Gemini every message goes on telling the model the
  same texts, calls and results through any number of requests (Gemini wraps the content of a result
  once more each time), with ChatGPT what is sent is what the history says and stays the same, when
  it has no reasoning items. The chat refines a first-in-first-out mailbox of the messages that are
  signalled once \<open>run\<close> has started (an earlier one is lost, lemma \<open>early_message_is_lost\<close>), its status
  is that of the turn it is in, a tool or a subagent goes on only when the user allowed it, and a client that follows the changes of the
  transcript shows what the workflow has. A browser receives the events of a turn in order and once; the
  store keeps connections like one table, accepts the state of a sign-in once and keeps an artifact
  once. In the web API a chat, its attachments and its files are reached only with a token of the
  server, by the user whose registry has the chat, and a chat deleted from the local store leaves no files
  but those the operating system does not remove.

  \<^bold>\<open>Not modelled.\<close> The HTTP clients of the providers and the tasks that send their heartbeats (the
  events and final messages of the SDKs are inputs of the model, their objects dictionaries), the
  network part of the MCP client and of the OAuth flows of its servers, the bodies of the tools that
  fetch pages, search, use GitHub or run Python, the censor, the activities that set up demo workspaces
  in Kubernetes, the routes that manage tools and demo workspaces, the driver for external payloads,
  the start-up of the processes, the example \<open>basic_file_agent\<close> and the front end.
\<close>

end
